(* ===== verification/PyText.thy ===== *)
theory PyText imports Prelude begin

text \<open>
  The part of Python's \<open>str\<close>, \<open>re\<close> and \<open>int\<close> that the program uses. A \<open>str\<close> is a list of
  \<open>char\<close>, so of code points up to 255; every pattern of the program matches ASCII text only.
  The regular expressions are written as predicates: \<open>re.fullmatch\<close> of each pattern.
\<close>

section \<open>Characters and patterns\<close>

definition ch :: "char \<Rightarrow> nat" where
  "ch c = of_char c"

definition is_digit :: "char \<Rightarrow> bool" where
  "is_digit c \<longleftrightarrow> 48 \<le> ch c \<and> ch c \<le> 57"

definition is_upper :: "char \<Rightarrow> bool" where
  "is_upper c \<longleftrightarrow> 65 \<le> ch c \<and> ch c \<le> 90"

definition is_lower :: "char \<Rightarrow> bool" where
  "is_lower c \<longleftrightarrow> 97 \<le> ch c \<and> ch c \<le> 122"

definition is_alnum :: "char \<Rightarrow> bool" where
  "is_alnum c \<longleftrightarrow> is_digit c \<or> is_upper c \<or> is_lower c"

definition is_hex :: "char \<Rightarrow> bool" where
  "is_hex c \<longleftrightarrow> is_digit c \<or> 97 \<le> ch c \<and> ch c \<le> 102"

text \<open>The class \<open>[_.:-]\<close> of the identifier patterns.\<close>

definition is_id_punct :: "char \<Rightarrow> bool" where
  "is_id_punct c \<longleftrightarrow> c \<in> {CHR ''_'', CHR ''.'', CHR '':'', CHR ''-''}"

text \<open>\<open>0|[1-9][0-9]*\<close>\<close>

definition canon_digits :: "string \<Rightarrow> bool" where
  "canon_digits s \<longleftrightarrow> s = ''0'' \<or>
     (case s of [] \<Rightarrow> False | c # cs \<Rightarrow> is_digit c \<and> c \<noteq> CHR ''0'' \<and> list_all is_digit cs)"

text \<open>\<open>value.lstrip("-")\<close> strips every leading minus; the patterns allow at most one.\<close>

fun strip_minus :: "string \<Rightarrow> string" where
  "strip_minus [] = []"
| "strip_minus (c # cs) = (if c = CHR ''-'' then cs else c # cs)"

definition int_part :: "string \<Rightarrow> string" where
  "int_part s = takeWhile is_digit (strip_minus s)"

definition after_int :: "string \<Rightarrow> string" where
  "after_int s = dropWhile is_digit (strip_minus s)"

text \<open>The digits after the decimal point, empty when there is none.\<close>

definition frac_part :: "string \<Rightarrow> string" where
  "frac_part s = drop 1 (after_int s)"

definition decimal_re :: "string \<Rightarrow> bool" where
  "decimal_re s \<longleftrightarrow> canon_digits (int_part s) \<and>
     (after_int s = [] \<or>
      (hd (after_int s) = CHR ''.'' \<and> frac_part s \<noteq> [] \<and> list_all is_digit (frac_part s)))"

definition integer_re :: "string \<Rightarrow> bool" where
  "integer_re s \<longleftrightarrow> canon_digits (strip_minus s)"

definition currency_re :: "string \<Rightarrow> bool" where
  "currency_re s \<longleftrightarrow> length s = 3 \<and> list_all is_upper s"

definition hash_re :: "string \<Rightarrow> bool" where
  "hash_re s \<longleftrightarrow> length s = 64 \<and> list_all is_hex s"

definition id_re :: "string \<Rightarrow> bool" where
  "id_re s \<longleftrightarrow> (case s of [] \<Rightarrow> False
     | c # cs \<Rightarrow> is_alnum c \<and> length cs \<le> 127 \<and> list_all (\<lambda>x. is_alnum x \<or> is_id_punct x) cs)"

definition variable_re :: "string \<Rightarrow> bool" where
  "variable_re s \<longleftrightarrow> (case s of [] \<Rightarrow> False
     | c # cs \<Rightarrow> is_lower c \<and> length cs \<le> 127 \<and>
         list_all (\<lambda>x. is_lower x \<or> is_digit x \<or> is_id_punct x) cs)"

text \<open>\<open>str.upper\<close> on ASCII text.\<close>

definition upper_text :: "string \<Rightarrow> string" where
  "upper_text = map (\<lambda>c. if is_lower c then char_of (ch c - 32) else c)"

section \<open>Numbers and their text\<close>

definition digit_char :: "nat \<Rightarrow> char" where
  "digit_char d = char_of (48 + d)"

definition digit_value :: "char \<Rightarrow> nat" where
  "digit_value c = ch c - 48"

fun nat_text :: "nat \<Rightarrow> string" where
  "nat_text n = (if n < 10 then [digit_char n] else nat_text (n div 10) @ [digit_char (n mod 10)])"

declare nat_text.simps [simp del]

definition int_text :: "int \<Rightarrow> string" where
  "int_text i = (if i < 0 then CHR ''-'' # nat_text (nat (- i)) else nat_text (nat i))"

definition digits_value :: "string \<Rightarrow> nat" where
  "digits_value s = foldl (\<lambda>n c. 10 * n + digit_value c) 0 s"

text \<open>
  \<open>int(text)\<close> on text that matches \<open>integer_re\<close>. CPython refuses a text of more than 4300
  digits with a \<open>ValueError\<close>, here \<open>None\<close>.
\<close>

definition max_str_digits :: nat where
  "max_str_digits = 4300"

definition py_int :: "string \<Rightarrow> int option" where
  "py_int s =
     (if length (strip_minus s) > max_str_digits then None
      else Some ((if s \<noteq> [] \<and> hd s = CHR ''-'' then -1 else 1) * int (digits_value (strip_minus s))))"

fun starts_with :: "string \<Rightarrow> string \<Rightarrow> bool" where
  "starts_with [] s = True"
| "starts_with (p # ps) [] = False"
| "starts_with (p # ps) (c # cs) = (p = c \<and> starts_with ps cs)"

lemma starts_with_iff: "starts_with p s \<longleftrightarrow> (\<exists>t. s = p @ t)"
  by (induction p s rule: starts_with.induct) auto

lemma ch_digit_char: "d < 10 \<Longrightarrow> ch (digit_char d) = 48 + d"
  by (simp add: ch_def digit_char_def)

lemma is_digit_digit_char [simp]: "d < 10 \<Longrightarrow> is_digit (digit_char d)"
  by (simp add: is_digit_def ch_digit_char)

lemma digit_value_digit_char [simp]: "d < 10 \<Longrightarrow> digit_value (digit_char d) = d"
  by (simp add: digit_value_def ch_digit_char)

lemma digits_value_Nil [simp]: "digits_value [] = 0"
  by (simp add: digits_value_def)

lemma digits_value_snoc [simp]: "digits_value (s @ [c]) = 10 * digits_value s + digit_value c"
  by (simp add: digits_value_def)

lemma nat_text_nonempty [simp]: "nat_text n \<noteq> []"
  by (subst nat_text.simps) simp

lemma nat_text_digits: "list_all is_digit (nat_text n)"
proof (induction n rule: nat_text.induct)
  case (1 n)
  then show ?case by (subst nat_text.simps) auto
qed

lemma digits_value_nat_text [simp]: "digits_value (nat_text n) = n"
proof (induction n rule: nat_text.induct)
  case (1 n)
  show ?case
  proof (cases "n < 10")
    case True
    then show ?thesis using digits_value_snoc [of "[]"] by (subst nat_text.simps) simp
  next
    case False
    with 1 show ?thesis by (subst nat_text.simps) simp
  qed
qed

lemma nat_text_inj: "nat_text m = nat_text n \<longleftrightarrow> m = n"
  by (metis digits_value_nat_text)

lemma nat_text_length_le: "n < 10 ^ k \<Longrightarrow> 0 < k \<Longrightarrow> length (nat_text n) \<le> k"
proof (induction n arbitrary: k rule: nat_text.induct)
  case (1 n)
  show ?case
  proof (cases "n < 10")
    case True
    with 1 show ?thesis by (subst nat_text.simps) simp
  next
    case False
    from False 1(2) have "k > 1" by (cases k) (auto split: nat.splits intro: ccontr)
    then obtain m where k: "k = Suc m" "0 < m" by (cases k) auto
    from 1(2) k have "n div 10 < 10 ^ m" by (simp add: less_mult_imp_div_less mult.commute)
    with 1(1) False k have "length (nat_text (n div 10)) \<le> m" by simp
    with False k show ?thesis by (subst nat_text.simps) simp
  qed
qed

lemma nat_text_length_gt: "10 ^ k \<le> n \<Longrightarrow> k < length (nat_text n)"
proof (induction n arbitrary: k rule: nat_text.induct)
  case (1 n)
  show ?case
  proof (cases "n < 10")
    case True
    have "k = 0"
    proof (rule ccontr)
      assume "k \<noteq> 0"
      then have "10 ^ 1 \<le> (10::nat) ^ k" by (intro power_increasing) auto
      with 1(2) True show False by simp
    qed
    then show ?thesis by simp
  next
    case False
    show ?thesis
    proof (cases k)
      case (Suc m)
      with 1(2) have "10 ^ m \<le> n div 10" by simp
      with 1(1) False have "m < length (nat_text (n div 10))" by simp
      with False Suc show ?thesis by (subst nat_text.simps) simp
    qed simp
  qed
qed

lemma digits_value_append:
  "digits_value (s @ t) = digits_value s * 10 ^ length t + digits_value t"
proof (induction t rule: rev_induct)
  case (snoc c t)
  then show ?case
    by (simp add: algebra_simps flip: append_assoc)
qed simp

lemma digits_value_zeros [simp]: "digits_value (replicate n CHR ''0'') = 0"
  by (induction n) (simp_all add: replicate_app_Cons_same [symmetric] digits_value_def digit_value_def ch_def)

lemma hd_nat_text: "0 < n \<Longrightarrow> hd (nat_text n) \<noteq> CHR ''0''"
proof (induction n rule: nat_text.induct)
  case (1 n)
  show ?case
  proof (cases "n < 10")
    case True
    have "ch (digit_char n) \<noteq> ch CHR ''0''"
      using True 1(2) by (simp add: ch_digit_char) (simp add: ch_def)
    then have "digit_char n \<noteq> CHR ''0''" by metis
    with True show ?thesis by (subst nat_text.simps) simp
  next
    case False
    with 1 show ?thesis by (subst nat_text.simps) simp
  qed
qed

lemma canon_digits_nat_text: "canon_digits (nat_text n)"
proof (cases "n = 0")
  case True
  have "digit_char 0 = CHR ''0''" by code_simp
  with True show ?thesis by (subst nat_text.simps) (simp add: canon_digits_def)
next
  case False
  then show ?thesis
    using hd_nat_text [of n] nat_text_digits [of n] nat_text_nonempty [of n]
    by (cases "nat_text n") (auto simp: canon_digits_def)
qed

lemma strip_minus_digits: "list_all is_digit s \<Longrightarrow> strip_minus s = s"
  by (cases s) (auto simp: is_digit_def ch_def)

lemma strip_minus_signed [simp]: "list_all is_digit s \<Longrightarrow> strip_minus ((if b then ''-'' else []) @ s @ t) =
    (if b \<or> s \<noteq> [] then s @ t else strip_minus t)"
  by (cases s) (auto simp: is_digit_def ch_def)

lemma takeWhile_digits: "list_all is_digit s \<Longrightarrow> takeWhile is_digit (s @ CHR ''.'' # t) = s"
  "list_all is_digit s \<Longrightarrow> dropWhile is_digit (s @ CHR ''.'' # t) = CHR ''.'' # t"
  "list_all is_digit s \<Longrightarrow> takeWhile is_digit s = s"
  "list_all is_digit s \<Longrightarrow> dropWhile is_digit s = []"
  by (induction s) (auto simp: is_digit_def ch_def)

lemma int_text_parses: "py_int (int_text i) = (if length (nat_text (nat \<bar>i\<bar>)) > max_str_digits then None else Some i)"
proof (cases "i < 0")
  case True
  then show ?thesis
    by (simp add: py_int_def int_text_def)
next
  case False
  have "hd (nat_text (nat i)) \<noteq> CHR ''-''"
    using nat_text_digits [of "nat i"] by (cases "nat_text (nat i)") (auto simp: is_digit_def ch_def)
  with False show ?thesis
    by (simp add: py_int_def int_text_def strip_minus_digits nat_text_digits)
qed

lemma integer_re_int_text: "integer_re (int_text i)"
  by (simp add: integer_re_def int_text_def strip_minus_digits nat_text_digits canon_digits_nat_text)

end
