(* ===== verification/PyJson.thy ===== *)
theory PyJson imports PyText begin

text \<open>
  JSON documents as the program handles them: Python's \<open>None\<close>, \<open>bool\<close>, \<open>int\<close>, \<open>float\<close>,
  \<open>str\<close>, \<open>list\<close> and \<open>dict\<close> with string keys. A dict is an association list in insertion
  order. A float is carried by its \<open>repr\<close>; the program never computes with one, it only
  refuses it or copies it into a hashed document.

  \<open>json.dumps(v, ensure_ascii=False, sort_keys=True, separators=(",", ":"),
  allow_nan=False)\<close> is \<open>json_text\<close>, defined where \<open>json_ok\<close> holds; parsing that text
  gives the same document with sorted keys, \<open>json_sort\<close>. SHA-256 with \<open>hexdigest\<close> is a
  parameter \<open>h\<close>: the theorems hold for every function from text to text.
\<close>

datatype json =
    JNull
  | JBool bool
  | JInt int
  | JFloat string
  | JStr string
  | JList "json list"
  | JObj "(string \<times> json) list"

type_synonym dict = "(string \<times> json) list"

lemma size_json_list: "x \<in> set xs \<Longrightarrow> size x < size (JList xs)"
  by (induction xs) auto

lemma size_json_obj: "(k, v) \<in> set d \<Longrightarrow> size v < size (JObj d)"
  by (induction d) auto

section \<open>Dictionaries\<close>

text \<open>\<open>d.get(k)\<close>: a missing key reads as \<open>None\<close>.\<close>

definition dget :: "dict \<Rightarrow> string \<Rightarrow> json" where
  "dget d k = (case map_of d k of None \<Rightarrow> JNull | Some v \<Rightarrow> v)"

definition has_key :: "dict \<Rightarrow> string \<Rightarrow> bool" where
  "has_key d k \<longleftrightarrow> map_of d k \<noteq> None"

abbreviation dput :: "string \<Rightarrow> json \<Rightarrow> dict \<Rightarrow> dict" where
  "dput \<equiv> AList.update"

text \<open>\<open>set(d) == {...}\<close>\<close>

definition keys_are :: "dict \<Rightarrow> string list \<Rightarrow> bool" where
  "keys_are d ks \<longleftrightarrow> list_all (\<lambda>p. List.member ks (fst p)) d \<and> list_all (has_key d) ks"

lemma keys_are_iff: "keys_are d ks \<longleftrightarrow> set (map fst d) = set ks"
  by (force simp: keys_are_def has_key_def list_all_iff map_of_eq_None_iff)

lemma dget_put_same [simp]: "dget (dput k v d) k = v"
  by (simp add: dget_def update_conv')

lemma dget_put_other [simp]: "k \<noteq> l \<Longrightarrow> dget (dput k v d) l = dget d l"
  by (simp add: dget_def update_conv')

lemma dget_Cons: "dget ((k, v) # d) l = (if k = l then v else dget d l)"
  by (simp add: dget_def)

lemma filter_dput: "filter (\<lambda>p. fst p \<noteq> k) (dput k v d) = filter (\<lambda>p. fst p \<noteq> k) d"
  by (induction d) auto

lemma size_dget: "size (dget d k) < size (JObj d)"
proof (cases "map_of d k")
  case (Some v)
  then show ?thesis by (simp only: dget_def option.case) (blast intro: size_json_obj dest: map_of_SomeD)
qed (simp add: dget_def)

section \<open>Shapes\<close>

definition is_nonempty_string :: "json \<Rightarrow> bool" where
  "is_nonempty_string v = (case v of JStr s \<Rightarrow> s \<noteq> [] | _ \<Rightarrow> False)"

definition is_positive_int :: "json \<Rightarrow> bool" where
  "is_positive_int v = (case v of JInt i \<Rightarrow> i > 0 | _ \<Rightarrow> False)"

definition is_non_negative_int :: "json \<Rightarrow> bool" where
  "is_non_negative_int v = (case v of JInt i \<Rightarrow> i \<ge> 0 | _ \<Rightarrow> False)"

text \<open>Lists and dicts are unhashable: a set lookup or \<open>set(...)\<close> of one raises \<open>TypeError\<close>.\<close>

definition hashable :: "json \<Rightarrow> bool" where
  "hashable v = (case v of JList _ \<Rightarrow> False | JObj _ \<Rightarrow> False | _ \<Rightarrow> True)"

text \<open>\<open>value in {...}\<close> for a set of strings.\<close>

definition in_names :: "json \<Rightarrow> string list \<Rightarrow> bool res" where
  "in_names v names =
     (case v of JStr s \<Rightarrow> Inr (List.member names s)
      | JList _ \<Rightarrow> Inl TypeError | JObj _ \<Rightarrow> Inl TypeError | _ \<Rightarrow> Inr False)"

text \<open>The string of a field already known to be a string; anything else reads as empty.\<close>

definition jstr :: "json \<Rightarrow> string" where
  "jstr v = (case v of JStr s \<Rightarrow> s | _ \<Rightarrow> [])"

definition jint :: "json \<Rightarrow> int" where
  "jint v = (case v of JInt i \<Rightarrow> i | _ \<Rightarrow> 0)"

definition jstr_opt :: "json \<Rightarrow> string option" where
  "jstr_opt v = (case v of JStr s \<Rightarrow> Some s | _ \<Rightarrow> None)"

definition jlist :: "json \<Rightarrow> json list" where
  "jlist v = (case v of JList xs \<Rightarrow> xs | _ \<Rightarrow> [])"

definition jdict :: "json \<Rightarrow> dict" where
  "jdict v = (case v of JObj d \<Rightarrow> d | _ \<Rightarrow> [])"

definition jopt :: "string option \<Rightarrow> json" where
  "jopt v = (case v of None \<Rightarrow> JNull | Some s \<Rightarrow> JStr s)"

text \<open>
  Python's \<open>==\<close> on documents: key order does not matter, and \<open>True == 1\<close>,
  \<open>False == 0\<close>. (A float is equal to a float with the same \<open>repr\<close> only.)
\<close>

function py_eq :: "json \<Rightarrow> json \<Rightarrow> bool" where
  "py_eq a b = (case (a, b) of
     (JNull, JNull) \<Rightarrow> True
   | (JBool x, JBool y) \<Rightarrow> x = y
   | (JBool x, JInt j) \<Rightarrow> (if x then 1 else 0) = j
   | (JInt i, JBool y) \<Rightarrow> i = (if y then 1 else 0)
   | (JInt i, JInt j) \<Rightarrow> i = j
   | (JFloat x, JFloat y) \<Rightarrow> x = y
   | (JStr s, JStr t) \<Rightarrow> s = t
   | (JList xs, JList ys) \<Rightarrow>
       length xs = length ys \<and> list_all (\<lambda>(x, y). py_eq x y) (zip xs ys)
   | (JObj d, JObj e) \<Rightarrow>
       length d = length e \<and>
       list_all (\<lambda>(k, x). case map_of e k of None \<Rightarrow> False | Some y \<Rightarrow> py_eq x y) d
   | _ \<Rightarrow> False)"
  by pat_completeness auto
termination
  by (relation "measure (\<lambda>(a, b). size a)") (auto dest: set_zip_leftD intro: size_json_list size_json_obj)

declare py_eq.simps [simp del]

section \<open>Canonical text and hashes\<close>

text \<open>String escapes of \<open>json.dumps\<close> with \<open>ensure_ascii=False\<close>.\<close>

definition hex_digit :: "nat \<Rightarrow> char" where
  "hex_digit d = (if d < 10 then char_of (48 + d) else char_of (87 + d))"

definition escape_char :: "char \<Rightarrow> string" where
  "escape_char c =
     (if ch c = 34 then [CHR 0x5C, CHR 0x22]
      else if ch c = 92 then [CHR 0x5C, CHR 0x5C]
      else if ch c = 10 then [CHR 0x5C, CHR ''n'']
      else if ch c = 13 then [CHR 0x5C, CHR ''r'']
      else if ch c = 9 then [CHR 0x5C, CHR ''t'']
      else if ch c = 12 then [CHR 0x5C, CHR ''f'']
      else if ch c = 8 then [CHR 0x5C, CHR ''b'']
      else if ch c < 32 then [CHR 0x5C] @ ''u00'' @ [hex_digit (ch c div 16), hex_digit (ch c mod 16)]
      else [c])"

text \<open>The same, with the bits tested directly: evaluation in the kernel is faster so.\<close>

lemma ch_Char: "ch (Char b0 b1 b2 b3 b4 b5 b6 b7) < 32 \<longleftrightarrow> \<not> (b5 \<or> b6 \<or> b7)"
  by (auto simp: ch_def of_bool_def)

lemma ch_eq: "ch c = ch d \<longleftrightarrow> c = d"
  by (simp add: ch_def)

lemma escape_char_plain [code]:
  "escape_char (Char b0 b1 b2 b3 b4 b5 b6 b7) =
     (let c = Char b0 b1 b2 b3 b4 b5 b6 b7 in
      if c = CHR 0x22 then [CHR 0x5C, CHR 0x22]
      else if c = CHR 0x5C then [CHR 0x5C, CHR 0x5C]
      else if b5 \<or> b6 \<or> b7 then [c]
      else if ch c = 10 then [CHR 0x5C, CHR ''n'']
      else if ch c = 13 then [CHR 0x5C, CHR ''r'']
      else if ch c = 9 then [CHR 0x5C, CHR ''t'']
      else if ch c = 12 then [CHR 0x5C, CHR ''f'']
      else if ch c = 8 then [CHR 0x5C, CHR ''b'']
      else [CHR 0x5C] @ ''u00'' @ [hex_digit (ch c div 16), hex_digit (ch c mod 16)])"
proof -
  define c where "c = Char b0 b1 b2 b3 b4 b5 b6 b7"
  have low: "b5 \<or> b6 \<or> b7 \<longleftrightarrow> \<not> ch c < 32" by (simp add: c_def ch_Char)
  have q: "c = CHR 0x22 \<longleftrightarrow> ch c = 34" and b: "c = CHR 0x5C \<longleftrightarrow> ch c = 92"
    by (simp_all add: ch_eq [symmetric]) (simp_all add: ch_def)
  show ?thesis unfolding c_def [symmetric] Let_def low q b escape_char_def by auto
qed
definition quote :: "string \<Rightarrow> string" where
  "quote s = CHR 0x22 # concat (map escape_char s) @ [CHR 0x22]"

fun join :: "string \<Rightarrow> string list \<Rightarrow> string" where
  "join sep [] = []"
| "join sep [x] = x"
| "join sep (x # y # zs) = x @ sep @ join sep (y # zs)"

primrec json_text :: "json \<Rightarrow> string" where
  "json_text JNull = ''null''"
| "json_text (JBool b) = (if b then ''true'' else ''false'')"
| "json_text (JInt i) = int_text i"
| "json_text (JFloat r) = r"
| "json_text (JStr s) = quote s"
| "json_text (JList xs) = ''['' @ join '','' (map json_text xs) @ '']''"
| "json_text (JObj d) =
     ''{'' @ join '','' (map (\<lambda>(k, t). quote k @ '':'' @ t)
               (sort_key fst (map (map_prod id json_text) d))) @ ''}''"

text \<open>
  \<open>json.dumps\<close> refuses a float that is not finite (\<open>allow_nan=False\<close>) and an \<open>int\<close> of more
  than 4300 digits.
\<close>

primrec json_ok :: "json \<Rightarrow> bool" where
  "json_ok JNull = True"
| "json_ok (JBool b) = True"
| "json_ok (JInt i) = (length (nat_text (nat \<bar>i\<bar>)) \<le> max_str_digits)"
| "json_ok (JFloat r) = (\<not> List.member [''nan'', ''inf'', ''-inf''] r)"
| "json_ok (JStr s) = True"
| "json_ok (JList xs) = list_all id (map json_ok xs)"
| "json_ok (JObj d) = list_all snd (map (map_prod id json_ok) d)"

primrec json_sort :: "json \<Rightarrow> json" where
  "json_sort JNull = JNull"
| "json_sort (JBool b) = JBool b"
| "json_sort (JInt i) = JInt i"
| "json_sort (JFloat r) = JFloat r"
| "json_sort (JStr s) = JStr s"
| "json_sort (JList xs) = JList (map json_sort xs)"
| "json_sort (JObj d) = JObj (sort_key fst (map (map_prod id json_sort) d))"

subsection \<open>Facts about canonical documents\<close>

lemma map_of_filter_key: "map_of (filter (\<lambda>p. fst p = k) d) k = map_of d k"
  by (induction d) auto

lemma map_of_sort_key [simp]: "map_of (sort_key fst d) = map_of d"
proof
  fix k
  have "filter (\<lambda>p. fst p = k) (sort_key fst d) = filter (\<lambda>p. fst p = k) d"
    by (rule sort_key_stable)
  then show "map_of (sort_key fst d) k = map_of d k"
    by (metis map_of_filter_key)
qed

lemma map_of_map_prod: "map_of (map (map_prod id f) d) k = map_option f (map_of d k)"
  by (induction d) auto

lemma map_insort_fst:
  "map (map_prod id f) (insort_key fst x xs) = insort_key fst (map_prod id f x) (map (map_prod id f) xs)"
  by (induction xs) auto

lemma map_sort_key_fst:
  "map (map_prod id f) (sort_key fst xs) = sort_key fst (map (map_prod id f) xs)"
  by (induction xs) (simp_all only: sort_key_simps list.map map_insort_fst)

lemma sort_key_fst_idem [simp]: "sort_key fst (sort_key fst xs) = sort_key fst xs"
  by (rule sort_key_id_if_sorted) simp

lemma map_prod_cong:
  "(\<And>k v. (k, v) \<in> set d \<Longrightarrow> f v = g v) \<Longrightarrow> map (map_prod id f) d = map (map_prod id g) d"
  by auto

lemma json_text_sort [simp]: "json_text (json_sort v) = json_text v"
proof (induction v)
  case (JObj d)
  have "map (map_prod id json_text) (map (map_prod id json_sort) d) = map (map_prod id json_text) d"
    using JObj by (fastforce simp: map_prod_def snds.simps)
  then show ?case by (simp only: json_sort.simps json_text.simps map_sort_key_fst sort_key_fst_idem)
qed (simp_all cong: map_cong add: comp_def)

lemma json_ok_sort [simp]: "json_ok (json_sort v) = json_ok v"
proof (induction v)
  case (JObj d)
  have "map (map_prod id json_ok) (map (map_prod id json_sort) d) = map (map_prod id json_ok) d"
    using JObj by (fastforce simp: map_prod_def snds.simps)
  then show ?case
    by (simp only: json_sort.simps json_ok.simps map_sort_key_fst) (simp add: list_all_iff)
qed (simp_all cong: map_cong add: comp_def)

lemma json_sort_idem [simp]: "json_sort (json_sort v) = json_sort v"
proof (induction v)
  case (JObj d)
  have "map (map_prod id json_sort) (map (map_prod id json_sort) d) = map (map_prod id json_sort) d"
    using JObj by (fastforce simp: map_prod_def snds.simps)
  then show ?case by (simp only: json_sort.simps map_sort_key_fst sort_key_fst_idem)
qed (simp_all cong: map_cong add: comp_def)

text \<open>Reading a field of a document with sorted keys.\<close>

lemma dget_sorted:
  "dget (sort_key fst (map (map_prod id json_sort) d)) k = json_sort (dget d k)"
  by (simp add: dget_def map_of_map_prod split: option.splits)

lemma sort_filter_dput:
  "sort_key fst (filter (\<lambda>p. fst p \<noteq> k) (dput k v d)) = sort_key fst (filter (\<lambda>p. fst p \<noteq> k) d)"
  by (simp add: filter_dput)

section \<open>Documents equal to themselves\<close>

text \<open>Distinct keys at every level, as in any Python dict.\<close>

primrec json_wf :: "json \<Rightarrow> bool" where
  "json_wf JNull = True"
| "json_wf (JBool b) = True"
| "json_wf (JInt i) = True"
| "json_wf (JFloat r) = True"
| "json_wf (JStr s) = True"
| "json_wf (JList xs) = list_all id (map json_wf xs)"
| "json_wf (JObj d) = (distinct (map fst d) \<and> list_all snd (map (map_prod id json_wf) d))"

lemma json_wf_list [simp]: "json_wf (JList xs) \<longleftrightarrow> list_all json_wf xs"
  by (simp add: list_all_iff)

lemma json_wf_obj [simp]: "json_wf (JObj d) \<longleftrightarrow> distinct (map fst d) \<and> list_all (\<lambda>(k, x). json_wf x) d"
  by (auto simp: list_all_iff)

declare json_wf.simps(6,7) [simp del]

lemma py_eq_refl: "json_wf v \<Longrightarrow> py_eq v v"
proof (induction v)
  case (JList xs)
  then show ?case by (auto simp: py_eq.simps [of "JList xs"] list_all_iff set_zip in_set_conv_nth)
next
  case (JObj d)
  have "py_eq x x" and "map_of d k = Some x" if "(k, x) \<in> set d" for k x
    using JObj that by (force simp: list_all_iff snds.simps)+
  then show ?case by (auto simp: py_eq.simps [of "JObj d"] list_all_iff)
qed (simp_all add: py_eq.simps)

end
