(* ===== verification/PyTime.thy ===== *)
theory PyTime imports PyText "HOL-Library.Monad_Syntax" begin

text \<open>
  The program's timestamps: RFC 3339 text that \<open>datetime.fromisoformat\<close> accepts, with its
  offset, read as an instant in microseconds. Two aware datetimes compare by their instants.
\<close>

record datetime =
  dt_year :: nat
  dt_month :: nat
  dt_day :: nat
  dt_hour :: nat
  dt_minute :: nat
  dt_second :: nat
  dt_micro :: nat
  dt_offset :: int \<comment> \<open>minutes east of UTC\<close>

definition leap_year :: "nat \<Rightarrow> bool" where
  "leap_year y \<longleftrightarrow> y mod 4 = 0 \<and> (y mod 100 \<noteq> 0 \<or> y mod 400 = 0)"

definition days_in_month :: "nat \<Rightarrow> nat \<Rightarrow> nat" where
  "days_in_month y m =
     (if m = 2 then (if leap_year y then 29 else 28)
      else if m = 4 \<or> m = 6 \<or> m = 9 \<or> m = 11 then 30 else 31)"

fun days_before_month :: "nat \<Rightarrow> nat \<Rightarrow> nat" where
  "days_before_month y 0 = 0"
| "days_before_month y (Suc m) = (if m = 0 then 0 else days_before_month y m + days_in_month y m)"

text \<open>The proleptic Gregorian ordinal of a date; 1 January of year 1 is day 1.\<close>

definition ordinal :: "nat \<Rightarrow> nat \<Rightarrow> nat \<Rightarrow> nat" where
  "ordinal y m d =
     365 * (y - 1) + (y - 1) div 4 - (y - 1) div 100 + (y - 1) div 400 + days_before_month y m + d"

definition instant :: "datetime \<Rightarrow> int" where
  "instant t =
     ((int (ordinal (dt_year t) (dt_month t) (dt_day t)) * 24 + int (dt_hour t)) * 60
       + int (dt_minute t) - dt_offset t) * 60000000
     + int (dt_second t) * 1000000 + int (dt_micro t)"

definition valid_datetime :: "datetime \<Rightarrow> bool" where
  "valid_datetime t \<longleftrightarrow>
     1 \<le> dt_year t \<and> dt_year t \<le> 9999 \<and> 1 \<le> dt_month t \<and> dt_month t \<le> 12 \<and>
     1 \<le> dt_day t \<and> dt_day t \<le> days_in_month (dt_year t) (dt_month t) \<and>
     dt_hour t \<le> 23 \<and> dt_minute t \<le> 59 \<and> dt_second t \<le> 59 \<and> dt_micro t \<le> 999999 \<and>
     \<bar>dt_offset t\<bar> < 1440"

section \<open>Reading the text\<close>

definition digits :: "nat \<Rightarrow> string \<Rightarrow> (nat \<times> string) option" where
  "digits n s =
     (if length s \<ge> n \<and> list_all is_digit (take n s) then Some (digits_value (take n s), drop n s)
      else None)"

definition expect :: "char \<Rightarrow> string \<Rightarrow> string option" where
  "expect c s = (case s of [] \<Rightarrow> None | x # xs \<Rightarrow> if x = c then Some xs else None)"

text \<open>An optional fraction of one to six digits, read as microseconds.\<close>

definition fraction :: "string \<Rightarrow> (nat \<times> string) option" where
  "fraction s =
     (case expect CHR ''.'' s of
        None \<Rightarrow> Some (0, s)
      | Some r \<Rightarrow>
          (let ds = takeWhile is_digit r; n = length ds in
           if 1 \<le> n \<and> n \<le> 6 then Some (digits_value ds * 10 ^ (6 - n), drop n r) else None))"

definition utc_offset :: "string \<Rightarrow> int option" where
  "utc_offset s =
     (if s = ''Z'' then Some 0
      else case s of [] \<Rightarrow> None
      | c # r \<Rightarrow>
         if c = CHR ''+'' \<or> c = CHR ''-'' then do {
           (hh, r) \<leftarrow> digits 2 r; r \<leftarrow> expect CHR '':'' r; (mm, r) \<leftarrow> digits 2 r;
           (if r = [] then Some ((if c = CHR ''-'' then -1 else 1) * int (hh * 60 + mm)) else None)
         } else None)"

definition read_datetime :: "string \<Rightarrow> datetime option" where
  "read_datetime s = do {
     (y, s) \<leftarrow> digits 4 s; s \<leftarrow> expect CHR ''-'' s;
     (m, s) \<leftarrow> digits 2 s; s \<leftarrow> expect CHR ''-'' s;
     (d, s) \<leftarrow> digits 2 s; s \<leftarrow> expect CHR ''T'' s;
     (hh, s) \<leftarrow> digits 2 s; s \<leftarrow> expect CHR '':'' s;
     (mi, s) \<leftarrow> digits 2 s; s \<leftarrow> expect CHR '':'' s;
     (ss, s) \<leftarrow> digits 2 s; (us, s) \<leftarrow> fraction s;
     off \<leftarrow> utc_offset s;
     Some \<lparr>dt_year = y, dt_month = m, dt_day = d, dt_hour = hh, dt_minute = mi, dt_second = ss,
       dt_micro = us, dt_offset = off\<rparr> }"

text \<open>The pattern and \<open>fromisoformat\<close> together: \<open>None\<close> is a \<open>ValueError\<close>.\<close>

definition parse_datetime :: "string \<Rightarrow> datetime option" where
  "parse_datetime s = do { t \<leftarrow> read_datetime s; (if valid_datetime t then Some t else None) }"

lemma parse_datetime_valid: "parse_datetime s = Some t \<Longrightarrow> valid_datetime t"
  by (auto simp: parse_datetime_def bind_eq_Some_conv split: if_splits)

end
