(* ===== verification/PyDecimal.thy ===== *)
theory PyDecimal imports PyText Complex_Main begin

text \<open>
  Finite numbers of Python's \<open>decimal\<close> module: a sign, a coefficient and an exponent, with
  signed zeros and significant trailing zeros as in the module. Construction is exact.
  Arithmetic takes the precision of the ambient context and rounds half to even, the context's
  default mode; \<open>quantize\<close> and formatting take their own rounding mode. The exponent limits
  of the context (999999) are not modelled: the program bounds its inputs to 1000 digits.
\<close>

record decimal =
  neg :: bool
  coeff :: nat
  expo :: int

abbreviation Dec :: "bool \<Rightarrow> nat \<Rightarrow> int \<Rightarrow> decimal" where
  "Dec s c e \<equiv> \<lparr>neg = s, coeff = c, expo = e\<rparr>"

text \<open>The number of digits of a coefficient; zero has one digit.\<close>

definition ndigits :: "nat \<Rightarrow> nat" where
  "ndigits n = length (nat_text n)"

definition is_zero :: "decimal \<Rightarrow> bool" where
  "is_zero d \<longleftrightarrow> coeff d = 0"

text \<open>\<open>adjusted()\<close>: the exponent of the leading digit.\<close>

definition adjusted :: "decimal \<Rightarrow> int" where
  "adjusted d = expo d + int (ndigits (coeff d)) - 1"

section \<open>Rounding\<close>

datatype rounding = HALF_EVEN | HALF_UP | DOWN | UP | FLOOR | CEILING

text \<open>\<open>c / 10 ^ k\<close> rounded to an integer, for a number of the given sign.\<close>

definition round_up_digit :: "rounding \<Rightarrow> bool \<Rightarrow> nat \<Rightarrow> nat \<Rightarrow> nat \<Rightarrow> bool" where
  "round_up_digit mode s q r p =
     (case mode of
        HALF_EVEN \<Rightarrow> 2 * r > p \<or> 2 * r = p \<and> odd q
      | HALF_UP \<Rightarrow> 2 * r \<ge> p
      | DOWN \<Rightarrow> False
      | UP \<Rightarrow> r > 0
      | FLOOR \<Rightarrow> s \<and> r > 0
      | CEILING \<Rightarrow> \<not> s \<and> r > 0)"

definition round_shift :: "rounding \<Rightarrow> bool \<Rightarrow> nat \<Rightarrow> nat \<Rightarrow> nat" where
  "round_shift mode s c k =
     (let q = c div 10 ^ k; r = c mod 10 ^ k
      in if round_up_digit mode s q r (10 ^ k) then q + 1 else q)"

text \<open>\<open>_rescale(exp, rounding)\<close>: the same number at another exponent.\<close>

definition rescale :: "decimal \<Rightarrow> int \<Rightarrow> rounding \<Rightarrow> decimal" where
  "rescale d e mode =
     (if e \<le> expo d then Dec (neg d) (coeff d * 10 ^ nat (expo d - e)) e
      else Dec (neg d) (round_shift mode (neg d) (coeff d) (nat (e - expo d))) e)"

text \<open>
  \<open>_fix(context)\<close>: at most \<open>prec\<close> digits, half even. A carry into a new digit drops the last
  zero.
\<close>

definition fix_prec :: "nat \<Rightarrow> decimal \<Rightarrow> decimal" where
  "fix_prec prec d =
     (if ndigits (coeff d) \<le> prec then d
      else let k = ndigits (coeff d) - prec;
               c = round_shift HALF_EVEN (neg d) (coeff d) k
           in if ndigits c > prec then Dec (neg d) (c div 10) (expo d + int k + 1)
              else Dec (neg d) c (expo d + int k))"

section \<open>Arithmetic in a context\<close>

text \<open>The signed coefficient at a smaller exponent, for exact sums and comparisons.\<close>

definition scaled :: "decimal \<Rightarrow> int \<Rightarrow> int" where
  "scaled d e = (if neg d then -1 else 1) * int (coeff d * 10 ^ nat (expo d - e))"

definition dec_add :: "nat \<Rightarrow> decimal \<Rightarrow> decimal \<Rightarrow> decimal" where
  "dec_add prec a b =
     (let e = min (expo a) (expo b); n = scaled a e + scaled b e
      in fix_prec prec (Dec (if n = 0 then neg a \<and> neg b else n < 0) (nat \<bar>n\<bar>) e))"

definition dec_negate :: "decimal \<Rightarrow> decimal" where
  "dec_negate d = d\<lparr>neg := \<not> neg d\<rparr>"

definition dec_sub :: "nat \<Rightarrow> decimal \<Rightarrow> decimal \<Rightarrow> decimal" where
  "dec_sub prec a b = dec_add prec a (dec_negate b)"

definition dec_mul :: "nat \<Rightarrow> decimal \<Rightarrow> decimal \<Rightarrow> decimal" where
  "dec_mul prec a b = fix_prec prec (Dec (neg a \<noteq> neg b) (coeff a * coeff b) (expo a + expo b))"

text \<open>Removing trailing zeros while the exponent is below the ideal one.\<close>

fun strip_zeros :: "nat \<Rightarrow> nat \<Rightarrow> int \<Rightarrow> nat \<times> int" where
  "strip_zeros 0 c e = (c, e)"
| "strip_zeros (Suc k) c e = (if c mod 10 = 0 then strip_zeros k (c div 10) (e + 1) else (c, e))"

text \<open>Division by a number that is not zero.\<close>

definition dec_div :: "nat \<Rightarrow> decimal \<Rightarrow> decimal \<Rightarrow> decimal" where
  "dec_div prec a b =
     (let s = (neg a \<noteq> neg b); ideal = expo a - expo b in
      if coeff a = 0 then fix_prec prec (Dec s 0 ideal)
      else
        let shift = int (ndigits (coeff b)) - int (ndigits (coeff a)) + int prec + 1;
            e = ideal - shift;
            num = (if shift \<ge> 0 then coeff a * 10 ^ nat shift else coeff a);
            den = (if shift \<ge> 0 then coeff b else coeff b * 10 ^ nat (- shift));
            q = num div den; r = num mod den
        in if r \<noteq> 0 then fix_prec prec (Dec s (if q mod 5 = 0 then q + 1 else q) e)
           else case strip_zeros (nat (ideal - e)) q e of (c, e') \<Rightarrow> fix_prec prec (Dec s c e'))"

text \<open>Unary minus and \<open>abs\<close> round to the context; a zero comes out positive.\<close>

definition dec_neg :: "nat \<Rightarrow> decimal \<Rightarrow> decimal" where
  "dec_neg prec d = fix_prec prec (if coeff d = 0 then d\<lparr>neg := False\<rparr> else dec_negate d)"

definition dec_abs :: "nat \<Rightarrow> decimal \<Rightarrow> decimal" where
  "dec_abs prec d = fix_prec prec (d\<lparr>neg := False\<rparr>)"

section \<open>Comparison, \<open>quantize\<close>, text\<close>

definition dec_less :: "decimal \<Rightarrow> decimal \<Rightarrow> bool" where
  "dec_less a b \<longleftrightarrow> (let e = min (expo a) (expo b) in scaled a e < scaled b e)"

definition dec_eq :: "decimal \<Rightarrow> decimal \<Rightarrow> bool" where
  "dec_eq a b \<longleftrightarrow> (let e = min (expo a) (expo b) in scaled a e = scaled b e)"

definition dec_of_int :: "int \<Rightarrow> decimal" where
  "dec_of_int i = Dec (i < 0) (nat \<bar>i\<bar>) 0"

text \<open>
  \<open>d.quantize(Decimal(1).scaleb(-scale), rounding)\<close> in a context of precision \<open>prec\<close>;
  \<open>None\<close> is \<open>InvalidOperation\<close>.
\<close>

definition quantize :: "nat \<Rightarrow> decimal \<Rightarrow> nat \<Rightarrow> rounding \<Rightarrow> decimal option" where
  "quantize prec d scale mode =
     (if coeff d = 0 then Some (Dec (neg d) 0 (- int scale))
      else if adjusted d + int scale + 1 > int prec then None
      else let r = rescale d (- int scale) mode
           in if ndigits (coeff r) > prec then None else Some r)"

text \<open>The digits of a coefficient with the point placed before the last \<open>k\<close> of them.\<close>

definition place_point :: "nat \<Rightarrow> nat \<Rightarrow> string" where
  "place_point c k =
     (let t = nat_text c;
          padded = replicate (k + 1 - length t) CHR ''0'' @ t;
          n = length padded - k
      in if k = 0 then padded else take n padded @ ''.'' @ drop n padded)"

text \<open>\<open>format(d, "f")\<close>\<close>

definition format_f :: "decimal \<Rightarrow> string" where
  "format_f d =
     (if neg d then ''-'' else []) @
     (if expo d > 0 then nat_text (coeff d * 10 ^ nat (expo d))
      else place_point (coeff d) (nat (- expo d)))"

text \<open>\<open>format(d, ".<scale>f")\<close>\<close>

definition format_fixed :: "decimal \<Rightarrow> nat \<Rightarrow> string" where
  "format_fixed d scale = format_f (rescale d (- int scale) HALF_EVEN)"

text \<open>\<open>str(d)\<close>: the scientific notation of the module.\<close>

definition dec_str :: "decimal \<Rightarrow> string" where
  "dec_str d =
     (let t = nat_text (coeff d);
          left = expo d + int (length t);
          dot = (if expo d \<le> 0 \<and> left > -6 then left else 1);
          body = (if dot \<le> 0 then ''0.'' @ replicate (nat (- dot)) CHR ''0'' @ t
                  else if dot \<ge> int (length t) then t @ replicate (nat dot - length t) CHR ''0''
                  else take (nat dot) t @ ''.'' @ drop (nat dot) t);
          e = left - dot
      in (if neg d then ''-'' else []) @ body @
         (if e = 0 then [] else ''E'' @ (if e > 0 then ''+'' else []) @ int_text e))"

text \<open>\<open>Decimal(text)\<close> for text that matches \<open>decimal_re\<close>.\<close>

definition dec_of_text :: "string \<Rightarrow> decimal" where
  "dec_of_text s =
     Dec (s \<noteq> [] \<and> hd s = CHR ''-'') (digits_value (int_part s @ frac_part s))
       (- int (length (frac_part s)))"

section \<open>The numbers denoted\<close>

definition dval :: "decimal \<Rightarrow> rat" where
  "dval d = (if neg d then -1 else 1) * of_nat (coeff d) * 10 powi expo d"

lemma powi_shift: "e \<le> f \<Longrightarrow> (10::rat) powi f = 10 ^ nat (f - e) * 10 powi e"
  by (metis add.commute diff_add_cancel int_nat_eq le_iff_diff_le_0 power_int_add power_int_of_nat
      zero_neq_numeral diff_ge_0_iff_ge)

lemma dval_scaled: "e \<le> expo d \<Longrightarrow> dval d = of_int (scaled d e) * 10 powi e"
  by (simp add: dval_def scaled_def powi_shift [of e "expo d"])

lemma powi_pos [simp]: "0 < (10::rat) powi e"
  by simp

lemma dec_less_iff: "dec_less a b \<longleftrightarrow> dval a < dval b"
proof -
  let ?e = "min (expo a) (expo b)"
  have "dval a = of_int (scaled a ?e) * 10 powi ?e" "dval b = of_int (scaled b ?e) * 10 powi ?e"
    by (simp_all add: dval_scaled)
  then show ?thesis by (simp add: dec_less_def Let_def)
qed

lemma dec_eq_iff: "dec_eq a b \<longleftrightarrow> dval a = dval b"
proof -
  let ?e = "min (expo a) (expo b)"
  have "dval a = of_int (scaled a ?e) * 10 powi ?e" "dval b = of_int (scaled b ?e) * 10 powi ?e"
    by (simp_all add: dval_scaled)
  then show ?thesis by (simp add: dec_eq_def Let_def)
qed

lemma dval_zero_iff [simp]: "dval d = 0 \<longleftrightarrow> coeff d = 0"
  by (simp add: dval_def)

lemma dval_dec_of_int [simp]: "dval (dec_of_int i) = of_int i"
  by (simp add: dval_def dec_of_int_def)

lemma dval_negate [simp]: "dval (dec_negate d) = - dval d"
  by (simp add: dval_def dec_negate_def)

subsection \<open>Digits\<close>

lemma ndigits_le_iff: "0 < k \<Longrightarrow> ndigits n \<le> k \<longleftrightarrow> n < 10 ^ k"
  by (metis leD linorder_not_le nat_text_length_gt nat_text_length_le ndigits_def)

lemma ndigits_pos [simp]: "0 < ndigits n"
  by (simp add: ndigits_def)

lemma ndigits_0 [simp]: "ndigits 0 = 1"
  by (simp add: ndigits_def nat_text.simps)

lemma ndigits_bounds: "n < 10 ^ ndigits n" "0 < n \<Longrightarrow> 10 ^ (ndigits n - 1) \<le> n"
proof -
  show "n < 10 ^ ndigits n" using ndigits_le_iff [of "ndigits n" n] by simp
  show "10 ^ (ndigits n - 1) \<le> n" if "0 < n"
  proof (cases "ndigits n = 1")
    case True
    with that show ?thesis by simp
  next
    case False
    then have "0 < ndigits n - 1" using ndigits_pos [of n] by linarith
    moreover from False have "\<not> ndigits n \<le> ndigits n - 1" using ndigits_pos [of n] by linarith
    ultimately show ?thesis using ndigits_le_iff [of "ndigits n - 1" n] by linarith
  qed
qed

lemma ndigits_mono: "m \<le> n \<Longrightarrow> ndigits m \<le> ndigits n"
  by (metis le_less_trans ndigits_bounds(1) ndigits_le_iff ndigits_pos)

subsection \<open>Rounding\<close>

lemma round_shift_cases:
  "round_shift mode s c k = c div 10 ^ k \<or> round_shift mode s c k = c div 10 ^ k + 1"
  by (simp add: round_shift_def Let_def)

lemma round_shift_exact: "10 ^ k dvd c \<Longrightarrow> round_shift mode s c k = c div 10 ^ k"
  by (cases mode) (simp_all add: round_shift_def Let_def round_up_digit_def)

text \<open>The rounded coefficient is within one unit; within half a unit for the half modes.\<close>

lemma coeff_split:
  "(of_nat c :: rat) = of_nat (c div 10 ^ k) * 10 ^ k + of_nat (c mod 10 ^ k)"
proof -
  have "of_nat (c div 10 ^ k * 10 ^ k + c mod 10 ^ k) = (of_nat c :: rat)"
    by (simp only: div_mult_mod_eq)
  then show ?thesis by (simp only: of_nat_add of_nat_mult of_nat_power of_nat_numeral)
qed

lemma coeff_mod_less: "(of_nat (c mod 10 ^ k) :: rat) < 10 ^ k"
proof -
  have "(of_nat (c mod 10 ^ k) :: rat) < of_nat (10 ^ k)"
    by (simp only: of_nat_less_iff) simp
  then show ?thesis by (simp only: of_nat_power of_nat_numeral)
qed

lemma round_shift_up_pos:
  assumes "round_shift mode s c k = c div 10 ^ k + 1"
  shows "0 < c mod 10 ^ k"
proof (rule ccontr)
  assume "\<not> 0 < c mod 10 ^ k"
  then have "10 ^ k dvd c" by (simp add: dvd_eq_mod_eq_0)
  with round_shift_exact [OF this] assms show False by simp
qed

lemma round_shift_error:
  "\<bar>of_nat (round_shift mode s c k) * 10 ^ k - of_nat c\<bar> < (10 ^ k :: rat)"
proof (cases "round_shift mode s c k = c div 10 ^ k")
  case True
  show ?thesis using coeff_mod_less [of c k]
    unfolding True by (subst coeff_split [of c k]) simp
next
  case False
  then have up: "round_shift mode s c k = c div 10 ^ k + 1" using round_shift_cases by blast
  have "(0::rat) < of_nat (c mod 10 ^ k)" using round_shift_up_pos [OF up] by (simp only: of_nat_0_less_iff)
  then show ?thesis using coeff_mod_less [of c k]
    unfolding up by (subst coeff_split [of c k]) (simp add: algebra_simps)
qed

lemma round_shift_half_error:
  assumes "mode = HALF_EVEN \<or> mode = HALF_UP"
  shows "2 * \<bar>of_nat (round_shift mode s c k) * 10 ^ k - of_nat c\<bar> \<le> (10 ^ k :: rat)"
proof -
  let ?p = "10 ^ k :: nat" and ?r = "c mod 10 ^ k"
  have cast: "(of_nat ?p :: rat) = 10 ^ k" by (simp only: of_nat_power of_nat_numeral)
  have twice: "(of_nat (2 * ?r) :: rat) = 2 * of_nat ?r" by (simp only: of_nat_mult of_nat_numeral)
  show ?thesis
  proof (cases "round_up_digit mode s (c div ?p) ?r ?p")
    case True
    with assms have "?p \<le> 2 * ?r" by (auto simp: round_up_digit_def)
    then have "(of_nat ?p :: rat) \<le> of_nat (2 * ?r)" by (simp only: of_nat_le_iff)
    then have le: "(10 ^ k :: rat) \<le> 2 * of_nat ?r" by (simp only: cast twice)
    have up: "round_shift mode s c k = c div ?p + 1"
      using True by (simp add: round_shift_def Let_def)
    show ?thesis using le coeff_mod_less [of c k]
      unfolding up by (subst coeff_split [of c k]) (simp add: algebra_simps)
  next
    case False
    with assms have "2 * ?r \<le> ?p" by (auto simp: round_up_digit_def)
    then have "(of_nat (2 * ?r) :: rat) \<le> of_nat ?p" by (simp only: of_nat_le_iff)
    then have le: "2 * of_nat ?r \<le> (10 ^ k :: rat)" by (simp only: cast twice)
    have down: "round_shift mode s c k = c div ?p"
      using False by (simp add: round_shift_def Let_def)
    show ?thesis using le unfolding down by (subst coeff_split [of c k]) simp
  qed
qed

lemma round_shift_le: "c \<le> 10 ^ (k + m) \<Longrightarrow> round_shift mode s c k \<le> 10 ^ m"
proof -
  assume c: "c \<le> 10 ^ (k + m)"
  have q: "c div 10 ^ k \<le> 10 ^ m"
    using div_le_mono [OF c, of "10 ^ k"] by (simp add: power_add)
  show ?thesis
  proof (cases "c div 10 ^ k = 10 ^ m")
    case True
    then have "10 ^ (k + m) \<le> c"
      by (metis div_times_less_eq_dividend mult.commute power_add)
    with c have "c = 10 ^ (k + m)" by simp
    then show ?thesis by (simp add: round_shift_exact power_add)
  next
    case False
    with q show ?thesis using round_shift_cases [of mode s c k] by auto
  qed
qed

subsection \<open>Rescaling and \<open>quantize\<close>\<close>

lemma rescale_expo [simp]: "expo (rescale d e mode) = e"
  by (simp add: rescale_def)

lemma rescale_exact: "e \<le> expo d \<Longrightarrow> dval (rescale d e mode) = dval d"
  by (simp add: rescale_def dval_def powi_shift [of e "expo d"])

lemma rescale_diff:
  assumes "expo d < e"
  shows "dval (rescale d e mode) - dval d =
    (if neg d then -1 else 1) *
      (of_nat (round_shift mode (neg d) (coeff d) (nat (e - expo d))) * 10 ^ nat (e - expo d)
        - of_nat (coeff d)) * 10 powi expo d"
  using assms powi_shift [of "expo d" e] by (simp add: rescale_def dval_def algebra_simps)

lemma rescale_abs_diff:
  assumes "expo d < e"
  shows "\<bar>dval (rescale d e mode) - dval d\<bar> =
    \<bar>of_nat (round_shift mode (neg d) (coeff d) (nat (e - expo d))) * 10 ^ nat (e - expo d)
        - of_nat (coeff d)\<bar> * 10 powi expo d"
proof -
  have "\<bar>(if neg d then -1 else 1) :: rat\<bar> = 1" by simp
  then show ?thesis by (simp only: rescale_diff [OF assms] abs_mult) simp
qed

lemma rescale_error: "\<bar>dval (rescale d e mode) - dval d\<bar> < 10 powi e"
proof (cases "e \<le> expo d")
  case False
  then have e: "expo d < e" by simp
  show ?thesis
    using round_shift_error [of mode "neg d" "coeff d" "nat (e - expo d)"] powi_shift [of "expo d" e] e
    by (simp add: rescale_abs_diff)
qed (simp add: rescale_exact)

lemma rescale_half_error:
  assumes "mode = HALF_EVEN \<or> mode = HALF_UP"
  shows "2 * \<bar>dval (rescale d e mode) - dval d\<bar> \<le> 10 powi e"
proof (cases "e \<le> expo d")
  case False
  then have e: "expo d < e" by simp
  show ?thesis
    using round_shift_half_error [OF assms, of "neg d" "coeff d" "nat (e - expo d)"]
      powi_shift [of "expo d" e] e
    by (simp add: rescale_abs_diff)
qed (simp add: rescale_exact)

lemma rescale_neg [simp]: "neg (rescale d e mode) = neg d"
  by (simp add: rescale_def)

text \<open>The digits of a rescaled number, from its adjusted exponent.\<close>

lemma rescale_ndigits:
  assumes "coeff d \<noteq> 0" and "adjusted d - e + 1 \<le> int m" and "0 < m"
  shows "coeff (rescale d e mode) \<le> 10 ^ m"
proof -
  have c: "coeff d < 10 ^ ndigits (coeff d)" by (rule ndigits_bounds)
  have m: "expo d + int (ndigits (coeff d)) - e \<le> int m" using assms(2) by (simp add: adjusted_def)
  show ?thesis
  proof (cases "e \<le> expo d")
    case True
    then have "ndigits (coeff d) + nat (expo d - e) \<le> m" using m by linarith
    then have "(10::nat) ^ (ndigits (coeff d) + nat (expo d - e)) \<le> 10 ^ m"
      by (intro power_increasing) auto
    moreover have "coeff d * 10 ^ nat (expo d - e) \<le> 10 ^ ndigits (coeff d) * 10 ^ nat (expo d - e)"
      using c by simp
    ultimately have "coeff d * 10 ^ nat (expo d - e) \<le> 10 ^ m"
      unfolding power_add by (rule order_trans [rotated])
    with True show ?thesis by (simp add: rescale_def)
  next
    case False
    then have "ndigits (coeff d) \<le> nat (e - expo d) + m" using m by linarith
    then have "(10::nat) ^ ndigits (coeff d) \<le> 10 ^ (nat (e - expo d) + m)"
      by (intro power_increasing) auto
    with c have "coeff d \<le> 10 ^ (nat (e - expo d) + m)" by (rule less_imp_le [OF less_le_trans])
    with False show ?thesis by (simp add: rescale_def round_shift_le)
  qed
qed

lemma quantize_Some_expo: "quantize prec d scale mode = Some r \<Longrightarrow> expo r = - int scale"
  by (auto simp: quantize_def Let_def split: if_splits)

lemma quantize_error: "quantize prec d scale mode = Some r \<Longrightarrow> \<bar>dval r - dval d\<bar> < 10 powi (- int scale)"
  using rescale_error [of d "- int scale" mode]
  by (auto simp: quantize_def Let_def dval_def split: if_splits)

lemma quantize_half_error:
  "quantize prec d scale mode = Some r \<Longrightarrow> mode = HALF_EVEN \<or> mode = HALF_UP \<Longrightarrow>
     2 * \<bar>dval r - dval d\<bar> \<le> 10 powi (- int scale)"
  using rescale_half_error [of mode d "- int scale"]
  by (auto simp: quantize_def Let_def dval_def split: if_splits)

text \<open>\<open>quantize\<close> succeeds when the context has a digit to spare for a carry.\<close>

lemma quantize_enough:
  assumes "int prec \<ge> max (adjusted d + 1) 1 + int scale + 1"
  shows "\<exists>r. quantize prec d scale mode = Some r"
proof (cases "coeff d = 0")
  case False
  define m where "m = nat (max (adjusted d + 1) 1 + int scale)"
  have "coeff (rescale d (- int scale) mode) \<le> 10 ^ m"
    using False by (intro rescale_ndigits) (auto simp: m_def)
  moreover have "(10::nat) ^ m < 10 ^ prec"
    using assms by (intro power_strict_increasing) (auto simp: m_def)
  ultimately have "coeff (rescale d (- int scale) mode) < 10 ^ prec" by (rule le_less_trans)
  then have "ndigits (coeff (rescale d (- int scale) mode)) \<le> prec"
    using assms by (subst ndigits_le_iff) auto
  moreover have "adjusted d + int scale + 1 \<le> int prec" using assms by linarith
  ultimately show ?thesis using False by (simp add: quantize_def Let_def)
qed (simp add: quantize_def)

subsection \<open>Exact arithmetic\<close>

lemma fix_prec_id: "coeff d < 10 ^ prec \<Longrightarrow> 0 < prec \<Longrightarrow> fix_prec prec d = d"
  by (simp add: fix_prec_def ndigits_le_iff)

lemma dval_Dec_signed:
  "dval (Dec (if n = 0 then z else n < 0) (nat \<bar>n\<bar>) e) = of_int n * 10 powi e"
  by (auto simp: dval_def)

lemma dec_add_exact:
  assumes "\<bar>scaled a (min (expo a) (expo b)) + scaled b (min (expo a) (expo b))\<bar> < 10 ^ prec" "0 < prec"
  shows "dval (dec_add prec a b) = dval a + dval b"
proof -
  let ?e = "min (expo a) (expo b)"
  let ?n = "scaled a ?e + scaled b ?e"
  have "nat \<bar>?n\<bar> < 10 ^ prec" using assms(1) by (simp add: nat_less_iff)
  then have "dec_add prec a b =
      Dec (if ?n = 0 then neg a \<and> neg b else ?n < 0) (nat \<bar>?n\<bar>) ?e"
    using assms(2) by (simp add: dec_add_def Let_def fix_prec_id)
  then have "dval (dec_add prec a b) = of_int ?n * 10 powi ?e"
    by (simp only: dval_Dec_signed)
  also have "\<dots> = dval a + dval b"
    by (simp add: dval_scaled [of ?e a] dval_scaled [of ?e b] distrib_right)
  finally show ?thesis .
qed

lemma dec_mul_exact:
  assumes "coeff a * coeff b < 10 ^ prec" "0 < prec"
  shows "dval (dec_mul prec a b) = dval a * dval b"
  using assms by (simp add: dec_mul_def fix_prec_id dval_def power_int_add)

subsection \<open>Text and back\<close>

lemma place_point_split:
  assumes "0 < k"
  obtains i f where "place_point c k = i @ ''.'' @ f" "canon_digits i" "list_all is_digit i"
    "list_all is_digit f" "length f = k" "digits_value (i @ f) = c"
proof -
  define t where "t = nat_text c"
  define p where "p = replicate (k + 1 - length t) CHR ''0'' @ t"
  define n where "n = length p - k"
  have t: "list_all is_digit t" "t \<noteq> []" by (simp_all add: t_def nat_text_digits)
  then have p: "list_all is_digit p" by (auto simp: p_def list_all_iff is_digit_def ch_def)
  have len: "length p = max (k + 1) (length t)" by (simp add: p_def)
  have n: "1 \<le> n" "n \<le> length p" "length p - n = k" using len by (auto simp: n_def)
  have canon: "canon_digits (take n p)"
  proof (cases "length t \<le> k")
    case True
    then have "n = 1" "p = CHR ''0'' # tl p" using len by (auto simp: n_def p_def Suc_diff_le)
    then show ?thesis by (metis One_nat_def canon_digits_def take0 take_Suc_Cons)
  next
    case False
    then have pt: "p = t" by (simp add: p_def)
    have "c \<noteq> 0"
    proof
      assume "c = 0"
      then have "length t = 1" by (simp add: t_def nat_text.simps)
      with False assms show False by simp
    qed
    then have "hd t \<noteq> CHR ''0''" by (simp add: t_def hd_nat_text)
    moreover obtain d u where "t = d # u" using t(2) by (cases t) auto
    moreover obtain m where "n = Suc m" using n(1) by (cases n) auto
    ultimately show ?thesis using t(1) pt by (auto simp: canon_digits_def list_all_iff dest: in_set_takeD)
  qed
  have "digits_value p = c" by (simp add: p_def digits_value_append t_def)
  moreover have "place_point c k = take n p @ ''.'' @ drop n p"
    unfolding place_point_def Let_def p_def n_def t_def using assms by simp
  moreover have "list_all is_digit (take n p)" "list_all is_digit (drop n p)"
    using p by (auto simp: list_all_iff dest: in_set_takeD in_set_dropD)
  moreover have "length (drop n p) = k" using n(3) by simp
  ultimately show thesis using that [of "take n p" "drop n p"] canon by simp
qed

lemma format_f_shape:
  assumes "expo d \<le> 0"
  shows "decimal_re (format_f d)" and "dec_of_text (format_f d) = d"
    and "frac_part (format_f d) = [] \<or> length (frac_part (format_f d)) = nat (- expo d)"
proof -
  have "decimal_re (format_f d) \<and> dec_of_text (format_f d) = d \<and>
    (frac_part (format_f d) = [] \<or> length (frac_part (format_f d)) = nat (- expo d))"
  proof (cases "expo d = 0")
    case True
    let ?t = "nat_text (coeff d)"
    have f: "format_f d = (if neg d then ''-'' else []) @ ?t"
      using True nat_text_nonempty [of "coeff d"]
      by (cases ?t) (auto simp: format_f_def place_point_def Let_def)
    have sm: "strip_minus (format_f d) = ?t"
      using strip_minus_signed [of ?t "neg d" "[]"] by (simp add: f nat_text_digits)
    have hd: "(format_f d \<noteq> [] \<and> hd (format_f d) = CHR ''-'') = neg d"
      using nat_text_digits [of "coeff d"] nat_text_nonempty [of "coeff d"]
      by (cases ?t) (auto simp: f is_digit_def ch_def)
    show ?thesis
      using True hd by (simp add: decimal_re_def dec_of_text_def int_part_def after_int_def frac_part_def
          sm takeWhile_digits nat_text_digits canon_digits_nat_text)
  next
    case False
    with assms have k: "0 < nat (- expo d)" by simp
    obtain i f where pp: "place_point (coeff d) (nat (- expo d)) = i @ ''.'' @ f" "canon_digits i"
      "list_all is_digit i" "list_all is_digit f" "length f = nat (- expo d)" "digits_value (i @ f) = coeff d"
      using place_point_split [OF k] .
    have ne: "i \<noteq> []" using pp(2) by (auto simp: canon_digits_def)
    have f: "format_f d = (if neg d then ''-'' else []) @ i @ ''.'' @ f"
      using assms pp(1) by (simp add: format_f_def)
    have sm: "strip_minus (format_f d) = i @ ''.'' @ f"
      using ne pp(3) by (simp only: f strip_minus_signed) simp
    have hd: "(format_f d \<noteq> [] \<and> hd (format_f d) = CHR ''-'') = neg d"
      using pp(3) ne by (cases i) (auto simp: f is_digit_def ch_def)
    have "f \<noteq> []" using pp(5) k by auto
    with pp hd assms show ?thesis
      by (simp add: decimal_re_def dec_of_text_def int_part_def after_int_def frac_part_def
          sm takeWhile_digits)
  qed
  then show "decimal_re (format_f d)" and "dec_of_text (format_f d) = d"
    and "frac_part (format_f d) = [] \<or> length (frac_part (format_f d)) = nat (- expo d)" by blast+
qed

end
