(* ===== verification/Common.thy ===== *)
theory Common imports PyJson PyTime PyDecimal begin

text \<open>
  \<open>finance/_common.py\<close>: the kernel's constants, hashing of documents, the parsers of
  numbers and timestamps, and the typed values every calculation works on. A typed value is
  a record; only a \<open>VALID\<close> one carries a number, the others carry a reason code instead.
\<close>

section \<open>Constants\<close>

definition states :: "string list" where
  "states = [''VALID'', ''EMPTY'', ''BLOCKED'', ''UNAVAILABLE'', ''CONFLICT'']"

definition state_precedence :: "string list" where
  "state_precedence = [''CONFLICT'', ''BLOCKED'', ''UNAVAILABLE'', ''EMPTY'']"

definition numeric_types :: "string list" where
  "numeric_types = [''MONEY'', ''DECIMAL'', ''RATE'', ''INTEGER'']"

definition value_types :: "string list" where
  "value_types = numeric_types @ [''BOOLEAN'']"

text \<open>The value types whose numbers are decimals.\<close>

definition decimal_types :: "string list" where
  "decimal_types = [''MONEY'', ''DECIMAL'', ''RATE'']"

definition rounding_mode :: "string \<Rightarrow> rounding option" where
  "rounding_mode name = map_of
     [(''HALF_EVEN'', HALF_EVEN), (''HALF_UP'', HALF_UP), (''DOWN'', DOWN), (''UP'', UP),
      (''FLOOR'', FLOOR), (''CEILING'', CEILING)] name"

definition accounting_points :: "string list" where
  "accounting_points =
     [''RULE_INPUT_NORMALIZATION'', ''RULE_COMPONENT_RESULT'', ''METRIC_FINAL_ACCOUNTING'']"

definition presentation_points :: "string list" where
  "presentation_points = [''REPORT_PRESENTATION'', ''EXPORT_PRESENTATION'']"

definition scope_order :: "string list" where
  "scope_order = [''product_id'', ''product_group_id'', ''marketplace_account_id'',
     ''marketplace'', ''calculation_profile_id'', ''scenario_id'']"

definition max_expression_nodes :: nat where "max_expression_nodes = 128"
definition max_expression_depth :: nat where "max_expression_depth = 24"
definition max_expression_arguments :: nat where "max_expression_arguments = 16"
definition max_expression_dependencies :: nat where "max_expression_dependencies = 128"
definition max_decimal_input_precision :: nat where "max_decimal_input_precision = 1000"
definition max_decimal_input_scale :: nat where "max_decimal_input_scale = 1000"
definition max_other_expense_components :: nat where "max_other_expense_components = 64"

section \<open>Documents\<close>

definition canonical_json :: "json \<Rightarrow> string res" where
  "canonical_json v = (if json_ok v then Inr (json_text v) else fail ''FINANCE_JSON_INVALID'')"

definition canonical_hash :: "(string \<Rightarrow> string) \<Rightarrow> dict \<Rightarrow> string list \<Rightarrow> string res" where
  "canonical_hash h document exclude =
     (let payload = filter (\<lambda>p. \<not> List.member exclude (fst p)) document
      in rbind (canonical_json (JObj payload)) (\<lambda>text. Inr (h text)))"

definition clone_json :: "json \<Rightarrow> json res" where
  "clone_json v = rbind (canonical_json v) (\<lambda>text. Inr (json_sort v))"

section \<open>Parsers\<close>

definition parse_rfc3339 :: "json \<Rightarrow> string \<Rightarrow> datetime res" where
  "parse_rfc3339 v code =
     (case v of JStr s \<Rightarrow> (case parse_datetime s of Some t \<Rightarrow> Inr t | None \<Rightarrow> fail code)
      | _ \<Rightarrow> fail code)"

text \<open>\<open>value.lstrip("-").replace(".", "")\<close>\<close>

definition decimal_digits :: "string \<Rightarrow> string" where
  "decimal_digits s = int_part s @ frac_part s"

definition parse_decimal :: "json \<Rightarrow> string \<Rightarrow> nat option \<Rightarrow> nat option \<Rightarrow> decimal res" where
  "parse_decimal v code max_precision max_scale =
     (case v of
        JStr s \<Rightarrow>
          if \<not> decimal_re s then fail code
          else if (case max_precision of None \<Rightarrow> False | Some p \<Rightarrow> length (decimal_digits s) > p)
          then fail ''ROUNDING_INPUT_PRECISION_EXCEEDED''
          else if (case max_scale of None \<Rightarrow> False | Some k \<Rightarrow> length (frac_part s) > k)
          then fail ''ROUNDING_INPUT_SCALE_EXCEEDED''
          else Inr (dec_of_text s)
      | _ \<Rightarrow> fail code)"

definition parse_integer :: "json \<Rightarrow> string \<Rightarrow> nat option \<Rightarrow> int res" where
  "parse_integer v code max_precision =
     (case v of
        JStr s \<Rightarrow>
          if \<not> integer_re s then fail code
          else if (case max_precision of None \<Rightarrow> False | Some p \<Rightarrow> length (strip_minus s) > p)
          then fail ''ROUNDING_INPUT_PRECISION_EXCEEDED''
          else (case py_int s of None \<Rightarrow> fail code | Some i \<Rightarrow> Inr i)
      | _ \<Rightarrow> fail code)"

definition rstrip :: "char \<Rightarrow> string \<Rightarrow> string" where
  "rstrip c s = rev (dropWhile (\<lambda>x. x = c) (rev s))"

definition decimal_text :: "decimal \<Rightarrow> nat option \<Rightarrow> string" where
  "decimal_text d scale =
     (let v = (if is_zero d then d\<lparr>neg := False\<rparr> else d) in
      case scale of
        Some k \<Rightarrow> format_fixed v k
      | None \<Rightarrow>
          (let text = format_f v;
               text' = (if List.member text CHR ''.'' then rstrip CHR ''.'' (rstrip CHR ''0'' text) else text)
           in if text' = [] then ''0'' else text'))"

section \<open>Typed values\<close>

datatype pyval = VDec decimal | VInt int | VBool bool

record tvalue =
  v_state :: string
  v_value :: "pyval option"
  v_type :: string
  v_unit :: string
  v_currency :: "string option"
  v_reason :: "string option"
  v_sources :: "string list"

type_synonym signature = "string \<times> string \<times> string option"

definition validate_signature :: "json \<Rightarrow> json \<Rightarrow> json \<Rightarrow> signature res" where
  "validate_signature value_type unit currency =
     rbind (in_names value_type value_types) (\<lambda>known.
       if \<not> known \<or> \<not> is_nonempty_string unit then fail ''VALUE_SIGNATURE_INVALID''
       else if value_type = JStr ''MONEY'' then
         (case currency of
            JStr c \<Rightarrow> if currency_re c then Inr (''MONEY'', jstr unit, Some c)
                      else fail ''VALUE_CURRENCY_INVALID''
          | _ \<Rightarrow> fail ''VALUE_CURRENCY_INVALID'')
       else if currency \<noteq> JNull then fail ''VALUE_CURRENCY_INVALID''
       else Inr (jstr value_type, jstr unit, None))"

definition make_nonvalid ::
  "string \<Rightarrow> signature \<Rightarrow> string \<Rightarrow> string list \<Rightarrow> tvalue res" where
  "make_nonvalid state sig reason sources =
     (if \<not> List.member states state \<or> state = ''VALID'' then fail ''VALUE_STATE_INVALID''
      else if reason = [] then fail ''VALUE_REASON_INVALID''
      else case sig of (vt, unit, currency) \<Rightarrow>
        rbind (validate_signature (JStr vt) (JStr unit) (jopt currency)) (\<lambda>_.
          Inr \<lparr>v_state = state, v_value = None, v_type = vt, v_unit = unit, v_currency = currency,
               v_reason = Some reason, v_sources = sorted_set sources\<rparr>))"

text \<open>Whether a Python value is of the class its value type needs.\<close>

fun value_matches :: "string \<Rightarrow> pyval \<Rightarrow> bool" where
  "value_matches vt (VBool b) = (vt = ''BOOLEAN'')"
| "value_matches vt (VInt i) = (vt = ''INTEGER'')"
| "value_matches vt (VDec d) = (vt \<noteq> ''BOOLEAN'' \<and> vt \<noteq> ''INTEGER'')"

definition make_valid :: "pyval \<Rightarrow> signature \<Rightarrow> string list \<Rightarrow> tvalue res" where
  "make_valid v sig sources =
     (case sig of (vt, unit, currency) \<Rightarrow>
        rbind (validate_signature (JStr vt) (JStr unit) (jopt currency)) (\<lambda>_.
          if \<not> value_matches vt v then fail ''VALUE_TYPE_INVALID''
          else Inr \<lparr>v_state = ''VALID'', v_value = Some v, v_type = vt, v_unit = unit,
                    v_currency = currency, v_reason = None, v_sources = sorted_set sources\<rparr>))"

text \<open>\<open>bool(value)\<close> and \<open>str(value)\<close>\<close>

fun py_bool :: "pyval option \<Rightarrow> bool" where
  "py_bool None = False"
| "py_bool (Some (VBool b)) = b"
| "py_bool (Some (VInt i)) = (i \<noteq> 0)"
| "py_bool (Some (VDec d)) = (coeff d \<noteq> 0)"

fun py_str :: "pyval option \<Rightarrow> string" where
  "py_str None = ''None''"
| "py_str (Some (VBool b)) = (if b then ''True'' else ''False'')"
| "py_str (Some (VInt i)) = int_text i"
| "py_str (Some (VDec d)) = dec_str d"

definition typed_value_keys :: "string list" where
  "typed_value_keys = [''state'', ''value'', ''value_type'', ''unit'', ''currency'',
     ''reason_code'', ''source_ids'']"

definition value_to_dict :: "tvalue \<Rightarrow> nat option \<Rightarrow> dict res" where
  "value_to_dict v scale =
     rbind (if v_state v \<noteq> ''VALID'' then Inr JNull
            else if v_type v = ''BOOLEAN'' then Inr (JBool (py_bool (v_value v)))
            else if v_type v = ''INTEGER'' then Inr (JStr (py_str (v_value v)))
            else (case v_value v of Some (VDec d) \<Rightarrow> Inr (JStr (decimal_text d scale))
                  | _ \<Rightarrow> Inl AssertionError))
       (\<lambda>encoded. Inr
          [(''state'', JStr (v_state v)), (''value'', encoded), (''value_type'', JStr (v_type v)),
           (''unit'', JStr (v_unit v)), (''currency'', jopt (v_currency v)),
           (''reason_code'', jopt (v_reason v)), (''source_ids'', JList (map JStr (v_sources v)))])"

text \<open>The number of a \<open>VALID\<close> document, by its value type.\<close>

definition read_number :: "string \<Rightarrow> json \<Rightarrow> pyval res" where
  "read_number vt raw =
     (if vt = ''BOOLEAN'' then
        (case raw of JBool b \<Rightarrow> Inr (VBool b) | _ \<Rightarrow> fail ''VALUE_TYPE_INVALID'')
      else if vt = ''INTEGER'' then
        rbind (parse_integer raw ''VALUE_TYPE_INVALID'' (Some max_decimal_input_precision))
          (\<lambda>i. Inr (VInt i))
      else
        rbind (parse_decimal raw ''VALUE_DECIMAL_INVALID'' (Some max_decimal_input_precision)
                 (Some max_decimal_input_scale))
          (\<lambda>d. Inr (VDec d)))"

definition sources_valid :: "json \<Rightarrow> bool" where
  "sources_valid v = (case v of
     JList xs \<Rightarrow> list_all is_nonempty_string xs \<and> distinct xs | _ \<Rightarrow> False)"

definition value_from_dict :: "json \<Rightarrow> string \<Rightarrow> tvalue res" where
  "value_from_dict raw source_id =
     (case raw of
        JObj d \<Rightarrow>
          if \<not> keys_are d typed_value_keys then fail ''TYPED_VALUE_MALFORMED''
          else rbind (validate_signature (dget d ''value_type'') (dget d ''unit'') (dget d ''currency''))
            (\<lambda>sig. rbind (in_names (dget d ''state'') states) (\<lambda>known.
              if \<not> known then fail ''VALUE_STATE_INVALID''
              else if \<not> sources_valid (dget d ''source_ids'') then fail ''VALUE_SOURCES_INVALID''
              else
                let sources = sorted_set (source_id # map jstr (jlist (dget d ''source_ids''))) in
                if dget d ''state'' \<noteq> JStr ''VALID'' then
                  (if dget d ''value'' \<noteq> JNull \<or> \<not> is_nonempty_string (dget d ''reason_code'')
                   then fail ''TYPED_VALUE_MALFORMED''
                   else make_nonvalid (jstr (dget d ''state'')) sig (jstr (dget d ''reason_code'')) sources)
                else if dget d ''reason_code'' \<noteq> JNull then fail ''TYPED_VALUE_MALFORMED''
                else rbind (read_number (fst sig) (dget d ''value'')) (\<lambda>v. make_valid v sig sources)))
      | _ \<Rightarrow> fail ''TYPED_VALUE_MALFORMED'')"

section \<open>Sealed documents\<close>

text \<open>
  A document sealed by the hash of its other fields: the policy and the rules by
  \<open>content_hash\<close>, a resolution by \<open>trace_id\<close>, a kernel result by \<open>result_hash\<close>. What a
  client relies on is that the digest does not read the field that will hold it.
\<close>

locale sealed_document =
  fixes digest :: "dict \<Rightarrow> string res"
    and seal_field :: string
  assumes digest_ignores: "digest (dput seal_field v d) = digest d"
begin

lemma seal_verifies:
  assumes "digest d = Inr x"
  shows "digest (dput seal_field (JStr x) d) = Inr x \<and>
    dget (dput seal_field (JStr x) d) seal_field = JStr x"
  using assms by (simp add: digest_ignores)

lemma reseal: "digest (dput seal_field v (dput seal_field w d)) = digest d"
  by (simp add: digest_ignores)

end

lemma canonical_hash_ignores: "canonical_hash h (dput k v d) [k] = canonical_hash h d [k]"
  by (simp add: canonical_hash_def filter_dput)

interpretation content_seal: sealed_document "\<lambda>d. canonical_hash h d [''content_hash'']" "''content_hash''" for h
  by unfold_locales (rule canonical_hash_ignores)

interpretation trace_seal: sealed_document "\<lambda>d. canonical_hash h d [''trace_id'']" "''trace_id''" for h
  by unfold_locales (rule canonical_hash_ignores)

interpretation result_seal: sealed_document "\<lambda>d. canonical_hash h d [''result_hash'']" "''result_hash''" for h
  by unfold_locales (rule canonical_hash_ignores)

text \<open>Sorting the keys of a document changes no hash.\<close>

lemma canonical_hash_sorted:
  "canonical_hash h (sort_key fst (map (map_prod id json_sort) d)) exclude = canonical_hash h d exclude"
proof -
  let ?P = "\<lambda>p :: string \<times> json. \<not> List.member exclude (fst p)"
  have "filter ?P (map (map_prod id json_sort) d) = map (map_prod id json_sort) (filter ?P d)"
    by (induction d) auto
  then have "JObj (filter ?P (sort_key fst (map (map_prod id json_sort) d))) = json_sort (JObj (filter ?P d))"
    by (simp only: filter_sort json_sort.simps)
  then show ?thesis
    unfolding canonical_hash_def canonical_json_def Let_def by (simp only: json_text_sort json_ok_sort)
qed

section \<open>Well-formed typed values\<close>

definition signature_ok :: "signature \<Rightarrow> bool" where
  "signature_ok sig = (case sig of (vt, unit, currency) \<Rightarrow>
     List.member value_types vt \<and> unit \<noteq> [] \<and>
     (if vt = ''MONEY'' then (case currency of None \<Rightarrow> False | Some c \<Rightarrow> currency_re c)
      else currency = None))"

definition v_signature :: "tvalue \<Rightarrow> signature" where
  "v_signature v = (v_type v, v_unit v, v_currency v)"

definition tvalue_ok :: "tvalue \<Rightarrow> bool" where
  "tvalue_ok v \<longleftrightarrow>
     signature_ok (v_signature v) \<and> v_sources v = sorted_set (v_sources v) \<and>
     (if v_state v = ''VALID''
      then v_reason v = None \<and> (case v_value v of None \<Rightarrow> False | Some x \<Rightarrow> value_matches (v_type v) x)
      else List.member state_precedence (v_state v) \<and> v_value v = None \<and>
           (case v_reason v of None \<Rightarrow> False | Some r \<Rightarrow> r \<noteq> []))"

lemma validate_signature_Inr:
  "validate_signature a b c = Inr sig \<Longrightarrow> signature_ok sig \<and> a = JStr (fst sig)
     \<and> b = JStr (fst (snd sig)) \<and> c = jopt (snd (snd sig))"
  by (auto simp: validate_signature_def in_names_def is_nonempty_string_def jstr_def signature_ok_def
      jopt_def res_simps split: json.splits if_splits)

lemma validate_signature_ok:
  "validate_signature (JStr vt) (JStr unit) (jopt currency) =
     (if signature_ok (vt, unit, currency) then Inr (vt, unit, currency)
      else if \<not> List.member value_types vt \<or> unit = [] then fail ''VALUE_SIGNATURE_INVALID''
      else fail ''VALUE_CURRENCY_INVALID'')"
  by (auto simp: validate_signature_def in_names_def is_nonempty_string_def jstr_def signature_ok_def
      jopt_def split: option.splits)

lemma make_valid_Inr_iff:
  "make_valid x (vt, unit, currency) sources = Inr v \<longleftrightarrow>
     signature_ok (vt, unit, currency) \<and> value_matches vt x \<and>
     v = \<lparr>v_state = ''VALID'', v_value = Some x, v_type = vt, v_unit = unit, v_currency = currency,
          v_reason = None, v_sources = sorted_set sources\<rparr>"
  by (auto simp: make_valid_def validate_signature_ok res_simps)

lemma make_nonvalid_Inr_iff:
  "make_nonvalid state (vt, unit, currency) reason sources = Inr v \<longleftrightarrow>
     List.member state_precedence state \<and> reason \<noteq> [] \<and> signature_ok (vt, unit, currency) \<and>
     v = \<lparr>v_state = state, v_value = None, v_type = vt, v_unit = unit, v_currency = currency,
          v_reason = Some reason, v_sources = sorted_set sources\<rparr>"
  by (auto simp: make_nonvalid_def validate_signature_ok res_simps states_def state_precedence_def)

lemma make_valid_ok: "make_valid x sig sources = Inr v \<Longrightarrow> tvalue_ok v"
  by (cases sig) (auto simp: make_valid_Inr_iff tvalue_ok_def v_signature_def)

lemma make_nonvalid_ok: "make_nonvalid state sig reason sources = Inr v \<Longrightarrow> tvalue_ok v"
  by (cases sig) (auto simp: make_nonvalid_Inr_iff tvalue_ok_def v_signature_def state_precedence_def)

lemma value_from_dict_ok: "value_from_dict raw source_id = Inr v \<Longrightarrow> tvalue_ok v"
  by (auto simp: value_from_dict_def res_simps Let_def split: json.splits if_splits
      dest: make_valid_ok make_nonvalid_ok)

lemma value_to_dict_total: "tvalue_ok v \<Longrightarrow> \<exists>d. value_to_dict v scale = Inr d"
  by (auto simp: tvalue_ok_def value_to_dict_def v_signature_def signature_ok_def value_types_def numeric_types_def
      split: option.splits pyval.splits if_splits elim: value_matches.elims)

end
