(* ===== verification/Rounding.thy ===== *)
theory Rounding imports Common begin

text \<open>
  \<open>finance/_rounding.py\<close>: the rounding policy and its validation, the quantisation of a
  number at an application point, the input limits, and the propagation of states that are
  not \<open>VALID\<close>. The validated policy is a record of the fields the kernel reads, with the
  whole document (keys sorted, as \<open>_clone_json\<close> returns it) in \<open>p_doc\<close>.
\<close>

record policy =
  p_id :: string
  p_version :: int
  p_hash :: string
  p_calculation_mode :: rounding
  p_calculation_mode_name :: string
  p_calculation_scale :: nat
  p_money_scale :: nat
  p_rate_scale :: nat
  p_presentation_mode :: rounding
  p_presentation_scale :: nat
  p_points :: "string list"
  p_max_precision :: nat
  p_max_scale :: nat
  p_doc :: json

definition policy_keys :: "string list" where
  "policy_keys = [''policy_id'', ''version'', ''content_hash'', ''status'', ''calculation_mode'',
     ''calculation_scale'', ''money_scale'', ''rate_scale'', ''presentation_mode'',
     ''presentation_scale'', ''currency_presentation_scales'', ''application_points'',
     ''max_input_precision'', ''max_input_scale'', ''actor'', ''created_at'', ''source'',
     ''change_reason'', ''approval_reference'', ''supersedes'']"

section \<open>Validation of a policy\<close>

text \<open>\<open>not _is_non_negative_int(value) or value > maximum\<close>\<close>

definition scale_in :: "json \<Rightarrow> nat \<Rightarrow> bool" where
  "scale_in v maximum \<longleftrightarrow> is_non_negative_int v \<and> jint v \<le> int maximum"

definition known_mode :: "json \<Rightarrow> bool res" where
  "known_mode v = in_names v [''HALF_EVEN'', ''HALF_UP'', ''DOWN'', ''UP'', ''FLOOR'', ''CEILING'']"

text \<open>
  The application points: a non-empty list without repetition of known points. \<open>set(points)\<close>
  of a list that holds a list or a dict raises \<open>TypeError\<close>.
\<close>

definition points_valid :: "json \<Rightarrow> bool res" where
  "points_valid v = (case v of
     JList xs \<Rightarrow>
       if xs = [] then Inr False
       else if \<not> list_all hashable xs then Inl TypeError
       else Inr (distinct xs \<and>
         list_all (\<lambda>x. case x of JStr s \<Rightarrow> List.member (accounting_points @ presentation_points) s
                       | _ \<Rightarrow> False) xs)
   | _ \<Rightarrow> Inr False)"

definition currency_scales_valid :: "json \<Rightarrow> bool" where
  "currency_scales_valid v = (case v of
     JObj d \<Rightarrow> list_all (\<lambda>(code, scale). currency_re code \<and> scale_in scale 28) d
   | _ \<Rightarrow> False)"

definition supersedes_valid :: "string \<Rightarrow> json \<Rightarrow> bool" where
  "supersedes_valid id_field v = (case v of
     JNull \<Rightarrow> True
   | JObj d \<Rightarrow> keys_are d [id_field, ''version''] \<and> is_nonempty_string (dget d id_field) \<and>
       is_positive_int (dget d ''version'')
   | _ \<Rightarrow> False)"

definition approval_valid :: "json \<Rightarrow> bool" where
  "approval_valid v \<longleftrightarrow> v = JNull \<or> is_nonempty_string v"

definition string_matching :: "(string \<Rightarrow> bool) \<Rightarrow> json \<Rightarrow> bool" where
  "string_matching re v = (case v of JStr s \<Rightarrow> re s | _ \<Rightarrow> False)"

text \<open>The fields the kernel reads, from a document that passed every check.\<close>

definition the_mode :: "json \<Rightarrow> rounding" where
  "the_mode v = (case rounding_mode (jstr v) of Some m \<Rightarrow> m | None \<Rightarrow> HALF_EVEN)"

definition policy_of :: "dict \<Rightarrow> policy" where
  "policy_of d =
     \<lparr>p_id = jstr (dget d ''policy_id''), p_version = jint (dget d ''version''),
      p_hash = jstr (dget d ''content_hash''),
      p_calculation_mode = the_mode (dget d ''calculation_mode''),
      p_calculation_mode_name = jstr (dget d ''calculation_mode''),
      p_calculation_scale = nat (jint (dget d ''calculation_scale'')),
      p_money_scale = nat (jint (dget d ''money_scale'')),
      p_rate_scale = nat (jint (dget d ''rate_scale'')),
      p_presentation_mode = the_mode (dget d ''presentation_mode''),
      p_presentation_scale = nat (jint (dget d ''presentation_scale'')),
      p_points = map jstr (jlist (dget d ''application_points'')),
      p_max_precision = nat (jint (dget d ''max_input_precision'')),
      p_max_scale = nat (jint (dget d ''max_input_scale'')),
      p_doc = json_sort (JObj d)\<rparr>"

text \<open>The checks after the hash, in the order of the code.\<close>

definition policy_fields_valid :: "dict \<Rightarrow> bool \<Rightarrow> unit res" where
  "policy_fields_valid d preview =
     rbind (in_names (dget d ''status'') (if preview then [''SHADOW'', ''PILOT'', ''ACTIVE''] else [''ACTIVE'']))
     (\<lambda>approved. if \<not> approved then fail ''ROUNDING_POLICY_NOT_APPROVED'' else
      rbind (known_mode (dget d ''calculation_mode'')) (\<lambda>calc.
      rbind (if calc then known_mode (dget d ''presentation_mode'') else Inr False) (\<lambda>modes.
      if \<not> modes then fail ''ROUNDING_MODE_UNSUPPORTED''
      else if \<not> list_all (\<lambda>f. scale_in (dget d f) 28)
                [''calculation_scale'', ''money_scale'', ''rate_scale'', ''presentation_scale'']
      then fail ''ROUNDING_SCALE_INVALID''
      else if \<not> scale_in (dget d ''max_input_precision'') max_decimal_input_precision \<or>
              \<not> scale_in (dget d ''max_input_scale'') max_decimal_input_scale
      then fail ''ROUNDING_SCALE_INVALID''
      else if jint (dget d ''max_input_precision'') < 1 \<or>
              jint (dget d ''max_input_scale'') > jint (dget d ''max_input_precision'')
      then fail ''ROUNDING_SCALE_INVALID''
      else rbind (points_valid (dget d ''application_points'')) (\<lambda>points.
        if \<not> points then fail ''ROUNDING_POINT_FORBIDDEN''
        else if \<not> currency_scales_valid (dget d ''currency_presentation_scales'')
        then fail ''ROUNDING_CURRENCY_INVALID''
        else if \<not> list_all (\<lambda>f. is_nonempty_string (dget d f)) [''actor'', ''source'', ''change_reason'']
        then fail ''ROUNDING_POLICY_MALFORMED''
        else rbind (parse_rfc3339 (dget d ''created_at'') ''ROUNDING_POLICY_MALFORMED'') (\<lambda>_.
          if \<not> approval_valid (dget d ''approval_reference'') \<or>
             \<not> supersedes_valid ''policy_id'' (dget d ''supersedes'')
          then fail ''ROUNDING_POLICY_MALFORMED'' else Inr ())))))"

definition validate_rounding_policy ::
  "(string \<Rightarrow> string) \<Rightarrow> json \<Rightarrow> bool \<Rightarrow> policy res" where
  "validate_rounding_policy h doc preview =
     (case doc of
        JObj d \<Rightarrow>
          if \<not> keys_are d policy_keys then fail ''ROUNDING_POLICY_MALFORMED''
          else if \<not> string_matching id_re (dget d ''policy_id'') then fail ''ROUNDING_POLICY_MALFORMED''
          else if \<not> is_positive_int (dget d ''version'') then fail ''ROUNDING_POLICY_MALFORMED''
          else if \<not> string_matching hash_re (dget d ''content_hash'') then fail ''ROUNDING_HASH_MISMATCH''
          else rbind (canonical_hash h d [''content_hash'']) (\<lambda>digest.
            if JStr digest \<noteq> dget d ''content_hash'' then fail ''ROUNDING_HASH_MISMATCH''
            else rbind (policy_fields_valid d preview) (\<lambda>_.
              rbind (clone_json doc) (\<lambda>_. Inr (policy_of d))))
      | _ \<Rightarrow> fail ''ROUNDING_POLICY_MALFORMED'')"

section \<open>Quantisation\<close>

text \<open>
  The precision of the context that \<open>_decimal_context\<close> opens for a budget of operations; a
  budget below one is refused.
\<close>

definition decimal_context :: "policy \<Rightarrow> int \<Rightarrow> nat res" where
  "decimal_context p operation_budget =
     (if operation_budget < 1 then fail ''DECIMAL_CONTEXT_BUDGET_INVALID''
      else
        let work_scale = Max {p_max_scale p, p_calculation_scale p, p_money_scale p, p_rate_scale p,
                              p_presentation_scale p}
        in Inr (p_max_precision p * nat operation_budget + work_scale + 8))"

definition mode_and_scale :: "policy \<Rightarrow> string \<Rightarrow> string \<Rightarrow> rounding \<times> nat" where
  "mode_and_scale p point value_type =
     (if List.member accounting_points point then
        (p_calculation_mode p,
         if point = ''METRIC_FINAL_ACCOUNTING'' then
           (if value_type = ''MONEY'' then p_money_scale p else p_rate_scale p)
         else p_calculation_scale p)
      else (p_presentation_mode p, p_presentation_scale p))"

definition quantize_at :: "decimal \<Rightarrow> policy \<Rightarrow> string \<Rightarrow> string \<Rightarrow> (decimal \<times> nat) res" where
  "quantize_at d p point value_type =
     (if \<not> List.member (p_points p) point then fail ''ROUNDING_POINT_FORBIDDEN''
      else case mode_and_scale p point value_type of (mode, scale) \<Rightarrow>
        let required = max (int (ndigits (coeff d))) (max (adjusted d + 1) 1 + int scale) + 1 in
        (case quantize (nat required) d scale mode of
           None \<Rightarrow> fail ''ROUNDING_OPERATION_INVALID''
         | Some r \<Rightarrow> Inr (r, scale)))"

definition input_decimal :: "json \<Rightarrow> policy \<Rightarrow> string \<Rightarrow> decimal res" where
  "input_decimal v p code =
     rbind (parse_decimal v code (Some (p_max_precision p)) (Some (p_max_scale p))) (\<lambda>d.
       rbind (quantize_at d p ''RULE_INPUT_NORMALIZATION'' ''DECIMAL'') (\<lambda>r. Inr (fst r)))"

section \<open>Normalisation of a typed value\<close>

definition validate_input_limits :: "tvalue \<Rightarrow> policy \<Rightarrow> unit res" where
  "validate_input_limits v p =
     (if v_state v \<noteq> ''VALID'' then Inr ()
      else if v_type v = ''INTEGER'' then
        (case v_value v of
           Some (VInt i) \<Rightarrow>
             if length (nat_text (nat \<bar>i\<bar>)) > p_max_precision p
             then fail ''ROUNDING_INPUT_PRECISION_EXCEEDED'' else Inr ()
         | _ \<Rightarrow> Inl AssertionError)
      else if \<not> List.member decimal_types (v_type v) then Inr ()
      else (case v_value v of
           Some (VDec d) \<Rightarrow>
             rbind (parse_decimal (JStr (format_f d)) ''VALUE_DECIMAL_INVALID''
                      (Some (p_max_precision p)) (Some (p_max_scale p))) (\<lambda>_. Inr ())
         | _ \<Rightarrow> Inl AssertionError))"

definition normalize_value :: "tvalue \<Rightarrow> policy \<Rightarrow> tvalue res" where
  "normalize_value v p =
     (if v_state v \<noteq> ''VALID'' then Inr v
      else rbind (validate_input_limits v p) (\<lambda>_.
        if \<not> List.member decimal_types (v_type v) then Inr v
        else (case v_value v of
           Some (VDec d) \<Rightarrow>
             rbind (quantize_at d p ''RULE_INPUT_NORMALIZATION'' (v_type v)) (\<lambda>r.
               make_valid (VDec (fst r)) (v_type v, v_unit v, v_currency v) (v_sources v))
         | _ \<Rightarrow> Inl AssertionError)))"

section \<open>Propagation\<close>

definition reason_text :: "string option \<Rightarrow> string" where
  "reason_text r = (case r of None \<Rightarrow> ''None'' | Some s \<Rightarrow> s)"

definition propagation_key :: "tvalue \<Rightarrow> string \<times> string list" where
  "propagation_key v = ((case v_reason v of None \<Rightarrow> [] | Some s \<Rightarrow> s), v_sources v)"

text \<open>The loop over the states in their order of precedence: the first one that occurs wins.\<close>

fun propagate_states :: "string list \<Rightarrow> tvalue list \<Rightarrow> signature \<Rightarrow> tvalue option res" where
  "propagate_states [] values sig = Inr None"
| "propagate_states (state # rest) values sig =
     (case sort_key propagation_key (filter (\<lambda>v. v_state v = state) values) of
        [] \<Rightarrow> propagate_states rest values sig
      | chosen # others \<Rightarrow>
          rbind (make_nonvalid state sig (''DEPENDENCY_'' @ state @ '':'' @ reason_text (v_reason chosen))
                   (sorted_set (concat (map v_sources (chosen # others)))))
            (\<lambda>v. Inr (Some v)))"

definition propagate :: "tvalue list \<Rightarrow> signature \<Rightarrow> tvalue option res" where
  "propagate values sig = propagate_states state_precedence values sig"

section \<open>What quantisation guarantees\<close>

lemma quantize_same: "expo d = - int scale \<Longrightarrow> quantize prec d scale mode = Some r \<Longrightarrow> r = d"
  by (cases d) (auto simp: quantize_def rescale_def Let_def split: if_splits)

section \<open>What propagation guarantees\<close>

definition worst_state :: "tvalue list \<Rightarrow> string option" where
  "worst_state vs = find (\<lambda>s. List.member (map v_state vs) s) state_precedence"

lemma sort_key_Nil_iff [simp]: "sort_key f xs = [] \<longleftrightarrow> xs = []"
  by (metis length_0_conv length_sort)

lemma propagate_states_None:
  "propagate_states ss vs sig = Inr None \<longleftrightarrow> (\<forall>s\<in>set ss. \<forall>v\<in>set vs. v_state v \<noteq> s)"
proof (induction ss)
  case (Cons s ss)
  show ?case
  proof (cases "sort_key propagation_key (filter (\<lambda>v. v_state v = s) vs)")
    case Nil
    then have "\<forall>v\<in>set vs. v_state v \<noteq> s" by (simp add: filter_empty_conv)
    with Nil Cons show ?thesis by simp
  next
    case (Cons c cs)
    then have "c \<in> set (filter (\<lambda>v. v_state v = s) vs)" by (metis list.set_intros(1) set_sort)
    with Cons show ?thesis by (auto simp: res_simps)
  qed
qed simp

lemma propagate_states_Some:
  assumes "find (\<lambda>s. List.member (map v_state vs) s) ss = Some s"
  shows "\<exists>chosen others. sort_key propagation_key (filter (\<lambda>v. v_state v = s) vs) = chosen # others \<and>
    propagate_states ss vs sig = rbind (make_nonvalid s sig (''DEPENDENCY_'' @ s @ '':'' @ reason_text (v_reason chosen))
      (sorted_set (concat (map v_sources (chosen # others))))) (\<lambda>v. Inr (Some v))"
  using assms
proof (induction ss)
  case (Cons t ss)
  show ?case
  proof (cases "List.member (map v_state vs) t")
    case True
    with Cons.prems have "t = s" by simp
    moreover obtain c cs where "sort_key propagation_key (filter (\<lambda>v. v_state v = t) vs) = c # cs"
      using True by (cases "sort_key propagation_key (filter (\<lambda>v. v_state v = t) vs)")
        (auto simp: filter_empty_conv)
    ultimately show ?thesis by simp
  next
    case False
    then have "filter (\<lambda>v. v_state v = t) vs = []" by (auto simp: filter_empty_conv)
    with False Cons show ?thesis by simp
  qed
qed simp

lemma worst_state_None: "worst_state vs = None \<longleftrightarrow> (\<forall>v\<in>set vs. \<not> List.member state_precedence (v_state v))"
  by (auto simp: worst_state_def find_None_iff)

lemma worst_state_member: "worst_state vs = Some s \<Longrightarrow> List.member state_precedence s"
  by (metis (mono_tags, lifting) find_Some_iff in_set_conv_nth List.member_iff worst_state_def)

lemma propagate_None: "propagate vs sig = Inr None \<longleftrightarrow> worst_state vs = None"
  by (auto simp: propagate_def propagate_states_None worst_state_None)

lemma propagate_Some:
  assumes "worst_state vs = Some s" and "signature_ok sig"
  shows "\<exists>chosen w. chosen \<in> set vs \<and> v_state chosen = s \<and> propagate vs sig = Inr (Some w) \<and> v_state w = s \<and>
     v_signature w = sig \<and> tvalue_ok w \<and> v_reason w = Some (''DEPENDENCY_'' @ s @ '':'' @ reason_text (v_reason chosen)) \<and>
     set (v_sources w) = \<Union>{set (v_sources v) | v. v \<in> set vs \<and> v_state v = s}"
proof -
  obtain c cs where c: "sort_key propagation_key (filter (\<lambda>v. v_state v = s) vs) = c # cs"
    and p: "propagate vs sig = rbind (make_nonvalid s sig (''DEPENDENCY_'' @ s @ '':'' @ reason_text (v_reason c))
      (sorted_set (concat (map v_sources (c # cs))))) (\<lambda>v. Inr (Some v))"
    using propagate_states_Some [of vs state_precedence s sig] assms(1) by (auto simp: propagate_def worst_state_def)
  have set_c: "set (c # cs) = {v \<in> set vs. v_state v = s}"
    by (metis c set_sort set_filter)
  obtain w where w: "make_nonvalid s sig (''DEPENDENCY_'' @ s @ '':'' @ reason_text (v_reason c))
      (sorted_set (concat (map v_sources (c # cs)))) = Inr w"
    using assms(2) worst_state_member [OF assms(1)] by (cases sig) (simp add: make_nonvalid_Inr_iff)
  have "set (v_sources w) = \<Union>{set (v_sources v) | v. v \<in> set (c # cs)}"
    using w by (cases sig) (auto simp: make_nonvalid_Inr_iff)
  moreover have "propagate vs sig = Inr (Some w)" by (simp only: p w rbind.simps)
  moreover have "v_state w = s" "v_signature w = sig"
    "v_reason w = Some (''DEPENDENCY_'' @ s @ '':'' @ reason_text (v_reason c))"
    using w by (cases sig; simp add: make_nonvalid_Inr_iff v_signature_def)+
  moreover have "c \<in> set vs" "v_state c = s" using set_c by auto
  ultimately show ?thesis using make_nonvalid_ok [OF w] set_c by (simp only: mem_Collect_eq) blast
qed

lemma tvalue_ok_state: "tvalue_ok v \<Longrightarrow> v_state v = ''VALID'' \<or> List.member state_precedence (v_state v)"
  by (auto simp: tvalue_ok_def split: if_splits)

lemma valid_not_precedence [simp]: "''VALID'' \<notin> set state_precedence"
  by (simp add: state_precedence_def)

lemma worst_state_all_valid:
  "list_all tvalue_ok vs \<Longrightarrow> worst_state vs = None \<longleftrightarrow> list_all (\<lambda>v. v_state v = ''VALID'') vs"
  by (simp add: worst_state_None list_all_iff) (metis List.member_iff tvalue_ok_state valid_not_precedence)

lemma worst_state_mset: "mset vs = mset ws \<Longrightarrow> worst_state vs = worst_state ws"
  by (simp add: worst_state_def mset_eq_setD [of vs ws])

lemma sort_key_head:
  assumes "mset xs = mset ys" and "sort_key f xs = x # xs'" and "sort_key f ys = y # ys'"
  shows "f x = f y"
proof -
  have min: "\<forall>z\<in>set zs. f w \<le> f z" if "sort_key f zs = w # zs'" for zs w zs'
    using that sorted_sort_key [of f zs] by (metis (no_types, lifting) list.simps(15) list.simps(9) order_refl
        set_sort sorted_simps(2) image_eqI image_set insertE)
  have "set xs = set ys" using assms(1) by (rule mset_eq_setD)
  moreover have "x \<in> set xs" "y \<in> set ys" using assms(2,3) by (metis list.set_intros(1) set_sort)+
  ultimately show ?thesis using min [OF assms(2)] min [OF assms(3)] by (simp add: order.antisym)
qed

section \<open>Examples\<close>

text \<open>A small policy and values, for the instances of the theorems.\<close>

definition demo_policy :: policy where
  "demo_policy =
     \<lparr>p_id = ''POLICY-1'', p_version = 1, p_hash = replicate 64 CHR ''a'',
      p_calculation_mode = HALF_UP, p_calculation_mode_name = ''HALF_UP'', p_calculation_scale = 1,
      p_money_scale = 1, p_rate_scale = 1, p_presentation_mode = HALF_EVEN, p_presentation_scale = 0,
      p_points = accounting_points, p_max_precision = 3, p_max_scale = 2, p_doc = JNull\<rparr>"

definition demo_value :: "string \<Rightarrow> string \<Rightarrow> tvalue" where
  "demo_value state reason =
     \<lparr>v_state = state, v_value = None, v_type = ''INTEGER'', v_unit = ''ITEM'', v_currency = None,
      v_reason = Some reason, v_sources = [''SRC'']\<rparr>"

text \<open>
  C39: at an application point the policy allows, quantisation never fails: it returns a number
  at the scale of the point, within one unit of the input (half a unit for the half modes),
  and quantising the result again changes nothing.
\<close>

theorem quantize_at_total:
  assumes "List.member (p_points p) point" and "mode_and_scale p point vt = (mode, scale)"
  shows "\<exists>r. quantize_at d p point vt = Inr (r, scale) \<and> expo r = - int scale \<and>
    \<bar>dval r - dval d\<bar> < 10 powi (- int scale) \<and>
    (mode \<in> {HALF_EVEN, HALF_UP} \<longrightarrow> 2 * \<bar>dval r - dval d\<bar> \<le> 10 powi (- int scale)) \<and>
    quantize_at r p point vt = Inr (r, scale)"
proof -
  have fits: "\<exists>r. quantize (nat (max (int (ndigits (coeff x))) (max (adjusted x + 1) 1 + int scale) + 1)) x scale mode
      = Some r" for x
    by (rule quantize_enough) simp
  have at: "quantize_at x p point vt = Inr (r, scale)"
    if "quantize (nat (max (int (ndigits (coeff x))) (max (adjusted x + 1) 1 + int scale) + 1)) x scale mode = Some r" for x r
    using assms that by (simp add: quantize_at_def Let_def)
  obtain r where r: "quantize (nat (max (int (ndigits (coeff d))) (max (adjusted d + 1) 1 + int scale) + 1)) d scale mode = Some r"
    using fits by blast
  have e: "expo r = - int scale" by (rule quantize_Some_expo [OF r])
  obtain r' where r': "quantize (nat (max (int (ndigits (coeff r))) (max (adjusted r + 1) 1 + int scale) + 1)) r scale mode = Some r'"
    using fits by blast
  have "r' = r" by (rule quantize_same [OF e r'])
  then show ?thesis
    using at [OF r] at [OF r'] e quantize_error [OF r] quantize_half_error [OF r] by blast
qed

theorem quantize_at_total_witness:
  "\<exists>r. quantize_at (Dec False 125 (- 2)) demo_policy ''RULE_COMPONENT_RESULT'' ''MONEY'' = Inr (r, 1) \<and>
     expo r = - 1 \<and> 2 * \<bar>dval r - dval (Dec False 125 (- 2))\<bar> \<le> 1 / 10"
  using quantize_at_total [of demo_policy "''RULE_COMPONENT_RESULT''" "''MONEY''" HALF_UP 1 "Dec False 125 (- 2)"]
  by (auto simp: demo_policy_def accounting_points_def mode_and_scale_def)

text \<open>
  Propagation of well-formed values is silent exactly when all are \<open>VALID\<close>; otherwise it
  gives one value of the requested signature in the worst state that occurs (\<open>CONFLICT\<close> before
  \<open>BLOCKED\<close> before \<open>UNAVAILABLE\<close> before \<open>EMPTY\<close>), whose reason names a value in that state and
  whose sources are those of all values in that state.
\<close>

theorem propagate_precedence:
  assumes "list_all tvalue_ok vs" and "signature_ok sig"
  shows "case worst_state vs of
      None \<Rightarrow> list_all (\<lambda>v. v_state v = ''VALID'') vs \<and> propagate vs sig = Inr None
    | Some s \<Rightarrow> \<not> list_all (\<lambda>v. v_state v = ''VALID'') vs \<and>
        (\<exists>chosen w. chosen \<in> set vs \<and> v_state chosen = s \<and> propagate vs sig = Inr (Some w) \<and>
           v_state w = s \<and> v_signature w = sig \<and> tvalue_ok w \<and>
           v_reason w = Some (''DEPENDENCY_'' @ s @ '':'' @ reason_text (v_reason chosen)) \<and>
           set (v_sources w) = \<Union>{set (v_sources v) | v. v \<in> set vs \<and> v_state v = s})"
proof (cases "worst_state vs")
  case None
  then show ?thesis using worst_state_all_valid [OF assms(1)] propagate_None by simp
next
  case (Some s)
  then show ?thesis using worst_state_all_valid [OF assms(1)] propagate_Some [OF Some assms(2)] by simp
qed

theorem propagate_precedence_witness:
  "\<exists>w. propagate [demo_value ''EMPTY'' ''E'', demo_value ''BLOCKED'' ''B''] (''MONEY'', ''MONEY'', Some ''RUB'') = Inr (Some w) \<and>
     v_state w = ''BLOCKED'' \<and> v_signature w = (''MONEY'', ''MONEY'', Some ''RUB'')"
proof -
  have "list_all tvalue_ok [demo_value ''EMPTY'' ''E'', demo_value ''BLOCKED'' ''B'']"
    and "signature_ok (''MONEY'', ''MONEY'', Some ''RUB'')"
    and w: "worst_state [demo_value ''EMPTY'' ''E'', demo_value ''BLOCKED'' ''B''] = Some ''BLOCKED''"
    by code_simp+
  from propagate_precedence [OF this(1,2)] show ?thesis unfolding w by auto
qed

text \<open>
  Propagation does not depend on the order of the values: the reported reason and the
  sources are the same for every permutation.
\<close>

theorem propagate_permutation:
  assumes "mset vs = mset ws" and "list_all tvalue_ok vs"
  shows "propagate vs sig = propagate ws sig"
proof (cases "worst_state vs")
  case None
  then show ?thesis using propagate_None worst_state_mset [OF assms(1)] by metis
next
  case (Some s)
  let ?P = "\<lambda>v. v_state v = s"
  obtain c cs where c: "sort_key propagation_key (filter ?P vs) = c # cs"
    and pc: "propagate vs sig = rbind (make_nonvalid s sig (''DEPENDENCY_'' @ s @ '':'' @ reason_text (v_reason c))
      (sorted_set (concat (map v_sources (c # cs))))) (\<lambda>v. Inr (Some v))"
    using propagate_states_Some [of vs state_precedence s sig] Some by (auto simp: propagate_def worst_state_def)
  obtain d ds where d: "sort_key propagation_key (filter ?P ws) = d # ds"
    and pd: "propagate ws sig = rbind (make_nonvalid s sig (''DEPENDENCY_'' @ s @ '':'' @ reason_text (v_reason d))
      (sorted_set (concat (map v_sources (d # ds))))) (\<lambda>v. Inr (Some v))"
    using propagate_states_Some [of ws state_precedence s sig] Some worst_state_mset [OF assms(1)]
    by (auto simp: propagate_def worst_state_def)
  have m: "mset (filter ?P vs) = mset (filter ?P ws)" using assms(1) by simp
  have key: "propagation_key c = propagation_key d" by (rule sort_key_head [OF m c d])
  have sets: "set (c # cs) = set (d # ds)" by (metis c d m mset_eq_setD set_sort)
  have mem: "c \<in> set vs" "d \<in> set vs" "v_state c = s" "v_state d = s"
    using c d sets by (metis (mono_tags, lifting) list.set_intros(1) mem_Collect_eq set_filter set_sort assms(1) mset_eq_setD)+
  have "s \<noteq> ''VALID''" using worst_state_member [OF Some] by auto
  with mem assms(2) have "v_reason c \<noteq> None" "v_reason d \<noteq> None"
    by (auto simp: list_all_iff tvalue_ok_def split: if_splits option.splits)
  with key have "v_reason c = v_reason d" by (auto simp: propagation_key_def)
  moreover have "sorted_set (concat (map v_sources (c # cs))) = sorted_set (concat (map v_sources (d # ds)))"
    by (rule sorted_set_eqI) (use sets in \<open>simp only: set_concat set_map\<close>)
  ultimately show ?thesis by (simp only: pc pd)
qed

theorem propagate_permutation_witness:
  "propagate [demo_value ''EMPTY'' ''E'', demo_value ''EMPTY'' ''A''] (''INTEGER'', ''ITEM'', None) =
   propagate [demo_value ''EMPTY'' ''A'', demo_value ''EMPTY'' ''E''] (''INTEGER'', ''ITEM'', None)"
proof (rule propagate_permutation)
  show "list_all tvalue_ok [demo_value ''EMPTY'' ''E'', demo_value ''EMPTY'' ''A'']" by code_simp
qed (simp add: add_mset_commute)

end
