(* ===== verification/ExprEager.thy ===== *)
theory ExprEager imports Rounding begin

text \<open>
  \<open>finance/_expression_eager.py\<close>: the evaluator of SAFE_EXPRESSION trees. An expression is
  a document; \<open>walk\<close> counts nodes across the whole tree, so the counter is threaded through
  the recursion. The evaluation environment holds the validated policy, the declared
  dependencies, the typed variables and the precision of the ambient decimal context.
\<close>

definition literal_keys :: "string list" where
  "literal_keys = [''kind'', ''value'', ''value_type'', ''currency'', ''unit'']"

definition variable_keys :: "string list" where
  "variable_keys = [''kind'', ''name'', ''value_type'', ''currency'', ''unit'']"

definition operation_keys :: "string list" where
  "operation_keys = [''kind'', ''operator'', ''value_type'', ''currency'', ''unit'', ''arguments'']"

section \<open>Signatures of operations\<close>

definition sig_of :: "tvalue \<Rightarrow> signature" where
  "sig_of v = (v_type v, v_unit v, v_currency v)"

fun require_each :: "signature \<Rightarrow> tvalue list \<Rightarrow> unit res" where
  "require_each first [] = Inr ()"
| "require_each first (v # vs) =
     (if v_type v \<noteq> fst first then fail ''EXPRESSION_TYPE_MISMATCH''
      else if v_unit v \<noteq> fst (snd first) then fail ''EXPRESSION_UNIT_MISMATCH''
      else if v_currency v \<noteq> snd (snd first) then fail ''EXPRESSION_CURRENCY_MISMATCH''
      else require_each first vs)"

definition require_compatible :: "tvalue list \<Rightarrow> unit res" where
  "require_compatible values =
     (case values of [] \<Rightarrow> fail ''EXPRESSION_ARITY_INVALID''
      | v # vs \<Rightarrow> require_each (sig_of v) vs)"

definition multiply_signature :: "tvalue \<Rightarrow> tvalue \<Rightarrow> signature res" where
  "multiply_signature l r =
     (let pair = (v_type l, v_type r) in
      if pair = (''MONEY'', ''RATE'') then
        if v_unit r \<noteq> ''RATE'' then fail ''EXPRESSION_UNIT_MISMATCH''
        else Inr (''MONEY'', v_unit l, v_currency l)
      else if pair = (''RATE'', ''MONEY'') then
        if v_unit l \<noteq> ''RATE'' then fail ''EXPRESSION_UNIT_MISMATCH''
        else Inr (''MONEY'', v_unit r, v_currency r)
      else if pair = (''MONEY'', ''DECIMAL'') then
        if v_unit r \<noteq> ''DIMENSIONLESS'' then fail ''EXPRESSION_UNIT_MISMATCH''
        else Inr (''MONEY'', v_unit l, v_currency l)
      else if pair = (''DECIMAL'', ''MONEY'') then
        if v_unit l \<noteq> ''DIMENSIONLESS'' then fail ''EXPRESSION_UNIT_MISMATCH''
        else Inr (''MONEY'', v_unit r, v_currency r)
      else if pair = (''DECIMAL'', ''DECIMAL'') then
        if v_unit l \<noteq> ''DIMENSIONLESS'' \<or> v_unit r \<noteq> ''DIMENSIONLESS''
        then fail ''EXPRESSION_UNIT_MISMATCH'' else Inr (''DECIMAL'', ''DIMENSIONLESS'', None)
      else fail ''EXPRESSION_TYPE_MISMATCH'')"

definition divide_signature :: "tvalue \<Rightarrow> tvalue \<Rightarrow> signature res" where
  "divide_signature l r =
     (let pair = (v_type l, v_type r) in
      if pair = (''MONEY'', ''MONEY'') then
        if v_currency l \<noteq> v_currency r then fail ''EXPRESSION_CURRENCY_MISMATCH''
        else if v_unit l \<noteq> v_unit r then fail ''EXPRESSION_UNIT_MISMATCH''
        else Inr (''DECIMAL'', ''DIMENSIONLESS'', None)
      else if pair = (''MONEY'', ''DECIMAL'') then
        if v_unit r \<noteq> ''DIMENSIONLESS'' then fail ''EXPRESSION_UNIT_MISMATCH''
        else Inr (''MONEY'', v_unit l, v_currency l)
      else if pair = (''DECIMAL'', ''DECIMAL'') then
        if v_unit l \<noteq> ''DIMENSIONLESS'' \<or> v_unit r \<noteq> ''DIMENSIONLESS''
        then fail ''EXPRESSION_UNIT_MISMATCH'' else Inr (''DECIMAL'', ''DIMENSIONLESS'', None)
      else fail ''EXPRESSION_TYPE_MISMATCH'')"

text \<open>\<open>if not ok: raise FinanceError(code)\<close>\<close>

abbreviation require :: "bool \<Rightarrow> string \<Rightarrow> unit res" where
  "require ok code \<equiv> (if ok then Inr () else fail code)"

definition validate_operation_signature :: "string \<Rightarrow> tvalue list \<Rightarrow> signature \<Rightarrow> unit res" where
  "validate_operation_signature op values declared =
     (if List.member [''ADD'', ''SUBTRACT'', ''MIN'', ''MAX''] op then
        rbind (require_compatible values) (\<lambda>_.
          case values of [] \<Rightarrow> Inl IndexError
          | v # _ \<Rightarrow>
            require (List.member numeric_types (v_type v) \<and> sig_of v = declared) ''EXPRESSION_TYPE_MISMATCH'')
      else if List.member [''NEGATE'', ''ABS''] op then
        (case values of [] \<Rightarrow> Inl IndexError
         | v # _ \<Rightarrow>
           require (List.member numeric_types (v_type v) \<and> sig_of v = declared) ''EXPRESSION_TYPE_MISMATCH'')
      else if op = ''MULTIPLY'' then
        (case values of l # r # _ \<Rightarrow>
           rbind (multiply_signature l r) (\<lambda>s. require (s = declared) ''EXPRESSION_TYPE_MISMATCH'')
         | _ \<Rightarrow> Inl IndexError)
      else if op = ''DIVIDE'' then
        (case values of l # r # _ \<Rightarrow>
           rbind (divide_signature l r) (\<lambda>s. require (s = declared) ''EXPRESSION_TYPE_MISMATCH'')
         | _ \<Rightarrow> Inl IndexError)
      else if op = ''IF'' then
        (case values of [c, t, f] \<Rightarrow>
           if v_type c \<noteq> ''BOOLEAN'' then fail ''EXPRESSION_TYPE_MISMATCH''
           else rbind (require_compatible [t, f]) (\<lambda>_.
             require (sig_of t = declared) ''EXPRESSION_TYPE_MISMATCH'')
         | _ \<Rightarrow> Inl (ValueError ''unpack''))
      else (case values of [l, r] \<Rightarrow>
           rbind (require_compatible values) (\<lambda>_.
             if declared \<noteq> (''BOOLEAN'', ''BOOLEAN'', None) then fail ''EXPRESSION_TYPE_MISMATCH''
             else require (\<not> (op \<noteq> ''EQUAL'' \<and> v_type l = ''BOOLEAN'')) ''EXPRESSION_TYPE_MISMATCH'')
         | _ \<Rightarrow> Inl (ValueError ''unpack'')))"

section \<open>Leaves and the head of an operation\<close>

definition arity_ok :: "string \<Rightarrow> nat \<Rightarrow> bool option" where
  "arity_ok op n = map_of
     [(''ADD'', n \<ge> 2), (''SUBTRACT'', n = 2), (''MULTIPLY'', n = 2), (''DIVIDE'', n = 2),
      (''NEGATE'', n = 1), (''ABS'', n = 1), (''MIN'', n \<ge> 2), (''MAX'', n \<ge> 2), (''IF'', n = 3),
      (''EQUAL'', n = 2), (''LESS_THAN'', n = 2), (''LESS_OR_EQUAL'', n = 2),
      (''GREATER_THAN'', n = 2), (''GREATER_OR_EQUAL'', n = 2)] op"

definition declared_signature :: "dict \<Rightarrow> signature res" where
  "declared_signature d =
     validate_signature (dget d ''value_type'') (dget d ''unit'') (dget d ''currency'')"

text \<open>The checks of an operation node before its arguments are walked.\<close>

definition operation_head :: "dict \<Rightarrow> (string \<times> json list \<times> signature) res" where
  "operation_head d =
     (if \<not> keys_are d operation_keys then fail ''EXPRESSION_SCHEMA_INVALID''
      else case dget d ''arguments'' of
        JList args \<Rightarrow>
          if length args > max_expression_arguments then fail ''EXPRESSION_LIMIT_EXCEEDED''
          else (case dget d ''operator'' of
              JList _ \<Rightarrow> Inl TypeError
            | JObj _ \<Rightarrow> Inl TypeError
            | JStr op \<Rightarrow>
                (case arity_ok op (length args) of
                   None \<Rightarrow> fail ''EXPRESSION_OPERATOR_FORBIDDEN''
                 | Some ok \<Rightarrow>
                     if \<not> ok then fail ''EXPRESSION_ARITY_INVALID''
                     else rbind (declared_signature d) (\<lambda>sig. Inr (op, args, sig)))
            | _ \<Rightarrow> fail ''EXPRESSION_OPERATOR_FORBIDDEN'')
      | _ \<Rightarrow> fail ''EXPRESSION_LIMIT_EXCEEDED'')"

record eval_env =
  ee_policy :: policy
  ee_deps :: "string list"
  ee_vars :: "(string \<times> tvalue) list"
  ee_prec :: nat

definition walk_literal :: "eval_env \<Rightarrow> dict \<Rightarrow> tvalue res" where
  "walk_literal E d =
     (if \<not> keys_are d literal_keys then fail ''EXPRESSION_SCHEMA_INVALID''
      else rbind (declared_signature d) (\<lambda>sig.
        if fst sig = ''BOOLEAN'' then
          (case dget d ''value'' of JBool b \<Rightarrow> make_valid (VBool b) sig []
           | _ \<Rightarrow> fail ''EXPRESSION_TYPE_MISMATCH'')
        else if fst sig = ''INTEGER'' then
          (case dget d ''value'' of
             JStr s \<Rightarrow>
               if \<not> integer_re s then fail ''EXPRESSION_TYPE_MISMATCH''
               else (case py_int s of None \<Rightarrow> Inl (ValueError ''int'')
                     | Some i \<Rightarrow> make_valid (VInt i) sig [])
           | _ \<Rightarrow> fail ''EXPRESSION_TYPE_MISMATCH'')
        else rbind (input_decimal (dget d ''value'') (ee_policy E) ''EXPRESSION_NON_FINITE_LITERAL'')
          (\<lambda>x. make_valid (VDec x) sig [])))"

definition walk_variable :: "eval_env \<Rightarrow> dict \<Rightarrow> tvalue res" where
  "walk_variable E d =
     (if \<not> keys_are d variable_keys then fail ''EXPRESSION_SCHEMA_INVALID''
      else if \<not> string_matching variable_re (dget d ''name'') then fail ''EXPRESSION_SCHEMA_INVALID''
      else let name = jstr (dget d ''name'') in
        if \<not> List.member (ee_deps E) name then fail ''EXPRESSION_DEPENDENCY_UNDECLARED''
        else (case map_of (ee_vars E) name of
            None \<Rightarrow> fail ''EXPRESSION_VARIABLE_UNKNOWN''
          | Some actual \<Rightarrow>
              rbind (declared_signature d) (\<lambda>sig.
                if fst sig \<noteq> v_type actual then fail ''EXPRESSION_TYPE_MISMATCH''
                else if fst (snd sig) \<noteq> v_unit actual then fail ''EXPRESSION_UNIT_MISMATCH''
                else if snd (snd sig) \<noteq> v_currency actual then fail ''EXPRESSION_CURRENCY_MISMATCH''
                else Inr actual)))"

section \<open>Python's operators on the numbers of typed values\<close>

text \<open>A \<open>bool\<close> is an \<open>int\<close>, and an \<open>int\<close> meets a \<open>Decimal\<close> as a \<open>Decimal\<close>.\<close>

fun as_int :: "pyval \<Rightarrow> int" where
  "as_int (VInt i) = i"
| "as_int (VBool b) = (if b then 1 else 0)"
| "as_int (VDec d) = 0"

fun as_dec :: "pyval \<Rightarrow> decimal" where
  "as_dec (VDec d) = d"
| "as_dec x = dec_of_int (as_int x)"

fun py_add :: "nat \<Rightarrow> pyval \<Rightarrow> pyval \<Rightarrow> pyval" where
  "py_add prec (VDec a) b = VDec (dec_add prec a (as_dec b))"
| "py_add prec a (VDec b) = VDec (dec_add prec (as_dec a) b)"
| "py_add prec a b = VInt (as_int a + as_int b)"

fun py_sub :: "nat \<Rightarrow> pyval \<Rightarrow> pyval \<Rightarrow> pyval" where
  "py_sub prec (VDec a) b = VDec (dec_sub prec a (as_dec b))"
| "py_sub prec a (VDec b) = VDec (dec_sub prec (as_dec a) b)"
| "py_sub prec a b = VInt (as_int a - as_int b)"

definition py_less :: "pyval \<Rightarrow> pyval \<Rightarrow> bool" where
  "py_less a b = dec_less (as_dec a) (as_dec b)"

definition py_equal :: "pyval \<Rightarrow> pyval \<Rightarrow> bool" where
  "py_equal a b = dec_eq (as_dec a) (as_dec b)"

text \<open>\<open>min\<close> and \<open>max\<close> keep the first of equal elements.\<close>

definition py_min :: "pyval \<Rightarrow> pyval list \<Rightarrow> pyval" where
  "py_min x xs = foldl (\<lambda>best y. if py_less y best then y else best) x xs"

definition py_max :: "pyval \<Rightarrow> pyval list \<Rightarrow> pyval" where
  "py_max x xs = foldl (\<lambda>best y. if py_less best y then y else best) x xs"

fun py_neg :: "nat \<Rightarrow> pyval \<Rightarrow> pyval" where
  "py_neg prec (VDec d) = VDec (dec_neg prec d)"
| "py_neg prec x = VInt (- as_int x)"

fun py_abs :: "nat \<Rightarrow> pyval \<Rightarrow> pyval" where
  "py_abs prec (VDec d) = VDec (dec_abs prec d)"
| "py_abs prec x = VInt \<bar>as_int x\<bar>"

section \<open>Operations\<close>

definition raw_value :: "tvalue \<Rightarrow> pyval res" where
  "raw_value v = (case v_value v of None \<Rightarrow> Inl TypeError | Some x \<Rightarrow> Inr x)"

text \<open>\<open>ADD\<close>, \<open>SUBTRACT\<close>, \<open>MIN\<close>, \<open>MAX\<close> on the raw values.\<close>

definition combine :: "nat \<Rightarrow> string \<Rightarrow> pyval list \<Rightarrow> pyval res" where
  "combine prec op xs =
     (case xs of [] \<Rightarrow> Inl IndexError
      | x # rest \<Rightarrow>
          if op = ''ADD'' then Inr (foldl (py_add prec) x rest)
          else if op = ''SUBTRACT'' then
            (case rest of [] \<Rightarrow> Inl IndexError | y # _ \<Rightarrow> Inr (py_sub prec x y))
          else if op = ''MIN'' then Inr (py_min x rest)
          else Inr (py_max x rest))"

definition compare :: "string \<Rightarrow> pyval \<Rightarrow> pyval \<Rightarrow> bool" where
  "compare op l r =
     (if op = ''EQUAL'' then py_equal l r
      else if op = ''LESS_THAN'' then py_less l r
      else if op = ''LESS_OR_EQUAL'' then py_less l r \<or> py_equal l r
      else if op = ''GREATER_THAN'' then py_less r l
      else py_less r l \<or> py_equal r l)"

definition all_sources :: "tvalue list \<Rightarrow> string list" where
  "all_sources values = concat (map v_sources values)"

text \<open>\<open>MULTIPLY\<close> and \<open>DIVIDE\<close>; a zero divisor gives a \<open>BLOCKED\<close> value, not an exception.\<close>

definition multiply :: "nat \<Rightarrow> tvalue \<Rightarrow> tvalue \<Rightarrow> signature \<Rightarrow> tvalue res" where
  "multiply prec l r sig =
     (case (v_value l, v_value r) of
        (Some (VDec a), Some (VDec b)) \<Rightarrow> make_valid (VDec (dec_mul prec a b)) sig (all_sources [l, r])
      | _ \<Rightarrow> fail ''EXPRESSION_TYPE_MISMATCH'')"

definition divide_values :: "nat \<Rightarrow> tvalue \<Rightarrow> tvalue \<Rightarrow> signature \<Rightarrow> tvalue res" where
  "divide_values prec l r sig =
     (case (v_value l, v_value r) of
        (Some (VDec a), Some (VDec b)) \<Rightarrow>
          if is_zero b then
            make_nonvalid ''BLOCKED'' sig ''EXPRESSION_DIVISION_BY_ZERO'' (all_sources [l, r])
          else make_valid (VDec (dec_div prec a b)) sig (all_sources [l, r])
      | _ \<Rightarrow> fail ''EXPRESSION_TYPE_MISMATCH'')"

definition select_branch :: "tvalue \<Rightarrow> tvalue \<Rightarrow> tvalue \<Rightarrow> signature \<Rightarrow> tvalue res" where
  "select_branch c t f sig =
     (case v_value c of
        Some (VBool b) \<Rightarrow>
          (case v_value (if b then t else f) of
             None \<Rightarrow> fail ''VALUE_TYPE_INVALID''
           | Some x \<Rightarrow> make_valid x sig (all_sources [c, t, f]))
      | _ \<Rightarrow> Inl AssertionError)"

text \<open>An operation whose arguments are all \<open>VALID\<close>.\<close>

definition apply_operation :: "nat \<Rightarrow> string \<Rightarrow> tvalue list \<Rightarrow> signature \<Rightarrow> tvalue res" where
  "apply_operation prec op values sig =
     (if List.member [''ADD'', ''SUBTRACT'', ''MIN'', ''MAX''] op then
        rbind (rmap raw_value values) (\<lambda>xs. rbind (combine prec op xs) (\<lambda>x.
          make_valid x sig (all_sources values)))
      else if List.member [''NEGATE'', ''ABS''] op then
        (case values of [] \<Rightarrow> Inl IndexError
         | v # _ \<Rightarrow>
           (case v_value v of None \<Rightarrow> Inl AssertionError
            | Some x \<Rightarrow> make_valid (if op = ''NEGATE'' then py_neg prec x else py_abs prec x) sig (v_sources v)))
      else if op = ''MULTIPLY'' then
        (case values of [l, r] \<Rightarrow> multiply prec l r sig | _ \<Rightarrow> Inl (ValueError ''unpack''))
      else if op = ''DIVIDE'' then
        (case values of [l, r] \<Rightarrow> divide_values prec l r sig | _ \<Rightarrow> Inl (ValueError ''unpack''))
      else if op = ''IF'' then
        (case values of [c, t, f] \<Rightarrow> select_branch c t f sig | _ \<Rightarrow> Inl (ValueError ''unpack''))
      else
        (case values of [l, r] \<Rightarrow>
           rbind (raw_value l) (\<lambda>x. rbind (raw_value r) (\<lambda>y.
             make_valid (VBool (compare op x y)) (''BOOLEAN'', ''BOOLEAN'', None) (all_sources [l, r])))
         | _ \<Rightarrow> Inl (ValueError ''unpack'')))"

text \<open>An operation on its walked arguments: signatures, propagation, then the operator.\<close>

definition run_operation :: "nat \<Rightarrow> string \<Rightarrow> tvalue list \<Rightarrow> signature \<Rightarrow> tvalue res" where
  "run_operation prec op values sig =
     rbind (validate_operation_signature op values sig) (\<lambda>_.
       rbind (propagate values sig) (\<lambda>p.
         case p of Some v \<Rightarrow> Inr v | None \<Rightarrow> apply_operation prec op values sig))"

section \<open>The walk\<close>

lemma operation_head_args: "operation_head d = Inr (op, args, sig) \<Longrightarrow> dget d ''arguments'' = JList args"
  by (auto simp: operation_head_def res_simps split: json.splits option.splits if_splits)

lemma operation_head_size:
  assumes "operation_head d = Inr (op, args, sig)"
  shows "size_list size args < size (JObj d)"
  using size_dget [of d "''arguments''"] by (simp add: operation_head_args [OF assms])

function walk :: "eval_env \<Rightarrow> json \<Rightarrow> nat \<Rightarrow> nat \<Rightarrow> (tvalue \<times> nat) res"
  and walk_args :: "eval_env \<Rightarrow> json list \<Rightarrow> nat \<Rightarrow> nat \<Rightarrow> (tvalue list \<times> nat) res" where
  "walk E node depth cnt =
     (let n = cnt + 1 in
      if n > max_expression_nodes \<or> depth > max_expression_depth then fail ''EXPRESSION_LIMIT_EXCEEDED''
      else case node of
        JObj d \<Rightarrow>
          (if dget d ''kind'' = JStr ''LITERAL'' then rbind (walk_literal E d) (\<lambda>v. Inr (v, n))
           else if dget d ''kind'' = JStr ''VARIABLE'' then rbind (walk_variable E d) (\<lambda>v. Inr (v, n))
           else if dget d ''kind'' \<noteq> JStr ''OPERATION'' then fail ''EXPRESSION_SCHEMA_INVALID''
           else rbind (operation_head d) (\<lambda>(op, args, sig).
             rbind (walk_args E args (depth + 1) n) (\<lambda>(values, n').
               rbind (run_operation (ee_prec E) op values sig) (\<lambda>v. Inr (v, n')))))
      | _ \<Rightarrow> fail ''EXPRESSION_SCHEMA_INVALID'')"
| "walk_args E [] depth cnt = Inr ([], cnt)"
| "walk_args E (a # args) depth cnt =
     rbind (walk E a depth cnt) (\<lambda>(v, n).
       rbind (walk_args E args depth n) (\<lambda>(vs, n'). Inr (v # vs, n')))"
  by pat_completeness auto
termination
  by (relation "measure (\<lambda>x. case x of Inl (E, node, depth, n) \<Rightarrow> size node
        | Inr (E, args, depth, n) \<Rightarrow> size_list size args)")
     (auto dest: operation_head_size)

declare walk.simps [simp del]

section \<open>Evaluation\<close>

definition dependencies_valid :: "json list \<Rightarrow> bool res" where
  "dependencies_valid deps =
     (if length deps > max_expression_dependencies then Inr False
      else if \<not> list_all hashable deps then Inl TypeError
      else Inr (distinct deps \<and> list_all (string_matching variable_re) deps))"

fun normalize_variables :: "policy \<Rightarrow> dict \<Rightarrow> (string \<times> tvalue) list res" where
  "normalize_variables p [] = Inr []"
| "normalize_variables p ((name, raw) # vars) =
     rbind (value_from_dict raw name) (\<lambda>v. rbind (normalize_value v p) (\<lambda>w.
       rbind (normalize_variables p vars) (\<lambda>ws. Inr ((name, w) # ws))))"

definition present_result :: "policy \<Rightarrow> tvalue \<Rightarrow> dict res" where
  "present_result p v =
     (if v_state v = ''VALID'' \<and> List.member decimal_types (v_type v) then
        (case v_value v of
           Some (VDec d) \<Rightarrow>
             rbind (quantize_at d p ''RULE_COMPONENT_RESULT'' (v_type v)) (\<lambda>(r, scale).
               rbind (make_valid (VDec r) (sig_of v) (v_sources v)) (\<lambda>w. value_to_dict w (Some scale)))
         | _ \<Rightarrow> Inl AssertionError)
      else value_to_dict v None)"

definition evaluate_eager ::
  "(string \<Rightarrow> string) \<Rightarrow> nat \<Rightarrow> json \<Rightarrow> dict \<Rightarrow> json list \<Rightarrow> json \<Rightarrow> dict res" where
  "evaluate_eager h prec expression variables dependencies policy_doc =
     rbind (validate_rounding_policy h policy_doc True) (\<lambda>p.
       rbind (dependencies_valid dependencies) (\<lambda>ok.
         let deps = map jstr dependencies in
         if \<not> ok then fail ''EXPRESSION_DEPENDENCY_UNDECLARED''
         else if \<not> list_all (\<lambda>x. List.member deps (fst x)) variables
         then fail ''EXPRESSION_DEPENDENCY_UNDECLARED''
         else rbind (normalize_variables p variables) (\<lambda>vars.
           rbind (walk \<lparr>ee_policy = p, ee_deps = deps, ee_vars = vars, ee_prec = prec\<rparr> expression 1 0)
             (\<lambda>(v, n). present_result p v))))"

end
