(* ===== verification/ExprValidation.thy ===== *)
theory ExprValidation imports ExprEager begin

text \<open>
  \<open>finance/_expression_validation.py\<close> and \<open>finance/_expression_limits.py\<close>: the static checks
  of an expression before it runs. The first types the tree with dummy values, the second
  bounds its size and the digits of its integer literals by a policy.
\<close>

section \<open>Static validation of a tree\<close>

definition dummy_value :: "signature \<Rightarrow> tvalue res" where
  "dummy_value sig =
     make_valid (if fst sig = ''BOOLEAN'' then VBool False
                 else if fst sig = ''INTEGER'' then VInt 0 else VDec (Dec False 0 0)) sig []"

definition check_literal :: "dict \<Rightarrow> tvalue res" where
  "check_literal d =
     (if \<not> keys_are d literal_keys then fail ''EXPRESSION_SCHEMA_INVALID''
      else rbind (declared_signature d) (\<lambda>sig.
        rbind
          (if fst sig = ''BOOLEAN'' then
             (case dget d ''value'' of JBool b \<Rightarrow> Inr () | _ \<Rightarrow> fail ''EXPRESSION_TYPE_MISMATCH'')
           else if fst sig = ''INTEGER'' then
             rbind (parse_integer (dget d ''value'') ''EXPRESSION_TYPE_MISMATCH''
                      (Some max_decimal_input_precision)) (\<lambda>_. Inr ())
           else
             rbind (parse_decimal (dget d ''value'') ''EXPRESSION_NON_FINITE_LITERAL''
                      (Some max_decimal_input_precision) (Some max_decimal_input_scale)) (\<lambda>_. Inr ()))
          (\<lambda>_. dummy_value sig)))"

definition check_variable :: "string list \<Rightarrow> dict \<Rightarrow> tvalue res" where
  "check_variable deps d =
     (if \<not> keys_are d variable_keys then fail ''EXPRESSION_SCHEMA_INVALID''
      else if \<not> string_matching variable_re (dget d ''name'') then fail ''EXPRESSION_SCHEMA_INVALID''
      else if \<not> List.member deps (jstr (dget d ''name'')) then fail ''EXPRESSION_DEPENDENCY_UNDECLARED''
      else rbind (declared_signature d) dummy_value)"

function check :: "string list \<Rightarrow> json \<Rightarrow> nat \<Rightarrow> nat \<Rightarrow> (tvalue \<times> nat) res"
  and check_args :: "string list \<Rightarrow> json list \<Rightarrow> nat \<Rightarrow> nat \<Rightarrow> (tvalue list \<times> nat) res" where
  "check deps node depth cnt =
     (let n = cnt + 1 in
      if n > max_expression_nodes \<or> depth > max_expression_depth then fail ''EXPRESSION_LIMIT_EXCEEDED''
      else case node of
        JObj d \<Rightarrow>
          (if dget d ''kind'' = JStr ''LITERAL'' then rbind (check_literal d) (\<lambda>v. Inr (v, n))
           else if dget d ''kind'' = JStr ''VARIABLE'' then rbind (check_variable deps d) (\<lambda>v. Inr (v, n))
           else if dget d ''kind'' \<noteq> JStr ''OPERATION'' then fail ''EXPRESSION_SCHEMA_INVALID''
           else rbind (operation_head d) (\<lambda>(op, args, sig).
             rbind (check_args deps args (depth + 1) n) (\<lambda>(values, n').
               rbind (validate_operation_signature op values sig) (\<lambda>_.
                 rbind (dummy_value sig) (\<lambda>v. Inr (v, n'))))))
      | _ \<Rightarrow> fail ''EXPRESSION_SCHEMA_INVALID'')"
| "check_args deps [] depth cnt = Inr ([], cnt)"
| "check_args deps (a # args) depth cnt =
     rbind (check deps a depth cnt) (\<lambda>(v, n).
       rbind (check_args deps args depth n) (\<lambda>(vs, n'). Inr (v # vs, n')))"
  by pat_completeness auto
termination
  by (relation "measure (\<lambda>x. case x of Inl (deps, node, depth, n) \<Rightarrow> size node
        | Inr (deps, args, depth, n) \<Rightarrow> size_list size args)")
     (auto dest: operation_head_size)

declare check.simps [simp del]

definition validate_expression_ast :: "json \<Rightarrow> json list \<Rightarrow> unit res" where
  "validate_expression_ast expression dependencies =
     rbind (dependencies_valid dependencies) (\<lambda>ok.
       if \<not> ok then fail ''EXPRESSION_DEPENDENCY_UNDECLARED''
       else rbind (check (map jstr dependencies) expression 1 0) (\<lambda>(v, n).
         if \<not> List.member value_types (v_type v) then fail ''EXPRESSION_TYPE_MISMATCH'' else Inr ()))"

section \<open>Limits of a policy\<close>

function limit_walk :: "policy \<Rightarrow> json \<Rightarrow> nat \<Rightarrow> nat \<Rightarrow> nat res"
  and limit_walk_args :: "policy \<Rightarrow> json list \<Rightarrow> nat \<Rightarrow> nat \<Rightarrow> nat res" where
  "limit_walk p node depth cnt =
     (let n = cnt + 1 in
      if n > max_expression_nodes \<or> depth > max_expression_depth then fail ''EXPRESSION_LIMIT_EXCEEDED''
      else case node of
        JObj d \<Rightarrow>
          (if dget d ''kind'' = JStr ''LITERAL'' then
             (if dget d ''value_type'' = JStr ''INTEGER'' then
                rbind (parse_integer (dget d ''value'') ''EXPRESSION_TYPE_MISMATCH''
                         (Some (p_max_precision p))) (\<lambda>_. Inr n)
              else Inr n)
           else if dget d ''kind'' = JStr ''VARIABLE'' then Inr n
           else if dget d ''kind'' \<noteq> JStr ''OPERATION'' then fail ''EXPRESSION_SCHEMA_INVALID''
           else (case dget d ''arguments'' of
               JList args \<Rightarrow> limit_walk_args p args (depth + 1) n
             | _ \<Rightarrow> fail ''EXPRESSION_SCHEMA_INVALID''))
      | _ \<Rightarrow> fail ''EXPRESSION_SCHEMA_INVALID'')"
| "limit_walk_args p [] depth cnt = Inr cnt"
| "limit_walk_args p (a # args) depth cnt =
     rbind (limit_walk p a depth cnt) (limit_walk_args p args depth)"
  by pat_completeness auto
termination
proof (relation "measure (\<lambda>x. case x of Inl (p, node, depth, n) \<Rightarrow> size node
        | Inr (p, args, depth, n) \<Rightarrow> size_list size args)", goal_cases)
  case (2 p node depth cnt n d args)
  then show ?case using size_dget [of d "''arguments''"] by simp
qed auto

declare limit_walk.simps [simp del]

definition validate_expression_policy_limits :: "json \<Rightarrow> policy \<Rightarrow> unit res" where
  "validate_expression_policy_limits expression p = rbind (limit_walk p expression 1 0) (\<lambda>_. Inr ())"

end
