(* ===== verification/ExprLazy.thy ===== *)
theory ExprLazy imports ExprValidation begin

text \<open>
  \<open>finance/_expression_lazy.py\<close>: \<open>IF\<close> with short circuit. \<open>resolve\<close> rewrites the validated
  tree: it evaluates each condition with the eager evaluator and keeps the selected branch
  only; a condition that is not \<open>VALID\<close> is replaced by a synthetic variable that carries its
  state. The closure's mutable variables are the record \<open>lazy_state\<close>.
\<close>

definition synthetic_prefix :: string where
  "synthetic_prefix = ''if_state.''"

record lazy_state =
  ls_vars :: dict
  ls_deps :: "json list"
  ls_condition_sources :: "string list"
  ls_synthetic :: "string list"
  ls_counter :: nat

text \<open>What the evaluation of a condition needs and never changes.\<close>

record lazy_context =
  lc_hash :: "string \<Rightarrow> string"
  lc_prec :: nat
  lc_policy :: json

definition register_nonvalid ::
  "dict \<Rightarrow> json \<Rightarrow> json \<Rightarrow> json \<Rightarrow> lazy_state \<Rightarrow> json \<times> lazy_state" where
  "register_nonvalid doc value_type unit currency s =
     (let name = synthetic_prefix @ nat_text (ls_counter s) in
      (JObj [(''kind'', JStr ''VARIABLE''), (''name'', JStr name), (''value_type'', value_type),
             (''unit'', unit), (''currency'', currency)],
       s\<lparr>ls_counter := ls_counter s + 1, ls_synthetic := name # ls_synthetic s,
         ls_deps := ls_deps s @ [JStr name], ls_vars := dput name (JObj doc) (ls_vars s)\<rparr>))"

definition real_sources :: "dict \<Rightarrow> string list" where
  "real_sources doc =
     filter (\<lambda>s. \<not> starts_with synthetic_prefix s)
       (concat (map (\<lambda>v. case v of JStr s \<Rightarrow> [s] | _ \<Rightarrow> []) (jlist (dget doc ''source_ids''))))"

text \<open>
  What follows the evaluation of a condition: either the synthetic variable of a state that is
  not \<open>VALID\<close> (\<open>Inl\<close>), or the truth value that selects a branch (\<open>Inr\<close>).
\<close>

definition condition_outcome ::
  "dict \<Rightarrow> dict \<Rightarrow> lazy_state \<Rightarrow> ((json \<times> lazy_state) + bool) res" where
  "condition_outcome node condition s =
     (if dget condition ''state'' \<noteq> JStr ''VALID'' then
        (case (dget condition ''state'', dget condition ''reason_code'') of
           (JStr state, JStr reason) \<Rightarrow>
             Inr (Inl (register_nonvalid
               [(''state'', JStr state), (''value'', JNull), (''value_type'', dget node ''value_type''),
                (''unit'', dget node ''unit''), (''currency'', dget node ''currency''),
                (''reason_code'', JStr (''DEPENDENCY_'' @ state @ '':'' @ reason)),
                (''source_ids'', JList (map JStr (real_sources condition)))]
               (dget node ''value_type'') (dget node ''unit'') (dget node ''currency'') s))
         | _ \<Rightarrow> fail ''TYPED_VALUE_MALFORMED'')
      else (case (dget condition ''value_type'' = JStr ''BOOLEAN'', dget condition ''value'') of
           (True, JBool b) \<Rightarrow> Inr (Inr b)
         | _ \<Rightarrow> fail ''EXPRESSION_TYPE_MISMATCH''))"

definition note_sources :: "dict \<Rightarrow> lazy_state \<Rightarrow> lazy_state" where
  "note_sources condition s =
     s\<lparr>ls_condition_sources := real_sources condition @ ls_condition_sources s\<rparr>"

lemma size_arguments:
  assumes "dget d k = JList args"
  shows "size_list size args < size (JObj d)"
  using size_dget [of d k] assms by auto

function resolve :: "lazy_context \<Rightarrow> json \<Rightarrow> lazy_state \<Rightarrow> (json \<times> lazy_state) res"
  and resolve_args :: "lazy_context \<Rightarrow> json list \<Rightarrow> lazy_state \<Rightarrow> (json list \<times> lazy_state) res" where
  "resolve C node s =
     (case node of
        JObj d \<Rightarrow>
          (if dget d ''kind'' \<noteq> JStr ''OPERATION'' then Inr (JObj d, s)
           else case dget d ''arguments'' of
             JList args \<Rightarrow>
               (if dget d ''operator'' \<noteq> JStr ''IF'' then
                  rbind (resolve_args C args s) (\<lambda>(xs, s').
                    Inr (JObj (dput ''arguments'' (JList xs) d), s'))
                else case args of
                  [] \<Rightarrow> Inl IndexError
                | c # branches \<Rightarrow>
                    rbind (resolve C c s) (\<lambda>(ast, s1).
                      rbind (evaluate_eager (lc_hash C) (lc_prec C) ast (ls_vars s1) (ls_deps s1) (lc_policy C))
                        (\<lambda>condition. let s2 = note_sources condition s1 in
                          rbind (condition_outcome d condition s2) (\<lambda>outcome. case outcome of
                            Inl r \<Rightarrow> Inr r
                          | Inr b \<Rightarrow>
                              (case branches of
                                 [] \<Rightarrow> Inl IndexError
                               | t # rest \<Rightarrow>
                                   if b then resolve C t s2
                                   else (case rest of [] \<Rightarrow> Inl IndexError | f # _ \<Rightarrow> resolve C f s2))))))
           | _ \<Rightarrow> fail ''EXPRESSION_SCHEMA_INVALID'')
      | _ \<Rightarrow> fail ''EXPRESSION_SCHEMA_INVALID'')"
| "resolve_args C [] s = Inr ([], s)"
| "resolve_args C (a # args) s =
     rbind (resolve C a s) (\<lambda>(x, s1). rbind (resolve_args C args s1) (\<lambda>(xs, s2). Inr (x # xs, s2)))"
  by pat_completeness auto
termination
  by (relation "measure (\<lambda>x. case x of Inl (C, node, s) \<Rightarrow> size node
        | Inr (C, args, s) \<Rightarrow> size_list size args)") (auto dest: size_arguments)

declare resolve.simps [simp del]

definition initial_lazy :: "dict \<Rightarrow> json list \<Rightarrow> lazy_state" where
  "initial_lazy variables dependencies =
     \<lparr>ls_vars = variables, ls_deps = dependencies, ls_condition_sources = [], ls_synthetic = [],
      ls_counter = 0\<rparr>"

text \<open>\<open>sorted(result_sources | condition_sources)\<close>\<close>

definition final_sources :: "dict \<Rightarrow> lazy_state \<Rightarrow> string list" where
  "final_sources result s =
     sorted_set
       (filter (\<lambda>x. \<not> List.member (ls_synthetic s) x)
          (concat (map (\<lambda>v. case v of JStr t \<Rightarrow> [t] | _ \<Rightarrow> []) (jlist (dget result ''source_ids''))))
        @ ls_condition_sources s)"

definition evaluate_expression ::
  "(string \<Rightarrow> string) \<Rightarrow> nat \<Rightarrow> json \<Rightarrow> json \<Rightarrow> json list \<Rightarrow> json \<Rightarrow> dict res" where
  "evaluate_expression h prec expression variables dependencies policy_doc =
     rbind (validate_expression_ast expression dependencies) (\<lambda>_.
       case variables of
         JObj vars \<Rightarrow>
           rbind (resolve \<lparr>lc_hash = h, lc_prec = prec, lc_policy = policy_doc\<rparr> expression
                    (initial_lazy vars dependencies)) (\<lambda>(transformed, s).
             rbind (evaluate_eager h prec transformed (ls_vars s) (ls_deps s) policy_doc) (\<lambda>result.
               Inr (dput ''source_ids'' (JList (map JStr (final_sources result s))) result)))
       | _ \<Rightarrow> fail ''EXPRESSION_VARIABLES_INVALID'')"

end
