(* ===== verification/Rules.thy ===== *)
theory Rules imports ExprLazy begin

text \<open>
  \<open>finance/_rules.py\<close>: rule documents, the choice of the rule that applies in a context, and
  the evaluation of the chosen rule. A rule stays a document, with sorted keys once it is
  validated; a resolution is the document the resolver seals with its \<open>trace_id\<close>.
\<close>

section \<open>Contexts\<close>

definition context_keys :: "string list" where
  "context_keys = [''organization_id'', ''mode'', ''scenario_id'', ''calculation_instant'',
     ''marketplace_account_id'', ''marketplace'', ''product_id'', ''product_group_id'',
     ''calculation_profile_id'', ''resolved_at'', ''actor'']"

text \<open>\<open>ACTUAL\<close> without a scenario or \<open>SCENARIO\<close> with one; the code for another mode is given.\<close>

definition mode_valid :: "json \<Rightarrow> json \<Rightarrow> string \<Rightarrow> unit res" where
  "mode_valid m scenario code =
     (if m = JStr ''ACTUAL'' then require (scenario = JNull) ''PROFILE_MODE_CONTAMINATION''
      else if m = JStr ''SCENARIO'' then require (is_nonempty_string scenario) ''PROFILE_MODE_CONTAMINATION''
      else fail code)"

definition validate_context :: "json \<Rightarrow> dict res" where
  "validate_context ctx =
     (case ctx of
        JObj d \<Rightarrow>
          if \<not> keys_are d context_keys then fail ''RULE_CONTEXT_INVALID''
          else if \<not> list_all (\<lambda>f. is_nonempty_string (dget d f))
                    [''organization_id'', ''calculation_profile_id'', ''actor'']
          then fail ''RULE_CONTEXT_INVALID''
          else if \<not> list_all (\<lambda>f. dget d f = JNull \<or> is_nonempty_string (dget d f))
                    [''marketplace_account_id'', ''marketplace'', ''product_id'', ''product_group_id'']
          then fail ''RULE_CONTEXT_INVALID''
          else rbind (mode_valid (dget d ''mode'') (dget d ''scenario_id'') ''RULE_CONTEXT_INVALID'') (\<lambda>_.
            rbind (parse_rfc3339 (dget d ''calculation_instant'') ''RULE_CONTEXT_INVALID'') (\<lambda>_.
            rbind (parse_rfc3339 (dget d ''resolved_at'') ''RULE_CONTEXT_INVALID'') (\<lambda>_.
            rbind (clone_json ctx) (\<lambda>c. Inr (jdict c)))))
      | _ \<Rightarrow> fail ''RULE_CONTEXT_INVALID'')"

section \<open>Rule documents\<close>

definition rule_required :: "string list" where
  "rule_required = [''rule_id'', ''version'', ''content_hash'', ''rule_type'', ''scope'', ''method'',
     ''base'', ''unit'', ''currency'', ''dependencies'', ''valid_from'', ''valid_to'', ''priority'',
     ''exclusivity_group'', ''status'', ''source'', ''actor'', ''created_at'', ''change_reason'',
     ''approval_reference'', ''supersedes'']"

definition rule_payloads :: "string list" where
  "rule_payloads = [''value'', ''rate'', ''expression'']"

definition rule_ref :: "dict \<Rightarrow> json" where
  "rule_ref r = JObj [(''rule_id'', dget r ''rule_id''), (''version'', dget r ''version''),
     (''content_hash'', dget r ''content_hash'')]"

definition expected_rule_signature :: "dict \<Rightarrow> signature" where
  "expected_rule_signature r =
     (let unit = jstr (dget r ''unit'') in
      if starts_with ''MONEY'' unit then (''MONEY'', unit, Some (jstr (dget r ''currency'')))
      else if unit = ''RATE'' then (''RATE'', ''RATE'', None)
      else (''DECIMAL'', unit, None))"

definition monetary_units :: "string list" where
  "monetary_units = [''MONEY'', ''MONEY_PER_ITEM'', ''MONEY_PER_ORDER'', ''MONEY_PER_EVENT'',
     ''MONEY_PER_PERIOD'']"

definition expected_payload :: "json \<Rightarrow> string" where
  "expected_payload method_name =
     (if method_name = JStr ''FIXED_VALUE'' then ''value''
      else if method_name = JStr ''RATE'' then ''rate'' else ''expression'')"

text \<open>\<open>value not in {...}\<close> raises \<open>code\<close>, or \<open>TypeError\<close> on a list or a dict.\<close>

definition require_in :: "json \<Rightarrow> string list \<Rightarrow> string \<Rightarrow> unit res" where
  "require_in v names code = rbind (in_names v names) (\<lambda>ok. require ok code)"

definition rule_identity_valid :: "(string \<Rightarrow> string) \<Rightarrow> dict \<Rightarrow> unit res" where
  "rule_identity_valid h r =
     (if \<not> list_all (has_key r) rule_required \<or>
         \<not> list_all (\<lambda>p. List.member (rule_required @ rule_payloads) (fst p)) r
      then fail ''RULE_DOCUMENT_INVALID''
      else if \<not> string_matching id_re (dget r ''rule_id'') then fail ''RULE_DOCUMENT_INVALID''
      else if \<not> is_positive_int (dget r ''version'') then fail ''RULE_DOCUMENT_INVALID''
      else if \<not> string_matching hash_re (dget r ''content_hash'') then fail ''RULE_HASH_MISMATCH''
      else rbind (canonical_hash h r [''content_hash'']) (\<lambda>digest.
        require (JStr digest = dget r ''content_hash'') ''RULE_HASH_MISMATCH''))"

definition rule_kind_valid :: "dict \<Rightarrow> unit res" where
  "rule_kind_valid r =
     rbind (require_in (dget r ''status'')
       [''DRAFT'', ''SHADOW'', ''PILOT'', ''ACTIVE'', ''SUSPENDED'', ''RETIRED''] ''RULE_DOCUMENT_INVALID'') (\<lambda>_.
     rbind (require_in (dget r ''rule_type'')
       [''COST'', ''TAX'', ''OTHER_EXPENSE'', ''ALLOCATION''] ''RULE_DOCUMENT_INVALID'') (\<lambda>_.
     rbind (require_in (dget r ''method'')
       [''FIXED_VALUE'', ''RATE'', ''SAFE_EXPRESSION''] ''RULE_DOCUMENT_INVALID'') (\<lambda>_.
     if filter (has_key r) rule_payloads \<noteq> [expected_payload (dget r ''method'')]
     then fail ''RULE_METHOD_PAYLOAD_MISMATCH''
     else (case dget r ''priority'' of
         JInt i \<Rightarrow> require (- 100000 \<le> i \<and> i \<le> 100000) ''RULE_DOCUMENT_INVALID''
       | _ \<Rightarrow> fail ''RULE_DOCUMENT_INVALID''))))"

definition rule_validity_valid :: "dict \<Rightarrow> unit res" where
  "rule_validity_valid r =
     rbind (parse_rfc3339 (dget r ''valid_from'') ''RULE_VALIDITY_INVALID'') (\<lambda>valid_from.
       if dget r ''valid_to'' = JNull then Inr ()
       else rbind (parse_rfc3339 (dget r ''valid_to'') ''RULE_VALIDITY_INVALID'') (\<lambda>valid_to.
         require (\<not> instant valid_to \<le> instant valid_from) ''RULE_VALIDITY_INVALID''))"

definition rule_provenance_valid :: "dict \<Rightarrow> unit res" where
  "rule_provenance_valid r =
     rbind (parse_rfc3339 (dget r ''created_at'') ''RULE_DOCUMENT_INVALID'') (\<lambda>_.
       require (list_all (\<lambda>f. is_nonempty_string (dget r f)) [''source'', ''actor'', ''change_reason''] \<and>
                approval_valid (dget r ''approval_reference'') \<and>
                supersedes_valid ''rule_id'' (dget r ''supersedes''))
         ''RULE_DOCUMENT_INVALID'')"

definition scope_valid :: "json \<Rightarrow> bool" where
  "scope_valid v = (case v of
     JObj s \<Rightarrow>
       list_all (\<lambda>p. List.member (''organization_id'' # scope_order) (fst p)) s \<and>
       is_nonempty_string (dget s ''organization_id'') \<and>
       list_all (\<lambda>f. has_key s f \<longrightarrow> is_nonempty_string (dget s f)) scope_order \<and>
       \<not> (has_key s ''product_id'' \<and> has_key s ''product_group_id'')
   | _ \<Rightarrow> False)"

definition rule_unit_valid :: "json \<Rightarrow> json \<Rightarrow> unit res" where
  "rule_unit_valid unit currency =
     rbind (in_names unit monetary_units) (\<lambda>monetary.
       if monetary then require (string_matching currency_re currency) ''RULE_CURRENCY_UNIT_MISMATCH''
       else rbind (in_names unit [''RATE'', ''DIMENSIONLESS'']) (\<lambda>plain.
         require (plain \<and> currency = JNull) ''RULE_CURRENCY_UNIT_MISMATCH''))"

text \<open>The checks of a method's payload, after the dependencies are known to be names.\<close>

definition rule_method_valid :: "dict \<Rightarrow> json list \<Rightarrow> unit res" where
  "rule_method_valid r deps =
     (if dget r ''method'' = JStr ''RATE'' then
        (if dget r ''unit'' \<noteq> JStr ''RATE'' \<or> dget r ''currency'' \<noteq> JNull \<or> dget r ''base'' = JStr ''NONE''
         then fail ''RULE_CURRENCY_UNIT_MISMATCH''
         else if length deps \<noteq> 1 then fail ''RULE_DEPENDENCY_UNKNOWN''
         else require (string_matching decimal_re (dget r ''rate'')) ''RULE_RATE_INVALID'')
      else if dget r ''method'' = JStr ''FIXED_VALUE'' then
        require (string_matching decimal_re (dget r ''value'')) ''RULE_VALUE_INVALID''
      else (case dget r ''expression'' of
          JObj e \<Rightarrow> validate_expression_ast (JObj e) deps
        | _ \<Rightarrow> fail ''RULE_UNSAFE_EXPRESSION''))"

definition rule_dependencies_valid :: "dict \<Rightarrow> unit res" where
  "rule_dependencies_valid r =
     (case dget r ''dependencies'' of
        JList deps \<Rightarrow>
          rbind (dependencies_valid deps) (\<lambda>ok.
            if \<not> ok then fail ''RULE_DEPENDENCY_UNKNOWN''
            else rbind (rule_method_valid r deps) (\<lambda>_.
            rbind (require_in (dget r ''base'')
              [''NONE'', ''UNIT'', ''ORDER'', ''EVENT'', ''PERIOD'', ''GROSS_SALES'', ''NET_SALES'',
               ''PAYOUT'', ''PRODUCT_COST'', ''CUSTOM_VARIABLE''] ''RULE_DEPENDENCY_UNKNOWN'') (\<lambda>_.
            require (\<not> (dget r ''base'' = JStr ''CUSTOM_VARIABLE'' \<and> deps = []))
              ''RULE_DEPENDENCY_UNKNOWN'')))
      | _ \<Rightarrow> fail ''RULE_DEPENDENCY_UNKNOWN'')"

definition validate_rule_document :: "(string \<Rightarrow> string) \<Rightarrow> json \<Rightarrow> dict res" where
  "validate_rule_document h rule =
     (case rule of
        JObj r \<Rightarrow>
          rbind (rule_identity_valid h r) (\<lambda>_.
          rbind (rule_kind_valid r) (\<lambda>_.
          rbind (rule_validity_valid r) (\<lambda>_.
          rbind (rule_provenance_valid r) (\<lambda>_.
          rbind (require (scope_valid (dget r ''scope'')) ''RULE_SCOPE_INVALID'') (\<lambda>_.
          rbind (rule_unit_valid (dget r ''unit'') (dget r ''currency'')) (\<lambda>_.
          rbind (rule_dependencies_valid r) (\<lambda>_.
          rbind (require (dget r ''exclusivity_group'' = JNull \<or> is_nonempty_string (dget r ''exclusivity_group''))
            ''RULE_DOCUMENT_INVALID'') (\<lambda>_.
          rbind (clone_json rule) (\<lambda>c. Inr (jdict c))))))))))
      | _ \<Rightarrow> fail ''RULE_DOCUMENT_INVALID'')"

text \<open>The sort key of the resolver: identifier, version, hash.\<close>

definition rule_key :: "dict \<Rightarrow> string \<times> int \<times> string" where
  "rule_key r = (jstr (dget r ''rule_id''), jint (dget r ''version''), jstr (dget r ''content_hash''))"

text \<open>\<open>sorted((_validate_rule_document(rule) for rule in rules), key=...)\<close>\<close>

definition sorted_rules :: "(string \<Rightarrow> string) \<Rightarrow> json \<Rightarrow> dict list res" where
  "sorted_rules h rules =
     (case rules of
        JList xs \<Rightarrow> rbind (rmap (validate_rule_document h) xs) (\<lambda>rs. Inr (sort_key rule_key rs))
      | _ \<Rightarrow> fail ''RULE_DOCUMENT_INVALID'')"

end
