(* ===== verification/RuleResolver.thy ===== *)
theory RuleResolver imports Rules begin

text \<open>
  \<open>finance/_rules.py\<close>, second half: \<open>resolve_rule\<close> ranks the rules that are eligible in a
  context and selects the single best one, or reports a conflict or a missing rule;
  \<open>evaluate_resolved_rule\<close> turns the selected rule into a typed value.
\<close>

section \<open>Eligibility\<close>

text \<open>\<open>f"{field.upper()}_MISMATCH"\<close> for the fields of the scope that differ from the context.\<close>

definition scope_mismatches :: "dict \<Rightarrow> dict \<Rightarrow> string list" where
  "scope_mismatches scope ctx =
     concat (map (\<lambda>f. if has_key scope f \<and> dget scope f \<noteq> dget ctx f
                      then [upper_text f @ ''_MISMATCH''] else [])
       (butlast scope_order))"

definition scenario_exclusion :: "dict \<Rightarrow> dict \<Rightarrow> string list" where
  "scenario_exclusion scope ctx =
     (if dget ctx ''mode'' = JStr ''ACTUAL'' then
        (if dget scope ''scenario_id'' \<noteq> JNull then [''SCENARIO_RULE_EXCLUDED''] else [])
      else if dget scope ''scenario_id'' \<noteq> JNull \<and> dget scope ''scenario_id'' \<noteq> dget ctx ''scenario_id''
      then [''SCENARIO_MISMATCH''] else [])"

definition approved_statuses :: "string list" where
  "approved_statuses = [''SHADOW'', ''PILOT'', ''ACTIVE'']"

text \<open>
  The reasons that exclude a rule, and the start of its validity; \<open>None\<close> as the end of the
  validity is an open interval.
\<close>

definition outside_validity :: "int \<Rightarrow> int \<Rightarrow> int option \<Rightarrow> bool" where
  "outside_validity now start_at end_at \<longleftrightarrow> now < start_at \<or> (case end_at of None \<Rightarrow> False | Some t \<Rightarrow> now \<ge> t)"

definition validity_of :: "dict \<Rightarrow> (int \<times> int option) res" where
  "validity_of r =
     rbind (parse_rfc3339 (dget r ''valid_from'') ''RULE_VALIDITY_INVALID'') (\<lambda>f.
       if dget r ''valid_to'' = JNull then Inr (instant f, None)
       else rbind (parse_rfc3339 (dget r ''valid_to'') ''RULE_VALIDITY_INVALID'') (\<lambda>t.
         Inr (instant f, Some (instant t))))"

definition exclusions :: "dict \<Rightarrow> dict \<Rightarrow> int \<Rightarrow> int \<times> int option \<Rightarrow> string list" where
  "exclusions ctx r now validity =
     (let scope = jdict (dget r ''scope'') in
      (if dget scope ''organization_id'' \<noteq> dget ctx ''organization_id'' then [''ORGANIZATION_MISMATCH''] else [])
      @ (if \<not> List.member approved_statuses (jstr (dget r ''status'')) then [''RULE_NOT_APPROVED''] else [])
      @ (if outside_validity now (fst validity) (snd validity) then [''RULE_OUTSIDE_VALIDITY''] else [])
      @ scenario_exclusion scope ctx
      @ scope_mismatches scope ctx)"

section \<open>Ranking\<close>

text \<open>
  The ordering tuple: which scope fields the rule names, most specific first, then its
  priority, the start of its validity and its version.
\<close>

type_synonym ordering = "nat list \<times> int \<times> int \<times> int"

definition specificity :: "dict \<Rightarrow> nat list" where
  "specificity scope = map (\<lambda>f. if has_key scope f then 1 else 0) scope_order"

definition ordering_of :: "dict \<Rightarrow> int \<Rightarrow> ordering" where
  "ordering_of r valid_from =
     (specificity (jdict (dget r ''scope'')), jint (dget r ''priority''), valid_from, jint (dget r ''version''))"

record candidate =
  c_rule :: dict
  c_exclusions :: "string list"
  c_ordering :: ordering

definition eligible :: "candidate \<Rightarrow> bool" where
  "eligible c \<longleftrightarrow> c_exclusions c = []"

definition candidate_of :: "dict \<Rightarrow> int \<Rightarrow> dict \<Rightarrow> candidate res" where
  "candidate_of ctx now r =
     rbind (validity_of r) (\<lambda>validity.
       Inr \<lparr>c_rule = r, c_exclusions = exclusions ctx r now validity,
            c_ordering = ordering_of r (fst validity)\<rparr>)"

definition ordering_doc :: "dict \<Rightarrow> json" where
  "ordering_doc r = JList
     [JList (map (\<lambda>n. JInt (int n)) (specificity (jdict (dget r ''scope'')))),
      dget r ''priority'', dget r ''valid_from'', dget r ''version'']"

definition candidate_doc :: "candidate \<Rightarrow> bool \<Rightarrow> json" where
  "candidate_doc c chosen = JObj
     [(''rule'', rule_ref (c_rule c)), (''eligible'', JBool (eligible c)), (''selected'', JBool chosen),
      (''exclusion_reasons'', JList (map JStr (sorted_set (c_exclusions c)))),
      (''ordering_tuple'', if eligible c then ordering_doc (c_rule c) else JNull)]"

section \<open>Selection\<close>

text \<open>The groups of the eligible rules; one that occurs twice is an overlap.\<close>

definition exclusivity_overlap :: "candidate list \<Rightarrow> bool" where
  "exclusivity_overlap cs \<longleftrightarrow>
     \<not> distinct (filter (\<lambda>g. g \<noteq> JNull) (map (\<lambda>c. dget (c_rule c) ''exclusivity_group'') (filter eligible cs)))"

definition eligible_rows :: "candidate list \<Rightarrow> (ordering \<times> nat) list" where
  "eligible_rows cs =
     map (\<lambda>(i, c). (c_ordering c, i)) (filter (\<lambda>(i, c). eligible c) (enumerate 0 cs))"

text \<open>\<open>rows.sort(key=..., reverse=True)\<close>: descending and stable.\<close>

definition descending :: "('o::linorder \<times> nat) list \<Rightarrow> ('o \<times> nat) list" where
  "descending rows = rev (sort_key fst (rev rows))"

definition best_rows :: "('o::linorder \<times> nat) list \<Rightarrow> nat list" where
  "best_rows rows =
     (case descending rows of
        [] \<Rightarrow> []
      | r # rs \<Rightarrow> map snd (filter (\<lambda>row. fst row = fst r) (r # rs)))"

text \<open>State, diagnostic and the index of the selected candidate.\<close>

definition decide :: "candidate list \<Rightarrow> string \<times> string option \<times> nat option" where
  "decide cs =
     (if exclusivity_overlap cs then (''CONFLICT'', Some ''RULE_EXCLUSIVITY_OVERLAP'', None)
      else if eligible_rows cs = [] then
        (''BLOCKED'',
         Some (if list_ex (\<lambda>c. sorted_set (c_exclusions c) = [''RULE_NOT_APPROVED'']) cs
               then ''RULE_NOT_APPROVED'' else ''RULE_REQUIRED_MISSING''), None)
      else (case best_rows (eligible_rows cs) of
          [i] \<Rightarrow> (''VALID'', None, Some i)
        | _ \<Rightarrow> (''CONFLICT'', Some ''RULE_RESOLUTION_TIE'', None)))"

definition candidate_docs :: "candidate list \<Rightarrow> nat option \<Rightarrow> json list" where
  "candidate_docs cs chosen = map (\<lambda>(i, c). candidate_doc c (chosen = Some i)) (enumerate 0 cs)"

definition resolver_contract_version :: string where
  "resolver_contract_version = ''quantum-rule-resolver-v1''"

definition resolve_rule :: "(string \<Rightarrow> string) \<Rightarrow> json \<Rightarrow> json \<Rightarrow> dict res" where
  "resolve_rule h rules context_doc =
     rbind (validate_context context_doc) (\<lambda>ctx.
     rbind (sorted_rules h rules) (\<lambda>rs.
     rbind (parse_rfc3339 (dget ctx ''calculation_instant'') ''RULE_CONTEXT_INVALID'') (\<lambda>now.
     rbind (rmap (candidate_of ctx (instant now)) rs) (\<lambda>cs.
     case decide cs of (state, diagnostic, chosen) \<Rightarrow>
     rbind (canonical_hash h ctx []) (\<lambda>context_hash.
       let payload =
         [(''resolver_contract_version'', JStr resolver_contract_version),
          (''context_hash'', JStr context_hash), (''state'', JStr state),
          (''diagnostic_code'', jopt diagnostic), (''candidates'', JList (candidate_docs cs chosen)),
          (''actor'', dget ctx ''actor''), (''resolved_at'', dget ctx ''resolved_at''),
          (''trace_id'', JStr '''')] in
       rbind (canonical_hash h payload [''trace_id'']) (\<lambda>trace.
         Inr (dput ''trace_id'' (JStr trace) payload)))))))"

section \<open>Evaluation of a resolved rule\<close>

definition resolution_keys :: "string list" where
  "resolution_keys = [''resolver_contract_version'', ''context_hash'', ''state'', ''diagnostic_code'',
     ''candidates'', ''actor'', ''resolved_at'', ''trace_id'']"

text \<open>
  The lookup of a rule by its reference: the last of the rules with an equal key, where the
  keys compare as Python's \<open>==\<close> does; an unhashable component raises \<open>TypeError\<close>.
\<close>

definition reference_matches :: "json list \<Rightarrow> dict \<Rightarrow> bool" where
  "reference_matches ref r \<longleftrightarrow>
     list_all2 py_eq ref (map (dget r) [''rule_id'', ''version'', ''content_hash''])"

definition lookup_rule :: "json \<Rightarrow> dict list \<Rightarrow> dict option res" where
  "lookup_rule ref rules =
     (let key = map (dget (jdict ref)) [''rule_id'', ''version'', ''content_hash''] in
      if \<not> list_all hashable key then Inl TypeError
      else Inr (find (reference_matches key) (rev rules)))"

definition is_selected :: "json \<Rightarrow> bool" where
  "is_selected c = (case c of
     JObj d \<Rightarrow> dget d ''eligible'' = JBool True \<and> dget d ''selected'' = JBool True | _ \<Rightarrow> False)"

text \<open>
  The part of the code that reads a resolution: either the non-\<open>VALID\<close> value it stands for,
  or the reference of the selected rule. \<open>str(diagnostic)\<close> is written for a diagnostic that is
  a string, the only kind a resolver writes and the hardened entry point lets through.
\<close>

definition read_resolution :: "(string \<Rightarrow> string) \<Rightarrow> json \<Rightarrow> (dict + json \<times> string) res" where
  "read_resolution h resolution =
     (case resolution of
        JObj d \<Rightarrow>
          rbind (if keys_are d resolution_keys \<and>
                    dget d ''resolver_contract_version'' = JStr resolver_contract_version
                 then in_names (dget d ''state'') [''VALID'', ''BLOCKED'', ''CONFLICT'', ''UNAVAILABLE'']
                 else Inr False) (\<lambda>ok.
          if \<not> ok then fail ''RULE_RESOLUTION_INVALID''
          else if \<not> string_matching hash_re (dget d ''trace_id'') then fail ''RULE_RESOLUTION_TRACE_MISMATCH''
          else rbind (canonical_hash h d [''trace_id'']) (\<lambda>digest.
            if JStr digest \<noteq> dget d ''trace_id'' then fail ''RULE_RESOLUTION_TRACE_MISMATCH''
            else if (dget d ''state'' = JStr ''VALID'') \<noteq> (dget d ''diagnostic_code'' = JNull)
            then fail ''RULE_RESOLUTION_INVALID''
            else (case dget d ''candidates'' of
              JList cs \<Rightarrow>
                if dget d ''state'' \<noteq> JStr ''VALID'' then
                  (if filter is_selected cs \<noteq> [] then fail ''RULE_RESOLUTION_INVALID''
                   else rbind (make_nonvalid (jstr (dget d ''state'')) (''DECIMAL'', ''DIMENSIONLESS'', None)
                                (jstr (dget d ''diagnostic_code'')) [digest]) (\<lambda>v.
                        rbind (value_to_dict v None) (\<lambda>doc. Inr (Inl doc))))
                else (case filter is_selected cs of
                    [c] \<Rightarrow>
                      (case dget (jdict c) ''rule'' of
                         JObj ref \<Rightarrow>
                           if keys_are ref [''rule_id'', ''version'', ''content_hash'']
                           then Inr (Inr (JObj ref, digest)) else fail ''RULE_RESOLUTION_INVALID''
                       | _ \<Rightarrow> fail ''RULE_RESOLUTION_INVALID'')
                  | _ \<Rightarrow> fail ''RULE_RESOLUTION_INVALID'')
            | _ \<Rightarrow> fail ''RULE_RESOLUTION_INVALID'')))
      | _ \<Rightarrow> fail ''RULE_RESOLUTION_INVALID'')"

text \<open>\<open>sorted(set(dependencies) - set(variables))\<close>\<close>

definition missing_dependencies :: "dict \<Rightarrow> dict \<Rightarrow> string list" where
  "missing_dependencies r variables =
     sorted_set (filter (\<lambda>n. \<not> has_key variables n) (map jstr (jlist (dget r ''dependencies''))))"

definition unavailable_dependency :: "dict \<Rightarrow> string \<Rightarrow> string \<Rightarrow> dict res" where
  "unavailable_dependency r name trace =
     rbind (make_nonvalid ''UNAVAILABLE'' (expected_rule_signature r)
              (''RULE_DEPENDENCY_UNAVAILABLE:'' @ name) [trace, jstr (dget r ''content_hash'')])
       (\<lambda>v. value_to_dict v None)"

definition rounded_constant ::
  "policy \<Rightarrow> json \<Rightarrow> string \<Rightarrow> signature \<Rightarrow> string list \<Rightarrow> dict res" where
  "rounded_constant p raw code sig sources =
     rbind (input_decimal raw p code) (\<lambda>x.
     rbind (quantize_at x p ''RULE_COMPONENT_RESULT'' (fst sig)) (\<lambda>(r, scale).
     rbind (make_valid (VDec r) sig sources) (\<lambda>v. value_to_dict v (Some scale))))"

definition value_documents :: "dict \<Rightarrow> (string \<times> tvalue) list res" where
  "value_documents variables =
     rmap (\<lambda>(name, raw). rbind (value_from_dict raw name) (\<lambda>v. Inr (name, v))) variables"

definition run_rule ::
  "(string \<Rightarrow> string) \<Rightarrow> nat \<Rightarrow> policy \<Rightarrow> dict \<Rightarrow> dict \<Rightarrow> string \<Rightarrow> dict res" where
  "run_rule h prec p r variables trace =
     (case missing_dependencies r variables of
        name # others \<Rightarrow> unavailable_dependency r name trace
      | [] \<Rightarrow>
        rbind (value_documents variables) (\<lambda>typed.
          let deps = jlist (dget r ''dependencies'');
              sources = [trace, jstr (dget r ''content_hash'')];
              unit = jstr (dget r ''unit'') in
          if dget r ''method'' = JStr ''SAFE_EXPRESSION'' then
            evaluate_expression h prec (dget r ''expression'')
              (JObj (map (\<lambda>n. (jstr n, dget variables (jstr n))) deps)) deps (p_doc p)
          else if dget r ''method'' = JStr ''FIXED_VALUE'' then
            rounded_constant p (dget r ''value'') ''RULE_VALUE_INVALID''
              (if starts_with ''MONEY'' unit then (''MONEY'', unit, jstr_opt (dget r ''currency''))
               else (''DECIMAL'', unit, None)) sources
          else rbind (rmap (\<lambda>n. case map_of typed (jstr n) of None \<Rightarrow> Inl KeyError | Some v \<Rightarrow> Inr v) deps) (\<lambda>vs.
            rbind (propagate vs (''RATE'', ''RATE'', None)) (\<lambda>propagated. case propagated of
              Some v \<Rightarrow> value_to_dict v None
            | None \<Rightarrow> rounded_constant p (dget r ''rate'') ''RULE_RATE_INVALID'' (''RATE'', ''RATE'', None) sources))))"

definition evaluate_base ::
  "(string \<Rightarrow> string) \<Rightarrow> nat \<Rightarrow> json \<Rightarrow> json list \<Rightarrow> dict \<Rightarrow> json \<Rightarrow> dict res" where
  "evaluate_base h prec resolution rules variables policy_doc =
     rbind (validate_rounding_policy h policy_doc True) (\<lambda>p.
     rbind (rmap (validate_rule_document h) rules) (\<lambda>rs.
     rbind (read_resolution h resolution) (\<lambda>outcome. case outcome of
         Inl doc \<Rightarrow> Inr doc
       | Inr (ref, trace) \<Rightarrow>
           rbind (lookup_rule ref rs) (\<lambda>found. case found of
             None \<Rightarrow> fail ''RULE_REFERENCE_MISSING''
           | Some r \<Rightarrow> run_rule h prec p r variables trace))))"

end
