(* ===== verification/Stores.thy ===== *)
theory Stores imports Prelude begin

text \<open>
  The interfaces of the program's stores, and of the components that change them. A keyed
  cache may forget an entry, but never makes one up; a keyed store forgets nothing. A system
  with an invariant keeps it along every sequence of steps.
\<close>

section \<open>Caches and stores\<close>

locale keyed_cache =
  fixes lookup :: "'k \<Rightarrow> 's \<Rightarrow> 'v option"
    and put :: "'k \<Rightarrow> 'v \<Rightarrow> 's \<Rightarrow> 's"
    and ok :: "'s \<Rightarrow> bool"
  assumes put_ok: "ok s \<Longrightarrow> ok (put k v s)"
    and lookup_put: "ok s \<Longrightarrow> lookup k (put k v s) = Some v"
    and lookup_put_other: "ok s \<Longrightarrow> l \<noteq> k \<Longrightarrow> lookup l (put k v s) = Some w \<Longrightarrow> lookup l s = Some w"
begin

lemma lookup_putD: "ok s \<Longrightarrow> lookup l (put k v s) = Some w \<Longrightarrow> l = k \<and> w = v \<or> lookup l s = Some w"
  by (metis lookup_put lookup_put_other option.inject)

text \<open>Whatever is found was put.\<close>

lemma provenance:
  "ok s \<Longrightarrow> lookup k (fold (\<lambda>(k, v). put k v) kvs s) = Some v \<Longrightarrow> (k, v) \<in> set kvs \<or> lookup k s = Some v"
proof (induction kvs arbitrary: s)
  case (Cons kv kvs)
  obtain l w where kv: "kv = (l, w)" by fastforce
  with Cons.IH [of "put l w s"] Cons.prems put_ok lookup_putD show ?case by fastforce
qed simp

text \<open>A predicate on entries that holds of what is put holds of what is found.\<close>

lemma lookup_all:
  assumes "ok s" and "\<And>l w. lookup l s = Some w \<Longrightarrow> P l w" and "P k v" and "lookup l (put k v s) = Some w"
  shows "P l w"
  using assms lookup_putD by blast

end

locale keyed_store = keyed_cache +
  assumes lookup_kept: "ok s \<Longrightarrow> l \<noteq> k \<Longrightarrow> lookup l (put k v s) = lookup l s"
begin

lemma remembers: "ok s \<Longrightarrow> lookup k s = Some v \<Longrightarrow> \<exists>w. lookup k (put l w' s) = Some w"
  by (metis lookup_kept lookup_put)

lemma remembers_all:
  "ok s \<Longrightarrow> k \<notin> fst ` set kvs \<Longrightarrow> lookup k (fold (\<lambda>(k, v). put k v) kvs s) = lookup k s"
  by (induction kvs arbitrary: s) (auto simp: put_ok lookup_kept)

end

text \<open>Association lists, the model of Python's dicts, are a keyed store.\<close>

interpretation alist: keyed_store "\<lambda>k d. map_of d k" AList.update "\<lambda>d. True"
  by unfold_locales (simp_all add: update_conv')

section \<open>Invariants of transition systems\<close>

locale invariant_system =
  fixes step :: "'s \<Rightarrow> 's \<Rightarrow> bool"
    and inv :: "'s \<Rightarrow> bool"
  assumes step_inv: "inv s \<Longrightarrow> step s t \<Longrightarrow> inv t"
begin

lemma steps_inv: "step\<^sup>*\<^sup>* s t \<Longrightarrow> inv s \<Longrightarrow> inv t"
  by (induction rule: rtranclp_induct) (auto intro: step_inv)

end

text \<open>A system whose history only grows: what was true of an entry stays true.\<close>

locale monotone_system = invariant_system +
  fixes before :: "'s \<Rightarrow> 's \<Rightarrow> bool"
  assumes before_refl: "before s s"
    and before_trans: "before s t \<Longrightarrow> before t u \<Longrightarrow> before s u"
    and step_before: "inv s \<Longrightarrow> step s t \<Longrightarrow> before s t"
begin

lemma steps_before: "step\<^sup>*\<^sup>* s t \<Longrightarrow> inv s \<Longrightarrow> before s t"
proof (induction rule: rtranclp_induct)
  case base
  show ?case by (rule before_refl)
next
  case (step t u)
  then show ?case using steps_inv step_before before_trans by blast
qed

end

end
