(* ===== verification/RulesHardening.thy ===== *)
theory RulesHardening imports RuleResolver Stores begin

text \<open>
  \<open>finance/_rules_hardening.py\<close>: the public resolver. Every resolution it returns is kept in
  a bounded registry with a fingerprint of the rules it was made from; only a resolution the
  registry knows is evaluated. \<open>_TRACES\<close>, an \<open>OrderedDict\<close>, is an association list from the
  oldest entry to the newest, passed and returned explicitly; the lock is not modelled, each
  operation being one step.
\<close>

section \<open>The registry of traces\<close>

type_synonym traces = "(string \<times> dict \<times> string) list"

definition cache_limit :: nat where "cache_limit = 4096"

definition move_to_end :: "string \<Rightarrow> traces \<Rightarrow> traces" where
  "move_to_end k ts = filter (\<lambda>p. fst p \<noteq> k) ts @ filter (\<lambda>p. fst p = k) ts"

text \<open>\<open>while len(_TRACES) > limit: popitem(last=False)\<close>\<close>

fun evict :: "nat \<Rightarrow> traces \<Rightarrow> traces" where
  "evict limit [] = []"
| "evict limit (t # ts) = (if length (t # ts) > limit then evict limit ts else t # ts)"

definition put_trace :: "string \<Rightarrow> dict \<times> string \<Rightarrow> traces \<Rightarrow> traces" where
  "put_trace k v ts = evict cache_limit (move_to_end k (AList.update k v ts))"

definition snapshot :: "(string \<Rightarrow> string) \<Rightarrow> json \<Rightarrow> dict list res" where
  "snapshot h rules = sorted_rules h rules"

definition fingerprint :: "(string \<Rightarrow> string) \<Rightarrow> dict list \<Rightarrow> string res" where
  "fingerprint h rules = canonical_hash h [(''rules'', JList (map JObj rules))] []"

definition register_trace :: "(string \<Rightarrow> string) \<Rightarrow> dict \<Rightarrow> dict list \<Rightarrow> traces \<Rightarrow> traces res" where
  "register_trace h resolution rules ts =
     (case dget resolution ''trace_id'' of
        JStr k \<Rightarrow> rbind (fingerprint h rules) (\<lambda>f. Inr (put_trace k (resolution, f) ts))
      | _ \<Rightarrow> fail ''RULE_RESOLUTION_INVALID'')"

text \<open>A lookup also refreshes the entry it finds.\<close>

definition trusted :: "(string \<Rightarrow> string) \<Rightarrow> dict \<Rightarrow> dict list \<Rightarrow> traces \<Rightarrow> bool res \<times> traces" where
  "trusted h resolution rules ts =
     (case dget resolution ''trace_id'' of
        JStr k \<Rightarrow>
          (case map_of ts k of
             None \<Rightarrow> (Inr False, ts)
           | Some (expected, expected_rules) \<Rightarrow>
               (if \<not> py_eq (JObj resolution) (JObj expected) then Inr False
                else rbind (fingerprint h rules) (\<lambda>f. Inr (f = expected_rules)),
                move_to_end k ts))
      | _ \<Rightarrow> (Inr False, ts))"

section \<open>The envelope of a resolution\<close>

definition candidate_keys :: "string list" where
  "candidate_keys = [''rule'', ''eligible'', ''selected'', ''exclusion_reasons'', ''ordering_tuple'']"

definition is_bool :: "json \<Rightarrow> bool" where
  "is_bool v = (case v of JBool _ \<Rightarrow> True | _ \<Rightarrow> False)"

definition candidate_valid :: "json \<Rightarrow> bool" where
  "candidate_valid c = (case c of
     JObj d \<Rightarrow>
       keys_are d candidate_keys \<and> is_bool (dget d ''eligible'') \<and> is_bool (dget d ''selected'') \<and>
       (case dget d ''rule'' of
          JObj ref \<Rightarrow> keys_are ref [''rule_id'', ''version'', ''content_hash''] | _ \<Rightarrow> False) \<and>
       (case dget d ''exclusion_reasons'' of
          JList xs \<Rightarrow> list_all is_nonempty_string xs | _ \<Rightarrow> False) \<and>
       (dget d ''selected'' = JBool True \<longrightarrow>
          dget d ''eligible'' = JBool True \<and> dget d ''exclusion_reasons'' = JList [] \<and>
          dget d ''ordering_tuple'' \<noteq> JNull)
   | _ \<Rightarrow> False)"

definition marked_selected :: "json \<Rightarrow> bool" where
  "marked_selected c \<longleftrightarrow> dget (jdict c) ''selected'' = JBool True"

definition validate_envelope :: "(string \<Rightarrow> string) \<Rightarrow> json \<Rightarrow> dict res" where
  "validate_envelope h resolution =
     (case resolution of
        JObj d \<Rightarrow>
          if \<not> keys_are d resolution_keys \<or>
             dget d ''resolver_contract_version'' \<noteq> JStr resolver_contract_version
          then fail ''RULE_RESOLUTION_INVALID''
          else rbind (require_in (dget d ''state'') [''VALID'', ''BLOCKED'', ''CONFLICT'', ''UNAVAILABLE'']
                        ''RULE_RESOLUTION_INVALID'') (\<lambda>_.
            if \<not> string_matching hash_re (dget d ''context_hash'') \<or> \<not> string_matching hash_re (dget d ''trace_id'')
               \<or> \<not> is_nonempty_string (dget d ''actor'')
            then fail ''RULE_RESOLUTION_INVALID''
            else rbind (parse_rfc3339 (dget d ''resolved_at'') ''RULE_RESOLUTION_INVALID'') (\<lambda>_.
            rbind (canonical_hash h d [''trace_id'']) (\<lambda>digest.
            if JStr digest \<noteq> dget d ''trace_id'' then fail ''RULE_RESOLUTION_TRACE_MISMATCH''
            else if (dget d ''state'' = JStr ''VALID'') \<noteq> (dget d ''diagnostic_code'' = JNull)
            then fail ''RULE_RESOLUTION_INVALID''
            else (case dget d ''candidates'' of
                JList cs \<Rightarrow>
                  if \<not> list_all candidate_valid cs then fail ''RULE_RESOLUTION_INVALID''
                  else if length (filter marked_selected cs) \<noteq> (if dget d ''state'' = JStr ''VALID'' then 1 else 0)
                  then fail ''RULE_RESOLUTION_INVALID''
                  else Inr d
              | _ \<Rightarrow> fail ''RULE_RESOLUTION_INVALID''))))
      | _ \<Rightarrow> fail ''RULE_RESOLUTION_INVALID'')"

section \<open>The public operations\<close>

definition selected_rule :: "dict \<Rightarrow> dict list \<Rightarrow> dict option res" where
  "selected_rule resolution rules =
     (if dget resolution ''state'' \<noteq> JStr ''VALID'' then Inr None
      else (case find is_selected (jlist (dget resolution ''candidates'')) of
          None \<Rightarrow> Inl (ValueError ''StopIteration'')
        | Some c \<Rightarrow> lookup_rule (dget (jdict c) ''rule'') rules))"

definition hardened_resolve_rule :: "(string \<Rightarrow> string) \<Rightarrow> json \<Rightarrow> json \<Rightarrow> traces \<Rightarrow> (dict \<times> traces) res" where
  "hardened_resolve_rule h rules context_doc ts =
     rbind (snapshot h rules) (\<lambda>rs.
     rbind (resolve_rule h (JList (map JObj rs)) context_doc) (\<lambda>resolution.
     rbind (register_trace h resolution rs ts) (\<lambda>ts'. Inr (resolution, ts'))))"

text \<open>The result of a safe expression carries the resolution and the rule among its sources.\<close>

definition enrich_sources :: "dict \<Rightarrow> string \<Rightarrow> dict \<Rightarrow> dict res" where
  "enrich_sources result trace r =
     (if (dget result ''value_type'', dget result ''unit'', dget result ''currency'') \<noteq>
         (case expected_rule_signature r of (t, u, c) \<Rightarrow> (JStr t, JStr u, jopt c))
      then fail ''RULE_EXPRESSION_SIGNATURE_MISMATCH''
      else (case dget result ''source_ids'' of
          JList xs \<Rightarrow> Inr (dput ''source_ids''
            (JList (map JStr (sorted_set (map jstr xs @ [trace, jstr (dget r ''content_hash'')])))) result)
        | _ \<Rightarrow> fail ''TYPED_VALUE_MALFORMED''))"

definition is_safe_expression :: "dict option \<Rightarrow> bool" where
  "is_safe_expression selected =
     (case selected of None \<Rightarrow> False | Some r \<Rightarrow> dget r ''method'' = JStr ''SAFE_EXPRESSION'')"

definition evaluate_selected ::
  "(string \<Rightarrow> string) \<Rightarrow> json \<Rightarrow> dict list \<Rightarrow> dict option \<Rightarrow> string \<Rightarrow> dict \<Rightarrow> json \<Rightarrow> dict res" where
  "evaluate_selected h resolution rs selected trace variables policy_doc =
     rbind (validate_rounding_policy h policy_doc True) (\<lambda>p.
     rbind (if is_safe_expression selected
            then validate_expression_policy_limits (dget (the selected) ''expression'') p else Inr ()) (\<lambda>_.
     rbind (decimal_context p (int max_expression_nodes)) (\<lambda>prec.
     rbind (evaluate_base h prec resolution (map JObj rs) variables (p_doc p)) (\<lambda>result.
       if is_safe_expression selected then enrich_sources result trace (the selected) else Inr result))))"

definition evaluate_trusted ::
  "(string \<Rightarrow> string) \<Rightarrow> dict \<Rightarrow> dict list \<Rightarrow> dict \<Rightarrow> json \<Rightarrow> dict res" where
  "evaluate_trusted h d rs variables policy_doc =
     rbind (selected_rule d rs) (\<lambda>selected.
       let trace = jstr (dget d ''trace_id'') in
       case selected of
         None \<Rightarrow> evaluate_selected h (JObj d) rs None trace variables policy_doc
       | Some r \<Rightarrow>
           if \<not> List.member approved_statuses (jstr (dget r ''status'')) then fail ''RULE_NOT_APPROVED''
           else (case missing_dependencies r variables of
               name # others \<Rightarrow> unavailable_dependency r name trace
             | [] \<Rightarrow> evaluate_selected h (JObj d) rs (Some r) trace variables policy_doc))"

definition hardened_evaluate ::
  "(string \<Rightarrow> string) \<Rightarrow> json \<Rightarrow> json \<Rightarrow> dict \<Rightarrow> json \<Rightarrow> traces \<Rightarrow> dict res \<times> traces" where
  "hardened_evaluate h resolution rules variables policy_doc ts =
     (case rbind (snapshot h rules) (\<lambda>rs. rbind (validate_envelope h resolution) (\<lambda>d. Inr (rs, d))) of
        Inl e \<Rightarrow> (Inl e, ts)
      | Inr (rs, d) \<Rightarrow>
          (case trusted h d rs ts of (verdict, ts') \<Rightarrow>
             (rbind verdict (\<lambda>ok.
                if \<not> ok then fail ''RULE_RESOLUTION_REPLAY_MISMATCH''
                else evaluate_trusted h d rs variables policy_doc), ts')))"

end
