(* ===== verification/Calculation.thy ===== *)
theory Calculation imports Rounding begin

text \<open>
  \<open>finance/_metrics.py\<close> and \<open>finance/_calculation_{core,expenses,profit}.py\<close>: the formulas of
  the kernel on typed values. Inputs are an association list from metric names to typed values;
  \<open>prec\<close> is the precision of the ambient decimal context.
\<close>

type_synonym inputs = "(string \<times> tvalue) list"

abbreviation (input) item_sig :: signature where
  "item_sig \<equiv> (''INTEGER'', ''ITEM'', None)"

abbreviation (input) money_sig :: "string \<Rightarrow> signature" where
  "money_sig currency \<equiv> (''MONEY'', ''MONEY'', Some currency)"

section \<open>Metrics\<close>

definition validate_ref :: "json \<Rightarrow> string \<Rightarrow> json res" where
  "validate_ref v code =
     (case v of
        JObj d \<Rightarrow>
          if \<not> keys_are d [''id'', ''version'', ''content_hash''] \<or>
             \<not> is_nonempty_string (dget d ''id'') \<or> \<not> is_positive_int (dget d ''version'') \<or>
             \<not> string_matching hash_re (dget d ''content_hash'')
          then fail code else clone_json v
      | _ \<Rightarrow> fail code)"

definition policy_ref :: "policy \<Rightarrow> json" where
  "policy_ref p = JObj [(''id'', JStr (p_id p)), (''version'', JInt (p_version p)),
     (''content_hash'', JStr (p_hash p))]"

definition metric :: "tvalue \<Rightarrow> string \<Rightarrow> string list \<Rightarrow> policy \<Rightarrow> bool \<Rightarrow> json res" where
  "metric v view boundary p final_round =
     rbind
       (if v_state v = ''VALID'' \<and> final_round \<and> List.member decimal_types (v_type v) then
          (case v_value v of
             Some (VDec d) \<Rightarrow>
               rbind (quantize_at d p ''METRIC_FINAL_ACCOUNTING'' (v_type v)) (\<lambda>(r, scale).
               rbind (make_valid (VDec r) (v_signature v) (v_sources v)) (\<lambda>w.
                 Inr (w, Some scale,
                   JObj [(''policy_ref'', policy_ref p),
                         (''application_point'', JStr ''METRIC_FINAL_ACCOUNTING''),
                         (''resolved_mode'', JStr (p_calculation_mode_name p)),
                         (''resolved_scale'', JInt (int scale))])))
           | _ \<Rightarrow> Inl AssertionError)
        else Inr (v, None, JNull))
       (\<lambda>(w, scale, rounding_doc). rbind (value_to_dict w scale) (\<lambda>doc.
          Inr (JObj (doc @ [(''accounting_view'', JStr view),
            (''expense_boundary'', JList (map JStr boundary)), (''rounding'', rounding_doc)]))))"

text \<open>An input with its expected signature; anything else is a \<open>BLOCKED\<close> value.\<close>

definition expect :: "inputs \<Rightarrow> string \<Rightarrow> signature \<Rightarrow> tvalue res" where
  "expect ins name sig =
     (case map_of ins name of
        None \<Rightarrow> make_nonvalid ''BLOCKED'' sig (''INPUT_REQUIRED_MISSING:'' @ name) [name]
      | Some v \<Rightarrow>
          if v_type v \<noteq> fst sig \<or> v_unit v \<noteq> fst (snd sig)
          then make_nonvalid ''BLOCKED'' sig (''INPUT_SIGNATURE_MISMATCH:'' @ name) (v_sources v)
          else if v_currency v \<noteq> snd (snd sig)
          then make_nonvalid ''BLOCKED'' sig (''CURRENCY_MISMATCH:'' @ name) (v_sources v)
          else Inr v)"

text \<open>The loop of \<open>_money_sum\<close>: running total and sources; an ill-typed term ends it.\<close>

fun sum_terms :: "nat \<Rightarrow> string \<Rightarrow> (int \<times> tvalue) list \<Rightarrow> decimal \<Rightarrow> string list \<Rightarrow> tvalue res" where
  "sum_terms prec currency [] acc sources = make_valid (VDec acc) (money_sig currency) sources"
| "sum_terms prec currency ((s, v) # terms) acc sources =
     (if v_type v \<noteq> ''MONEY'' \<or> v_currency v \<noteq> Some currency
      then make_nonvalid ''BLOCKED'' (money_sig currency) ''CURRENCY_OR_TYPE_MISMATCH'' (sources @ v_sources v)
      else case v_value v of
          Some (VDec d) \<Rightarrow>
            sum_terms prec currency terms (dec_add prec acc (dec_mul prec (dec_of_int s) d))
              (sources @ v_sources v)
        | _ \<Rightarrow> Inl AssertionError)"

definition money_sum :: "nat \<Rightarrow> (int \<times> tvalue) list \<Rightarrow> string \<Rightarrow> tvalue res" where
  "money_sum prec terms currency =
     rbind (propagate (map snd terms) (money_sig currency)) (\<lambda>p. case p of
         Some v \<Rightarrow> Inr v
       | None \<Rightarrow> sum_terms prec currency terms (Dec False 0 0) [])"

text \<open>\<open>propagate\<close> first, the computation only on values that are all \<open>VALID\<close>.\<close>

definition unless_propagated :: "tvalue list \<Rightarrow> signature \<Rightarrow> tvalue res \<Rightarrow> tvalue res" where
  "unless_propagated vs sig otherwise =
     rbind (propagate vs sig) (\<lambda>p. case p of Some v \<Rightarrow> Inr v | None \<Rightarrow> otherwise)"

definition int_of_value :: "tvalue \<Rightarrow> int res" where
  "int_of_value v = (case v_value v of Some (VInt i) \<Rightarrow> Inr i | _ \<Rightarrow> Inl AssertionError)"

definition dec_of_value :: "tvalue \<Rightarrow> decimal res" where
  "dec_of_value v = (case v_value v of Some (VDec d) \<Rightarrow> Inr d | _ \<Rightarrow> Inl AssertionError)"

text \<open>\<open>while reason.startswith(prefix): reason = reason[len(prefix):]\<close>, for a prefix that is
  not empty.\<close>

function strip_prefixes :: "string \<Rightarrow> string \<Rightarrow> string" where
  "strip_prefixes prefix reason =
     (if prefix \<noteq> [] \<and> starts_with prefix reason then strip_prefixes prefix (drop (length prefix) reason)
      else reason)"
  by pat_completeness auto
termination
  by (relation "measure (\<lambda>(prefix, reason). length reason)")
     (auto simp: starts_with_iff)

declare strip_prefixes.simps [simp del]

text \<open>\<open>value.reason_code or "..."\<close>\<close>

definition reason_or :: "tvalue \<Rightarrow> string \<Rightarrow> string" where
  "reason_or v otherwise = (case v_reason v of None \<Rightarrow> otherwise | Some r \<Rightarrow> if r = [] then otherwise else r)"

definition primary_reason :: "tvalue \<Rightarrow> string \<Rightarrow> string" where
  "primary_reason v otherwise =
     strip_prefixes (''DEPENDENCY_'' @ v_state v @ '':'') (reason_or v otherwise)"

section \<open>Units and product cost\<close>

definition return_semantics_blocked :: "string list \<Rightarrow> tvalue res" where
  "return_semantics_blocked sources =
     make_nonvalid ''BLOCKED'' item_sig ''RETURN_UNIT_SEMANTICS_INVALID'' sources"

definition preserve_primary_reason :: "tvalue \<Rightarrow> tvalue res" where
  "preserve_primary_reason v =
     make_nonvalid (v_state v) item_sig (primary_reason v ''RETURN_UNIT_SEMANTICS_INVALID'') (v_sources v)"

definition net_units :: "tvalue \<Rightarrow> tvalue \<Rightarrow> tvalue res" where
  "net_units gross returned =
     unless_propagated [gross, returned] item_sig
       (rbind (int_of_value gross) (\<lambda>g. rbind (int_of_value returned) (\<lambda>r.
          let sources = v_sources gross @ v_sources returned in
          if g < 0 \<or> r < 0 \<or> r > g then return_semantics_blocked sources
          else make_valid (VInt (g - r)) item_sig sources)))"

definition cost_units :: "tvalue \<Rightarrow> tvalue \<Rightarrow> tvalue \<Rightarrow> tvalue \<Rightarrow> tvalue res" where
  "cost_units gross returned resalable compensated =
     rbind (propagate [gross, returned, resalable, compensated] item_sig) (\<lambda>p. case p of
         Some v \<Rightarrow> preserve_primary_reason v
       | None \<Rightarrow>
           rbind (int_of_value gross) (\<lambda>g. rbind (int_of_value returned) (\<lambda>r.
           rbind (int_of_value resalable) (\<lambda>s. rbind (int_of_value compensated) (\<lambda>c.
             let sources = v_sources gross @ v_sources returned @ v_sources resalable @ v_sources compensated in
             if g < 0 \<or> r < 0 \<or> s < 0 \<or> c < 0 \<or> r > g \<or> s + c > r
             then return_semantics_blocked sources
             else make_valid (VInt (g - s)) item_sig sources)))))"

definition product_cost :: "nat \<Rightarrow> tvalue \<Rightarrow> tvalue \<Rightarrow> string \<Rightarrow> tvalue res" where
  "product_cost prec units cpu currency =
     (if v_state units \<noteq> ''VALID'' then
        make_nonvalid (v_state units) (money_sig currency)
          (reason_or units ''RETURN_UNIT_SEMANTICS_INVALID'') (v_sources units)
      else if v_signature cpu \<noteq> (''MONEY'', ''MONEY_PER_ITEM'', Some currency) then
        make_nonvalid ''BLOCKED'' (money_sig currency) ''COST_RULE_SIGNATURE_MISMATCH'' (v_sources cpu)
      else unless_propagated [cpu] (money_sig currency)
        (rbind (int_of_value units) (\<lambda>n. rbind (dec_of_value cpu) (\<lambda>c.
           make_valid (VDec (dec_mul prec (dec_of_int n) c)) (money_sig currency)
             (v_sources units @ v_sources cpu)))))"

definition calculate_units_and_product_cost ::
  "nat \<Rightarrow> inputs \<Rightarrow> json \<Rightarrow> policy \<Rightarrow> string \<Rightarrow> (tvalue \<times> tvalue) res" where
  "calculate_units_and_product_cost prec ins cpu_raw p currency =
     rbind (expect ins ''gross_sales_units'' item_sig) (\<lambda>gross.
     rbind (expect ins ''returned_units'' item_sig) (\<lambda>returned.
     rbind (expect ins ''resalable_returned_units'' item_sig) (\<lambda>resalable.
     rbind (expect ins ''compensated_returned_units'' item_sig) (\<lambda>compensated.
     rbind (net_units gross returned) (\<lambda>net.
     rbind (cost_units gross returned resalable compensated) (\<lambda>units.
     rbind (value_from_dict cpu_raw ''cost_per_unit'') (\<lambda>cpu_value.
     rbind (normalize_value cpu_value p) (\<lambda>cpu.
     rbind (product_cost prec units cpu currency) (\<lambda>cost. Inr (net, cost))))))))))"

section \<open>Other expenses\<close>

text \<open>One component: its amount, or (\<open>Inl\<close>) the \<open>BLOCKED\<close> value that ends the computation.\<close>

definition expense_amount ::
  "nat \<Rightarrow> tvalue \<Rightarrow> string \<Rightarrow> tvalue \<Rightarrow> (tvalue + tvalue) res" where
  "expense_amount prec net currency v =
     (if v_type v \<noteq> ''MONEY'' \<or> v_currency v \<noteq> Some currency \<or>
         \<not> List.member [''MONEY'', ''MONEY_PER_ITEM''] (v_unit v)
      then rbind (make_nonvalid ''BLOCKED'' (money_sig currency) ''OTHER_EXPENSE_SIGNATURE_MISMATCH'' (v_sources v))
        (\<lambda>b. Inr (Inl b))
      else if v_unit v = ''MONEY_PER_ITEM'' then
        rbind (unless_propagated [net, v] (money_sig currency)
          (rbind (int_of_value net) (\<lambda>n. rbind (dec_of_value v) (\<lambda>d.
             make_valid (VDec (dec_mul prec (dec_of_int n) d)) (money_sig currency)
               (v_sources net @ v_sources v))))) (\<lambda>a. Inr (Inr a))
      else Inr (Inr v))"

fun expense_terms ::
  "nat \<Rightarrow> json list \<Rightarrow> string list \<Rightarrow> tvalue \<Rightarrow> policy \<Rightarrow> string \<Rightarrow> (tvalue + (int \<times> tvalue) list) res" where
  "expense_terms prec [] seen net p currency = Inr (Inr [])"
| "expense_terms prec (item # items) seen net p currency =
     (case item of
        JObj d \<Rightarrow>
          if \<not> keys_are d [''component_id'', ''value''] then fail ''OTHER_EXPENSE_COMPONENTS_INVALID''
          else let name = jstr (dget d ''component_id'') in
            if \<not> is_nonempty_string (dget d ''component_id'') \<or> List.member seen name
            then fail ''OTHER_EXPENSE_COMPONENTS_INVALID''
            else
              rbind (value_from_dict (dget d ''value'') (''other_expense:'' @ name)) (\<lambda>raw.
              rbind (normalize_value raw p) (\<lambda>v.
              rbind (expense_amount prec net currency v) (\<lambda>amount. case amount of
                  Inl b \<Rightarrow> Inr (Inl b)
                | Inr a \<Rightarrow>
                    rbind (expense_terms prec items (name # seen) net p currency) (\<lambda>rest. case rest of
                        Inl b \<Rightarrow> Inr (Inl b)
                      | Inr terms \<Rightarrow> Inr (Inr ((1, a) # terms))))))
      | _ \<Rightarrow> fail ''OTHER_EXPENSE_COMPONENTS_INVALID'')"

definition calculate_other_expense ::
  "nat \<Rightarrow> json \<Rightarrow> tvalue \<Rightarrow> policy \<Rightarrow> string \<Rightarrow> tvalue res" where
  "calculate_other_expense prec raw net p currency =
     (case raw of
        JList (item # items) \<Rightarrow>
          rbind (expense_terms prec (item # items) [] net p currency) (\<lambda>t. case t of
              Inl b \<Rightarrow> Inr b
            | Inr terms \<Rightarrow> money_sum prec terms currency)
      | _ \<Rightarrow> make_nonvalid ''BLOCKED'' (money_sig currency) ''OTHER_EXPENSE_RULE_REQUIRED_MISSING'' [])"

section \<open>Settlement, tax and profit\<close>

definition dec_zero :: decimal where "dec_zero = Dec False 0 0"

definition validated_return_compensation :: "inputs \<Rightarrow> string \<Rightarrow> tvalue res" where
  "validated_return_compensation ins currency =
     rbind (expect ins ''compensated_returned_units'' item_sig) (\<lambda>units.
     rbind (expect ins ''return_compensation_amount'' (money_sig currency)) (\<lambda>amount.
     unless_propagated [units, amount] (money_sig currency)
       (rbind (int_of_value units) (\<lambda>n. rbind (dec_of_value amount) (\<lambda>a.
          if n < 0 \<or> dec_less a dec_zero \<or> (n = 0 \<and> \<not> dec_eq a dec_zero)
          then make_nonvalid ''BLOCKED'' (money_sig currency) ''RETURN_COMPENSATION_SEMANTICS_INVALID''
                 (v_sources units @ v_sources amount)
          else Inr amount)))))"

definition settlement_ids :: "string list" where
  "settlement_ids = [''gross_sales_amount'', ''discounts_amount'',
     ''subsidies_excluding_return_compensation_amount'', ''marketplace_commission_amount'',
     ''forward_logistics_amount'', ''reverse_logistics_amount'', ''storage_amount'',
     ''advertising_amount'', ''fines_withholdings_amount'']"

definition income_terms :: "tvalue list \<Rightarrow> tvalue \<Rightarrow> (int \<times> tvalue) list" where
  "income_terms vs compensation =
     zip [1, - 1, 1] (take 3 vs) @ [(1, compensation)] @ map (Pair (- 1)) (drop 3 vs)"

definition marketplace_income :: "nat \<Rightarrow> inputs \<Rightarrow> string \<Rightarrow> tvalue res" where
  "marketplace_income prec ins currency =
     rbind (rmap (\<lambda>name. expect ins name (money_sig currency)) settlement_ids) (\<lambda>vs.
     rbind (validated_return_compensation ins currency) (\<lambda>compensation.
       if v_state compensation \<noteq> ''VALID'' then
         make_nonvalid (v_state compensation) (money_sig currency)
           (primary_reason compensation ''RETURN_COMPENSATION_SEMANTICS_INVALID'') (v_sources compensation)
       else money_sum prec (income_terms vs compensation) currency))"

definition tax_amount :: "nat \<Rightarrow> tvalue \<Rightarrow> tvalue option \<Rightarrow> string \<Rightarrow> string \<Rightarrow> tvalue res" where
  "tax_amount prec rate tax_base base_id currency =
     (case tax_base of
        None \<Rightarrow> make_nonvalid ''BLOCKED'' (money_sig currency) (''TAX_BASE_MISSING:'' @ base_id) [base_id]
      | Some b \<Rightarrow>
          if v_signature rate \<noteq> (''RATE'', ''RATE'', None) \<or> v_signature b \<noteq> money_sig currency
          then make_nonvalid ''BLOCKED'' (money_sig currency) ''TAX_RULE_SIGNATURE_MISMATCH''
                 (v_sources rate @ v_sources b)
          else unless_propagated [rate, b] (money_sig currency)
            (rbind (dec_of_value rate) (\<lambda>r. rbind (dec_of_value b) (\<lambda>x.
               make_valid (VDec (dec_mul prec x r)) (money_sig currency) (v_sources rate @ v_sources b)))))"

definition profit_per_unit :: "nat \<Rightarrow> tvalue \<Rightarrow> tvalue \<Rightarrow> string \<Rightarrow> tvalue res" where
  "profit_per_unit prec profit units currency =
     (let sig = (''MONEY'', ''MONEY_PER_ITEM'', Some currency) in
      unless_propagated [profit, units] sig
        (case v_value units of
           Some (VInt n) \<Rightarrow>
             if n \<le> 0 then
               make_nonvalid ''BLOCKED'' sig
                 (if n = 0 then ''ZERO_DENOMINATOR'' else ''NON_POSITIVE_DENOMINATOR'')
                 (v_sources profit @ v_sources units)
             else rbind (dec_of_value profit) (\<lambda>d.
               make_valid (VDec (dec_div prec d (dec_of_int n))) sig (v_sources profit @ v_sources units))
         | _ \<Rightarrow> make_nonvalid ''BLOCKED'' sig ''NON_POSITIVE_DENOMINATOR'' (v_sources profit @ v_sources units)))"

text \<open>The five results in the order of the returned tuple.\<close>

record settlement =
  s_income :: tvalue
  s_tax :: tvalue
  s_profit :: tvalue
  s_ppu :: tvalue
  s_profitability :: tvalue

definition calculate_settlement_tax_profit ::
  "nat \<Rightarrow> inputs \<Rightarrow> json \<Rightarrow> string \<Rightarrow> policy \<Rightarrow> string \<Rightarrow> tvalue \<Rightarrow> tvalue \<Rightarrow> tvalue \<Rightarrow> settlement res" where
  "calculate_settlement_tax_profit prec ins rate_raw base_id p currency net cost other =
     rbind (marketplace_income prec ins currency) (\<lambda>income.
     rbind (value_from_dict rate_raw ''tax_rate'') (\<lambda>rate_value.
     rbind (normalize_value rate_value p) (\<lambda>rate.
     let bases = AList.update ''other_expense_amount'' other (AList.update ''product_cost_amount'' cost
           (AList.update ''net_marketplace_income_amount'' income ins)) in
     rbind (tax_amount prec rate (map_of bases base_id) base_id currency) (\<lambda>tax.
     rbind (money_sum prec [(1, income), (- 1, cost), (- 1, other), (- 1, tax)] currency) (\<lambda>profit.
     rbind (profit_per_unit prec profit net currency) (\<lambda>ppu.
     rbind (make_nonvalid ''BLOCKED'' (''RATE'', ''PERCENT'', None) ''COST_DENOMINATOR_NOT_APPROVED'' []) (\<lambda>share.
       Inr \<lparr>s_income = income, s_tax = tax, s_profit = profit, s_ppu = ppu, s_profitability = share\<rparr>)))))))"

end
