(* ===== verification/Kernel.thy ===== *)
theory Kernel imports RulesHardening Calculation begin

text \<open>
  \<open>finance/_runtime_core.py\<close>, \<open>_runtime_legacy.py\<close> and \<open>runtime.py\<close>: the public boundary.
  \<open>calculate\<close> sanitizes a request, evaluates the metrics in one decimal context and seals the
  result; the guard against a mutated request has no counterpart, documents being values.
\<close>

definition kernel_input_names :: "string list" where
  "kernel_input_names = [''gross_sales_units'', ''returned_units'', ''resalable_returned_units'',
     ''compensated_returned_units'', ''return_compensation_amount''] @ settlement_ids"

definition request_keys :: "string list" where
  "request_keys = [''calculation_id'', ''organization_id'', ''mode'', ''scenario_id'',
     ''calculated_at'', ''profile_ref'', ''profile_status'', ''rounding_policy'', ''currency'',
     ''inputs'', ''cost_per_unit'', ''other_expense_components'', ''tax_rate'', ''tax_base_metric_id'']"

section \<open>Return compensation\<close>

definition units_usable :: "tvalue \<Rightarrow> int option" where
  "units_usable u =
     (if v_state u = ''VALID'' \<and> v_signature u = item_sig
      then (case v_value u of Some (VInt n) \<Rightarrow> Some n | _ \<Rightarrow> None) else None)"

definition prevalidate_return_compensation :: "inputs \<Rightarrow> string \<Rightarrow> inputs res" where
  "prevalidate_return_compensation ins currency =
     (case map_of ins ''return_compensation_amount'' of
        None \<Rightarrow> Inr ins
      | Some amount \<Rightarrow>
          if v_state amount \<noteq> ''VALID'' \<or> v_signature amount \<noteq> money_sig currency then Inr ins
          else (case v_value amount of
              Some (VDec a) \<Rightarrow>
                let units = Option.bind (map_of ins ''compensated_returned_units'')
                      (\<lambda>u. map_option (Pair u) (units_usable u));
                    invalid = (dec_less a dec_zero \<or> (case units of None \<Rightarrow> False
                      | Some (u, n) \<Rightarrow> (n = 0 \<and> \<not> dec_eq a dec_zero) \<or> (n > 0 \<and> \<not> dec_less dec_zero a)));
                    sources = v_sources amount @ (case units of None \<Rightarrow> [] | Some (u, n) \<Rightarrow> v_sources u)
                in if invalid then
                     rbind (make_nonvalid ''BLOCKED'' (money_sig currency)
                       ''RETURN_COMPENSATION_SEMANTICS_INVALID'' sources) (\<lambda>v.
                       Inr (AList.update ''return_compensation_amount'' v ins))
                   else Inr ins
            | _ \<Rightarrow> Inr ins))"

section \<open>Public evaluation of an expression\<close>

definition public_evaluate_expression ::
  "(string \<Rightarrow> string) \<Rightarrow> json \<Rightarrow> json \<Rightarrow> json list \<Rightarrow> json \<Rightarrow> dict res" where
  "public_evaluate_expression h expression variables dependencies policy_doc =
     rbind (validate_rounding_policy h policy_doc True) (\<lambda>p.
     rbind (validate_expression_policy_limits expression p) (\<lambda>_.
     rbind (decimal_context p (int max_expression_nodes)) (\<lambda>prec.
       evaluate_expression h prec expression variables dependencies (p_doc p))))"

section \<open>The request\<close>

definition inputs_valid :: "json \<Rightarrow> bool" where
  "inputs_valid v = (case v of
     JObj d \<Rightarrow> length d \<le> length kernel_input_names \<and>
       list_all (\<lambda>q. List.member kernel_input_names (fst q)) d
   | _ \<Rightarrow> False)"

text \<open>The checks of a request, in their order; they give the profile, the policy and the
  number of expense components that counts for the budget.\<close>

definition validate_request :: "(string \<Rightarrow> string) \<Rightarrow> dict \<Rightarrow> (json \<times> policy \<times> nat) res" where
  "validate_request h r =
     (if \<not> keys_are r request_keys then fail ''KERNEL_REQUEST_INVALID''
      else if \<not> list_all (\<lambda>f. is_nonempty_string (dget r f))
                [''calculation_id'', ''organization_id'', ''tax_base_metric_id'']
      then fail ''KERNEL_REQUEST_INVALID''
      else rbind (mode_valid (dget r ''mode'') (dget r ''scenario_id'') ''KERNEL_REQUEST_INVALID'') (\<lambda>_.
        rbind (require_in (dget r ''profile_status'') [''SHADOW'', ''PILOT''] ''PROFILE_PUBLICATION_BLOCKED'') (\<lambda>_.
        rbind (parse_rfc3339 (dget r ''calculated_at'') ''KERNEL_TIMESTAMP_INVALID'') (\<lambda>_.
        rbind (validate_ref (dget r ''profile_ref'') ''PROFILE_REFERENCE_MISSING'') (\<lambda>profile.
        rbind (validate_rounding_policy h (dget r ''rounding_policy'') True) (\<lambda>p.
        if \<not> string_matching currency_re (dget r ''currency'') then fail ''KERNEL_CURRENCY_INVALID''
        else if \<not> inputs_valid (dget r ''inputs'') then fail ''KERNEL_INPUTS_INVALID''
        else (case dget r ''other_expense_components'' of
            JList xs \<Rightarrow>
              if length xs > max_other_expense_components then fail ''OTHER_EXPENSE_COMPONENTS_INVALID''
              else Inr (profile, p, length xs)
          | _ \<Rightarrow> Inr (profile, p, 1))))))))"

fun parse_inputs :: "dict \<Rightarrow> inputs res" where
  "parse_inputs [] = Inr []"
| "parse_inputs ((name, raw) # rest) =
     rbind (value_from_dict raw name) (\<lambda>v. rbind (parse_inputs rest) (\<lambda>vs. Inr ((name, v) # vs)))"

fun normalize_inputs :: "policy \<Rightarrow> inputs \<Rightarrow> inputs res" where
  "normalize_inputs p [] = Inr []"
| "normalize_inputs p ((name, v) # rest) =
     rbind (normalize_value v p) (\<lambda>w. rbind (normalize_inputs p rest) (\<lambda>ws. Inr ((name, w) # ws)))"

section \<open>The metrics\<close>

definition marketplace_boundary :: "string list" where
  "marketplace_boundary = [''MARKETPLACE_COMMISSION'', ''FORWARD_LOGISTICS'', ''REVERSE_LOGISTICS'',
     ''STORAGE'', ''ADVERTISING'', ''FINES_WITHHOLDINGS'']"

definition profit_boundary :: "string list" where
  "profit_boundary = marketplace_boundary @ [''PRODUCT_COST'', ''OTHER_EXPENSE'', ''TAX'']"

text \<open>Name, value, view, boundary and whether the metric is rounded, in the order of the code.\<close>

definition metric_rows ::
  "tvalue \<Rightarrow> tvalue \<Rightarrow> tvalue \<Rightarrow> settlement \<Rightarrow> (string \<times> tvalue \<times> string \<times> string list \<times> bool) list" where
  "metric_rows net cost other s =
     [(''net_sold_units'', net, ''OPERATIONAL'', [], False),
      (''product_cost_amount'', cost, ''OPERATIONAL'', [''PRODUCT_COST''], True),
      (''other_expense_amount'', other, ''OPERATIONAL'', [''OTHER_EXPENSE''], True),
      (''tax_amount'', s_tax s, ''TAX_RECOGNITION'', [''TAX''], True),
      (''net_marketplace_income_amount'', s_income s, ''SETTLEMENT'', marketplace_boundary, True),
      (''net_profit_amount'', s_profit s, ''SETTLEMENT'', profit_boundary, True),
      (''profit_per_sold_unit'', s_ppu s, ''SETTLEMENT'', profit_boundary, True),
      (''profitability_of_costs'', s_profitability s, ''SETTLEMENT'', [], True)]"

definition metric_docs :: "policy \<Rightarrow> (string \<times> tvalue \<times> string \<times> string list \<times> bool) list \<Rightarrow> dict res" where
  "metric_docs p rows =
     rmap (\<lambda>(name, v, view, boundary, final_round).
       rbind (metric v view boundary p final_round) (\<lambda>doc. Inr (name, doc))) rows"

definition operation_budget :: "dict \<Rightarrow> nat \<Rightarrow> int" where
  "operation_budget raw_inputs expense_count = max 2 (int (length raw_inputs + expense_count + 8))"

definition compute_metrics :: "dict \<Rightarrow> policy \<Rightarrow> nat \<Rightarrow> dict res" where
  "compute_metrics r p expense_count =
     (let currency = jstr (dget r ''currency''); raw_inputs = jdict (dget r ''inputs'') in
      rbind (decimal_context p (operation_budget raw_inputs expense_count)) (\<lambda>prec.
      rbind (parse_inputs raw_inputs) (\<lambda>parsed.
      rbind (prevalidate_return_compensation parsed currency) (\<lambda>checked.
      rbind (normalize_inputs p checked) (\<lambda>ins.
      rbind (calculate_units_and_product_cost prec ins (dget r ''cost_per_unit'') p currency) (\<lambda>(net, cost).
      rbind (calculate_other_expense prec (dget r ''other_expense_components'') net p currency) (\<lambda>other.
      rbind (calculate_settlement_tax_profit prec ins (dget r ''tax_rate'')
               (jstr (dget r ''tax_base_metric_id'')) p currency net cost other) (\<lambda>s.
        metric_docs p (metric_rows net cost other s)))))))))"

section \<open>The result\<close>

definition kernel_schema_version :: string where
  "kernel_schema_version = ''quantum-financial-kernel-result-v1''"

definition publication_state :: string where "publication_state = ''PREVIEW_ONLY''"

definition limitations :: "string list" where
  "limitations = [''SOURCE_AUTHORITY_NOT_ACTIVATED'', ''REAL_COMMERCIAL_DATA_REQUIRES_ADMISSION'',
     ''B2_RECONCILIATION_REQUIRED'', ''EXPENSE_UNITS_PILOT_SCOPE'',
     ''PROFITABILITY_DENOMINATOR_NOT_APPROVED'', ''PRODUCTION_RELEASE_BLOCKED'']"

definition result_payload :: "dict \<Rightarrow> json \<Rightarrow> policy \<Rightarrow> dict \<Rightarrow> string \<Rightarrow> dict" where
  "result_payload r profile p results input_hash =
     [(''schema_version'', JStr kernel_schema_version),
      (''calculation_id'', dget r ''calculation_id''), (''organization_id'', dget r ''organization_id''),
      (''mode'', dget r ''mode''), (''scenario_id'', dget r ''scenario_id''), (''profile_ref'', profile),
      (''rounding_policy_ref'', policy_ref p), (''publication_state'', JStr publication_state),
      (''results'', JObj results), (''limitations'', JList (map JStr limitations)),
      (''calculated_at'', dget r ''calculated_at''), (''input_hash'', JStr input_hash),
      (''result_hash'', JStr '''')]"

definition core_calculate :: "(string \<Rightarrow> string) \<Rightarrow> dict \<Rightarrow> dict res" where
  "core_calculate h r =
     rbind (validate_request h r) (\<lambda>(profile, p, expense_count).
     rbind (compute_metrics r p expense_count) (\<lambda>results.
     rbind (canonical_hash h r []) (\<lambda>input_hash.
       let payload = result_payload r profile p results input_hash in
       rbind (canonical_hash h payload [''result_hash'']) (\<lambda>result_hash.
         Inr (dput ''result_hash'' (JStr result_hash) payload)))))"

text \<open>\<open>_runtime_legacy.calculate\<close> behind \<open>runtime.calculate\<close>.\<close>

definition calculate :: "(string \<Rightarrow> string) \<Rightarrow> json \<Rightarrow> dict res" where
  "calculate h request =
     (case request of
        JObj r \<Rightarrow>
          if \<not> keys_are r request_keys then fail ''KERNEL_REQUEST_INVALID''
          else (case clone_json request of
              Inr (JObj sanitized) \<Rightarrow> core_calculate h sanitized
            | Inr _ \<Rightarrow> fail ''KERNEL_REQUEST_INVALID''
            | Inl (FinanceError _) \<Rightarrow> fail ''KERNEL_REQUEST_INVALID''
            | Inl e \<Rightarrow> Inl e)
      | _ \<Rightarrow> fail ''KERNEL_REQUEST_INVALID'')"

end
