(* ===== verification/ExprSoundness.thy ===== *)
theory ExprSoundness imports ExprLazy begin

text \<open>
  What the expression evaluators guarantee: the eager walk is type sound and never makes a
  number out of a value that is not \<open>VALID\<close>; the static validation is sound for it, so that a
  validated tree evaluates without an exception; the lazy evaluator removes every \<open>IF\<close>, ignores
  the branch it does not select and agrees with the eager one where there is no \<open>IF\<close>.
\<close>

section \<open>The nodes of a tree\<close>

lemma size_arguments_mem: "x \<in> set (jlist (dget d k)) \<Longrightarrow> size x < size (JObj d)"
  using size_dget [of d k] by (auto simp: jlist_def split: json.splits dest!: size_json_list)

function subnodes :: "json \<Rightarrow> json list" where
  "subnodes node = node #
     (case node of
        JObj d \<Rightarrow>
          if dget d ''kind'' = JStr ''OPERATION''
          then concat (map subnodes (jlist (dget d ''arguments''))) else []
      | _ \<Rightarrow> [])"
  by pat_completeness auto
termination
  by (relation "measure size") (auto dest: size_arguments_mem)

declare subnodes.simps [simp del]

lemma subnodes_operation:
  "dget d ''kind'' = JStr ''OPERATION'' \<Longrightarrow> dget d ''arguments'' = JList args \<Longrightarrow>
     subnodes (JObj d) = JObj d # concat (map subnodes args)"
  by (simp add: subnodes.simps [of "JObj d"] jlist_def)

lemma subnodes_leaf: "dget d ''kind'' \<noteq> JStr ''OPERATION'' \<Longrightarrow> subnodes (JObj d) = [JObj d]"
  by (simp add: subnodes.simps [of "JObj d"])

section \<open>Typed values of the operations\<close>

lemma sig_of_v_signature: "sig_of v = v_signature v"
  by (simp add: sig_of_def v_signature_def)

lemma declared_signature_ok: "declared_signature d = Inr sig \<Longrightarrow> signature_ok sig"
  by (auto simp: declared_signature_def dest: validate_signature_Inr)

lemma make_valid_sig: "make_valid x sig sources = Inr v \<Longrightarrow> sig_of v = sig \<and> v_state v = ''VALID'' \<and> tvalue_ok v"
  by (cases sig) (auto simp: make_valid_Inr_iff sig_of_def tvalue_ok_def v_signature_def)

lemma make_valid_total: "signature_ok sig \<Longrightarrow> value_matches (fst sig) x \<Longrightarrow> \<exists>v. make_valid x sig sources = Inr v"
  by (cases sig) (auto simp: make_valid_Inr_iff)

lemma make_nonvalid_sig:
  "make_nonvalid st sig reason sources = Inr v \<Longrightarrow> sig_of v = sig \<and> v_state v = st \<and> st \<noteq> ''VALID'' \<and> tvalue_ok v"
  by (cases sig) (auto simp: make_nonvalid_Inr_iff sig_of_def tvalue_ok_def v_signature_def)

definition valid_number :: "tvalue \<Rightarrow> pyval \<Rightarrow> bool" where
  "valid_number v x \<longleftrightarrow> v_value v = Some x \<and> value_matches (v_type v) x"

lemma valid_value:
  assumes "tvalue_ok v" and "v_state v = ''VALID''"
  obtains x where "valid_number v x"
  using assms by (auto simp: tvalue_ok_def valid_number_def split: option.splits)

lemma propagate_result:
  assumes "propagate vs sig = Inr (Some w)" and "signature_ok sig"
  shows "sig_of w = sig \<and> tvalue_ok w \<and> v_state w \<noteq> ''VALID''"
proof (cases "worst_state vs")
  case None
  with assms(1) show ?thesis using propagate_None [of vs sig] by simp
next
  case (Some s)
  from propagate_Some [OF this assms(2)] assms(1) obtain c where "v_state w = s" "v_signature w = sig" "tvalue_ok w"
    by auto
  then show ?thesis using worst_state_member [OF Some] by (auto simp: sig_of_v_signature)
qed

lemma propagate_Inl: "signature_ok sig \<Longrightarrow> propagate vs sig \<noteq> Inl e"
proof (cases "worst_state vs")
  case None
  then show ?thesis using propagate_None [of vs sig] by simp
next
  case (Some s)
  moreover assume "signature_ok sig"
  ultimately show ?thesis using propagate_Some [OF Some, of sig] by auto
qed

text \<open>A signature accepted for a comparison is the Boolean one.\<close>

lemma apply_operation_sig:
  assumes "validate_operation_signature op vs sig = Inr ()" and "apply_operation prec op vs sig = Inr v"
  shows "sig_of v = sig \<and> tvalue_ok v"
  using assms
  by (auto simp: apply_operation_def validate_operation_signature_def res_simps multiply_def divide_values_def
      select_branch_def split: list.splits if_splits option.splits pyval.splits
      dest!: make_valid_sig make_nonvalid_sig)

lemma run_operation_sig:
  assumes "run_operation prec op vs sig = Inr v" and "signature_ok sig"
  shows "sig_of v = sig \<and> tvalue_ok v"
  using assms
  by (auto simp: run_operation_def res_simps split: option.splits
      dest: apply_operation_sig propagate_result)

lemma run_operation_valid:
  assumes "run_operation prec op vs sig = Inr v" and "signature_ok sig" and "v_state v = ''VALID''"
    and "list_all tvalue_ok vs"
  shows "list_all (\<lambda>v. v_state v = ''VALID'') vs"
proof -
  obtain x where x: "propagate vs sig = Inr x" and v: "case x of Some w \<Rightarrow> w = v | None \<Rightarrow> True"
    using assms(1) by (auto simp: run_operation_def res_simps split: option.splits)
  have "x = None" using v assms(2,3) propagate_result [of vs sig v] x by (cases x) auto
  with x have "worst_state vs = None" by (simp add: propagate_None)
  with worst_state_all_valid [OF assms(4)] show ?thesis by simp
qed

section \<open>Soundness of the walk\<close>

definition env_ok :: "eval_env \<Rightarrow> bool" where
  "env_ok E \<longleftrightarrow> list_all (\<lambda>(name, v). tvalue_ok v) (ee_vars E)"

lemma env_lookup: "env_ok E \<Longrightarrow> map_of (ee_vars E) name = Some v \<Longrightarrow> tvalue_ok v"
  by (auto simp: env_ok_def list_all_iff dest: map_of_SomeD)

lemma walk_literal_sound: "walk_literal E d = Inr v \<Longrightarrow> declared_signature d = Inr (sig_of v) \<and> tvalue_ok v \<and> v_state v = ''VALID''"
  by (auto simp: walk_literal_def res_simps split: json.splits option.splits if_splits dest!: make_valid_sig)

lemma walk_variable_sound:
  "walk_variable E d = Inr v \<Longrightarrow> declared_signature d = Inr (sig_of v) \<and>
     map_of (ee_vars E) (jstr (dget d ''name'')) = Some v"
  by (auto simp: walk_variable_def res_simps sig_of_def Let_def split: option.splits if_splits)

definition variables_valid :: "eval_env \<Rightarrow> json \<Rightarrow> bool" where
  "variables_valid E node \<longleftrightarrow> list_all (\<lambda>x. case x of
     JObj d \<Rightarrow> dget d ''kind'' = JStr ''VARIABLE'' \<longrightarrow>
       (case map_of (ee_vars E) (jstr (dget d ''name'')) of None \<Rightarrow> False | Some a \<Rightarrow> v_state a = ''VALID'')
   | _ \<Rightarrow> True) (subnodes node)"

lemma walk_args_length: "walk_args E args depth n = Inr (vs, n') \<Longrightarrow> length vs = length args"
  by (induction args arbitrary: n vs n') (auto simp: res_simps)

lemma walk_facts:
  "walk E node depth n = Inr (v, n') \<Longrightarrow> env_ok E \<Longrightarrow>
     \<exists>d. node = JObj d \<and> declared_signature d = Inr (sig_of v) \<and> tvalue_ok v \<and>
       n' = n + length (subnodes node) \<and> n' \<le> max_expression_nodes \<and>
       (v_state v = ''VALID'' \<longrightarrow> variables_valid E node)"
  "walk_args E args depth n = Inr (vs, n') \<Longrightarrow> env_ok E \<Longrightarrow>
     list_all tvalue_ok vs \<and> n' = n + length (concat (map subnodes args)) \<and>
       (args = [] \<or> n' \<le> max_expression_nodes) \<and>
       (list_all (\<lambda>v. v_state v = ''VALID'') vs \<longrightarrow> list_all (variables_valid E) args)"
proof (induction E node depth n and E args depth n arbitrary: v n' and vs n' rule: walk_walk_args.induct)
  case (1 E node depth cnt)
  show ?case
  proof (cases node)
    case (JObj d)
    note w = "1.prems"(1) [unfolded JObj, unfolded walk.simps [of E "JObj d"] Let_def json.case]
    show ?thesis
    proof (cases "dget d ''kind'' = JStr ''OPERATION''")
      case True
      then obtain op args sig vs where h: "operation_head d = Inr (op, args, sig)"
        and a: "walk_args E args (depth + 1) (cnt + 1) = Inr (vs, n')"
        and r: "run_operation (ee_prec E) op vs sig = Inr v" and le: "cnt + 1 \<le> max_expression_nodes"
        using w by (auto simp: res_simps split: if_splits prod.splits)
      have lim: "\<not> (max_expression_nodes < cnt + 1 \<or> max_expression_depth < depth)"
        using w by (simp split: if_splits)
      have sig: "declared_signature d = Inr sig" and args: "dget d ''arguments'' = JList args"
        using h by (auto simp: operation_head_def res_simps split: json.splits option.splits if_splits)
      have ok: "signature_ok sig" using sig by (rule declared_signature_ok)
      have IH: "list_all tvalue_ok vs \<and> n' = cnt + 1 + length (concat (map subnodes args)) \<and>
         (args = [] \<or> n' \<le> max_expression_nodes) \<and>
         (list_all (\<lambda>v. v_state v = ''VALID'') vs \<longrightarrow> list_all (variables_valid E) args)"
        using "1.IH" [OF refl _ JObj _ _ _ h refl refl a] lim True "1.prems"(2) by auto
      have sub: "subnodes node = node # concat (map subnodes args)"
        using subnodes_operation [OF True args] JObj by simp
      have vv: "variables_valid E node" if "v_state v = ''VALID''"
        using IH run_operation_valid [OF r ok that] True sub JObj by (auto simp: variables_valid_def list_all_iff)
      show ?thesis using run_operation_sig [OF r ok] IH sig sub JObj le vv by auto
    next
      case False
      then have sub: "subnodes node = [node]" using subnodes_leaf JObj by simp
      show ?thesis
      proof (cases "dget d ''kind'' = JStr ''LITERAL''")
        case True
        with w show ?thesis using walk_literal_sound [of E d] JObj sub
          by (auto simp: res_simps variables_valid_def split: if_splits)
      next
        case ne: False
        with w False have "walk_variable E d = Inr v" "n' = cnt + 1" "cnt + 1 \<le> max_expression_nodes"
          by (auto simp: res_simps split: if_splits)
        then show ?thesis using walk_variable_sound [of E d v] env_lookup [OF "1.prems"(2)] JObj sub
          by (auto simp: variables_valid_def)
      qed
    qed
  qed (use "1.prems"(1) [unfolded walk.simps [of E node] Let_def] in \<open>auto split: if_splits\<close>)
next
  case (3 E a args depth cnt)
  then show ?case by (fastforce simp: res_simps)
qed simp_all


section \<open>Validated operations are total\<close>

lemma raw_value_valid: "valid_number v x \<Longrightarrow> raw_value v = Inr x"
  by (simp add: raw_value_def valid_number_def)

lemma valid_numbers:
  assumes "list_all tvalue_ok vs" and "list_all (\<lambda>v. v_state v = ''VALID'') vs"
  obtains xs where "list_all2 valid_number vs xs"
proof -
  have "\<exists>xs. list_all2 valid_number vs xs"
    using assms
  proof (induction vs)
    case (Cons v vs)
    then obtain x xs where "valid_number v x" "list_all2 valid_number vs xs"
      by (auto elim: valid_value [of v])
    then show ?case by (intro exI [of _ "x # xs"]) simp
  qed (auto intro: exI [of _ "[]"])
  with that show ?thesis by blast
qed

lemma numbers_of_type:
  "list_all2 valid_number vs xs \<Longrightarrow> list_all (\<lambda>v. sig_of v = sig) vs \<Longrightarrow> list_all (value_matches (fst sig)) xs"
  by (induction rule: list_all2_induct) (auto simp: valid_number_def sig_of_def)

lemma rmap_raw_value: "list_all2 valid_number vs xs \<Longrightarrow> rmap raw_value vs = Inr xs"
  by (simp add: rmap_Inr_iff list_all2_mono [of valid_number _ _ "\<lambda>x y. raw_value x = Inr y"] raw_value_valid)

text \<open>The operators keep a numeric type.\<close>

lemma numeric_matches:
  "List.member numeric_types vt \<Longrightarrow> value_matches vt x \<longleftrightarrow>
     (if vt = ''INTEGER'' then \<exists>i. x = VInt i else \<exists>d. x = VDec d)"
  by (cases x) (auto simp: numeric_types_def)

lemma py_add_matches:
  "List.member numeric_types vt \<Longrightarrow> value_matches vt x \<Longrightarrow> value_matches vt y \<Longrightarrow> value_matches vt (py_add prec x y)"
  by (auto simp: numeric_matches split: if_splits)

lemma py_sub_matches:
  "List.member numeric_types vt \<Longrightarrow> value_matches vt x \<Longrightarrow> value_matches vt y \<Longrightarrow> value_matches vt (py_sub prec x y)"
  by (auto simp: numeric_matches split: if_splits)

lemma py_neg_matches:
  "List.member numeric_types vt \<Longrightarrow> value_matches vt x \<Longrightarrow> value_matches vt (py_neg prec x) \<and> value_matches vt (py_abs prec x)"
  by (auto simp: numeric_matches split: if_splits)

lemma foldl_matches:
  assumes "\<And>x y. value_matches vt x \<Longrightarrow> value_matches vt y \<Longrightarrow> value_matches vt (f x y)"
    and "value_matches vt x" and "list_all (value_matches vt) ys"
  shows "value_matches vt (foldl f x ys)"
  using assms(2,3) by (induction ys arbitrary: x) (auto intro: assms(1))

lemma combine_matches:
  assumes "List.member numeric_types vt" and "list_all (value_matches vt) xs" and "2 \<le> length xs"
  shows "\<exists>x. combine prec op xs = Inr x \<and> value_matches vt x"
proof -
  obtain x y ys where xs: "xs = x # y # ys" using assms(3) by (cases xs; cases "tl xs") auto
  have pick: "value_matches vt (py_min x (y # ys))" "value_matches vt (py_max x (y # ys))"
    using assms(2) unfolding xs py_min_def py_max_def by (auto intro!: foldl_matches)
  have add: "value_matches vt (foldl (py_add prec) x (y # ys))"
    using assms(2) unfolding xs by (intro foldl_matches py_add_matches assms(1)) auto
  show ?thesis using assms(2) pick add py_sub_matches [OF assms(1), of x y prec]
    unfolding xs by (auto simp: combine_def)
qed

lemma require_each_same:
  "require_each first vs = Inr () \<longleftrightarrow> list_all (\<lambda>v. sig_of v = first) vs"
  by (induction vs) (auto simp: sig_of_def prod_eq_iff)

lemma arity_ok_cases:
  assumes "arity_ok op n = Some True"
  obtains (comb) "List.member [''ADD'', ''SUBTRACT'', ''MIN'', ''MAX''] op" "2 \<le> n"
    | (neg) "List.member [''NEGATE'', ''ABS''] op" "n = 1"
    | (mul) "op = ''MULTIPLY''" "n = 2" | (div) "op = ''DIVIDE''" "n = 2" | (if_) "op = ''IF''" "n = 3"
    | (cmp) "\<not> List.member [''ADD'', ''SUBTRACT'', ''MIN'', ''MAX'', ''NEGATE'', ''ABS'', ''MULTIPLY'', ''DIVIDE'', ''IF''] op"
        "n = 2"
  using assms by (simp add: arity_ok_def split: if_splits)

lemma signature_combine:
  assumes "List.member [''ADD'', ''SUBTRACT'', ''MIN'', ''MAX''] op" and "validate_operation_signature op vs sig = Inr ()"
  obtains w ws where "vs = w # ws" and "List.member numeric_types (v_type w)" and "sig_of w = sig"
    and "list_all (\<lambda>v. sig_of v = sig) ws"
  using assms by (cases vs) (auto simp: validate_operation_signature_def res_simps require_compatible_def require_each_same
          simp del: List.member_iff list.set split: if_splits)

lemma signature_unary:
  assumes "List.member [''NEGATE'', ''ABS''] op" and "validate_operation_signature op [w] sig = Inr ()"
  shows "List.member numeric_types (v_type w)" and "sig_of w = sig"
proof -
  have "\<not> List.member [''ADD'', ''SUBTRACT'', ''MIN'', ''MAX''] op" using assms(1) by auto
  with assms have "List.member numeric_types (v_type w) \<and> sig_of w = sig"
    by (simp add: validate_operation_signature_def res_simps del: List.member_iff)
  then show "List.member numeric_types (v_type w)" "sig_of w = sig" by simp_all
qed

lemma apply_combine_total:
  assumes v: "validate_operation_signature op vs sig = Inr ()" and ok: "signature_ok sig"
    and xs: "list_all2 valid_number vs xs" and comb: "List.member [''ADD'', ''SUBTRACT'', ''MIN'', ''MAX''] op" "2 \<le> length vs"
  shows "\<exists>v. apply_operation prec op vs sig = Inr v"
proof -
  from signature_combine [OF comb(1) v] obtain w ws where vs: "vs = w # ws"
    and n: "List.member numeric_types (v_type w)"
    and s: "sig_of w = sig" "list_all (\<lambda>v. sig_of v = sig) ws" .
  have "list_all (value_matches (fst sig)) xs"
    using numbers_of_type [OF xs, of sig] s by (simp add: vs)
  moreover have "2 \<le> length xs" using comb xs by (auto dest: list_all2_lengthD)
  moreover have "List.member numeric_types (fst sig)" using n s by (auto simp: sig_of_def)
  ultimately obtain x where "combine prec op xs = Inr x" "value_matches (fst sig) x"
    using combine_matches by blast
  with make_valid_total [OF ok, of x] rmap_raw_value [OF xs] comb(1) show ?thesis
    by (auto simp: apply_operation_def simp del: List.member_iff)
qed

lemma apply_unary_total:
  assumes v: "validate_operation_signature op vs sig = Inr ()" and ok: "signature_ok sig"
    and xs: "list_all2 valid_number vs xs" and neg: "List.member [''NEGATE'', ''ABS''] op" "length vs = 1"
  shows "\<exists>v. apply_operation prec op vs sig = Inr v"
proof -
  from neg obtain w x where vs: "vs = [w]" and x: "valid_number w x"
    using xs by (auto simp: length_Suc_conv list_all2_Cons1)
  note typed = signature_unary [OF neg(1) v [unfolded vs]]
  have "value_matches (fst sig) (if op = ''NEGATE'' then py_neg prec x else py_abs prec x)"
    using py_neg_matches [OF typed(1), of x prec] x typed(2) by (auto simp: valid_number_def sig_of_def)
  then obtain r where r: "make_valid (if op = ''NEGATE'' then py_neg prec x else py_abs prec x) sig (v_sources w) = Inr r"
    using make_valid_total [OF ok] by blast
  have "\<not> List.member [''ADD'', ''SUBTRACT'', ''MIN'', ''MAX''] op" using neg(1) by auto
  with neg(1) x r have "apply_operation prec op vs sig = Inr r"
    by (simp add: apply_operation_def vs valid_number_def del: List.member_iff)
  then show ?thesis by blast
qed

lemma apply_multiply_total:
  assumes v: "validate_operation_signature op vs sig = Inr ()" and ok: "signature_ok sig"
    and xs: "list_all2 valid_number vs xs" and mul: "op = ''MULTIPLY''" "length vs = 2"
  shows "\<exists>v. apply_operation prec op vs sig = Inr v"
proof -
  from mul obtain l r x y where vs: "vs = [l, r]" and xy: "valid_number l x" "valid_number r y"
    using xs by (auto simp: length_Suc_conv numeral_2_eq_2 list_all2_Cons1)
  have m: "multiply_signature l r = Inr sig"
    using v mul by (auto simp: vs validate_operation_signature_def res_simps split: if_splits)
  then have "\<exists>a b. x = VDec a \<and> y = VDec b" "fst sig = ''MONEY'' \<or> fst sig = ''DECIMAL''"
    using xy by (cases x; cases y; auto simp: multiply_signature_def valid_number_def Let_def split: if_splits)+
  then show ?thesis using mul xy make_valid_total [OF ok]
    by (auto simp: apply_operation_def vs multiply_def valid_number_def)
qed

lemma apply_divide_total:
  assumes v: "validate_operation_signature op vs sig = Inr ()" and ok: "signature_ok sig"
    and xs: "list_all2 valid_number vs xs" and div: "op = ''DIVIDE''" "length vs = 2"
  shows "\<exists>v. apply_operation prec op vs sig = Inr v"
proof -
  from div obtain l r x y where vs: "vs = [l, r]" and xy: "valid_number l x" "valid_number r y"
    using xs by (auto simp: length_Suc_conv numeral_2_eq_2 list_all2_Cons1)
  have m: "divide_signature l r = Inr sig"
    using v div by (auto simp: vs validate_operation_signature_def res_simps split: if_splits)
  then have "\<exists>a b. x = VDec a \<and> y = VDec b" "fst sig = ''MONEY'' \<or> fst sig = ''DECIMAL''"
    using xy by (cases x; cases y; auto simp: divide_signature_def valid_number_def Let_def split: if_splits)+
  moreover have "\<exists>u. make_nonvalid ''BLOCKED'' sig ''EXPRESSION_DIVISION_BY_ZERO'' s = Inr u" for s
    using ok by (cases sig) (auto simp: make_nonvalid_Inr_iff state_precedence_def)
  ultimately show ?thesis using div xy make_valid_total [OF ok]
    by (auto simp: apply_operation_def vs divide_values_def valid_number_def)
qed

lemma apply_if_total:
  assumes v: "validate_operation_signature op vs sig = Inr ()" and ok: "signature_ok sig"
    and xs: "list_all2 valid_number vs xs" and if_: "op = ''IF''" "length vs = 3"
  shows "\<exists>v. apply_operation prec op vs sig = Inr v"
proof -
  from if_ obtain c t f x y z where vs: "vs = [c, t, f]" and xyz: "valid_number c x" "valid_number t y" "valid_number f z"
    using xs by (auto simp: length_Suc_conv numeral_3_eq_3 list_all2_Cons1)
  have "v_type c = ''BOOLEAN''" "sig_of t = sig" "sig_of f = sig"
    using v if_ by (auto simp: vs validate_operation_signature_def res_simps require_compatible_def require_each_same
        sig_of_def split: if_splits)
  moreover from this(1) obtain b where "x = VBool b"
    using xyz(1) by (cases x) (auto simp: valid_number_def)
  ultimately show ?thesis using if_ xyz make_valid_total [OF ok]
    by (auto simp: apply_operation_def vs select_branch_def valid_number_def sig_of_def)
qed

lemma apply_comparison_total:
  assumes v: "validate_operation_signature op vs sig = Inr ()" and ok: "signature_ok sig"
    and xs: "list_all2 valid_number vs xs" and cmp: "\<not> List.member [''ADD'', ''SUBTRACT'', ''MIN'', ''MAX'', ''NEGATE'', ''ABS'', ''MULTIPLY'', ''DIVIDE'', ''IF''] op"
    "length vs = 2"
  shows "\<exists>v. apply_operation prec op vs sig = Inr v"
proof -
  from cmp obtain l r x y where vs: "vs = [l, r]" and xy: "valid_number l x" "valid_number r y"
    using xs by (auto simp: length_Suc_conv numeral_2_eq_2 list_all2_Cons1)
  have "signature_ok (''BOOLEAN'', ''BOOLEAN'', None)" by code_simp
  from make_valid_total [OF this] cmp xy show ?thesis
    by (auto simp: apply_operation_def vs raw_value_valid)
qed

lemma apply_operation_total:
  assumes v: "validate_operation_signature op vs sig = Inr ()" and ok: "signature_ok sig"
    and ar: "arity_ok op (length vs) = Some True"
    and tv: "list_all tvalue_ok vs" "list_all (\<lambda>v. v_state v = ''VALID'') vs"
  shows "\<exists>v. apply_operation prec op vs sig = Inr v"
proof -
  obtain xs where xs: "list_all2 valid_number vs xs" using valid_numbers [OF tv] by blast
  from ar show ?thesis
  proof (cases rule: arity_ok_cases)
    case comb
    then show ?thesis by (rule apply_combine_total [OF v ok xs])
  next
    case neg
    then show ?thesis by (rule apply_unary_total [OF v ok xs])
  next
    case mul
    then show ?thesis by (rule apply_multiply_total [OF v ok xs])
  next
    case div
    then show ?thesis by (rule apply_divide_total [OF v ok xs])
  next
    case if_
    then show ?thesis by (rule apply_if_total [OF v ok xs])
  next
    case cmp
    then show ?thesis by (rule apply_comparison_total [OF v ok xs])
  qed
qed

lemma run_operation_total:
  assumes "validate_operation_signature op vs sig = Inr ()" and "signature_ok sig"
    and "arity_ok op (length vs) = Some True" and "list_all tvalue_ok vs"
  shows "\<exists>v. run_operation prec op vs sig = Inr v"
proof (cases "propagate vs sig")
  case (Inl e)
  with propagate_Inl [OF assms(2)] show ?thesis by simp
next
  case (Inr p)
  show ?thesis
  proof (cases p)
    case None
    with Inr have "list_all (\<lambda>v. v_state v = ''VALID'') vs"
      using worst_state_all_valid [OF assms(4)] by (simp add: propagate_None)
    with apply_operation_total [OF assms] Inr None assms(1) show ?thesis by (simp add: run_operation_def)
  next
    case (Some w)
    with Inr assms(1) show ?thesis by (simp add: run_operation_def)
  qed
qed


section \<open>Validated expressions evaluate\<close>

text \<open>The signature of an operation depends on the signatures of its arguments only.\<close>

definition shape :: "tvalue \<Rightarrow> tvalue" where
  "shape v = \<lparr>v_state = [], v_value = None, v_type = v_type v, v_unit = v_unit v, v_currency = v_currency v,
     v_reason = None, v_sources = []\<rparr>"

lemma shape_select [simp]:
  "v_type (shape v) = v_type v" "v_unit (shape v) = v_unit v" "v_currency (shape v) = v_currency v"
  "sig_of (shape v) = sig_of v"
  by (simp_all add: shape_def sig_of_def)

lemma shape_eq: "map sig_of vs = map sig_of ws \<Longrightarrow> map shape vs = map shape ws"
  by (auto simp: list_eq_iff_nth_eq sig_of_def shape_def)

lemma require_each_shape [simp]: "require_each f (map shape vs) = require_each f vs"
  by (induction vs) simp_all

lemma require_compatible_shape:
  "require_compatible (map shape vs) = require_compatible vs"
  by (cases vs) (simp_all add: require_compatible_def)

lemmas require_compatible_shapes = require_compatible_shape [of "[a]" for a, simplified]
  require_compatible_shape [of "[a, b]" for a b, simplified]
  require_compatible_shape [of "[a, b, c]" for a b c, simplified]
  require_compatible_shape [of "a # b # c # d # r" for a b c d r, simplified]

lemma result_signature_shape [simp]:
  "multiply_signature (shape l) (shape r) = multiply_signature l r"
  "divide_signature (shape l) (shape r) = divide_signature l r"
  by (simp_all only: multiply_signature_def divide_signature_def shape_select)

lemma operation_signature_shape:
  "validate_operation_signature op (map shape vs) sig = validate_operation_signature op vs sig"
proof -
  consider "vs = []" | a where "vs = [a]" | a b where "vs = [a, b]" | a b c where "vs = [a, b, c]"
    | a b c d r where "vs = a # b # c # d # r"
    by (metis list.exhaust)
  then show ?thesis
    by cases (simp_all add: validate_operation_signature_def require_compatible_shapes cong: if_cong)
qed

lemma operation_signature_sig:
  "map sig_of vs = map sig_of ws \<Longrightarrow> validate_operation_signature op vs sig = validate_operation_signature op ws sig"
  by (metis operation_signature_shape shape_eq)

definition literal_fits :: "policy \<Rightarrow> json \<Rightarrow> bool" where
  "literal_fits p node = (case node of
     JObj d \<Rightarrow> dget d ''kind'' = JStr ''LITERAL'' \<longrightarrow>
       dget d ''value_type'' \<noteq> JStr ''BOOLEAN'' \<longrightarrow> dget d ''value_type'' \<noteq> JStr ''INTEGER'' \<longrightarrow>
       (case input_decimal (dget d ''value'') p [] of Inl e \<Rightarrow> False | Inr x \<Rightarrow> True)
   | _ \<Rightarrow> True)"

definition variable_supplied :: "eval_env \<Rightarrow> json \<Rightarrow> bool" where
  "variable_supplied E node = (case node of
     JObj d \<Rightarrow> dget d ''kind'' = JStr ''VARIABLE'' \<longrightarrow>
       (case map_of (ee_vars E) (jstr (dget d ''name'')) of None \<Rightarrow> False
        | Some a \<Rightarrow> declared_signature d = Inr (sig_of a))
   | _ \<Rightarrow> True)"

definition supplied :: "eval_env \<Rightarrow> json \<Rightarrow> bool" where
  "supplied E node \<longleftrightarrow> list_all (\<lambda>x. literal_fits (ee_policy E) x \<and> variable_supplied E x) (subnodes node)"

lemma input_decimal_code:
  "input_decimal v p c = Inr x \<longleftrightarrow> input_decimal v p c' = Inr x"
  by (auto simp: input_decimal_def parse_decimal_def res_simps split: json.splits if_splits)

lemma dummy_value_sig: "dummy_value sig = Inr v \<Longrightarrow> sig_of v = sig"
  by (auto simp: dummy_value_def dest: make_valid_sig)

lemma check_literal_walk:
  assumes "check_literal d = Inr dv" and "literal_fits (ee_policy E) (JObj d)" and "dget d ''kind'' = JStr ''LITERAL''"
  shows "\<exists>v. walk_literal E d = Inr v \<and> sig_of v = sig_of dv"
proof -
  from assms(1) obtain sig where keys: "keys_are d literal_keys" and sig: "declared_signature d = Inr sig"
    and dv: "dummy_value sig = Inr dv" by (auto simp: check_literal_def res_simps)
  have ok: "signature_ok sig" by (rule declared_signature_ok [OF sig])
  have ty: "dget d ''value_type'' = JStr (fst sig)"
    using sig by (auto simp: declared_signature_def dest: validate_signature_Inr)
  have goal: "\<exists>v. walk_literal E d = Inr v \<and> sig_of v = sig_of dv"
    if "walk_literal E d = make_valid x sig []" "value_matches (fst sig) x" for x
    using make_valid_total [OF ok that(2)] make_valid_sig dummy_value_sig [OF dv] that(1) by metis
  consider (b) "fst sig = ''BOOLEAN''" | (i) "fst sig = ''INTEGER''" | (d) "fst sig \<noteq> ''BOOLEAN''" "fst sig \<noteq> ''INTEGER''"
    by blast
  then show ?thesis
  proof cases
    case b
    with assms(1) sig keys obtain t where "dget d ''value'' = JBool t"
      by (auto simp: check_literal_def res_simps split: json.splits)
    with b sig keys goal [of "VBool t"] show ?thesis by (simp add: walk_literal_def)
  next
    case i
    with assms(1) sig keys obtain t n where "dget d ''value'' = JStr t" "integer_re t" "py_int t = Some n"
      by (auto simp: check_literal_def parse_integer_def res_simps split: json.splits option.splits if_splits)
    with i sig keys goal [of "VInt n"] show ?thesis by (simp add: walk_literal_def)
  next
    case d
    with assms(2,3) ty obtain x where "input_decimal (dget d ''value'') (ee_policy E) [] = Inr x"
      by (auto simp: literal_fits_def split: sum.splits)
    then have "input_decimal (dget d ''value'') (ee_policy E) ''EXPRESSION_NON_FINITE_LITERAL'' = Inr x"
      using input_decimal_code by blast
    with d sig keys goal [of "VDec x"] show ?thesis by (simp add: walk_literal_def)
  qed
qed

lemma check_variable_walk:
  assumes "check_variable (ee_deps E) d = Inr dv" and "variable_supplied E (JObj d)" and "dget d ''kind'' = JStr ''VARIABLE''"
  shows "\<exists>v. walk_variable E d = Inr v \<and> sig_of v = sig_of dv"
proof -
  from assms(1) obtain sig where sig: "declared_signature d = Inr sig" and "dummy_value sig = Inr dv"
    and c: "keys_are d variable_keys" "string_matching variable_re (dget d ''name'')"
      "List.member (ee_deps E) (jstr (dget d ''name''))" by (auto simp: check_variable_def res_simps)
  from assms(2,3) sig obtain a where "map_of (ee_vars E) (jstr (dget d ''name'')) = Some a" "sig_of a = sig"
    by (auto simp: variable_supplied_def split: option.splits)
  with c sig dummy_value_sig [OF \<open>dummy_value sig = Inr dv\<close>] show ?thesis
    by (auto simp: walk_variable_def Let_def sig_of_def)
qed

lemma check_walk:
  "check deps node depth n = Inr (dv, n') \<Longrightarrow> deps = ee_deps E \<Longrightarrow> env_ok E \<Longrightarrow> supplied E node \<Longrightarrow>
     \<exists>v. walk E node depth n = Inr (v, n') \<and> sig_of v = sig_of dv"
  "check_args deps args depth n = Inr (dvs, n') \<Longrightarrow> deps = ee_deps E \<Longrightarrow> env_ok E \<Longrightarrow>
     list_all (supplied E) args \<Longrightarrow>
     \<exists>vs. walk_args E args depth n = Inr (vs, n') \<and> map sig_of vs = map sig_of dvs"
proof (induction deps node depth n and deps args depth n arbitrary: dv n' and dvs n' rule: check_check_args.induct)
  case (1 deps node depth cnt)
  show ?case
  proof (cases node)
    case (JObj d)
    note w = "1.prems"(1) [unfolded JObj, unfolded check.simps [of deps "JObj d"] Let_def json.case]
    note walk = walk.simps [of E "JObj d" depth cnt, unfolded Let_def json.case]
    have lim: "\<not> (max_expression_nodes < cnt + 1 \<or> max_expression_depth < depth)"
      using w by (simp split: if_splits)
    have self: "literal_fits (ee_policy E) (JObj d)" "variable_supplied E (JObj d)"
      using "1.prems"(4) by (simp_all add: supplied_def JObj subnodes.simps [of "JObj d"])
    show ?thesis
    proof (cases "dget d ''kind'' = JStr ''OPERATION''")
      case True
      then obtain op args sig dvs where h: "operation_head d = Inr (op, args, sig)"
        and a: "check_args deps args (depth + 1) (cnt + 1) = Inr (dvs, n')"
        and r: "validate_operation_signature op dvs sig = Inr ()" and dv: "dummy_value sig = Inr dv"
        using w by (auto simp: res_simps split: if_splits prod.splits)
      have sig: "declared_signature d = Inr sig" and args: "dget d ''arguments'' = JList args"
        and ar: "arity_ok op (length args) = Some True"
        using h by (auto simp: operation_head_def res_simps split: json.splits option.splits if_splits)
      have "list_all (supplied E) args"
        using "1.prems"(4) subnodes_operation [OF True args] by (auto simp: supplied_def JObj list_all_iff)
      then obtain vs where vs: "walk_args E args (depth + 1) (cnt + 1) = Inr (vs, n')" "map sig_of vs = map sig_of dvs"
        using "1.IH" [OF refl _ JObj _ _ _ h refl refl a] lim True "1.prems"(2,3) by auto
      have len: "length vs = length args" using walk_args_length [OF vs(1)] .
      have "list_all tvalue_ok vs" using walk_facts(2) [OF vs(1) "1.prems"(3)] by simp
      moreover have "validate_operation_signature op vs sig = Inr ()"
        using operation_signature_sig [OF vs(2)] r by simp
      ultimately obtain v where v: "run_operation (ee_prec E) op vs sig = Inr v"
        using run_operation_total [of op vs sig] declared_signature_ok [OF sig] ar len by auto
      with run_operation_sig [OF v declared_signature_ok [OF sig]] dummy_value_sig [OF dv]
      have "walk E node depth cnt = Inr (v, n') \<and> sig_of v = sig_of dv"
        using True h vs(1) lim by (simp add: JObj walk)
      then show ?thesis by blast
    next
      case op: False
      show ?thesis
      proof (cases "dget d ''kind'' = JStr ''LITERAL''")
        case True
        with w lim have c: "check_literal d = Inr dv" and n: "n' = cnt + 1"
          by (auto simp: res_simps)
        from check_literal_walk [OF c self(1) True] True n lim show ?thesis
          by (auto simp: JObj walk)
      next
        case False
        with w lim op have k: "dget d ''kind'' = JStr ''VARIABLE''" and c: "check_variable (ee_deps E) d = Inr dv"
          and n: "n' = cnt + 1" using "1.prems"(2) by (auto simp: res_simps split: if_splits)
        from check_variable_walk [OF c self(2) k] k n lim show ?thesis
          by (auto simp: JObj walk)
      qed
    qed
  qed (use "1.prems"(1) [unfolded check.simps [of deps node] Let_def] in \<open>auto split: if_splits\<close>)
next
  case (3 deps a args depth cnt)
  then show ?case by (fastforce simp: res_simps)
qed simp_all


section \<open>What a validated tree contains\<close>

function tree_depth :: "json \<Rightarrow> nat" where
  "tree_depth node = 1 +
     (case node of
        JObj d \<Rightarrow>
          if dget d ''kind'' = JStr ''OPERATION''
          then foldr max (map tree_depth (jlist (dget d ''arguments''))) 0 else 0
      | _ \<Rightarrow> 0)"
  by pat_completeness auto
termination
  by (relation "measure size") (auto dest: size_arguments_mem)

declare tree_depth.simps [simp del]

lemma tree_depth_operation:
  "dget d ''kind'' = JStr ''OPERATION'' \<Longrightarrow> dget d ''arguments'' = JList args \<Longrightarrow>
     tree_depth (JObj d) = 1 + foldr max (map tree_depth args) 0"
  by (simp add: tree_depth.simps [of "JObj d"] jlist_def)

lemma tree_depth_leaf: "dget d ''kind'' \<noteq> JStr ''OPERATION'' \<Longrightarrow> tree_depth (JObj d) = 1"
  by (simp add: tree_depth.simps [of "JObj d"])

text \<open>A literal, a declared variable, or a known operator with at most 16 arguments.\<close>

definition node_allowed :: "string list \<Rightarrow> json \<Rightarrow> bool" where
  "node_allowed deps node = (case node of
     JObj d \<Rightarrow>
       dget d ''kind'' = JStr ''LITERAL'' \<or>
       dget d ''kind'' = JStr ''VARIABLE'' \<and> List.member deps (jstr (dget d ''name'')) \<or>
       dget d ''kind'' = JStr ''OPERATION'' \<and>
         (case dget d ''arguments'' of
            JList args \<Rightarrow> length args \<le> max_expression_arguments \<and>
              arity_ok (jstr (dget d ''operator'')) (length args) = Some True
          | _ \<Rightarrow> False)
   | _ \<Rightarrow> False)"

lemma check_allowed:
  "check deps node depth n = Inr (dv, n') \<Longrightarrow>
     list_all (node_allowed deps) (subnodes node) \<and> n' = n + length (subnodes node) \<and>
     n' \<le> max_expression_nodes \<and> depth + tree_depth node \<le> max_expression_depth + 1"
  "check_args deps args depth n = Inr (dvs, n') \<Longrightarrow>
     list_all (list_all (node_allowed deps)) (map subnodes args) \<and> n' = n + length (concat (map subnodes args)) \<and>
     (args = [] \<or> n' \<le> max_expression_nodes \<and>
        depth + foldr max (map tree_depth args) 0 \<le> max_expression_depth + 1)"
proof (induction deps node depth n and deps args depth n arbitrary: dv n' and dvs n' rule: check_check_args.induct)
  case (1 deps node depth cnt)
  show ?case
  proof (cases node)
    case (JObj d)
    note w = "1.prems"(1) [unfolded JObj, unfolded check.simps [of deps "JObj d"] Let_def json.case]
    have lim: "\<not> (max_expression_nodes < cnt + 1 \<or> max_expression_depth < depth)"
      using w by (simp split: if_splits)
    show ?thesis
    proof (cases "dget d ''kind'' = JStr ''OPERATION''")
      case True
      then obtain op args sig dvs where h: "operation_head d = Inr (op, args, sig)"
        and a: "check_args deps args (depth + 1) (cnt + 1) = Inr (dvs, n')"
        using w by (auto simp: res_simps split: if_splits prod.splits)
      have args: "dget d ''arguments'' = JList args" and "dget d ''operator'' = JStr op"
        "length args \<le> max_expression_arguments" "arity_ok op (length args) = Some True"
        using h by (auto simp: operation_head_def res_simps split: json.splits option.splits if_splits)
      then have "node_allowed deps (JObj d)" using True by (simp add: node_allowed_def jstr_def)
      then show ?thesis
        using "1.IH" [OF refl _ JObj _ _ _ h refl refl a] lim True subnodes_operation [OF True args]
          tree_depth_operation [OF True args] JObj by (auto simp: list_all_iff)
    next
      case False
      then show ?thesis
        using w lim subnodes_leaf [OF False] tree_depth_leaf [OF False] JObj
        by (auto simp: res_simps node_allowed_def check_variable_def split: if_splits)
    qed
  qed (use "1.prems"(1) [unfolded check.simps [of deps node] Let_def] in \<open>auto split: if_splits\<close>)
next
  case (3 deps a args depth cnt)
  then show ?case by (fastforce simp: res_simps)
qed simp_all

section \<open>Lazy evaluation\<close>

definition is_if :: "json \<Rightarrow> bool" where
  "is_if node = (case node of
     JObj d \<Rightarrow> dget d ''kind'' = JStr ''OPERATION'' \<and> dget d ''operator'' = JStr ''IF'' | _ \<Rightarrow> False)"

lemma subnodes_put_arguments:
  "dget d ''kind'' = JStr ''OPERATION'' \<Longrightarrow>
     subnodes (JObj (dput ''arguments'' (JList xs) d)) = JObj (dput ''arguments'' (JList xs) d) # concat (map subnodes xs)"
  by (rule subnodes_operation) simp_all

lemma resolve_if:
  assumes "ExprLazy.resolve C (JObj d) s = Inr r" and "dget d ''kind'' = JStr ''OPERATION''"
    and "dget d ''operator'' = JStr ''IF''" and "dget d ''arguments'' = JList args"
  obtains c branches ast s1 condition where "args = c # branches" and "ExprLazy.resolve C c s = Inr (ast, s1)"
    and "evaluate_eager (lc_hash C) (lc_prec C) ast (ls_vars s1) (ls_deps s1) (lc_policy C) = Inr condition"
    and "condition_outcome d condition (note_sources condition s1) = Inr (Inl r) \<or>
      (\<exists>b. condition_outcome d condition (note_sources condition s1) = Inr (Inr b) \<and>
         (\<exists>t rest. branches = t # rest \<and>
            (b \<and> ExprLazy.resolve C t (note_sources condition s1) = Inr r \<or>
             \<not> b \<and> (\<exists>f others. rest = f # others \<and> ExprLazy.resolve C f (note_sources condition s1) = Inr r))))"
proof -
  note w = assms(1) [unfolded resolve.simps [of C "JObj d"] json.case assms(4)]
  obtain c branches where args: "args = c # branches" using w assms(2,3) by (cases args) auto
  obtain ast s1 condition outcome where
    1: "ExprLazy.resolve C c s = Inr (ast, s1)"
      "evaluate_eager (lc_hash C) (lc_prec C) ast (ls_vars s1) (ls_deps s1) (lc_policy C) = Inr condition"
      "condition_outcome d condition (note_sources condition s1) = Inr outcome"
    and o: "(case outcome of Inl r \<Rightarrow> Inr r | Inr b \<Rightarrow>
       (case branches of [] \<Rightarrow> Inl IndexError
        | t # rest \<Rightarrow> if b then ExprLazy.resolve C t (note_sources condition s1)
           else (case rest of [] \<Rightarrow> Inl IndexError | f # _ \<Rightarrow> ExprLazy.resolve C f (note_sources condition s1)))) = Inr r"
    using w assms(2,3) by (auto simp: args res_simps Let_def)
  show ?thesis
    by (rule that [OF args 1(1,2)]) (use 1(3) o in \<open>cases outcome; auto split: list.splits if_splits\<close>)
qed

lemma condition_outcome_variable:
  "condition_outcome d condition s = Inr (Inl (t, s')) \<Longrightarrow> subnodes t = [t] \<and> \<not> is_if t"
  by (auto simp: condition_outcome_def register_nonvalid_def Let_def subnodes_leaf is_if_def dget_Cons
      split: json.splits bool.splits if_splits)

lemma resolve_no_if:
  "ExprLazy.resolve C node s = Inr (t, s') \<Longrightarrow> list_all (\<lambda>x. \<not> is_if x) (subnodes t)"
  "resolve_args C args s = Inr (ts, s') \<Longrightarrow> list_all (\<lambda>t. list_all (\<lambda>x. \<not> is_if x) (subnodes t)) ts"
proof (induction C node s and C args s arbitrary: t s' and ts s' rule: resolve_resolve_args.induct)
  case (1 C node s)
  show ?case
  proof (cases node)
    case (JObj d)
    note w = "1.prems"(1) [unfolded JObj, unfolded resolve.simps [of C "JObj d"] json.case]
    show ?thesis
    proof (cases "dget d ''kind'' = JStr ''OPERATION''")
      case True
      with w obtain args where args: "dget d ''arguments'' = JList args" by (auto split: json.splits)
      show ?thesis
      proof (cases "dget d ''operator'' = JStr ''IF''")
        case op: True
        from resolve_if [OF "1.prems"(1) [unfolded JObj] True op args]
        obtain c branches ast s1 condition where i: "args = c # branches" "ExprLazy.resolve C c s = Inr (ast, s1)"
            "evaluate_eager (lc_hash C) (lc_prec C) ast (ls_vars s1) (ls_deps s1) (lc_policy C) = Inr condition"
          and o: "condition_outcome d condition (note_sources condition s1) = Inr (Inl (t, s')) \<or>
            (\<exists>b. condition_outcome d condition (note_sources condition s1) = Inr (Inr b) \<and>
               (\<exists>x rest. branches = x # rest \<and>
                  (b \<and> ExprLazy.resolve C x (note_sources condition s1) = Inr (t, s') \<or>
                   \<not> b \<and> (\<exists>f others. rest = f # others \<and> ExprLazy.resolve C f (note_sources condition s1) = Inr (t, s')))))" .
        from o show ?thesis
        proof (elim disjE exE conjE)
          assume "condition_outcome d condition (note_sources condition s1) = Inr (Inl (t, s'))"
          then show ?thesis using condition_outcome_variable by simp
        next
          fix b x rest assume "condition_outcome d condition (note_sources condition s1) = Inr (Inr b)"
            and "branches = x # rest" "b" "ExprLazy.resolve C x (note_sources condition s1) = Inr (t, s')"
          then show ?thesis using "1.IH"(3) [OF JObj _ args _ i(1,2) refl i(3) refl] True op by simp
        next
          fix b x rest f others assume "condition_outcome d condition (note_sources condition s1) = Inr (Inr b)"
            and "branches = x # rest" "\<not> b" "rest = f # others"
            and "ExprLazy.resolve C f (note_sources condition s1) = Inr (t, s')"
          then show ?thesis using "1.IH"(4) [OF JObj _ args _ i(1,2) refl i(3) refl] True op by simp
        qed
      next
        case op: False
        from w True args op obtain xs where xs: "resolve_args C args s = Inr (xs, s')"
          and t: "t = JObj (dput ''arguments'' (JList xs) d)" by (auto simp: res_simps)
        have "list_all (\<lambda>t. list_all (\<lambda>x. \<not> is_if x) (subnodes t)) xs"
          using "1.IH"(1) [OF JObj _ args op xs] True by simp
        then show ?thesis using op True by (auto simp: t subnodes_put_arguments list_all_iff is_if_def)
      qed
    next
      case False
      with w have "t = JObj d" by simp
      with False show ?thesis by (simp add: subnodes_leaf is_if_def)
    qed
  qed (use "1.prems"(1) [unfolded resolve.simps [of C node]] in auto)
next
  case (3 C a args s)
  then show ?case by (fastforce simp: res_simps)
qed simp_all

text \<open>A tree without \<open>IF\<close> is left as it is.\<close>

lemma dput_same: "map_of d k = Some v \<Longrightarrow> dput k v d = d"
  by (induction d) auto

lemma dput_dget: "dget d k = v \<Longrightarrow> v \<noteq> JNull \<Longrightarrow> dput k v d = d"
  by (auto simp: dget_def dput_same split: option.splits)

lemma resolve_identity:
  "list_all (\<lambda>x. node_allowed deps x \<and> \<not> is_if x) (subnodes node) \<Longrightarrow> ExprLazy.resolve C node s = Inr (node, s)"
  "list_all (\<lambda>a. list_all (\<lambda>x. node_allowed deps x \<and> \<not> is_if x) (subnodes a)) args \<Longrightarrow>
     resolve_args C args s = Inr (args, s)"
proof (induction C node s and C args s rule: resolve_resolve_args.induct)
  case (1 C node s)
  have n: "node_allowed deps node" "\<not> is_if node"
    using "1.prems" by (simp_all add: subnodes.simps [of node])
  then obtain d where d: "node = JObj d" by (auto simp: node_allowed_def split: json.splits)
  show ?case
  proof (cases "dget d ''kind'' = JStr ''OPERATION''")
    case True
    with n d obtain args where args: "dget d ''arguments'' = JList args" and op: "dget d ''operator'' \<noteq> JStr ''IF''"
      by (auto simp: node_allowed_def is_if_def split: json.splits)
    have "resolve_args C args s = Inr (args, s)"
      using "1.IH"(1) [OF d _ args op] True "1.prems" subnodes_operation [OF True args] d by (auto simp: list_all_iff)
    with True args op show ?thesis by (simp add: d resolve.simps [of C "JObj d"] dput_dget)
  next
    case False
    then show ?thesis by (simp add: d resolve.simps [of C "JObj d"])
  qed
qed simp_all

lemma present_result_sources:
  assumes "present_result p v = Inr doc" and "tvalue_ok v"
  shows "dget doc ''source_ids'' = JList (map JStr (v_sources v)) \<and> v_sources v = sorted_set (v_sources v)"
proof -
  have "v_sources v = sorted_set (v_sources v)" using assms(2) by (simp add: tvalue_ok_def)
  with assms(1) show ?thesis
    by (cases "sig_of v") (auto simp: present_result_def value_to_dict_def res_simps make_valid_Inr_iff dget_Cons
        split: option.splits pyval.splits if_splits prod.splits)
qed

lemma normalize_value_ok: "normalize_value v p = Inr w \<Longrightarrow> tvalue_ok v \<Longrightarrow> tvalue_ok w"
  by (auto simp: normalize_value_def res_simps split: option.splits pyval.splits if_splits dest: make_valid_ok)

lemma normalize_variables_ok:
  "normalize_variables p vars = Inr ws \<Longrightarrow> list_all (\<lambda>(name, v). tvalue_ok v) ws"
proof (induction p vars arbitrary: ws rule: normalize_variables.induct)
  case (2 p name raw vars)
  then obtain v w us where v: "value_from_dict raw name = Inr v" "normalize_value v p = Inr w"
    and us: "normalize_variables p vars = Inr us" "ws = (name, w) # us" by (auto simp: res_simps)
  have "tvalue_ok w" using normalize_value_ok [OF v(2) value_from_dict_ok [OF v(1)]] .
  with 2(1) [OF v us(1)] us(2) show ?case by simp
qed simp

lemma evaluate_eager_value:
  assumes "evaluate_eager h prec expression variables dependencies policy_doc = Inr doc"
  obtains p vars v n where "normalize_variables p variables = Inr vars"
    and "walk \<lparr>ee_policy = p, ee_deps = map jstr dependencies, ee_vars = vars, ee_prec = prec\<rparr> expression 1 0 = Inr (v, n)"
    and "env_ok \<lparr>ee_policy = p, ee_deps = map jstr dependencies, ee_vars = vars, ee_prec = prec\<rparr>"
    and "present_result p v = Inr doc" and "tvalue_ok v"
proof -
  from assms obtain p vars v n where *: "normalize_variables p variables = Inr vars"
      "walk \<lparr>ee_policy = p, ee_deps = map jstr dependencies, ee_vars = vars, ee_prec = prec\<rparr> expression 1 0 = Inr (v, n)"
      "present_result p v = Inr doc"
    by (auto simp: evaluate_eager_def res_simps Let_def split: prod.splits)
  have "env_ok \<lparr>ee_policy = p, ee_deps = map jstr dependencies, ee_vars = vars, ee_prec = prec\<rparr>"
    using normalize_variables_ok [OF *(1)] by (simp add: env_ok_def)
  with * walk_facts(1) [OF *(2)] that show ?thesis by blast
qed


lemma variables_validD:
  assumes "variables_valid E node" and "JObj d \<in> set (subnodes node)" and "dget d ''kind'' = JStr ''VARIABLE''"
  shows "\<exists>a. map_of (ee_vars E) (jstr (dget d ''name'')) = Some a \<and> v_state a = ''VALID''"
  using assms unfolding variables_valid_def list_all_iff
  by (auto dest!: bspec [where x = "JObj d"] split: option.splits)

section \<open>Examples\<close>

text \<open>\<open>x + 2\<close> and \<open>if true then 2 else x\<close> over a small environment, with a policy document and a
  constant hash.\<close>

definition demo_integer :: "string \<Rightarrow> json" where
  "demo_integer text = JObj [(''kind'', JStr ''LITERAL''), (''value'', JStr text),
     (''value_type'', JStr ''INTEGER''), (''currency'', JNull), (''unit'', JStr ''ITEM'')]"

definition demo_true :: json where
  "demo_true = JObj [(''kind'', JStr ''LITERAL''), (''value'', JBool True),
     (''value_type'', JStr ''BOOLEAN''), (''currency'', JNull), (''unit'', JStr ''BOOLEAN'')]"

definition demo_x :: dict where
  "demo_x = [(''kind'', JStr ''VARIABLE''), (''name'', JStr ''x''),
     (''value_type'', JStr ''INTEGER''), (''currency'', JNull), (''unit'', JStr ''ITEM'')]"

definition demo_operation :: "string \<Rightarrow> json list \<Rightarrow> dict" where
  "demo_operation op args = [(''kind'', JStr ''OPERATION''), (''operator'', JStr op),
     (''value_type'', JStr ''INTEGER''), (''currency'', JNull), (''unit'', JStr ''ITEM''), (''arguments'', JList args)]"

definition demo_sum :: json where
  "demo_sum = JObj (demo_operation ''ADD'' [JObj demo_x, demo_integer ''2''])"

definition demo_env :: eval_env where
  "demo_env = \<lparr>ee_policy = demo_policy, ee_deps = [''x''],
     ee_vars = [(''x'', \<lparr>v_state = ''VALID'', v_value = Some (VInt 5), v_type = ''INTEGER'', v_unit = ''ITEM'',
       v_currency = None, v_reason = None, v_sources = [''x'']\<rparr>)], ee_prec = 9\<rparr>"

definition demo_hash :: "string \<Rightarrow> string" where
  "demo_hash text = replicate 64 CHR ''a''"

definition demo_policy_doc :: dict where
  "demo_policy_doc = [(''policy_id'', JStr ''P''), (''version'', JInt 1), (''content_hash'', JStr (demo_hash [])),
     (''status'', JStr ''PILOT''), (''calculation_mode'', JStr ''HALF_UP''), (''calculation_scale'', JInt 1),
     (''money_scale'', JInt 1), (''rate_scale'', JInt 1), (''presentation_mode'', JStr ''HALF_UP''),
     (''presentation_scale'', JInt 1), (''currency_presentation_scales'', JObj []),
     (''application_points'', JList (map JStr accounting_points)), (''max_input_precision'', JInt 2),
     (''max_input_scale'', JInt 1), (''actor'', JStr ''A''), (''created_at'', JStr ''2026-01-01T00:00:00Z''),
     (''source'', JStr ''S''), (''change_reason'', JStr ''R''), (''approval_reference'', JNull), (''supersedes'', JNull)]"

definition demo_context :: lazy_context where
  "demo_context = \<lparr>lc_hash = demo_hash, lc_prec = 9, lc_policy = JObj demo_policy_doc\<rparr>"

definition demo_condition :: dict where
  "demo_condition = [(''state'', JStr ''VALID''), (''value'', JBool True), (''value_type'', JStr ''BOOLEAN''),
     (''unit'', JStr ''BOOLEAN''), (''currency'', JNull), (''reason_code'', JNull), (''source_ids'', JList [])]"

section \<open>Properties\<close>

text \<open>
  C37: the evaluator of expressions is type sound. From well-formed variables it returns a
  well-formed value with the signature the root node declares, having counted every node of
  the tree once and at most 128 of them.
\<close>

theorem walk_type_soundness:
  assumes "walk E node 1 0 = Inr (v, n)" and "env_ok E"
  shows "tvalue_ok v \<and> n = length (subnodes node) \<and> n \<le> 128 \<and>
    (\<exists>d. node = JObj d \<and> declared_signature d = Inr (v_type v, v_unit v, v_currency v))"
  using walk_facts(1) [OF assms] by (auto simp: sig_of_def max_expression_nodes_def)

theorem walk_type_soundness_witness:
  "\<exists>v. walk demo_env demo_sum 1 0 = Inr (v, 3) \<and> v_value v = Some (VInt 7) \<and> tvalue_ok v \<and>
     3 = length (subnodes demo_sum)"
proof -
  have w: "walk demo_env demo_sum 1 0 = Inr (\<lparr>v_state = ''VALID'', v_value = Some (VInt 7), v_type = ''INTEGER'',
      v_unit = ''ITEM'', v_currency = None, v_reason = None, v_sources = [''x'']\<rparr>, 3)"
    and ok: "env_ok demo_env" by code_simp+
  from walk_type_soundness [OF w ok] w show ?thesis by auto
qed

text \<open>
  C36: no number is invented. When the eager evaluator, run on a whole tree in a well-formed
  environment, returns a \<open>VALID\<close> value, every variable that occurs anywhere in that tree was
  supplied and \<open>VALID\<close>: a missing, empty, blocked or conflicting input never turns into a zero.
  The lazy evaluator runs it on the tree that is left once the branches that no \<open>IF\<close> selects are
  dropped, so there the claim is about the tree that is left.
\<close>

theorem valid_result_needs_valid_variables:
  assumes "walk E node 1 0 = Inr (v, n)" and "env_ok E" and "v_state v = ''VALID''"
    and "JObj d \<in> set (subnodes node)" and "dget d ''kind'' = JStr ''VARIABLE''"
  shows "\<exists>a. map_of (ee_vars E) (jstr (dget d ''name'')) = Some a \<and> v_state a = ''VALID''"
  using walk_facts(1) [OF assms(1,2)] assms(3-5) variables_validD by blast

theorem valid_result_needs_valid_variables_witness:
  "\<exists>a. map_of (ee_vars demo_env) ''x'' = Some a \<and> v_state a = ''VALID''"
proof -
  have w: "walk demo_env demo_sum 1 0 = Inr (\<lparr>v_state = ''VALID'', v_value = Some (VInt 7), v_type = ''INTEGER'',
      v_unit = ''ITEM'', v_currency = None, v_reason = None, v_sources = [''x'']\<rparr>, 3)"
    and ok: "env_ok demo_env" and x: "JObj demo_x \<in> set (subnodes demo_sum)" by code_simp+
  have "\<exists>a. map_of (ee_vars demo_env) (jstr (dget demo_x ''name'')) = Some a \<and> v_state a = ''VALID''"
    by (rule valid_result_needs_valid_variables [OF w ok _ x]) code_simp+
  then show ?thesis by (simp add: demo_x_def dget_Cons jstr_def)
qed

text \<open>
  C35: validated expressions do not go wrong. If the static check accepts a tree, the environment
  is well-formed and supplies its variables with the declared signatures, and its literals fit
  the policy, the eager evaluator returns a value of the checked signature; no exception is raised.
\<close>

theorem checked_expression_evaluates:
  assumes "check (ee_deps E) node 1 0 = Inr (dv, n)" and "env_ok E" and "supplied E node"
  shows "\<exists>v. walk E node 1 0 = Inr (v, n) \<and> sig_of v = sig_of dv"
  by (rule check_walk(1) [OF assms(1) refl assms(2,3)])

theorem checked_expression_evaluates_witness:
  "\<exists>v. walk demo_env demo_sum 1 0 = Inr (v, 3) \<and> sig_of v = (''INTEGER'', ''ITEM'', None)"
proof -
  have c: "check (ee_deps demo_env) demo_sum 1 0 = Inr (\<lparr>v_state = ''VALID'', v_value = Some (VInt 0), v_type = ''INTEGER'',
      v_unit = ''ITEM'', v_currency = None, v_reason = None, v_sources = []\<rparr>, 3)"
    and ok: "env_ok demo_env" and s: "supplied demo_env demo_sum" by code_simp+
  from checked_expression_evaluates [OF c ok s] show ?thesis by (simp add: sig_of_def)
qed

text \<open>
  A tree that \<open>validate_expression_ast\<close> accepts has at most 128 nodes and depth 24, and holds
  only literals, declared variables and known operators with the right number of arguments.
\<close>

theorem validated_tree_bounded:
  assumes "validate_expression_ast expression dependencies = Inr ()"
  shows "length (subnodes expression) \<le> 128 \<and> tree_depth expression \<le> 24 \<and>
    (\<forall>x \<in> set (subnodes expression). node_allowed (map jstr dependencies) x)"
proof -
  obtain v n where "check (map jstr dependencies) expression 1 0 = Inr (v, n)"
    using assms by (auto simp: validate_expression_ast_def res_simps)
  from check_allowed(1) [OF this] show ?thesis
    by (simp add: max_expression_nodes_def max_expression_depth_def list_all_iff)
qed

theorem validated_tree_bounded_witness: "length (subnodes demo_sum) \<le> 128 \<and> tree_depth demo_sum \<le> 24"
proof -
  have "validate_expression_ast demo_sum [JStr ''x''] = Inr ()" by code_simp
  from validated_tree_bounded [OF this] show ?thesis by simp
qed

text \<open>
  The tree the lazy evaluator hands to the eager one holds no \<open>IF\<close>: every conditional has
  been replaced by its selected branch or by a variable that carries the state of its condition.
\<close>

theorem lazy_resolution_removes_if:
  assumes "ExprLazy.resolve C node s = Inr (t, s')"
  shows "\<forall>x \<in> set (subnodes t). \<not> is_if x"
  using resolve_no_if(1) [OF assms] by (simp add: list_all_iff)

theorem lazy_resolution_removes_if_witness:
  "is_if (JObj (demo_operation ''IF'' [demo_true, demo_integer ''2'', JObj demo_x])) \<and>
   \<not> is_if (demo_integer ''2'')"
proof -
  have "ExprLazy.resolve demo_context (JObj (demo_operation ''IF'' [demo_true, demo_integer ''2'', JObj demo_x]))
      (initial_lazy [] [JStr ''x'']) = Inr (demo_integer ''2'', initial_lazy [] [JStr ''x''])"
    by code_simp
  from lazy_resolution_removes_if [OF this] have "\<not> is_if (demo_integer ''2'')"
    by (simp add: subnodes.simps [of "demo_integer ''2''"])
  moreover have "is_if (JObj (demo_operation ''IF'' [demo_true, demo_integer ''2'', JObj demo_x]))" by code_simp
  ultimately show ?thesis by simp
qed

text \<open>
  The branch that is not selected is never looked at: replacing it by any document changes
  nothing in what the lazy evaluator makes of a conditional whose condition holds.
\<close>

theorem lazy_if_ignores_unselected:
  assumes "ExprLazy.resolve C c s = Inr (ast, s1)"
    and "evaluate_eager (lc_hash C) (lc_prec C) ast (ls_vars s1) (ls_deps s1) (lc_policy C) = Inr condition"
    and "dget condition ''state'' = JStr ''VALID''" and "dget condition ''value_type'' = JStr ''BOOLEAN''"
    and "dget condition ''value'' = JBool b"
    and "dget d ''kind'' = JStr ''OPERATION''" and "dget d ''operator'' = JStr ''IF''"
    and "dget d ''arguments'' = JList [c, t, f]"
  shows "ExprLazy.resolve C (JObj d) s = ExprLazy.resolve C (if b then t else f) (note_sources condition s1)"
  using assms by (simp add: resolve.simps [of C "JObj d"] condition_outcome_def Let_def)

theorem lazy_if_ignores_unselected_witness:
  "ExprLazy.resolve demo_context (JObj (demo_operation ''IF'' [demo_true, demo_integer ''2'', JNull])) (initial_lazy [] [])
   = ExprLazy.resolve demo_context (demo_integer ''2'') (note_sources demo_condition (initial_lazy [] []))"
proof -
  let ?d = "demo_operation ''IF'' [demo_true, demo_integer ''2'', JNull]"
  have a: "ExprLazy.resolve demo_context demo_true (initial_lazy [] []) = Inr (demo_true, initial_lazy [] [])"
    and b: "evaluate_eager (lc_hash demo_context) (lc_prec demo_context) demo_true (ls_vars (initial_lazy [] []))
      (ls_deps (initial_lazy [] [])) (lc_policy demo_context) = Inr demo_condition" by code_simp+
  have c: "dget demo_condition ''state'' = JStr ''VALID''" "dget demo_condition ''value_type'' = JStr ''BOOLEAN''"
      "dget demo_condition ''value'' = JBool True" "dget ?d ''kind'' = JStr ''OPERATION''"
      "dget ?d ''operator'' = JStr ''IF''" "dget ?d ''arguments'' = JList [demo_true, demo_integer ''2'', JNull]"
    by (simp_all add: demo_condition_def demo_operation_def dget_Cons)
  from lazy_if_ignores_unselected [OF a b c] show ?thesis by simp
qed

text \<open>
  C38: on a tree without \<open>IF\<close> the lazy evaluator is the eager one, after static validation.
\<close>

theorem lazy_is_eager_without_if:
  assumes "list_all (\<lambda>x. \<not> is_if x) (subnodes expression)"
  shows "evaluate_expression h prec expression (JObj vars) dependencies policy_doc =
    rbind (validate_expression_ast expression dependencies)
      (\<lambda>_. evaluate_eager h prec expression vars dependencies policy_doc)"
proof (cases "validate_expression_ast expression dependencies")
  case (Inr u)
  then obtain v n where "check (map jstr dependencies) expression 1 0 = Inr (v, n)"
    by (auto simp: validate_expression_ast_def res_simps)
  from check_allowed(1) [OF this] assms
  have r: "ExprLazy.resolve C expression s = Inr (expression, s)" for C s
    by (intro resolve_identity(1) [where deps = "map jstr dependencies"]) (simp add: list_all_iff)
  have same: "dput ''source_ids'' (JList (map JStr (final_sources doc (initial_lazy vars dependencies)))) doc = doc"
    if doc: "evaluate_eager h prec expression vars dependencies policy_doc = Inr doc" for doc
  proof -
    obtain p v where "present_result p v = Inr doc" "tvalue_ok v"
      using evaluate_eager_value [OF doc] by metis
    from present_result_sources [OF this]
    have "dget doc ''source_ids'' = JList (map JStr (v_sources v))" "v_sources v = sorted_set (v_sources v)" by auto
    then show ?thesis
      by (intro dput_dget) (simp_all add: final_sources_def initial_lazy_def jlist_def comp_def)
  qed
  show ?thesis
    using same by (cases "evaluate_eager h prec expression vars dependencies policy_doc")
      (simp_all add: evaluate_expression_def Inr r initial_lazy_def)
qed (simp add: evaluate_expression_def)

theorem lazy_is_eager_without_if_witness:
  "evaluate_expression demo_hash 9 demo_sum (JObj []) [JStr ''x''] (JObj demo_policy_doc) =
    rbind (validate_expression_ast demo_sum [JStr ''x''])
      (\<lambda>_. evaluate_eager demo_hash 9 demo_sum [] [JStr ''x''] (JObj demo_policy_doc))"
  by (rule lazy_is_eager_without_if) code_simp

end
