(* ===== verification/RuleSoundness.thy ===== *)
theory RuleSoundness imports RulesHardening begin

text \<open>
  What the rule engine guarantees: the choice among eligible rules, the shape of resolutions,
  the registry of traces as a transition system with its invariant (an instance of the
  interface of caches), and the replay protection of the public evaluator.
\<close>

section \<open>The ranking\<close>

lemma set_descending [simp]: "set (descending rows) = set rows"
  by (simp add: descending_def)

lemma descending_head:
  assumes "descending rows = r # rs"
  shows "r \<in> set rows \<and> (\<forall>row\<in>set rows. fst row \<le> fst r)"
proof -
  have "sorted (map fst (rev (r # rs)))" using assms sorted_sort_key [of fst "rev rows"]
    by (simp add: descending_def rev_swap)
  then have "\<forall>row\<in>set (r # rs). fst row \<le> fst r" by (auto simp: sorted_append)
  moreover have "set (r # rs) = set rows" using assms by (metis set_descending)
  ultimately show ?thesis by auto
qed

lemma distinct_descending: "distinct (map snd rows) \<Longrightarrow> distinct (map snd (descending rows))"
proof -
  assume "distinct (map snd rows)"
  moreover have "mset (map snd (descending rows)) = mset (map snd rows)"
    by (simp add: descending_def)
  ultimately show ?thesis by (metis mset_eq_imp_distinct_iff)
qed

lemma set_best_rows:
  "set (best_rows rows) = snd ` {row \<in> set rows. \<forall>r\<in>set rows. fst r \<le> fst row}"
proof (cases "descending rows")
  case Nil
  then have "set rows = {}" by (metis set_descending set_empty)
  with Nil show ?thesis by (simp add: best_rows_def)
next
  case (Cons r rs)
  have m: "r \<in> set rows" "\<forall>row\<in>set rows. fst row \<le> fst r" using descending_head [OF Cons] by auto
  have "{row \<in> set rows. fst row = fst r} = {row \<in> set rows. \<forall>r\<in>set rows. fst r \<le> fst row}"
  proof (intro Collect_cong conj_cong refl)
    fix row assume "row \<in> set rows"
    with m show "fst row = fst r \<longleftrightarrow> (\<forall>r\<in>set rows. fst r \<le> fst row)" by (auto intro: order.antisym)
  qed
  moreover have "set (best_rows rows) = snd ` {row \<in> set rows. fst row = fst r}"
  proof -
    have "set (r # rs) = set rows" using set_descending [of rows] by (simp only: Cons)
    then show ?thesis by (simp only: best_rows_def Cons list.case set_map set_filter)
  qed
  ultimately show ?thesis by simp
qed

lemma distinct_best_rows: "distinct (map snd rows) \<Longrightarrow> distinct (best_rows rows)"
proof -
  assume "distinct (map snd rows)"
  from distinct_descending [OF this] show ?thesis
    by (cases "descending rows") (simp_all only: best_rows_def list.case distinct.simps(1) distinct_map_filter)
qed

lemma set_eligible_rows:
  "set (eligible_rows cs) = (\<lambda>i. (c_ordering (cs ! i), i)) ` {i. i < length cs \<and> eligible (cs ! i)}"
  unfolding eligible_rows_def set_map set_filter
  by (force simp: in_set_enumerate_eq image_iff simp del: split_paired_All split_paired_Ex)

lemma distinct_eligible_rows: "distinct (map snd (eligible_rows cs))"
proof -
  have "map snd (eligible_rows cs) = map fst (filter (\<lambda>(i, c). eligible c) (enumerate 0 cs))"
    by (auto simp: eligible_rows_def)
  then show ?thesis by (simp add: distinct_map_filter)
qed

lemma singleton_list: "distinct xs \<Longrightarrow> xs = [i] \<longleftrightarrow> set xs = {i}"
  by (cases xs; cases "tl xs") auto

lemma image_pairs:
  "snd ` {row \<in> (\<lambda>i. (f i, i)) ` R. \<forall>r\<in>(\<lambda>i. (f i, i)) ` R. fst r \<le> fst row} = {i \<in> R. \<forall>j\<in>R. f j \<le> f i}"
  by force

lemma unique_maximum:
  fixes f :: "'a \<Rightarrow> 'o::linorder"
  shows "{i \<in> R. \<forall>j\<in>R. f j \<le> f i} = {i} \<longleftrightarrow> i \<in> R \<and> (\<forall>j\<in>R. j \<noteq> i \<longrightarrow> f j < f i)" (is "?M = {i} \<longleftrightarrow> ?r")
proof
  assume M: "?M = {i}"
  then have i: "i \<in> R" "\<forall>j\<in>R. f j \<le> f i" by auto
  have "f j < f i" if "j \<in> R" "j \<noteq> i" for j
  proof (rule ccontr)
    assume "\<not> f j < f i"
    with i that have "j \<in> ?M" by (simp add: not_less) (meson order.trans)
    with M that show False by simp
  qed
  with i show ?r by blast
next
  assume r: ?r
  then have "i \<in> ?M" by (auto simp: le_less)
  moreover have "j = i" if "j \<in> ?M" for j using that r by (auto simp: not_le [symmetric])
  ultimately show "?M = {i}" by blast
qed

lemma best_rows_single:
  "best_rows (eligible_rows cs) = [i] \<longleftrightarrow> i < length cs \<and> eligible (cs ! i) \<and>
     (\<forall>j<length cs. j \<noteq> i \<longrightarrow> eligible (cs ! j) \<longrightarrow> c_ordering (cs ! j) < c_ordering (cs ! i))"
  (is "?l \<longleftrightarrow> ?r")
proof -
  define R where "R = {i. i < length cs \<and> eligible (cs ! i)}"
  define f where "f = (\<lambda>i. c_ordering (cs ! i))"
  have "set (best_rows (eligible_rows cs)) = {i \<in> R. \<forall>j\<in>R. f j \<le> f i}"
    by (simp only: set_best_rows set_eligible_rows image_pairs R_def f_def)
  then have "?l \<longleftrightarrow> {i \<in> R. \<forall>j\<in>R. f j \<le> f i} = {i}"
    using singleton_list [OF distinct_best_rows [OF distinct_eligible_rows [of cs]]] by simp
  also have "\<dots> \<longleftrightarrow> i \<in> R \<and> (\<forall>j\<in>R. j \<noteq> i \<longrightarrow> f j < f i)"
    by (rule unique_maximum)
  also have "\<dots> \<longleftrightarrow> ?r" by (auto simp: R_def f_def)
  finally show ?thesis .
qed

lemma eligible_rows_Nil: "eligible_rows cs = [] \<longleftrightarrow> \<not> list_ex eligible cs"
proof -
  have "eligible_rows cs = [] \<longleftrightarrow> {i. i < length cs \<and> eligible (cs ! i)} = {}"
    by (simp only: set_eligible_rows image_is_empty flip: set_empty)
  then show ?thesis by (simp add: list_ex_length)
qed

lemma decide_cases:
  obtains (overlap) "exclusivity_overlap cs" "decide cs = (''CONFLICT'', Some ''RULE_EXCLUSIVITY_OVERLAP'', None)"
  | (none) "\<not> exclusivity_overlap cs" "\<not> list_ex eligible cs"
      "decide cs = (''BLOCKED'', Some ''RULE_NOT_APPROVED'', None) \<or>
       decide cs = (''BLOCKED'', Some ''RULE_REQUIRED_MISSING'', None)"
  | (best) i where "\<not> exclusivity_overlap cs" "best_rows (eligible_rows cs) = [i]" "decide cs = (''VALID'', None, Some i)"
  | (tie) "\<not> exclusivity_overlap cs" "list_ex eligible cs" "\<forall>i. best_rows (eligible_rows cs) \<noteq> [i]"
      "decide cs = (''CONFLICT'', Some ''RULE_RESOLUTION_TIE'', None)"
proof (cases "exclusivity_overlap cs")
  case True
  then show ?thesis by (intro overlap) (simp_all add: decide_def)
next
  case no: False
  show ?thesis
  proof (cases "list_ex eligible cs")
    case False
    with no show ?thesis by (intro none) (auto simp: decide_def eligible_rows_Nil)
  next
    case el: True
    show ?thesis
    proof (cases "\<exists>i. best_rows (eligible_rows cs) = [i]")
      case True
      with no el show ?thesis by (auto intro!: best simp: decide_def eligible_rows_Nil)
    next
      case False
      with no el show ?thesis by (intro tie) (auto simp: decide_def eligible_rows_Nil split: list.splits)
    qed
  qed
qed

section \<open>Validated documents\<close>

lemma jdict_sorted: "dget (jdict (json_sort (JObj d))) k = json_sort (dget d k)"
  by (simp add: jdict_def dget_sorted)

lemma clone_jdict: "clone_json (JObj d) = Inr c \<Longrightarrow> dget (jdict c) k = json_sort (dget d k)"
  by (auto simp: clone_json_def canonical_json_def jdict_sorted split: if_splits simp del: json_sort.simps)

lemma string_matching_iff: "string_matching re v \<longleftrightarrow> (\<exists>t. v = JStr t \<and> re t)"
  by (auto simp: string_matching_def split: json.splits)

lemma is_positive_int_iff: "is_positive_int v \<longleftrightarrow> (\<exists>i. v = JInt i \<and> i > 0)"
  by (auto simp: is_positive_int_def split: json.splits)

lemma is_nonempty_string_iff: "is_nonempty_string v \<longleftrightarrow> (\<exists>t. v = JStr t \<and> t \<noteq> [])"
  by (auto simp: is_nonempty_string_def split: json.splits)

lemma parse_rfc3339_string: "parse_rfc3339 v code = Inr t \<Longrightarrow> \<exists>s. v = JStr s"
  by (auto simp: parse_rfc3339_def split: json.splits)

lemma parse_rfc3339_code: "parse_rfc3339 v code = Inr t \<Longrightarrow> parse_rfc3339 v code' = Inr t"
  by (auto simp: parse_rfc3339_def split: json.splits option.splits)

definition rule_shape :: "dict \<Rightarrow> bool" where
  "rule_shape r \<longleftrightarrow>
     is_nonempty_string (dget r ''rule_id'') \<and> is_positive_int (dget r ''version'') \<and>
     string_matching hash_re (dget r ''content_hash'') \<and> (\<exists>i. dget r ''priority'' = JInt i) \<and>
     (\<exists>t. dget r ''valid_from'' = JStr t) \<and> (\<exists>t. dget r ''status'' = JStr t)"

lemma id_re_nonempty: "id_re t \<Longrightarrow> t \<noteq> []"
  by (auto simp: id_re_def)

lemma rule_identity_shape:
  "rule_identity_valid h r = Inr () \<Longrightarrow> is_nonempty_string (dget r ''rule_id'') \<and> is_positive_int (dget r ''version'') \<and>
     string_matching hash_re (dget r ''content_hash'')"
  by (auto simp: rule_identity_valid_def res_simps is_nonempty_string_iff string_matching_iff dest: id_re_nonempty)

lemma rule_kind_shape:
  "rule_kind_valid r = Inr () \<Longrightarrow> (\<exists>i. dget r ''priority'' = JInt i) \<and> (\<exists>t. dget r ''status'' = JStr t)"
  by (auto simp: rule_kind_valid_def res_simps require_in_def in_names_def split: json.splits if_splits)

lemma rule_validity_shape: "rule_validity_valid r = Inr () \<Longrightarrow> \<exists>t. dget r ''valid_from'' = JStr t"
  by (auto simp: rule_validity_valid_def res_simps dest: parse_rfc3339_string)

lemma validate_rule_shape:
  assumes "validate_rule_document h rule = Inr r"
  shows "rule_shape r"
proof -
  from assms obtain d c where d: "rule_identity_valid h d = Inr ()" "rule_kind_valid d = Inr ()"
      "rule_validity_valid d = Inr ()" and c: "clone_json (JObj d) = Inr c" "r = jdict c"
    by (auto simp: validate_rule_document_def res_simps split: json.splits)
  show ?thesis
    using rule_identity_shape [OF d(1)] rule_kind_shape [OF d(2)] rule_validity_shape [OF d(3)]
    by (auto simp: rule_shape_def c(2) clone_jdict [OF c(1)] is_nonempty_string_iff is_positive_int_iff string_matching_iff)
qed

lemma sorted_rules_shape: "sorted_rules h rules = Inr rs \<Longrightarrow> list_all rule_shape rs"
  by (auto simp: sorted_rules_def res_simps list_all_iff split: json.splits dest: validate_rule_shape rmap_set_Inr)

definition context_shape :: "dict \<Rightarrow> bool" where
  "context_shape c \<longleftrightarrow> is_nonempty_string (dget c ''actor'') \<and>
     (\<exists>s t. dget c ''resolved_at'' = JStr s \<and> parse_datetime s = Some t)"

lemma validate_context_shape:
  assumes "validate_context ctx = Inr c"
  shows "context_shape c"
proof -
  from assms obtain d x t where d: "is_nonempty_string (dget d ''actor'')"
      "parse_rfc3339 (dget d ''resolved_at'') ''RULE_CONTEXT_INVALID'' = Inr t" and x: "clone_json (JObj d) = Inr x" "c = jdict x"
    by (auto simp: validate_context_def res_simps list_all_iff split: json.splits)
  then show ?thesis
    by (auto simp: context_shape_def clone_jdict [OF x(1)] is_nonempty_string_iff parse_rfc3339_def
        split: json.splits option.splits)
qed

section \<open>What the resolver returns\<close>

definition resolution_doc :: "dict \<Rightarrow> string \<Rightarrow> string \<Rightarrow> string option \<Rightarrow> json list \<Rightarrow> string \<Rightarrow> dict" where
  "resolution_doc ctx context_hash st diagnostic docs trace =
     [(''resolver_contract_version'', JStr resolver_contract_version),
      (''context_hash'', JStr context_hash), (''state'', JStr st),
      (''diagnostic_code'', jopt diagnostic), (''candidates'', JList docs),
      (''actor'', dget ctx ''actor''), (''resolved_at'', dget ctx ''resolved_at''),
      (''trace_id'', JStr trace)]"

lemma resolution_doc_put:
  "dput ''trace_id'' (JStr t) (resolution_doc ctx chash st diagnostic docs u) = resolution_doc ctx chash st diagnostic docs t"
  by (simp add: resolution_doc_def)

lemma resolution_doc_dget:
  "dget (resolution_doc ctx chash st diagnostic docs t) ''resolver_contract_version'' = JStr resolver_contract_version"
  "dget (resolution_doc ctx chash st diagnostic docs t) ''context_hash'' = JStr chash"
  "dget (resolution_doc ctx chash st diagnostic docs t) ''state'' = JStr st"
  "dget (resolution_doc ctx chash st diagnostic docs t) ''diagnostic_code'' = jopt diagnostic"
  "dget (resolution_doc ctx chash st diagnostic docs t) ''candidates'' = JList docs"
  "dget (resolution_doc ctx chash st diagnostic docs t) ''actor'' = dget ctx ''actor''"
  "dget (resolution_doc ctx chash st diagnostic docs t) ''resolved_at'' = dget ctx ''resolved_at''"
  "dget (resolution_doc ctx chash st diagnostic docs t) ''trace_id'' = JStr t"
  by (simp_all add: resolution_doc_def dget_Cons)

lemma resolve_ruleE:
  assumes "resolve_rule h rules context_doc = Inr d"
  obtains ctx rs now cs st diagnostic chosen chash trace where
    "validate_context context_doc = Inr ctx" and "sorted_rules h rules = Inr rs"
    and "parse_rfc3339 (dget ctx ''calculation_instant'') ''RULE_CONTEXT_INVALID'' = Inr now"
    and "rmap (candidate_of ctx (instant now)) rs = Inr cs" and "decide cs = (st, diagnostic, chosen)"
    and "canonical_hash h ctx [] = Inr chash"
    and "d = resolution_doc ctx chash st diagnostic (candidate_docs cs chosen) trace"
    and "canonical_hash h d [''trace_id''] = Inr trace"
proof -
  let ?doc = "\<lambda>ctx cs chash. resolution_doc ctx chash (fst (decide cs)) (fst (snd (decide cs)))
    (candidate_docs cs (snd (snd (decide cs))))"
  from assms obtain ctx rs now cs chash trace where *:
    "validate_context context_doc = Inr ctx" "sorted_rules h rules = Inr rs"
    "parse_rfc3339 (dget ctx ''calculation_instant'') ''RULE_CONTEXT_INVALID'' = Inr now"
    "rmap (candidate_of ctx (instant now)) rs = Inr cs" "canonical_hash h ctx [] = Inr chash"
    "canonical_hash h (?doc ctx cs chash []) [''trace_id''] = Inr trace"
    "d = dput ''trace_id'' (JStr trace) (?doc ctx cs chash [])"
    by (auto simp: resolve_rule_def res_simps resolution_doc_def Let_def case_prod_unfold)
  have d: "d = ?doc ctx cs chash trace" by (simp only: *(7) resolution_doc_put)
  have "canonical_hash h d [''trace_id''] = Inr trace"
    using trace_seal.seal_verifies [OF *(6), THEN conjunct1] by (simp only: *(7))
  with *(1-5) d show ?thesis by (intro that) (simp_all only: prod.collapse)
qed

lemma candidate_of_shape: "candidate_of ctx now r = Inr c \<Longrightarrow> c_rule c = r"
  by (auto simp: candidate_of_def res_simps)

lemma candidates_shape:
  assumes "rmap (candidate_of ctx now) rs = Inr cs" and "list_all rule_shape rs"
  shows "list_all (\<lambda>c. rule_shape (c_rule c)) cs"
  using assms rmap_set_Inr [OF assms(1)] candidate_of_shape by (fastforce simp: list_all_iff)

lemma candidate_doc_wf: "rule_shape (c_rule c) \<Longrightarrow> json_wf (candidate_doc c b)"
  by (auto simp: candidate_doc_def rule_ref_def ordering_doc_def rule_shape_def is_nonempty_string_iff
      is_positive_int_iff string_matching_iff list_all_iff)

lemma candidate_docs_set: "x \<in> set (candidate_docs cs chosen) \<Longrightarrow> \<exists>i c. i < length cs \<and> c = cs ! i \<and> x = candidate_doc c (chosen = Some i)"
  by (auto simp: candidate_docs_def in_set_enumerate_eq)

lemma resolution_wf:
  assumes "resolve_rule h rules context_doc = Inr d"
  shows "json_wf (JObj d)"
  using assms
proof (cases rule: resolve_ruleE)
  case (1 ctx rs now cs st diagnostic chosen chash trace)
  have "list_all (\<lambda>c. rule_shape (c_rule c)) cs" by (rule candidates_shape [OF 1(4) sorted_rules_shape [OF 1(2)]])
  then have "list_all json_wf (candidate_docs cs chosen)"
    by (auto simp: list_all_iff dest!: candidate_docs_set intro!: candidate_doc_wf)
  moreover have "json_wf (dget ctx ''actor'')" "json_wf (dget ctx ''resolved_at'')" "json_wf (jopt diagnostic)"
    using validate_context_shape [OF 1(1)] by (auto simp: context_shape_def is_nonempty_string_iff jopt_def split: option.splits)
  ultimately show ?thesis unfolding 1(7) by (simp add: resolution_doc_def)
qed


section \<open>The envelope of a resolution\<close>

lemma candidate_doc_dget:
  "dget (jdict (candidate_doc c b)) ''selected'' = JBool b" "dget (jdict (candidate_doc c b)) ''rule'' = rule_ref (c_rule c)"
  by (simp_all add: candidate_doc_def jdict_def dget_Cons)

lemma selected_candidate_doc [simp]:
  "is_selected (candidate_doc c b) \<longleftrightarrow> eligible c \<and> b" "marked_selected (candidate_doc c b) \<longleftrightarrow> b"
  by (auto simp: is_selected_def marked_selected_def candidate_doc_def jdict_def dget_Cons)

lemma filter_enumerate:
  "filter (\<lambda>(i, c). i = k) (enumerate n cs) = (if n \<le> k \<and> k < n + length cs then [(k, cs ! (k - n))] else [])"
  by (induction cs arbitrary: n) (auto simp: nth_Cons' Suc_diff_le not_less_eq_eq)

lemma filter_candidate_docs:
  assumes "\<And>c b. P (candidate_doc c b) \<longleftrightarrow> Q c \<and> b"
  shows "filter P (candidate_docs cs (Some i)) = (if i < length cs \<and> Q (cs ! i) then [candidate_doc (cs ! i) True] else [])"
    and "filter P (candidate_docs cs None) = []"
proof -
  let ?f = "\<lambda>(j, c). candidate_doc c (Some i = Some j)"
  have "filter P (candidate_docs cs (Some i)) = map ?f (filter (\<lambda>(j, c). Q c \<and> j = i) (enumerate 0 cs))"
    by (auto simp: candidate_docs_def filter_map assms comp_def case_prod_unfold intro!: arg_cong [where f = "map _"] filter_cong)
  also have "filter (\<lambda>(j, c). Q c \<and> j = i) (enumerate 0 cs) = filter (\<lambda>(j, c). Q c) (filter (\<lambda>(j, c). j = i) (enumerate 0 cs))"
    by (simp add: case_prod_unfold conj_commute)
  finally show "filter P (candidate_docs cs (Some i)) = (if i < length cs \<and> Q (cs ! i) then [candidate_doc (cs ! i) True] else [])"
    by (simp add: filter_enumerate)
  show "filter P (candidate_docs cs None) = []"
    by (auto simp: candidate_docs_def filter_empty_conv assms)
qed

lemma exclusions_nonempty: "candidate_of ctx now r = Inr c \<Longrightarrow> x \<in> set (c_exclusions c) \<Longrightarrow> x \<noteq> []"
  by (auto simp: candidate_of_def res_simps exclusions_def scenario_exclusion_def scope_mismatches_def Let_def split: if_splits)

lemma candidate_doc_valid:
  assumes "rule_shape (c_rule c)" and "b \<Longrightarrow> eligible c" and "\<And>x. x \<in> set (c_exclusions c) \<Longrightarrow> x \<noteq> []"
  shows "candidate_valid (candidate_doc c b)"
  using assms by (auto simp: candidate_valid_def candidate_doc_def keys_are_iff candidate_keys_def is_bool_def dget_Cons
      rule_ref_def list_all_iff is_nonempty_string_iff eligible_def sorted_set_def ordering_doc_def)

lemma decide_state:
  assumes "decide cs = (st, diagnostic, chosen)"
  shows "st \<in> {''VALID'', ''BLOCKED'', ''CONFLICT''}" "(st = ''VALID'') = (jopt diagnostic = JNull)"
    "st = ''VALID'' \<longleftrightarrow> (\<exists>i. chosen = Some i \<and> i < length cs \<and> eligible (cs ! i))" "st \<noteq> ''VALID'' \<longleftrightarrow> chosen = None"
  using assms by (cases cs rule: decide_cases; auto simp: jopt_def best_rows_single)+

lemma resolution_envelope:
  assumes res: "resolve_rule h rules context_doc = Inr d" and hashes: "\<And>t. hash_re (h t)"
  shows "validate_envelope h (JObj d) = Inr d"
  using res
proof (cases rule: resolve_ruleE)
  case (1 ctx rs now cs st diagnostic chosen chash trace)
  have hashed: "hash_re x" if "canonical_hash h y e = Inr x" for y e x
    using that hashes by (auto simp: canonical_hash_def res_simps)
  have shapes: "list_all (\<lambda>c. rule_shape (c_rule c)) cs" by (rule candidates_shape [OF 1(4) sorted_rules_shape [OF 1(2)]])
  have "\<exists>r. candidate_of ctx (instant now) r = Inr c" if "c \<in> set cs" for c using rmap_set_Inr [OF 1(4) that] by blast
  then have ex: "[] \<notin> set (c_exclusions c)" if "c \<in> set cs" for c
    using exclusions_nonempty that by blast
  have docs: "list_all candidate_valid (candidate_docs cs chosen)"
    using shapes ex decide_state(3,4) [OF 1(5)]
    by (auto simp: list_all_iff dest!: candidate_docs_set intro!: candidate_doc_valid)
  have len: "length (filter marked_selected (candidate_docs cs chosen)) = (if st = ''VALID'' then 1 else 0)"
    using decide_state(3,4) [OF 1(5)] filter_candidate_docs [of marked_selected "\<lambda>c. True", simplified, of cs]
    by (cases chosen) auto
  have trace: "canonical_hash h (resolution_doc ctx chash st diagnostic (candidate_docs cs chosen) trace) [''trace_id''] = Inr trace"
    using 1(8) by (simp only: 1(7))
  note st = decide_state(1,2) [OF 1(5)]
  show ?thesis
    using validate_context_shape [OF 1(1)] hashed [OF 1(6)] hashed [OF 1(8)] docs len st trace
    unfolding 1(7) validate_envelope_def json.case resolution_doc_dget
    by (auto simp: keys_are_iff resolution_keys_def resolution_doc_def require_in_def in_names_def
        string_matching_def context_shape_def parse_rfc3339_def)
qed

section \<open>The registry of traces\<close>

definition traces_ok :: "traces \<Rightarrow> bool" where
  "traces_ok ts \<longleftrightarrow> distinct (map fst ts) \<and> length ts \<le> cache_limit"

lemma evict_drop: "evict limit ts = drop (length ts - limit) ts"
  by (induction ts) (auto simp: Suc_diff_le not_less_eq_eq)

lemma filter_update: "filter (\<lambda>p. fst p \<noteq> k) (AList.update k v d) = filter (\<lambda>p. fst p \<noteq> k) d"
  by (induction d) auto

lemma filter_key: "distinct (map fst d) \<Longrightarrow> map_of d k = Some v \<Longrightarrow> filter (\<lambda>p. fst p = k) d = [(k, v)]"
  by (induction d) (auto simp: filter_empty_conv dest: map_of_SomeD intro: rev_image_eqI)

lemma move_to_end_known:
  "distinct (map fst ts) \<Longrightarrow> map_of ts k = Some v \<Longrightarrow> move_to_end k ts = filter (\<lambda>p. fst p \<noteq> k) ts @ [(k, v)]"
  by (simp add: move_to_end_def filter_key)

lemma put_trace_eq:
  assumes "distinct (map fst ts)"
  shows "put_trace k v ts = (let ys = filter (\<lambda>p. fst p \<noteq> k) ts in drop (length ys + 1 - cache_limit) ys @ [(k, v)])"
proof -
  have "move_to_end k (AList.update k v ts) = filter (\<lambda>p. fst p \<noteq> k) ts @ [(k, v)]"
    using assms by (subst move_to_end_known) (simp_all add: distinct_update update_conv' filter_update)
  then show ?thesis by (simp add: put_trace_def evict_drop Let_def cache_limit_def)
qed

lemma put_trace_ok: "traces_ok ts \<Longrightarrow> traces_ok (put_trace k v ts)"
proof -
  assume ts: "traces_ok ts"
  let ?ys = "filter (\<lambda>p. fst p \<noteq> k) ts"
  have "distinct (map fst ?ys)" "length ?ys \<le> cache_limit" "k \<notin> fst ` set ?ys"
    using ts le_trans [OF length_filter_le] by (auto simp: traces_ok_def distinct_map_filter)
  then show ?thesis using ts
    by (auto simp: traces_ok_def put_trace_eq Let_def cache_limit_def drop_map [symmetric] dest: in_set_dropD)
qed

lemma put_trace_lookup: "traces_ok ts \<Longrightarrow> map_of (put_trace k v ts) k = Some v"
  by (auto simp: traces_ok_def put_trace_eq Let_def map_of_append map_add_def dest!: map_of_SomeD in_set_dropD split: option.splits)

lemma put_trace_other:
  assumes "traces_ok ts" and "l \<noteq> k" and "map_of (put_trace k v ts) l = Some w"
  shows "map_of ts l = Some w"
proof -
  have "(l, w) \<in> set ts"
    using assms by (auto simp: traces_ok_def put_trace_eq Let_def dest!: map_of_SomeD in_set_dropD)
  then show ?thesis using assms(1) by (simp add: traces_ok_def)
qed

interpretation trace_cache: keyed_cache "\<lambda>k ts. map_of ts k" put_trace traces_ok
  by unfold_locales (auto intro: put_trace_ok put_trace_lookup put_trace_other)

lemma move_to_end_set [simp]: "set (move_to_end k ts) = set ts"
  by (auto simp: move_to_end_def)

lemma move_to_end_ok: "traces_ok ts \<Longrightarrow> traces_ok (move_to_end k ts)"
proof -
  have "length (filter (\<lambda>p. fst p \<noteq> k) ts) + length (filter (\<lambda>p. fst p = k) ts) = length ts"
    using sum_length_filter_compl [of "\<lambda>p. fst p \<noteq> k" ts] by simp
  then show "traces_ok ts \<Longrightarrow> traces_ok (move_to_end k ts)"
    by (auto simp: traces_ok_def move_to_end_def distinct_map_filter)
qed


lemma move_to_end_lookup:
  assumes "traces_ok ts"
  shows "map_of (move_to_end k ts) l = map_of ts l"
proof -
  have "distinct (map fst ts)" "distinct (map fst (move_to_end k ts))"
    using assms move_to_end_ok [OF assms, of k] by (simp_all add: traces_ok_def)
  then have "map_of (move_to_end k ts) l = Some v \<longleftrightarrow> map_of ts l = Some v" for v by simp
  then show ?thesis by (metis not_None_eq)
qed

section \<open>Steps of the registry\<close>

text \<open>An entry is issued: the resolver made the resolution from rules of this fingerprint.\<close>

definition issued :: "(string \<Rightarrow> string) \<Rightarrow> string \<Rightarrow> dict \<times> string \<Rightarrow> bool" where
  "issued h k e \<longleftrightarrow> (\<exists>rules context_doc rs. snapshot h rules = Inr rs \<and>
     resolve_rule h (JList (map JObj rs)) context_doc = Inr (fst e) \<and> dget (fst e) ''trace_id'' = JStr k \<and>
     fingerprint h rs = Inr (snd e))"

inductive trace_step :: "(string \<Rightarrow> string) \<Rightarrow> traces \<Rightarrow> traces \<Rightarrow> bool" for h where
  resolved: "hardened_resolve_rule h rules context_doc ts = Inr (d, ts') \<Longrightarrow> trace_step h ts ts'"
| evaluated: "hardened_evaluate h resolution rules variables policy_doc ts = (r, ts') \<Longrightarrow> trace_step h ts ts'"

definition registry_inv :: "(string \<Rightarrow> string) \<Rightarrow> traces \<Rightarrow> bool" where
  "registry_inv h ts \<longleftrightarrow> traces_ok ts \<and> (\<forall>k e. map_of ts k = Some e \<longrightarrow> issued h k e)"

lemma hardened_resolveE:
  assumes "hardened_resolve_rule h rules context_doc ts = Inr (d, ts')"
  obtains rs k f where "snapshot h rules = Inr rs" and "resolve_rule h (JList (map JObj rs)) context_doc = Inr d"
    and "dget d ''trace_id'' = JStr k" and "fingerprint h rs = Inr f" and "ts' = put_trace k (d, f) ts"
proof -
  obtain rs where rs: "snapshot h rules = Inr rs" "resolve_rule h (JList (map JObj rs)) context_doc = Inr d"
      "register_trace h d rs ts = Inr ts'"
    using assms by (auto simp: hardened_resolve_rule_def res_simps)
  from rs(3) obtain k where k: "dget d ''trace_id'' = JStr k"
    by (cases "dget d ''trace_id''") (simp_all add: register_trace_def)
  from rs(3) obtain f where "fingerprint h rs = Inr f" "ts' = put_trace k (d, f) ts"
    by (auto simp: register_trace_def k res_simps)
  with rs k that show ?thesis by blast
qed

lemma trusted_registry: "snd (trusted h d rs ts) = ts \<or> (\<exists>k. snd (trusted h d rs ts) = move_to_end k ts)"
  by (auto simp: trusted_def split: json.splits option.splits)

lemma evaluate_registry:
  assumes "hardened_evaluate h resolution rules variables policy_doc ts = (r, ts')"
  shows "ts' = ts \<or> (\<exists>k. ts' = move_to_end k ts)"
proof -
  have "ts' = ts \<or> (\<exists>d rs. ts' = snd (trusted h d rs ts))"
    using assms by (auto simp: hardened_evaluate_def split: sum.splits prod.splits) (metis snd_conv)+
  then show ?thesis using trusted_registry by metis
qed

interpretation registry: invariant_system "trace_step h" "registry_inv h" for h
proof unfold_locales
  fix s t assume inv: "registry_inv h s" and "trace_step h s t"
  from this(2) show "registry_inv h t"
  proof (cases rule: trace_step.cases)
    case (resolved rules context_doc d)
    from resolved show ?thesis
    proof (cases rule: hardened_resolveE)
      case (1 rs k f)
      have e: "issued h k (d, f)" using 1 unfolding issued_def by auto
      have "issued h l w" if "map_of t l = Some w" for l w
        using trace_cache.lookup_all [of s "issued h" k "(d, f)" l w] inv e that 1(5) by (auto simp: registry_inv_def)
      then show ?thesis using inv put_trace_ok by (simp add: registry_inv_def 1(5))
    qed
  next
    case (evaluated resolution rules variables policy_doc r)
    from evaluate_registry [OF evaluated] inv show ?thesis
      by (auto simp: registry_inv_def move_to_end_ok move_to_end_lookup)
  qed
qed

lemma trusted_issued:
  assumes "registry_inv h ts" and "trusted h d rs ts = (Inr True, ts')"
  shows "\<exists>k e. issued h k e \<and> dget d ''trace_id'' = JStr k \<and> py_eq (JObj d) (JObj (fst e)) \<and> fingerprint h rs = Inr (snd e)"
  using assms by (auto simp: trusted_def registry_inv_def res_simps split: json.splits option.splits if_splits) fastforce

lemma hardened_evaluate_Inr:
  assumes "hardened_evaluate h resolution rules variables policy_doc ts = (Inr doc, ts')"
  obtains d rs where "resolution = JObj d" and "snapshot h rules = Inr rs" and "trusted h d rs ts = (Inr True, ts')"
    and "evaluate_trusted h d rs variables policy_doc = Inr doc"
proof -
  from assms obtain d rs where s: "snapshot h rules = Inr rs" "validate_envelope h resolution = Inr d"
    by (auto simp: hardened_evaluate_def res_simps split: sum.splits prod.splits)
  have "resolution = JObj d"
    using s(2) by (auto simp: validate_envelope_def res_simps split: json.splits if_splits)
  moreover have "trusted h d rs ts = (Inr True, ts') \<and> evaluate_trusted h d rs variables policy_doc = Inr doc"
    using assms s by (auto simp: hardened_evaluate_def res_simps split: prod.splits if_splits)
  ultimately show ?thesis using that s(1) by blast
qed

section \<open>Examples\<close>

text \<open>A fixed-value rule, a context, a policy document and a constant hash.\<close>

definition sample_hash :: "string \<Rightarrow> string" where
  "sample_hash text = replicate 64 CHR ''a''"

definition sample_rule :: "string \<Rightarrow> int \<Rightarrow> json" where
  "sample_rule name priority = JObj
     [(''rule_id'', JStr name), (''version'', JInt 1), (''content_hash'', JStr (sample_hash [])),
      (''rule_type'', JStr ''COST''), (''scope'', JObj [(''organization_id'', JStr ''O'')]), (''method'', JStr ''FIXED_VALUE''),
      (''base'', JStr ''UNIT''), (''unit'', JStr ''MONEY''), (''currency'', JStr ''RUB''), (''dependencies'', JList []),
      (''valid_from'', JStr ''2026-01-01T00:00:00Z''), (''valid_to'', JNull), (''priority'', JInt priority),
      (''exclusivity_group'', JNull), (''status'', JStr ''PILOT''), (''source'', JStr ''S''), (''actor'', JStr ''A''),
      (''created_at'', JStr ''2026-01-01T00:00:00Z''), (''change_reason'', JStr ''R''), (''approval_reference'', JNull),
      (''supersedes'', JNull), (''value'', JStr ''1.5'')]"

definition sample_context :: json where
  "sample_context = JObj
     [(''organization_id'', JStr ''O''), (''mode'', JStr ''ACTUAL''), (''scenario_id'', JNull),
      (''calculation_instant'', JStr ''2026-02-01T00:00:00Z''), (''marketplace_account_id'', JNull), (''marketplace'', JNull),
      (''product_id'', JNull), (''product_group_id'', JNull), (''calculation_profile_id'', JStr ''P''),
      (''resolved_at'', JStr ''2026-02-01T00:00:00Z''), (''actor'', JStr ''A'')]"

definition sample_policy :: json where
  "sample_policy = JObj
     [(''policy_id'', JStr ''P''), (''version'', JInt 1), (''content_hash'', JStr (sample_hash [])),
      (''status'', JStr ''PILOT''), (''calculation_mode'', JStr ''HALF_UP''), (''calculation_scale'', JInt 1),
      (''money_scale'', JInt 1), (''rate_scale'', JInt 1), (''presentation_mode'', JStr ''HALF_UP''),
      (''presentation_scale'', JInt 1), (''currency_presentation_scales'', JObj []),
      (''application_points'', JList (map JStr accounting_points)), (''max_input_precision'', JInt 2),
      (''max_input_scale'', JInt 1), (''actor'', JStr ''A''), (''created_at'', JStr ''2026-01-01T00:00:00Z''),
      (''source'', JStr ''S''), (''change_reason'', JStr ''R''), (''approval_reference'', JNull), (''supersedes'', JNull)]"

text \<open>The public resolver without rules, followed by the public evaluator.\<close>

definition sample_run :: bool where
  "sample_run = (case hardened_resolve_rule sample_hash (JList []) sample_context [] of
     Inl e \<Rightarrow> False
   | Inr (d, ts) \<Rightarrow> length ts = 1 \<and>
       (case hardened_evaluate sample_hash (JObj d) (JList []) [] sample_policy ts of
          (Inr doc, ts') \<Rightarrow> dget doc ''state'' = JStr ''BLOCKED'' | _ \<Rightarrow> False))"

lemma sample_run_ok: sample_run
  by code_simp

section \<open>Properties\<close>

text \<open>
  C33: a rule is selected exactly when no exclusivity group overlaps and its ordering tuple
  (specificity, priority, start of validity, version) is strictly above that of every other
  eligible candidate; otherwise the resolver reports a conflict or a missing rule.
\<close>

theorem decide_selects_maximum:
  "decide cs = (''VALID'', None, Some i) \<longleftrightarrow>
     \<not> exclusivity_overlap cs \<and> i < length cs \<and> eligible (cs ! i) \<and>
     (\<forall>j<length cs. j \<noteq> i \<longrightarrow> eligible (cs ! j) \<longrightarrow> c_ordering (cs ! j) < c_ordering (cs ! i))"
proof (cases cs rule: decide_cases)
  case none
  then have "\<not> eligible (cs ! i)" if "i < length cs" using that by (auto simp: list_ex_length)
  with none show ?thesis by auto
qed (auto simp flip: best_rows_single)

theorem decide_selects_maximum_witness:
  "let c = (\<lambda>p. \<lparr>c_rule = [(''exclusivity_group'', JNull)], c_exclusions = [], c_ordering = ([0], p, 0, 1)\<rparr>) in
   decide [c 1, c 2] = (''VALID'', None, Some 1)"
  unfolding Let_def decide_selects_maximum
  by (auto simp: exclusivity_overlap_def eligible_def dget_Cons less_Suc_eq)

text \<open>
  C34: the resolver does not depend on the order in which the rules are given, as long as no two
  different documents share identifier, version and hash.
\<close>

theorem resolve_rule_permutation:
  assumes "mset xs = mset ys" and "rmap (validate_rule_document h) xs = Inr rs" and "inj_on rule_key (set rs)"
  shows "resolve_rule h (JList xs) context_doc = resolve_rule h (JList ys) context_doc"
proof -
  define f where "f = (\<lambda>x. case validate_rule_document h x of Inr r \<Rightarrow> r | Inl e \<Rightarrow> [])"
  have total: "validate_rule_document h x = Inr (f x)" if "x \<in> set xs" for x
    using rmap_all_Inr [OF assms(2) that] by (auto simp: f_def)
  have sets: "set ys = set xs" using mset_eq_setD [OF assms(1)] by simp
  have rx: "rmap (validate_rule_document h) xs = Inr (map f xs)" and ry: "rmap (validate_rule_document h) ys = Inr (map f ys)"
    using total by (auto intro!: rmap_total simp: sets)
  have "sort_key rule_key (map f xs) = sort_key rule_key (map f ys)"
  proof (rule sort_key_permute)
    show "mset (map f xs) = mset (map f ys)" by (simp only: mset_map assms(1))
    show "inj_on rule_key (set (map f xs))" using assms(2,3) rx by simp
  qed
  then show ?thesis by (simp add: resolve_rule_def sorted_rules_def rx ry)
qed

theorem resolve_rule_permutation_witness:
  "resolve_rule sample_hash (JList [sample_rule ''R1'' 1, sample_rule ''R2'' 2]) sample_context =
   resolve_rule sample_hash (JList [sample_rule ''R2'' 2, sample_rule ''R1'' 1]) sample_context"
proof -
  have "case rmap (validate_rule_document sample_hash) [sample_rule ''R1'' 1, sample_rule ''R2'' 2] of
      Inl e \<Rightarrow> False | Inr rs \<Rightarrow> distinct (map rule_key rs)" by code_simp
  then obtain rs where "rmap (validate_rule_document sample_hash) [sample_rule ''R1'' 1, sample_rule ''R2'' 2] = Inr rs"
    "inj_on rule_key (set rs)" by (auto split: sum.splits simp: distinct_map)
  then show ?thesis by (intro resolve_rule_permutation) (simp_all add: add_mset_commute)
qed

text \<open>
  C30: the public resolver's registry stays bounded, and every entry it ever holds is a
  resolution that the resolver made, with the fingerprint of the rules it was made from.
\<close>

theorem registry_reachable:
  assumes "(trace_step h)\<^sup>*\<^sup>* [] ts"
  shows "length ts \<le> 4096 \<and> distinct (map fst ts) \<and> (\<forall>k e. map_of ts k = Some e \<longrightarrow> issued h k e)"
proof -
  have "registry_inv h []" by (simp add: registry_inv_def traces_ok_def)
  from registry.steps_inv [OF assms this] show ?thesis
    by (simp add: registry_inv_def traces_ok_def cache_limit_def)
qed

theorem registry_reachable_witness: "\<exists>ts. (trace_step sample_hash)\<^sup>*\<^sup>* [] ts \<and> length ts = 1 \<and> (\<forall>k e. map_of ts k = Some e \<longrightarrow> issued sample_hash k e)"
proof -
  obtain d ts where r: "hardened_resolve_rule sample_hash (JList []) sample_context [] = Inr (d, ts)" and l: "length ts = 1"
    using sample_run_ok by (auto simp: sample_run_def split: sum.splits)
  then have s: "(trace_step sample_hash)\<^sup>*\<^sup>* [] ts" by (blast intro: trace_step.resolved)
  from registry_reachable [OF s] s l show ?thesis by blast
qed

text \<open>
  C31: no forged or replayed resolution is evaluated. Whatever the history of calls, the public
  evaluator returns a value only for a document equal to a resolution that the resolver issued,
  together with rules of the fingerprint it was issued for.
\<close>

theorem evaluated_resolutions_were_issued:
  assumes "(trace_step h)\<^sup>*\<^sup>* [] ts"
    and "hardened_evaluate h resolution rules variables policy_doc ts = (Inr doc, ts')"
  shows "\<exists>k e rs. issued h k e \<and> py_eq resolution (JObj (fst e)) \<and> snapshot h rules = Inr rs \<and>
    fingerprint h rs = Inr (snd e)"
proof -
  have "registry_inv h ts"
    using registry.steps_inv [OF assms(1)] by (simp add: registry_inv_def traces_ok_def)
  with hardened_evaluate_Inr [OF assms(2)] trusted_issued show ?thesis by metis
qed

theorem evaluated_resolutions_were_issued_witness:
  "\<exists>k e rs. issued sample_hash k e \<and> snapshot sample_hash (JList []) = Inr rs \<and> fingerprint sample_hash rs = Inr (snd e)"
proof -
  obtain d ts doc ts' where r: "hardened_resolve_rule sample_hash (JList []) sample_context [] = Inr (d, ts)"
      and e: "hardened_evaluate sample_hash (JObj d) (JList []) [] sample_policy ts = (Inr doc, ts')"
    using sample_run_ok by (auto simp: sample_run_def split: sum.splits prod.splits)
  from r have "(trace_step sample_hash)\<^sup>*\<^sup>* [] ts" by (blast intro: trace_step.resolved)
  from evaluated_resolutions_were_issued [OF this e] show ?thesis by blast
qed

text \<open>
  A resolution can be evaluated with the rules it was made from. Right after the public
  resolver returned it, the public evaluator accepts its envelope, trusts it and evaluates the
  selected rule.
\<close>

theorem resolve_then_evaluate:
  assumes "hardened_resolve_rule h rules context_doc ts = Inr (d, ts')" and "traces_ok ts" and "\<forall>t. hash_re (h t)"
    and "snapshot h rules = Inr rs"
  shows "fst (hardened_evaluate h (JObj d) rules variables policy_doc ts') = evaluate_trusted h d rs variables policy_doc"
  using assms(1)
proof (cases rule: hardened_resolveE)
  case (1 rs' k f)
  with assms(4) have rs: "rs' = rs" by simp
  have env: "validate_envelope h (JObj d) = Inr d" using resolution_envelope [OF 1(2)] assms(3) by blast
  have eq: "py_eq (JObj d) (JObj d)" by (rule py_eq_refl [OF resolution_wf [OF 1(2)]])
  have "map_of ts' k = Some (d, f)" using trace_cache.lookup_put [OF assms(2)] 1(5) by simp
  then have "trusted h d rs ts' = (Inr True, move_to_end k ts')"
    using 1(3,4) eq rs by (simp add: trusted_def)
  then show ?thesis by (simp add: hardened_evaluate_def assms(4) env)
qed


theorem resolve_then_evaluate_witness:
  "\<exists>d ts rs. hardened_resolve_rule sample_hash (JList []) sample_context [] = Inr (d, ts) \<and>
     fst (hardened_evaluate sample_hash (JObj d) (JList []) [] sample_policy ts) =
     evaluate_trusted sample_hash d rs [] sample_policy"
proof -
  obtain d ts where r: "hardened_resolve_rule sample_hash (JList []) sample_context [] = Inr (d, ts)"
    using sample_run_ok by (auto simp: sample_run_def split: sum.splits)
  have h: "\<forall>t. hash_re (sample_hash t)" by (simp add: sample_hash_def hash_re_def is_hex_def is_digit_def is_lower_def ch_def list_all_iff)
  obtain rs where "snapshot sample_hash (JList []) = Inr rs" using r by (auto simp: hardened_resolve_rule_def res_simps)
  from resolve_then_evaluate [OF r _ h this] r show ?thesis by (fastforce simp: traces_ok_def)
qed

text \<open>
  C32: a resolution is \<open>VALID\<close> only if it selects one rule of the rules given, and that rule belongs
  to the organization of the context, is approved, is in force at the calculation instant and,
  for an actual calculation, is not a scenario rule.
\<close>

theorem selected_rule_applies:
  assumes "resolve_rule h rules context_doc = Inr d" and "dget d ''state'' = JStr ''VALID''"
  shows "\<exists>ctx rs r c now validity. validate_context context_doc = Inr ctx \<and> sorted_rules h rules = Inr rs \<and> r \<in> set rs \<and>
    filter is_selected (jlist (dget d ''candidates'')) = [c] \<and> dget (jdict c) ''rule'' = rule_ref r \<and>
    dget (jdict (dget r ''scope'')) ''organization_id'' = dget ctx ''organization_id'' \<and>
    List.member approved_statuses (jstr (dget r ''status'')) \<and>
    parse_rfc3339 (dget ctx ''calculation_instant'') ''RULE_CONTEXT_INVALID'' = Inr now \<and>
    validity_of r = Inr validity \<and> \<not> outside_validity (instant now) (fst validity) (snd validity) \<and>
    (dget ctx ''mode'' = JStr ''ACTUAL'' \<longrightarrow> dget (jdict (dget r ''scope'')) ''scenario_id'' = JNull)"
  using assms(1)
proof (cases rule: resolve_ruleE)
  case (1 ctx rs now cs st diagnostic chosen chash trace)
  have "st = ''VALID''" using assms(2) by (simp add: 1(7) resolution_doc_dget)
  then obtain i where i: "chosen = Some i" "i < length cs" "eligible (cs ! i)" using decide_state(3) [OF 1(5)] by auto
  obtain r where r: "r \<in> set rs" "candidate_of ctx (instant now) r = Inr (cs ! i)"
    using rmap_set_Inr [OF 1(4) nth_mem [OF i(2)]] by blast
  then obtain validity where v: "validity_of r = Inr validity" "exclusions ctx r (instant now) validity = []"
    using i(3) by (auto simp: candidate_of_def res_simps eligible_def dest: arg_cong [where f = c_exclusions])
  have sel: "filter is_selected (jlist (dget d ''candidates'')) = [candidate_doc (cs ! i) True]"
    using filter_candidate_docs(1) [of is_selected eligible cs i] i
    by (simp add: 1(7) resolution_doc_dget jlist_def)
  have rule: "dget (jdict (candidate_doc (cs ! i) True)) ''rule'' = rule_ref r"
    using candidate_of_shape [OF r(2)] by (simp add: candidate_doc_dget)
  show ?thesis
    by (rule exI [of _ ctx], rule exI [of _ rs], rule exI [of _ r], rule exI [of _ "candidate_doc (cs ! i) True"],
        rule exI [of _ now], rule exI [of _ validity])
      (use 1(1-3) r(1) sel rule v in \<open>simp add: exclusions_def Let_def scenario_exclusion_def split: if_splits\<close>)
qed

theorem selected_rule_applies_witness:
  "\<exists>d c. resolve_rule sample_hash (JList [sample_rule ''R1'' 1]) sample_context = Inr d \<and>
     filter is_selected (jlist (dget d ''candidates'')) = [c]"
proof -
  have "case resolve_rule sample_hash (JList [sample_rule ''R1'' 1]) sample_context of
      Inl e \<Rightarrow> False | Inr d \<Rightarrow> dget d ''state'' = JStr ''VALID''" by code_simp
  then obtain d where d: "resolve_rule sample_hash (JList [sample_rule ''R1'' 1]) sample_context = Inr d" "dget d ''state'' = JStr ''VALID''"
    by (auto split: sum.splits)
  from selected_rule_applies [OF d] d show ?thesis by blast
qed

end
