(* ===== verification/KernelSoundness.thy ===== *)
theory KernelSoundness imports Kernel ExprSoundness begin

text \<open>
  What the financial kernel guarantees: a result is sealed by its hash and computed from a
  request that passed every check, units and sums of money are exact and never mix states or
  currencies, and no division by zero units takes place.
\<close>


section \<open>Units\<close>

definition integer_value :: "tvalue \<Rightarrow> int \<Rightarrow> bool" where
  "integer_value v i \<longleftrightarrow> v_state v = ''VALID'' \<and> v_value v = Some (VInt i)"

lemma propagate_valid: "list_all (\<lambda>v. v_state v = ''VALID'') vs \<Longrightarrow> propagate vs sig = Inr None"
  by (auto simp: propagate_None worst_state_None list_all_iff)

lemma unless_propagated_valid:
  assumes "unless_propagated vs sig otherwise = Inr v" and "v_state v = ''VALID''" and "signature_ok sig"
    and "list_all tvalue_ok vs"
  shows "otherwise = Inr v" and "list_all (\<lambda>v. v_state v = ''VALID'') vs"
proof -
  obtain x where x: "propagate vs sig = Inr x" "(case x of Some w \<Rightarrow> Inr w | None \<Rightarrow> otherwise) = Inr v"
    using assms(1) by (auto simp: unless_propagated_def res_simps)
  have "x = None" using x assms(2) propagate_result [of vs sig, OF _ assms(3)] by (cases x) auto
  with x show "otherwise = Inr v" and "list_all (\<lambda>v. v_state v = ''VALID'') vs"
    using worst_state_all_valid [OF assms(4)] by (simp_all add: propagate_None)
qed

lemma unless_propagated_all_valid:
  "list_all (\<lambda>v. v_state v = ''VALID'') vs \<Longrightarrow> unless_propagated vs sig otherwise = otherwise"
  by (simp add: unless_propagated_def propagate_valid)

lemma money_sum_unless:
  "money_sum prec terms currency =
     unless_propagated (map snd terms) (money_sig currency) (sum_terms prec currency terms (Dec False 0 0) [])"
  by (simp add: money_sum_def unless_propagated_def)

lemma item_sig_ok [simp]: "signature_ok item_sig"
  by (simp add: signature_ok_def value_types_def numeric_types_def)

lemma money_sig_ok [simp]: "signature_ok (money_sig c) \<longleftrightarrow> currency_re c"
  by (simp add: signature_ok_def value_types_def numeric_types_def)

lemma blocked_member [simp]: "''BLOCKED'' \<in> set state_precedence"
  by (simp add: state_precedence_def)

lemma make_nonvalid_blocked:
  "signature_ok sig \<Longrightarrow> reason \<noteq> [] \<Longrightarrow>
     \<exists>v. make_nonvalid ''BLOCKED'' sig reason sources = Inr v \<and> v_state v = ''BLOCKED'' \<and> v_reason v = Some reason"
  by (cases sig) (auto simp: make_nonvalid_Inr_iff)

lemma make_valid_integer:
  "\<exists>v. make_valid (VInt i) item_sig sources = Inr v \<and> integer_value v i"
  using item_sig_ok by (auto simp: make_valid_Inr_iff integer_value_def)

section \<open>Sums of money\<close>

lemma sum_terms_valid:
  "sum_terms prec currency terms acc sources = Inr v \<Longrightarrow> v_state v = ''VALID'' \<Longrightarrow>
     list_all (\<lambda>(s, t). v_type t = ''MONEY'' \<and> v_currency t = Some currency) terms"
proof (induction prec currency terms acc sources rule: sum_terms.induct)
  case (2 prec currency s t terms acc sources)
  then show ?case
    by (auto split: if_splits option.splits pyval.splits dest: make_nonvalid_sig)
qed simp

definition money_term :: "string \<Rightarrow> int \<Rightarrow> nat \<Rightarrow> tvalue \<Rightarrow> decimal \<Rightarrow> bool" where
  "money_term currency k m t d \<longleftrightarrow> v_state t = ''VALID'' \<and> v_type t = ''MONEY'' \<and> v_currency t = Some currency \<and>
     v_value t = Some (VDec d) \<and> expo d = - k \<and> coeff d \<le> 10 ^ m"

definition amount :: "tvalue \<Rightarrow> rat" where
  "amount v = (case v_value v of Some (VDec d) \<Rightarrow> dval d | _ \<Rightarrow> 0)"

lemma signed_term:
  assumes "s = 1 \<or> s = - 1" and "coeff d < 10 ^ prec" and "0 < prec"
  shows "dec_mul prec (dec_of_int s) d = (if s = 1 then d else dec_negate d)"
  using assms by (cases d) (auto simp: dec_mul_def dec_of_int_def dec_negate_def fix_prec_id)

lemma dec_negate_select [simp]: "expo (dec_negate d) = expo d" "coeff (dec_negate d) = coeff d"
  by (simp_all add: dec_negate_def)

lemma scaled_same: "expo d = e \<Longrightarrow> \<bar>scaled d e\<bar> = int (coeff d)"
  by (simp add: scaled_def abs_mult)

lemma dec_add_scaled:
  assumes "expo a = 0 \<or> expo a = - k" and "expo b = - k" and "0 \<le> k"
    and "\<bar>scaled a (- k)\<bar> + \<bar>scaled b (- k)\<bar> < 10 ^ prec" and "0 < prec"
  shows "dval (dec_add prec a b) = dval a + dval b" and "expo (dec_add prec a b) = - k"
    and "\<bar>scaled (dec_add prec a b) (- k)\<bar> \<le> \<bar>scaled a (- k)\<bar> + \<bar>scaled b (- k)\<bar>"
proof -
  let ?n = "scaled a (- k) + scaled b (- k)"
  have e: "min (expo a) (expo b) = - k" using assms(1-3) by auto
  have n: "\<bar>?n\<bar> < 10 ^ prec" using assms(4) abs_triangle_ineq [of "scaled a (- k)" "scaled b (- k)"] by linarith
  show "dval (dec_add prec a b) = dval a + dval b"
    using dec_add_exact [of a b prec] n assms(5) by (simp add: e)
  have "nat \<bar>?n\<bar> < 10 ^ prec" using n by (simp add: nat_less_iff)
  then have eq: "dec_add prec a b = Dec (if ?n = 0 then neg a \<and> neg b else ?n < 0) (nat \<bar>?n\<bar>) (- k)"
    using assms(5) by (simp only: dec_add_def Let_def e) (rule fix_prec_id, simp_all)
  show "expo (dec_add prec a b) = - k" by (simp only: eq) simp
  have "\<bar>scaled (dec_add prec a b) (- k)\<bar> = \<bar>?n\<bar>" by (simp only: eq) (simp add: scaled_def abs_mult)
  then show "\<bar>scaled (dec_add prec a b) (- k)\<bar> \<le> \<bar>scaled a (- k)\<bar> + \<bar>scaled b (- k)\<bar>"
    by (simp only: abs_triangle_ineq)
qed

lemma sum_terms_exact:
  assumes "list_all (\<lambda>(s, t). (s = 1 \<or> s = - 1) \<and> (\<exists>d. money_term currency k m t d)) terms"
    and "expo acc = 0 \<or> expo acc = - k" and "0 \<le> k" and "0 < prec" and "currency_re currency"
    and "\<bar>scaled acc (- k)\<bar> + int (length terms) * 10 ^ m < 10 ^ prec"
  shows "\<exists>v r. sum_terms prec currency terms acc sources = Inr v \<and> v_state v = ''VALID'' \<and> v_value v = Some (VDec r) \<and>
     dval r = dval acc + (\<Sum>(s, t)\<leftarrow>terms. of_int s * amount t)"
  using assms(1,2,6)
proof (induction terms arbitrary: acc sources)
  case Nil
  then show ?case using assms(5) by (auto simp: make_valid_Inr_iff)
next
  case (Cons st terms)
  obtain s t where st: "st = (s, t)" by fastforce
  from Cons.prems(1) obtain d where s: "s = 1 \<or> s = - 1" and d: "money_term currency k m t d" by (auto simp: st)
  have "(10::int) ^ m \<le> \<bar>scaled acc (- k)\<bar> + int (length (st # terms)) * 10 ^ m"
    by (simp add: distrib_right)
  with Cons.prems(3) have "(10::int) ^ m < 10 ^ prec" by linarith
  then have "m < prec" by simp
  then have "coeff d < 10 ^ prec" using d by (auto simp: money_term_def intro: le_less_trans power_strict_increasing)
  note mul = signed_term [OF s this assms(4)]
  let ?b = "dec_mul prec (dec_of_int s) d"
  have b: "expo ?b = - k" "\<bar>scaled ?b (- k)\<bar> \<le> 10 ^ m" "dval ?b = of_int s * dval d"
  proof -
    have "int (coeff d) \<le> int (10 ^ m)" using d by (simp only: of_nat_le_iff money_term_def)
    then show "\<bar>scaled ?b (- k)\<bar> \<le> 10 ^ m" using d s by (auto simp: mul money_term_def scaled_same)
  qed (use d s in \<open>auto simp: mul money_term_def\<close>)
  have room: "\<bar>scaled acc (- k)\<bar> + \<bar>scaled ?b (- k)\<bar> + int (length terms) * 10 ^ m < 10 ^ prec"
    using Cons.prems(3) b(2) by (simp add: distrib_right)
  then have "\<bar>scaled acc (- k)\<bar> + \<bar>scaled ?b (- k)\<bar> < 10 ^ prec"
    by (smt (verit) mult_nonneg_nonneg of_nat_0_le_iff zero_le_power)
  note add = dec_add_scaled [OF Cons.prems(2) b(1) assms(3) this assms(4)]
  have "\<bar>scaled (dec_add prec acc ?b) (- k)\<bar> + int (length terms) * 10 ^ m < 10 ^ prec"
    using room add(3) by linarith
  from Cons.IH [OF _ _ this, of "sources @ v_sources t"] Cons.prems(1) add(2)
  obtain v r where "sum_terms prec currency terms (dec_add prec acc ?b) (sources @ v_sources t) = Inr v" "v_state v = ''VALID''"
    "v_value v = Some (VDec r)" "dval r = dval (dec_add prec acc ?b) + (\<Sum>(s, t)\<leftarrow>terms. of_int s * amount t)"
    by (auto simp: st)
  then show ?case using d add(1) b(3) by (auto simp: st money_term_def amount_def)
qed


lemma money_term_valid: "list_all (\<lambda>(s, t). P s \<and> (\<exists>d. money_term currency k m t d)) terms \<Longrightarrow>
    list_all (\<lambda>v. v_state v = ''VALID'') (map snd terms)"
  by (auto simp: list_all_iff money_term_def)

section \<open>Requests and results\<close>

lemma validate_requestE:
  assumes "validate_request h r = Inr (profile, p, n)"
  obtains c where "currency_re c" and "dget r ''currency'' = JStr c"
    and "dget r ''profile_status'' = JStr ''SHADOW'' \<or> dget r ''profile_status'' = JStr ''PILOT''"
    and "(dget r ''mode'' = JStr ''ACTUAL'' \<and> dget r ''scenario_id'' = JNull) \<or>
         (dget r ''mode'' = JStr ''SCENARIO'' \<and> is_nonempty_string (dget r ''scenario_id''))"
    and "validate_rounding_policy h (dget r ''rounding_policy'') True = Inr p"
    and "length (jdict (dget r ''inputs'')) \<le> 14" and "n \<le> 64"
proof -
  from assms obtain u1 u2 where a: "mode_valid (dget r ''mode'') (dget r ''scenario_id'') ''KERNEL_REQUEST_INVALID'' = Inr u1"
      "require_in (dget r ''profile_status'') [''SHADOW'', ''PILOT''] ''PROFILE_PUBLICATION_BLOCKED'' = Inr u2"
    and b: "string_matching currency_re (dget r ''currency'')" "inputs_valid (dget r ''inputs'')"
    and p: "\<exists>p' profile'. validate_rounding_policy h (dget r ''rounding_policy'') True = Inr p' \<and>
      (case dget r ''other_expense_components'' of
         JList xs \<Rightarrow> if length xs > max_other_expense_components then fail ''OTHER_EXPENSE_COMPONENTS_INVALID''
           else Inr (profile', p', length xs) | _ \<Rightarrow> Inr (profile', p', 1)) = Inr (profile, p, n)"
    unfolding validate_request_def rbind_Inr_iff if_fail_Inr not_not by blast
  have "validate_rounding_policy h (dget r ''rounding_policy'') True = Inr p" "n \<le> 64"
    using p by (cases "dget r ''other_expense_components''"; auto simp: max_other_expense_components_def split: if_splits)+
  moreover have "dget r ''profile_status'' = JStr ''SHADOW'' \<or> dget r ''profile_status'' = JStr ''PILOT''"
    using a(2) by (auto simp: require_in_def in_names_def res_simps split: json.splits)
  moreover have "(dget r ''mode'' = JStr ''ACTUAL'' \<and> dget r ''scenario_id'' = JNull) \<or>
         (dget r ''mode'' = JStr ''SCENARIO'' \<and> is_nonempty_string (dget r ''scenario_id''))"
    using a(1) by (auto simp: mode_valid_def split: if_splits)
  moreover have "length (jdict (dget r ''inputs'')) \<le> 14"
    using b(2) by (auto simp: inputs_valid_def jdict_def kernel_input_names_def settlement_ids_def split: json.splits)
  moreover obtain c where "currency_re c" "dget r ''currency'' = JStr c"
    using b(1) by (auto simp: string_matching_def split: json.splits)
  ultimately show ?thesis using that by blast
qed

lemma metric_docs_names:
  "metric_docs p rows = Inr docs \<Longrightarrow> map fst docs = map fst rows"
  by (induction rows arbitrary: docs) (auto simp: metric_docs_def res_simps)

lemma compute_metrics_names:
  assumes "compute_metrics r p n = Inr docs"
  shows "map fst docs = [''net_sold_units'', ''product_cost_amount'', ''other_expense_amount'', ''tax_amount'',
    ''net_marketplace_income_amount'', ''net_profit_amount'', ''profit_per_sold_unit'', ''profitability_of_costs'']"
proof -
  from assms obtain net cost other s where "metric_docs p (metric_rows net cost other s) = Inr docs"
    by (auto simp: compute_metrics_def Let_def res_simps split: prod.splits)
  from metric_docs_names [OF this] show ?thesis by (simp add: metric_rows_def)
qed

lemma core_calculateE:
  assumes "core_calculate h r = Inr d"
  obtains profile p n results input_hash seal where "validate_request h r = Inr (profile, p, n)"
    and "compute_metrics r p n = Inr results" and "canonical_hash h r [] = Inr input_hash"
    and "canonical_hash h (result_payload r profile p results input_hash) [''result_hash''] = Inr seal"
    and "d = dput ''result_hash'' (JStr seal) (result_payload r profile p results input_hash)"
  using assms by (auto simp: core_calculate_def res_simps Let_def split: prod.splits)

text \<open>A request after \<open>_clone_json\<close>: the same fields, sorted.\<close>

definition sanitized :: "dict \<Rightarrow> dict" where
  "sanitized r = sort_key fst (map (map_prod id json_sort) r)"

lemma sanitized_dget: "dget (sanitized r) k = json_sort (dget r k)"
  by (simp only: sanitized_def dget_sorted)

lemma sanitized_hash: "canonical_hash h (sanitized r) e = canonical_hash h r e"
  by (simp only: sanitized_def canonical_hash_sorted)

lemma calculate_core:
  assumes "calculate h (JObj r) = Inr d"
  shows "keys_are r request_keys \<and> core_calculate h (sanitized r) = Inr d"
  using assms by (auto simp: calculate_def clone_json_def canonical_json_def sanitized_def split: if_splits)

lemma json_sort_str: "json_sort v = JStr t \<longleftrightarrow> v = JStr t" "json_sort v = JNull \<longleftrightarrow> v = JNull"
  by (cases v; simp)+

lemma is_nonempty_string_sort: "is_nonempty_string (json_sort v) = is_nonempty_string v"
  by (cases v) (simp_all add: is_nonempty_string_def)

section \<open>Examples\<close>

text \<open>Integer and money values, and a request without inputs: every metric is \<open>BLOCKED\<close>.\<close>

definition demo_units :: "int \<Rightarrow> tvalue" where
  "demo_units i = \<lparr>v_state = ''VALID'', v_value = Some (VInt i), v_type = ''INTEGER'', v_unit = ''ITEM'',
     v_currency = None, v_reason = None, v_sources = []\<rparr>"

definition demo_money :: "nat \<Rightarrow> tvalue" where
  "demo_money n = \<lparr>v_state = ''VALID'', v_value = Some (VDec (Dec False n 0)), v_type = ''MONEY'', v_unit = ''MONEY'',
     v_currency = Some ''RUB'', v_reason = None, v_sources = []\<rparr>"

definition demo_missing :: "string \<Rightarrow> string \<Rightarrow> json \<Rightarrow> json" where
  "demo_missing vt unit currency = JObj [(''state'', JStr ''EMPTY''), (''value'', JNull), (''value_type'', JStr vt),
     (''unit'', JStr unit), (''currency'', currency), (''reason_code'', JStr ''E''), (''source_ids'', JList [])]"

definition demo_request :: dict where
  "demo_request = [(''calculation_id'', JStr ''C''), (''organization_id'', JStr ''O''), (''mode'', JStr ''ACTUAL''),
     (''scenario_id'', JNull), (''calculated_at'', JStr ''2026-02-01T00:00:00Z''),
     (''profile_ref'', JObj [(''id'', JStr ''P''), (''version'', JInt 1), (''content_hash'', JStr (demo_hash []))]),
     (''profile_status'', JStr ''PILOT''), (''rounding_policy'', JObj demo_policy_doc), (''currency'', JStr ''RUB''),
     (''inputs'', JObj []), (''cost_per_unit'', demo_missing ''MONEY'' ''MONEY_PER_ITEM'' (JStr ''RUB'')),
     (''other_expense_components'', JNull), (''tax_rate'', demo_missing ''RATE'' ''RATE'' JNull),
     (''tax_base_metric_id'', JStr ''gross_sales_amount'')]"

lemma demo_calculation: "case calculate demo_hash (JObj demo_request) of Inl e \<Rightarrow> False | Inr d \<Rightarrow> True"
  by code_simp

section \<open>Properties\<close>

text \<open>
  C11: a result of the public kernel is sealed: its \<open>result_hash\<close> is the hash of its other
  fields and its \<open>input_hash\<close> the hash of the request as it was given; it is a preview and
  carries the eight metrics, each once, in their fixed order.
\<close>

theorem calculate_result_sealed:
  assumes "calculate h (JObj r) = Inr d"
  shows "\<exists>seal input_hash results. canonical_hash h d [''result_hash''] = Inr seal \<and> dget d ''result_hash'' = JStr seal \<and>
    canonical_hash h r [] = Inr input_hash \<and> dget d ''input_hash'' = JStr input_hash \<and>
    dget d ''publication_state'' = JStr ''PREVIEW_ONLY'' \<and> dget d ''results'' = JObj results \<and>
    map fst results = [''net_sold_units'', ''product_cost_amount'', ''other_expense_amount'', ''tax_amount'',
      ''net_marketplace_income_amount'', ''net_profit_amount'', ''profit_per_sold_unit'', ''profitability_of_costs'']"
proof -
  have "core_calculate h (sanitized r) = Inr d" using calculate_core [OF assms] ..
  then show ?thesis
  proof (cases rule: core_calculateE)
    case (1 profile p n results input_hash seal)
    let ?doc = "result_payload (sanitized r) profile p results input_hash"
    have "canonical_hash h d [''result_hash''] = Inr seal \<and> dget d ''result_hash'' = JStr seal"
      using result_seal.seal_verifies [OF 1(4)] by (simp only: 1(5))
    moreover have "canonical_hash h r [] = Inr input_hash" using 1(3) by (simp only: sanitized_hash)
    moreover have "dget d k = dget ?doc k" if "k \<noteq> ''result_hash''" for k
      using that by (simp only: 1(5)) (rule dget_put_other, simp)
    then have "dget d ''input_hash'' = JStr input_hash" "dget d ''publication_state'' = JStr ''PREVIEW_ONLY''"
      "dget d ''results'' = JObj results"
      by (simp_all add: result_payload_def dget_Cons publication_state_def)
    ultimately show ?thesis using compute_metrics_names [OF 1(2)]
      by (intro exI [of _ seal] exI [of _ input_hash] exI [of _ results]) simp
  qed
qed

theorem calculate_result_sealed_witness:
  "\<exists>d seal. calculate demo_hash (JObj demo_request) = Inr d \<and> dget d ''result_hash'' = JStr seal \<and>
     dget d ''publication_state'' = JStr ''PREVIEW_ONLY''"
proof -
  obtain d where d: "calculate demo_hash (JObj demo_request) = Inr d"
    using demo_calculation by (auto split: sum.splits)
  from calculate_result_sealed [OF d] d show ?thesis by blast
qed

text \<open>
  The kernel fails closed. It gives a result only for a request with a shadow or pilot
  profile and a mode that is not contaminated (actual without a scenario, scenario with one),
  under a rounding policy that validates and with a currency code.
\<close>

theorem calculate_fails_closed:
  assumes "calculate h (JObj r) = Inr d"
  shows "(dget r ''profile_status'' = JStr ''SHADOW'' \<or> dget r ''profile_status'' = JStr ''PILOT'') \<and>
    ((dget r ''mode'' = JStr ''ACTUAL'' \<and> dget r ''scenario_id'' = JNull) \<or>
     (dget r ''mode'' = JStr ''SCENARIO'' \<and> is_nonempty_string (dget r ''scenario_id''))) \<and>
    (\<exists>p. validate_rounding_policy h (json_sort (dget r ''rounding_policy'')) True = Inr p) \<and>
    (\<exists>c. dget r ''currency'' = JStr c \<and> currency_re c)"
proof -
  have "core_calculate h (sanitized r) = Inr d" using calculate_core [OF assms] ..
  then show ?thesis
  proof (cases rule: core_calculateE)
    case (1 profile p n results input_hash seal)
    from 1(1) show ?thesis
      by (rule validate_requestE) (auto simp: sanitized_dget json_sort_str is_nonempty_string_sort)
  qed
qed

theorem calculate_fails_closed_witness:
  "\<exists>p. validate_rounding_policy demo_hash (json_sort (dget demo_request ''rounding_policy'')) True = Inr p"
proof -
  obtain d where d: "calculate demo_hash (JObj demo_request) = Inr d"
    using demo_calculation by (auto split: sum.splits)
  from calculate_fails_closed [OF d] show ?thesis by blast
qed

text \<open>
  The units of a sale. With integer inputs the net units are the gross units less the
  returned ones, provided \<open>0 \<le> returned \<le> gross\<close>; the units that bear cost are the gross units
  less the resalable returns, provided resalable and compensated returns are not negative and
  together do not exceed the returned units. In every other case the value is \<open>BLOCKED\<close>.
\<close>

theorem unit_formulas:
  assumes "integer_value gross g" and "integer_value returned r" and "integer_value resalable s"
    and "integer_value compensated c"
  shows "(\<exists>v. net_units gross returned = Inr v \<and>
      (if 0 \<le> r \<and> r \<le> g then integer_value v (g - r)
       else v_state v = ''BLOCKED'' \<and> v_reason v = Some ''RETURN_UNIT_SEMANTICS_INVALID'')) \<and>
    (\<exists>v. cost_units gross returned resalable compensated = Inr v \<and>
      (if 0 \<le> s \<and> 0 \<le> c \<and> s + c \<le> r \<and> r \<le> g then integer_value v (g - s) \<and> 0 \<le> g - s
       else v_state v = ''BLOCKED'' \<and> v_reason v = Some ''RETURN_UNIT_SEMANTICS_INVALID''))"
proof -
  have val: "v_value gross = Some (VInt g)" "v_value returned = Some (VInt r)" "v_value resalable = Some (VInt s)"
    "v_value compensated = Some (VInt c)" using assms by (simp_all add: integer_value_def)
  have p: "propagate [gross, returned] item_sig = Inr None"
    "propagate [gross, returned, resalable, compensated] item_sig = Inr None"
    using assms by (auto intro!: propagate_valid simp: integer_value_def)
  have b: "\<exists>v. return_semantics_blocked sources = Inr v \<and> v_state v = ''BLOCKED'' \<and>
      v_reason v = Some ''RETURN_UNIT_SEMANTICS_INVALID''" for sources
    unfolding return_semantics_blocked_def by (rule make_nonvalid_blocked) simp_all
  have n: "net_units gross returned = (if g < 0 \<or> r < 0 \<or> r > g
      then return_semantics_blocked (v_sources gross @ v_sources returned)
      else make_valid (VInt (g - r)) item_sig (v_sources gross @ v_sources returned))"
    by (simp only: net_units_def unless_propagated_def p int_of_value_def val rbind.simps option.case pyval.case Let_def)
  let ?src = "v_sources gross @ v_sources returned @ v_sources resalable @ v_sources compensated"
  have c: "cost_units gross returned resalable compensated = (if g < 0 \<or> r < 0 \<or> s < 0 \<or> c < 0 \<or> r > g \<or> s + c > r
      then return_semantics_blocked ?src else make_valid (VInt (g - s)) item_sig ?src)"
    by (simp only: cost_units_def p int_of_value_def val rbind.simps option.case pyval.case Let_def)
  show ?thesis
  proof
    show "\<exists>v. net_units gross returned = Inr v \<and>
      (if 0 \<le> r \<and> r \<le> g then integer_value v (g - r)
       else v_state v = ''BLOCKED'' \<and> v_reason v = Some ''RETURN_UNIT_SEMANTICS_INVALID'')"
    proof (cases "0 \<le> r \<and> r \<le> g")
      case True
      with make_valid_integer show ?thesis by (simp add: n)
    next
      case False
      then have "g < 0 \<or> r < 0 \<or> r > g" by auto
      with False b show ?thesis by (simp only: n if_True if_False)
    qed
    show "\<exists>v. cost_units gross returned resalable compensated = Inr v \<and>
      (if 0 \<le> s \<and> 0 \<le> c \<and> s + c \<le> r \<and> r \<le> g then integer_value v (g - s) \<and> 0 \<le> g - s
       else v_state v = ''BLOCKED'' \<and> v_reason v = Some ''RETURN_UNIT_SEMANTICS_INVALID'')"
    proof (cases "0 \<le> s \<and> 0 \<le> c \<and> s + c \<le> r \<and> r \<le> g")
      case True
      with make_valid_integer show ?thesis by (simp add: c)
    next
      case False
      then have "g < 0 \<or> r < 0 \<or> s < 0 \<or> c < 0 \<or> r > g \<or> s + c > r" by auto
      with False b show ?thesis by (simp only: c if_True if_False)
    qed
  qed
qed

theorem unit_formulas_witness:
  "\<exists>n c. net_units (demo_units 7) (demo_units 3) = Inr n \<and> integer_value n 4 \<and>
     cost_units (demo_units 7) (demo_units 3) (demo_units 2) (demo_units 1) = Inr c \<and> integer_value c 5"
proof -
  have v: "integer_value (demo_units i) i" for i by (simp add: integer_value_def demo_units_def)
  from unit_formulas [OF v [of 7] v [of 3] v [of 2] v [of 1]] show ?thesis by auto
qed

text \<open>
  Sums of money are exact. When the terms are \<open>VALID\<close> amounts of one currency at a common
  scale \<open>k\<close> with coefficients up to \<open>10 ^ m\<close> and the context has the digits for all of them, the
  sum is the exact sum: no term is rounded on the way.
\<close>

theorem money_sum_exact:
  assumes "list_all (\<lambda>(s, t). (s = 1 \<or> s = - 1) \<and> (\<exists>d. money_term currency (int k) m t d)) terms"
    and "int (length terms) * 10 ^ m < 10 ^ prec" and "0 < prec" and "currency_re currency"
  shows "\<exists>v. money_sum prec terms currency = Inr v \<and> v_state v = ''VALID'' \<and>
    amount v = (\<Sum>(s, t)\<leftarrow>terms. of_int s * amount t)"
proof -
  have "propagate (map snd terms) (money_sig currency) = Inr None"
    using assms(1) by (intro propagate_valid money_term_valid)
  moreover obtain v r where "sum_terms prec currency terms (Dec False 0 0) [] = Inr v" "v_state v = ''VALID''"
    "v_value v = Some (VDec r)" "dval r = dval (Dec False 0 0) + (\<Sum>(s, t)\<leftarrow>terms. of_int s * amount t)"
    using sum_terms_exact [OF assms(1), of "Dec False 0 0" prec "[]"] assms(2-4) by (auto simp: scaled_def)
  ultimately show ?thesis by (simp add: money_sum_def amount_def)
qed

theorem money_sum_exact_witness:
  "\<exists>v. money_sum 9 [(1, demo_money 7), (- 1, demo_money 3)] ''RUB'' = Inr v \<and> amount v = 4"
proof -
  have t: "list_all (\<lambda>(s, t). (s = 1 \<or> s = - 1) \<and> (\<exists>d. money_term ''RUB'' (int 0) 1 t d)) [(1, demo_money 7), (- 1, demo_money 3)]"
    by (simp add: money_term_def demo_money_def)
  have c: "currency_re ''RUB''" by code_simp
  from money_sum_exact [OF t _ _ c, of 9] show ?thesis by (auto simp: amount_def demo_money_def dval_def)
qed

text \<open>
  A sum of money never mixes currencies and never drops a term: if it is \<open>VALID\<close>, every
  term is a \<open>VALID\<close> amount of the currency of the sum.
\<close>

theorem money_sum_valid_terms:
  assumes "money_sum prec terms currency = Inr v" and "v_state v = ''VALID''" and "list_all (\<lambda>(s, t). tvalue_ok t) terms"
    and "currency_re currency"
  shows "list_all (\<lambda>(s, t). v_state t = ''VALID'' \<and> v_type t = ''MONEY'' \<and> v_currency t = Some currency) terms"
proof -
  have ok: "list_all tvalue_ok (map snd terms)" using assms(3) by (auto simp: list_all_iff)
  have sig: "signature_ok (money_sig currency)" using assms(4) by simp
  note parts = unless_propagated_valid [OF assms(1) [unfolded money_sum_unless] assms(2) sig ok]
  show ?thesis using sum_terms_valid [OF parts(1) assms(2)] parts(2) by (auto simp: list_all_iff)
qed

theorem money_sum_valid_terms_witness:
  "\<exists>v. money_sum 9 [(1, demo_money 7)] ''RUB'' = Inr v \<and> v_currency (demo_money 7) = Some ''RUB''"
proof -
  have m: "money_sum 9 [(1, demo_money 7)] ''RUB'' = Inr (demo_money 7)" and c: "currency_re ''RUB''"
    and ok: "list_all (\<lambda>(s, t). tvalue_ok t) [(1 :: int, demo_money 7)]" by code_simp+
  have "v_state (demo_money 7) = ''VALID''" by (simp add: demo_money_def)
  from money_sum_valid_terms [OF m this ok c] m show ?thesis by simp
qed

text \<open>
  The profit per unit divides by a positive number of units only: a \<open>VALID\<close> value comes from a
  \<open>VALID\<close> profit and \<open>VALID\<close> units above zero, and zero units give \<open>BLOCKED\<close> with
  \<open>ZERO_DENOMINATOR\<close>.
\<close>

theorem profit_per_unit_denominator:
  assumes "tvalue_ok profit" and "tvalue_ok units" and "currency_re currency"
    and "profit_per_unit prec profit units currency = Inr v"
  shows "(v_state v = ''VALID'' \<longrightarrow> v_state profit = ''VALID'' \<and> (\<exists>n > 0. integer_value units n)) \<and>
    (v_state profit = ''VALID'' \<longrightarrow> integer_value units 0 \<longrightarrow>
       v_state v = ''BLOCKED'' \<and> v_reason v = Some ''ZERO_DENOMINATOR'')"
proof -
  let ?sig = "(''MONEY'', ''MONEY_PER_ITEM'', Some currency)"
  have ok: "signature_ok ?sig" using assms(3) by (simp add: signature_ok_def value_types_def numeric_types_def)
  have lv: "list_all tvalue_ok [profit, units]" using assms(1,2) by simp
  have part1: "v_state profit = ''VALID'' \<and> (\<exists>n > 0. integer_value units n)" if v: "v_state v = ''VALID''"
  proof -
    note parts = unless_propagated_valid [OF assms(4) [unfolded profit_per_unit_def Let_def] v ok lv]
    from parts(2) have st: "v_state profit = ''VALID''" "v_state units = ''VALID''" by simp_all
    have blocked: "make_nonvalid ''BLOCKED'' ?sig code sources \<noteq> Inr v" for code sources
      using v by (auto dest: make_nonvalid_sig)
    show ?thesis
    proof (cases "v_value units")
      case (Some x)
      with parts(1) st blocked show ?thesis
        by (cases x) (auto simp: integer_value_def split: if_splits)
    qed (use parts(1) blocked in simp)
  qed
  have part2: "v_state v = ''BLOCKED'' \<and> v_reason v = Some ''ZERO_DENOMINATOR''"
    if "v_state profit = ''VALID''" "integer_value units 0"
  proof -
    have "list_all (\<lambda>v. v_state v = ''VALID'') [profit, units]" using that by (simp add: integer_value_def)
    from assms(4) [unfolded profit_per_unit_def Let_def unless_propagated_all_valid [OF this]] that
    show ?thesis by (simp add: integer_value_def make_nonvalid_Inr_iff)
  qed
  show ?thesis using part1 part2 by blast
qed

theorem profit_per_unit_denominator_witness:
  "\<exists>v. profit_per_unit 9 (demo_money 7) (demo_units 0) ''RUB'' = Inr v \<and> v_reason v = Some ''ZERO_DENOMINATOR''"
proof -
  have ok: "tvalue_ok (demo_money 7)" "tvalue_ok (demo_units 0)" "currency_re ''RUB''"
    and r: "case profit_per_unit 9 (demo_money 7) (demo_units 0) ''RUB'' of Inl e \<Rightarrow> False | Inr v \<Rightarrow> True" by code_simp+
  from r obtain v where v: "profit_per_unit 9 (demo_money 7) (demo_units 0) ''RUB'' = Inr v" by (auto split: sum.splits)
  from profit_per_unit_denominator [OF ok v] v show ?thesis by (simp add: integer_value_def demo_units_def demo_money_def)
qed

text \<open>
  Return compensation is consistent with the compensated units: a \<open>VALID\<close> amount is not
  negative, its units are \<open>VALID\<close> and not negative, and without compensated units it is zero.
\<close>

theorem return_compensation_semantics:
  assumes "validated_return_compensation ins currency = Inr v" and "v_state v = ''VALID''" and "currency_re currency"
    and "list_all (\<lambda>(name, x). tvalue_ok x) ins"
  shows "0 \<le> amount v \<and> (\<exists>units n. expect ins ''compensated_returned_units'' item_sig = Inr units \<and>
    integer_value units n \<and> 0 \<le> n \<and> (n = 0 \<longrightarrow> amount v = 0))"
proof -
  from assms(1) obtain units a where e: "expect ins ''compensated_returned_units'' item_sig = Inr units"
      "expect ins ''return_compensation_amount'' (money_sig currency) = Inr a"
    and u: "unless_propagated [units, a] (money_sig currency)
       (rbind (int_of_value units) (\<lambda>n. rbind (dec_of_value a) (\<lambda>x.
          if n < 0 \<or> dec_less x dec_zero \<or> (n = 0 \<and> \<not> dec_eq x dec_zero)
          then make_nonvalid ''BLOCKED'' (money_sig currency) ''RETURN_COMPENSATION_SEMANTICS_INVALID''
                 (v_sources units @ v_sources a)
          else Inr a))) = Inr v"
    by (auto simp: validated_return_compensation_def res_simps)
  have ok: "tvalue_ok x" if "expect ins name sig = Inr x" "signature_ok sig" for name sig x
    using that assms(4) by (auto simp: expect_def list_all_iff split: option.splits if_splits
        dest: make_nonvalid_ok map_of_SomeD)
  have lv: "list_all tvalue_ok [units, a]" using ok [OF e(1)] ok [OF e(2)] assms(3) by simp
  have sig: "signature_ok (money_sig currency)" using assms(3) by simp
  note parts = unless_propagated_valid [OF u assms(2) sig lv]
  from parts(2) have st: "v_state units = ''VALID''" by simp
  have z: "dval dec_zero = 0" by (simp add: dec_zero_def)
  have blocked: "make_nonvalid ''BLOCKED'' (money_sig currency) code sources \<noteq> Inr v" for code sources
    using assms(2) by (auto dest: make_nonvalid_sig)
  obtain n x where nx: "int_of_value units = Inr n" "dec_of_value a = Inr x"
      "(if n < 0 \<or> dec_less x dec_zero \<or> (n = 0 \<and> \<not> dec_eq x dec_zero)
        then make_nonvalid ''BLOCKED'' (money_sig currency) ''RETURN_COMPENSATION_SEMANTICS_INVALID''
               (v_sources units @ v_sources a) else Inr a) = Inr v"
    using parts(1) by (auto simp: res_simps)
  then have "v_value units = Some (VInt n)" "v_value a = Some (VDec x)" "v = a"
      "\<not> n < 0" "\<not> dec_less x dec_zero" "n = 0 \<longrightarrow> dec_eq x dec_zero"
    using blocked by (auto simp: int_of_value_def dec_of_value_def split: option.splits pyval.splits if_splits)
  then show ?thesis using e(1) st by (auto simp: amount_def integer_value_def dec_less_iff dec_eq_iff z)
qed

theorem return_compensation_semantics_witness:
  "validated_return_compensation [(''compensated_returned_units'', demo_units 2), (''return_compensation_amount'', demo_money 7)]
     ''RUB'' = Inr (demo_money 7) \<and> 0 \<le> amount (demo_money 7)"
proof -
  let ?ins = "[(''compensated_returned_units'', demo_units 2), (''return_compensation_amount'', demo_money 7)]"
  have v: "validated_return_compensation ?ins ''RUB'' = Inr (demo_money 7)" and c: "currency_re ''RUB''"
    and ok: "list_all (\<lambda>(name, x). tvalue_ok x) ?ins" by code_simp+
  have "v_state (demo_money 7) = ''VALID''" by (simp add: demo_money_def)
  from return_compensation_semantics [OF v this c ok] v show ?thesis by simp
qed

end
