(* ===== verification/PyParse.thy ===== *)
theory PyParse imports PyTime PyDecimal begin

text \<open>
  Further parsers and printers of Python's standard library, on text of code points up to 255:
  \<open>str.strip\<close>, \<open>str.replace\<close>, \<open>int(text, 16)\<close>, \<open>uuid.UUID(text)\<close> with \<open>str(uuid)\<close>,
  \<open>decimal.Decimal(text)\<close> and \<open>datetime.isoformat()\<close>.
\<close>

section \<open>Text\<close>

definition is_space :: "char \<Rightarrow> bool" where
  "is_space c \<longleftrightarrow> 9 \<le> ch c \<and> ch c \<le> 13 \<or> 28 \<le> ch c \<and> ch c \<le> 32 \<or> ch c = 133 \<or> ch c = 160"

definition strip_by :: "(char \<Rightarrow> bool) \<Rightarrow> string \<Rightarrow> string" where
  "strip_by P s = rev (dropWhile P (rev (dropWhile P s)))"

abbreviation py_strip :: "string \<Rightarrow> string" where
  "py_strip \<equiv> strip_by is_space"

lemma set_strip_by: "set (strip_by P s) \<subseteq> set s"
  by (auto simp: strip_by_def dest!: set_dropWhileD)

lemma strip_by_hd: "strip_by P s \<noteq> [] \<Longrightarrow> \<not> P (hd (strip_by P s))"
proof -
  assume n: "strip_by P s \<noteq> []"
  let ?t = "dropWhile P s"
  obtain u where u: "?t = strip_by P s @ u"
    unfolding strip_by_def by (metis rev_append rev_rev_ident takeWhile_dropWhile_id)
  with n have "?t \<noteq> []" "hd ?t = hd (strip_by P s)" by auto
  then show ?thesis using hd_dropWhile [of P s] by metis
qed

lemma strip_by_id: "s = [] \<or> \<not> P (hd s) \<and> \<not> P (last s) \<Longrightarrow> strip_by P s = s"
proof -
  assume a: "s = [] \<or> \<not> P (hd s) \<and> \<not> P (last s)"
  then have "dropWhile P s = s" by (cases s) auto
  moreover from a have "dropWhile P (rev s) = rev s" by (cases s rule: rev_cases) auto
  ultimately show ?thesis by (simp add: strip_by_def)
qed

text \<open>\<open>text.replace(old, new)\<close> for a non-empty \<open>old\<close>.\<close>

function replace_all :: "string \<Rightarrow> string \<Rightarrow> string \<Rightarrow> string" where
  "replace_all old new [] = []"
| "replace_all old new (c # cs) =
     (if old \<noteq> [] \<and> starts_with old (c # cs) then new @ replace_all old new (drop (length old) (c # cs))
      else c # replace_all old new cs)"
  by pat_completeness auto
termination
  by (relation "measure (\<lambda>(old, new, s). length s)") (auto simp: Suc_diff_le neq_Nil_conv)

lemma starts_with_hd: "starts_with (p # ps) s \<Longrightarrow> s \<noteq> [] \<and> hd s = p"
  by (cases s) auto

lemma replace_absent: "p \<notin> set s \<Longrightarrow> replace_all (p # ps) new s = s"
  by (induction s) auto

definition is_hex_any :: "char \<Rightarrow> bool" where
  "is_hex_any c \<longleftrightarrow> is_hex c \<or> 65 \<le> ch c \<and> ch c \<le> 70"

definition hex_value :: "char \<Rightarrow> nat" where
  "hex_value c = (if is_digit c then ch c - 48 else if ch c \<ge> 97 then ch c - 87 else ch c - 55)"

section \<open>Hexadecimal integers\<close>

text \<open>Digits with single underscores between them; \<open>started\<close>: the previous character was a digit.\<close>

fun hex_run :: "bool \<Rightarrow> nat \<Rightarrow> string \<Rightarrow> nat option" where
  "hex_run started acc [] = (if started then Some acc else None)"
| "hex_run started acc (c # cs) =
     (if is_hex_any c then hex_run True (16 * acc + hex_value c) cs
      else if c = CHR ''_'' \<and> started then hex_run False acc cs else None)"

definition skip_hex_prefix :: "string \<Rightarrow> string" where
  "skip_hex_prefix s =
     (if starts_with ''0x'' s \<or> starts_with ''0X'' s
      then (let r = drop 2 s in if starts_with ''_'' r then drop 1 r else r) else s)"

text \<open>\<open>int(text, 16)\<close>; \<open>None\<close> is a \<open>ValueError\<close>.\<close>

definition int16 :: "string \<Rightarrow> int option" where
  "int16 text =
     (case py_strip text of
        [] \<Rightarrow> None
      | c # cs \<Rightarrow>
          if c = CHR ''-'' then map_option (\<lambda>n. - int n) (hex_run False 0 (skip_hex_prefix cs))
          else map_option int (hex_run False 0 (skip_hex_prefix (if c = CHR ''+'' then cs else c # cs))))"

section \<open>UUIDs\<close>

text \<open>\<open>uuid.UUID(text)\<close> as its integer; \<open>None\<close> is a \<open>ValueError\<close>.\<close>

definition uuid_int :: "string \<Rightarrow> nat option" where
  "uuid_int text =
     (let hex = filter (\<lambda>c. c \<noteq> CHR ''-'')
          (strip_by (\<lambda>c. c = CHR 0x7B \<or> c = CHR 0x7D) (replace_all ''uuid:'' [] (replace_all ''urn:'' [] text)))
      in if length hex \<noteq> 32 then None
         else (case int16 hex of None \<Rightarrow> None
           | Some i \<Rightarrow> if 0 \<le> i \<and> i < 2 ^ 128 then Some (nat i) else None))"

definition hex_char :: "nat \<Rightarrow> char" where
  "hex_char d = (if d < 10 then char_of (48 + d) else char_of (87 + d))"

text \<open>\<open>"%0kx" % n\<close> for \<open>n < 16 ^ k\<close>.\<close>

fun hex_text :: "nat \<Rightarrow> nat \<Rightarrow> string" where
  "hex_text 0 n = []"
| "hex_text (Suc k) n = hex_text k (n div 16) @ [hex_char (n mod 16)]"

definition uuid_text :: "nat \<Rightarrow> string" where
  "uuid_text n =
     (let s = hex_text 32 n in
      take 8 s @ ''-'' @ take 4 (drop 8 s) @ ''-'' @ take 4 (drop 12 s) @ ''-'' @ take 4 (drop 16 s) @ ''-'' @ drop 20 s)"

subsection \<open>The printed form of a UUID reads back\<close>

lemma hex_char_facts:
  assumes "d < 16"
  shows "is_hex (hex_char d)" "hex_value (hex_char d) = d" "hex_char d \<noteq> CHR ''x''" "hex_char d \<noteq> CHR ''X''"
    "hex_char d \<noteq> CHR ''u''" "hex_char d \<noteq> CHR ''-''" "\<not> is_space (hex_char d)" "hex_char d \<noteq> CHR ''+''"
    "hex_char d \<noteq> CHR 0x7B" "hex_char d \<noteq> CHR 0x7D"
proof -
  have "\<forall>d \<in> set [0..<16]. is_hex (hex_char d) \<and> hex_value (hex_char d) = d \<and> hex_char d \<noteq> CHR ''x'' \<and>
      hex_char d \<noteq> CHR ''X'' \<and> hex_char d \<noteq> CHR ''u'' \<and> hex_char d \<noteq> CHR ''-'' \<and> \<not> is_space (hex_char d) \<and>
      hex_char d \<noteq> CHR ''+'' \<and> hex_char d \<noteq> CHR 0x7B \<and> hex_char d \<noteq> CHR 0x7D"
    by code_simp
  with assms show "is_hex (hex_char d)" "hex_value (hex_char d) = d" "hex_char d \<noteq> CHR ''x''" "hex_char d \<noteq> CHR ''X''"
    "hex_char d \<noteq> CHR ''u''" "hex_char d \<noteq> CHR ''-''" "\<not> is_space (hex_char d)" "hex_char d \<noteq> CHR ''+''"
    "hex_char d \<noteq> CHR 0x7B" "hex_char d \<noteq> CHR 0x7D"
    by simp_all
qed

lemma length_hex_text [simp]: "length (hex_text k n) = k"
  by (induction k arbitrary: n) auto

lemma set_hex_text: "c \<in> set (hex_text k n) \<Longrightarrow> \<exists>d < 16. c = hex_char d"
  by (induction k arbitrary: n) (auto intro: exI [of _ "n mod 16" for n])

lemma hex_run_append:
  "list_all is_hex_any s \<Longrightarrow> s \<noteq> [] \<Longrightarrow> hex_run b acc (s @ t) = hex_run True (foldl (\<lambda>n c. 16 * n + hex_value c) acc s) t"
proof (induction s arbitrary: b acc)
  case (Cons c s)
  then show ?case by (cases "s = []") auto
qed simp

lemma hex_text_value: "n < 16 ^ k \<Longrightarrow> foldl (\<lambda>n c. 16 * n + hex_value c) 0 (hex_text k n) = n"
proof (induction k arbitrary: n)
  case (Suc k)
  then have "n div 16 < 16 ^ k" by (simp add: less_mult_imp_div_less mult.commute)
  with Suc.IH show ?case by (simp add: hex_char_facts(2))
qed simp

lemma hex_run_text:
  assumes "n < 16 ^ k" and "0 < k"
  shows "hex_run b 0 (hex_text k n) = Some n"
proof -
  have "list_all is_hex_any (hex_text k n)"
    using set_hex_text hex_char_facts(1) by (fastforce simp: list_all_iff is_hex_any_def)
  moreover have "hex_text k n \<noteq> []" using assms(2) by (metis length_hex_text length_0_conv less_numeral_extra(3))
  ultimately have "hex_run b 0 (hex_text k n @ []) = hex_run True n []"
    using hex_text_value [OF assms(1)] by (subst hex_run_append) auto
  then show ?thesis by simp
qed

lemma int16_hex_text:
  assumes "n < 16 ^ k" and "1 < k"
  shows "int16 (hex_text k n) = Some (int n)"
proof -
  let ?s = "hex_text k n"
  have chars: "P c" if "c \<in> set ?s" "\<And>d. d < 16 \<Longrightarrow> P (hex_char d)" for P c
    using set_hex_text [OF that(1)] that(2) by auto
  obtain c d cs where s: "?s = c # d # cs"
    using assms(2) length_hex_text [of k n] by (cases ?s; cases "tl ?s") auto
  have in_s: "c \<in> set ?s" "d \<in> set ?s" "last ?s \<in> set ?s" "hd ?s = c" by (simp_all add: s)
  have "py_strip ?s = ?s"
    using chars [OF in_s(1), of "\<lambda>c. \<not> is_space c"] chars [OF in_s(3), of "\<lambda>c. \<not> is_space c"]
    by (intro strip_by_id) (simp add: in_s(4) hex_char_facts)
  moreover have "c \<noteq> CHR ''-''" "c \<noteq> CHR ''+''" "d \<noteq> CHR ''x''" "d \<noteq> CHR ''X''"
    using chars [OF in_s(1), of "\<lambda>c. c \<noteq> CHR ''-'' \<and> c \<noteq> CHR ''+''"]
      chars [OF in_s(2), of "\<lambda>c. c \<noteq> CHR ''x'' \<and> c \<noteq> CHR ''X''"] hex_char_facts(3,4,6,8) by blast+
  moreover have "skip_hex_prefix ?s = ?s" using calculation(4,5) by (simp add: skip_hex_prefix_def s)
  ultimately have "int16 ?s = map_option int (hex_run False 0 ?s)"
    by (simp add: int16_def s)
  then show ?thesis using hex_run_text [OF assms(1)] assms(2) by simp
qed

lemma uuid_text_chars: "c \<in> set (uuid_text n) \<Longrightarrow> c = CHR ''-'' \<or> (\<exists>d < 16. c = hex_char d)"
  by (auto simp: uuid_text_def Let_def dest!: in_set_takeD in_set_dropD set_hex_text)

lemma split_groups:
  "length s = 32 \<Longrightarrow> take 8 s @ take 4 (drop 8 s) @ take 4 (drop 12 s) @ take 4 (drop 16 s) @ drop 20 s = s"
  using append_take_drop_id [of 8 s] append_take_drop_id [of 4 "drop 8 s"] append_take_drop_id [of 4 "drop 12 s"]
    append_take_drop_id [of 4 "drop 16 s"] by simp

lemma uuid_text_hex: "filter (\<lambda>c. c \<noteq> CHR ''-'') (uuid_text n) = hex_text 32 n"
proof -
  have c: "c \<noteq> CHR ''-''" if "c \<in> set (hex_text 32 n)" for c
  proof -
    obtain d where "d < 16" "c = hex_char d" using set_hex_text [OF \<open>c \<in> _\<close>] by auto
    with hex_char_facts(6) [of d] show ?thesis by simp
  qed
  have id: "filter (\<lambda>c. c \<noteq> CHR ''-'') xs = xs" if "set xs \<subseteq> set (hex_text 32 n)" for xs
    using that c by (intro filter_True) blast
  have t: "filter (\<lambda>c. c \<noteq> CHR ''-'') (take k (drop m (hex_text 32 n))) = take k (drop m (hex_text 32 n))" for k m
    by (rule id) (auto dest: in_set_takeD in_set_dropD)
  have d: "filter (\<lambda>c. c \<noteq> CHR ''-'') (drop m (hex_text 32 n)) = drop m (hex_text 32 n)" for m
    by (rule id) (auto dest: in_set_dropD)
  show ?thesis
    using t [of _ 0] split_groups [of "hex_text 32 n"] by (simp only: uuid_text_def Let_def filter_append t d drop_0) simp
qed

lemma hd_last_uuid_text: "uuid_text n \<noteq> []" "hd (uuid_text n) \<noteq> CHR 0x7B" "hd (uuid_text n) \<noteq> CHR 0x7D"
  "last (uuid_text n) \<noteq> CHR 0x7B" "last (uuid_text n) \<noteq> CHR 0x7D"
proof -
  show ne: "uuid_text n \<noteq> []" by (simp add: uuid_text_def Let_def)
  have "c \<noteq> CHR 0x7B \<and> c \<noteq> CHR 0x7D" if "c \<in> set (uuid_text n)" for c
    using uuid_text_chars [OF that] hex_char_facts(9,10) by auto
  with ne show "hd (uuid_text n) \<noteq> CHR 0x7B" "hd (uuid_text n) \<noteq> CHR 0x7D"
    "last (uuid_text n) \<noteq> CHR 0x7B" "last (uuid_text n) \<noteq> CHR 0x7D" by auto
qed

lemma uuid_int_text: "n < 2 ^ 128 \<Longrightarrow> uuid_int (uuid_text n) = Some n"
proof -
  assume n: "n < 2 ^ 128"
  have u: "CHR ''u'' \<notin> set (uuid_text n)"
  proof
    assume "CHR ''u'' \<in> set (uuid_text n)"
    from uuid_text_chars [OF this] obtain d where "d < 16" "hex_char d = CHR ''u''" by auto
    with hex_char_facts(5) [of d] show False by simp
  qed
  have "strip_by (\<lambda>c. c = CHR 0x7B \<or> c = CHR 0x7D) (uuid_text n) = uuid_text n"
    using hd_last_uuid_text by (intro strip_by_id) blast
  moreover have "n < 16 ^ 32" using n by simp
  then have "int16 (hex_text 32 n) = Some (int n)" by (intro int16_hex_text) simp_all
  ultimately show ?thesis
    using n by (simp add: uuid_int_def replace_absent [OF u] uuid_text_hex)
qed

lemma uuid_int_bound: "uuid_int s = Some n \<Longrightarrow> n < 2 ^ 128"
  by (auto simp: uuid_int_def Let_def split: if_splits option.splits)

section \<open>Decimals\<close>

text \<open>
  \<open>Decimal(text)\<close>: surrounding space and all underscores are dropped; then a sign, digits with
  an optional point and exponent, or an infinity or a NaN. \<open>None\<close> is an \<open>InvalidOperation\<close>.
\<close>

datatype number = Finite decimal | Infinity_or_NaN

definition split_sign :: "string \<Rightarrow> bool \<times> string" where
  "split_sign s = (case s of [] \<Rightarrow> (False, [])
     | c # cs \<Rightarrow> if c = CHR ''-'' then (True, cs) else if c = CHR ''+'' then (False, cs) else (False, s))"

definition lower_text :: "string \<Rightarrow> string" where
  "lower_text = map (\<lambda>c. if is_upper c then char_of (ch c + 32) else c)"

definition is_special :: "string \<Rightarrow> bool" where
  "is_special s \<longleftrightarrow> (let t = lower_text s in
     t = ''inf'' \<or> t = ''infinity'' \<or> (starts_with ''nan'' t \<and> list_all is_digit (drop 3 t))
     \<or> (starts_with ''snan'' t \<and> list_all is_digit (drop 4 t)))"

definition read_exponent :: "string \<Rightarrow> int option" where
  "read_exponent s =
     (case s of [] \<Rightarrow> Some 0
      | c # cs \<Rightarrow>
          if c \<noteq> CHR ''e'' \<and> c \<noteq> CHR ''E'' then None
          else (case split_sign cs of (negative, ds) \<Rightarrow>
            if ds = [] \<or> \<not> list_all is_digit ds then None
            else Some (if negative then - int (digits_value ds) else int (digits_value ds))))"

definition decimal_of_text :: "string \<Rightarrow> number option" where
  "decimal_of_text text =
     (case split_sign (filter (\<lambda>c. c \<noteq> CHR ''_'') (py_strip text)) of (negative, s) \<Rightarrow>
      if is_special s then Some Infinity_or_NaN
      else
        (let whole = takeWhile is_digit s; rest = dropWhile is_digit s;
             pointed = starts_with ''.'' rest;
             frac = (if pointed then takeWhile is_digit (drop 1 rest) else []);
             tail_text = (if pointed then dropWhile is_digit (drop 1 rest) else rest) in
         if whole @ frac = [] then None
         else map_option (\<lambda>e. Finite (Dec negative (digits_value (whole @ frac)) (e - int (length frac))))
                (read_exponent tail_text)))"

section \<open>Datetimes\<close>

text \<open>A datetime with a time zone, or without one (its offset field is then ignored).\<close>

datatype clock = Aware datetime | Naive datetime

fun is_aware :: "clock \<Rightarrow> bool" where
  "is_aware (Aware t) = True"
| "is_aware (Naive t) = False"

definition local_time :: "datetime \<Rightarrow> datetime" where
  "local_time t = t\<lparr>dt_offset := 0\<rparr>"

text \<open>\<open>==\<close> on datetimes: aware ones by their instant, an aware and a naive one never.\<close>

fun clock_eq :: "clock \<Rightarrow> clock \<Rightarrow> bool" where
  "clock_eq (Aware s) (Aware t) = (instant s = instant t)"
| "clock_eq (Naive s) (Naive t) = (local_time s = local_time t)"
| "clock_eq _ _ = False"

lemma clock_eq_refl [simp]: "clock_eq t t"
  by (cases t) simp_all

definition pad :: "nat \<Rightarrow> nat \<Rightarrow> string" where
  "pad width n = (let s = nat_text n in replicate (width - length s) CHR ''0'' @ s)"

definition offset_text :: "int \<Rightarrow> string" where
  "offset_text off =
     (let m = nat \<bar>off\<bar> in (if off < 0 then ''-'' else ''+'') @ pad 2 (m div 60) @ '':'' @ pad 2 (m mod 60))"

definition naive_isoformat :: "datetime \<Rightarrow> string" where
  "naive_isoformat t =
     pad 4 (dt_year t) @ ''-'' @ pad 2 (dt_month t) @ ''-'' @ pad 2 (dt_day t) @ ''T'' @
     pad 2 (dt_hour t) @ '':'' @ pad 2 (dt_minute t) @ '':'' @ pad 2 (dt_second t) @
     (if dt_micro t = 0 then [] else ''.'' @ pad 6 (dt_micro t))"

fun isoformat :: "clock \<Rightarrow> string" where
  "isoformat (Aware t) = naive_isoformat t @ offset_text (dt_offset t)"
| "isoformat (Naive t) = naive_isoformat t"

end
