(* ===== verification/Domain.thy ===== *)
theory Domain imports PyJson PyParse begin

text \<open>
  \<open>domain/\<close>: canonical events, immutable source rows, typed values with a data state, and the
  idempotency keys. A frozen dataclass is a record, its \<open>__post_init__\<close> a function that returns
  the record or the exception. Payloads are JSON documents: freezing turns lists into tuples and
  dicts into read-only views, which leaves the document the same. Fields have their declared
  types; SHA-256 is the parameter \<open>h\<close>.
\<close>

abbreviation value_error :: "string \<Rightarrow> 'a res" where
  "value_error message \<equiv> Inl (ValueError message)"

section \<open>Idempotency keys\<close>

text \<open>\<open>domain/idempotency.py\<close>. The parts of a key are joined by the unit separator.\<close>

definition unit_separator :: string where "unit_separator = [CHR 0x1F]"

definition digest_parts :: "(string \<Rightarrow> string) \<Rightarrow> string list \<Rightarrow> string" where
  "digest_parts h parts = h (join unit_separator parts)"

text \<open>\<open>json.dumps\<close> raises \<open>ValueError\<close> for what \<open>json_ok\<close> refuses.\<close>

definition canonical_json_hash :: "(string \<Rightarrow> string) \<Rightarrow> json \<Rightarrow> string res" where
  "canonical_json_hash h v =
     (if json_ok v then Inr (h (json_text v)) else value_error ''JSON'')"

definition file_idempotency_key ::
  "(string \<Rightarrow> string) \<Rightarrow> string \<Rightarrow> string \<Rightarrow> string \<Rightarrow> string \<Rightarrow> string \<Rightarrow> string" where
  "file_idempotency_key h organization account sha adapter version =
     digest_parts h [organization, account, sha, adapter, version]"

definition source_record_idempotency_key :: "(string \<Rightarrow> string) \<Rightarrow> string \<Rightarrow> string \<Rightarrow> string \<Rightarrow> string" where
  "source_record_idempotency_key h batch row_key row_hash = digest_parts h [batch, row_key, row_hash]"

definition event_idempotency_key ::
  "(string \<Rightarrow> string) \<Rightarrow> string \<Rightarrow> string \<Rightarrow> string \<Rightarrow> string \<Rightarrow> int \<Rightarrow> string \<Rightarrow> string res" where
  "event_idempotency_key h organization account kind business_key revision semantic_hash =
     (if revision < 1 then value_error ''revision must be >= 1.''
      else Inr (digest_parts h [organization, account, kind, business_key, int_text revision, semantic_hash]))"

section \<open>Events\<close>

text \<open>\<open>domain/events.py\<close>\<close>

datatype event_status = EventValid | EventSuperseded | EventReversed | EventConflict | EventBlocked

fun event_status_value :: "event_status \<Rightarrow> string" where
  "event_status_value EventValid = ''VALID''"
| "event_status_value EventSuperseded = ''SUPERSEDED''"
| "event_status_value EventReversed = ''REVERSED''"
| "event_status_value EventConflict = ''CONFLICT''"
| "event_status_value EventBlocked = ''BLOCKED''"

record event =
  e_id :: string
  e_organization :: string
  e_account :: string
  e_type :: string
  e_event_time :: clock
  e_recognition_time :: clock
  e_business_key :: string
  e_row_key :: string
  e_revision :: int
  e_idempotency :: string
  e_semantic_hash :: string
  e_batch :: string
  e_source_record :: string
  e_schema :: string
  e_payload :: dict
  e_provenance :: dict
  e_status :: event_status
  e_created :: clock
  e_supersedes :: "string option"
  e_reversal :: "string option"

definition event_required :: "event \<Rightarrow> (string \<times> string) list" where
  "event_required e =
     [(''event_id'', e_id e), (''organization_id'', e_organization e),
      (''marketplace_account_id'', e_account e), (''event_type'', e_type e),
      (''stable_business_key'', e_business_key e), (''source_row_key'', e_row_key e),
      (''idempotency_key'', e_idempotency e), (''import_batch_id'', e_batch e),
      (''source_record_id'', e_source_record e), (''schema_version'', e_schema e)]"

definition check_event :: "event \<Rightarrow> unit res" where
  "check_event e =
     (case find (\<lambda>(name, v). v = []) (event_required e) of
        Some (name, v) \<Rightarrow> value_error (name @ '' is required.'')
      | None \<Rightarrow>
          if e_revision e < 1 then value_error ''revision must be >= 1.''
          else if length (e_semantic_hash e) \<noteq> 64
          then value_error ''semantic_payload_hash must be a SHA-256 hex digest.''
          else if int16 (e_semantic_hash e) = None then value_error ''invalid literal for int()''
          else if e_supersedes e = Some (e_id e) then value_error ''An event cannot supersede itself.''
          else if e_reversal e = Some (e_id e) then value_error ''An event cannot reverse itself.''
          else if e_payload e = [] then value_error ''payload must not be empty.''
          else if e_provenance e = [] then value_error ''provenance must not be empty.''
          else Inr ())"

definition make_event :: "event \<Rightarrow> event res" where
  "make_event e = rbind (check_event e) (\<lambda>_. Inr e)"

text \<open>The \<open>==\<close> of the dataclass: all fields equal, datetimes and documents as Python compares them.\<close>

definition event_eq :: "event \<Rightarrow> event \<Rightarrow> bool" where
  "event_eq a b \<longleftrightarrow>
     e_id a = e_id b \<and> e_organization a = e_organization b \<and> e_account a = e_account b \<and>
     e_type a = e_type b \<and> clock_eq (e_event_time a) (e_event_time b) \<and>
     clock_eq (e_recognition_time a) (e_recognition_time b) \<and>
     e_business_key a = e_business_key b \<and> e_row_key a = e_row_key b \<and>
     e_revision a = e_revision b \<and> e_idempotency a = e_idempotency b \<and>
     e_semantic_hash a = e_semantic_hash b \<and> e_batch a = e_batch b \<and>
     e_source_record a = e_source_record b \<and> e_schema a = e_schema b \<and>
     py_eq (JObj (e_payload a)) (JObj (e_payload b)) \<and>
     py_eq (JObj (e_provenance a)) (JObj (e_provenance b)) \<and>
     e_status a = e_status b \<and> clock_eq (e_created a) (e_created b) \<and>
     e_supersedes a = e_supersedes b \<and> e_reversal a = e_reversal b"

section \<open>Source rows\<close>

text \<open>\<open>domain/source_rows.py\<close>\<close>

datatype row_status = RowValid | RowQuarantined

fun row_status_value :: "row_status \<Rightarrow> string" where
  "row_status_value RowValid = ''VALID''"
| "row_status_value RowQuarantined = ''QUARANTINED''"

record source_row =
  r_id :: string
  r_tenant :: string
  r_raw_file :: string
  r_file_sha :: string
  r_batch :: string
  r_number :: int
  r_key :: string
  r_hash :: string
  r_payload :: dict
  r_structural :: json
  r_semantic :: "json option"
  r_status :: row_status
  r_diagnostics :: "string list"
  r_adapter :: string
  r_adapter_version :: string
  r_schema :: string
  r_ingested :: clock

definition row_required :: "source_row \<Rightarrow> (string \<times> string) list" where
  "row_required r =
     [(''source_record_id'', r_id r), (''tenant_id'', r_tenant r), (''import_batch_id'', r_batch r),
      (''source_row_key'', r_key r), (''adapter_id'', r_adapter r),
      (''adapter_version'', r_adapter_version r), (''schema_version'', r_schema r)]"

definition check_fingerprint :: "json \<Rightarrow> string \<Rightarrow> unit res" where
  "check_fingerprint v field =
     (case v of
        JObj d \<Rightarrow>
          if d = [] then value_error (field @ '': required'')
          else (case dget d ''sha256'' of
              JStr s \<Rightarrow> if hash_re s then Inr () else value_error (field @ ''.sha256: invalid'')
            | _ \<Rightarrow> value_error (field @ ''.sha256: invalid''))
      | _ \<Rightarrow> value_error (field @ '': required''))"

definition string_payload :: "dict \<Rightarrow> bool" where
  "string_payload d \<longleftrightarrow> d \<noteq> [] \<and> list_all (\<lambda>(k, v). case v of JStr _ \<Rightarrow> True | _ \<Rightarrow> False) d"

definition check_row_identity :: "(string \<Rightarrow> string) \<Rightarrow> source_row \<Rightarrow> unit res" where
  "check_row_identity h r =
     (case find (\<lambda>(name, v). v = []) (row_required r) of
        Some (name, v) \<Rightarrow> value_error (name @ '': required'')
      | None \<Rightarrow>
          if uuid_int (r_raw_file r) = None then value_error ''raw_file_id: invalid UUID''
          else if \<not> hash_re (r_file_sha r) then value_error ''source_file_sha256: invalid SHA-256''
          else if \<not> hash_re (r_hash r) then value_error ''raw_row_hash: invalid SHA-256''
          else if r_number r < 2 then value_error ''row_number: must be >= 2''
          else if \<not> string_payload (r_payload r) then value_error ''raw_payload: non-empty string mapping required''
          else rbind (canonical_json_hash h (JObj (r_payload r))) (\<lambda>digest.
            if digest \<noteq> r_hash r then value_error ''raw_row_hash: does not match raw_payload'' else Inr ()))"

definition check_row_status :: "source_row \<Rightarrow> unit res" where
  "check_row_status r =
     rbind (check_fingerprint (r_structural r) ''structural_fingerprint'') (\<lambda>_.
     rbind (case r_semantic r of None \<Rightarrow> Inr () | Some v \<Rightarrow> check_fingerprint v ''semantic_fingerprint'') (\<lambda>_.
       if list_ex (\<lambda>d. d = []) (r_diagnostics r) then value_error ''diagnostics: invalid''
       else if r_status r = RowValid \<and> r_diagnostics r \<noteq> [] then value_error ''diagnostics: forbidden for VALID row''
       else if r_status r = RowValid \<and> r_semantic r = None
       then value_error ''semantic_fingerprint: required for VALID row''
       else if r_status r = RowQuarantined \<and> r_diagnostics r = []
       then value_error ''diagnostics: required for QUARANTINED row''
       else if \<not> is_aware (r_ingested r) then value_error ''ingested_at: timezone-aware datetime required''
       else Inr ()))"

definition make_source_row :: "(string \<Rightarrow> string) \<Rightarrow> source_row \<Rightarrow> source_row res" where
  "make_source_row h r =
     rbind (check_row_identity h r) (\<lambda>_. rbind (check_row_status r) (\<lambda>_. Inr r))"

text \<open>Neither the raw file nor the time of ingestion is part of the fingerprint of a row.\<close>

definition row_document :: "source_row \<Rightarrow> dict" where
  "row_document r =
     [(''source_record_id'', JStr (r_id r)), (''tenant_id'', JStr (r_tenant r)),
      (''source_file_sha256'', JStr (r_file_sha r)), (''import_batch_id'', JStr (r_batch r)),
      (''row_number'', JInt (r_number r)), (''source_row_key'', JStr (r_key r)),
      (''raw_row_hash'', JStr (r_hash r)), (''raw_payload'', JObj (r_payload r)),
      (''structural_fingerprint'', r_structural r),
      (''semantic_fingerprint'', case r_semantic r of None \<Rightarrow> JNull | Some v \<Rightarrow> v),
      (''validation_status'', JStr (row_status_value (r_status r))),
      (''diagnostics'', JList (map JStr (r_diagnostics r))), (''adapter_id'', JStr (r_adapter r)),
      (''adapter_version'', JStr (r_adapter_version r)), (''schema_version'', JStr (r_schema r))]"

definition content_fingerprint :: "(string \<Rightarrow> string) \<Rightarrow> source_row \<Rightarrow> string res" where
  "content_fingerprint h r = canonical_json_hash h (JObj (row_document r))"

section \<open>Typed values with a data state\<close>

text \<open>\<open>domain/states.py\<close>; a value of \<open>None\<close> is \<open>JNull\<close>.\<close>

datatype data_state = StateValid | StateEmpty | StateBlocked | StateUnavailable | StateConflict
  | StateInvalid | StateNotApplicable

fun data_state_value :: "data_state \<Rightarrow> string" where
  "data_state_value StateValid = ''VALID''"
| "data_state_value StateEmpty = ''EMPTY''"
| "data_state_value StateBlocked = ''BLOCKED''"
| "data_state_value StateUnavailable = ''UNAVAILABLE''"
| "data_state_value StateConflict = ''CONFLICT''"
| "data_state_value StateInvalid = ''INVALID''"
| "data_state_value StateNotApplicable = ''NOT_APPLICABLE''"

record typed_value =
  t_state :: data_state
  t_value :: json
  t_type :: "string option"
  t_unit :: "string option"
  t_reason :: "string option"
  t_source :: "string option"
  t_observed :: "clock option"
  t_metadata :: dict

definition falsy_text :: "string option \<Rightarrow> bool" where
  "falsy_text s \<longleftrightarrow> s = None \<or> s = Some []"

definition make_typed_value :: "typed_value \<Rightarrow> typed_value res" where
  "make_typed_value v =
     (if t_state v = StateValid then
        (if t_value v = JNull then value_error ''VALID typed value requires a non-null value.''
         else if falsy_text (t_type v) then value_error ''VALID typed value requires value_type.''
         else if t_reason v \<noteq> None then value_error ''VALID typed value must not contain reason_code.''
         else Inr v)
      else if t_value v \<noteq> JNull then
        value_error (data_state_value (t_state v) @
          '' typed value must contain value=None; missing states cannot be converted to zero.'')
      else if falsy_text (t_reason v) then
        value_error (data_state_value (t_state v) @ '' typed value requires reason_code.'')
      else Inr v)"

definition typed_valid ::
  "json \<Rightarrow> string \<Rightarrow> string option \<Rightarrow> string option \<Rightarrow> clock option \<Rightarrow> dict \<Rightarrow> typed_value res" where
  "typed_valid v kind unit source observed metadata =
     make_typed_value \<lparr>t_state = StateValid, t_value = v, t_type = Some kind, t_unit = unit, t_reason = None,
       t_source = source, t_observed = observed, t_metadata = metadata\<rparr>"

definition typed_missing ::
  "data_state \<Rightarrow> string \<Rightarrow> string option \<Rightarrow> clock option \<Rightarrow> dict \<Rightarrow> typed_value res" where
  "typed_missing state reason source observed metadata =
     (if state = StateValid then value_error ''Use TypedValue.valid for VALID state.''
      else make_typed_value \<lparr>t_state = state, t_value = JNull, t_type = None, t_unit = None,
        t_reason = Some reason, t_source = source, t_observed = observed, t_metadata = metadata\<rparr>)"

end
