(* ===== verification/Access.thy ===== *)
theory Access imports Stores PyParse begin

text \<open>
  \<open>access/contracts.py\<close>: tenants, single-use invites and accounts. The registry is the record of
  its two dicts. Clocks and random tokens are arguments: \<open>now\<close> is the time of the call, and the
  draws of \<open>secrets\<close> and \<open>uuid4\<close> are lists, of which a loop takes what it needs; \<open>None\<close> means
  the loop has used all of them without finding a fresh one. SHA-256 is the parameter \<open>h\<close>. The
  lock is not modelled: an operation is one step.
\<close>

abbreviation access_error :: "string \<Rightarrow> 'a res" where
  "access_error code \<equiv> Inl (AccessError code)"

definition invite_prefix :: string where "invite_prefix = ''QINV-''"
definition account_prefix :: string where "account_prefix = ''QTM-''"

text \<open>The UTC instant of an aware datetime, in microseconds.\<close>

definition aware_utc :: "clock \<Rightarrow> string \<Rightarrow> int res" where
  "aware_utc t code = (case t of Aware d \<Rightarrow> Inr (instant d) | Naive d \<Rightarrow> access_error code)"

definition feature_profile :: "string \<Rightarrow> string res" where
  "feature_profile v =
     (let normalized = py_strip v in
      if normalized = [] \<or> length normalized > 64 then access_error ''FEATURE_PROFILE_INVALID''
      else Inr normalized)"

section \<open>Tenants\<close>

record tenant =
  tenant_id :: string
  tenant_account :: string
  tenant_profile :: string

definition make_tenant :: "string \<Rightarrow> string \<Rightarrow> string \<Rightarrow> tenant res" where
  "make_tenant t a p =
     (if t = [] then access_error ''TENANT_ID_INVALID''
      else if a = [] then access_error ''ACCOUNT_ID_INVALID''
      else rbind (feature_profile p) (\<lambda>_.
        Inr \<lparr>tenant_id = t, tenant_account = a, tenant_profile = p\<rparr>))"

definition require_tenant :: "tenant \<Rightarrow> string \<Rightarrow> unit res" where
  "require_tenant t wanted =
     (if wanted = [] then access_error ''TENANT_ID_INVALID''
      else if tenant_id t \<noteq> wanted then access_error ''TENANT_SCOPE_MISMATCH'' else Inr ())"

section \<open>The registry\<close>

record invite =
  i_id :: string
  i_code_hash :: string
  i_expires :: int
  i_profile :: string
  i_activated :: "int option"

definition invite_active :: "invite \<Rightarrow> int \<Rightarrow> bool" where
  "invite_active i now \<longleftrightarrow> i_activated i = None \<and> now < i_expires i"

record account =
  a_id :: string
  a_alias :: string
  a_tenant :: string
  a_profile :: string
  a_recovery_hash :: string
  a_created :: int

record access =
  x_invites :: "(string \<times> invite) list"
  x_accounts :: "(string \<times> account) list"

definition new_access :: access where
  "new_access = \<lparr>x_invites = [], x_accounts = []\<rparr>"

definition hash_secret :: "(string \<Rightarrow> string) \<Rightarrow> string \<Rightarrow> string" where
  "hash_secret h value = h value"

text \<open>The first draw whose hash is not an invite yet.\<close>

definition fresh_code :: "(string \<Rightarrow> string) \<Rightarrow> string list \<Rightarrow> access \<Rightarrow> string option" where
  "fresh_code h draws x =
     find (\<lambda>code. map_of (x_invites x) (hash_secret h code) = None) (map ((@) invite_prefix) draws)"

definition issue_invite ::
  "(string \<Rightarrow> string) \<Rightarrow> clock \<Rightarrow> string \<Rightarrow> clock \<Rightarrow> string list \<Rightarrow> string \<Rightarrow> access \<Rightarrow> (string \<times> access) option res" where
  "issue_invite h expires_at profile now draws invite_id x =
     rbind (aware_utc now ''ISSUE_TIME_TIMEZONE_REQUIRED'') (\<lambda>current.
     rbind (aware_utc expires_at ''INVITE_EXPIRY_TIMEZONE_REQUIRED'') (\<lambda>expiry.
     rbind (feature_profile profile) (\<lambda>p.
       if expiry \<le> current then access_error ''INVITE_EXPIRY_NOT_FUTURE''
       else Inr (case fresh_code h draws x of
           None \<Rightarrow> None
         | Some code \<Rightarrow>
             (let code_hash = hash_secret h code;
                  record = \<lparr>i_id = invite_id, i_code_hash = code_hash, i_expires = expiry, i_profile = p,
                    i_activated = None\<rparr>
              in Some (code, x\<lparr>x_invites := AList.update code_hash record (x_invites x)\<rparr>))))))"

record activation =
  z_account :: account
  z_tenant :: tenant
  z_recovery :: string

text \<open>The random values of an activation: account identifiers in turn, then the others.\<close>

record activation_draws =
  d_accounts :: "string list"
  d_tenant :: string
  d_alias :: string
  d_recovery :: string

definition fresh_account :: "string list \<Rightarrow> access \<Rightarrow> string option" where
  "fresh_account draws x = find (\<lambda>a. map_of (x_accounts x) a = None) draws"

definition usable_invite :: "(string \<Rightarrow> string) \<Rightarrow> string \<Rightarrow> int \<Rightarrow> access \<Rightarrow> invite res" where
  "usable_invite h code current x =
     (if \<not> starts_with invite_prefix code then access_error ''INVITE_INVALID''
      else (case map_of (x_invites x) (hash_secret h code) of
          None \<Rightarrow> access_error ''INVITE_INVALID''
        | Some i \<Rightarrow>
            if i_activated i \<noteq> None then access_error ''INVITE_ALREADY_USED''
            else if current \<ge> i_expires i then access_error ''INVITE_EXPIRED''
            else Inr i))"

text \<open>The tenant context is built after the two dicts have changed.\<close>

definition activate_invite ::
  "(string \<Rightarrow> string) \<Rightarrow> string \<Rightarrow> clock \<Rightarrow> activation_draws \<Rightarrow> access \<Rightarrow> activation option res \<times> access" where
  "activate_invite h code now draws x =
     (case rbind (aware_utc now ''ACTIVATION_TIMEZONE_REQUIRED'') (\<lambda>current.
            rbind (usable_invite h code current x) (\<lambda>i. Inr (current, i))) of
        Inl e \<Rightarrow> (Inl e, x)
      | Inr (current, i) \<Rightarrow>
          (case fresh_account (d_accounts draws) x of
             None \<Rightarrow> (Inr None, x)
           | Some account_id \<Rightarrow>
               (let account = \<lparr>a_id = account_id, a_alias = account_prefix @ upper_text (d_alias draws),
                      a_tenant = d_tenant draws, a_profile = i_profile i,
                      a_recovery_hash = hash_secret h (d_recovery draws), a_created = current\<rparr>;
                    x' = x\<lparr>x_accounts := AList.update account_id account (x_accounts x),
                           x_invites := AList.update (hash_secret h code) (i\<lparr>i_activated := Some current\<rparr>) (x_invites x)\<rparr>
                in (rbind (make_tenant (d_tenant draws) account_id (i_profile i)) (\<lambda>t.
                      Inr (Some \<lparr>z_account = account, z_tenant = t, z_recovery = d_recovery draws\<rparr>)), x'))))"

definition verify_recovery_key :: "(string \<Rightarrow> string) \<Rightarrow> string \<Rightarrow> string \<Rightarrow> access \<Rightarrow> bool" where
  "verify_recovery_key h account_id recovery_key x =
     (if account_id = [] \<or> recovery_key = [] then False
      else (case map_of (x_accounts x) account_id of
          None \<Rightarrow> False
        | Some a \<Rightarrow> a_recovery_hash a = hash_secret h recovery_key))"

definition get_account :: "string \<Rightarrow> access \<Rightarrow> account res" where
  "get_account account_id x =
     (if account_id = [] then access_error ''ACCOUNT_ID_INVALID''
      else (case map_of (x_accounts x) account_id of
          None \<Rightarrow> access_error ''ACCOUNT_NOT_FOUND''
        | Some a \<Rightarrow> Inr a))"

end
