(* ===== verification/Ledger.thy ===== *)
theory Ledger imports Domain Access begin

text \<open>
  \<open>infrastructure/in_memory_canonical_ledger.py\<close>: the append-only ledger of source rows and
  canonical events. The state is the record of its five dicts, keyed by tenant; a failing append
  raises before it changes any of them. Arithmetic on amounts uses the default decimal context of
  28 digits. The lock is not modelled: an operation is one step.
\<close>

abbreviation ledger_error :: "string \<Rightarrow> 'a res" where
  "ledger_error code \<equiv> Inl (CanonicalLedgerError code)"

section \<open>State\<close>

type_synonym revision_key = "string \<times> string \<times> string \<times> int"

record ledger =
  l_sources :: "((string \<times> string) \<times> source_row) list"
  l_locators :: "((string \<times> string \<times> int) \<times> string) list"
  l_events :: "((string \<times> string) \<times> event) list"
  l_idempotency :: "((string \<times> string) \<times> event) list"
  l_revisions :: "(revision_key \<times> event) list"

definition new_ledger :: ledger where
  "new_ledger = \<lparr>l_sources = [], l_locators = [], l_events = [], l_idempotency = [], l_revisions = []\<rparr>"

record append_result =
  source_inserted :: bool
  event_inserted :: bool

record event_trace =
  trace_of :: event
  trace_row :: source_row
  trace_raw_file :: string
  trace_file_sha :: string

section \<open>Typed values of a payload\<close>

definition typed_field :: "dict \<Rightarrow> string \<Rightarrow> dict res" where
  "typed_field payload field =
     (case map_of payload field of
        Some (JObj d) \<Rightarrow>
          if dget d ''state'' = JStr ''VALID'' then Inr d else ledger_error ''EVENT_TYPED_VALUE_INVALID''
      | _ \<Rightarrow> ledger_error ''EVENT_TYPED_VALUE_INVALID'')"

definition typed_integer :: "dict \<Rightarrow> string \<Rightarrow> (int \<times> string) res" where
  "typed_integer payload field =
     rbind (typed_field payload field) (\<lambda>d.
       case (dget d ''value'', dget d ''unit'') of
         (JInt raw, JStr unit) \<Rightarrow>
           if dget d ''value_type'' \<noteq> JStr ''integer'' \<or> raw \<le> 0 \<or> unit = []
           then ledger_error ''EVENT_TYPED_INTEGER_INVALID'' else Inr (raw, unit)
       | _ \<Rightarrow> ledger_error ''EVENT_TYPED_INTEGER_INVALID'')"

definition typed_decimal :: "dict \<Rightarrow> string \<Rightarrow> (decimal \<times> string) res" where
  "typed_decimal payload field =
     rbind (typed_field payload field) (\<lambda>d.
       case (dget d ''value'', dget d ''unit'') of
         (JStr raw, JStr unit) \<Rightarrow>
           if dget d ''value_type'' \<noteq> JStr ''decimal'' \<or> unit = []
           then ledger_error ''EVENT_TYPED_DECIMAL_INVALID''
           else (case decimal_of_text raw of
               Some (Finite x) \<Rightarrow>
                 if dec_less x (Dec False 0 0) then ledger_error ''EVENT_TYPED_DECIMAL_INVALID'' else Inr (x, unit)
             | _ \<Rightarrow> ledger_error ''EVENT_TYPED_DECIMAL_INVALID'')
       | _ \<Rightarrow> ledger_error ''EVENT_TYPED_DECIMAL_INVALID'')"

definition typed_string :: "dict \<Rightarrow> string \<Rightarrow> string res" where
  "typed_string payload field =
     rbind (typed_field payload field) (\<lambda>d.
       case dget d ''value'' of
         JStr raw \<Rightarrow>
           if dget d ''value_type'' \<noteq> JStr ''string'' \<or> raw = []
           then ledger_error ''EVENT_TYPED_STRING_INVALID'' else Inr raw
       | _ \<Rightarrow> ledger_error ''EVENT_TYPED_STRING_INVALID'')"

section \<open>Checks\<close>

definition event_or_error :: "ledger \<Rightarrow> string \<Rightarrow> string \<Rightarrow> string \<Rightarrow> event res" where
  "event_or_error l t event_id code =
     (case map_of (l_events l) (t, event_id) of None \<Rightarrow> ledger_error code | Some e \<Rightarrow> Inr e)"

text \<open>\<open>bool(value)\<close> of a document.\<close>

definition truthy :: "json \<Rightarrow> bool" where
  "truthy v = (case v of
     JNull \<Rightarrow> False | JBool b \<Rightarrow> b | JInt i \<Rightarrow> i \<noteq> 0 | JFloat r \<Rightarrow> r \<noteq> ''0.0'' \<and> r \<noteq> ''-0.0''
   | JStr s \<Rightarrow> s \<noteq> [] | JList xs \<Rightarrow> xs \<noteq> [] | JObj d \<Rightarrow> d \<noteq> [])"

definition provenance_required :: "string list" where
  "provenance_required = [''source_file_sha256'', ''source_adapter'', ''source_adapter_version'',
     ''source_schema_id'', ''normalization_rule_version'', ''actor'', ''created_at'', ''trace_id'']"

definition validate_provenance :: "source_row \<Rightarrow> event \<Rightarrow> unit res" where
  "validate_provenance r e =
     (let p = e_provenance e in
      if \<not> list_all (\<lambda>f. truthy (dget p f)) provenance_required then ledger_error ''EVENT_PROVENANCE_INCOMPLETE''
      else if dget p ''created_at'' \<noteq> JStr (isoformat (e_created e)) then ledger_error ''EVENT_PROVENANCE_TIME_MISMATCH''
      else if dget p ''source_file_sha256'' \<noteq> JStr (r_file_sha r) then ledger_error ''EVENT_SOURCE_FILE_MISMATCH''
      else if dget p ''source_adapter'' \<noteq> JStr (r_adapter r) then ledger_error ''EVENT_ADAPTER_MISMATCH''
      else if dget p ''source_adapter_version'' \<noteq> JStr (r_adapter_version r)
      then ledger_error ''EVENT_ADAPTER_VERSION_MISMATCH''
      else if dget p ''source_schema_id'' \<noteq> JStr (r_schema r) then ledger_error ''EVENT_SOURCE_SCHEMA_MISMATCH''
      else Inr ())"

definition validate_lineage :: "(string \<Rightarrow> string) \<Rightarrow> source_row \<Rightarrow> event \<Rightarrow> unit res" where
  "validate_lineage h r e =
     (if r_status r \<noteq> RowValid then ledger_error ''EVENT_SOURCE_ROW_NOT_VALID''
      else if e_status e \<noteq> EventValid then ledger_error ''EVENT_STATUS_NOT_VALID''
      else if \<not> list_all is_aware [e_event_time e, e_recognition_time e, e_created e]
      then ledger_error ''EVENT_TIMEZONE_REQUIRED''
      else if \<not> hash_re (e_idempotency e) then ledger_error ''EVENT_IDEMPOTENCY_KEY_INVALID''
      else rbind (canonical_json_hash h (JObj (e_payload e))) (\<lambda>digest.
        if digest \<noteq> e_semantic_hash e then ledger_error ''EVENT_SEMANTIC_HASH_MISMATCH''
        else if e_organization e \<noteq> r_tenant r then ledger_error ''EVENT_TENANT_MISMATCH''
        else if e_source_record e \<noteq> r_id r then ledger_error ''EVENT_SOURCE_RECORD_MISMATCH''
        else if e_row_key e \<noteq> r_key r then ledger_error ''EVENT_SOURCE_ROW_KEY_MISMATCH''
        else if e_batch e \<noteq> r_batch r then ledger_error ''EVENT_IMPORT_BATCH_MISMATCH''
        else if e_schema e \<noteq> r_schema r then ledger_error ''EVENT_SCHEMA_VERSION_MISMATCH''
        else validate_provenance r e))"

definition revision_key_of :: "string \<Rightarrow> event \<Rightarrow> revision_key" where
  "revision_key_of t e = (t, e_account e, e_business_key e, e_revision e)"

text \<open>An index entry for this key that is not this event.\<close>

definition conflicts :: "event option \<Rightarrow> event \<Rightarrow> bool" where
  "conflicts found e = (case found of None \<Rightarrow> False | Some x \<Rightarrow> \<not> event_eq x e)"

definition validate_revision :: "ledger \<Rightarrow> string \<Rightarrow> event \<Rightarrow> unit res" where
  "validate_revision l t e =
     (if conflicts (map_of (l_revisions l) (revision_key_of t e)) e then ledger_error ''EVENT_REVISION_CONFLICT''
      else if e_revision e = 1 then
        (if e_supersedes e \<noteq> None then ledger_error ''EVENT_SUPERSESSION_INVALID'' else Inr ())
      else (case e_supersedes e of
          None \<Rightarrow> ledger_error ''EVENT_SUPERSESSION_REQUIRED''
        | Some target \<Rightarrow>
            rbind (event_or_error l t target ''EVENT_SUPERSEDED_TARGET_MISSING'') (\<lambda>p.
              if e_account p \<noteq> e_account e \<or> e_business_key p \<noteq> e_business_key e \<or>
                 e_type p \<noteq> e_type e \<or> e_revision p + 1 \<noteq> e_revision e
              then ledger_error ''EVENT_SUPERSESSION_INVALID'' else Inr ())))"

definition events_of :: "ledger \<Rightarrow> string \<Rightarrow> event list" where
  "events_of l t = map snd (filter (\<lambda>p. fst (fst p) = t) (l_events l))"

definition superseded_by :: "event list \<Rightarrow> event \<Rightarrow> string list" where
  "superseded_by es candidate = List.map_filter e_supersedes (es @ [candidate])"

definition active_reversals :: "ledger \<Rightarrow> string \<Rightarrow> string \<Rightarrow> event \<Rightarrow> event list" where
  "active_reversals l t original_id candidate =
     filter (\<lambda>x. e_id x \<noteq> e_id candidate \<and> \<not> List.member (superseded_by (events_of l t) candidate) (e_id x) \<and>
                 e_type x = ''RETURN_ACCEPTED'' \<and> e_reversal x = Some original_id) (events_of l t)"

definition default_precision :: nat where "default_precision = 28"

text \<open>Product, quantity with unit, and amount with unit of an event.\<close>

definition event_product :: "event \<Rightarrow> string res" where
  "event_product e = typed_string (e_payload e) ''product_external_id''"

definition event_quantity :: "event \<Rightarrow> (int \<times> string) res" where
  "event_quantity e = typed_integer (e_payload e) ''quantity''"

definition event_amount :: "event \<Rightarrow> (decimal \<times> string) res" where
  "event_amount e = typed_decimal (e_payload e) ''gross_amount''"

text \<open>The loop over the active reversals: the running quantity and amount.\<close>

definition add_reversal ::
  "string \<Rightarrow> string \<Rightarrow> string \<Rightarrow> event \<Rightarrow> int \<times> decimal \<Rightarrow> (int \<times> decimal) res" where
  "add_reversal product unit currency x totals =
     rbind (event_quantity x) (\<lambda>(quantity, u).
     rbind (event_amount x) (\<lambda>(amount, c).
     rbind (event_product x) (\<lambda>p.
       if p \<noteq> product \<or> u \<noteq> unit \<or> c \<noteq> currency then ledger_error ''EVENT_REVERSAL_UNIT_MISMATCH''
       else Inr (fst totals + quantity, dec_add default_precision (snd totals) amount))))"

definition validate_reversal_of :: "ledger \<Rightarrow> string \<Rightarrow> event \<Rightarrow> event \<Rightarrow> unit res" where
  "validate_reversal_of l t e original =
     rbind (event_product original) (\<lambda>product.
     rbind (event_product e) (\<lambda>p.
     rbind (event_quantity original) (\<lambda>(total, unit).
     rbind (event_quantity e) (\<lambda>(quantity, u).
     rbind (event_amount original) (\<lambda>(total_amount, currency).
     rbind (event_amount e) (\<lambda>(amount, c).
       if product \<noteq> p \<or> unit \<noteq> u \<or> currency \<noteq> c then ledger_error ''EVENT_REVERSAL_UNIT_MISMATCH''
       else rbind (rfold (add_reversal product unit currency) (active_reversals l t (e_id original) e) (quantity, amount))
         (\<lambda>(reversed, reversed_amount).
           if reversed > total \<or> dec_less total_amount reversed_amount
           then ledger_error ''EVENT_REVERSAL_EXCEEDS_ORIGINAL'' else Inr ())))))))"

definition validate_reversal :: "ledger \<Rightarrow> string \<Rightarrow> event \<Rightarrow> unit res" where
  "validate_reversal l t e =
     (case e_reversal e of
        None \<Rightarrow> if e_type e = ''RETURN_ACCEPTED'' then ledger_error ''EVENT_REVERSAL_REQUIRED'' else Inr ()
      | Some target \<Rightarrow>
          if e_type e \<noteq> ''RETURN_ACCEPTED'' then ledger_error ''EVENT_REVERSAL_INVALID''
          else rbind (event_or_error l t target ''EVENT_REVERSAL_TARGET_MISSING'') (\<lambda>original.
            if e_account original \<noteq> e_account e \<or> e_type original \<noteq> ''SALE_RECOGNIZED''
            then ledger_error ''EVENT_REVERSAL_INVALID''
            else validate_reversal_of l t e original))"

section \<open>Appending\<close>

text \<open>The checks of one item, before any dict changes.\<close>

definition validate_source :: "(string \<Rightarrow> string) \<Rightarrow> tenant \<Rightarrow> source_row \<Rightarrow> event option \<Rightarrow> ledger \<Rightarrow> unit res" where
  "validate_source h t r event l =
     (if r_tenant r \<noteq> tenant_id t then ledger_error ''SOURCE_ROW_NOT_FOUND''
      else if event = None \<and> r_status r = RowValid then ledger_error ''VALID_SOURCE_ROW_EVENT_REQUIRED''
      else rbind (case event of None \<Rightarrow> Inr () | Some e \<Rightarrow> validate_lineage h r e) (\<lambda>_.
        rbind (case map_of (l_sources l) (tenant_id t, r_id r) of
            None \<Rightarrow> Inr False
          | Some old \<Rightarrow>
              rbind (content_fingerprint h old) (\<lambda>a. rbind (content_fingerprint h r) (\<lambda>b. Inr (a \<noteq> b)))) (\<lambda>differs.
          if differs then ledger_error ''SOURCE_RECORD_CONFLICT''
          else (case map_of (l_locators l) (tenant_id t, r_raw_file r, r_number r) of
              None \<Rightarrow> Inr ()
            | Some known \<Rightarrow> if known \<noteq> r_id r then ledger_error ''SOURCE_ROW_LOCATOR_CONFLICT'' else Inr ()))))"

definition validate_event :: "tenant \<Rightarrow> event \<Rightarrow> ledger \<Rightarrow> unit res" where
  "validate_event t e l =
     (if conflicts (map_of (l_events l) (tenant_id t, e_id e)) e then ledger_error ''EVENT_ID_CONFLICT''
      else if conflicts (map_of (l_idempotency l) (tenant_id t, e_idempotency e)) e
      then ledger_error ''EVENT_IDEMPOTENCY_CONFLICT''
      else rbind (validate_revision l (tenant_id t) e) (\<lambda>_. validate_reversal l (tenant_id t) e))"

definition put_source :: "string \<Rightarrow> source_row \<Rightarrow> ledger \<Rightarrow> ledger" where
  "put_source t r l =
     l\<lparr>l_sources := (if map_of (l_sources l) (t, r_id r) = None then AList.update (t, r_id r) r (l_sources l)
                     else l_sources l),
       l_locators := AList.update (t, r_raw_file r, r_number r) (r_id r) (l_locators l)\<rparr>"

definition put_event :: "string \<Rightarrow> event \<Rightarrow> ledger \<Rightarrow> ledger" where
  "put_event t e l =
     l\<lparr>l_events := AList.update (t, e_id e) e (l_events l),
       l_idempotency := AList.update (t, e_idempotency e) e (l_idempotency l),
       l_revisions := AList.update (revision_key_of t e) e (l_revisions l)\<rparr>"

definition has_event_key :: "string \<Rightarrow> string \<Rightarrow> ledger \<Rightarrow> bool" where
  "has_event_key t event_id l \<longleftrightarrow> map_of (l_events l) (t, event_id) \<noteq> None"

definition append_locked ::
  "(string \<Rightarrow> string) \<Rightarrow> tenant \<Rightarrow> source_row \<times> event option \<Rightarrow> ledger \<Rightarrow> (append_result \<times> ledger) res" where
  "append_locked h t item l =
     (case item of (r, event) \<Rightarrow>
      rbind (validate_source h t r event l) (\<lambda>_.
      rbind (case event of None \<Rightarrow> Inr () | Some e \<Rightarrow> validate_event t e l) (\<lambda>_.
        let new_source = map_of (l_sources l) (tenant_id t, r_id r) = None;
            l' = put_source (tenant_id t) r l in
        case event of
          None \<Rightarrow> Inr (\<lparr>source_inserted = new_source, event_inserted = False\<rparr>, l')
        | Some e \<Rightarrow>
            if has_event_key (tenant_id t) (e_id e) l
            then Inr (\<lparr>source_inserted = new_source, event_inserted = False\<rparr>, l')
            else Inr (\<lparr>source_inserted = new_source, event_inserted = True\<rparr>, put_event (tenant_id t) e l'))))"

fun append_all ::
  "(string \<Rightarrow> string) \<Rightarrow> tenant \<Rightarrow> (source_row \<times> event option) list \<Rightarrow> ledger \<Rightarrow> (append_result list \<times> ledger) res" where
  "append_all h t [] l = Inr ([], l)"
| "append_all h t (item # items) l =
     rbind (append_locked h t item l) (\<lambda>(r, l'). rbind (append_all h t items l') (\<lambda>(rs, l''). Inr (r # rs, l'')))"

text \<open>\<open>append_batch\<close>: an exception restores the five dicts and is raised again.\<close>

definition append_batch ::
  "(string \<Rightarrow> string) \<Rightarrow> tenant \<Rightarrow> (source_row \<times> event option) list \<Rightarrow> ledger \<Rightarrow> append_result list res \<times> ledger" where
  "append_batch h t items l =
     (case append_all h t items l of Inl e \<Rightarrow> (Inl e, l) | Inr (rs, l') \<Rightarrow> (Inr rs, l'))"

definition fork :: "ledger \<Rightarrow> ledger" where "fork l = l"

section \<open>Reading\<close>

definition has_event :: "tenant \<Rightarrow> string \<Rightarrow> ledger \<Rightarrow> bool res" where
  "has_event t event_id l =
     (if event_id = [] then ledger_error ''EVENT_ID_INVALID'' else Inr (has_event_key (tenant_id t) event_id l))"

definition get_event :: "tenant \<Rightarrow> string \<Rightarrow> ledger \<Rightarrow> event res" where
  "get_event t event_id l =
     (if event_id = [] then ledger_error ''EVENT_ID_INVALID''
      else (case map_of (l_events l) (tenant_id t, event_id) of
          None \<Rightarrow> ledger_error ''EVENT_NOT_FOUND'' | Some e \<Rightarrow> Inr e))"

definition get_source_row :: "tenant \<Rightarrow> string \<Rightarrow> ledger \<Rightarrow> source_row res" where
  "get_source_row t source_id l =
     (if source_id = [] then ledger_error ''SOURCE_RECORD_ID_INVALID''
      else (case map_of (l_sources l) (tenant_id t, source_id) of
          None \<Rightarrow> ledger_error ''SOURCE_ROW_NOT_FOUND'' | Some r \<Rightarrow> Inr r))"

definition trace_event :: "tenant \<Rightarrow> string \<Rightarrow> ledger \<Rightarrow> event_trace res" where
  "trace_event t event_id l =
     rbind (get_event t event_id l) (\<lambda>e.
     rbind (get_source_row t (e_source_record e) l) (\<lambda>r.
       Inr \<lparr>trace_of = e, trace_row = r, trace_raw_file = r_raw_file r, trace_file_sha = r_file_sha r\<rparr>))"

definition list_events :: "tenant \<Rightarrow> ledger \<Rightarrow> event list" where
  "list_events t l = sort_key e_id (events_of l (tenant_id t))"

definition list_source_rows :: "tenant \<Rightarrow> ledger \<Rightarrow> source_row list" where
  "list_source_rows t l =
     sort_key (\<lambda>r. (r_raw_file r, r_number r, r_id r))
       (map snd (filter (\<lambda>p. fst (fst p) = tenant_id t) (l_sources l)))"

end
