(* ===== verification/LedgerSoundness.thy ===== *)
theory LedgerSoundness imports Ledger begin

text \<open>
  What the canonical ledger guarantees. Its indexes are views of the event dict, every stored
  event has a stored source row, revisions form chains, returns point at sales and never take
  back more units than were sold; nothing stored ever changes; tenants do not see each other;
  a batch is applied as a whole or not at all.
\<close>

section \<open>Association lists\<close>

lemma update_fresh: "map_of d k = None \<Longrightarrow> AList.update k v d = d @ [(k, v)]"
  by (induction d) (auto split: if_splits)

lemma filter_key_update:
  "filter (\<lambda>p. P (fst p)) (AList.update k v d) =
     (if P k then AList.update k v (filter (\<lambda>p. P (fst p)) d) else filter (\<lambda>p. P (fst p)) d)"
  by (induction d) auto

lemma map_of_filter_fst: "map_of (filter (\<lambda>p. P (fst p)) d) k = (if P k then map_of d k else None)"
  by (induction d) auto

lemma map_le_update: "map_of d k = None \<or> map_of d k = Some v \<Longrightarrow> map_of d \<subseteq>\<^sub>m map_of (AList.update k v d)"
  by (auto simp: map_le_def update_conv')

section \<open>The invariant\<close>

abbreviation stored :: "ledger \<Rightarrow> string \<Rightarrow> event \<Rightarrow> bool" where
  "stored l t e \<equiv> map_of (l_events l) (t, e_id e) = Some e"

text \<open>Two rows the ledger cannot tell apart.\<close>

definition same_row :: "(string \<Rightarrow> string) \<Rightarrow> source_row \<Rightarrow> source_row \<Rightarrow> bool" where
  "same_row h a b \<longleftrightarrow> a = b \<or> (\<exists>d. content_fingerprint h a = Inr d \<and> content_fingerprint h b = Inr d)"

definition indexes_ok :: "ledger \<Rightarrow> bool" where
  "indexes_ok l \<longleftrightarrow>
     l_idempotency l = map (\<lambda>(k, e). ((fst k, e_idempotency e), e)) (l_events l) \<and>
     l_revisions l = map (\<lambda>(k, e). (revision_key_of (fst k) e, e)) (l_events l) \<and>
     distinct (map fst (l_events l)) \<and> distinct (map fst (l_idempotency l)) \<and> distinct (map fst (l_revisions l))"

definition sources_ok :: "ledger \<Rightarrow> bool" where
  "sources_ok l \<longleftrightarrow>
     (\<forall>t i r. map_of (l_sources l) (t, i) = Some r \<longrightarrow> r_id r = i \<and> r_tenant r = t) \<and>
     (\<forall>t f n i. map_of (l_locators l) (t, f, n) = Some i \<longrightarrow> map_of (l_sources l) (t, i) \<noteq> None)"

text \<open>An event is stored under its identifier, with a row it passed the lineage checks with.\<close>

definition lineage_ok :: "(string \<Rightarrow> string) \<Rightarrow> ledger \<Rightarrow> string \<Rightarrow> event \<Rightarrow> bool" where
  "lineage_ok h l t e \<longleftrightarrow> (\<exists>r old. map_of (l_sources l) (t, e_source_record e) = Some old \<and> same_row h old r \<and>
     r_tenant r = t \<and> validate_lineage h r e = Inr ())"

definition chain_ok :: "ledger \<Rightarrow> string \<Rightarrow> event \<Rightarrow> bool" where
  "chain_ok l t e \<longleftrightarrow>
     (e_revision e = 1 \<and> e_supersedes e = None) \<or>
     (\<exists>p. stored l t p \<and> e_supersedes e = Some (e_id p) \<and> 1 \<le> e_revision p \<and> e_revision e = e_revision p + 1 \<and>
        e_account p = e_account e \<and> e_business_key p = e_business_key e \<and> e_type p = e_type e)"

definition reversal_ok :: "ledger \<Rightarrow> string \<Rightarrow> event \<Rightarrow> bool" where
  "reversal_ok l t e \<longleftrightarrow>
     (case e_reversal e of
        None \<Rightarrow> e_type e \<noteq> ''RETURN_ACCEPTED''
      | Some target \<Rightarrow> e_type e = ''RETURN_ACCEPTED'' \<and>
          (\<exists>s. stored l t s \<and> e_id s = target \<and> e_type s = ''SALE_RECOGNIZED'' \<and> e_account s = e_account e))"

definition events_ok :: "(string \<Rightarrow> string) \<Rightarrow> ledger \<Rightarrow> bool" where
  "events_ok h l \<longleftrightarrow> (\<forall>t i e. map_of (l_events l) (t, i) = Some e \<longrightarrow>
     e_id e = i \<and> lineage_ok h l t e \<and> chain_ok l t e \<and> reversal_ok l t e)"

text \<open>Units of an event; the returns that are in force against an event and their units.\<close>

definition quantity_of :: "event \<Rightarrow> int" where
  "quantity_of e = (case event_quantity e of Inl x \<Rightarrow> 0 | Inr (q, u) \<Rightarrow> q)"

definition active_returns :: "ledger \<Rightarrow> string \<Rightarrow> string \<Rightarrow> event list" where
  "active_returns l t original =
     filter (\<lambda>x. e_id x \<notin> set (List.map_filter e_supersedes (events_of l t)) \<and> e_type x = ''RETURN_ACCEPTED'' \<and>
                 e_reversal x = Some original) (events_of l t)"

definition returned_quantity :: "ledger \<Rightarrow> string \<Rightarrow> string \<Rightarrow> int" where
  "returned_quantity l t original = sum_list (map quantity_of (active_returns l t original))"

definition quantities_ok :: "ledger \<Rightarrow> bool" where
  "quantities_ok l \<longleftrightarrow> (\<forall>t e. stored l t e \<longrightarrow> returned_quantity l t (e_id e) \<le> quantity_of e)"

definition ledger_inv :: "(string \<Rightarrow> string) \<Rightarrow> ledger \<Rightarrow> bool" where
  "ledger_inv h l \<longleftrightarrow> indexes_ok l \<and> sources_ok l \<and> events_ok h l \<and> quantities_ok l"

lemma new_ledger_inv: "ledger_inv h new_ledger"
  by (simp add: ledger_inv_def new_ledger_def indexes_ok_def sources_ok_def events_ok_def quantities_ok_def)

text \<open>Nothing stored is changed or lost.\<close>

definition ledger_le :: "ledger \<Rightarrow> ledger \<Rightarrow> bool" where
  "ledger_le l m \<longleftrightarrow>
     map_of (l_sources l) \<subseteq>\<^sub>m map_of (l_sources m) \<and> map_of (l_locators l) \<subseteq>\<^sub>m map_of (l_locators m) \<and>
     map_of (l_events l) \<subseteq>\<^sub>m map_of (l_events m) \<and> map_of (l_idempotency l) \<subseteq>\<^sub>m map_of (l_idempotency m) \<and>
     map_of (l_revisions l) \<subseteq>\<^sub>m map_of (l_revisions m)"

lemma ledger_le_refl [simp]: "ledger_le l l"
  by (simp add: ledger_le_def)

lemma ledger_le_trans: "ledger_le l m \<Longrightarrow> ledger_le m n \<Longrightarrow> ledger_le l n"
  by (auto simp: ledger_le_def intro: map_le_trans)

lemma ledger_leD:
  assumes "ledger_le l m"
  shows "map_of (l_sources l) k = Some r \<Longrightarrow> map_of (l_sources m) k = Some r"
    and "map_of (l_events l) k' = Some e \<Longrightarrow> map_of (l_events m) k' = Some e"
  using assms by (auto simp: ledger_le_def dest: map_leD)

lemma lineage_ok_mono: "ledger_le l m \<Longrightarrow> lineage_ok h l t e \<Longrightarrow> lineage_ok h m t e"
  unfolding lineage_ok_def using ledger_leD(1) by blast

lemma chain_ok_mono: "ledger_le l m \<Longrightarrow> chain_ok l t e \<Longrightarrow> chain_ok m t e"
  unfolding chain_ok_def using ledger_leD(2) by blast

lemma reversal_ok_mono: "ledger_le l m \<Longrightarrow> reversal_ok l t e \<Longrightarrow> reversal_ok m t e"
  unfolding reversal_ok_def using ledger_leD(2) by (cases "e_reversal e") (simp, simp, blast)

section \<open>Indexes\<close>

lemma index_entry:
  assumes "indexes_ok l"
  shows "map_of (l_idempotency l) (t, k) = Some x \<Longrightarrow> \<exists>i. map_of (l_events l) (t, i) = Some x \<and> e_idempotency x = k"
    and "map_of (l_revisions l) (revision_key_of t e) = Some x \<Longrightarrow>
      \<exists>i. map_of (l_events l) (t, i) = Some x \<and> revision_key_of t x = revision_key_of t e"
  using assms
  by (auto simp: indexes_ok_def revision_key_of_def dest!: map_of_SomeD intro: map_of_is_SomeI) blast+

lemma same_id: "event_eq x e \<Longrightarrow> e_id x = e_id e"
  by (simp add: event_eq_def)

lemma no_conflict: "\<not> conflicts found e \<Longrightarrow> found = Some x \<Longrightarrow> event_eq x e"
  by (simp add: conflicts_def)

text \<open>An event that passes the checks and is not stored has a fresh key in every index.\<close>

lemma validate_event_fresh:
  assumes "validate_event t e l = Inr ()" and "indexes_ok l" and "events_ok h l"
    and "map_of (l_events l) (tenant_id t, e_id e) = None"
  shows "map_of (l_idempotency l) (tenant_id t, e_idempotency e) = None"
    and "map_of (l_revisions l) (revision_key_of (tenant_id t) e) = None"
proof -
  have id: "e_id x = i" if "map_of (l_events l) (tenant_id t, i) = Some x" for i x
    using assms(3) that by (simp add: events_ok_def)
  have c: "\<not> conflicts (map_of (l_idempotency l) (tenant_id t, e_idempotency e)) e"
      "\<not> conflicts (map_of (l_revisions l) (revision_key_of (tenant_id t) e)) e"
    using assms(1) by (auto simp: validate_event_def validate_revision_def res_simps split: if_splits)
  show "map_of (l_idempotency l) (tenant_id t, e_idempotency e) = None"
  proof (rule ccontr)
    assume "map_of (l_idempotency l) (tenant_id t, e_idempotency e) \<noteq> None"
    then obtain x where x: "map_of (l_idempotency l) (tenant_id t, e_idempotency e) = Some x" by blast
    from index_entry(1) [OF assms(2) x] id same_id [OF no_conflict [OF c(1) x]] assms(4) show False by fastforce
  qed
  show "map_of (l_revisions l) (revision_key_of (tenant_id t) e) = None"
  proof (rule ccontr)
    assume "map_of (l_revisions l) (revision_key_of (tenant_id t) e) \<noteq> None"
    then obtain x where x: "map_of (l_revisions l) (revision_key_of (tenant_id t) e) = Some x" by blast
    from index_entry(2) [OF assms(2) x] id same_id [OF no_conflict [OF c(2) x]] assms(4) show False by fastforce
  qed
qed

lemma put_source_select [simp]:
  "l_events (put_source t r l) = l_events l" "l_idempotency (put_source t r l) = l_idempotency l"
  "l_revisions (put_source t r l) = l_revisions l"
  by (simp_all add: put_source_def)

lemma put_event_select [simp]:
  "l_sources (put_event t e l) = l_sources l" "l_locators (put_event t e l) = l_locators l"
  by (simp_all add: put_event_def)

lemma events_of_put_source [simp]: "events_of (put_source t r l) = events_of l"
  by (simp add: events_of_def fun_eq_iff)

lemma validate_source_locator:
  assumes "validate_source h t r event l = Inr ()"
  shows "map_of (l_locators l) (tenant_id t, r_raw_file r, r_number r) \<in> {None, Some (r_id r)}"
  using assms by (auto simp: validate_source_def res_simps split: option.splits if_splits)

lemma put_source_le:
  assumes "validate_source h t r event l = Inr ()"
  shows "ledger_le l (put_source (tenant_id t) r l)"
proof -
  have "map_of (l_locators l) \<subseteq>\<^sub>m map_of (l_locators (put_source (tenant_id t) r l))"
    using validate_source_locator [OF assms] by (simp add: put_source_def) (rule map_le_update, auto)
  moreover have "map_of (l_sources l) \<subseteq>\<^sub>m map_of (l_sources (put_source (tenant_id t) r l))"
    by (simp add: put_source_def map_le_update)
  ultimately show ?thesis by (simp add: ledger_le_def)
qed

lemma put_event_le:
  assumes "map_of (l_events l) (t, e_id e) = None" and "map_of (l_idempotency l) (t, e_idempotency e) = None"
    and "map_of (l_revisions l) (revision_key_of t e) = None"
  shows "ledger_le l (put_event t e l)"
  using assms by (simp add: ledger_le_def put_event_def map_le_update)

lemma put_event_indexes:
  assumes "indexes_ok l" and "map_of (l_events l) (t, e_id e) = None"
    and "map_of (l_idempotency l) (t, e_idempotency e) = None" and "map_of (l_revisions l) (revision_key_of t e) = None"
  shows "indexes_ok (put_event t e l)"
  using assms by (auto simp: indexes_ok_def put_event_def update_fresh map_of_eq_None_iff)

section \<open>Sources\<close>

lemma put_source_sources:
  assumes "sources_ok l" and "r_tenant r = t"
  shows "sources_ok (put_source t r l)"
  using assms by (auto simp: sources_ok_def put_source_def update_conv' split: if_splits)

lemma stored_row:
  assumes "validate_source h t r event l = Inr ()"
  shows "\<exists>old. map_of (l_sources (put_source (tenant_id t) r l)) (tenant_id t, r_id r) = Some old \<and> same_row h old r"
proof (cases "map_of (l_sources l) (tenant_id t, r_id r)")
  case None
  then show ?thesis by (simp add: put_source_def update_conv' same_row_def)
next
  case (Some old)
  with assms have "same_row h old r"
    by (auto simp: validate_source_def same_row_def res_simps split: if_splits)
  with Some show ?thesis by (simp add: put_source_def)
qed

lemma validate_lineage_row:
  assumes "validate_lineage h r e = Inr ()"
  shows "e_source_record e = r_id r" "e_organization e = r_tenant r"
  using assms by (auto simp: validate_lineage_def res_simps split: if_splits)

lemma validate_source_event:
  assumes "validate_source h t r (Some e) l = Inr ()"
  shows "validate_lineage h r e = Inr ()" "r_tenant r = tenant_id t"
  using assms by (auto simp: validate_source_def res_simps split: if_splits)

section \<open>Returns\<close>

lemma typed_integer_pos:
  assumes "typed_integer payload field = Inr (q, u)"
  shows "0 < q"
proof -
  obtain d where "(case (dget d ''value'', dget d ''unit'') of
         (JInt raw, JStr unit) \<Rightarrow>
           if dget d ''value_type'' \<noteq> JStr ''integer'' \<or> raw \<le> 0 \<or> unit = []
           then ledger_error ''EVENT_TYPED_INTEGER_INVALID'' else Inr (raw, unit)
       | _ \<Rightarrow> ledger_error ''EVENT_TYPED_INTEGER_INVALID'') = Inr (q, u)"
    using assms unfolding typed_integer_def rbind_Inr_iff by blast
  then show ?thesis by (cases "dget d ''value''"; cases "dget d ''unit''") (simp_all split: if_splits)
qed

lemma quantity_of_nonneg: "0 \<le> quantity_of e"
  by (auto simp: quantity_of_def event_quantity_def dest: typed_integer_pos split: sum.splits)

lemma sum_list_filter_le: "(\<And>x. 0 \<le> f x) \<Longrightarrow> (\<And>x. Q x \<Longrightarrow> P x) \<Longrightarrow> sum_list (map f (filter Q xs)) \<le> (sum_list (map f (filter P xs)) :: int)"
  by (induction xs) (auto intro: add_increasing)

text \<open>The loop adds up the units of the active reversals.\<close>

lemma add_reversals_quantity:
  "rfold (add_reversal product unit currency) xs (q, a) = Inr (q', a') \<Longrightarrow> q' = q + sum_list (map quantity_of xs)"
proof (induction xs arbitrary: q a)
  case (Cons x xs)
  from Cons.prems obtain n m where "add_reversal product unit currency x (q, a) = Inr (n, m)"
    and rest: "rfold (add_reversal product unit currency) xs (n, m) = Inr (q', a')"
    by (auto simp: res_simps)
  then have "n = q + quantity_of x"
    by (auto simp: add_reversal_def quantity_of_def res_simps split: prod.splits if_splits)
  with Cons.IH [OF rest] show ?case by simp
qed simp

text \<open>A return that passes the checks, as the facts its success gives.\<close>

lemma validate_reversalE:
  assumes "validate_reversal l t e = Inr ()"
  obtains (plain) "e_reversal e = None" and "e_type e \<noteq> ''RETURN_ACCEPTED''"
  | (returned) s where "map_of (l_events l) (t, the (e_reversal e)) = Some s"
      and "e_reversal e \<noteq> None" and "e_type e = ''RETURN_ACCEPTED''" and "e_account s = e_account e"
      and "e_type s = ''SALE_RECOGNIZED''" and "validate_reversal_of l t e s = Inr ()"
  using assms
  by (auto simp: validate_reversal_def event_or_error_def res_simps split: option.splits if_splits)

lemma validate_reversal_of_bound:
  assumes "validate_reversal_of l t e s = Inr ()"
  shows "quantity_of e + sum_list (map quantity_of (active_reversals l t (e_id s) e)) \<le> quantity_of s"
proof -
  from assms obtain product unit currency amount q total a where
      q: "event_quantity s = Inr (total, unit)" "event_quantity e = Inr (q, unit)"
      and fold: "rfold (add_reversal product unit currency) (active_reversals l t (e_id s) e) (q, amount) = Inr a"
      and le: "\<not> fst a > total"
    unfolding validate_reversal_of_def rbind_Inr_iff by (auto simp: res_simps split: prod.splits if_splits)
  obtain n m where a: "a = (n, m)" by fastforce
  from add_reversals_quantity [OF fold [unfolded a]] le q show ?thesis by (simp add: a quantity_of_def)
qed

lemma superseded_set:
  "set (superseded_by es e) = set (List.map_filter e_supersedes es) \<union> set_option (e_supersedes e)"
  by (auto simp: superseded_by_def List.map_filter_def split: option.splits)

lemma map_filter_append: "List.map_filter f (xs @ ys) = List.map_filter f xs @ List.map_filter f ys"
  by (simp add: List.map_filter_def)

lemma events_of_put_event:
  assumes "map_of (l_events l) (t, e_id e) = None"
  shows "events_of (put_event t e l) u = events_of l u @ (if u = t then [e] else [])"
  using assms by (simp add: events_of_def put_event_def update_fresh)

text \<open>The active returns after a fresh event has been stored.\<close>

lemma active_returns_put:
  assumes fresh: "map_of (l_events l) (t, e_id e) = None" and ids: "\<And>x. x \<in> set (events_of l t) \<Longrightarrow> e_id x \<noteq> e_id e"
    and super: "e_id e \<notin> set (List.map_filter e_supersedes (events_of l t))" "e_supersedes e \<noteq> Some (e_id e)"
  shows "active_returns (put_event t e l) t original =
    active_reversals l t original e @
      (if e_type e = ''RETURN_ACCEPTED'' \<and> e_reversal e = Some original then [e] else [])"
proof -
  let ?gone = "set (List.map_filter e_supersedes (events_of l t)) \<union> set_option (e_supersedes e)"
  have gone: "set (List.map_filter e_supersedes (events_of l t @ [e])) = ?gone"
    by (auto simp: map_filter_append List.map_filter_def split: option.splits)
  have "filter (\<lambda>x. e_id x \<notin> ?gone \<and> e_type x = ''RETURN_ACCEPTED'' \<and> e_reversal x = Some original) (events_of l t) =
      active_reversals l t original e"
    unfolding active_reversals_def using ids by (intro filter_cong) (auto simp: superseded_set)
  moreover have "e_id e \<notin> ?gone" using super by auto
  ultimately show ?thesis
    by (simp add: active_returns_def events_of_put_event [OF fresh] gone)
qed

lemma active_reversals_le:
  "sum_list (map quantity_of (active_reversals l t original e)) \<le> returned_quantity l t original"
  unfolding active_reversals_def returned_quantity_def active_returns_def
  by (rule sum_list_filter_le) (auto simp: quantity_of_nonneg superseded_set)

section \<open>One append keeps the invariant\<close>

lemma superseded_stored:
  assumes "events_ok h l" and "i \<in> set (List.map_filter e_supersedes (events_of l t))" and "distinct (map fst (l_events l))"
  shows "\<exists>p. map_of (l_events l) (t, i) = Some p"
proof -
  from assms(2) obtain x where "x \<in> set (events_of l t)" and sup: "e_supersedes x = Some i"
    by (auto simp: List.map_filter_def)
  then obtain j where "((t, j), x) \<in> set (l_events l)" by (auto simp: events_of_def)
  with assms(3) have "map_of (l_events l) (t, j) = Some x" by simp
  with assms(1) have "chain_ok l t x" by (simp add: events_ok_def)
  with sup show ?thesis by (auto simp: chain_ok_def)
qed

lemma events_of_entry:
  assumes "distinct (map fst (l_events l))" and "x \<in> set (events_of l t)"
  shows "\<exists>i. map_of (l_events l) (t, i) = Some x"
  using assms by (auto simp: events_of_def intro: map_of_is_SomeI)

lemma new_event_chain:
  assumes "validate_revision l t e = Inr ()" and "events_ok h l"
  shows "chain_ok l t e"
proof (cases "e_revision e = 1")
  case True
  with assms(1) show ?thesis by (auto simp: validate_revision_def chain_ok_def split: if_splits)
next
  case False
  with assms(1) obtain p where p: "map_of (l_events l) (t, the (e_supersedes e)) = Some p" "e_supersedes e \<noteq> None"
      "e_account p = e_account e" "e_business_key p = e_business_key e" "e_type p = e_type e" "e_revision p + 1 = e_revision e"
    by (auto simp: validate_revision_def event_or_error_def res_simps split: if_splits option.splits)
  with assms(2) have "e_id p = the (e_supersedes e)" and c: "chain_ok l t p" by (auto simp: events_ok_def)
  moreover from c have "1 \<le> e_revision p" by (auto simp: chain_ok_def)
  ultimately show ?thesis using p unfolding chain_ok_def by (intro disjI2 exI [of _ p]) auto
qed

lemma new_event_reversal:
  assumes "validate_reversal l t e = Inr ()" and "events_ok h l"
  shows "reversal_ok l t e"
  using assms(1)
proof (cases rule: validate_reversalE)
  case plain
  then show ?thesis by (simp add: reversal_ok_def)
next
  case (returned s)
  with assms(2) have "e_id s = the (e_reversal e)" by (auto simp: events_ok_def)
  with returned show ?thesis by (auto simp: reversal_ok_def intro!: exI [of _ s])
qed

lemma validate_eventD:
  assumes "validate_event t e l = Inr ()"
  shows "validate_revision l (tenant_id t) e = Inr ()" and "validate_reversal l (tenant_id t) e = Inr ()"
  using assms by (auto simp: validate_event_def res_simps split: if_splits)

text \<open>The returns in force after a fresh event: no sale is taken back twice.\<close>

lemma put_event_quantities:
  assumes inv: "quantities_ok l" "events_ok h l" "indexes_ok l" and fresh: "map_of (l_events l) (t, e_id e) = None"
    and rev: "validate_revision l t e = Inr ()" and ret: "validate_reversal l t e = Inr ()"
  shows "quantities_ok (put_event t e l)"
  unfolding quantities_ok_def
proof (intro allI impI)
  fix u s assume st: "stored (put_event t e l) u s"
  have dist: "distinct (map fst (l_events l))" using inv(3) by (simp add: indexes_ok_def)
  show "returned_quantity (put_event t e l) u (e_id s) \<le> quantity_of s"
  proof (cases "u = t")
    case False
    then have "stored l u s" using st by (auto simp: put_event_def update_conv')
    moreover have "returned_quantity (put_event t e l) u (e_id s) = returned_quantity l u (e_id s)"
      using False by (simp add: returned_quantity_def active_returns_def events_of_put_event [OF fresh])
    ultimately show ?thesis using inv(1) by (simp add: quantities_ok_def)
  next
    case True
    have ids: "e_id x \<noteq> e_id e" if "x \<in> set (events_of l t)" for x
      using events_of_entry [OF dist that] inv(2) fresh by (auto simp: events_ok_def)
    have chain: "chain_ok l t e" using new_event_chain [OF rev inv(2)] .
    have super: "e_id e \<notin> set (List.map_filter e_supersedes (events_of l t))"
    proof
      assume "e_id e \<in> set (List.map_filter e_supersedes (events_of l t))"
      from superseded_stored [OF inv(2) this dist] fresh show False by simp
    qed
    have self: "e_supersedes e \<noteq> Some (e_id e)" using fresh chain by (auto simp: chain_ok_def)
    note put = active_returns_put [OF fresh ids super self, of "e_id s"]
    show ?thesis
    proof (cases "s = e")
      case True
      have no: "e_reversal x \<noteq> Some (e_id e)" if x: "x \<in> set (events_of l t)" for x
      proof
        assume rev: "e_reversal x = Some (e_id e)"
        obtain i where "map_of (l_events l) (t, i) = Some x" using events_of_entry [OF dist x] by blast
        with inv(2) have "reversal_ok l t x" by (simp add: events_ok_def)
        with fresh rev show False by (auto simp: reversal_ok_def)
      qed
      have "e_reversal e \<noteq> Some (e_id e)"
        using new_event_reversal [OF ret inv(2)] fresh by (auto simp: reversal_ok_def)
      moreover have "active_reversals l t (e_id e) e = []" using no by (auto simp: active_reversals_def filter_empty_conv)
      ultimately have "active_returns (put_event t e l) t (e_id s) = []" using put by (simp add: True)
      then show ?thesis by (simp add: returned_quantity_def \<open>u = t\<close> quantity_of_nonneg)
    next
      case False
      then have old: "stored l t s"
        using st \<open>u = t\<close> by (auto simp: put_event_def update_conv' split: if_splits)
      show ?thesis
      proof (cases "e_type e = ''RETURN_ACCEPTED'' \<and> e_reversal e = Some (e_id s)")
        case True
        from ret have "validate_reversal_of l t e s = Inr ()"
        proof (cases rule: validate_reversalE)
          case (returned s')
          with True old show ?thesis by simp
        qed (use True in simp)
        from validate_reversal_of_bound [OF this] show ?thesis
          by (simp add: returned_quantity_def put True \<open>u = t\<close>)
      next
        case False
        have "returned_quantity (put_event t e l) t (e_id s) = sum_list (map quantity_of (active_reversals l t (e_id s) e))"
          using False by (simp add: returned_quantity_def put) blast
        also have "\<dots> \<le> returned_quantity l t (e_id s)" by (rule active_reversals_le)
        also have "\<dots> \<le> quantity_of s" using inv(1) old by (simp add: quantities_ok_def)
        finally show ?thesis by (simp add: \<open>u = t\<close>)
      qed
    qed
  qed
qed

text \<open>A successful append, case by case.\<close>

lemma append_lockedE:
  assumes "append_locked h t (r, event) l = Inr (a, l')"
  obtains (known) "validate_source h t r event l = Inr ()" and "event_inserted a = False"
      and "l' = put_source (tenant_id t) r l"
      and "event = None \<or> (\<exists>e. event = Some e \<and> validate_event t e l = Inr () \<and> has_event_key (tenant_id t) (e_id e) l)"
  | (inserted) e where "event = Some e" and "validate_source h t r (Some e) l = Inr ()" and "validate_event t e l = Inr ()"
      and "map_of (l_events l) (tenant_id t, e_id e) = None" and "event_inserted a = True"
      and "l' = put_event (tenant_id t) e (put_source (tenant_id t) r l)"
  using assms
  by (cases event) (auto simp: append_locked_def Let_def has_event_key_def res_simps split: if_splits)

lemma put_source_inv:
  assumes "ledger_inv h l" and "validate_source h t r event l = Inr ()"
  shows "ledger_inv h (put_source (tenant_id t) r l)"
proof -
  have le: "ledger_le l (put_source (tenant_id t) r l)" using put_source_le [OF assms(2)] .
  have "r_tenant r = tenant_id t" using assms(2) by (simp add: validate_source_def split: if_splits)
  moreover have "events_ok h (put_source (tenant_id t) r l)"
    using assms(1) lineage_ok_mono [OF le] chain_ok_mono [OF le] reversal_ok_mono [OF le]
    by (simp add: ledger_inv_def events_ok_def)
  moreover have "indexes_ok (put_source (tenant_id t) r l) = indexes_ok l" by (simp only: indexes_ok_def put_source_select)
  moreover have "quantities_ok (put_source (tenant_id t) r l) = quantities_ok l"
    by (simp add: quantities_ok_def returned_quantity_def active_returns_def)
  ultimately show ?thesis using assms(1) by (simp add: ledger_inv_def put_source_sources)
qed

lemma validate_event_put_source [simp]: "validate_event t e (put_source u r l) = validate_event t e l"
proof -
  have "active_reversals (put_source u r l) w i e = active_reversals l w i e" for w i
    by (simp add: active_reversals_def)
  then have "validate_reversal_of (put_source u r l) w e s = validate_reversal_of l w e s" for w s
    by (simp only: validate_reversal_of_def)
  then show ?thesis
    by (simp only: validate_event_def validate_revision_def validate_reversal_def event_or_error_def put_source_select)
qed

lemma put_event_inv:
  assumes inv: "ledger_inv h l" and v: "validate_event t e l = Inr ()" and r: "validate_lineage h r e = Inr ()" "r_tenant r = tenant_id t"
    and row: "map_of (l_sources l) (tenant_id t, r_id r) = Some old" "same_row h old r"
    and fresh: "map_of (l_events l) (tenant_id t, e_id e) = None"
  shows "ledger_inv h (put_event (tenant_id t) e l)" and "ledger_le l (put_event (tenant_id t) e l)"
proof -
  have i: "indexes_ok l" "events_ok h l" "quantities_ok l" "sources_ok l" using inv by (simp_all add: ledger_inv_def)
  note fr = validate_event_fresh [OF v i(1,2) fresh]
  show le: "ledger_le l (put_event (tenant_id t) e l)" by (rule put_event_le [OF fresh fr])
  have "lineage_ok h (put_event (tenant_id t) e l) (tenant_id t) e"
    using r row validate_lineage_row [OF r(1)] by (auto simp: lineage_ok_def)
  moreover have "chain_ok (put_event (tenant_id t) e l) (tenant_id t) e"
    using chain_ok_mono [OF le new_event_chain [OF validate_eventD(1) [OF v] i(2)]] .
  moreover have "reversal_ok (put_event (tenant_id t) e l) (tenant_id t) e"
    using reversal_ok_mono [OF le new_event_reversal [OF validate_eventD(2) [OF v] i(2)]] .
  ultimately have "events_ok h (put_event (tenant_id t) e l)"
    using i(2) lineage_ok_mono [OF le] chain_ok_mono [OF le] reversal_ok_mono [OF le]
    by (auto simp: events_ok_def put_event_def update_conv' split: if_splits)
  then show "ledger_inv h (put_event (tenant_id t) e l)"
    using put_event_quantities [OF i(3,2,1) fresh validate_eventD [OF v]] put_event_indexes [OF i(1) fresh fr] i(4)
    by (simp add: ledger_inv_def sources_ok_def)
qed

lemma append_inv:
  assumes "ledger_inv h l" and "append_locked h t item l = Inr (a, l')"
  shows "ledger_inv h l' \<and> ledger_le l l'"
proof -
  obtain r event where item: "item = (r, event)" by fastforce
  from assms(2) [unfolded item] show ?thesis
  proof (cases rule: append_lockedE)
    case known
    then show ?thesis using put_source_inv [OF assms(1)] put_source_le by simp
  next
    case (inserted e)
    obtain old where old: "map_of (l_sources (put_source (tenant_id t) r l)) (tenant_id t, r_id r) = Some old" "same_row h old r"
      using stored_row [OF inserted(2)] by blast
    have v: "validate_event t e (put_source (tenant_id t) r l) = Inr ()" using inserted(3) by simp
    have f: "map_of (l_events (put_source (tenant_id t) r l)) (tenant_id t, e_id e) = None" using inserted(4) by simp
    note put = put_event_inv [OF put_source_inv [OF assms(1) inserted(2)] v validate_source_event [OF inserted(2)] old f]
    show ?thesis using put ledger_le_trans [OF put_source_le [OF inserted(2)] put(2)] by (simp add: inserted(6))
  qed
qed

lemma append_all_inv:
  "append_all h t items l = Inr (rs, l') \<Longrightarrow> ledger_inv h l \<Longrightarrow> ledger_inv h l' \<and> ledger_le l l'"
proof (induction items arbitrary: l rs)
  case (Cons item items)
  then obtain a m bs where "append_locked h t item l = Inr (a, m)" "append_all h t items m = Inr (bs, l')"
    by (auto simp: res_simps)
  with Cons append_inv ledger_le_trans show ?case by blast
qed simp

section \<open>The ledger as a growing system\<close>

inductive ledger_step :: "(string \<Rightarrow> string) \<Rightarrow> ledger \<Rightarrow> ledger \<Rightarrow> bool" for h where
  appended: "append_locked h t item l = Inr (a, l') \<Longrightarrow> ledger_step h l l'"
| batch: "append_batch h t items l = (result, l') \<Longrightarrow> ledger_step h l l'"

lemma append_batch_cases:
  assumes "append_batch h t items l = (result, l')"
  shows "(\<exists>e. result = Inl e \<and> l' = l \<and> append_all h t items l = Inl e) \<or>
    (\<exists>rs. result = Inr rs \<and> append_all h t items l = Inr (rs, l'))"
  using assms by (auto simp: append_batch_def split: sum.splits)

lemma ledger_step_inv: "ledger_step h l l' \<Longrightarrow> ledger_inv h l \<Longrightarrow> ledger_inv h l' \<and> ledger_le l l'"
  by (induction rule: ledger_step.induct) (auto dest: append_inv append_all_inv append_batch_cases)

interpretation ledger: monotone_system "ledger_step h" "ledger_inv h" ledger_le for h
  by unfold_locales (auto dest: ledger_step_inv intro: ledger_le_trans)

text \<open>Ledgers that the operations can build.\<close>

abbreviation reachable :: "(string \<Rightarrow> string) \<Rightarrow> ledger \<Rightarrow> bool" where
  "reachable h l \<equiv> (ledger_step h)\<^sup>*\<^sup>* new_ledger l"

lemma reachable_inv: "reachable h l \<Longrightarrow> ledger_inv h l"
  by (rule ledger.steps_inv [OF _ new_ledger_inv])

section \<open>The abstract ledger\<close>

text \<open>
  What the ledger implements: each tenant has a journal, the list of its events in the order of
  their arrival, and an event is checked against the journal alone. The dicts of the ledger are
  indexes of the journals.
\<close>

definition journal_clash :: "(event \<Rightarrow> bool) \<Rightarrow> event list \<Rightarrow> event \<Rightarrow> bool" where
  "journal_clash same es e \<longleftrightarrow> list_ex (\<lambda>x. same x \<and> \<not> event_eq x e) es"

definition journal_event :: "event list \<Rightarrow> string \<Rightarrow> string \<Rightarrow> event res" where
  "journal_event es event_id code =
     (case find (\<lambda>x. e_id x = event_id) es of None \<Rightarrow> ledger_error code | Some x \<Rightarrow> Inr x)"

definition journal_revision :: "event list \<Rightarrow> event \<Rightarrow> unit res" where
  "journal_revision es e =
     (if e_revision e = 1 then
        (if e_supersedes e \<noteq> None then ledger_error ''EVENT_SUPERSESSION_INVALID'' else Inr ())
      else (case e_supersedes e of
          None \<Rightarrow> ledger_error ''EVENT_SUPERSESSION_REQUIRED''
        | Some target \<Rightarrow>
            rbind (journal_event es target ''EVENT_SUPERSEDED_TARGET_MISSING'') (\<lambda>p.
              if e_account p \<noteq> e_account e \<or> e_business_key p \<noteq> e_business_key e \<or>
                 e_type p \<noteq> e_type e \<or> e_revision p + 1 \<noteq> e_revision e
              then ledger_error ''EVENT_SUPERSESSION_INVALID'' else Inr ())))"

definition journal_reversals :: "event list \<Rightarrow> string \<Rightarrow> event \<Rightarrow> event list" where
  "journal_reversals es original_id candidate =
     filter (\<lambda>x. e_id x \<noteq> e_id candidate \<and> \<not> List.member (superseded_by es candidate) (e_id x) \<and>
                 e_type x = ''RETURN_ACCEPTED'' \<and> e_reversal x = Some original_id) es"

definition journal_return :: "event list \<Rightarrow> event \<Rightarrow> event \<Rightarrow> unit res" where
  "journal_return es e original =
     rbind (event_product original) (\<lambda>product.
     rbind (event_product e) (\<lambda>p.
     rbind (event_quantity original) (\<lambda>(total, unit).
     rbind (event_quantity e) (\<lambda>(quantity, u).
     rbind (event_amount original) (\<lambda>(total_amount, currency).
     rbind (event_amount e) (\<lambda>(amount, c).
       if product \<noteq> p \<or> unit \<noteq> u \<or> currency \<noteq> c then ledger_error ''EVENT_REVERSAL_UNIT_MISMATCH''
       else rbind (rfold (add_reversal product unit currency) (journal_reversals es (e_id original) e) (quantity, amount))
         (\<lambda>(reversed, reversed_amount).
           if reversed > total \<or> dec_less total_amount reversed_amount
           then ledger_error ''EVENT_REVERSAL_EXCEEDS_ORIGINAL'' else Inr ())))))))"

definition journal_reversal :: "event list \<Rightarrow> event \<Rightarrow> unit res" where
  "journal_reversal es e =
     (case e_reversal e of
        None \<Rightarrow> if e_type e = ''RETURN_ACCEPTED'' then ledger_error ''EVENT_REVERSAL_REQUIRED'' else Inr ()
      | Some target \<Rightarrow>
          if e_type e \<noteq> ''RETURN_ACCEPTED'' then ledger_error ''EVENT_REVERSAL_INVALID''
          else rbind (journal_event es target ''EVENT_REVERSAL_TARGET_MISSING'') (\<lambda>original.
            if e_account original \<noteq> e_account e \<or> e_type original \<noteq> ''SALE_RECOGNIZED''
            then ledger_error ''EVENT_REVERSAL_INVALID''
            else journal_return es e original))"

definition journal_check :: "event list \<Rightarrow> event \<Rightarrow> unit res" where
  "journal_check es e =
     (if journal_clash (\<lambda>x. e_id x = e_id e) es e then ledger_error ''EVENT_ID_CONFLICT''
      else if journal_clash (\<lambda>x. e_idempotency x = e_idempotency e) es e then ledger_error ''EVENT_IDEMPOTENCY_CONFLICT''
      else if journal_clash (\<lambda>x. revision_key_of [] x = revision_key_of [] e) es e
      then ledger_error ''EVENT_REVISION_CONFLICT''
      else rbind (journal_revision es e) (\<lambda>_. journal_reversal es e))"

text \<open>An accepted event joins the journal unless it is there already.\<close>

definition journal_add :: "event list \<Rightarrow> event \<Rightarrow> event list" where
  "journal_add es e = (if list_ex (\<lambda>x. e_id x = e_id e) es then es else es @ [e])"

subsection \<open>The indexes answer as the journal does\<close>

lemma map_of_find:
  assumes "distinct (map fst d)"
  shows "map_of d k = map_option snd (find (\<lambda>p. fst p = k) d)"
  by (induction d) auto

lemma find_filter: "find P (filter Q xs) = find (\<lambda>x. Q x \<and> P x) xs"
  by (induction xs) auto

lemma find_map: "find P (map f xs) = map_option f (find (P \<circ> f) xs)"
  by (induction xs) auto

lemma find_cong': "(\<And>x. x \<in> set xs \<Longrightarrow> P x = Q x) \<Longrightarrow> find P xs = find Q xs"
  by (induction xs) auto

lemma journal_lookup:
  assumes "indexes_ok l" and "events_ok h l"
  shows "map_of (l_events l) (t, i) = find (\<lambda>x. e_id x = i) (events_of l t)"
    and "map_of (l_idempotency l) (t, k) = find (\<lambda>x. e_idempotency x = k) (events_of l t)"
    and "map_of (l_revisions l) (revision_key_of t e) = find (\<lambda>x. revision_key_of [] x = revision_key_of [] e) (events_of l t)"
proof -
  have d: "distinct (map fst (l_events l))" "distinct (map fst (l_idempotency l))" "distinct (map fst (l_revisions l))"
    and v: "l_idempotency l = map (\<lambda>(k, e). ((fst k, e_idempotency e), e)) (l_events l)"
      "l_revisions l = map (\<lambda>(k, e). (revision_key_of (fst k) e, e)) (l_events l)"
    using assms(1) unfolding indexes_ok_def by blast+
  have key: "fst p = (fst (fst p), e_id (snd p))" if "p \<in> set (l_events l)" for p
  proof -
    obtain a b x where p: "p = ((a, b), x)" by (metis surj_pair)
    have "map_of (l_events l) (a, b) = Some x" using that d(1) by (simp add: p)
    with assms(2) have "e_id x = b" by (simp add: events_ok_def)
    then show ?thesis by (simp add: p)
  qed
  show "map_of (l_events l) (t, i) = find (\<lambda>x. e_id x = i) (events_of l t)"
    unfolding map_of_find [OF d(1)] events_of_def find_map find_filter
    by (intro arg_cong [of _ _ "map_option snd"] find_cong') (use key in fastforce)
  show "map_of (l_idempotency l) (t, k) = find (\<lambda>x. e_idempotency x = k) (events_of l t)"
    unfolding map_of_find [OF d(2)] events_of_def find_map find_filter
    by (simp add: v(1) find_map comp_def case_prod_unfold option.map_comp conj_commute)
  show "map_of (l_revisions l) (revision_key_of t e) = find (\<lambda>x. revision_key_of [] x = revision_key_of [] e) (events_of l t)"
    unfolding map_of_find [OF d(3)] events_of_def find_map find_filter
    by (simp add: v(2) find_map comp_def case_prod_unfold option.map_comp revision_key_of_def conj_commute)
qed

lemma clash_find:
  assumes "\<And>x y. x \<in> set es \<Longrightarrow> y \<in> set es \<Longrightarrow> same x \<Longrightarrow> same y \<Longrightarrow> x = y"
  shows "conflicts (find same es) e = journal_clash same es e"
proof (cases "find same es")
  case None
  then have "\<not> same x" if "x \<in> set es" for x using that by (auto simp: find_None_iff)
  then show ?thesis by (auto simp: conflicts_def journal_clash_def None list_ex_iff)
next
  case (Some x)
  then have "x \<in> set es" "same x" by (auto simp: find_Some_iff)
  with assms Some show ?thesis by (auto simp: conflicts_def journal_clash_def list_ex_iff)
qed

lemma stored_unique:
  assumes "indexes_ok l" and "events_ok h l" and "x \<in> set (events_of l t)" and "y \<in> set (events_of l t)"
  shows "e_id x = e_id y \<Longrightarrow> x = y" and "e_idempotency x = e_idempotency y \<Longrightarrow> x = y"
    and "revision_key_of [] x = revision_key_of [] y \<Longrightarrow> x = y"
proof -
  have d: "distinct (map fst (l_events l))" "distinct (map fst (l_idempotency l))" "distinct (map fst (l_revisions l))"
    and v: "l_idempotency l = map (\<lambda>(k, e). ((fst k, e_idempotency e), e)) (l_events l)"
      "l_revisions l = map (\<lambda>(k, e). (revision_key_of (fst k) e, e)) (l_events l)"
    using assms(1) unfolding indexes_ok_def by blast+
  have st: "map_of (l_events l) (t, e_id z) = Some z \<and> map_of (l_idempotency l) (t, e_idempotency z) = Some z \<and>
      map_of (l_revisions l) (revision_key_of t z) = Some z" if "z \<in> set (events_of l t)" for z
  proof -
    from that obtain i where i: "((t, i), z) \<in> set (l_events l)" by (auto simp: events_of_def)
    with d(1) have "map_of (l_events l) (t, i) = Some z" by simp
    with assms(2) have "e_id z = i" by (simp add: events_ok_def)
    moreover from i have "((t, e_idempotency z), z) \<in> set (l_idempotency l)" by (force simp: v)
    moreover from i have "(revision_key_of t z, z) \<in> set (l_revisions l)" by (force simp: v)
    ultimately show ?thesis using d \<open>map_of (l_events l) (t, i) = Some z\<close> by simp
  qed
  note x = st [OF assms(3)] and y = st [OF assms(4)]
  show "x = y" if "e_id x = e_id y" using x y that by (metis option.inject)
  show "x = y" if "e_idempotency x = e_idempotency y" using x y that by (metis option.inject)
  assume "revision_key_of [] x = revision_key_of [] y"
  then have "revision_key_of t x = revision_key_of t y" by (simp add: revision_key_of_def)
  with x y show "x = y" by (metis option.inject)
qed

lemma validate_event_journal:
  assumes "ledger_inv h l"
  shows "validate_event t e l = journal_check (events_of l (tenant_id t)) e"
proof -
  let ?t = "tenant_id t" and ?es = "events_of l (tenant_id t)"
  have i: "indexes_ok l" "events_ok h l" using assms by (simp_all add: ledger_inv_def)
  note look = journal_lookup [OF i] and unique = stored_unique [OF i]
  have clash: "conflicts (find (\<lambda>x. e_id x = e_id e) ?es) e = journal_clash (\<lambda>x. e_id x = e_id e) ?es e"
      "conflicts (find (\<lambda>x. e_idempotency x = e_idempotency e) ?es) e =
         journal_clash (\<lambda>x. e_idempotency x = e_idempotency e) ?es e"
      "conflicts (find (\<lambda>x. revision_key_of [] x = revision_key_of [] e) ?es) e =
         journal_clash (\<lambda>x. revision_key_of [] x = revision_key_of [] e) ?es e"
    by (rule clash_find; rule unique; simp)+
  have ev: "event_or_error l ?t i code = journal_event ?es i code" for i code
    by (simp only: event_or_error_def journal_event_def look)
  have act: "active_reversals l ?t i e = journal_reversals ?es i e" for i
    by (simp only: active_reversals_def journal_reversals_def)
  have ret: "validate_reversal l ?t e = journal_reversal ?es e"
    by (simp only: validate_reversal_def journal_reversal_def ev validate_reversal_of_def journal_return_def act)
  show ?thesis
    unfolding validate_event_def validate_revision_def journal_check_def journal_revision_def look clash ev ret
    by simp
qed

lemma append_journal:
  assumes "ledger_inv h l" and "append_locked h t (r, event) l = Inr (a, l')"
  shows "events_of l' u = (case event of None \<Rightarrow> events_of l u
    | Some e \<Rightarrow> if u = tenant_id t then journal_add (events_of l u) e else events_of l u)"
proof -
  have i: "indexes_ok l" "events_ok h l" using assms(1) by (simp_all add: ledger_inv_def)
  have known: "has_event_key (tenant_id t) (e_id e) l \<longleftrightarrow> list_ex (\<lambda>x. e_id x = e_id e) (events_of l (tenant_id t))" for e
    by (auto simp: has_event_key_def journal_lookup(1) [OF i] find_None_iff list_ex_iff)
  from assms(2) show ?thesis
  proof (cases rule: append_lockedE)
    case known
    then show ?thesis by (auto simp: journal_add_def \<open>\<And>e. has_event_key (tenant_id t) (e_id e) l \<longleftrightarrow> _\<close>)
  next
    case (inserted e)
    then have "\<not> list_ex (\<lambda>x. e_id x = e_id e) (events_of l (tenant_id t))"
      by (simp flip: known add: has_event_key_def)
    moreover have "map_of (l_events (put_source (tenant_id t) r l)) (tenant_id t, e_id e) = None" using inserted(4) by simp
    ultimately show ?thesis by (simp add: inserted(1,6) events_of_put_event journal_add_def)
  qed
qed

section \<open>Replays\<close>

lemma event_eq_refl:
  "json_wf (JObj (e_payload e)) \<Longrightarrow> json_wf (JObj (e_provenance e)) \<Longrightarrow> event_eq e e"
  by (simp add: event_eq_def py_eq_refl)

lemma update_same: "map_of d k = Some v \<Longrightarrow> AList.update k v d = d"
  by (induction d) (auto split: if_splits)

lemma find_append: "find P (xs @ ys) = (case find P xs of None \<Rightarrow> find P ys | Some x \<Rightarrow> Some x)"
  by (induction xs) auto

lemma journal_event_snoc: "journal_event es i code = Inr x \<Longrightarrow> journal_event (es @ [e]) i code = Inr x"
  by (auto simp: journal_event_def find_append split: option.splits)

lemma journal_reversals_snoc: "journal_reversals (es @ [e]) i e = journal_reversals es i e"
  by (auto simp: journal_reversals_def superseded_set map_filter_append List.map_filter_def
      intro!: filter_cong split: option.splits)

lemma journal_check_snoc:
  assumes "journal_check es e = Inr ()" and "event_eq e e"
  shows "journal_check (es @ [e]) e = Inr ()"
proof -
  have clash: "journal_clash same (es @ [e]) e = journal_clash same es e" for same
    using assms(2) by (simp add: journal_clash_def)
  have c: "\<not> journal_clash (\<lambda>x. e_id x = e_id e) es e" "\<not> journal_clash (\<lambda>x. e_idempotency x = e_idempotency e) es e"
      "\<not> journal_clash (\<lambda>x. revision_key_of [] x = revision_key_of [] e) es e"
      "journal_revision es e = Inr ()" "journal_reversal es e = Inr ()"
    using assms(1) by (auto simp: journal_check_def res_simps split: if_splits)
  have "journal_revision (es @ [e]) e = Inr ()"
    using c(4) by (auto simp: journal_revision_def res_simps journal_event_snoc split: if_splits option.splits)
  moreover have ret: "journal_return (es @ [e]) e x = journal_return es e x" for x
    by (simp only: journal_return_def journal_reversals_snoc)
  have "journal_reversal (es @ [e]) e = Inr ()"
  proof (cases "e_reversal e")
    case None
    with c(5) show ?thesis by (simp add: journal_reversal_def)
  next
    case (Some target)
    with c(5) obtain x where "journal_event es target ''EVENT_REVERSAL_TARGET_MISSING'' = Inr x" "e_type e = ''RETURN_ACCEPTED''"
        "\<not> (e_account x \<noteq> e_account e \<or> e_type x \<noteq> ''SALE_RECOGNIZED'')" "journal_return es e x = Inr ()"
      by (auto simp: journal_reversal_def res_simps split: if_splits)
    with Some show ?thesis by (simp add: journal_reversal_def journal_event_snoc ret)
  qed
  ultimately show ?thesis using c(1-3) by (simp add: journal_check_def clash)
qed

lemma put_source_known:
  "map_of (l_sources l) (t, r_id r) = Some old \<Longrightarrow> map_of (l_locators l) (t, r_raw_file r, r_number r) = Some (r_id r) \<Longrightarrow>
     put_source t r l = l"
  by (simp add: put_source_def update_same)

lemma validate_source_again:
  assumes "validate_source h t r event l = Inr ()" and "content_fingerprint h r = Inr d"
    and "map_of (l_sources m) (tenant_id t, r_id r) = Some old" and "same_row h old r"
    and "map_of (l_locators m) (tenant_id t, r_raw_file r, r_number r) = Some (r_id r)"
  shows "validate_source h t r event m = Inr ()"
proof -
  have "content_fingerprint h old = Inr d" using assms(2,4) by (auto simp: same_row_def)
  with assms show ?thesis by (auto simp: validate_source_def res_simps split: if_splits)
qed

lemma append_again:
  assumes inv: "ledger_inv h l" and first: "append_locked h t (r, event) l = Inr (a, l')" and doc: "content_fingerprint h r = Inr d"
    and wf: "\<And>e. event = Some e \<Longrightarrow> event_eq e e"
  shows "append_locked h t (r, event) l' = Inr (\<lparr>source_inserted = False, event_inserted = False\<rparr>, l')"
proof -
  let ?m = "put_source (tenant_id t) r l"
  have v: "validate_source h t r event l = Inr ()" using first by (auto simp: append_locked_def res_simps)
  obtain old where old: "map_of (l_sources ?m) (tenant_id t, r_id r) = Some old" "same_row h old r" using stored_row [OF v] by blast
  have loc: "map_of (l_locators ?m) (tenant_id t, r_raw_file r, r_number r) = Some (r_id r)"
    by (simp add: put_source_def update_conv')
  have src: "l_sources l' = l_sources ?m" "l_locators l' = l_locators ?m"
    using first by (cases rule: append_lockedE; simp)+
  have again: "validate_source h t r event l' = Inr ()"
    by (rule validate_source_again [OF v doc]) (use old loc src in auto)
  have known: "put_source (tenant_id t) r l' = l'" using old loc by (intro put_source_known) (auto simp: src)
  have inv': "ledger_inv h l'" using append_inv [OF inv first] ..
  have "(case event of None \<Rightarrow> True | Some e \<Rightarrow> validate_event t e l' = Inr () \<and> has_event_key (tenant_id t) (e_id e) l')"
    using first
  proof (cases rule: append_lockedE)
    case known
    then show ?thesis by (auto simp: has_event_key_def)
  next
    case (inserted e)
    have "events_of l' (tenant_id t) = events_of l (tenant_id t) @ [e]"
      using inserted(4) by (simp add: inserted(6) events_of_put_event)
    then have "validate_event t e l' = Inr ()"
      using inserted(3) journal_check_snoc [OF _ wf [OF inserted(1)]]
      by (simp add: validate_event_journal [OF inv] validate_event_journal [OF inv'])
    then show ?thesis by (simp add: inserted(1,6) has_event_key_def put_event_def update_conv')
  qed
  then show ?thesis
    using again old(1) by (cases event) (auto simp: append_locked_def known src)
qed

end
