(* ===== verification/LedgerExamples.thy ===== *)
theory LedgerExamples imports LedgerSoundness begin

text \<open>
  A small ledger: a sale, its return and a correction of the return, appended as one batch. It
  shows that the hypotheses of the ledger's and the importer's properties can hold.
\<close>

section \<open>Examples\<close>

text \<open>A stand-in for SHA-256 with digests of its form.\<close>

definition sample_sha :: "string \<Rightarrow> string" where
  "sample_sha text = replicate 62 CHR ''a'' @ hex_text 2 (length text)"

definition sample_clock :: clock where
  "sample_clock = Aware \<lparr>dt_year = 2026, dt_month = 1, dt_day = 1, dt_hour = 0, dt_minute = 0, dt_second = 0,
     dt_micro = 0, dt_offset = 0\<rparr>"

definition sample_tenant :: "string \<Rightarrow> tenant" where
  "sample_tenant t = \<lparr>tenant_id = t, tenant_account = ''A'', tenant_profile = ''P''\<rparr>"

definition sample_row :: "string \<Rightarrow> string \<Rightarrow> int \<Rightarrow> source_row" where
  "sample_row t row_id n = \<lparr>r_id = row_id, r_tenant = t, r_raw_file = ''00000000-0000-4000-8000-000000000000'', r_file_sha = sample_sha [], r_batch = ''B'',
     r_number = n, r_key = ''K'', r_hash = sample_sha (json_text (JObj [(''c'', JStr ''v'')])), r_payload = [(''c'', JStr ''v'')],
     r_structural = JObj [(''sha256'', JStr (sample_sha []))], r_semantic = Some (JObj [(''sha256'', JStr (sample_sha []))]),
     r_status = RowValid, r_diagnostics = [], r_adapter = ''W'', r_adapter_version = ''1'', r_schema = ''S'',
     r_ingested = sample_clock\<rparr>"

definition sample_field :: "string \<Rightarrow> json \<Rightarrow> json" where
  "sample_field kind v = JObj [(''state'', JStr ''VALID''), (''value'', v), (''value_type'', JStr kind), (''unit'', JStr ''U'')]"

definition sample_payload :: "int \<Rightarrow> dict" where
  "sample_payload quantity = [(''product_external_id'', sample_field ''string'' (JStr ''X'')),
     (''quantity'', sample_field ''integer'' (JInt quantity)), (''gross_amount'', sample_field ''decimal'' (JStr ''1''))]"

definition sample_event :: "string \<Rightarrow> string \<Rightarrow> string \<Rightarrow> char \<Rightarrow> string \<Rightarrow> int \<Rightarrow> int \<Rightarrow> string option \<Rightarrow> string option \<Rightarrow> event" where
  "sample_event t event_id row_id key kind n quantity supersedes reversal =
     \<lparr>e_id = event_id, e_organization = t, e_account = ''M'', e_type = kind, e_event_time = sample_clock,
      e_recognition_time = sample_clock, e_business_key = kind, e_row_key = ''K'', e_revision = n,
      e_idempotency = replicate 64 key, e_semantic_hash = sample_sha (json_text (JObj (sample_payload quantity))), e_batch = ''B'', e_source_record = row_id,
      e_schema = ''S'',
      e_payload = sample_payload quantity,
      e_provenance = [(''source_file_sha256'', JStr (sample_sha [])), (''source_adapter'', JStr ''W''),
        (''source_adapter_version'', JStr ''1''), (''source_schema_id'', JStr ''S''), (''normalization_rule_version'', JStr ''N''),
        (''actor'', JStr ''A''), (''created_at'', JStr ''2026-01-01T00:00:00+00:00''), (''trace_id'', JStr ''T'')],
      e_status = EventValid, e_created = sample_clock, e_supersedes = supersedes, e_reversal = reversal\<rparr>"

text \<open>A sale, its return and a correction of the return.\<close>

definition sample_items :: "(source_row \<times> event option) list" where
  "sample_items =
     [(sample_row ''t'' ''s1'' 2, Some (sample_event ''t'' ''e1'' ''s1'' CHR ''1'' ''SALE_RECOGNIZED'' 1 1 None None)),
      (sample_row ''t'' ''s2'' 3, Some (sample_event ''t'' ''e2'' ''s2'' CHR ''2'' ''RETURN_ACCEPTED'' 1 1 None (Some ''e1''))),
      (sample_row ''t'' ''s3'' 4, Some (sample_event ''t'' ''e3'' ''s3'' CHR ''3'' ''RETURN_ACCEPTED'' 2 1 (Some ''e2'') (Some ''e1'')))]"

definition sample_ledger :: ledger where
  "sample_ledger = snd (append_batch sample_sha (sample_tenant ''t'') sample_items new_ledger)"

lemma sample_run: "case append_all sample_sha (sample_tenant ''t'') sample_items new_ledger of Inl e \<Rightarrow> False
    | Inr (rs, l) \<Rightarrow> list_all event_inserted rs \<and> map e_id (events_of l ''t'') = [''e1'', ''e2'', ''e3''] \<and>
        list_all (\<lambda>p. e_source_record (snd p) \<noteq> []) (l_events l) \<and>
        (case map_of (l_events l) (''t'', ''e1'') of None \<Rightarrow> False | Some e \<Rightarrow> e_id e = ''e1'')"
  by code_simp

lemma sample_appended: "\<exists>rs. append_all sample_sha (sample_tenant ''t'') sample_items new_ledger = Inr (rs, sample_ledger) \<and>
    list_all event_inserted rs"
  and sample_events: "map e_id (events_of sample_ledger ''t'') = [''e1'', ''e2'', ''e3'']"
  and sample_sources: "list_all (\<lambda>p. e_source_record (snd p) \<noteq> []) (l_events sample_ledger)"
  and sample_sale: "\<exists>e. map_of (l_events sample_ledger) (''t'', ''e1'') = Some e \<and> e_id e = ''e1''"
  using sample_run by (auto simp: sample_ledger_def append_batch_def split: sum.splits option.splits)

lemma sample_reachable: "reachable sample_sha sample_ledger"
proof -
  have "append_batch sample_sha (sample_tenant ''t'') sample_items new_ledger =
      (fst (append_batch sample_sha (sample_tenant ''t'') sample_items new_ledger), sample_ledger)"
    by (simp add: sample_ledger_def)
  then show ?thesis by (intro r_into_rtranclp) (rule ledger_step.batch)
qed

end
