(* ===== verification/LedgerProperties.thy ===== *)
theory LedgerProperties imports LedgerExamples begin

text \<open>
  The promises of the canonical ledger, each as one theorem over its operations.
\<close>

section \<open>What is stored\<close>

lemma stored_lineage:
  assumes "reachable h l" and "map_of (l_events l) (t, i) = Some e"
  shows "lineage_ok h l t e" and "e_id e = i" and "e_organization e = t"
    and "\<exists>r. map_of (l_sources l) (t, e_source_record e) = Some r"
proof -
  show lin: "lineage_ok h l t e" and "e_id e = i"
    using reachable_inv [OF assms(1)] assms(2) by (simp_all add: ledger_inv_def events_ok_def)
  then obtain r old where r: "map_of (l_sources l) (t, e_source_record e) = Some old" "r_tenant r = t" "validate_lineage h r e = Inr ()"
    unfolding lineage_ok_def by blast
  then show "e_organization e = t" and "\<exists>r. map_of (l_sources l) (t, e_source_record e) = Some r"
    using validate_lineage_row [OF r(3)] by simp_all
qed

section \<open>Properties\<close>

text \<open>
  C3: every event of a reachable ledger is accounted for. It is stored under its own identifier
  and belongs to the tenant of its key; its source row is stored; a first revision supersedes
  nothing and a later one supersedes the stored revision just before it; a return points at a
  stored sale of the same account.
\<close>

theorem stored_events_accounted:
  assumes "reachable h l" and "map_of (l_events l) (t, i) = Some e"
  shows "e_id e = i \<and> e_organization e = t \<and> (\<exists>r. map_of (l_sources l) (t, e_source_record e) = Some r) \<and>
    chain_ok l t e \<and> reversal_ok l t e"
proof -
  have "chain_ok l t e \<and> reversal_ok l t e"
    using reachable_inv [OF assms(1)] assms(2) by (simp add: ledger_inv_def events_ok_def)
  then show ?thesis using stored_lineage [OF assms] by simp
qed

theorem stored_events_accounted_witness: "\<exists>e. map_of (l_events sample_ledger) (''t'', ''e1'') = Some e \<and> e_organization e = ''t''"
  using sample_sale stored_events_accounted [OF sample_reachable] by blast

text \<open>
  C1: in every reachable ledger the returns in force against a sale (those no later revision
  supersedes) never take back more units than the sale has, whatever was appended, corrected or
  rejected before, and in whatever order.
\<close>

theorem returns_never_exceed_sale:
  assumes "reachable h l" and "map_of (l_events l) (t, i) = Some e"
  shows "0 \<le> returned_quantity l t i \<and> returned_quantity l t i \<le> quantity_of e"
proof -
  have inv: "quantities_ok l" "events_ok h l" using reachable_inv [OF assms(1)] by (simp_all add: ledger_inv_def)
  have "e_id e = i" using inv(2) assms(2) by (simp add: events_ok_def)
  moreover have "0 \<le> returned_quantity l t i"
    unfolding returned_quantity_def by (rule sum_list_nonneg) (auto simp: quantity_of_nonneg)
  ultimately show ?thesis using inv(1) assms(2) by (auto simp: quantities_ok_def)
qed

theorem returns_never_exceed_sale_witness:
  "\<exists>e. map_of (l_events sample_ledger) (''t'', ''e1'') = Some e \<and> returned_quantity sample_ledger ''t'' ''e1'' \<le> quantity_of e"
  using sample_sale returns_never_exceed_sale [OF sample_reachable] by blast

text \<open>
  C5: the ledger is append-only. Along every sequence of appends and batches, successful or not,
  an event or a source row that was found is found unchanged, and no index entry changes.
\<close>

theorem ledger_append_only:
  assumes "reachable h l" and "(ledger_step h)\<^sup>*\<^sup>* l m"
  shows "(get_event t i l = Inr e \<longrightarrow> get_event t i m = Inr e) \<and>
    (get_source_row t i l = Inr r \<longrightarrow> get_source_row t i m = Inr r) \<and>
    map_of (l_idempotency l) \<subseteq>\<^sub>m map_of (l_idempotency m) \<and> map_of (l_revisions l) \<subseteq>\<^sub>m map_of (l_revisions m)"
proof -
  have le: "ledger_le l m" using ledger.steps_before [OF assms(2) reachable_inv [OF assms(1)]] .
  then have "get_event t i l = Inr e \<longrightarrow> get_event t i m = Inr e"
    using ledger_leD(2) [OF le] by (auto simp: get_event_def split: option.splits)
  moreover have "get_source_row t i l = Inr r \<longrightarrow> get_source_row t i m = Inr r"
    using ledger_leD(1) [OF le] by (auto simp: get_source_row_def split: option.splits)
  ultimately show ?thesis using le by (simp add: ledger_le_def)
qed

theorem ledger_append_only_witness:
  "\<exists>e. e_id e = ''e1'' \<and> get_event (sample_tenant ''t'') ''e1''
     (snd (append_batch sample_sha (sample_tenant ''t'') sample_items sample_ledger)) = Inr e"
proof -
  obtain e where e: "get_event (sample_tenant ''t'') ''e1'' sample_ledger = Inr e" "e_id e = ''e1''"
    using sample_sale by (auto simp: get_event_def sample_tenant_def)
  have "ledger_step sample_sha sample_ledger (snd (append_batch sample_sha (sample_tenant ''t'') sample_items sample_ledger))"
    by (rule ledger_step.batch [OF surjective_pairing])
  from ledger_append_only [OF sample_reachable r_into_rtranclp [of "ledger_step sample_sha", OF this]] e show ?thesis by blast
qed



text \<open>
  Appending is idempotent. What was just appended can be appended again: nothing is inserted
  and the ledger stays the same. (The row must have a fingerprint, and the event be equal to
  itself: no key twice in a document.)
\<close>

theorem append_idempotent:
  assumes "reachable h l" and "append_locked h t (r, Some e) l = Inr (a, m)" and "content_fingerprint h r = Inr d"
    and "json_wf (JObj (e_payload e))" and "json_wf (JObj (e_provenance e))"
  shows "append_locked h t (r, Some e) m = Inr (\<lparr>source_inserted = False, event_inserted = False\<rparr>, m)"
  using append_again [OF reachable_inv [OF assms(1)] assms(2,3)] event_eq_refl [OF assms(4,5)] by blast

theorem append_idempotent_witness:
  "\<exists>m. append_locked sample_sha (sample_tenant ''t'') (sample_items ! 0) m = Inr (\<lparr>source_inserted = False, event_inserted = False\<rparr>, m)"
proof -
  let ?r = "sample_row ''t'' ''s1'' 2" and ?e = "sample_event ''t'' ''e1'' ''s1'' CHR ''1'' ''SALE_RECOGNIZED'' 1 1 None None"
  have "case append_locked sample_sha (sample_tenant ''t'') (?r, Some ?e) new_ledger of Inl e \<Rightarrow> False | Inr x \<Rightarrow> True"
    and "case content_fingerprint sample_sha ?r of Inl e \<Rightarrow> False | Inr x \<Rightarrow> True" by code_simp+
  then obtain a m d where first: "append_locked sample_sha (sample_tenant ''t'') (?r, Some ?e) new_ledger = Inr (a, m)"
      "content_fingerprint sample_sha ?r = Inr d" by (auto split: sum.splits)
  have wf: "json_wf (JObj (e_payload ?e))" "json_wf (JObj (e_provenance ?e))" by code_simp+
  from append_idempotent [OF rtranclp.rtrancl_refl first wf] show ?thesis by (auto simp: sample_items_def)
qed

text \<open>
  C6: tenants are isolated. An append or a batch of one tenant changes nothing another tenant can
  read, and no tenant reads an event that belongs to another.
\<close>

theorem tenants_isolated:
  assumes "reachable h l" and "append_batch h t items l = (result, m)" and "tenant_id u \<noteq> tenant_id t"
  shows "get_event u i m = get_event u i l \<and> get_source_row u i m = get_source_row u i l \<and>
    list_events u m = list_events u l \<and> list_source_rows u m = list_source_rows u l \<and>
    (get_event u i m = Inr e \<longrightarrow> e_organization e = tenant_id u)"
proof -
  let ?view = "\<lambda>l. (filter (\<lambda>p. fst (fst p) = tenant_id u) (l_events l), filter (\<lambda>p. fst (fst p) = tenant_id u) (l_sources l))"
  have other: "filter (\<lambda>p. fst (fst p) = tenant_id u) (AList.update (tenant_id t, x) v d) =
      filter (\<lambda>p. fst (fst p) = tenant_id u) d" for x v d
    using assms(3) by (subst filter_key_update [of "\<lambda>k. fst k = tenant_id u"]) auto
  have put: "?view (put_source (tenant_id t) r l) = ?view l" "?view (put_event (tenant_id t) e l) = ?view l" for r e l
    by (simp_all add: put_source_def put_event_def other)
  have one: "?view m = ?view l" if a: "append_locked h t item l = Inr (a, m)" for item l a m
  proof -
    obtain r event where "item = (r, event)" by fastforce
    with a show ?thesis using put by (auto elim!: append_lockedE)
  qed
  have all: "append_all h t items l = Inr (rs, m) \<Longrightarrow> ?view m = ?view l" for items l rs m
  proof (induction items arbitrary: l rs)
    case (Cons item items)
    then obtain a n bs where step: "append_locked h t item l = Inr (a, n)" "append_all h t items n = Inr (bs, m)"
      by (auto simp: res_simps)
    from Cons.IH [OF step(2)] one [OF step(1)] show ?case by (rule trans)
  qed simp
  have view: "?view m = ?view l" using append_batch_cases [OF assms(2)] all by auto
  have look: "map_of (l_events x) (tenant_id u, i) = map_of (fst (?view x)) (tenant_id u, i)"
      "map_of (l_sources x) (tenant_id u, i) = map_of (snd (?view x)) (tenant_id u, i)" for x
    by (simp_all add: map_of_filter_fst [of "\<lambda>k. fst k = tenant_id u"])
  have "reachable h m" using assms(1) ledger_step.batch [OF assms(2)] by (rule rtranclp.rtrancl_into_rtrancl)
  then have "e_organization e = tenant_id u" if "map_of (l_events m) (tenant_id u, i) = Some e"
    using stored_lineage(3) that by blast
  then show ?thesis using view
    by (auto simp: get_event_def get_source_row_def look list_events_def events_of_def list_source_rows_def split: option.splits)
qed

theorem tenants_isolated_witness:
  "list_events (sample_tenant ''u'') sample_ledger = list_events (sample_tenant ''u'') new_ledger"
proof -
  have b: "append_batch sample_sha (sample_tenant ''t'') sample_items new_ledger =
      (fst (append_batch sample_sha (sample_tenant ''t'') sample_items new_ledger), sample_ledger)"
    by (simp add: sample_ledger_def)
  have "tenant_id (sample_tenant ''u'') \<noteq> tenant_id (sample_tenant ''t'')" by (simp add: sample_tenant_def)
  from tenants_isolated [OF rtranclp.rtrancl_refl b this] show ?thesis by blast
qed

text \<open>
  C2: the ledger implements the journal. In a reachable ledger an event is accepted or refused,
  with the same diagnostic, as the abstract specification decides from the tenant's journal
  alone, and an append changes the journals as the specification does: the accepted event joins
  the end of its tenant's journal unless it is already there, other journals stay. So the dicts
  keyed by identifier, idempotency key and revision are indexes and nothing more.
\<close>

theorem ledger_refines_journal:
  assumes "reachable h l"
  shows "validate_event t e l = journal_check (events_of l (tenant_id t)) e \<and>
    (append_locked h t (r, event) l = Inr (a, m) \<longrightarrow>
      events_of m u = (case event of None \<Rightarrow> events_of l u
        | Some x \<Rightarrow> if u = tenant_id t then journal_add (events_of l u) x else events_of l u) \<and>
      (\<forall>x. event = Some x \<longrightarrow> journal_check (events_of l (tenant_id t)) x = Inr ()))"
proof -
  note inv = reachable_inv [OF assms]
  have "journal_check (events_of l (tenant_id t)) x = Inr ()"
    if "append_locked h t (r, Some x) l = Inr (a, m)" for x
    using that by (auto simp: append_locked_def res_simps validate_event_journal [OF inv])
  then show ?thesis using validate_event_journal [OF inv] append_journal [OF inv] by blast
qed

theorem ledger_refines_journal_witness:
  "let e = sample_event ''t'' ''e3'' ''s3'' CHR ''3'' ''RETURN_ACCEPTED'' 2 1 (Some ''e2'') (Some ''e1'') in
     validate_event (sample_tenant ''t'') e sample_ledger = journal_check (events_of sample_ledger ''t'') e"
  using ledger_refines_journal [OF sample_reachable] by (auto simp: sample_tenant_def)

text \<open>
  Tracing never gets stuck. An event that can be read can be traced to its source row: the
  row exists, has the identifier the event names and the tenant that asks, and the trace carries
  the row's file and hash.
\<close>

theorem trace_event_succeeds:
  assumes "reachable h l" and "get_event t i l = Inr e" and "e_source_record e \<noteq> []"
  shows "\<exists>x. trace_event t i l = Inr x \<and> trace_of x = e \<and> r_id (trace_row x) = e_source_record e \<and>
    r_tenant (trace_row x) = tenant_id t \<and> trace_raw_file x = r_raw_file (trace_row x) \<and>
    trace_file_sha x = r_file_sha (trace_row x)"
proof -
  have inv: "sources_ok l" using reachable_inv [OF assms(1)] by (simp add: ledger_inv_def)
  from assms(2) have "map_of (l_events l) (tenant_id t, i) = Some e"
    by (auto simp: get_event_def split: if_splits option.splits)
  from stored_lineage(4) [OF assms(1) this]
  obtain r where "map_of (l_sources l) (tenant_id t, e_source_record e) = Some r" by blast
  moreover from this have "r_id r = e_source_record e" "r_tenant r = tenant_id t"
    using inv by (auto simp: sources_ok_def)
  ultimately show ?thesis using assms(2,3) by (simp add: trace_event_def get_source_row_def)
qed

theorem trace_event_succeeds_witness:
  "\<exists>x e. trace_event (sample_tenant ''t'') ''e1'' sample_ledger = Inr x \<and> trace_of x = e \<and> e_id e = ''e1''"
proof -
  obtain e where e: "map_of (l_events sample_ledger) (''t'', ''e1'') = Some e" "e_id e = ''e1''" using sample_sale by blast
  then have g: "get_event (sample_tenant ''t'') ''e1'' sample_ledger = Inr e" by (simp add: get_event_def sample_tenant_def)
  have "e_source_record e \<noteq> []" using e(1) sample_sources by (auto simp: list_all_iff dest!: map_of_SomeD)
  from trace_event_succeeds [OF sample_reachable g this] e(2) show ?thesis by blast
qed

section \<open>A replay that is refused\<close>

text \<open>
  The second return corrects the first one. Appending the first one once more, as a second import
  of its file does, is refused: its correction is still counted although both are revisions of one
  return.
\<close>

lemma corrected_return_replay:
  "case append_all sample_sha (sample_tenant ''t'') (sample_items @ [sample_items ! 1]) new_ledger of
     Inl e \<Rightarrow> e = CanonicalLedgerError ''EVENT_REVERSAL_EXCEEDS_ORIGINAL'' | Inr x \<Rightarrow> False"
  by code_simp

end
