(* ===== verification/Ingest.thy ===== *)
theory Ingest imports Ledger begin

text \<open>
  \<open>ingestion/canonical_pipeline.py\<close>: how the rows of one file become a batch of the ledger.
  Rows that failed normalisation are stored as quarantined; the others are tried on a fork of the
  ledger until each is either accepted or quarantined, and the plan so found is appended as one
  batch. The adapter that normalises a row and the reading of CSV are not modelled here: the rows
  and candidates are the arguments.
\<close>

definition missing_dependency_codes :: "string list" where
  "missing_dependency_codes = [''EVENT_SUPERSEDED_TARGET_MISSING'', ''EVENT_REVERSAL_TARGET_MISSING'']"

definition row_quarantine_codes :: "string list" where
  "row_quarantine_codes = [''EVENT_SUPERSESSION_INVALID'', ''EVENT_REVERSAL_INVALID'', ''EVENT_REVERSAL_REQUIRED'',
     ''EVENT_REVERSAL_EXCEEDS_ORIGINAL'', ''EVENT_REVERSAL_UNIT_MISMATCH'']"

record import_candidate =
  k_row :: source_row
  k_event :: event

text \<open>The identifiers of a batch and of a source record.\<close>

definition batch_id :: "(string \<Rightarrow> string) \<Rightarrow> string \<Rightarrow> string \<Rightarrow> string \<Rightarrow> string \<Rightarrow> string \<Rightarrow> string" where
  "batch_id h t sha schema adapter version =
     ''batch-'' @ take 24 (h (join unit_separator [t, sha, schema, adapter, version]))"

definition source_record_id :: "(string \<Rightarrow> string) \<Rightarrow> string \<Rightarrow> string \<Rightarrow> int \<Rightarrow> string \<Rightarrow> string" where
  "source_record_id h t sha number row_hash =
     ''src-'' @ take 32 (h (join unit_separator [t, sha, int_text number, row_hash]))"

definition quarantine_candidate ::
  "(string \<Rightarrow> string) \<Rightarrow> import_candidate \<Rightarrow> string list \<Rightarrow> source_row res" where
  "quarantine_candidate h c diagnostics =
     make_source_row h ((k_row c)\<lparr>r_status := RowQuarantined, r_diagnostics := diagnostics\<rparr>)"

section \<open>The order of the candidates\<close>

text \<open>Recognition times carry a time zone, so they compare by their instants.\<close>

fun clock_instant :: "clock \<Rightarrow> int" where
  "clock_instant (Aware t) = instant t"
| "clock_instant (Naive t) = instant (local_time t)"

definition candidate_order :: "string list \<Rightarrow> import_candidate \<Rightarrow> nat \<times> int \<times> string" where
  "candidate_order superseded_targets c =
     (let e = k_event c;
          rank = (if e_supersedes e \<noteq> None then 0 else if List.member superseded_targets (e_id e) then 1 else 2)
      in (rank, clock_instant (e_recognition_time e), e_id e))"

definition superseded_targets :: "import_candidate list \<Rightarrow> string list" where
  "superseded_targets pending = List.map_filter (\<lambda>c. e_supersedes (k_event c)) pending"

definition ordered_candidates :: "import_candidate list \<Rightarrow> import_candidate list" where
  "ordered_candidates pending = sort_key (candidate_order (superseded_targets pending)) pending"

section \<open>The plan\<close>

type_synonym planned = "source_row \<times> event option"

text \<open>
  One pass over the ordered candidates: the first that does not wait for another row is stored on
  the fork, as an event or, for the codes that allow it, as a quarantined row.
\<close>

fun try_candidates ::
  "(string \<Rightarrow> string) \<Rightarrow> tenant \<Rightarrow> import_candidate list \<Rightarrow> ledger \<Rightarrow> (import_candidate \<times> planned \<times> ledger) option res" where
  "try_candidates h t [] staging = Inr None"
| "try_candidates h t (c # cs) staging =
     (case append_locked h t (k_row c, Some (k_event c)) staging of
        Inr (a, staging') \<Rightarrow> Inr (Some (c, (k_row c, Some (k_event c)), staging'))
      | Inl (CanonicalLedgerError code) \<Rightarrow>
          if List.member missing_dependency_codes code then try_candidates h t cs staging
          else if \<not> List.member row_quarantine_codes code then Inl (CanonicalLedgerError code)
          else rbind (quarantine_candidate h c [code]) (\<lambda>row.
            rbind (append_locked h t (row, None) staging) (\<lambda>(a, staging'). Inr (Some (c, (row, None), staging'))))
      | Inl e \<Rightarrow> Inl e)"

text \<open>\<open>==\<close> of the dataclasses, for \<open>pending.remove(candidate)\<close>.\<close>

definition row_eq :: "source_row \<Rightarrow> source_row \<Rightarrow> bool" where
  "row_eq a b \<longleftrightarrow>
     r_id a = r_id b \<and> r_tenant a = r_tenant b \<and> r_raw_file a = r_raw_file b \<and> r_file_sha a = r_file_sha b \<and>
     r_batch a = r_batch b \<and> r_number a = r_number b \<and> r_key a = r_key b \<and> r_hash a = r_hash b \<and>
     py_eq (JObj (r_payload a)) (JObj (r_payload b)) \<and> py_eq (r_structural a) (r_structural b) \<and>
     (case (r_semantic a, r_semantic b) of (None, None) \<Rightarrow> True | (Some v, Some w) \<Rightarrow> py_eq v w | _ \<Rightarrow> False) \<and>
     r_status a = r_status b \<and> r_diagnostics a = r_diagnostics b \<and> r_adapter a = r_adapter b \<and>
     r_adapter_version a = r_adapter_version b \<and> r_schema a = r_schema b \<and> clock_eq (r_ingested a) (r_ingested b)"

definition candidate_eq :: "import_candidate \<Rightarrow> import_candidate \<Rightarrow> bool" where
  "candidate_eq a b \<longleftrightarrow> row_eq (k_row a) (k_row b) \<and> event_eq (k_event a) (k_event b)"

text \<open>\<open>list.remove\<close> takes the first element that is the object or equal to it.\<close>

fun remove_candidate :: "import_candidate \<Rightarrow> import_candidate list \<Rightarrow> import_candidate list" where
  "remove_candidate c [] = []"
| "remove_candidate c (x # xs) = (if x = c \<or> candidate_eq x c then xs else x # remove_candidate c xs)"

lemma remove_candidate_length: "c \<in> set xs \<Longrightarrow> length (remove_candidate c xs) < length xs"
  by (induction xs) auto

lemma try_candidates_member:
  "try_candidates h t cs staging = Inr (Some (c, item, staging')) \<Longrightarrow> c \<in> set cs"
  by (induction cs) (auto simp: res_simps split: sum.splits exn.splits if_splits)

function resolve_pending ::
  "(string \<Rightarrow> string) \<Rightarrow> tenant \<Rightarrow> import_candidate list \<Rightarrow> ledger \<Rightarrow> planned list \<Rightarrow> (planned list \<times> ledger) res" where
  "resolve_pending h t pending staging plan =
     (if pending = [] then Inr (plan, staging)
      else (case try_candidates h t (ordered_candidates pending) staging of
          Inl e \<Rightarrow> Inl e
        | Inr None \<Rightarrow> ledger_error ''BATCH_DEPENDENCY_UNRESOLVED''
        | Inr (Some (c, item, staging')) \<Rightarrow>
            resolve_pending h t (remove_candidate c pending) staging' (plan @ [item])))"
  by pat_completeness auto
termination
  by (relation "measure (\<lambda>(h, t, pending, staging, plan). length pending)")
    (auto simp: ordered_candidates_def dest!: try_candidates_member intro!: remove_candidate_length)

declare resolve_pending.simps [simp del]

definition resolve_batch ::
  "(string \<Rightarrow> string) \<Rightarrow> tenant \<Rightarrow> source_row list \<Rightarrow> import_candidate list \<Rightarrow> ledger \<Rightarrow> planned list res" where
  "resolve_batch h t immediate candidates l =
     (let plan = map (\<lambda>r. (r, None)) immediate in
      rbind (append_all h t plan (fork l)) (\<lambda>(rs, staging).
      rbind (resolve_pending h t candidates staging plan) (\<lambda>(planned, staging'). Inr planned)))"

section \<open>The import\<close>

record import_result =
  n_total :: nat
  n_inserted_rows :: nat
  n_inserted_events :: nat
  n_duplicate_rows :: nat
  n_duplicate_events :: nat
  n_quarantined :: nat
  n_inserted_quarantined :: nat
  n_duplicate_quarantined :: nat
  n_event_ids :: "string list"

definition count_if :: "('a \<Rightarrow> bool) \<Rightarrow> 'a list \<Rightarrow> nat" where
  "count_if P xs = length (filter P xs)"

text \<open>The counters that \<open>ingest\<close> reports for a plan and its results.\<close>

definition import_summary :: "nat \<Rightarrow> planned list \<Rightarrow> append_result list \<Rightarrow> import_result" where
  "import_summary row_count planned results =
     (let inserted_rows = count_if source_inserted results;
          pairs = zip planned results;
          event_pairs = filter (\<lambda>((row, event), result). event \<noteq> None) pairs;
          quarantine = map snd (filter (\<lambda>((row, event), result). event = None) pairs);
          inserted_quarantined = count_if source_inserted quarantine
      in \<lparr>n_total = row_count, n_inserted_rows = inserted_rows, n_inserted_events = count_if event_inserted results,
          n_duplicate_rows = length results - inserted_rows,
          n_duplicate_events = count_if (\<lambda>(item, result). \<not> event_inserted result) event_pairs,
          n_quarantined = length quarantine, n_inserted_quarantined = inserted_quarantined,
          n_duplicate_quarantined = length quarantine - inserted_quarantined,
          n_event_ids = map (\<lambda>((row, event), result). e_id (the event)) event_pairs\<rparr>)"

text \<open>The last part of \<open>ingest\<close>: plan, append, report.\<close>

definition import_rows ::
  "(string \<Rightarrow> string) \<Rightarrow> tenant \<Rightarrow> source_row list \<Rightarrow> import_candidate list \<Rightarrow> ledger \<Rightarrow> import_result res \<times> ledger" where
  "import_rows h t immediate candidates l =
     (case resolve_batch h t immediate candidates l of
        Inl e \<Rightarrow> (Inl e, l)
      | Inr planned \<Rightarrow>
          (case append_batch h t planned l of
             (Inl e, l') \<Rightarrow> (Inl e, l')
           | (Inr results, l') \<Rightarrow>
               (Inr (import_summary (length immediate + length candidates) planned results), l')))"

end
