(* ===== verification/IngestSoundness.thy ===== *)
theory IngestSoundness imports Ingest LedgerExamples begin

text \<open>
  What the importer guarantees: planning ends, a plan always applies to the ledger it was made
  on, no row is lost or counted twice, and a row that can only wait stops the import without a
  trace in the ledger.
\<close>

section \<open>Plans replay\<close>

lemma append_all_snoc:
  "append_all h t xs l = Inr (rs, m) \<Longrightarrow> append_locked h t x m = Inr (a, n) \<Longrightarrow> append_all h t (xs @ [x]) l = Inr (rs @ [a], n)"
  by (induction xs arbitrary: l rs) (auto simp: res_simps)

lemma append_all_length: "append_all h t xs l = Inr (rs, m) \<Longrightarrow> length rs = length xs"
  by (induction xs arbitrary: l rs) (auto simp: res_simps)

text \<open>What one pass stores on the fork.\<close>

definition planned_from :: "import_candidate \<Rightarrow> planned \<Rightarrow> bool" where
  "planned_from c item \<longleftrightarrow> item = (k_row c, Some (k_event c)) \<or>
     (\<exists>code. code \<in> set row_quarantine_codes \<and> item = ((k_row c)\<lparr>r_status := RowQuarantined, r_diagnostics := [code]\<rparr>, None))"

lemma planned_from_id: "planned_from c item \<Longrightarrow> r_id (fst item) = r_id (k_row c)"
  by (auto simp: planned_from_def)

lemma quarantine_row:
  "quarantine_candidate h c ds = Inr row \<Longrightarrow> row = (k_row c)\<lparr>r_status := RowQuarantined, r_diagnostics := ds\<rparr>"
  by (auto simp: quarantine_candidate_def make_source_row_def res_simps)

lemma try_candidates_stored:
  assumes "try_candidates h t cs staging = Inr (Some (c, item, staging'))"
  shows "c \<in> set cs \<and> planned_from c item \<and> (\<exists>a. append_locked h t item staging = Inr (a, staging'))"
  using assms
proof (induction cs)
  case (Cons x xs)
  show ?case
  proof (cases "append_locked h t (k_row x, Some (k_event x)) staging")
    case (Inr p)
    then show ?thesis using Cons.prems by (cases p) (auto simp: planned_from_def)
  next
    case (Inl e)
    show ?thesis
    proof (cases "\<exists>code. e = CanonicalLedgerError code")
      case False
      then show ?thesis using Cons.prems Inl by (cases e) auto
    next
      case True
      then obtain code where e: "e = CanonicalLedgerError code" by blast
      consider "code \<in> set missing_dependency_codes" | "code \<notin> set missing_dependency_codes" "code \<in> set row_quarantine_codes"
        | "code \<notin> set missing_dependency_codes" "code \<notin> set row_quarantine_codes" by blast
      then show ?thesis
      proof cases
        case 1
        then show ?thesis using Cons Inl by (simp add: e)
      next
        case 2
        with Cons.prems Inl obtain row a where "quarantine_candidate h x [code] = Inr row"
            "append_locked h t (row, None) staging = Inr (a, staging')" "c = x" "item = (row, None)"
          by (auto simp: e res_simps)
        with 2 quarantine_row show ?thesis by (auto simp: planned_from_def)
      qed (use Cons.prems Inl in \<open>simp add: e\<close>)
    qed
  qed
qed simp

lemma try_candidates_stuck:
  assumes "try_candidates h t cs staging = Inr None" and "c \<in> set cs"
  shows "\<exists>code \<in> set missing_dependency_codes.
    append_locked h t (k_row c, Some (k_event c)) staging = Inl (CanonicalLedgerError code)"
  using assms by (induction cs) (auto simp: res_simps split: sum.splits exn.splits if_splits)

lemma ordered_candidates_set [simp]: "set (ordered_candidates pending) = set pending"
  by (simp add: ordered_candidates_def)

lemma candidate_eq_id: "candidate_eq x c \<Longrightarrow> r_id (k_row x) = r_id (k_row c)"
  by (simp add: candidate_eq_def row_eq_def)

lemma remove_candidate_ids:
  "c \<in> set xs \<Longrightarrow> mset (map (r_id \<circ> k_row) xs) =
     add_mset (r_id (k_row c)) (mset (map (r_id \<circ> k_row) (remove_candidate c xs)))"
  by (induction xs) (auto dest: candidate_eq_id)

lemma remove_candidate_subset: "set (remove_candidate c xs) \<subseteq> set xs"
  by (induction xs) auto

text \<open>
  The loop as a rule: what holds when it starts and is kept by each stored candidate holds when
  it ends.
\<close>

lemma resolve_pending_rule:
  assumes "resolve_pending h t pending staging plan = Inr (planned, final)" and "P pending staging plan"
    and "\<And>pending staging plan c item staging' a. P pending staging plan \<Longrightarrow> c \<in> set pending \<Longrightarrow> planned_from c item \<Longrightarrow>
      append_locked h t item staging = Inr (a, staging') \<Longrightarrow> P (remove_candidate c pending) staging' (plan @ [item])"
  shows "P [] final planned"
  using assms(1,2)
proof (induction "length pending" arbitrary: pending staging plan rule: less_induct)
  case less
  show ?case
  proof (cases "pending = []")
    case True
    with less.prems show ?thesis by (simp add: resolve_pending.simps [of h t "[]"])
  next
    case False
    with less.prems(1) obtain c item staging' where
        pass: "try_candidates h t (ordered_candidates pending) staging = Inr (Some (c, item, staging'))"
      and rest: "resolve_pending h t (remove_candidate c pending) staging' (plan @ [item]) = Inr (planned, final)"
      by (subst (asm) resolve_pending.simps) (auto split: sum.splits option.splits)
    from try_candidates_stored [OF pass] obtain a where c: "c \<in> set pending" "planned_from c item"
        "append_locked h t item staging = Inr (a, staging')" by auto
    show ?thesis
      by (rule less.hyps [OF remove_candidate_length [OF c(1)] rest assms(3) [OF less.prems(2) c]])
  qed
qed

lemma resolve_batchE:
  assumes "resolve_batch h t immediate candidates l = Inr planned"
  obtains rs staging final where "append_all h t (map (\<lambda>r. (r, None)) immediate) l = Inr (rs, staging)"
    and "resolve_pending h t candidates staging (map (\<lambda>r. (r, None)) immediate) = Inr (planned, final)"
  using assms by (auto simp: resolve_batch_def fork_def Let_def res_simps)

lemma plan_replays:
  assumes "resolve_batch h t immediate candidates l = Inr planned"
  shows "\<exists>rs final. append_all h t planned l = Inr (rs, final)"
  using assms
proof (cases rule: resolve_batchE)
  case (1 rs staging final)
  have "\<exists>rs. append_all h t planned l = Inr (rs, final)"
    by (rule resolve_pending_rule [OF 1(2), of "\<lambda>pending staging plan. \<exists>rs. append_all h t plan l = Inr (rs, staging)"])
      (use 1(1) append_all_snoc in blast)+
  then show ?thesis by blast
qed

lemma plan_stored:
  assumes "resolve_batch h t immediate candidates l = Inr planned"
  shows "\<exists>results m. append_batch h t planned l = (Inr results, m) \<and> length results = length planned \<and>
    import_rows h t immediate candidates l = (Inr (import_summary (length immediate + length candidates) planned results), m)"
proof -
  from plan_replays [OF assms] obtain rs m where "append_all h t planned l = Inr (rs, m)" by blast
  with append_all_length [OF this] assms show ?thesis by (simp add: append_batch_def import_rows_def)
qed

lemma plan_immediate:
  assumes "resolve_batch h t immediate candidates l = Inr planned"
  shows "\<exists>rest. planned = map (\<lambda>r. (r, None)) immediate @ rest"
  using assms
proof (cases rule: resolve_batchE)
  case (1 rs staging final)
  show ?thesis
    by (rule resolve_pending_rule [OF 1(2), of "\<lambda>pending staging plan. \<exists>rest. plan = map (\<lambda>r. (r, None)) immediate @ rest"]) auto
qed

lemma filter_zip_fst: "length xs = length ys \<Longrightarrow> length (filter (\<lambda>(x, y). P x) (zip xs ys)) = length (filter P xs)"
  by (induction xs ys rule: list_induct2) auto

lemma count_if_map_le: "count_if P (map f xs) \<le> length xs"
  using length_filter_le [of P "map f xs"] by (simp add: count_if_def)

lemma plan_ids:
  assumes "resolve_batch h t immediate candidates l = Inr planned"
  shows "mset (map (r_id \<circ> fst) planned) = mset (map r_id immediate) + mset (map (r_id \<circ> k_row) candidates)"
  using assms
proof (cases rule: resolve_batchE)
  case (1 rs staging final)
  let ?all = "mset (map r_id immediate) + mset (map (r_id \<circ> k_row) candidates)"
  have "mset (map (r_id \<circ> fst) planned) + mset (map (r_id \<circ> k_row) ([] :: import_candidate list)) = ?all"
  proof (rule resolve_pending_rule [OF 1(2), of "\<lambda>pending staging plan.
      mset (map (r_id \<circ> fst) plan) + mset (map (r_id \<circ> k_row) pending) = ?all"])
    show "mset (map (r_id \<circ> fst) (map (\<lambda>r. (r, None)) immediate)) + mset (map (r_id \<circ> k_row) candidates) = ?all"
      by (simp add: comp_def)
  next
    fix pending staging c item staging' a and plan :: "planned list"
    assume "mset (map (r_id \<circ> fst) plan) + mset (map (r_id \<circ> k_row) pending) = ?all" and c: "c \<in> set pending"
      and "planned_from c item"
    then show "mset (map (r_id \<circ> fst) (plan @ [item])) + mset (map (r_id \<circ> k_row) (remove_candidate c pending)) = ?all"
      using remove_candidate_ids [OF c] planned_from_id [of c item] by simp
  qed
  then show ?thesis by simp
qed

lemma plan_items:
  assumes "resolve_batch h t immediate candidates l = Inr planned" and "item \<in> set planned"
  shows "(\<exists>r \<in> set immediate. item = (r, None)) \<or> (\<exists>c \<in> set candidates. planned_from c item)"
  using assms(1)
proof (cases rule: resolve_batchE)
  case (1 rs staging final)
  let ?ok = "\<lambda>item. (\<exists>r \<in> set immediate. item = (r, None)) \<or> (\<exists>c \<in> set candidates. planned_from c item)"
  have "set [] \<subseteq> set candidates \<and> (\<forall>item \<in> set planned. ?ok item)"
  proof (rule resolve_pending_rule [OF 1(2), of "\<lambda>pending staging plan.
      set pending \<subseteq> set candidates \<and> (\<forall>item \<in> set plan. ?ok item)"])
    fix pending staging plan c item staging' a
    assume "set pending \<subseteq> set candidates \<and> (\<forall>item \<in> set plan. ?ok item)" and "c \<in> set pending" and "planned_from c item"
    then show "set (remove_candidate c pending) \<subseteq> set candidates \<and> (\<forall>item \<in> set (plan @ [item]). ?ok item)"
      using remove_candidate_subset [of c pending] by auto
  qed auto
  with assms(2) show ?thesis by blast
qed

section \<open>Failures\<close>

text \<open>A candidate that ends the import: a refusal that is neither waited for nor quarantined.\<close>

definition refused :: "(string \<Rightarrow> string) \<Rightarrow> tenant \<Rightarrow> import_candidate \<Rightarrow> ledger \<Rightarrow> exn \<Rightarrow> bool" where
  "refused h t c staging e \<longleftrightarrow>
     (append_locked h t (k_row c, Some (k_event c)) staging = Inl e \<and>
        (\<forall>code \<in> set (missing_dependency_codes @ row_quarantine_codes). e \<noteq> CanonicalLedgerError code)) \<or>
     (\<exists>code \<in> set row_quarantine_codes. append_locked h t (k_row c, Some (k_event c)) staging = Inl (CanonicalLedgerError code) \<and>
        rbind (quarantine_candidate h c [code]) (\<lambda>row. append_locked h t (row, None) staging) = Inl e)"

lemma try_candidates_refused:
  assumes "try_candidates h t cs staging = Inl e"
  shows "\<exists>c \<in> set cs. refused h t c staging e"
  using assms
proof (induction cs)
  case (Cons x xs)
  show ?case
  proof (cases "append_locked h t (k_row x, Some (k_event x)) staging")
    case (Inr p)
    with Cons.prems show ?thesis by (cases p) simp
  next
    case (Inl e')
    show ?thesis
    proof (cases "\<exists>code. e' = CanonicalLedgerError code")
      case False
      then have "e' = e" using Cons.prems Inl by (cases e') auto
      with False Inl show ?thesis by (auto simp: refused_def)
    next
      case True
      then obtain code where e': "e' = CanonicalLedgerError code" by blast
      consider "code \<in> set missing_dependency_codes" | "code \<notin> set missing_dependency_codes" "code \<in> set row_quarantine_codes"
        | "code \<notin> set missing_dependency_codes" "code \<notin> set row_quarantine_codes" by blast
      then show ?thesis
      proof cases
        case 1
        then show ?thesis using Cons Inl by (auto simp: e')
      next
        case 2
        with Cons.prems Inl have "rbind (quarantine_candidate h x [code]) (\<lambda>row. append_locked h t (row, None) staging) = Inl e"
          by (auto simp: e' res_simps)
        with 2 Inl show ?thesis by (auto simp: refused_def e')
      next
        case 3
        with Cons.prems Inl have "e = e'" by (simp add: e')
        with 3 Inl show ?thesis by (auto simp: refused_def e')
      qed
    qed
  qed
qed simp

definition import_stops :: "(string \<Rightarrow> string) \<Rightarrow> tenant \<Rightarrow> import_candidate list \<Rightarrow> ledger \<Rightarrow> exn \<Rightarrow> bool" where
  "import_stops h t pending staging e \<longleftrightarrow>
     (e = CanonicalLedgerError ''BATCH_DEPENDENCY_UNRESOLVED'' \<and>
        (\<forall>c \<in> set pending. \<exists>code \<in> set missing_dependency_codes.
           append_locked h t (k_row c, Some (k_event c)) staging = Inl (CanonicalLedgerError code))) \<or>
     (\<exists>c \<in> set pending. refused h t c staging e)"

lemma resolve_pending_fails:
  assumes "resolve_pending h t pending staging plan = Inl e" and "append_all h t plan l = Inr (rs, staging)"
  shows "\<exists>rest rs' staging' plan'. rest \<noteq> [] \<and> set rest \<subseteq> set pending \<and>
    append_all h t plan' l = Inr (rs', staging') \<and> import_stops h t rest staging' e"
  using assms
proof (induction "length pending" arbitrary: pending staging plan rs rule: less_induct)
  case less
  have ne: "pending \<noteq> []" using less.prems(1) by (auto simp: resolve_pending.simps [of h t "[]"])
  then consider "try_candidates h t (ordered_candidates pending) staging = Inl e"
    | "try_candidates h t (ordered_candidates pending) staging = Inr None" "e = CanonicalLedgerError ''BATCH_DEPENDENCY_UNRESOLVED''"
    | c item staging' where "try_candidates h t (ordered_candidates pending) staging = Inr (Some (c, item, staging'))"
      "resolve_pending h t (remove_candidate c pending) staging' (plan @ [item]) = Inl e"
    using less.prems(1) by (subst (asm) resolve_pending.simps) (auto split: sum.splits option.splits)
  then show ?case
  proof cases
    case 1
    from try_candidates_refused [OF this] have "import_stops h t pending staging e" by (auto simp: import_stops_def)
    with ne less.prems(2) show ?thesis by blast
  next
    case 2
    from try_candidates_stuck [OF 2(1)] 2(2) have "import_stops h t pending staging e" by (auto simp: import_stops_def)
    with ne less.prems(2) show ?thesis by blast
  next
    case 3
    from try_candidates_stored [OF 3(1)] obtain a where c: "c \<in> set pending" "append_locked h t item staging = Inr (a, staging')"
      by auto
    from less.hyps [OF remove_candidate_length [OF c(1)] 3(2) append_all_snoc [OF less.prems(2) c(2)]]
    show ?thesis using remove_candidate_subset [of c pending] by blast
  qed
qed

section \<open>Examples\<close>

text \<open>The rows of the sample ledger as the candidates of one file, in the reverse order.\<close>

definition sample_candidates :: "nat \<Rightarrow> import_candidate list" where
  "sample_candidates n = rev (map (\<lambda>(r, e). \<lparr>k_row = r, k_event = the e\<rparr>) (take n sample_items))"

definition sample_immediate :: "source_row list" where
  "sample_immediate = [(sample_row ''t'' ''s0'' 5)\<lparr>r_status := RowQuarantined, r_diagnostics := [''X''], r_semantic := None\<rparr>]"

lemma sample_order: "ordered_candidates (sample_candidates 1) = sample_candidates 1"
  by (simp add: ordered_candidates_def sample_candidates_def sample_items_def)

lemma case_pairE: "(case x of Inl e \<Rightarrow> False | Inr (a, b) \<Rightarrow> Q a b) \<Longrightarrow> \<exists>a b. x = Inr (a, b) \<and> Q a b"
  by (auto split: sum.splits)

lemma case_tripleE:
  "(case x of Inl e \<Rightarrow> False | Inr None \<Rightarrow> False | Inr (Some (a, b, c)) \<Rightarrow> True) \<Longrightarrow> \<exists>a b c. x = Inr (Some (a, b, c))"
  by (auto split: sum.splits option.splits)

lemma sample_passes: "case append_all sample_sha (sample_tenant ''t'') (map (\<lambda>r. (r, None)) sample_immediate) new_ledger of
     Inl e \<Rightarrow> False
   | Inr (rs, staging) \<Rightarrow> (case try_candidates sample_sha (sample_tenant ''t'') (sample_candidates 1) staging of
        Inl e \<Rightarrow> False
      | Inr None \<Rightarrow> False
      | Inr (Some (c, item, staging')) \<Rightarrow> True)"
  by code_simp

lemma sample_import: "\<exists>planned. resolve_batch sample_sha (sample_tenant ''t'') sample_immediate (sample_candidates 1) new_ledger = Inr planned"
proof -
  obtain c0 where c0: "sample_candidates 1 = [c0]" by (cases sample_items) (simp_all add: sample_candidates_def sample_items_def split: prod.splits)
  from sample_passes obtain rs staging c item staging' where
      first: "append_all sample_sha (sample_tenant ''t'') (map (\<lambda>r. (r, None)) sample_immediate) new_ledger = Inr (rs, staging)"
    and pass: "try_candidates sample_sha (sample_tenant ''t'') (sample_candidates 1) staging = Inr (Some (c, item, staging'))"
    using case_pairE [OF sample_passes] case_tripleE by blast
  have "remove_candidate c (sample_candidates 1) = []"
    using try_candidates_member [OF pass] unfolding c0 by simp
  moreover have "sample_candidates 1 \<noteq> []" unfolding c0 by simp
  ultimately show ?thesis using first pass sample_order
    by (simp add: resolve_batch_def fork_def Let_def resolve_pending.simps [of _ _ "sample_candidates 1"]
      resolve_pending.simps [of _ _ "[]"] del: One_nat_def try_candidates.simps)
qed

text \<open>The file of a return again, after a later file has corrected the return.\<close>

definition sample_return :: import_candidate where
  "sample_return = (case sample_items ! 1 of (r, e) \<Rightarrow> \<lparr>k_row = r, k_event = the e\<rparr>)"

lemma sample_return_again:
  "case append_all sample_sha (sample_tenant ''t'') sample_items new_ledger of
     Inl e \<Rightarrow> False
   | Inr (rs, l) \<Rightarrow> (case try_candidates sample_sha (sample_tenant ''t'') [sample_return] l of
        Inl e \<Rightarrow> e = CanonicalLedgerError ''SOURCE_RECORD_CONFLICT''
      | Inr x \<Rightarrow> False)"
  by code_simp

lemma sample_reimport: "import_rows sample_sha (sample_tenant ''t'') [] [sample_return] sample_ledger =
    (ledger_error ''SOURCE_RECORD_CONFLICT'', sample_ledger)"
proof -
  obtain rs where "append_all sample_sha (sample_tenant ''t'') sample_items new_ledger = Inr (rs, sample_ledger)"
    using sample_appended by blast
  with case_pairE [OF sample_return_again]
  have "case try_candidates sample_sha (sample_tenant ''t'') [sample_return] sample_ledger of
      Inl e \<Rightarrow> e = CanonicalLedgerError ''SOURCE_RECORD_CONFLICT'' | Inr x \<Rightarrow> False" by simp
  then have "try_candidates sample_sha (sample_tenant ''t'') [sample_return] sample_ledger = ledger_error ''SOURCE_RECORD_CONFLICT''"
    by (auto simp del: try_candidates.simps split: sum.splits)
  then show ?thesis
    by (simp add: import_rows_def resolve_batch_def fork_def resolve_pending.simps ordered_candidates_def del: try_candidates.simps)
qed

section \<open>Properties\<close>

text \<open>
  C27: a plan always applies. When the rows and candidates of a file have been resolved on a fork,
  appending the plan to the ledger it was made on succeeds, and every result counts.
\<close>

theorem plan_applies:
  assumes "resolve_batch h t immediate candidates l = Inr planned"
  shows "\<exists>results m. append_batch h t planned l = (Inr results, m) \<and> length results = length planned \<and>
    import_rows h t immediate candidates l = (Inr (import_summary (length immediate + length candidates) planned results), m)"
  by (rule plan_stored [OF assms])

theorem plan_applies_witness: "\<exists>results m. import_rows sample_sha (sample_tenant ''t'') sample_immediate (sample_candidates 1) new_ledger = (Inr results, m)"
  using sample_import plan_applies by blast

text \<open>
  No row of a file is lost, invented or stored twice. The plan has exactly one item for each
  row, by identifier and with multiplicity; each item is a row that failed normalisation, stored
  as it is, or a candidate, stored with its event or as a quarantined row without one.
\<close>

theorem plan_complete:
  assumes "resolve_batch h t immediate candidates l = Inr planned"
  shows "mset (map (r_id \<circ> fst) planned) = mset (map r_id immediate) + mset (map (r_id \<circ> k_row) candidates) \<and>
    (\<forall>item \<in> set planned. (\<exists>r \<in> set immediate. item = (r, None)) \<or> (\<exists>c \<in> set candidates. planned_from c item))"
  using plan_ids [OF assms] plan_items [OF assms] by blast

theorem plan_complete_witness: "\<exists>planned. resolve_batch sample_sha (sample_tenant ''t'') sample_immediate (sample_candidates 1) new_ledger = Inr planned \<and>
    mset (map (r_id \<circ> fst) planned) = mset (map r_id sample_immediate) + mset (map (r_id \<circ> k_row) (sample_candidates 1))"
  using sample_import plan_complete by blast

text \<open>
  A failing import leaves no trace and says why. The ledger is unchanged, and either a row
  that failed normalisation was itself refused, or after some items of the plan the candidates
  left all wait for rows that never come, or one of them was refused for good.
\<close>

theorem import_failure:
  assumes "import_rows h t immediate candidates l = (Inl e, m)"
  shows "m = l \<and> (append_all h t (map (\<lambda>r. (r, None)) immediate) l = Inl e \<or>
    (\<exists>rest rs staging plan. rest \<noteq> [] \<and> set rest \<subseteq> set candidates \<and>
       append_all h t plan l = Inr (rs, staging) \<and> import_stops h t rest staging e))"
proof -
  have stops: "resolve_batch h t immediate candidates l = Inl e" and m: "m = l"
  proof -
    have "resolve_batch h t immediate candidates l = Inl e \<and> m = l"
    proof (cases "resolve_batch h t immediate candidates l")
      case (Inl e')
      with assms show ?thesis by (simp add: import_rows_def)
    next
      case (Inr planned)
      with plan_stored [OF Inr] assms show ?thesis by auto
    qed
    then show "resolve_batch h t immediate candidates l = Inl e" and "m = l" by simp_all
  qed
  from stops consider "append_all h t (map (\<lambda>r. (r, None)) immediate) l = Inl e"
    | rs staging where "append_all h t (map (\<lambda>r. (r, None)) immediate) l = Inr (rs, staging)"
        "resolve_pending h t candidates staging (map (\<lambda>r. (r, None)) immediate) = Inl e"
    by (auto simp: resolve_batch_def fork_def Let_def res_simps)
  then show ?thesis
  proof cases
    case 1
    with m show ?thesis by blast
  next
    case 2
    from resolve_pending_fails [OF 2(2,1)] m show ?thesis by blast
  qed
qed

theorem import_failure_witness:
  "\<exists>rest staging. rest \<noteq> [] \<and> set rest \<subseteq> {sample_return} \<and>
     import_stops sample_sha (sample_tenant ''t'') rest staging (CanonicalLedgerError ''SOURCE_RECORD_CONFLICT'')"
  using import_failure [OF sample_reimport] by auto

text \<open>
  The counters of a successful import add up: inserted and duplicate rows are all rows of the
  file, quarantined rows are the inserted and the duplicate ones, and rows are those with an
  event and those in quarantine.
\<close>

theorem import_counts:
  assumes "import_rows h t immediate candidates l = (Inr result, m)"
  shows "n_inserted_rows result + n_duplicate_rows result = n_total result \<and>
    n_inserted_quarantined result + n_duplicate_quarantined result = n_quarantined result \<and>
    length (n_event_ids result) + n_quarantined result = n_total result \<and>
    n_quarantined result \<ge> length immediate"
proof -
  obtain planned where plan: "resolve_batch h t immediate candidates l = Inr planned"
    using assms by (auto simp: import_rows_def split: sum.splits)
  then obtain results m' where r: "length results = length planned"
      "result = import_summary (length immediate + length candidates) planned results"
    using plan_stored [OF plan] assms by auto
  obtain rest where rest: "planned = map (\<lambda>r. (r, None)) immediate @ rest" using plan_immediate [OF plan] by blast
  have len: "length planned = length immediate + length candidates"
    using arg_cong [OF plan_ids [OF plan], of size] by simp
  let ?pairs = "zip planned results"
  have "length (filter (\<lambda>((row, event), res). event = None) ?pairs) = length (filter (\<lambda>(row, event). event = None) planned)"
      (is "?q = _") and "length (filter (\<lambda>((row, event), res). event \<noteq> None) ?pairs) = length (filter (\<lambda>(row, event). event \<noteq> None) planned)"
      (is "?v = _")
    using filter_zip_fst [of planned results "\<lambda>(row, event). event = None"]
      filter_zip_fst [of planned results "\<lambda>(row, event). event \<noteq> None"] r(1) by (simp_all add: case_prod_unfold)
  moreover have "length (filter (\<lambda>(row, event). event = None) planned) + length (filter (\<lambda>(row, event). event \<noteq> None) planned) = length planned"
    using sum_length_filter_compl [of "\<lambda>p. snd p = None" planned] by (simp add: case_prod_unfold)
  moreover have "length immediate \<le> length (filter (\<lambda>(row, event). event = None) planned)" by (simp add: rest filter_map comp_def)
  moreover have "count_if source_inserted results \<le> length planned" using r(1) by (simp add: count_if_def length_filter_le [THEN le_trans])
  moreover have "count_if source_inserted (map snd (filter (\<lambda>((row, event), res). event = None) ?pairs)) \<le>
      length (filter (\<lambda>((row, event), res). event = None) ?pairs)"
    using count_if_map_le by blast
  ultimately show ?thesis using r len by (simp add: import_summary_def Let_def)
qed

theorem import_counts_witness: "\<exists>result m. import_rows sample_sha (sample_tenant ''t'') sample_immediate (sample_candidates 1) new_ledger = (Inr result, m) \<and>
    n_inserted_rows result + n_duplicate_rows result = n_total result"
  using sample_import plan_stored import_counts by metis

end
