(* ===== verification/AccessSoundness.thy ===== *)
theory AccessSoundness imports Access begin

text \<open>
  What the registry of invites and accounts promises: its invariant, that an invite opens one
  account and no more, that an account is never lost or changed, that a refused activation
  changes nothing, and that the loops for fresh codes and identifiers end.
\<close>

section \<open>Feature profiles\<close>

lemma strip_by_last: "strip_by P s \<noteq> [] \<Longrightarrow> \<not> P (last (strip_by P s))"
  using hd_dropWhile [of P "rev (dropWhile P s)"] by (auto simp: strip_by_def last_rev)

lemma strip_by_twice [simp]: "strip_by P (strip_by P s) = strip_by P s"
  using strip_by_hd strip_by_last by (intro strip_by_id) blast

lemma feature_profile_fixed: "feature_profile v = Inr p \<Longrightarrow> feature_profile p = Inr p"
  by (auto simp: feature_profile_def Let_def split: if_splits)

section \<open>The invariant and the order of states\<close>

definition access_inv :: "access \<Rightarrow> bool" where
  "access_inv x \<longleftrightarrow>
     (\<forall>k i. map_of (x_invites x) k = Some i \<longrightarrow> i_code_hash i = k \<and> feature_profile (i_profile i) = Inr (i_profile i)) \<and>
     (\<forall>k a. map_of (x_accounts x) k = Some a \<longrightarrow> a_id a = k \<and> feature_profile (a_profile a) = Inr (a_profile a))"

definition invite_le :: "invite \<Rightarrow> invite \<Rightarrow> bool" where
  "invite_le i j \<longleftrightarrow> i_id j = i_id i \<and> i_code_hash j = i_code_hash i \<and> i_expires j = i_expires i \<and>
     i_profile j = i_profile i \<and> (i_activated i \<noteq> None \<longrightarrow> i_activated j = i_activated i)"

definition access_le :: "access \<Rightarrow> access \<Rightarrow> bool" where
  "access_le x y \<longleftrightarrow>
     (\<forall>k i. map_of (x_invites x) k = Some i \<longrightarrow> (\<exists>j. map_of (x_invites y) k = Some j \<and> invite_le i j)) \<and>
     map_of (x_accounts x) \<subseteq>\<^sub>m map_of (x_accounts y)"

inductive access_step :: "(string \<Rightarrow> string) \<Rightarrow> access \<Rightarrow> access \<Rightarrow> bool" for h where
  issued: "issue_invite h expires_at profile now draws invite_id x = Inr (Some (code, y)) \<Longrightarrow> access_step h x y"
| activated: "activate_invite h code now draws x = (result, y) \<Longrightarrow> access_step h x y"

lemma new_access_inv: "access_inv new_access" by (simp add: access_inv_def new_access_def)

lemma invite_le_refl [simp]: "invite_le i i" by (simp add: invite_le_def)

lemma access_le_refl: "access_le x x" by (simp add: access_le_def)

lemma invite_le_trans: "invite_le i j \<Longrightarrow> invite_le j k \<Longrightarrow> invite_le i k" by (auto simp: invite_le_def)

lemma access_le_trans: "access_le x y \<Longrightarrow> access_le y z \<Longrightarrow> access_le x z"
  unfolding access_le_def by (blast intro: invite_le_trans map_le_trans)

section \<open>The operations\<close>

lemma find_SomeD: "find P xs = Some x \<Longrightarrow> x \<in> set xs \<and> P x"
  by (auto simp: find_Some_iff)

lemma fresh_codeD:
  assumes "fresh_code h draws x = Some code"
  shows "starts_with invite_prefix code" and "map_of (x_invites x) (hash_secret h code) = None"
  using find_SomeD [OF assms [unfolded fresh_code_def]] by (auto simp: starts_with_iff)

lemma fresh_accountD:
  assumes "fresh_account draws x = Some a"
  shows "a \<in> set draws" and "map_of (x_accounts x) a = None"
  using find_SomeD [OF assms [unfolded fresh_account_def]] by auto

lemma issue_inviteE:
  assumes "issue_invite h expires_at profile now draws invite_id x = Inr (Some (code, y))"
  obtains p current expiry where "feature_profile profile = Inr p" and "current < expiry"
    and "starts_with invite_prefix code" and "map_of (x_invites x) (hash_secret h code) = None"
    and "y = x\<lparr>x_invites := AList.update (hash_secret h code)
      \<lparr>i_id = invite_id, i_code_hash = hash_secret h code, i_expires = expiry, i_profile = p, i_activated = None\<rparr> (x_invites x)\<rparr>"
proof -
  from assms obtain current expiry p where p: "feature_profile profile = Inr p"
    and i: "(if expiry \<le> current then access_error ''INVITE_EXPIRY_NOT_FUTURE'' else Inr (case fresh_code h draws x of
        None \<Rightarrow> None
      | Some code \<Rightarrow> Some (code, x\<lparr>x_invites := AList.update (hash_secret h code) \<lparr>i_id = invite_id,
          i_code_hash = hash_secret h code, i_expires = expiry, i_profile = p, i_activated = None\<rparr> (x_invites x)\<rparr>)))
      = Inr (Some (code, y))"
    unfolding issue_invite_def Let_def by (elim rbind_InrE)
  have t: "\<not> expiry \<le> current" using i by (rule contrapos_pn) simp
  obtain c where "fresh_code h draws x = Some c" using i t by (cases "fresh_code h draws x") simp_all
  with i t have c: "fresh_code h draws x = Some code" and y: "y = x\<lparr>x_invites := AList.update (hash_secret h code)
      \<lparr>i_id = invite_id, i_code_hash = hash_secret h code, i_expires = expiry, i_profile = p, i_activated = None\<rparr> (x_invites x)\<rparr>"
    by auto
  from t have "current < expiry" by simp
  from that [OF p this fresh_codeD [OF c] y] show thesis .
qed

lemma activate_invite_cases:
  assumes "activate_invite h code now draws x = (result, y)"
  obtains (refused) e where "result = Inl e" and "y = x"
  | (running) "result = Inr None" and "y = x" and "fresh_account (d_accounts draws) x = None"
  | (opened) current i account_id account where "aware_utc now ''ACTIVATION_TIMEZONE_REQUIRED'' = Inr current"
      and "usable_invite h code current x = Inr i" and "account_id \<in> set (d_accounts draws)"
      and "map_of (x_accounts x) account_id = None"
      and "account = \<lparr>a_id = account_id, a_alias = account_prefix @ upper_text (d_alias draws), a_tenant = d_tenant draws,
        a_profile = i_profile i, a_recovery_hash = hash_secret h (d_recovery draws), a_created = current\<rparr>"
      and "y = x\<lparr>x_accounts := AList.update account_id account (x_accounts x),
        x_invites := AList.update (hash_secret h code) (i\<lparr>i_activated := Some current\<rparr>) (x_invites x)\<rparr>"
      and "result = rbind (make_tenant (d_tenant draws) account_id (i_profile i)) (\<lambda>t.
        Inr (Some \<lparr>z_account = account, z_tenant = t, z_recovery = d_recovery draws\<rparr>))"
proof (cases "rbind (aware_utc now ''ACTIVATION_TIMEZONE_REQUIRED'') (\<lambda>current.
    rbind (usable_invite h code current x) (\<lambda>i. Inr (current, i)))")
  case (Inl e)
  with assms show thesis by (intro refused [of e]) (simp_all add: activate_invite_def)
next
  case (Inr p)
  then obtain current i where p: "p = (current, i)" "aware_utc now ''ACTIVATION_TIMEZONE_REQUIRED'' = Inr current"
      "usable_invite h code current x = Inr i" by (auto simp: res_simps)
  show thesis
  proof (cases "fresh_account (d_accounts draws) x")
    case None
    with assms Inr p(1) show thesis by (intro running) (simp_all add: activate_invite_def)
  next
    case (Some account_id)
    show thesis
      by (rule opened [OF p(2,3) fresh_accountD [OF Some] refl])
        (use assms Inr p(1) Some in \<open>simp_all add: activate_invite_def Let_def\<close>)
  qed
qed

lemma usable_inviteD:
  assumes "usable_invite h code current x = Inr i"
  shows "starts_with invite_prefix code" and "map_of (x_invites x) (hash_secret h code) = Some i"
    and "i_activated i = None" and "current < i_expires i"
  using assms by (auto simp: usable_invite_def split: if_splits option.splits)

lemma access_step_inv: "access_step h x y \<Longrightarrow> access_inv x \<Longrightarrow> access_inv y \<and> access_le x y"
proof (induction rule: access_step.induct)
  case (issued expires_at profile now draws invite_id x code y)
  then show ?case
    by (elim issue_inviteE) (auto simp: access_inv_def access_le_def update_conv' dest: feature_profile_fixed)
next
  case (activated code now draws x result y)
  from activated(1) show ?case
  proof (cases rule: activate_invite_cases)
    case opened
    from usable_inviteD [OF opened(2)] activated(2) opened(4) show ?thesis
      by (auto simp: opened(5,6) access_inv_def access_le_def update_conv' invite_le_def map_le_def)
  qed (use activated(2) access_le_refl in auto)
qed

interpretation registry: monotone_system "access_step h" access_inv access_le for h
  by unfold_locales (auto dest: access_step_inv intro: access_le_refl access_le_trans)

lemma access_reachable_inv: "(access_step h)\<^sup>*\<^sup>* new_access x \<Longrightarrow> access_inv x"
  by (rule registry.steps_inv [OF _ new_access_inv])

lemma activated_later:
  assumes "(access_step h)\<^sup>*\<^sup>* new_access x" and "activate_invite h code now draws x = (Inr (Some z), y)" and "(access_step h)\<^sup>*\<^sup>* y w"
  shows "access_inv w \<and> access_le y w"
proof -
  have "access_inv y" using access_step_inv access_step.activated [OF assms(2)] access_reachable_inv [OF assms(1)] by blast
  with registry.steps_inv [OF assms(3)] registry.steps_before [OF assms(3)] show ?thesis by blast
qed

section \<open>Fresh draws\<close>

lemma find_fresh:
  assumes "card (f ` set draws) > length m"
  shows "find (\<lambda>d. map_of m (f d) = None) draws \<noteq> None"
proof
  assume "find (\<lambda>d. map_of m (f d) = None) draws = None"
  then have "f ` set draws \<subseteq> fst ` set m" by (force simp: find_None_iff map_of_eq_None_iff)
  then have "card (f ` set draws) \<le> card (fst ` set m)" by (intro card_mono) auto
  also have "\<dots> \<le> length m" by (metis card_length length_map set_map)
  finally show False using assms by simp
qed

section \<open>Properties\<close>

text \<open>An invite is issued and activated; the sample values of the witnesses.\<close>

definition sample_time :: "nat \<Rightarrow> clock" where
  "sample_time year = Aware \<lparr>dt_year = year, dt_month = 1, dt_day = 1, dt_hour = 0, dt_minute = 0, dt_second = 0,
     dt_micro = 0, dt_offset = 0\<rparr>"

definition sample_draws :: activation_draws where
  "sample_draws = \<lparr>d_accounts = [''a1''], d_tenant = ''t1'', d_alias = ''0f'', d_recovery = ''key''\<rparr>"

definition sample_registry :: access where
  "sample_registry = (case issue_invite id (sample_time 2027) ''PILOT_TESTER'' (sample_time 2026) [''x''] ''i1'' new_access of
     Inr (Some (code, x)) \<Rightarrow> x | _ \<Rightarrow> new_access)"

lemma sample_issue: "issue_invite id (sample_time 2027) ''PILOT_TESTER'' (sample_time 2026) [''x''] ''i1'' new_access =
    Inr (Some (''QINV-x'', sample_registry))"
proof -
  have "case issue_invite id (sample_time 2027) ''PILOT_TESTER'' (sample_time 2026) [''x''] ''i1'' new_access of
    Inr (Some (code, x)) \<Rightarrow> code = ''QINV-x'' | _ \<Rightarrow> False" by code_simp
  then show ?thesis by (auto simp: sample_registry_def split: sum.splits option.splits)
qed

lemma sample_registry_reachable: "(access_step id)\<^sup>*\<^sup>* new_access sample_registry"
  by (rule r_into_rtranclp) (rule access_step.issued [OF sample_issue])

lemma sample_activation: "\<exists>z y. activate_invite id ''QINV-x'' (sample_time 2026) sample_draws sample_registry = (Inr (Some z), y) \<and>
    a_id (z_account z) = ''a1'' \<and> z_recovery z = ''key''"
proof -
  have "case activate_invite id ''QINV-x'' (sample_time 2026) sample_draws sample_registry of
    (Inr (Some z), y) \<Rightarrow> a_id (z_account z) = ''a1'' \<and> z_recovery z = ''key'' | _ \<Rightarrow> False" by code_simp
  then show ?thesis by (auto split: sum.splits option.splits prod.splits)
qed

text \<open>
  C28: an invite opens one account. After a successful activation, and whatever invites are issued
  or activated afterwards, every further activation of the same code is refused as already used
  and changes nothing.
\<close>

theorem invite_single_use:
  assumes "(access_step h)\<^sup>*\<^sup>* new_access x" and "activate_invite h code now draws x = (Inr (Some z), y)"
    and "(access_step h)\<^sup>*\<^sup>* y w"
  shows "activate_invite h code (Aware t) draws' w = (access_error ''INVITE_ALREADY_USED'', w)"
proof -
  from assms(2) show ?thesis
  proof (cases rule: activate_invite_cases)
    case (opened current i account_id account)
    have "access_le y w" using activated_later [OF assms] ..
    then obtain j where "map_of (x_invites w) (hash_secret h code) = Some j" "i_activated j \<noteq> None"
      unfolding access_le_def opened(6) by (auto simp: update_conv' invite_le_def dest!: spec [of _ "hash_secret h code"])
    with usable_inviteD(1) [OF opened(2)] show ?thesis
      by (auto simp: activate_invite_def aware_utc_def usable_invite_def)
  qed auto
qed

theorem invite_single_use_witness:
  "\<exists>y. activate_invite id ''QINV-x'' (sample_time 2026) sample_draws y = (access_error ''INVITE_ALREADY_USED'', y)"
  using sample_activation invite_single_use [OF sample_registry_reachable _ rtranclp.rtrancl_refl]
  unfolding sample_time_def by blast

text \<open>
  C29: what an activation hands out keeps working. Later, and whatever happens in between, the
  account is found unchanged, its recovery key is accepted, and its tenant context is accepted for
  exactly its tenant; its feature profile is that of the invite.
\<close>

theorem activated_account_kept:
  assumes "(access_step h)\<^sup>*\<^sup>* new_access x" and "activate_invite h code now draws x = (Inr (Some z), y)"
    and "(access_step h)\<^sup>*\<^sup>* y w" and "a_id (z_account z) \<noteq> []" and "z_recovery z \<noteq> []"
  shows "get_account (a_id (z_account z)) w = Inr (z_account z) \<and>
    verify_recovery_key h (a_id (z_account z)) (z_recovery z) w \<and>
    (require_tenant (z_tenant z) u = Inr () \<longleftrightarrow> u = a_tenant (z_account z)) \<and>
    (\<exists>i. map_of (x_invites x) (hash_secret h code) = Some i \<and> tenant_profile (z_tenant z) = i_profile i)"
proof -
  from assms(2) show ?thesis
  proof (cases rule: activate_invite_cases)
    case (opened current i account_id account)
    obtain t where t: "make_tenant (d_tenant draws) account_id (i_profile i) = Inr t"
        and z: "z = \<lparr>z_account = account, z_tenant = t, z_recovery = d_recovery draws\<rparr>"
      by (rule rbind_InrE [OF opened(7) [symmetric]]) simp
    have "access_le y w" using activated_later [OF assms(1-3)] ..
    then have "map_of (x_accounts w) account_id = Some account"
      by (auto simp: access_le_def opened(6) update_conv' map_le_def dom_def)
    moreover have "tenant_id t = d_tenant draws" "tenant_profile t = i_profile i" "d_tenant draws \<noteq> []"
      using t by (auto simp: make_tenant_def res_simps split: if_splits)
    ultimately show ?thesis using assms(4,5) usable_inviteD(2) [OF opened(2)]
      by (auto simp: z opened(5) get_account_def verify_recovery_key_def require_tenant_def)
  qed auto
qed

theorem activated_account_kept_witness: "\<exists>(z :: activation) w. get_account ''a1'' w = Inr (z_account z) \<and> verify_recovery_key id ''a1'' ''key'' w"
proof -
  obtain z y where z: "activate_invite id ''QINV-x'' (sample_time 2026) sample_draws sample_registry = (Inr (Some z), y)"
      "a_id (z_account z) = ''a1''" "z_recovery z = ''key''" using sample_activation by blast
  from activated_account_kept [OF sample_registry_reachable z(1) rtranclp.rtrancl_refl, of undefined]
  have "get_account ''a1'' y = Inr (z_account z) \<and> verify_recovery_key id ''a1'' ''key'' y" by (simp add: z(2,3))
  then show ?thesis by blast
qed

text \<open>
  An activation that fails changes nothing: although the tenant context is built after the two
  dicts have changed, building it cannot fail for a registry in use and drawn identifiers.
\<close>

theorem failed_activation_changes_nothing:
  assumes "(access_step h)\<^sup>*\<^sup>* new_access x" and "activate_invite h code now draws x = (Inl e, y)"
    and "d_tenant draws \<noteq> []" and "[] \<notin> set (d_accounts draws)"
  shows "y = x"
  using assms(2)
proof (cases rule: activate_invite_cases)
  case (opened current i account_id account)
  have "feature_profile (i_profile i) = Inr (i_profile i)"
    using access_reachable_inv [OF assms(1)] usable_inviteD(2) [OF opened(2)] by (auto simp: access_inv_def)
  moreover have "account_id \<noteq> []" using opened(3) assms(4) by blast
  ultimately show ?thesis using opened(7) assms(3) by (simp add: make_tenant_def)
qed auto

theorem failed_activation_changes_nothing_witness:
  "snd (activate_invite id ''QINV-y'' (sample_time 2026) sample_draws sample_registry) = sample_registry"
proof -
  have "case fst (activate_invite id ''QINV-y'' (sample_time 2026) sample_draws sample_registry) of Inl e \<Rightarrow> True | _ \<Rightarrow> False"
    by code_simp
  then obtain e y where "activate_invite id ''QINV-y'' (sample_time 2026) sample_draws sample_registry = (Inl e, y)"
    by (cases "activate_invite id ''QINV-y'' (sample_time 2026) sample_draws sample_registry") (auto split: sum.splits)
  from failed_activation_changes_nothing [OF sample_registry_reachable this] this show ?thesis
    by (simp add: sample_draws_def)
qed

text \<open>
  the loops end. With more different draws than there are accounts, or codes with more
  different hashes than there are invites, a fresh one is found: an activation or an issue never
  runs on.
\<close>

theorem fresh_draws_found:
  "(length (x_accounts x) < card (set (d_accounts draws)) \<longrightarrow> fst (activate_invite h code now draws x) \<noteq> Inr None) \<and>
   (length (x_invites x) < card ((\<lambda>d. hash_secret h (invite_prefix @ d)) ` set codes) \<longrightarrow>
      issue_invite h expires_at profile now codes invite_id x \<noteq> Inr None)"
proof (intro conjI impI)
  assume "length (x_accounts x) < card (set (d_accounts draws))"
  then have "fresh_account (d_accounts draws) x \<noteq> None"
    using find_fresh [of "x_accounts x" "\<lambda>a. a"] by (simp add: fresh_account_def)
  then show "fst (activate_invite h code now draws x) \<noteq> Inr None"
    by (auto simp: activate_invite_def Let_def res_simps split: sum.splits option.splits)
next
  assume "length (x_invites x) < card ((\<lambda>d. hash_secret h (invite_prefix @ d)) ` set codes)"
  then have "fresh_code h codes x \<noteq> None"
    using find_fresh [of "x_invites x" "hash_secret h" "map ((@) invite_prefix) codes"]
    by (simp add: fresh_code_def image_image)
  then show "issue_invite h expires_at profile now codes invite_id x \<noteq> Inr None"
    by (auto simp: issue_invite_def res_simps Let_def split: option.splits if_splits)
qed

theorem fresh_draws_found_witness:
  "fst (activate_invite id ''QINV-x'' (sample_time 2026) sample_draws sample_registry) \<noteq> Inr None"
  using fresh_draws_found sample_activation by auto

end
