(* ===== verification/XlsxContracts.thy ===== *)
theory XlsxContracts imports PyJson PyParse Common begin

text \<open>
  \<open>ingestion/_xlsx_contracts_v2.py\<close>: the limits, schemas and policies that an inspection of a
  workbook is made under, and its result. On text of code points up to 255 the NFC form is the
  text itself; NFKC and \<open>casefold\<close> act character by character on what a token keeps.
\<close>

abbreviation xlsx_error :: "string \<Rightarrow> 'a res" where
  "xlsx_error code \<equiv> Inl (XlsxInspectionError code)"

definition safe_text :: "string \<Rightarrow> string \<Rightarrow> unit res" where
  "safe_text v code =
     (let normalized = py_strip v in
      if normalized = [] \<or> length normalized > 160 then xlsx_error code else Inr ())"

definition xlsx_positive_int :: "int \<Rightarrow> string \<Rightarrow> unit res" where
  "xlsx_positive_int v code = (if v < 1 then xlsx_error code else Inr ())"

definition xlsx_canonical_hash :: "(string \<Rightarrow> string) \<Rightarrow> json \<Rightarrow> string res" where
  "xlsx_canonical_hash h v = (if json_ok v then Inr (h (json_text v)) else Inl (ValueError ''JSON''))"

section \<open>Headers and tokens\<close>

text \<open>\<open>text.split()\<close>: the runs of characters that are not white space.\<close>

function words_of :: "string \<Rightarrow> string list" where
  "words_of s =
     (case dropWhile is_space s of [] \<Rightarrow> []
      | c # cs \<Rightarrow> (c # takeWhile (\<lambda>x. \<not> is_space x) cs) # words_of (dropWhile (\<lambda>x. \<not> is_space x) cs))"
  by pat_completeness auto
termination
proof (relation "measure length", goal_cases)
  case (2 s c cs)
  have "length (dropWhile (\<lambda>x. \<not> is_space x) cs) \<le> length cs" by (rule length_dropWhile_le)
  moreover have "length (c # cs) \<le> length s" using length_dropWhile_le [of is_space s] 2 by simp
  ultimately show ?case by simp
qed simp

declare words_of.simps [simp del]

definition normalized_header :: "string \<Rightarrow> string" where
  "normalized_header v = join '' '' (words_of (py_strip v))"

definition normalized_header_sha256 :: "(string \<Rightarrow> string) \<Rightarrow> string list \<Rightarrow> string res" where
  "normalized_header_sha256 h headers =
     (if headers = [] then xlsx_error ''XLSX_HEADERS_INVALID''
      else if list_ex (\<lambda>v. normalized_header v = []) headers then xlsx_error ''XLSX_HEADERS_INVALID''
      else xlsx_canonical_hash h (JList (map (JStr \<circ> normalized_header) headers)))"

text \<open>
  What NFKC, \<open>casefold\<close> and \<open>isalnum\<close> leave of a character. The micro sign becomes a Greek
  letter, which no other character here becomes; it stands for it.
\<close>

definition token_chars :: "char \<Rightarrow> string" where
  "token_chars c =
     (let n = ch c in
      if 48 \<le> n \<and> n \<le> 57 \<or> 97 \<le> n \<and> n \<le> 122 \<or> 224 \<le> n \<and> n \<noteq> 247 \<or> n = 181 then [c]
      else if 65 \<le> n \<and> n \<le> 90 \<or> 192 \<le> n \<and> n \<le> 222 \<and> n \<noteq> 215 then [char_of (n + 32)]
      else if n = 223 then ''ss''
      else if n = 170 then ''a'' else if n = 186 then ''o''
      else if n = 178 then ''2'' else if n = 179 then ''3'' else if n = 185 then ''1''
      else if n = 188 then ''14'' else if n = 189 then ''12'' else if n = 190 then ''34''
      else [])"

definition normalized_sensitive_token :: "string \<Rightarrow> string" where
  "normalized_sensitive_token v = List.maps token_chars v"

section \<open>Limits\<close>

record xlsx_limits =
  max_file_bytes :: int
  max_archive_entries :: int
  max_total_uncompressed_bytes :: int
  max_entry_uncompressed_bytes :: int
  max_compression_ratio :: int
  max_xml_bytes :: int
  max_rows :: int
  max_columns :: int

definition limit_fields :: "xlsx_limits \<Rightarrow> (string \<times> int) list" where
  "limit_fields l =
     [(''max_file_bytes'', max_file_bytes l), (''max_archive_entries'', max_archive_entries l),
      (''max_total_uncompressed_bytes'', max_total_uncompressed_bytes l),
      (''max_entry_uncompressed_bytes'', max_entry_uncompressed_bytes l),
      (''max_compression_ratio'', max_compression_ratio l), (''max_xml_bytes'', max_xml_bytes l),
      (''max_rows'', max_rows l), (''max_columns'', max_columns l)]"

definition make_limits :: "xlsx_limits \<Rightarrow> xlsx_limits res" where
  "make_limits l =
     (case find (\<lambda>(name, v). v < 1) (limit_fields l) of
        Some (name, v) \<Rightarrow> xlsx_error (''XLSX_LIMIT_INVALID:'' @ name)
      | None \<Rightarrow>
          if max_entry_uncompressed_bytes l > max_total_uncompressed_bytes l
          then xlsx_error ''XLSX_LIMIT_RELATION_INVALID'' else Inr l)"

section \<open>Schemas\<close>

record xlsx_schema =
  s_id :: string
  s_version :: string
  s_authority :: string
  s_identifiers :: bool
  s_kind :: string
  s_sheet :: string
  s_sheet_count :: int
  s_header_row :: int
  s_header_sha :: string
  s_columns :: int
  s_min_rows :: int
  s_max_rows :: int
  s_max_formulas :: int

definition make_schema :: "xlsx_schema \<Rightarrow> xlsx_schema res" where
  "make_schema s =
     rbind (safe_text (s_id s) ''XLSX_SCHEMA_ID_INVALID'') (\<lambda>_.
     rbind (safe_text (s_version s) ''XLSX_SCHEMA_VERSION_INVALID'') (\<lambda>_.
     rbind (safe_text (s_authority s) ''XLSX_SCHEMA_AUTHORITY_REFERENCE_INVALID'') (\<lambda>_.
       if s_identifiers s then xlsx_error ''XLSX_PERSONAL_DATA_SCHEMA_NOT_APPROVED''
       else if \<not> List.member [''XLSX'', ''ZIP_XLSX''] (s_kind s) then xlsx_error ''XLSX_PACKAGE_KIND_INVALID''
       else rbind (safe_text (s_sheet s) ''XLSX_SHEET_NAME_INVALID'') (\<lambda>_.
       rbind (xlsx_positive_int (s_sheet_count s) ''XLSX_SHEET_COUNT_INVALID'') (\<lambda>_.
       rbind (xlsx_positive_int (s_header_row s) ''XLSX_HEADER_ROW_INVALID'') (\<lambda>_.
         if \<not> hash_re (s_header_sha s) then xlsx_error ''XLSX_HEADER_HASH_INVALID''
         else rbind (xlsx_positive_int (s_columns s) ''XLSX_COLUMN_COUNT_INVALID'') (\<lambda>_.
           if s_min_rows s < 0 \<or> s_max_rows s < s_min_rows s then xlsx_error ''XLSX_ROW_RANGE_INVALID''
           else if s_max_formulas s < 0 then xlsx_error ''XLSX_FORMULA_LIMIT_INVALID''
           else Inr s)))))))"

definition match_profile ::
  "xlsx_schema \<Rightarrow> string \<times> string \<times> int \<times> int \<times> string \<times> int \<times> int \<times> int \<times> int" where
  "match_profile s = (s_kind s, s_sheet s, s_sheet_count s, s_header_row s, s_header_sha s, s_columns s,
     s_min_rows s, s_max_rows s, s_max_formulas s)"

section \<open>Policies\<close>

record xlsx_policy =
  p_id :: string
  p_version :: int
  p_limits :: xlsx_limits
  p_schemas :: "xlsx_schema list"
  p_tokens :: "string list"

definition check_schema_limits :: "xlsx_limits \<Rightarrow> xlsx_schema \<Rightarrow> unit res" where
  "check_schema_limits l s =
     (if s_columns s > max_columns l then xlsx_error ''XLSX_SCHEMA_EXCEEDS_COLUMN_LIMIT''
      else if s_header_row s > max_rows l then xlsx_error ''XLSX_SCHEMA_EXCEEDS_ROW_LIMIT''
      else if s_max_rows s > max_rows l then xlsx_error ''XLSX_SCHEMA_EXCEEDS_ROW_LIMIT''
      else Inr ())"

text \<open>The dict of header rows: the first schema of a package kind and sheet fixes the row.\<close>

definition note_header_row ::
  "xlsx_schema \<Rightarrow> ((string \<times> string) \<times> int) list \<Rightarrow> ((string \<times> string) \<times> int) list res" where
  "note_header_row s rows =
     (case map_of rows (s_kind s, s_sheet s) of
        None \<Rightarrow> Inr (AList.update (s_kind s, s_sheet s) (s_header_row s) rows)
      | Some prior \<Rightarrow>
          if prior \<noteq> s_header_row s then xlsx_error ''XLSX_SCHEMA_HEADER_ROW_AMBIGUOUS'' else Inr rows)"

definition check_token :: "string \<Rightarrow> unit res" where
  "check_token token =
     rbind (safe_text token ''XLSX_PROHIBITED_TOKEN_INVALID'') (\<lambda>_.
       if normalized_sensitive_token (py_strip token) = [] then xlsx_error ''XLSX_PROHIBITED_TOKEN_INVALID'' else Inr ())"

definition make_policy :: "xlsx_policy \<Rightarrow> xlsx_policy res" where
  "make_policy p =
     rbind (safe_text (p_id p) ''XLSX_POLICY_ID_INVALID'') (\<lambda>_.
     rbind (xlsx_positive_int (p_version p) ''XLSX_POLICY_VERSION_INVALID'') (\<lambda>_.
       if p_schemas p = [] then xlsx_error ''XLSX_SCHEMAS_REQUIRED''
       else rbind (rfold (\<lambda>s _. check_schema_limits (p_limits p) s) (p_schemas p) ()) (\<lambda>_.
       rbind (rfold note_header_row (p_schemas p) []) (\<lambda>_.
         if \<not> distinct (map (\<lambda>s. (s_id s, s_version s)) (p_schemas p)) then xlsx_error ''XLSX_SCHEMA_DUPLICATE''
         else if \<not> distinct (map match_profile (p_schemas p)) then xlsx_error ''XLSX_SCHEMA_PROFILE_AMBIGUOUS''
         else rbind (rfold (\<lambda>t _. check_token t) (p_tokens p) ()) (\<lambda>_.
           if \<not> distinct (map (normalized_sensitive_token \<circ> py_strip) (p_tokens p))
           then xlsx_error ''XLSX_PROHIBITED_TOKEN_DUPLICATE'' else Inr p)))))"

definition limits_document :: "xlsx_limits \<Rightarrow> json" where
  "limits_document l = JObj (map (\<lambda>(k, v). (k, JInt v)) (limit_fields l))"

definition schema_document :: "xlsx_schema \<Rightarrow> json" where
  "schema_document s = JObj
     [(''schema_id'', JStr (s_id s)), (''schema_version'', JStr (s_version s)),
      (''schema_authority_reference'', JStr (s_authority s)),
      (''direct_identifiers_expected'', JBool (s_identifiers s)), (''package_kind'', JStr (s_kind s)),
      (''sheet_name'', JStr (s_sheet s)), (''sheet_count'', JInt (s_sheet_count s)),
      (''header_row_index'', JInt (s_header_row s)), (''header_sha256'', JStr (s_header_sha s)),
      (''column_count'', JInt (s_columns s)), (''min_data_rows'', JInt (s_min_rows s)),
      (''max_data_rows'', JInt (s_max_rows s)), (''max_formula_count'', JInt (s_max_formulas s))]"

definition policy_content_hash :: "(string \<Rightarrow> string) \<Rightarrow> xlsx_policy \<Rightarrow> string res" where
  "policy_content_hash h p = xlsx_canonical_hash h (JObj
     [(''policy_id'', JStr (p_id p)), (''version'', JInt (p_version p)), (''limits'', limits_document (p_limits p)),
      (''schemas'', JList (map schema_document (p_schemas p))),
      (''prohibited_header_tokens'', JList (map JStr (p_tokens p)))])"

section \<open>Inspections\<close>

record inspection =
  n_kind :: string
  n_original_sha :: string
  n_original_size :: int
  n_workbook_sha :: string
  n_workbook_size :: int
  n_sheet :: string
  n_sheet_count :: int
  n_header_row :: int
  n_header_sha :: string
  n_columns :: int
  n_rows :: int
  n_formulas :: int
  n_prohibited :: int
  n_fingerprint :: string
  n_schema :: "string option"
  n_schema_version :: "string option"
  n_schema_authority :: "string option"
  n_diagnostics :: "string list"

definition inspection_matched :: "inspection \<Rightarrow> bool" where
  "inspection_matched i \<longleftrightarrow> n_schema i \<noteq> None \<and> n_diagnostics i = []"

end
