(* ===== verification/Admission.thy ===== *)
theory Admission imports XlsxContracts Access begin

text \<open>
  The admission of datasets: \<open>ingestion/_admission_contracts_v2.py\<close> (declarations, evidence and
  records, with the reference contract of \<open>_admission_reference_contract.py\<close>),
  \<open>_admission_registry_base_v2.py\<close>, \<open>_admission_validation_v2.py\<close>, \<open>_admission_access_v2.py\<close>,
  \<open>_admission_evidence_checks_v2.py\<close>, \<open>_admission_finalize_v2.py\<close> and \<open>admission_v2.py\<close>. A registry
  moves each dataset through its states and owns the digests and evidence identifiers it has seen.

  A date is its ordinal. The inspector, which the registry is given when it is made, is the
  parameter \<open>inspect\<close>; \<open>sha\<close> is SHA-256 of bytes and \<open>h\<close> of text; \<open>tz\<close> looks a name up in the
  time zone database. Decisions keep the UTC instant of their time. The lock is not modelled.
\<close>

abbreviation admission_error :: "string \<Rightarrow> 'a res" where
  "admission_error code \<equiv> Inl (AdmissionError code)"

section \<open>Checks\<close>

text \<open>A name in the time zone database, an unknown one, or one that \<open>ZoneInfo\<close> refuses to look up.\<close>

datatype zone = ZoneFound | ZoneMissing | ZoneRefused

definition safe_identifier_re :: "string \<Rightarrow> bool" where
  "safe_identifier_re s \<longleftrightarrow> (case s of [] \<Rightarrow> False
     | c # cs \<Rightarrow> is_alnum c \<and> length cs \<le> 159 \<and> list_all (\<lambda>x. is_alnum x \<or> is_id_punct x) cs)"

definition safe_identifier :: "string \<Rightarrow> string \<Rightarrow> unit res" where
  "safe_identifier v code = (if safe_identifier_re v then Inr () else admission_error code)"

definition utc_instant :: "clock \<Rightarrow> string \<Rightarrow> int res" where
  "utc_instant v code = (case v of Aware t \<Rightarrow> Inr (instant t) | Naive t \<Rightarrow> admission_error code)"

definition check_zone :: "(string \<Rightarrow> zone) \<Rightarrow> string \<Rightarrow> string \<Rightarrow> unit res" where
  "check_zone tz v code =
     (if v = [] then admission_error code
      else (case tz v of ZoneFound \<Rightarrow> Inr () | ZoneMissing \<Rightarrow> admission_error code
        | ZoneRefused \<Rightarrow> Inl (ValueError ''ZoneInfo'')))"

definition dataset_uuid :: "string \<Rightarrow> string \<Rightarrow> string res" where
  "dataset_uuid v code = (case uuid_int v of Some n \<Rightarrow> Inr (uuid_text n) | None \<Rightarrow> admission_error code)"

definition check_sha :: "string \<Rightarrow> string \<Rightarrow> unit res" where
  "check_sha v code = (if hash_re v then Inr () else admission_error code)"

definition require_that :: "bool \<Rightarrow> string \<Rightarrow> unit res" where
  "require_that b code = (if b then Inr () else admission_error code)"

text \<open>Checks in order; the first that fails is raised.\<close>

primrec all_checks :: "unit res list \<Rightarrow> unit res" where
  "all_checks [] = Inr ()"
| "all_checks (c # cs) = rbind c (\<lambda>_. all_checks cs)"

section \<open>Declarations\<close>

datatype sensitivity = CommercialConfidential | CommercialWithPersonalData | PublicData

record dataset_declaration =
  dc_id :: string
  dc_tenant :: string
  dc_uploader :: string
  dc_source :: string
  dc_marketplace :: string
  dc_report :: string
  dc_start :: int
  dc_end :: int
  dc_zone :: string
  dc_sha :: string
  dc_size :: int
  dc_rows :: "int option"
  dc_totals :: "string option"
  dc_categories :: "string list"
  dc_sensitivity :: sensitivity
  dc_authority :: string
  dc_attested :: bool
  dc_retention :: clock
  dc_declared :: clock

definition make_declaration :: "(string \<Rightarrow> zone) \<Rightarrow> dataset_declaration \<Rightarrow> dataset_declaration res" where
  "make_declaration tz d =
     rbind (all_checks
       [rbind (dataset_uuid (dc_id d) ''DATASET_ID_INVALID'') (\<lambda>_. Inr ()),
        safe_identifier (dc_tenant d) ''DATASET_TENANT_INVALID'',
        safe_identifier (dc_uploader d) ''DATASET_UPLOADER_INVALID'',
        safe_identifier (dc_source d) ''DATASET_SOURCE_ID_INVALID'',
        safe_identifier (dc_marketplace d) ''DATASET_MARKETPLACE_INVALID'',
        safe_identifier (dc_report d) ''DATASET_REPORT_TYPE_INVALID'',
        require_that (dc_start d \<le> dc_end d) ''DATASET_REPORTING_PERIOD_INVALID'',
        check_zone tz (dc_zone d) ''DATASET_TIMEZONE_INVALID'',
        check_sha (dc_sha d) ''DATASET_FILE_HASH_INVALID'',
        require_that (1 \<le> dc_size d) ''DATASET_FILE_SIZE_INVALID'',
        require_that (case dc_rows d of None \<Rightarrow> True | Some n \<Rightarrow> 0 \<le> n) ''DATASET_EXPECTED_ROWS_INVALID'',
        (case dc_totals d of None \<Rightarrow> Inr () | Some v \<Rightarrow> check_sha v ''DATASET_CONTROL_TOTALS_HASH_INVALID''),
        require_that (dc_categories d \<noteq> []) ''DATASET_CATEGORIES_REQUIRED'',
        all_checks (map (\<lambda>c. safe_identifier c ''DATASET_CATEGORY_INVALID'') (dc_categories d)),
        require_that (distinct (dc_categories d)) ''DATASET_CATEGORY_DUPLICATE'',
        require_that (dc_sensitivity d \<noteq> CommercialWithPersonalData) ''DATASET_PERSONAL_DATA_NOT_APPROVED'',
        safe_identifier (dc_authority d) ''DATASET_AUTHORITY_REFERENCE_INVALID'',
        require_that (dc_attested d) ''DATASET_AUTHORITY_ATTESTATION_REQUIRED''])
     (\<lambda>_. rbind (utc_instant (dc_retention d) ''DATASET_RETENTION_TIMEZONE_REQUIRED'') (\<lambda>retention.
          rbind (utc_instant (dc_declared d) ''DATASET_DECLARED_TIMEZONE_REQUIRED'') (\<lambda>declared.
            if retention \<le> declared then admission_error ''DATASET_RETENTION_DEADLINE_INVALID'' else Inr d)))"

text \<open>\<open>==\<close> of the dataclass.\<close>

definition declaration_eq :: "dataset_declaration \<Rightarrow> dataset_declaration \<Rightarrow> bool" where
  "declaration_eq a b \<longleftrightarrow>
     clock_eq (dc_retention a) (dc_retention b) \<and> clock_eq (dc_declared a) (dc_declared b) \<and>
     a\<lparr>dc_retention := dc_retention b, dc_declared := dc_declared b\<rparr> = b"

section \<open>Evidence\<close>

record storage_evidence =
  se_id :: string
  se_tenant :: string
  se_dataset :: string
  se_sha :: string
  se_key_sha :: string
  se_transport :: bool
  se_at_rest :: bool
  se_scoped :: bool
  se_immutable :: bool
  se_zones :: bool
  se_privilege :: bool
  se_verified :: clock
  se_verifier :: string

definition make_storage_evidence :: "storage_evidence \<Rightarrow> storage_evidence res" where
  "make_storage_evidence e =
     rbind (all_checks
       [safe_identifier (se_id e) ''STORAGE_EVIDENCE_ID_INVALID'',
        safe_identifier (se_tenant e) ''STORAGE_EVIDENCE_TENANT_INVALID'',
        rbind (dataset_uuid (se_dataset e) ''STORAGE_EVIDENCE_DATASET_INVALID'') (\<lambda>_. Inr ()),
        check_sha (se_sha e) ''STORAGE_EVIDENCE_FILE_HASH_INVALID'',
        check_sha (se_key_sha e) ''STORAGE_EVIDENCE_KEY_HASH_INVALID'',
        safe_identifier (se_verifier e) ''STORAGE_EVIDENCE_VERIFIER_INVALID'',
        rbind (utc_instant (se_verified e) ''STORAGE_EVIDENCE_TIMEZONE_REQUIRED'') (\<lambda>_. Inr ())])
     (\<lambda>_. Inr e)"

definition storage_complete :: "storage_evidence \<Rightarrow> bool" where
  "storage_complete e \<longleftrightarrow>
     se_transport e \<and> se_at_rest e \<and> se_scoped e \<and> se_immutable e \<and> se_zones e \<and> se_privilege e"

record control_evidence =
  ce_id :: string
  ce_tenant :: string
  ce_dataset :: string
  ce_sha :: string
  ce_authority :: string
  ce_start :: int
  ce_end :: int
  ce_zone :: string
  ce_totals :: "string option"
  ce_policy_hash :: string
  ce_workbook_sha :: string
  ce_fingerprint :: string
  ce_schema :: string
  ce_schema_version :: string
  ce_schema_authority :: string
  ce_source_verified :: bool
  ce_period_verified :: bool
  ce_totals_verified :: bool
  ce_identifiers_absent :: bool
  ce_malware_clean :: bool
  ce_malware_sha :: string
  ce_verified :: clock
  ce_verifier :: string

text \<open>
  \<open>__post_init__\<close> as \<open>admission.py\<close> installs it: the three schema references are checked last, as
  text that need not be an identifier.
\<close>

definition safe_reference :: "string \<Rightarrow> string \<Rightarrow> unit res" where
  "safe_reference v code =
     (let normalized = py_strip v in
      if normalized = [] \<or> length normalized > 160 then admission_error code else Inr ())"

definition make_control_evidence :: "(string \<Rightarrow> zone) \<Rightarrow> control_evidence \<Rightarrow> control_evidence res" where
  "make_control_evidence tz e =
     rbind (all_checks
       [safe_identifier (ce_id e) ''DATASET_EVIDENCE_ID_INVALID'',
        safe_identifier (ce_tenant e) ''DATASET_EVIDENCE_TENANT_INVALID'',
        rbind (dataset_uuid (ce_dataset e) ''DATASET_EVIDENCE_DATASET_INVALID'') (\<lambda>_. Inr ()),
        check_sha (ce_sha e) ''DATASET_EVIDENCE_FILE_HASH_INVALID'',
        safe_identifier (ce_authority e) ''DATASET_EVIDENCE_AUTHORITY_REFERENCE_INVALID'',
        require_that (ce_start e \<le> ce_end e) ''DATASET_EVIDENCE_REPORTING_PERIOD_INVALID'',
        check_zone tz (ce_zone e) ''DATASET_EVIDENCE_TIMEZONE_INVALID'',
        (case ce_totals e of None \<Rightarrow> Inr () | Some v \<Rightarrow> check_sha v ''DATASET_EVIDENCE_CONTROL_TOTALS_HASH_INVALID''),
        check_sha (ce_policy_hash e) ''DATASET_EVIDENCE_POLICY_HASH_INVALID'',
        check_sha (ce_workbook_sha e) ''DATASET_EVIDENCE_WORKBOOK_HASH_INVALID'',
        check_sha (ce_fingerprint e) ''DATASET_EVIDENCE_FINGERPRINT_HASH_INVALID'',
        check_sha (ce_malware_sha e) ''DATASET_EVIDENCE_MALWARE_HASH_INVALID'',
        safe_identifier (ce_verifier e) ''DATASET_EVIDENCE_VERIFIER_INVALID'',
        rbind (utc_instant (ce_verified e) ''DATASET_EVIDENCE_TIMEZONE_REQUIRED'') (\<lambda>_. Inr ()),
        safe_reference (ce_schema e) ''DATASET_EVIDENCE_SCHEMA_ID_INVALID'',
        safe_reference (ce_schema_version e) ''DATASET_EVIDENCE_SCHEMA_VERSION_INVALID'',
        safe_reference (ce_schema_authority e) ''DATASET_EVIDENCE_SCHEMA_AUTHORITY_INVALID''])
     (\<lambda>_. Inr e)"

definition control_complete :: "control_evidence \<Rightarrow> bool" where
  "control_complete e \<longleftrightarrow>
     ce_source_verified e \<and> ce_period_verified e \<and> ce_totals_verified e \<and> ce_identifiers_absent e \<and> ce_malware_clean e"

section \<open>States and decisions\<close>

datatype admission_state = Declared | Quarantined | Validated | Admitted | Rejected | Revoked

fun admission_state_value :: "admission_state \<Rightarrow> string" where
  "admission_state_value Declared = ''DECLARED''"
| "admission_state_value Quarantined = ''QUARANTINED''"
| "admission_state_value Validated = ''VALIDATED''"
| "admission_state_value Admitted = ''ADMITTED''"
| "admission_state_value Rejected = ''REJECTED''"
| "admission_state_value Revoked = ''REVOKED''"

fun allowed_transitions :: "admission_state \<Rightarrow> admission_state list" where
  "allowed_transitions Declared = [Quarantined, Rejected]"
| "allowed_transitions Quarantined = [Validated, Rejected]"
| "allowed_transitions Validated = [Admitted, Rejected]"
| "allowed_transitions Admitted = [Revoked]"
| "allowed_transitions Rejected = []"
| "allowed_transitions Revoked = []"

record decision =
  ad_state :: admission_state
  ad_actor :: string
  ad_at :: int
  ad_reason :: string
  ad_diagnostics :: "string list"

definition make_decision :: "decision \<Rightarrow> decision res" where
  "make_decision d =
     rbind (safe_identifier (ad_actor d) ''DATASET_DECISION_ACTOR_INVALID'') (\<lambda>_.
     rbind (safe_identifier (ad_reason d) ''DATASET_DECISION_REASON_INVALID'') (\<lambda>_.
       if list_ex (\<lambda>x. x = []) (ad_diagnostics d) then admission_error ''DATASET_DECISION_DIAGNOSTICS_INVALID'' else Inr d))"

record admission_record =
  ar_declaration :: dataset_declaration
  ar_state :: admission_state
  ar_policy :: "(string \<times> int \<times> string) option" \<comment> \<open>identifier, version and content hash, set together\<close>
  ar_inspection :: "inspection option"
  ar_diagnostics :: "string list"
  ar_control :: "string option"
  ar_storage :: "string option"
  ar_storage_key :: "string option"
  ar_decisions :: "decision list"

definition latest_decision :: "admission_record \<Rightarrow> decision res" where
  "latest_decision r =
     (if ar_decisions r = [] then admission_error ''DATASET_DECISION_HISTORY_MISSING'' else Inr (last (ar_decisions r)))"

section \<open>The registry\<close>

type_synonym source_identity = "string \<times> string \<times> string \<times> string \<times> string \<times> int \<times> int"

record registry =
  g_records :: "((string \<times> string) \<times> admission_record) list"
  g_originals :: "((string \<times> string) \<times> string) list"
  g_sources :: "(source_identity \<times> string) list"
  g_workbooks :: "((string \<times> string) \<times> string) list"
  g_controls :: "((string \<times> string) \<times> string) list"
  g_storages :: "((string \<times> string) \<times> string) list"

definition new_registry :: registry where
  "new_registry = \<lparr>g_records = [], g_originals = [], g_sources = [], g_workbooks = [], g_controls = [], g_storages = []\<rparr>"

definition put_record :: "tenant \<Rightarrow> admission_record \<Rightarrow> registry \<Rightarrow> registry" where
  "put_record t r g = g\<lparr>g_records := AList.update (tenant_id t, dc_id (ar_declaration r)) r (g_records g)\<rparr>"

text \<open>A new decision with its state; the caller applies the changes of further fields.\<close>

definition add_decision ::
  "admission_record \<Rightarrow> admission_state \<Rightarrow> string \<Rightarrow> int \<Rightarrow> string \<Rightarrow> string list \<Rightarrow> admission_record res" where
  "add_decision r s actor moment reason diagnostics =
     rbind (make_decision \<lparr>ad_state = s, ad_actor = actor, ad_at = moment, ad_reason = reason, ad_diagnostics = diagnostics\<rparr>) (\<lambda>d.
       Inr (r\<lparr>ar_state := s, ar_diagnostics := diagnostics, ar_decisions := ar_decisions r @ [d]\<rparr>))"

definition transition ::
  "admission_record \<Rightarrow> admission_state \<Rightarrow> string \<Rightarrow> int \<Rightarrow> string \<Rightarrow> string list \<Rightarrow> admission_record res" where
  "transition r s actor moment reason diagnostics =
     (if \<not> List.member (allowed_transitions (ar_state r)) s then admission_error ''DATASET_STATE_TRANSITION_INVALID''
      else add_decision r s actor moment reason diagnostics)"

definition same_state_decision ::
  "admission_record \<Rightarrow> string \<Rightarrow> int \<Rightarrow> string \<Rightarrow> string list \<Rightarrow> admission_record res" where
  "same_state_decision r actor moment reason diagnostics = add_decision r (ar_state r) actor moment reason diagnostics"

definition require_monotonic_time :: "admission_record \<Rightarrow> int \<Rightarrow> unit res" where
  "require_monotonic_time r moment =
     rbind (latest_decision r) (\<lambda>d. require_that (ad_at d \<le> moment) ''DATASET_DECISION_TIME_REGRESSION'')"

text \<open>\<open>None\<close>: the workbook belongs to another dataset.\<close>

definition claim_workbook :: "string \<Rightarrow> string \<Rightarrow> string \<Rightarrow> registry \<Rightarrow> registry option" where
  "claim_workbook t dataset workbook g =
     (case map_of (g_workbooks g) (t, workbook) of
        Some owner \<Rightarrow> if owner \<noteq> dataset then None
          else Some (g\<lparr>g_workbooks := AList.update (t, workbook) dataset (g_workbooks g)\<rparr>)
      | None \<Rightarrow> Some (g\<lparr>g_workbooks := AList.update (t, workbook) dataset (g_workbooks g)\<rparr>))"

text \<open>An owner other than this dataset.\<close>

definition owned_by_other :: "string option \<Rightarrow> string \<Rightarrow> bool" where
  "owned_by_other owner dataset \<longleftrightarrow> owner \<noteq> None \<and> owner \<noteq> Some dataset"

definition source_identity_of :: "tenant \<Rightarrow> dataset_declaration \<Rightarrow> source_identity" where
  "source_identity_of t d = (tenant_id t, dc_uploader d, dc_marketplace d, dc_report d, dc_source d, dc_start d, dc_end d)"

text \<open>The locked part of \<open>declare\<close>. A declaration has an aware time by construction.\<close>

definition store_declaration :: "tenant \<Rightarrow> dataset_declaration \<Rightarrow> registry \<Rightarrow> (admission_record \<times> registry) res" where
  "store_declaration t d g =
     (let n = dc_id d in
      case map_of (g_records g) (tenant_id t, n) of
        Some r \<Rightarrow>
          if declaration_eq (ar_declaration r) d then Inr (r, g) else admission_error ''DATASET_DECLARATION_CONFLICT''
      | None \<Rightarrow>
          if owned_by_other (map_of (g_originals g) (tenant_id t, dc_sha d)) n
          then admission_error ''DATASET_ORIGINAL_REPLAY_DETECTED''
          else if owned_by_other (map_of (g_sources g) (source_identity_of t d)) n
          then admission_error ''DATASET_SOURCE_REPLAY_DETECTED''
          else rbind (utc_instant (dc_declared d) ''DATASET_DECISION_TIMEZONE_REQUIRED'') (\<lambda>moment.
            rbind (make_decision \<lparr>ad_state = Declared, ad_actor = tenant_account t, ad_at = moment,
              ad_reason = ''DATASET_DECLARED'', ad_diagnostics = []\<rparr>) (\<lambda>first.
            let r = \<lparr>ar_declaration = d, ar_state = Declared, ar_policy = None, ar_inspection = None,
                  ar_diagnostics = [], ar_control = None, ar_storage = None, ar_storage_key = None, ar_decisions = [first]\<rparr>
            in Inr (r, (put_record t r g)\<lparr>g_originals := AList.update (tenant_id t, dc_sha d) n (g_originals g),
                 g_sources := AList.update (source_identity_of t d) n (g_sources g)\<rparr>))))"

definition declare_dataset ::
  "(string \<Rightarrow> zone) \<Rightarrow> tenant \<Rightarrow> dataset_declaration \<Rightarrow> registry \<Rightarrow> (admission_record \<times> registry) res" where
  "declare_dataset tz t d g =
     (if require_tenant t (dc_tenant d) \<noteq> Inr () then admission_error ''DATASET_NOT_FOUND''
      else if tenant_account t \<noteq> dc_uploader d then admission_error ''DATASET_UPLOADER_SCOPE_MISMATCH''
      else rbind (dataset_uuid (dc_id d) ''DATASET_ID_INVALID'') (\<lambda>n.
        rbind (if dc_id d \<noteq> n then make_declaration tz (d\<lparr>dc_id := n\<rparr>) else Inr d) (\<lambda>d'. store_declaration t d' g)))"

definition get_dataset :: "tenant \<Rightarrow> string \<Rightarrow> registry \<Rightarrow> admission_record res" where
  "get_dataset t dataset g =
     rbind (dataset_uuid dataset ''DATASET_ID_INVALID'') (\<lambda>n.
       case map_of (g_records g) (tenant_id t, n) of
         None \<Rightarrow> admission_error ''DATASET_NOT_FOUND''
       | Some r \<Rightarrow>
           if tenant_account t \<noteq> dc_uploader (ar_declaration r) then admission_error ''DATASET_NOT_FOUND'' else Inr r)"

section \<open>Validation\<close>

definition reject_dataset ::
  "tenant \<Rightarrow> admission_record \<Rightarrow> string \<Rightarrow> int \<Rightarrow> registry \<Rightarrow> admission_record res \<times> registry" where
  "reject_dataset t r code moment g =
     (case transition r Rejected (tenant_account t) moment code [code] of
        Inl e \<Rightarrow> (Inl e, g)
      | Inr r' \<Rightarrow> (Inr r', put_record t r' g))"

text \<open>The record under inspection: quarantined, with the policy of this inspection, and already stored when it was declared.\<close>

definition quarantine_for ::
  "tenant \<Rightarrow> admission_record \<Rightarrow> string \<times> int \<times> string \<Rightarrow> int \<Rightarrow> registry \<Rightarrow> (admission_record \<times> registry) res" where
  "quarantine_for t r policy moment g =
     (if ar_state r = Declared then
        rbind (transition r Quarantined (tenant_account t) moment ''DATASET_QUARANTINED_FOR_VALIDATION'' []) (\<lambda>r'.
          let r'' = r'\<lparr>ar_policy := Some policy\<rparr> in Inr (r'', put_record t r'' g))
      else if ar_state r = Quarantined then Inr (r\<lparr>ar_policy := Some policy\<rparr>, g)
      else admission_error ''DATASET_STATE_TRANSITION_INVALID'')"

definition control_diagnostics :: "dataset_declaration \<Rightarrow> inspection \<Rightarrow> string list" where
  "control_diagnostics d i =
     sort (remdups (n_diagnostics i @
       (if dc_rows d \<noteq> None \<and> dc_rows d \<noteq> Some (n_rows i) then [''DATASET_CONTROL_ROW_COUNT_MISMATCH''] else [])))"

text \<open>What is recorded for the result of the inspector.\<close>

definition record_inspection ::
  "tenant \<Rightarrow> admission_record \<Rightarrow> inspection \<Rightarrow> int \<Rightarrow> registry \<Rightarrow> admission_record res \<times> registry" where
  "record_inspection t r i moment g =
     (case claim_workbook (tenant_id t) (dc_id (ar_declaration r)) (n_workbook_sha i) g of
        None \<Rightarrow> reject_dataset t r ''DATASET_WORKBOOK_REPLAY_DETECTED'' moment g
      | Some g' \<Rightarrow>
          (let diagnostics = control_diagnostics (ar_declaration r) i in
           case (if diagnostics \<noteq> []
                 then same_state_decision r (tenant_account t) moment ''DATASET_VALIDATION_BLOCKED'' diagnostics
                 else transition r Validated (tenant_account t) moment ''DATASET_VALIDATED'' []) of
             Inl e \<Rightarrow> (Inl e, g')
           | Inr r' \<Rightarrow> (let r'' = r'\<lparr>ar_inspection := Some i\<rparr> in (Inr r'', put_record t r'' g'))))"

definition inspect_payload ::
  "(string \<Rightarrow> string) \<Rightarrow> (string \<Rightarrow> xlsx_policy \<Rightarrow> inspection res) \<Rightarrow> tenant \<Rightarrow> admission_record \<Rightarrow> string \<Rightarrow> xlsx_policy \<Rightarrow> int \<Rightarrow>
    registry \<Rightarrow> admission_record res \<times> registry" where
  "inspect_payload sha inspect t r payload policy moment g =
     (if payload = [] then reject_dataset t r ''DATASET_BYTES_REQUIRED'' moment g
      else if sha payload \<noteq> dc_sha (ar_declaration r) \<or> int (length payload) \<noteq> dc_size (ar_declaration r)
      then reject_dataset t r ''DATASET_ORIGINAL_FILE_MISMATCH'' moment g
      else (case inspect payload policy of
          Inl (XlsxInspectionError code) \<Rightarrow> reject_dataset t r code moment g
        | Inl e \<Rightarrow> (Inl e, g)
        | Inr i \<Rightarrow> record_inspection t r i moment g))"

definition inspect_and_validate ::
  "(string \<Rightarrow> string) \<Rightarrow> (string \<Rightarrow> string) \<Rightarrow> (string \<Rightarrow> xlsx_policy \<Rightarrow> inspection res) \<Rightarrow> tenant \<Rightarrow> string \<Rightarrow> string \<Rightarrow> xlsx_policy \<Rightarrow>
    clock \<Rightarrow> registry \<Rightarrow> admission_record res \<times> registry" where
  "inspect_and_validate h sha inspect t dataset payload policy observed g =
     (case rbind (utc_instant observed ''DATASET_INSPECTION_TIMEZONE_REQUIRED'') (\<lambda>moment.
            rbind (get_dataset t dataset g) (\<lambda>r.
            rbind (require_monotonic_time r moment) (\<lambda>_.
            rbind (policy_content_hash h policy) (\<lambda>content_hash.
            rbind (quarantine_for t r (p_id policy, p_version policy, content_hash) moment g) (\<lambda>(r', g'). Inr (moment, r', g')))))) of
        Inl e \<Rightarrow> (Inl e, g)
      | Inr (moment, r', g') \<Rightarrow> inspect_payload sha inspect t r' payload policy moment g')"

section \<open>Admission\<close>

definition require_evidence_binding :: "admission_record \<Rightarrow> control_evidence \<Rightarrow> storage_evidence \<Rightarrow> unit res" where
  "require_evidence_binding r c s =
     (let d = ar_declaration r in
      if ce_verifier c = dc_uploader d then admission_error ''DATASET_EVIDENCE_NOT_INDEPENDENT''
      else if se_verifier s = dc_uploader d then admission_error ''STORAGE_EVIDENCE_NOT_INDEPENDENT''
      else (case ar_inspection r of
          None \<Rightarrow> admission_error ''DATASET_VALIDATION_EVIDENCE_MISSING''
        | Some i \<Rightarrow>
            if \<not> inspection_matched i then admission_error ''DATASET_VALIDATION_EVIDENCE_MISSING''
            else rbind (dataset_uuid (ce_dataset c) ''DATASET_EVIDENCE_DATASET_INVALID'') (\<lambda>cid. all_checks
              [require_that (cid = dc_id d) ''DATASET_EVIDENCE_DATASET_MISMATCH'',
               require_that (ce_sha c = dc_sha d) ''DATASET_EVIDENCE_FILE_MISMATCH'',
               require_that (ce_authority c = dc_authority d) ''DATASET_EVIDENCE_AUTHORITY_MISMATCH'',
               require_that (ce_start c = dc_start d \<and> ce_end c = dc_end d \<and> ce_zone c = dc_zone d)
                 ''DATASET_EVIDENCE_PERIOD_MISMATCH'',
               require_that (ce_totals c = dc_totals d) ''DATASET_EVIDENCE_CONTROL_TOTALS_MISMATCH'',
               require_that (Some (ce_policy_hash c) = map_option (snd \<circ> snd) (ar_policy r)) ''DATASET_EVIDENCE_POLICY_MISMATCH'',
               require_that (ce_workbook_sha c = n_workbook_sha i) ''DATASET_EVIDENCE_WORKBOOK_MISMATCH'',
               require_that (ce_fingerprint c = n_fingerprint i) ''DATASET_EVIDENCE_FINGERPRINT_MISMATCH'',
               require_that (Some (ce_schema c) = n_schema i \<and> Some (ce_schema_version c) = n_schema_version i \<and>
                 Some (ce_schema_authority c) = n_schema_authority i) ''DATASET_EVIDENCE_SCHEMA_MISMATCH'',
               rbind (dataset_uuid (se_dataset s) ''STORAGE_EVIDENCE_DATASET_INVALID'') (\<lambda>sid.
                 require_that (sid = dc_id d) ''STORAGE_EVIDENCE_DATASET_MISMATCH''),
               require_that (se_sha s = dc_sha d) ''STORAGE_EVIDENCE_FILE_MISMATCH''])))"

definition require_evidence_times :: "admission_record \<Rightarrow> control_evidence \<Rightarrow> storage_evidence \<Rightarrow> int \<Rightarrow> unit res" where
  "require_evidence_times r c s moment =
     rbind (latest_decision r) (\<lambda>d.
     rbind (utc_instant (ce_verified c) ''DATASET_EVIDENCE_TIMEZONE_REQUIRED'') (\<lambda>cv.
     rbind (utc_instant (se_verified s) ''STORAGE_EVIDENCE_TIMEZONE_REQUIRED'') (\<lambda>sv. all_checks
       [require_that (ad_at d \<le> cv) ''DATASET_EVIDENCE_STALE'',
        require_that (ad_at d \<le> sv) ''STORAGE_EVIDENCE_STALE'',
        require_that (cv \<le> moment) ''DATASET_EVIDENCE_FROM_FUTURE'',
        require_that (sv \<le> moment) ''STORAGE_EVIDENCE_FROM_FUTURE''])))"

definition finalize_validated_record ::
  "tenant \<Rightarrow> admission_record \<Rightarrow> control_evidence \<Rightarrow> storage_evidence \<Rightarrow> int \<Rightarrow> registry \<Rightarrow> (admission_record \<times> registry) res" where
  "finalize_validated_record t r c s moment g =
     (if ar_state r \<noteq> Validated then admission_error ''DATASET_NOT_VALIDATED''
      else rbind (utc_instant (dc_retention (ar_declaration r)) ''DATASET_RETENTION_TIMEZONE_REQUIRED'') (\<lambda>retention.
        if moment \<ge> retention then admission_error ''DATASET_RETENTION_EXPIRED''
        else rbind (require_evidence_binding r c s) (\<lambda>_.
        rbind (require_evidence_times r c s moment) (\<lambda>_.
          let dataset = dc_id (ar_declaration r) in
          if owned_by_other (map_of (g_controls g) (tenant_id t, ce_id c)) dataset
          then admission_error ''DATASET_EVIDENCE_REPLAY_DETECTED''
          else if owned_by_other (map_of (g_storages g) (tenant_id t, se_id s)) dataset
          then admission_error ''STORAGE_EVIDENCE_REPLAY_DETECTED''
          else rbind (transition r Admitted (tenant_account t) moment ''DATASET_ADMITTED'' []) (\<lambda>r'.
            let r'' = r'\<lparr>ar_control := Some (ce_id c), ar_storage := Some (se_id s), ar_storage_key := Some (se_key_sha s)\<rparr>
            in Inr (r'', (put_record t r'' g)\<lparr>g_controls := AList.update (tenant_id t, ce_id c) dataset (g_controls g),
                 g_storages := AList.update (tenant_id t, se_id s) dataset (g_storages g)\<rparr>))))))"

definition admit_dataset ::
  "tenant \<Rightarrow> string \<Rightarrow> control_evidence \<Rightarrow> storage_evidence \<Rightarrow> clock \<Rightarrow> registry \<Rightarrow> (admission_record \<times> registry) res" where
  "admit_dataset t dataset c s admitted g =
     rbind (utc_instant admitted ''DATASET_ADMISSION_TIMEZONE_REQUIRED'') (\<lambda>moment.
       if require_tenant t (ce_tenant c) \<noteq> Inr () \<or> require_tenant t (se_tenant s) \<noteq> Inr ()
       then admission_error ''DATASET_NOT_FOUND''
       else if \<not> control_complete c then admission_error ''DATASET_CONTROLS_INCOMPLETE''
       else if \<not> storage_complete s then admission_error ''STORAGE_CONTROLS_INCOMPLETE''
       else rbind (get_dataset t dataset g) (\<lambda>r.
         rbind (require_monotonic_time r moment) (\<lambda>_. finalize_validated_record t r c s moment g)))"

section \<open>Access\<close>

definition revoke_dataset ::
  "tenant \<Rightarrow> string \<Rightarrow> string \<Rightarrow> clock \<Rightarrow> registry \<Rightarrow> (admission_record \<times> registry) res" where
  "revoke_dataset t dataset reason revoked g =
     rbind (utc_instant revoked ''DATASET_REVOCATION_TIMEZONE_REQUIRED'') (\<lambda>moment.
     rbind (safe_identifier reason ''DATASET_REVOCATION_REASON_INVALID'') (\<lambda>_.
     rbind (get_dataset t dataset g) (\<lambda>r.
     rbind (require_monotonic_time r moment) (\<lambda>_.
       if ar_state r \<noteq> Admitted then admission_error ''DATASET_NOT_ADMITTED''
       else rbind (transition r Revoked (tenant_account t) moment reason []) (\<lambda>r'. Inr (r', put_record t r' g))))))"

definition require_admitted :: "tenant \<Rightarrow> string \<Rightarrow> clock \<Rightarrow> registry \<Rightarrow> admission_record res" where
  "require_admitted t dataset as_of g =
     rbind (utc_instant as_of ''DATASET_ACCESS_TIMEZONE_REQUIRED'') (\<lambda>now.
     rbind (get_dataset t dataset g) (\<lambda>r.
       if ar_state r \<noteq> Admitted then admission_error ''DATASET_NOT_ADMITTED''
       else rbind (latest_decision r) (\<lambda>d.
         if now < ad_at d then admission_error ''DATASET_NOT_ADMITTED_AT_TIME''
         else rbind (utc_instant (dc_retention (ar_declaration r)) ''DATASET_RETENTION_TIMEZONE_REQUIRED'') (\<lambda>retention.
           if now \<ge> retention then admission_error ''DATASET_RETENTION_EXPIRED'' else Inr r))))"

end
