(* ===== verification/AdmissionSoundness.thy ===== *)
theory AdmissionSoundness imports Admission Stores "HOL-Library.Sublist" begin

text \<open>
  What the admission registry promises: its invariant over every sequence of operations, the
  order in which records grow, that evidence and files are never replayed, and that a dataset is
  admitted only on complete, independent and current evidence.
\<close>

section \<open>Records\<close>

text \<open>Two decisions in a row of one history.\<close>

definition decision_flow :: "decision \<Rightarrow> decision \<Rightarrow> bool" where
  "decision_flow a b \<longleftrightarrow> ad_at a \<le> ad_at b \<and>
     (ad_state b \<in> set (allowed_transitions (ad_state a)) \<or> ad_state a = Quarantined \<and> ad_state b = Quarantined)"

definition history_ok :: "admission_record \<Rightarrow> bool" where
  "history_ok r \<longleftrightarrow> ar_decisions r \<noteq> [] \<and> ad_state (hd (ar_decisions r)) = Declared \<and>
     successively decision_flow (ar_decisions r) \<and> ad_state (last (ar_decisions r)) = ar_state r"

text \<open>The inspection that a validated dataset rests on.\<close>

definition inspection_ok :: "admission_record \<Rightarrow> bool" where
  "inspection_ok r \<longleftrightarrow> (\<exists>i. ar_inspection r = Some i \<and> control_diagnostics (ar_declaration r) i = []) \<and> ar_policy r \<noteq> None"

text \<open>What the registry owns for a record.\<close>

definition owned :: "registry \<Rightarrow> string \<Rightarrow> admission_record \<Rightarrow> bool" where
  "owned g t r \<longleftrightarrow> (let n = dc_id (ar_declaration r); d = ar_declaration r in
     map_of (g_originals g) (t, dc_sha d) = Some n \<and>
     map_of (g_sources g) (t, dc_uploader d, dc_marketplace d, dc_report d, dc_source d, dc_start d, dc_end d) = Some n \<and>
     (\<forall>i. ar_inspection r = Some i \<longrightarrow> map_of (g_workbooks g) (t, n_workbook_sha i) = Some n) \<and>
     (\<forall>c. ar_control r = Some c \<longrightarrow> map_of (g_controls g) (t, c) = Some n) \<and>
     (\<forall>s. ar_storage r = Some s \<longrightarrow> map_of (g_storages g) (t, s) = Some n))"

definition record_ok :: "registry \<Rightarrow> string \<times> string \<Rightarrow> admission_record \<Rightarrow> bool" where
  "record_ok g k r \<longleftrightarrow> k = (dc_tenant (ar_declaration r), dc_id (ar_declaration r)) \<and>
     (\<forall>code. dataset_uuid (snd k) code = Inr (snd k)) \<and> history_ok r \<and> owned g (fst k) r \<and>
     (ar_state r \<in> {Validated, Admitted, Revoked} \<longrightarrow> inspection_ok r) \<and>
     (ar_state r \<in> {Admitted, Revoked} \<longrightarrow> (\<exists>i. ar_inspection r = Some i \<and> inspection_matched i) \<and> ar_control r \<noteq> None \<and> ar_storage r \<noteq> None)"

definition admission_inv :: "registry \<Rightarrow> bool" where
  "admission_inv g \<longleftrightarrow> (\<forall>k r. map_of (g_records g) k = Some r \<longrightarrow> record_ok g k r)"

text \<open>A record only grows, and a rejected or revoked one stays as it is.\<close>

definition record_le :: "admission_record \<Rightarrow> admission_record \<Rightarrow> bool" where
  "record_le r s \<longleftrightarrow> ar_declaration s = ar_declaration r \<and> prefix (ar_decisions r) (ar_decisions s) \<and>
     (ar_state r \<in> {Rejected, Revoked} \<longrightarrow> s = r)"

definition owners_le :: "registry \<Rightarrow> registry \<Rightarrow> bool" where
  "owners_le g g' \<longleftrightarrow> map_of (g_originals g) \<subseteq>\<^sub>m map_of (g_originals g') \<and> map_of (g_sources g) \<subseteq>\<^sub>m map_of (g_sources g') \<and>
     map_of (g_workbooks g) \<subseteq>\<^sub>m map_of (g_workbooks g') \<and> map_of (g_controls g) \<subseteq>\<^sub>m map_of (g_controls g') \<and>
     map_of (g_storages g) \<subseteq>\<^sub>m map_of (g_storages g')"

definition registry_le :: "registry \<Rightarrow> registry \<Rightarrow> bool" where
  "registry_le g g' \<longleftrightarrow> owners_le g g' \<and>
     (\<forall>k r. map_of (g_records g) k = Some r \<longrightarrow> (\<exists>s. map_of (g_records g') k = Some s \<and> record_le r s))"

lemma record_le_refl [simp]: "record_le r r" by (simp add: record_le_def)

lemma record_le_trans: "record_le r s \<Longrightarrow> record_le s u \<Longrightarrow> record_le r u"
  unfolding record_le_def by (metis prefix_order.trans)

lemma owners_le_refl [simp]: "owners_le g g" by (simp add: owners_le_def)

lemma owners_le_trans: "owners_le g g' \<Longrightarrow> owners_le g' g'' \<Longrightarrow> owners_le g g''"
  unfolding owners_le_def by (blast intro: map_le_trans)

lemma registry_le_refl: "registry_le g g" by (simp add: registry_le_def)

lemma registry_le_trans: "registry_le g g' \<Longrightarrow> registry_le g' g'' \<Longrightarrow> registry_le g g''"
  unfolding registry_le_def using owners_le_trans record_le_trans by meson

lemma owned_mono: "owners_le g g' \<Longrightarrow> owned g t r \<Longrightarrow> owned g' t r"
  unfolding owners_le_def owned_def Let_def by (meson map_leD)

lemma record_ok_mono: "owners_le g g' \<Longrightarrow> record_ok g k r \<Longrightarrow> record_ok g' k r"
  unfolding record_ok_def using owned_mono by blast

text \<open>Storing one record, perhaps with new owners.\<close>

lemma put_inv:
  assumes "admission_inv g" and "owners_le g g'" and "g_records g' = AList.update k r (g_records g)"
    and "record_ok g' k r" and "\<And>old. map_of (g_records g) k = Some old \<Longrightarrow> record_le old r"
  shows "admission_inv g' \<and> registry_le g g'"
  using assms record_ok_mono [OF assms(2)]
  by (auto simp: admission_inv_def registry_le_def update_conv')

lemma update_le: "map_of m k = None \<or> map_of m k = Some v \<Longrightarrow> map_of m \<subseteq>\<^sub>m map_of (AList.update k v m)"
  by (auto simp: map_le_def update_conv')

section \<open>Histories\<close>

lemma add_decisionD:
  "add_decision r s actor moment reason ds = Inr r' \<Longrightarrow>
     r' = r\<lparr>ar_state := s, ar_diagnostics := ds, ar_decisions := ar_decisions r @
       [\<lparr>ad_state = s, ad_actor = actor, ad_at = moment, ad_reason = reason, ad_diagnostics = ds\<rparr>]\<rparr>"
  by (auto simp: add_decision_def make_decision_def res_simps split: if_splits)

lemma transitionD:
  "transition r s actor moment reason ds = Inr r' \<Longrightarrow> s \<in> set (allowed_transitions (ar_state r)) \<and>
     r' = r\<lparr>ar_state := s, ar_diagnostics := ds, ar_decisions := ar_decisions r @
       [\<lparr>ad_state = s, ad_actor = actor, ad_at = moment, ad_reason = reason, ad_diagnostics = ds\<rparr>]\<rparr>"
  by (auto simp: transition_def dest: add_decisionD split: if_splits)

lemma history_grows:
  assumes "history_ok r" and "ad_at (last (ar_decisions r)) \<le> ad_at d"
    and "ad_state d \<in> set (allowed_transitions (ar_state r)) \<or> ar_state r = Quarantined \<and> ad_state d = Quarantined"
    and "ar_decisions s = ar_decisions r @ [d]" and "ar_state s = ad_state d"
  shows "history_ok s"
  using assms by (auto simp: history_ok_def successively_append_iff decision_flow_def)

lemma history_latest: "history_ok r \<Longrightarrow> latest_decision r = Inr (last (ar_decisions r))"
  by (simp add: history_ok_def latest_decision_def)

lemma monotonic_timeD: "history_ok r \<Longrightarrow> require_monotonic_time r moment = Inr () \<Longrightarrow> ad_at (last (ar_decisions r)) \<le> moment"
  by (auto simp: require_monotonic_time_def history_latest require_that_def split: if_splits)

section \<open>The operations keep the invariant\<close>

lemma new_registry_inv: "admission_inv new_registry"
  by (simp add: admission_inv_def new_registry_def)

lemma get_datasetD:
  assumes "get_dataset t dataset g = Inr r" and "admission_inv g"
  shows "\<exists>n. map_of (g_records g) (tenant_id t, n) = Some r \<and> dc_id (ar_declaration r) = n \<and> dc_tenant (ar_declaration r) = tenant_id t \<and>
      (\<forall>code. dataset_uuid dataset code = Inr n) \<and>
      tenant_account t = dc_uploader (ar_declaration r) \<and> record_ok g (tenant_id t, n) r"
proof -
  from assms(1) obtain n where n: "dataset_uuid dataset ''DATASET_ID_INVALID'' = Inr n" "map_of (g_records g) (tenant_id t, n) = Some r"
      "tenant_account t = dc_uploader (ar_declaration r)"
    by (auto simp: get_dataset_def res_simps split: option.splits if_splits)
  moreover from n(1) have "\<forall>code. dataset_uuid dataset code = Inr n" by (auto simp: dataset_uuid_def split: option.splits)
  moreover from assms(2) n(2) have "record_ok g (tenant_id t, n) r" by (simp add: admission_inv_def)
  ultimately show ?thesis by (auto simp: record_ok_def)
qed

lemma dataset_uuid_fixed: "dataset_uuid s code = Inr n \<Longrightarrow> dataset_uuid n code' = Inr n"
  by (auto simp: dataset_uuid_def uuid_int_text dest: uuid_int_bound split: option.splits)

lemma make_declaration_same: "make_declaration tz d = Inr d' \<Longrightarrow> d' = d"
  by (auto simp: make_declaration_def res_simps split: if_splits)

lemma store_declaration_cases:
  assumes "store_declaration t d g = Inr (r, g')"
  obtains (known) "map_of (g_records g) (tenant_id t, dc_id d) = Some r" and "g' = g"
  | (new) first where "map_of (g_records g) (tenant_id t, dc_id d) = None"
      and "\<not> owned_by_other (map_of (g_originals g) (tenant_id t, dc_sha d)) (dc_id d)"
      and "\<not> owned_by_other (map_of (g_sources g) (source_identity_of t d)) (dc_id d)"
      and "ad_state first = Declared"
      and "r = \<lparr>ar_declaration = d, ar_state = Declared, ar_policy = None, ar_inspection = None,
          ar_diagnostics = [], ar_control = None, ar_storage = None, ar_storage_key = None, ar_decisions = [first]\<rparr>"
      and "g' = (put_record t r g)\<lparr>g_originals := AList.update (tenant_id t, dc_sha d) (dc_id d) (g_originals g),
          g_sources := AList.update (source_identity_of t d) (dc_id d) (g_sources g)\<rparr>"
proof (cases "map_of (g_records g) (tenant_id t, dc_id d)")
  case (Some old)
  with assms show thesis by (intro known) (auto simp: store_declaration_def split: if_splits)
next
  case None
  have free: "\<not> owned_by_other (map_of (g_originals g) (tenant_id t, dc_sha d)) (dc_id d)"
      "\<not> owned_by_other (map_of (g_sources g) (source_identity_of t d)) (dc_id d)"
    using assms None by (auto simp: store_declaration_def Let_def split: if_splits)
  with assms None obtain moment where "r = \<lparr>ar_declaration = d, ar_state = Declared, ar_policy = None, ar_inspection = None,
          ar_diagnostics = [], ar_control = None, ar_storage = None, ar_storage_key = None,
          ar_decisions = [\<lparr>ad_state = Declared, ad_actor = tenant_account t, ad_at = moment, ad_reason = ''DATASET_DECLARED'', ad_diagnostics = []\<rparr>]\<rparr>"
      "g' = (put_record t r g)\<lparr>g_originals := AList.update (tenant_id t, dc_sha d) (dc_id d) (g_originals g),
          g_sources := AList.update (source_identity_of t d) (dc_id d) (g_sources g)\<rparr>"
    by (simp add: store_declaration_def make_decision_def Let_def res_simps) blast
  with None free show thesis by (intro new) auto
qed

lemma declare_inv:
  assumes inv: "admission_inv g" and op: "declare_dataset tz t d0 g = Inr (r, g')"
  shows "admission_inv g' \<and> registry_le g g'"
proof -
  have scope: "require_tenant t (dc_tenant d0) = Inr ()" "tenant_account t = dc_uploader d0"
    using op by (auto simp: declare_dataset_def split: if_splits)
  obtain n d where n: "dataset_uuid (dc_id d0) ''DATASET_ID_INVALID'' = Inr n"
    and d: "(if dc_id d0 \<noteq> n then make_declaration tz (d0\<lparr>dc_id := n\<rparr>) else Inr d0) = Inr d"
    and store: "store_declaration t d g = Inr (r, g')"
    using op scope unfolding declare_dataset_def by (auto elim!: rbind_InrE split del: if_split)
  have id: "dc_id d = n" "dc_tenant d = tenant_id t"
    using d scope by (auto simp: require_tenant_def dest: make_declaration_same split: if_splits)
  from store show ?thesis
  proof (cases rule: store_declaration_cases)
    case known
    with inv show ?thesis by (simp add: registry_le_refl)
  next
    case (new first)
    have le: "owners_le g g'" using new(2,3) update_le [of "g_originals g"] update_le [of "g_sources g"]
      by (auto simp: owners_le_def new(6) put_record_def owned_by_other_def)
    have "record_ok g' (tenant_id t, n) r"
      using dataset_uuid_fixed [OF n] id new(4)
      by (auto simp: record_ok_def new(5,6) history_ok_def owned_def put_record_def source_identity_of_def update_conv' Let_def)
    moreover have "g_records g' = AList.update (tenant_id t, n) r (g_records g)" by (simp add: new(5,6) put_record_def id)
    ultimately show ?thesis using put_inv [OF inv le, of "(tenant_id t, n)" r] new(1) id by simp
  qed
qed

text \<open>A record that an operation has just read, extended by a decision, and stored again.\<close>

lemma restore_inv:
  assumes inv: "admission_inv g" and old: "map_of (g_records g) k = Some r" and key: "k = (tenant_id t, dc_id (ar_declaration r))"
    and same: "ar_declaration s = ar_declaration r" and grow: "prefix (ar_decisions r) (ar_decisions s)" "history_ok s"
    and live: "ar_state r \<notin> {Rejected, Revoked}"
    and le: "owners_le g g'" and put: "g_records g' = g_records (put_record t s g)"
    and own: "owned g' (tenant_id t) s"
    and evidence: "ar_state s \<in> {Validated, Admitted, Revoked} \<Longrightarrow> inspection_ok s"
      "ar_state s \<in> {Admitted, Revoked} \<Longrightarrow> (\<exists>i. ar_inspection s = Some i \<and> inspection_matched i) \<and> ar_control s \<noteq> None \<and> ar_storage s \<noteq> None"
  shows "admission_inv g' \<and> registry_le g g' \<and> map_of (g_records g') k = Some s"
proof -
  have "record_ok g k r" using inv old unfolding admission_inv_def by blast
  then have "record_ok g' k s" using same grow(2) own evidence key by (simp add: record_ok_def)
  moreover have "g_records g' = AList.update k s (g_records g)" using put by (simp add: put_record_def same key)
  moreover have "record_le r s" using same grow(1) live by (simp add: record_le_def)
  ultimately show ?thesis using put_inv [OF inv le, of k s] old by (simp add: update_conv')
qed

lemma owned_put [simp]: "owned (put_record t r g) u s = owned g u s"
  by (simp add: owned_def put_record_def)

lemma owners_le_put [simp]: "owners_le g (put_record t r g)"
  by (simp add: owners_le_def put_record_def)

lemma owned_same:
  "ar_declaration s = ar_declaration r \<Longrightarrow> ar_inspection s = ar_inspection r \<Longrightarrow> ar_control s = ar_control r \<Longrightarrow>
     ar_storage s = ar_storage r \<Longrightarrow> owned g t s = owned g t r"
  by (simp add: owned_def)

text \<open>The state of the registry between the steps of an inspection: the record is quarantined and a time is due.\<close>

definition inspecting :: "registry \<Rightarrow> tenant \<Rightarrow> admission_record \<Rightarrow> int \<Rightarrow> bool" where
  "inspecting g t r moment \<longleftrightarrow> admission_inv g \<and> history_ok r \<and> owned g (tenant_id t) r \<and> ar_state r = Quarantined \<and>
     ar_policy r \<noteq> None \<and> ad_at (last (ar_decisions r)) \<le> moment \<and>
     (\<exists>old. map_of (g_records g) (tenant_id t, dc_id (ar_declaration r)) = Some old \<and> ar_declaration old = ar_declaration r \<and>
        ar_decisions old = ar_decisions r \<and> ar_state old = Quarantined)"

lemma inspecting_stored:
  assumes i: "inspecting g t r moment" and le: "owners_le g g'" and put: "g_records g' = g_records (put_record t s g)"
    and same: "ar_declaration s = ar_declaration r" and d: "ar_decisions s = ar_decisions r @ [d]" "ad_at d = moment" "ad_state d = ar_state s"
    and flow: "ar_state s \<in> {Rejected, Validated, Quarantined}" and own: "owned g' (tenant_id t) s"
    and validated: "ar_state s = Validated \<Longrightarrow> inspection_ok s"
  shows "admission_inv g' \<and> registry_le g g' \<and> map_of (g_records g') (tenant_id t, dc_id (ar_declaration r)) = Some s"
proof -
  obtain old where old: "map_of (g_records g) (tenant_id t, dc_id (ar_declaration r)) = Some old" "ar_declaration old = ar_declaration r"
      "ar_decisions old = ar_decisions r" "ar_state old = Quarantined"
    using i by (auto simp: inspecting_def)
  have "history_ok s"
    using i flow by (intro history_grows [of r d s]) (auto simp: inspecting_def d)
  with flow validated show ?thesis using i
    by (intro restore_inv [OF _ old(1) _ _ _ _ _ le put own]) (auto simp: inspecting_def old same d)
qed

lemma reject_inv:
  assumes i: "inspecting g t r moment" and op: "reject_dataset t r code moment g = (result, g')"
  shows "admission_inv g' \<and> registry_le g g'"
proof (cases "transition r Rejected (tenant_account t) moment code [code]")
  case (Inl e)
  with op i show ?thesis by (simp add: reject_dataset_def inspecting_def registry_le_refl)
next
  case (Inr s)
  with op have g': "g' = put_record t s g" by (simp add: reject_dataset_def)
  note s = transitionD [OF Inr]
  have "owned g (tenant_id t) s" using i owned_same [of s r] s by (simp add: inspecting_def)
  with s show ?thesis
    using inspecting_stored [OF i, of g' s "last (ar_decisions s)"] by (simp add: g')
qed

lemma claim_workbookD:
  assumes "claim_workbook u n w g = Some g'"
  shows "owners_le g g'" and "g_records g' = g_records g" and "map_of (g_workbooks g') (u, w) = Some n"
    and "g' = g\<lparr>g_workbooks := AList.update (u, w) n (g_workbooks g)\<rparr>"
  using assms update_le [of "g_workbooks g" "(u, w)" n]
  by (auto simp: claim_workbook_def owners_le_def update_conv' split: option.splits if_splits)

lemma sort_remdups_Nil: "sort (remdups xs) = [] \<longleftrightarrow> xs = []"
  by (metis remdups_eq_nil_iff set_empty set_sort)

lemma claimed_inspecting:
  assumes "inspecting g t r moment" and "owners_le g g'" and "g_records g' = g_records g"
  shows "inspecting g' t r moment" and "registry_le g g'"
  using assms owned_mono [OF assms(2)] record_ok_mono [OF assms(2)]
  by (auto simp: inspecting_def admission_inv_def registry_le_def)

lemma record_inspection_inv:
  assumes i: "inspecting g t r moment" and op: "record_inspection t r ins moment g = (result, g')"
  shows "admission_inv g' \<and> registry_le g g'"
proof (cases "claim_workbook (tenant_id t) (dc_id (ar_declaration r)) (n_workbook_sha ins) g")
  case None
  with op reject_inv [OF i] show ?thesis by (simp add: record_inspection_def)
next
  case (Some g1)
  note claim = claim_workbookD [OF Some]
  note i1 = claimed_inspecting [OF i claim(1,2)]
  let ?ds = "control_diagnostics (ar_declaration r) ins"
  let ?step = "if ?ds \<noteq> [] then same_state_decision r (tenant_account t) moment ''DATASET_VALIDATION_BLOCKED'' ?ds
    else transition r Validated (tenant_account t) moment ''DATASET_VALIDATED'' []"
  show ?thesis
  proof (cases ?step)
    case (Inl e)
    with op Some i1 show ?thesis by (simp add: record_inspection_def inspecting_def)
  next
    case (Inr r')
    let ?s = "r'\<lparr>ar_inspection := Some ins\<rparr>"
    have g': "g' = put_record t ?s g1" using op Some Inr by (simp add: record_inspection_def Let_def)
    define st where "st = (if ?ds \<noteq> [] then Quarantined else Validated)"
    obtain d where d: "ar_decisions r' = ar_decisions r @ [d]" "ad_at d = moment" "ad_state d = st" "ar_state r' = st"
        "ar_declaration r' = ar_declaration r" "ar_control r' = ar_control r" "ar_storage r' = ar_storage r" "ar_policy r' = ar_policy r"
      using Inr i by (auto simp: st_def same_state_decision_def inspecting_def dest!: transitionD add_decisionD split: if_splits)
    have "owned g1 (tenant_id t) ?s"
      using i1(1) claim(3) d by (simp add: inspecting_def owned_def Let_def)
    moreover have "ar_state ?s = Validated \<Longrightarrow> inspection_ok ?s"
      using i d(4,5,8) by (auto simp: inspection_ok_def inspecting_def st_def split: if_splits)
    ultimately have "admission_inv g' \<and> registry_le g1 g' \<and> map_of (g_records g') (tenant_id t, dc_id (ar_declaration r)) = Some ?s"
      using d(1-5) by (intro inspecting_stored [OF i1(1), where d = d]) (simp_all add: g' st_def)
    with i1(2) show ?thesis using registry_le_trans by blast
  qed
qed

lemma inspect_payload_inv:
  assumes i: "inspecting g t r moment" and op: "inspect_payload sha inspect t r payload policy moment g = (result, g')"
  shows "admission_inv g' \<and> registry_le g g'"
proof -
  have "admission_inv g \<and> registry_le g g" using i by (simp add: inspecting_def registry_le_refl)
  then show ?thesis using op reject_inv [OF i] record_inspection_inv [OF i]
    by (auto simp: inspect_payload_def split: if_splits sum.splits exn.splits)
qed

lemma quarantine_inspecting:
  assumes inv: "admission_inv g" and r: "get_dataset t dataset g = Inr r" and time: "require_monotonic_time r moment = Inr ()"
    and op: "quarantine_for t r policy moment g = Inr (r', g')"
  shows "inspecting g' t r' moment \<and> registry_le g g'"
proof -
  obtain n where n: "map_of (g_records g) (tenant_id t, n) = Some r" "dc_id (ar_declaration r) = n" "record_ok g (tenant_id t, n) r"
    using get_datasetD [OF r inv] by blast
  have hist: "history_ok r" "owned g (tenant_id t) r" using n(3) unfolding record_ok_def fst_conv by blast+
  note due = monotonic_timeD [OF hist(1) time]
  show ?thesis
  proof (cases "ar_state r = Declared")
    case True
    with op obtain s where s: "transition r Quarantined (tenant_account t) moment ''DATASET_QUARANTINED_FOR_VALIDATION'' [] = Inr s"
        "r' = s\<lparr>ar_policy := Some policy\<rparr>" "g' = put_record t r' g" by (auto simp: quarantine_for_def res_simps Let_def)
    note t = transitionD [OF s(1)]
    have own: "owned g (tenant_id t) r'" using hist(2) owned_same [of r' r] t by (simp add: s(2))
    have grown: "history_ok r'"
      using hist(1) due True t by (intro history_grows [of r "last (ar_decisions r')" r']) (auto simp: s(2))
    have "admission_inv g' \<and> registry_le g g' \<and> map_of (g_records g') (tenant_id t, n) = Some r'"
      using t True own grown n(2) by (intro restore_inv [OF inv n(1)]) (auto simp: s(2,3))
    then show ?thesis using own grown t n(2) by (auto simp: inspecting_def s(2,3))
  next
    case False
    with op have "ar_state r = Quarantined" "r' = r\<lparr>ar_policy := Some policy\<rparr>" "g' = g"
      by (auto simp: quarantine_for_def split: if_splits)
    then show ?thesis using inv hist due n owned_same [of r' r]
      by (auto simp: inspecting_def registry_le_refl history_ok_def)
  qed
qed

lemma inspect_inv:
  assumes inv: "admission_inv g" and op: "inspect_and_validate h sha inspect t dataset payload policy observed g = (result, g')"
  shows "admission_inv g' \<and> registry_le g g'"
proof (cases "rbind (utc_instant observed ''DATASET_INSPECTION_TIMEZONE_REQUIRED'') (\<lambda>moment.
    rbind (get_dataset t dataset g) (\<lambda>r.
    rbind (require_monotonic_time r moment) (\<lambda>_.
    rbind (policy_content_hash h policy) (\<lambda>content_hash.
    rbind (quarantine_for t r (p_id policy, p_version policy, content_hash) moment g) (\<lambda>(r', g'). Inr (moment, r', g'))))))")
  case (Inl e)
  with op inv show ?thesis by (simp add: inspect_and_validate_def registry_le_refl)
next
  case (Inr p)
  then obtain moment r r' g1 policy' where steps: "get_dataset t dataset g = Inr r" "require_monotonic_time r moment = Inr ()"
      "quarantine_for t r policy' moment g = Inr (r', g1)" and p: "p = (moment, r', g1)"
    by (auto simp: res_simps)
  note i = quarantine_inspecting [OF inv steps]
  with op Inr p have "inspect_payload sha inspect t r' payload policy moment g1 = (result, g')"
    by (simp add: inspect_and_validate_def)
  with inspect_payload_inv i registry_le_trans show ?thesis by blast
qed

lemma all_checks_ok: "all_checks cs = Inr () \<longleftrightarrow> (\<forall>c \<in> set cs. c = Inr ())"
  by (induction cs) (auto simp: res_simps)

lemma require_that_ok: "require_that b code = Inr () \<longleftrightarrow> b"
  by (simp add: require_that_def)

lemma admitD:
  assumes "admit_dataset t dataset c s admitted g = Inr (r', g')"
  obtains r moment where "utc_instant admitted ''DATASET_ADMISSION_TIMEZONE_REQUIRED'' = Inr moment" and "control_complete c" and "storage_complete s"
    and "get_dataset t dataset g = Inr r" and "require_monotonic_time r moment = Inr ()"
    and "finalize_validated_record t r c s moment g = Inr (r', g')"
  using assms by (auto simp: admit_dataset_def res_simps split: if_splits)

lemma finalizeD:
  assumes "finalize_validated_record t r c s moment g = Inr (r', g')"
  obtains retention r1 where "ar_state r = Validated"
    and "utc_instant (dc_retention (ar_declaration r)) ''DATASET_RETENTION_TIMEZONE_REQUIRED'' = Inr retention" and "moment < retention"
    and "require_evidence_binding r c s = Inr ()" and "require_evidence_times r c s moment = Inr ()"
    and "\<not> owned_by_other (map_of (g_controls g) (tenant_id t, ce_id c)) (dc_id (ar_declaration r))"
    and "\<not> owned_by_other (map_of (g_storages g) (tenant_id t, se_id s)) (dc_id (ar_declaration r))"
    and "transition r Admitted (tenant_account t) moment ''DATASET_ADMITTED'' [] = Inr r1"
    and "r' = r1\<lparr>ar_control := Some (ce_id c), ar_storage := Some (se_id s), ar_storage_key := Some (se_key_sha s)\<rparr>"
    and "g' = (put_record t r' g)\<lparr>g_controls := AList.update (tenant_id t, ce_id c) (dc_id (ar_declaration r)) (g_controls g),
           g_storages := AList.update (tenant_id t, se_id s) (dc_id (ar_declaration r)) (g_storages g)\<rparr>"
  using assms by (auto simp: finalize_validated_record_def res_simps Let_def split: if_splits)

text \<open>What the evidence has to say of the record it admits.\<close>

definition evidence_bound :: "admission_record \<Rightarrow> control_evidence \<Rightarrow> storage_evidence \<Rightarrow> bool" where
  "evidence_bound r c s \<longleftrightarrow> (let d = ar_declaration r in
     ce_verifier c \<noteq> dc_uploader d \<and> se_verifier s \<noteq> dc_uploader d \<and>
     ce_sha c = dc_sha d \<and> se_sha s = dc_sha d \<and> ce_authority c = dc_authority d \<and>
     ce_start c = dc_start d \<and> ce_end c = dc_end d \<and> ce_zone c = dc_zone d \<and> ce_totals c = dc_totals d \<and>
     (\<forall>code. dataset_uuid (ce_dataset c) code = Inr (dc_id d) \<and> dataset_uuid (se_dataset s) code = Inr (dc_id d)) \<and>
     (\<exists>i. ar_inspection r = Some i \<and> inspection_matched i \<and> ce_workbook_sha c = n_workbook_sha i \<and> ce_fingerprint c = n_fingerprint i \<and>
        n_schema i = Some (ce_schema c) \<and> n_schema_version i = Some (ce_schema_version c) \<and> n_schema_authority i = Some (ce_schema_authority c)) \<and>
     (\<exists>i v. ar_policy r = Some (i, v, ce_policy_hash c)))"

lemma dataset_uuid_code: "dataset_uuid v code = Inr n \<Longrightarrow> dataset_uuid v code' = Inr n"
  by (auto simp: dataset_uuid_def split: option.splits)

lemma policy_hash_iff: "Some x = map_option (snd \<circ> snd) p \<longleftrightarrow> (\<exists>i v. p = Some (i, v, x))"
  by (cases p) auto

lemma evidence_bindingD:
  assumes "require_evidence_binding r c s = Inr ()"
  shows "evidence_bound r c s"
proof -
  obtain i where i: "ar_inspection r = Some i" "inspection_matched i"
    using assms by (auto simp: require_evidence_binding_def Let_def split: if_splits option.splits)
  have v: "ce_verifier c \<noteq> dc_uploader (ar_declaration r)" "se_verifier s \<noteq> dc_uploader (ar_declaration r)"
    using assms by (auto simp: require_evidence_binding_def Let_def split: if_splits)
  from assms i v show ?thesis
    by (auto simp: require_evidence_binding_def evidence_bound_def Let_def res_simps all_checks_ok require_that_ok policy_hash_iff dest: dataset_uuid_code)
qed

lemma evidence_timesD:
  assumes "require_evidence_times r c s moment = Inr ()" and "history_ok r"
  shows "\<exists>cv sv. (\<forall>code. utc_instant (ce_verified c) code = Inr cv) \<and> (\<forall>code. utc_instant (se_verified s) code = Inr sv) \<and>
    ad_at (last (ar_decisions r)) \<le> cv \<and> cv \<le> moment \<and> ad_at (last (ar_decisions r)) \<le> sv \<and> sv \<le> moment"
  using assms
  by (auto simp: require_evidence_times_def history_latest res_simps require_that_ok utc_instant_def split: clock.splits)

lemma admit_inv:
  assumes inv: "admission_inv g" and op: "admit_dataset t dataset c s admitted g = Inr (r', g')"
  shows "admission_inv g' \<and> registry_le g g' \<and> map_of (g_records g') (tenant_id t, dc_id (ar_declaration r')) = Some r'"
  using op
proof (rule admitD)
  fix r moment
  assume r: "get_dataset t dataset g = Inr r" and time: "require_monotonic_time r moment = Inr ()"
    and fin: "finalize_validated_record t r c s moment g = Inr (r', g')"
  obtain n where n: "map_of (g_records g) (tenant_id t, n) = Some r" "dc_id (ar_declaration r) = n" "record_ok g (tenant_id t, n) r"
    using get_datasetD [OF r inv] by blast
  have hist: "history_ok r" "owned g (tenant_id t) r" and ins: "ar_state r = Validated \<Longrightarrow> inspection_ok r"
    using n(3) unfolding record_ok_def fst_conv by blast+
  note due = monotonic_timeD [OF hist(1) time]
  from fin show ?thesis
  proof (rule finalizeD)
    fix retention r1
    assume st: "ar_state r = Validated" and bind: "require_evidence_binding r c s = Inr ()"
      and free: "\<not> owned_by_other (map_of (g_controls g) (tenant_id t, ce_id c)) (dc_id (ar_declaration r))"
        "\<not> owned_by_other (map_of (g_storages g) (tenant_id t, se_id s)) (dc_id (ar_declaration r))"
      and tr: "transition r Admitted (tenant_account t) moment ''DATASET_ADMITTED'' [] = Inr r1"
      and r': "r' = r1\<lparr>ar_control := Some (ce_id c), ar_storage := Some (se_id s), ar_storage_key := Some (se_key_sha s)\<rparr>"
      and g': "g' = (put_record t r' g)\<lparr>g_controls := AList.update (tenant_id t, ce_id c) (dc_id (ar_declaration r)) (g_controls g),
           g_storages := AList.update (tenant_id t, se_id s) (dc_id (ar_declaration r)) (g_storages g)\<rparr>"
    note s1 = transitionD [OF tr]
    have le: "owners_le g g'" using free update_le [of "g_controls g"] update_le [of "g_storages g"]
      by (auto simp: owners_le_def g' put_record_def owned_by_other_def)
    have own: "owned g' (tenant_id t) r'"
      using hist(2) s1 by (simp add: owned_def r' g' put_record_def update_conv' Let_def)
    have grown: "history_ok r'"
      using hist(1) due st s1 by (intro history_grows [of r "last (ar_decisions r')" r']) (auto simp: r')
    have "inspection_ok r'" using ins [OF st] s1 by (simp add: inspection_ok_def r')
    moreover have "\<exists>i. ar_inspection r' = Some i \<and> inspection_matched i"
      using evidence_bindingD [OF bind] s1 by (auto simp: evidence_bound_def Let_def r')
    moreover have "admission_inv g' \<and> registry_le g g' \<and> map_of (g_records g') (tenant_id t, n) = Some r'"
      using calculation grown own s1 st n(2) by (intro restore_inv [OF inv n(1) _ _ _ _ _ le]) (auto simp: r' g')
    ultimately show ?thesis using s1 n(2) by (simp add: r')
  qed
qed

lemma revoke_inv:
  assumes inv: "admission_inv g" and op: "revoke_dataset t dataset reason revoked g = Inr (r', g')"
  shows "admission_inv g' \<and> registry_le g g' \<and> map_of (g_records g') (tenant_id t, dc_id (ar_declaration r')) = Some r' \<and>
    ar_state r' = Revoked \<and> dataset_uuid dataset ''DATASET_ID_INVALID'' = Inr (dc_id (ar_declaration r')) \<and>
    tenant_account t = dc_uploader (ar_declaration r')"
proof -
  obtain r moment where r: "get_dataset t dataset g = Inr r" and time: "require_monotonic_time r moment = Inr ()"
    and st: "ar_state r = Admitted" and tr: "transition r Revoked (tenant_account t) moment reason [] = Inr r'" and g': "g' = put_record t r' g"
    using op by (auto simp: revoke_dataset_def res_simps split: if_splits)
  obtain n where n: "map_of (g_records g) (tenant_id t, n) = Some r" "dc_id (ar_declaration r) = n" "record_ok g (tenant_id t, n) r"
      "\<forall>code. dataset_uuid dataset code = Inr n" "tenant_account t = dc_uploader (ar_declaration r)"
    using get_datasetD [OF r inv] by blast
  have hist: "history_ok r" "owned g (tenant_id t) r"
    and ins: "ar_state r = Admitted \<Longrightarrow> inspection_ok r \<and> (\<exists>i. ar_inspection r = Some i \<and> inspection_matched i) \<and> ar_control r \<noteq> None \<and> ar_storage r \<noteq> None"
    using n(3) unfolding record_ok_def fst_conv by blast+
  note s1 = transitionD [OF tr]
  have own: "owned g (tenant_id t) r'" using hist(2) owned_same [of r' r] s1 by simp
  have grown: "history_ok r'"
    using hist(1) monotonic_timeD [OF hist(1) time] st s1 by (intro history_grows [of r "last (ar_decisions r')" r']) auto
  have "admission_inv g' \<and> registry_le g g' \<and> map_of (g_records g') (tenant_id t, n) = Some r'"
    using ins [OF st] grown own s1 st n(2) by (intro restore_inv [OF inv n(1)]) (auto simp: g' inspection_ok_def)
  then show ?thesis using s1 n(2,4,5) by simp
qed

section \<open>The registry as a growing system\<close>

inductive admission_step ::
  "(string \<Rightarrow> string) \<Rightarrow> (string \<Rightarrow> string) \<Rightarrow> (string \<Rightarrow> xlsx_policy \<Rightarrow> inspection res) \<Rightarrow> (string \<Rightarrow> zone) \<Rightarrow> registry \<Rightarrow> registry \<Rightarrow> bool"
  for h sha inspect tz where
  declared: "declare_dataset tz t d g = Inr (r, g') \<Longrightarrow> admission_step h sha inspect tz g g'"
| inspected: "inspect_and_validate h sha inspect t dataset payload policy observed g = (result, g') \<Longrightarrow> admission_step h sha inspect tz g g'"
| admitted: "admit_dataset t dataset c s moment g = Inr (r, g') \<Longrightarrow> admission_step h sha inspect tz g g'"
| revoked: "revoke_dataset t dataset reason moment g = Inr (r, g') \<Longrightarrow> admission_step h sha inspect tz g g'"

lemma admission_step_inv: "admission_step h sha inspect tz g g' \<Longrightarrow> admission_inv g \<Longrightarrow> admission_inv g' \<and> registry_le g g'"
  by (induction rule: admission_step.induct) (blast dest: declare_inv inspect_inv admit_inv revoke_inv)+

interpretation admission: monotone_system "admission_step h sha inspect tz" admission_inv registry_le for h sha inspect tz
  by unfold_locales (auto dest: admission_step_inv intro: registry_le_refl registry_le_trans)

abbreviation admissible ::
  "(string \<Rightarrow> string) \<Rightarrow> (string \<Rightarrow> string) \<Rightarrow> (string \<Rightarrow> xlsx_policy \<Rightarrow> inspection res) \<Rightarrow> (string \<Rightarrow> zone) \<Rightarrow> registry \<Rightarrow> bool" where
  "admissible h sha inspect tz g \<equiv> (admission_step h sha inspect tz)\<^sup>*\<^sup>* new_registry g"

lemma admissible_inv: "admissible h sha inspect tz g \<Longrightarrow> admission_inv g"
  by (rule admission.steps_inv [OF _ new_registry_inv])

section \<open>Examples\<close>

text \<open>One dataset that is declared, validated, admitted and revoked.\<close>

definition demo_hash :: string where "demo_hash = replicate 64 CHR ''a''"
definition demo_dataset :: string where "demo_dataset = ''00000000-0000-0000-0000-000000000001''"
definition demo_tenant :: tenant where "demo_tenant = \<lparr>tenant_id = ''T'', tenant_account = ''U'', tenant_profile = ''P''\<rparr>"

definition demo_time :: "nat \<Rightarrow> clock" where
  "demo_time day = Aware \<lparr>dt_year = 2026, dt_month = 1, dt_day = day, dt_hour = 0, dt_minute = 0, dt_second = 0, dt_micro = 0, dt_offset = 0\<rparr>"

definition demo_declaration :: dataset_declaration where
  "demo_declaration = \<lparr>dc_id = demo_dataset, dc_tenant = ''T'', dc_uploader = ''U'', dc_source = ''S'', dc_marketplace = ''M'',
     dc_report = ''R'', dc_start = 1, dc_end = 2, dc_zone = ''UTC'', dc_sha = demo_hash, dc_size = 1, dc_rows = Some 1, dc_totals = None,
     dc_categories = [''C''], dc_sensitivity = PublicData, dc_authority = ''A'', dc_attested = True, dc_retention = demo_time 9, dc_declared = demo_time 1\<rparr>"

definition demo_inspection :: inspection where
  "demo_inspection = \<lparr>n_kind = ''XLSX'', n_original_sha = demo_hash, n_original_size = 1, n_workbook_sha = demo_hash, n_workbook_size = 1,
     n_sheet = ''S'', n_sheet_count = 1, n_header_row = 1, n_header_sha = demo_hash, n_columns = 1, n_rows = 1, n_formulas = 0, n_prohibited = 0,
     n_fingerprint = demo_hash, n_schema = Some ''I'', n_schema_version = Some ''1'', n_schema_authority = Some ''A'', n_diagnostics = []\<rparr>"

definition demo_policy :: xlsx_policy where
  "demo_policy = \<lparr>p_id = ''P'', p_version = 1,
     p_limits = \<lparr>max_file_bytes = 1, max_archive_entries = 1, max_total_uncompressed_bytes = 1, max_entry_uncompressed_bytes = 1,
       max_compression_ratio = 1, max_xml_bytes = 1, max_rows = 1, max_columns = 1\<rparr>, p_schemas = [], p_tokens = []\<rparr>"

definition demo_control :: control_evidence where
  "demo_control = \<lparr>ce_id = ''E'', ce_tenant = ''T'', ce_dataset = demo_dataset, ce_sha = demo_hash, ce_authority = ''A'', ce_start = 1, ce_end = 2,
     ce_zone = ''UTC'', ce_totals = None, ce_policy_hash = demo_hash, ce_workbook_sha = demo_hash, ce_fingerprint = demo_hash, ce_schema = ''I'',
     ce_schema_version = ''1'', ce_schema_authority = ''A'', ce_source_verified = True, ce_period_verified = True, ce_totals_verified = True,
     ce_identifiers_absent = True, ce_malware_clean = True, ce_malware_sha = demo_hash, ce_verified = demo_time 3, ce_verifier = ''V''\<rparr>"

definition demo_storage :: storage_evidence where
  "demo_storage = \<lparr>se_id = ''F'', se_tenant = ''T'', se_dataset = demo_dataset, se_sha = demo_hash, se_key_sha = demo_hash, se_transport = True,
     se_at_rest = True, se_scoped = True, se_immutable = True, se_zones = True, se_privilege = True, se_verified = demo_time 3, se_verifier = ''V''\<rparr>"

definition demo_inspect :: "string \<Rightarrow> xlsx_policy \<Rightarrow> inspection res" where "demo_inspect payload policy = Inr demo_inspection"

definition demo_sha :: "string \<Rightarrow> string" where "demo_sha text = demo_hash"

definition demo_tz :: "string \<Rightarrow> zone" where "demo_tz name = ZoneFound"

text \<open>The four operations in a row.\<close>

lemma demo_run: "case declare_dataset demo_tz demo_tenant demo_declaration new_registry of Inl e \<Rightarrow> False | Inr (r1, g1) \<Rightarrow>
   (case inspect_and_validate demo_sha demo_sha demo_inspect demo_tenant demo_dataset ''x'' demo_policy (demo_time 2) g1 of (r2, g2) \<Rightarrow>
   (case admit_dataset demo_tenant demo_dataset demo_control demo_storage (demo_time 4) g2 of Inl e \<Rightarrow> False | Inr (r3, g3) \<Rightarrow>
   (case revoke_dataset demo_tenant demo_dataset ''R'' (demo_time 5) g3 of Inl e \<Rightarrow> False | Inr (r4, g4) \<Rightarrow>
     dc_id (ar_declaration r3) = demo_dataset)))"
  by code_simp

lemma demo_steps:
  obtains g2 r3 g3 r4 g4 where "admissible demo_sha demo_sha demo_inspect demo_tz g2"
    and "admit_dataset demo_tenant demo_dataset demo_control demo_storage (demo_time 4) g2 = Inr (r3, g3)"
    and "revoke_dataset demo_tenant demo_dataset ''R'' (demo_time 5) g3 = Inr (r4, g4)"
    and "dc_id (ar_declaration r3) = demo_dataset" and "admissible demo_sha demo_sha demo_inspect demo_tz g3"
proof -
  obtain r1 g1 where s1: "declare_dataset demo_tz demo_tenant demo_declaration new_registry = Inr (r1, g1)"
    using demo_run by (cases "declare_dataset demo_tz demo_tenant demo_declaration new_registry") auto
  obtain r2 g2 where s2: "inspect_and_validate demo_sha demo_sha demo_inspect demo_tenant demo_dataset ''x'' demo_policy (demo_time 2) g1 = (r2, g2)"
    by fastforce
  obtain r3 g3 where s3: "admit_dataset demo_tenant demo_dataset demo_control demo_storage (demo_time 4) g2 = Inr (r3, g3)"
    using demo_run s1 s2 by (cases "admit_dataset demo_tenant demo_dataset demo_control demo_storage (demo_time 4) g2") auto
  obtain r4 g4 where s4: "revoke_dataset demo_tenant demo_dataset ''R'' (demo_time 5) g3 = Inr (r4, g4)"
    using demo_run s1 s2 s3 by (cases "revoke_dataset demo_tenant demo_dataset ''R'' (demo_time 5) g3") auto
  have "dc_id (ar_declaration r3) = demo_dataset" using demo_run s1 s2 s3 s4 by simp
  moreover have "admissible demo_sha demo_sha demo_inspect demo_tz g2"
    using admission_step.declared [OF s1] admission_step.inspected [OF s2] by (meson rtranclp.rtrancl_refl rtranclp.rtrancl_into_rtrancl)
  moreover from this have "admissible demo_sha demo_sha demo_inspect demo_tz g3"
    using admission_step.admitted [OF s3] by (meson rtranclp.rtrancl_into_rtrancl)
  ultimately show thesis using that s3 s4 by blast
qed

section \<open>Properties\<close>

text \<open>
  In every reachable registry the history of a record is a run of the state machine: it starts
  declared, each decision leads to an allowed next state (or stays quarantined) no earlier than
  the one before, and the last decision carries the state of the record.
\<close>

theorem admission_history:
  assumes "admissible h sha inspect tz g" and "map_of (g_records g) (t, n) = Some r"
  shows "ar_decisions r \<noteq> [] \<and> ad_state (hd (ar_decisions r)) = Declared \<and> successively decision_flow (ar_decisions r) \<and>
    ad_state (last (ar_decisions r)) = ar_state r"
proof -
  have "record_ok g (t, n) r" using admissible_inv [OF assms(1)] assms(2) unfolding admission_inv_def by blast
  then show ?thesis unfolding record_ok_def history_ok_def by blast
qed

theorem admission_history_witness:
  "\<exists>(g :: registry) (r :: admission_record). map_of (g_records g) (''T'', demo_dataset) = Some r \<and> ad_state (hd (ar_decisions r)) = Declared"
proof -
  obtain g2 r3 g3 where g: "admissible demo_sha demo_sha demo_inspect demo_tz g2" "admissible demo_sha demo_sha demo_inspect demo_tz g3"
    and s: "admit_dataset demo_tenant demo_dataset demo_control demo_storage (demo_time 4) g2 = Inr (r3, g3)"
    and id: "dc_id (ar_declaration r3) = demo_dataset" by (rule demo_steps)
  have "map_of (g_records g3) (''T'', demo_dataset) = Some r3"
    using admit_inv [OF admissible_inv [OF g(1)] s] id by (simp add: demo_tenant_def)
  with admission_history [OF g(2) this] show ?thesis by blast
qed

text \<open>
  C20: a dataset is admitted only on complete, independent, matching and current evidence. Its last
  decision validated it; both sets of controls are complete and vouched for by someone other than
  the uploader; they name this dataset, its file, period, policy, workbook and schema; they were
  verified after the validation and before the admission; the retention deadline has not passed.
\<close>

theorem admission_needs_evidence:
  assumes "admissible h sha inspect tz g" and "admit_dataset t dataset c s admitted g = Inr (r', g')"
  shows "\<exists>r moment cv sv. get_dataset t dataset g = Inr r \<and> ar_state r = Validated \<and> ad_state (last (ar_decisions r)) = Validated \<and>
    control_complete c \<and> storage_complete s \<and> evidence_bound r c s \<and>
    (\<forall>code. utc_instant admitted code = Inr moment \<and> utc_instant (ce_verified c) code = Inr cv \<and> utc_instant (se_verified s) code = Inr sv) \<and>
    ad_at (last (ar_decisions r)) \<le> cv \<and> cv \<le> moment \<and> ad_at (last (ar_decisions r)) \<le> sv \<and> sv \<le> moment \<and>
    (\<exists>retention. utc_instant (dc_retention (ar_declaration r)) [] = Inr retention \<and> moment < retention)"
  using assms(2)
proof (rule admitD)
  fix r moment
  assume at: "utc_instant admitted ''DATASET_ADMISSION_TIMEZONE_REQUIRED'' = Inr moment" and full: "control_complete c" "storage_complete s"
    and r: "get_dataset t dataset g = Inr r" and fin: "finalize_validated_record t r c s moment g = Inr (r', g')"
  have hist: "history_ok r" using get_datasetD [OF r admissible_inv [OF assms(1)]] unfolding record_ok_def by blast
  from fin obtain retention where f: "ar_state r = Validated" "moment < retention"
      "utc_instant (dc_retention (ar_declaration r)) ''DATASET_RETENTION_TIMEZONE_REQUIRED'' = Inr retention"
      "require_evidence_binding r c s = Inr ()" "require_evidence_times r c s moment = Inr ()" by (rule finalizeD)
  have code: "utc_instant v code = Inr x \<Longrightarrow> utc_instant v code' = Inr x" for v code x code'
    by (auto simp: utc_instant_def split: clock.splits)
  from hist f(1) have "ad_state (last (ar_decisions r)) = Validated" by (simp add: history_ok_def)
  with evidence_timesD [OF f(5) hist] evidence_bindingD [OF f(4)] r f(1,2) full code [OF f(3)] code [OF at]
  show ?thesis by blast
qed

theorem admission_needs_evidence_witness:
  "\<exists>r. ar_state r = Validated \<and> evidence_bound r demo_control demo_storage"
  by (rule demo_steps) (use admission_needs_evidence in blast)

definition source_key :: "string \<Rightarrow> dataset_declaration \<Rightarrow> source_identity" where
  "source_key t d = (t, dc_uploader d, dc_marketplace d, dc_report d, dc_source d, dc_start d, dc_end d)"

lemma ownedD:
  assumes "owned g t r"
  shows "map_of (g_originals g) (t, dc_sha (ar_declaration r)) = Some (dc_id (ar_declaration r))"
    and "map_of (g_sources g) (source_key t (ar_declaration r)) = Some (dc_id (ar_declaration r))"
    and "ar_inspection r = Some i \<Longrightarrow> map_of (g_workbooks g) (t, n_workbook_sha i) = Some (dc_id (ar_declaration r))"
    and "ar_control r = Some c \<Longrightarrow> map_of (g_controls g) (t, c) = Some (dc_id (ar_declaration r))"
    and "ar_storage r = Some c \<Longrightarrow> map_of (g_storages g) (t, c) = Some (dc_id (ar_declaration r))"
  using assms by (simp_all add: owned_def Let_def source_key_def)

text \<open>
  C21: nothing is replayed. Two datasets of one tenant never come from the same original file or
  the same source and period; no two have been matched with the same workbook; and no piece of
  evidence has admitted two.
\<close>

theorem datasets_never_share:
  assumes "admissible h sha inspect tz g" and "map_of (g_records g) (t, m) = Some r" and "map_of (g_records g) (t, n) = Some s" and "m \<noteq> n"
  shows "dc_sha (ar_declaration r) \<noteq> dc_sha (ar_declaration s) \<and>
    (\<forall>i j. ar_inspection r = Some i \<longrightarrow> ar_inspection s = Some j \<longrightarrow> n_workbook_sha i \<noteq> n_workbook_sha j) \<and>
    (ar_control r \<noteq> None \<longrightarrow> ar_control r \<noteq> ar_control s) \<and> (ar_storage r \<noteq> None \<longrightarrow> ar_storage r \<noteq> ar_storage s) \<and>
    (dc_uploader (ar_declaration r), dc_marketplace (ar_declaration r), dc_report (ar_declaration r), dc_source (ar_declaration r),
       dc_start (ar_declaration r), dc_end (ar_declaration r)) \<noteq>
    (dc_uploader (ar_declaration s), dc_marketplace (ar_declaration s), dc_report (ar_declaration s), dc_source (ar_declaration s),
       dc_start (ar_declaration s), dc_end (ar_declaration s))"
proof -
  have "record_ok g (t, m) r" "record_ok g (t, n) s"
    using admissible_inv [OF assms(1)] assms(2,3) unfolding admission_inv_def by blast+
  then have own: "owned g t r" "owned g t s" and id: "dc_id (ar_declaration r) = m" "dc_id (ar_declaration s) = n"
    unfolding record_ok_def fst_conv prod.inject by blast+
  note r = ownedD [OF own(1), unfolded id] and s = ownedD [OF own(2), unfolded id] and ne = assms(4)
  have "dc_sha (ar_declaration r) \<noteq> dc_sha (ar_declaration s)" using r(1) s(1) ne by auto
  moreover have "n_workbook_sha i \<noteq> n_workbook_sha j" if "ar_inspection r = Some i" "ar_inspection s = Some j" for i j
    using r(3) [OF that(1)] s(3) [OF that(2)] ne by auto
  moreover have "ar_control r \<noteq> ar_control s" if "ar_control r \<noteq> None" using that r(4) s(4) ne by fastforce
  moreover have "ar_storage r \<noteq> ar_storage s" if "ar_storage r \<noteq> None" using that r(5) s(5) ne by fastforce
  moreover have "source_key t (ar_declaration r) \<noteq> source_key t (ar_declaration s)" using r(2) s(2) ne by auto
  ultimately show ?thesis by (simp add: source_key_def)
qed

definition demo_other :: dataset_declaration where
  "demo_other = demo_declaration\<lparr>dc_id := ''00000000-0000-0000-0000-000000000002'', dc_source := ''S2'', dc_sha := replicate 64 CHR ''b''\<rparr>"

lemma demo_pair: "case declare_dataset demo_tz demo_tenant demo_declaration new_registry of Inl e \<Rightarrow> False | Inr (r1, g1) \<Rightarrow>
   (case declare_dataset demo_tz demo_tenant demo_other g1 of Inl e \<Rightarrow> False | Inr (r2, g2) \<Rightarrow>
     map_of (g_records g2) (''T'', demo_dataset) \<noteq> None \<and> map_of (g_records g2) (''T'', ''00000000-0000-0000-0000-000000000002'') \<noteq> None)"
  by code_simp

theorem datasets_never_share_witness: "\<exists>(g :: registry) m n (r :: admission_record) s. m \<noteq> n \<and> map_of (g_records g) (''T'', m) = Some r \<and>
    map_of (g_records g) (''T'', n) = Some s \<and> dc_sha (ar_declaration r) \<noteq> dc_sha (ar_declaration s)"
proof -
  obtain r1 g1 where s1: "declare_dataset demo_tz demo_tenant demo_declaration new_registry = Inr (r1, g1)"
    using demo_pair by (cases "declare_dataset demo_tz demo_tenant demo_declaration new_registry") auto
  obtain r2 g2 where s2: "declare_dataset demo_tz demo_tenant demo_other g1 = Inr (r2, g2)"
    using demo_pair s1 by (cases "declare_dataset demo_tz demo_tenant demo_other g1") auto
  have reach: "admissible demo_sha demo_sha demo_inspect demo_tz g2"
    using admission_step.declared [OF s1] admission_step.declared [OF s2] by (meson rtranclp.rtrancl_refl rtranclp.rtrancl_into_rtrancl)
  obtain r s where rs: "map_of (g_records g2) (''T'', demo_dataset) = Some r"
      "map_of (g_records g2) (''T'', ''00000000-0000-0000-0000-000000000002'') = Some s"
    using demo_pair s1 s2 by auto
  have ne: "demo_dataset \<noteq> ''00000000-0000-0000-0000-000000000002''" by (simp add: demo_dataset_def)
  from datasets_never_share [OF reach rs ne] rs ne show ?thesis by blast
qed

text \<open>
  C22: a revoked dataset is never served again: whatever happens afterwards, at whatever time it is
  asked for, access is refused.
\<close>

theorem revoked_stays_revoked:
  assumes "admissible h sha inspect tz g" and "revoke_dataset t dataset reason revoked g = Inr (r, g1)"
    and "(admission_step h sha inspect tz)\<^sup>*\<^sup>* g1 g2"
  shows "require_admitted t dataset (Aware now) g2 = admission_error ''DATASET_NOT_ADMITTED'' \<and> get_dataset t dataset g2 = Inr r"
proof -
  note rev = revoke_inv [OF admissible_inv [OF assms(1)] assms(2)]
  then have "registry_le g1 g2" using admission.steps_before [OF assms(3)] by blast
  with rev obtain s where "map_of (g_records g2) (tenant_id t, dc_id (ar_declaration r)) = Some s" "record_le r s"
    unfolding registry_le_def by blast
  moreover from this rev have "s = r" by (simp add: record_le_def)
  ultimately have "get_dataset t dataset g2 = Inr r" using rev by (simp add: get_dataset_def)
  with rev show ?thesis by (simp add: require_admitted_def utc_instant_def)
qed

theorem revoked_stays_revoked_witness:
  "\<exists>g. require_admitted demo_tenant demo_dataset (demo_time 6) g = admission_error ''DATASET_NOT_ADMITTED''"
  by (rule demo_steps) (use revoked_stays_revoked [OF _ _ rtranclp.rtrancl_refl] demo_time_def in metis)

end
