(* ===== verification/PyIso.thy ===== *)
theory PyIso imports PyTime begin

text \<open>
  \<open>datetime.fromisoformat\<close> of the standard library on arbitrary text. Where the program first
  matches a pattern, \<open>parse_datetime\<close> is enough; the evidence and reporting layers hand it any
  text. The scanner works on the UTF-8 bytes: it accepts extended and basic dates, ISO weeks,
  any separator, a clock of one to three fields with a fraction, and an offset. Only aware
  results matter to the program, and of those only the instant.
\<close>

definition utf8 :: "string \<Rightarrow> string" where
  "utf8 s = concat (map (\<lambda>c. if ch c < 128 then [c] else [char_of (192 + ch c div 64), char_of (128 + ch c mod 64)]) s)"

section \<open>The date\<close>

text \<open>Where the date ends; \<open>None\<close> when no format fits. The text has at least seven bytes.\<close>

definition iso_separator :: "string \<Rightarrow> nat option" where
  "iso_separator s =
     (let n = length s in
      if n = 7 then Some 7
      else if s ! 4 = CHR ''-'' then
        (if s ! 5 = CHR ''W'' then
           (if n > 8 \<and> s ! 8 = CHR ''-'' then
              (if n = 9 then None else if n > 10 \<and> is_digit (s ! 10) then Some 8 else Some 10)
            else Some 8)
         else Some 10)
      else if s ! 4 = CHR ''W'' then
        (let p = 7 + length (takeWhile is_digit (drop 7 s)) in
         if p < 9 then Some p else if even p then Some 7 else Some 8)
      else Some 8)"

text \<open>The ordinal of a calendar date, and of a day of an ISO week.\<close>

definition calendar_day :: "nat \<Rightarrow> nat \<Rightarrow> nat \<Rightarrow> nat option" where
  "calendar_day y m d =
     (if 1 \<le> y \<and> y \<le> 9999 \<and> 1 \<le> m \<and> m \<le> 12 \<and> 1 \<le> d \<and> d \<le> days_in_month y m
      then Some (ordinal y m d) else None)"

definition iso_week_one :: "nat \<Rightarrow> nat" where
  "iso_week_one y =
     (let first = ordinal y 1 1; weekday = (first + 6) mod 7 in
      if weekday > 3 then first + 7 - weekday else first - weekday)"

definition long_iso_year :: "nat \<Rightarrow> bool" where
  "long_iso_year y \<longleftrightarrow> (let weekday = ordinal y 1 1 mod 7 in weekday = 4 \<or> weekday = 3 \<and> leap_year y)"

definition week_day :: "nat \<Rightarrow> nat \<Rightarrow> nat \<Rightarrow> nat option" where
  "week_day y w d =
     (if 1 \<le> y \<and> y \<le> 9999 \<and> 1 \<le> w \<and> (w \<le> 52 \<or> w = 53 \<and> long_iso_year y) \<and> 1 \<le> d \<and> d \<le> 7
      then let n = iso_week_one y + (w - 1) * 7 + (d - 1) in
           if n \<le> ordinal 9999 12 31 then Some n else None
      else None)"

text \<open>A dash where the format has one, nothing otherwise.\<close>

definition dash_if :: "bool \<Rightarrow> string \<Rightarrow> string option" where
  "dash_if sep s = (if sep then expect CHR ''-'' s else Some s)"

definition iso_date :: "string \<Rightarrow> nat option" where
  "iso_date s = do {
     (y, r) \<leftarrow> digits 4 s;
     let sep = (r \<noteq> [] \<and> hd r = CHR ''-'');
     r \<leftarrow> dash_if sep r;
     (if r \<noteq> [] \<and> hd r = CHR ''W'' then do {
        (w, r) \<leftarrow> digits 2 (tl r);
        (if r = [] then week_day y w 1
         else do {
           r \<leftarrow> dash_if sep r; (d, r) \<leftarrow> digits 1 r;
           (if r = [] then week_day y w d else None) })
      } else do {
        (m, r) \<leftarrow> digits 2 r; r \<leftarrow> dash_if sep r; (d, r) \<leftarrow> digits 2 r;
        (if r = [] then calendar_day y m d else None) }) }"

section \<open>The clock\<close>

text \<open>
  The clock fields, the microseconds, and whether text is left over. \<open>tail\<close> tells that text
  follows the clock; a NUL byte ends the text.
\<close>

definition iso_fraction :: "bool \<Rightarrow> string \<Rightarrow> (nat list \<times> nat \<times> bool) option" where
  "iso_fraction tail s = do {
     let k = min 6 (length s);
     (us, r) \<leftarrow> digits k s;
     let rest = dropWhile is_digit r;
     Some ([], us * 10 ^ (6 - k), if rest = [] then tail else hd rest \<noteq> CHR 0x00) }"

fun iso_fields :: "nat \<Rightarrow> bool \<Rightarrow> bool \<Rightarrow> bool \<Rightarrow> string \<Rightarrow> (nat list \<times> nat \<times> bool) option" where
  "iso_fields 0 first sep tail s = iso_fraction tail s"
| "iso_fields (Suc n) first sep tail s =
     (case digits 2 s of
        None \<Rightarrow> None
      | Some (v, []) \<Rightarrow> Some ([v], 0, tail)
      | Some (v, [c]) \<Rightarrow> Some ([v], 0, c \<noteq> CHR 0x00)
      | Some (v, c # r) \<Rightarrow>
          (let sep' = (if first then c = CHR '':'' else sep) in
           map_option (\<lambda>(vs, rest). (v # vs, rest))
             (if sep' \<and> c = CHR '':'' then iso_fields n False sep' tail r
              else if c = CHR ''.'' \<or> c = CHR '','' then iso_fraction tail r
              else if \<not> sep' then iso_fields n False sep' tail (c # r)
              else None)))"

record iso_clock =
  ic_hour :: nat
  ic_minute :: nat
  ic_second :: nat
  ic_micro :: nat
  ic_left :: bool

definition read_clock :: "bool \<Rightarrow> string \<Rightarrow> iso_clock option" where
  "read_clock tail s = map_option (\<lambda>(vs, us, left).
     let field = (\<lambda>i. if i < length vs then vs ! i else 0) in
     \<lparr>ic_hour = field 0, ic_minute = field 1, ic_second = field 2, ic_micro = us, ic_left = left\<rparr>)
     (iso_fields 3 True True tail s)"

definition clock_micros :: "iso_clock \<Rightarrow> int" where
  "clock_micros c = int ((ic_hour c * 3600 + ic_minute c * 60 + ic_second c) * 1000000 + ic_micro c)"

definition clock_in_range :: "iso_clock \<Rightarrow> bool" where
  "clock_in_range c \<longleftrightarrow> ic_hour c \<le> 23 \<and> ic_minute c \<le> 59 \<and> ic_second c \<le> 59"

text \<open>The clock and the offset in microseconds; \<open>None\<close> also when there is no offset.\<close>

definition iso_time :: "string \<Rightarrow> (iso_clock \<times> int) option" where
  "iso_time s =
     (let is_zone = (\<lambda>c. c = CHR ''+'' \<or> c = CHR ''-'' \<or> c = CHR ''Z'');
          t = takeWhile (\<lambda>c. \<not> is_zone c) s; r = dropWhile (\<lambda>c. \<not> is_zone c) s in
      case (read_clock (r \<noteq> []) t, r) of
        (Some c, z # zone) \<Rightarrow>
          if z = CHR ''Z'' then (if zone = [] \<or> hd zone = CHR 0x00 then Some (c, 0) else None)
          else (case read_clock False zone of
              None \<Rightarrow> None
            | Some o' \<Rightarrow> if ic_left o' then None
                else Some (c, (if z = CHR ''-'' then -1 else 1) * clock_micros o'))
      | _ \<Rightarrow> None)"

text \<open>
  The instant of \<open>datetime.fromisoformat(text)\<close> in microseconds, when the text is accepted and
  the result is aware.
\<close>

definition aware_instant :: "string \<Rightarrow> int option" where
  "aware_instant s =
     (let b = utf8 s in
      if length b < 7 then None
      else do {
        p \<leftarrow> iso_separator b;
        day \<leftarrow> iso_date (take p b);
        (case drop p b of
           [] \<Rightarrow> None
         | c # r \<Rightarrow> do {
             (t, off) \<leftarrow> iso_time (if ch c < 128 then r else drop 1 r);
             (if clock_in_range t \<and> \<bar>off\<bar> < 86400000000
              then Some (int day * 86400000000 + clock_micros t - off) else None) }) })"

end
