(* ===== verification/Evidence.thy ===== *)
theory Evidence imports Common PyIso PyParse begin

text \<open>
  \<open>evidence/verification.py\<close> and \<open>evidence/runtime_validation.py\<close>: the verifier of evidence
  chains, graphs that tie a published metric to the rules, events and files it comes from, and
  the verifier of metric snapshots. Both collect diagnostics; no diagnostic means accepted.
  Documents are JSON. SHA-256 is \<open>h\<close> on text and \<open>sha\<close> on bytes; the source loader is an
  argument.
\<close>

section \<open>Diagnostics and shapes\<close>

text \<open>\<open>_append\<close>\<close>

definition report :: "string \<Rightarrow> string list \<Rightarrow> string list" where
  "report code errors = (if List.member errors code then errors else errors @ [code])"

definition report_if :: "bool \<Rightarrow> string \<Rightarrow> string list \<Rightarrow> string list" where
  "report_if failed code errors = (if failed then report code errors else errors)"

definition is_allowed_string :: "json \<Rightarrow> string list \<Rightarrow> bool" where
  "is_allowed_string v allowed = (case v of JStr s \<Rightarrow> List.member allowed s | _ \<Rightarrow> False)"

definition is_hash :: "json \<Rightarrow> bool" where
  "is_hash v = (case v of JStr s \<Rightarrow> hash_re s | _ \<Rightarrow> False)"

definition is_mapping :: "json \<Rightarrow> bool" where
  "is_mapping v = (case v of JObj _ \<Rightarrow> True | _ \<Rightarrow> False)"

text \<open>\<open>datetime.fromisoformat(value.replace("Z", "+00:00"))\<close>, kept when it is aware.\<close>

definition evidence_datetime :: "json \<Rightarrow> int option" where
  "evidence_datetime v = (case v of JStr s \<Rightarrow> aware_instant (replace_all ''Z'' ''+00:00'' s) | _ \<Rightarrow> None)"

definition valid_datetime_text :: "json \<Rightarrow> bool" where
  "valid_datetime_text v \<longleftrightarrow> evidence_datetime v \<noteq> None"

definition valid_ref :: "bool \<Rightarrow> json \<Rightarrow> bool" where
  "valid_ref chain_locator v = (case v of
     JObj d \<Rightarrow> keys_are d (if chain_locator then [''id'', ''version''] else [''id'', ''version'', ''content_hash'']) \<and>
       is_nonempty_string (dget d ''id'') \<and> is_positive_int (dget d ''version'') \<and>
       (chain_locator \<or> is_hash (dget d ''content_hash''))
   | _ \<Rightarrow> False)"

text \<open>\<open>_canonical_hash\<close>; \<open>None\<close> when \<open>json.dumps\<close> raises.\<close>

definition evidence_hash :: "(string \<Rightarrow> string) \<Rightarrow> dict \<Rightarrow> string list \<Rightarrow> string option" where
  "evidence_hash h document excluded =
     (let payload = JObj (filter (\<lambda>p. \<not> List.member excluded (fst p)) document) in
      if json_ok payload then Some (h (json_text payload)) else None)"

text \<open>The check of a document against its own \<open>content_hash\<close>.\<close>

definition check_hash :: "(string \<Rightarrow> string) \<Rightarrow> dict \<Rightarrow> string \<Rightarrow> string \<Rightarrow> string list \<Rightarrow> string list" where
  "check_hash h d mismatch malformed errors =
     (let supplied = dget d ''content_hash'' in
      if \<not> is_hash supplied then report mismatch errors
      else (case evidence_hash h d [''content_hash''] of
          None \<Rightarrow> report malformed errors
        | Some x \<Rightarrow> report_if (supplied \<noteq> JStr x) mismatch errors))"

section \<open>Cycles and reachability\<close>

type_synonym adjacency = "(string \<times> string list) list"

datatype colour = White | Grey | Black

definition targets_of :: "adjacency \<Rightarrow> string \<Rightarrow> string list" where
  "targets_of adj v = (case map_of adj v of None \<Rightarrow> [] | Some ts \<Rightarrow> ts)"

definition graph_nodes :: "adjacency \<Rightarrow> string list" where
  "graph_nodes adj = map fst adj @ concat (map snd adj)"

definition unvisited :: "adjacency \<Rightarrow> (string \<Rightarrow> colour) \<Rightarrow> nat" where
  "unvisited adj state = card {v \<in> set (graph_nodes adj). state v = White}"

lemma targets_in_graph: "t \<in> set (targets_of adj v) \<Longrightarrow> t \<in> set (graph_nodes adj)"
proof (cases "map_of adj v")
  case (Some ts)
  assume "t \<in> set (targets_of adj v)"
  with Some have "t \<in> set ts" by (simp add: targets_of_def)
  then show ?thesis using map_of_SomeD [OF Some] by (force simp: graph_nodes_def)
qed (simp add: targets_of_def)

lemma unvisited_less:
  assumes "t \<in> set (targets_of adj v)" and "state t = White"
  shows "unvisited adj (state(t := Grey)) < unvisited adj state"
  unfolding unvisited_def using assms targets_in_graph [OF assms(1)]
  by (intro psubset_card_mono) (auto split: if_splits)

lemma unvisited_black: "unvisited adj (state(v := Black)) \<le> unvisited adj state"
  unfolding unvisited_def by (intro card_mono) (auto split: if_splits)

text \<open>The inner loop of \<open>_has_cycle\<close>; the top of its stack is the head of the list.\<close>

function visit :: "adjacency \<Rightarrow> (string \<times> nat) list \<Rightarrow> (string \<Rightarrow> colour) \<Rightarrow> bool \<times> (string \<Rightarrow> colour)" where
  "visit adj [] state = (False, state)"
| "visit adj ((v, i) # stack) state =
     (let ts = targets_of adj v in
      if length ts \<le> i then visit adj stack (state(v := Black))
      else (case state (ts ! i) of
          Grey \<Rightarrow> (True, state)
        | White \<Rightarrow> visit adj ((ts ! i, 0) # (v, i + 1) # stack) (state(ts ! i := Grey))
        | Black \<Rightarrow> visit adj ((v, i + 1) # stack) state))"
  by pat_completeness auto
termination
proof (relation "measures [\<lambda>(adj, stack, state). unvisited adj state,
    \<lambda>(adj, stack, state). sum_list (map (\<lambda>(v, i). Suc (length (targets_of adj v) - i)) stack)]", goal_cases)
  case (2 adj v i stack state ts)
  then show ?case using unvisited_black [of adj state v] by (auto simp: le_less)
next
  case (3 adj v i stack state ts)
  then have "ts ! i \<in> set (targets_of adj v)" by simp
  with 3 have "unvisited adj (state(ts ! i := Grey)) < unvisited adj state" by (metis unvisited_less)
  then show ?case by simp
qed auto

text \<open>\<open>_has_cycle\<close>\<close>

fun has_cycle_from :: "adjacency \<Rightarrow> string list \<Rightarrow> (string \<Rightarrow> colour) \<Rightarrow> bool" where
  "has_cycle_from adj [] state = False"
| "has_cycle_from adj (v # vs) state =
     (if state v \<noteq> White then has_cycle_from adj vs state
      else (case visit adj [(v, 0)] (state(v := Grey)) of
          (True, _) \<Rightarrow> True
        | (False, state') \<Rightarrow> has_cycle_from adj vs state'))"

definition has_cycle :: "adjacency \<Rightarrow> bool" where
  "has_cycle adj = has_cycle_from adj (map fst adj) (\<lambda>_. White)"

text \<open>The nodes a path leads to, by depth-first search.\<close>

function reach_from :: "adjacency \<Rightarrow> string list \<Rightarrow> string list \<Rightarrow> string list" where
  "reach_from adj [] reached = reached"
| "reach_from adj (v # stack) reached =
     (if List.member reached v then reach_from adj stack reached
      else reach_from adj (rev (targets_of adj v) @ stack) (v # reached))"
  by pat_completeness auto
termination
proof (relation "measures [\<lambda>(adj, stack, reached). card (set (map fst adj) - set reached),
    \<lambda>(adj, stack, reached). length stack]", goal_cases)
  case (3 adj v stack reached)
  show ?case
  proof (cases "v \<in> set (map fst adj)")
    case True
    then have "card (set (map fst adj) - set (v # reached)) < card (set (map fst adj) - set reached)"
      using 3 by (intro psubset_card_mono) auto
    then show ?thesis by simp
  next
    case False
    then have "targets_of adj v = []" by (force simp: targets_of_def split: option.splits dest: map_of_SomeD)
    moreover have "set (map fst adj) - set (v # reached) = set (map fst adj) - set reached" using False by auto
    ultimately show ?thesis by simp
  qed
qed auto

section \<open>Chains: header and nodes\<close>

definition graph_keys :: "string list" where
  "graph_keys = [''evidence_chain_id'', ''version'', ''content_hash'', ''organization_id'', ''mode'',
     ''scenario_id'', ''root_metric_snapshot_ref'', ''nodes'', ''edges'', ''actor'', ''reason'',
     ''trace_id'', ''created_at'']"

definition node_keys :: "string list" where
  "node_keys = [''node_id'', ''node_type'', ''artifact_ref'', ''organization_id'', ''mode'',
     ''scenario_id'', ''metadata'']"

definition edge_keys :: "string list" where
  "edge_keys = [''from_node_id'', ''to_node_id'', ''edge_type'', ''sequence'']"

definition node_types :: "string list" where
  "node_types = [''METRIC_SNAPSHOT'', ''METRIC_DEFINITION'', ''CALCULATION_PROFILE'',
     ''RULE_RESOLUTION'', ''CONFIGURATION_RULE'', ''ROUNDING_POLICY'', ''SOURCE_AUTHORITY'',
     ''PRODUCT_MASTER'', ''TRANSFORMATION'', ''CANONICAL_EVENT'', ''SOURCE_RECORD'', ''SOURCE_FILE'',
     ''FRESHNESS_ASSESSMENT'', ''CONFIDENCE_ASSESSMENT'', ''RECONCILIATION_RESULT'', ''APPROVAL'']"

text \<open>The node types an edge type connects; no source type means any.\<close>

definition edge_signatures :: "(string \<times> string option \<times> string) list" where
  "edge_signatures =
     [(''RESULT_DEFINED_BY'', Some ''METRIC_SNAPSHOT'', ''METRIC_DEFINITION''),
      (''RESULT_CALCULATED_WITH'', Some ''METRIC_SNAPSHOT'', ''CALCULATION_PROFILE''),
      (''RESULT_USES_RESOLUTION'', Some ''METRIC_SNAPSHOT'', ''RULE_RESOLUTION''),
      (''RESOLUTION_SELECTS_RULE'', Some ''RULE_RESOLUTION'', ''CONFIGURATION_RULE''),
      (''PROFILE_SELECTS_RULE'', Some ''CALCULATION_PROFILE'', ''CONFIGURATION_RULE''),
      (''PROFILE_USES_ROUNDING'', Some ''CALCULATION_PROFILE'', ''ROUNDING_POLICY''),
      (''PROFILE_USES_SOURCE_AUTHORITY'', Some ''CALCULATION_PROFILE'', ''SOURCE_AUTHORITY''),
      (''RESULT_DERIVED_FROM_EVENT'', Some ''METRIC_SNAPSHOT'', ''CANONICAL_EVENT''),
      (''EVENT_NORMALIZED_FROM_RECORD'', Some ''CANONICAL_EVENT'', ''SOURCE_RECORD''),
      (''RECORD_READ_FROM_FILE'', Some ''SOURCE_RECORD'', ''SOURCE_FILE''),
      (''RESULT_USES_TRANSFORMATION'', Some ''METRIC_SNAPSHOT'', ''TRANSFORMATION''),
      (''RESULT_USES_PRODUCT_MASTER'', Some ''METRIC_SNAPSHOT'', ''PRODUCT_MASTER''),
      (''RESULT_HAS_FRESHNESS'', Some ''METRIC_SNAPSHOT'', ''FRESHNESS_ASSESSMENT''),
      (''RESULT_HAS_CONFIDENCE'', Some ''METRIC_SNAPSHOT'', ''CONFIDENCE_ASSESSMENT''),
      (''RESULT_RECONCILED_BY'', Some ''METRIC_SNAPSHOT'', ''RECONCILIATION_RESULT''),
      (''ARTIFACT_APPROVED_BY'', None, ''APPROVAL''),
      (''SNAPSHOT_SUPERSEDES'', Some ''METRIC_SNAPSHOT'', ''METRIC_SNAPSHOT''),
      (''SNAPSHOT_RESTATES'', Some ''METRIC_SNAPSHOT'', ''METRIC_SNAPSHOT'')]"

text \<open>Several checks, each with the diagnostic of its failure, in their order.\<close>

definition report_all :: "(bool \<times> string) list \<Rightarrow> string list \<Rightarrow> string list" where
  "report_all checks errors = foldl (\<lambda>e (failed, code). report_if failed code e) errors checks"

definition mode_contaminated :: "dict \<Rightarrow> bool" where
  "mode_contaminated g =
     (let mode = dget g ''mode''; scenario = dget g ''scenario_id'' in
      \<not> is_allowed_string mode [''ACTUAL'', ''SCENARIO''] \<or>
      mode = JStr ''ACTUAL'' \<and> scenario \<noteq> JNull \<or>
      mode = JStr ''SCENARIO'' \<and> \<not> is_nonempty_string scenario)"

definition report_ref :: "json \<Rightarrow> string list \<Rightarrow> string list" where
  "report_ref ref errors =
     (if valid_ref False ref then errors
      else (case ref of
          JObj d \<Rightarrow> report (if is_positive_int (dget d ''version'') then ''EVIDENCE_HASH_MISMATCH''
                           else ''EVIDENCE_VERSION_INVALID'') errors
        | _ \<Rightarrow> report ''EVIDENCE_HASH_MISMATCH'' errors))"

definition header_errors :: "(string \<Rightarrow> string) \<Rightarrow> dict \<Rightarrow> string list" where
  "header_errors h g =
     report_ref (dget g ''root_metric_snapshot_ref'')
       (check_hash h g ''EVIDENCE_HASH_MISMATCH'' ''EVIDENCE_MALFORMED''
         (report_all
           [(\<not> keys_are g graph_keys, ''EVIDENCE_MALFORMED''),
            (\<not> is_nonempty_string (dget g ''evidence_chain_id''), ''EVIDENCE_MALFORMED''),
            (\<not> is_positive_int (dget g ''version''), ''EVIDENCE_VERSION_INVALID''),
            (\<not> is_nonempty_string (dget g ''organization_id''), ''EVIDENCE_TENANT_MISMATCH''),
            (mode_contaminated g, ''EVIDENCE_MODE_CONTAMINATION''),
            (\<not> is_nonempty_string (dget g ''actor''), ''EVIDENCE_MALFORMED''),
            (\<not> is_nonempty_string (dget g ''reason''), ''EVIDENCE_MALFORMED''),
            (\<not> is_nonempty_string (dget g ''trace_id''), ''EVIDENCE_MALFORMED''),
            (\<not> valid_datetime_text (dget g ''created_at''), ''EVIDENCE_TIMESTAMP_INVALID'')] []))"

type_synonym nodes = "(string \<times> dict) list"

definition node_errors :: "dict \<Rightarrow> dict \<Rightarrow> string list \<Rightarrow> string list" where
  "node_errors g d errors =
     (let mode = dget g ''mode'' in
      report_all
        [(\<not> py_eq (dget d ''organization_id'') (dget g ''organization_id''), ''EVIDENCE_TENANT_MISMATCH''),
         (\<not> py_eq (dget d ''mode'') mode \<or>
          mode = JStr ''ACTUAL'' \<and> dget d ''scenario_id'' \<noteq> JNull \<or>
          mode = JStr ''SCENARIO'' \<and> \<not> py_eq (dget d ''scenario_id'') (dget g ''scenario_id''),
          ''EVIDENCE_MODE_CONTAMINATION''),
         (\<not> is_mapping (dget d ''metadata''), ''EVIDENCE_MALFORMED'')]
        (report_ref (dget d ''artifact_ref'')
          (report_if (\<not> is_allowed_string (dget d ''node_type'') node_types) ''EVIDENCE_NODE_TYPE_INVALID'' errors)))"

definition add_node :: "dict \<Rightarrow> json \<Rightarrow> nodes \<times> string list \<Rightarrow> nodes \<times> string list" where
  "add_node g raw s =
     (case s of (nodes, errors) \<Rightarrow>
      case raw of
        JObj d \<Rightarrow>
          if \<not> keys_are d node_keys then (nodes, report ''EVIDENCE_MALFORMED'' errors)
          else if \<not> is_nonempty_string (dget d ''node_id'') then (nodes, report ''EVIDENCE_NODE_MISSING'' errors)
          else let node_id = jstr (dget d ''node_id'') in
            if map_of nodes node_id \<noteq> None then (nodes, report ''EVIDENCE_NODE_DUPLICATE'' errors)
            else (nodes @ [(node_id, d)], node_errors g d errors)
      | _ \<Rightarrow> (nodes, report ''EVIDENCE_MALFORMED'' errors))"

definition read_nodes :: "dict \<Rightarrow> string list \<Rightarrow> nodes \<times> string list" where
  "read_nodes g errors =
     (let raw = dget g ''nodes'' in
      fold (add_node g) (jlist raw)
        ([], report_if (jlist raw = []) ''EVIDENCE_NODE_MISSING'' errors))"

definition root_nodes :: "dict \<Rightarrow> nodes \<Rightarrow> string list" where
  "root_nodes g nodes =
     map fst (filter (\<lambda>(i, d). dget d ''node_type'' = JStr ''METRIC_SNAPSHOT'' \<and>
       py_eq (dget d ''artifact_ref'') (dget g ''root_metric_snapshot_ref'')) nodes)"

section \<open>Chains: edges\<close>

record edge_state =
  es_adjacency :: adjacency
  es_typed :: "((string \<times> string) \<times> string list) list"
  es_seen :: "(string \<times> string \<times> string) list"
  es_edges :: "(string \<times> string \<times> string \<times> int) list"
  es_errors :: "string list"

definition node_type_is :: "nodes \<Rightarrow> string \<Rightarrow> string \<Rightarrow> bool" where
  "node_type_is nodes i node_type =
     (case map_of nodes i of None \<Rightarrow> False | Some d \<Rightarrow> dget d ''node_type'' = JStr node_type)"

text \<open>\<open>d.setdefault(k, []).append(v)\<close>\<close>

definition append_to :: "'k \<Rightarrow> 'v \<Rightarrow> ('k \<times> 'v list) list \<Rightarrow> ('k \<times> 'v list) list" where
  "append_to k v d = AList.update k ((case map_of d k of None \<Rightarrow> [] | Some vs \<Rightarrow> vs) @ [v]) d"

definition es_report :: "string \<Rightarrow> edge_state \<Rightarrow> edge_state" where
  "es_report code s = s\<lparr>es_errors := report code (es_errors s)\<rparr>"

definition link_edge :: "nodes \<Rightarrow> string \<Rightarrow> string \<Rightarrow> string \<Rightarrow> int \<Rightarrow> edge_state \<Rightarrow> edge_state" where
  "link_edge nodes source target edge_type position s =
     (if map_of nodes source = None \<or> map_of nodes target = None then es_report ''EVIDENCE_NODE_MISSING'' s
      else (case map_of edge_signatures edge_type of
          None \<Rightarrow> es_report ''EVIDENCE_EDGE_INVALID'' s
        | Some (source_type, target_type) \<Rightarrow>
            if (case source_type of None \<Rightarrow> False | Some x \<Rightarrow> \<not> node_type_is nodes source x) \<or>
               \<not> node_type_is nodes target target_type
            then es_report ''EVIDENCE_EDGE_INVALID'' s
            else s\<lparr>es_adjacency := append_to source target (es_adjacency s),
                  es_typed := append_to (source, edge_type) target (es_typed s),
                  es_edges := es_edges s @ [(source, target, edge_type, position)]\<rparr>))"

definition add_edge :: "nodes \<Rightarrow> json \<Rightarrow> edge_state \<Rightarrow> edge_state" where
  "add_edge nodes raw s =
     (case raw of
        JObj d \<Rightarrow>
          if \<not> keys_are d edge_keys then es_report ''EVIDENCE_MALFORMED'' s
          else if \<not> (is_nonempty_string (dget d ''from_node_id'') \<and> is_nonempty_string (dget d ''to_node_id'') \<and>
                     is_nonempty_string (dget d ''edge_type''))
          then es_report ''EVIDENCE_EDGE_INVALID'' s
          else if \<not> is_non_negative_int (dget d ''sequence'')
          then es_report ''EVIDENCE_TRANSFORMATION_ORDER_AMBIGUOUS'' s
          else
            let source = jstr (dget d ''from_node_id''); target = jstr (dget d ''to_node_id'');
                edge_type = jstr (dget d ''edge_type''); key = (source, target, edge_type);
                s' = (if List.member (es_seen s) key then es_report ''EVIDENCE_EDGE_DUPLICATE'' s else s) in
            link_edge nodes source target edge_type (jint (dget d ''sequence'')) (s'\<lparr>es_seen := key # es_seen s'\<rparr>)
      | _ \<Rightarrow> es_report ''EVIDENCE_MALFORMED'' s)"

definition read_edges :: "dict \<Rightarrow> nodes \<Rightarrow> string list \<Rightarrow> edge_state" where
  "read_edges g nodes errors =
     (let raw = dget g ''edges'';
          start = \<lparr>es_adjacency = map (\<lambda>(i, d). (i, [])) nodes, es_typed = [], es_seen = [], es_edges = [],
            es_errors = (case raw of JList _ \<Rightarrow> errors | _ \<Rightarrow> report ''EVIDENCE_MALFORMED'' errors)\<rparr> in
      fold (add_edge nodes) (jlist raw) start)"

section \<open>Chains: paths from the root\<close>

text \<open>\<open>targets(source, edge_type, node_type)\<close>\<close>

definition typed_targets :: "nodes \<Rightarrow> edge_state \<Rightarrow> string \<Rightarrow> string \<Rightarrow> string \<Rightarrow> string list" where
  "typed_targets nodes s source edge_type node_type =
     filter (\<lambda>t. node_type_is nodes t node_type)
       (case map_of (es_typed s) (source, edge_type) of None \<Rightarrow> [] | Some ts \<Rightarrow> ts)"

definition node_field :: "nodes \<Rightarrow> string \<Rightarrow> string \<Rightarrow> json" where
  "node_field nodes i field = (case map_of nodes i of None \<Rightarrow> JNull | Some d \<Rightarrow> dget d field)"

definition approved :: "nodes \<Rightarrow> edge_state \<Rightarrow> string \<Rightarrow> bool" where
  "approved nodes s artifact =
     list_ex (\<lambda>approval. case node_field nodes approval ''metadata'' of
         JObj m \<Rightarrow> dget m ''status'' = JStr ''APPROVED'' \<and> valid_datetime_text (dget m ''approved_at'') \<and>
           is_nonempty_string (dget m ''approver'')
       | _ \<Rightarrow> False)
       (typed_targets nodes s artifact ''ARTIFACT_APPROVED_BY'' ''APPROVAL'')"

definition required_paths :: "(string \<times> string) list" where
  "required_paths =
     [(''RESULT_DEFINED_BY'', ''METRIC_DEFINITION''), (''RESULT_CALCULATED_WITH'', ''CALCULATION_PROFILE''),
      (''RESULT_USES_RESOLUTION'', ''RULE_RESOLUTION''), (''RESULT_USES_TRANSFORMATION'', ''TRANSFORMATION''),
      (''RESULT_DERIVED_FROM_EVENT'', ''CANONICAL_EVENT''), (''RESULT_HAS_FRESHNESS'', ''FRESHNESS_ASSESSMENT''),
      (''RESULT_HAS_CONFIDENCE'', ''CONFIDENCE_ASSESSMENT'')]"

text \<open>The positions of the transformations must be 0, 1, 2, ... in some order.\<close>

definition transformation_positions :: "edge_state \<Rightarrow> string \<Rightarrow> int list" where
  "transformation_positions s snap =
     List.map_filter (\<lambda>(source, target, edge_type, position).
       if source = snap \<and> edge_type = ''RESULT_USES_TRANSFORMATION'' then Some position else None) (es_edges s)"

definition positions_ambiguous :: "int list \<Rightarrow> bool" where
  "positions_ambiguous ps \<longleftrightarrow> sort ps \<noteq> map int [0..<length ps]"

text \<open>What the loader of retained files does for a locator.\<close>

datatype loaded = LoaderRaises | LoaderOther | LoaderBytes string

type_synonym source_loader = "(string \<Rightarrow> loaded) option"

definition file_errors ::
  "(string \<Rightarrow> string) \<Rightarrow> source_loader \<Rightarrow> bool \<Rightarrow> nodes \<Rightarrow> string \<Rightarrow> string list \<Rightarrow> string list" where
  "file_errors sha loader require_bytes nodes file errors =
     (case (node_field nodes file ''metadata'', node_field nodes file ''artifact_ref'') of
        (JObj metadata, JObj ref) \<Rightarrow>
          (let retained = dget metadata ''retained_bytes_sha256''; locator = dget metadata ''storage_locator'' in
           if \<not> is_hash retained \<or> \<not> is_nonempty_string locator
           then report ''EVIDENCE_SOURCE_FILE_UNAVAILABLE'' errors
           else
             let errors' = report_if (\<not> py_eq retained (dget ref ''content_hash'')) ''EVIDENCE_HASH_MISMATCH'' errors in
             (case loader of
                Some load \<Rightarrow>
                  (case load (jstr locator) of
                     LoaderBytes b \<Rightarrow> report_if (JStr (sha b) \<noteq> retained) ''EVIDENCE_SOURCE_BYTES_MISMATCH'' errors'
                   | _ \<Rightarrow> report ''EVIDENCE_SOURCE_FILE_UNAVAILABLE'' errors')
              | None \<Rightarrow> report_if require_bytes ''EVIDENCE_SOURCE_FILE_UNAVAILABLE'' errors'))
      | _ \<Rightarrow> report ''EVIDENCE_SOURCE_FILE_UNAVAILABLE'' errors)"

definition record_errors ::
  "(string \<Rightarrow> string) \<Rightarrow> source_loader \<Rightarrow> bool \<Rightarrow> nodes \<Rightarrow> edge_state \<Rightarrow> string \<Rightarrow> string list \<Rightarrow> string list" where
  "record_errors sha loader require_bytes nodes s record errors =
     (let files = typed_targets nodes s record ''RECORD_READ_FROM_FILE'' ''SOURCE_FILE'' in
      fold (file_errors sha loader require_bytes nodes) files
        (report_if (files = []) ''EVIDENCE_REQUIRED_PATH_MISSING'' errors))"

definition event_errors ::
  "(string \<Rightarrow> string) \<Rightarrow> source_loader \<Rightarrow> bool \<Rightarrow> nodes \<Rightarrow> edge_state \<Rightarrow> string \<Rightarrow> string list \<Rightarrow> string list" where
  "event_errors sha loader require_bytes nodes s event errors =
     (let records = typed_targets nodes s event ''EVENT_NORMALIZED_FROM_RECORD'' ''SOURCE_RECORD'' in
      fold (record_errors sha loader require_bytes nodes s) records
        (report_if (records = []) ''EVIDENCE_REQUIRED_PATH_MISSING'' errors))"

definition profile_errors :: "nodes \<Rightarrow> edge_state \<Rightarrow> string \<Rightarrow> string list \<Rightarrow> string list" where
  "profile_errors nodes s profile errors =
     (let rounding = typed_targets nodes s profile ''PROFILE_USES_ROUNDING'' ''ROUNDING_POLICY'';
          authorities = typed_targets nodes s profile ''PROFILE_USES_SOURCE_AUTHORITY'' ''SOURCE_AUTHORITY'' in
      report_all
        [(rounding = [] \<or> authorities = [], ''EVIDENCE_REQUIRED_PATH_MISSING''),
         (\<not> list_all (approved nodes s) (rounding @ authorities), ''EVIDENCE_APPROVAL_MISSING'')] errors)"

definition resolution_errors :: "nodes \<Rightarrow> edge_state \<Rightarrow> string \<Rightarrow> string list \<Rightarrow> string list" where
  "resolution_errors nodes s resolution errors =
     report_if (typed_targets nodes s resolution ''RESOLUTION_SELECTS_RULE'' ''CONFIGURATION_RULE'' = [])
       ''EVIDENCE_REQUIRED_PATH_MISSING'' errors"

definition root_errors ::
  "(string \<Rightarrow> string) \<Rightarrow> source_loader \<Rightarrow> bool \<Rightarrow> nodes \<Rightarrow> edge_state \<Rightarrow> string \<Rightarrow> string list \<Rightarrow> string list" where
  "root_errors sha loader require_bytes nodes s snap errors =
     (let targets = typed_targets nodes s; reached = reach_from (es_adjacency s) [snap] [] in
      fold (event_errors sha loader require_bytes nodes s) (targets snap ''RESULT_DERIVED_FROM_EVENT'' ''CANONICAL_EVENT'')
      (fold (resolution_errors nodes s) (targets snap ''RESULT_USES_RESOLUTION'' ''RULE_RESOLUTION'')
      (fold (profile_errors nodes s) (targets snap ''RESULT_CALCULATED_WITH'' ''CALCULATION_PROFILE'')
      (report_all
        [(\<not> list_all (\<lambda>p. List.member reached (fst p)) nodes, ''EVIDENCE_ORPHAN_NODE''),
         (list_ex (\<lambda>(edge_type, node_type). targets snap edge_type node_type = []) required_paths,
          ''EVIDENCE_REQUIRED_PATH_MISSING''),
         (positions_ambiguous (transformation_positions s snap), ''EVIDENCE_TRANSFORMATION_ORDER_AMBIGUOUS'')] errors))))"

text \<open>\<open>verification.verify_evidence_chain\<close>\<close>

definition verify_chain ::
  "(string \<Rightarrow> string) \<Rightarrow> (string \<Rightarrow> string) \<Rightarrow> source_loader \<Rightarrow> bool \<Rightarrow> json \<Rightarrow> string list" where
  "verify_chain h sha loader require_bytes graph =
     (case graph of
        JObj g \<Rightarrow>
          (case read_nodes g (header_errors h g) of (nodes, errors) \<Rightarrow>
             let roots = root_nodes g nodes;
                 s = read_edges g nodes (report_if (length roots \<noteq> 1) ''EVIDENCE_NODE_MISSING'' errors);
                 found = report_if (has_cycle (es_adjacency s)) ''EVIDENCE_GRAPH_CYCLE'' (es_errors s) in
             (case roots of [snap] \<Rightarrow> root_errors sha loader require_bytes nodes s snap found | _ \<Rightarrow> found))
      | _ \<Rightarrow> [''EVIDENCE_MALFORMED''])"

section \<open>The stricter checks of the runtime\<close>

text \<open>\<open>_is_rfc3339_datetime\<close>: the pattern, then \<open>fromisoformat\<close>.\<close>

definition skip_fraction :: "string \<Rightarrow> string option" where
  "skip_fraction s =
     (case expect CHR ''.'' s of
        None \<Rightarrow> Some s
      | Some r \<Rightarrow> if r \<noteq> [] \<and> is_digit (hd r) then Some (dropWhile is_digit r) else None)"

definition rfc3339_zone :: "string \<Rightarrow> bool" where
  "rfc3339_zone s \<longleftrightarrow> s = ''Z'' \<or> s = ''z'' \<or>
     (case s of [sign, a, b, c, d, e] \<Rightarrow> (sign = CHR ''+'' \<or> sign = CHR ''-'') \<and> is_digit a \<and> is_digit b \<and>
        c = CHR '':'' \<and> is_digit d \<and> is_digit e | _ \<Rightarrow> False)"

definition rfc3339_re :: "string \<Rightarrow> bool" where
  "rfc3339_re s \<longleftrightarrow> (case do {
     (y, r) \<leftarrow> digits 4 s; r \<leftarrow> expect CHR ''-'' r; (m, r) \<leftarrow> digits 2 r; r \<leftarrow> expect CHR ''-'' r;
     (d, r) \<leftarrow> digits 2 r;
     r \<leftarrow> (case expect CHR ''T'' r of None \<Rightarrow> expect CHR ''t'' r | Some r' \<Rightarrow> Some r');
     (hh, r) \<leftarrow> digits 2 r; r \<leftarrow> expect CHR '':'' r; (mi, r) \<leftarrow> digits 2 r; r \<leftarrow> expect CHR '':'' r;
     (ss, r) \<leftarrow> digits 2 r; skip_fraction r } of None \<Rightarrow> False | Some r \<Rightarrow> rfc3339_zone r)"

definition is_rfc3339_datetime :: "json \<Rightarrow> bool" where
  "is_rfc3339_datetime v = (case v of
     JStr s \<Rightarrow> rfc3339_re s \<and>
       aware_instant (if last s = CHR ''Z'' \<or> last s = CHR ''z'' then butlast s @ ''+00:00'' else s) \<noteq> None
   | _ \<Rightarrow> False)"

text \<open>The strict pass reads the raw edges and the first well-identified nodes again.\<close>

definition strict_nodes :: "json list \<Rightarrow> nodes" where
  "strict_nodes raw = fold (\<lambda>v nodes. case v of
     JObj d \<Rightarrow> if is_nonempty_string (dget d ''node_id'') \<and> map_of nodes (jstr (dget d ''node_id'')) = None
       then nodes @ [(jstr (dget d ''node_id''), d)] else nodes
   | _ \<Rightarrow> nodes) raw []"

definition strict_targets :: "json list \<Rightarrow> nodes \<Rightarrow> string \<Rightarrow> string \<Rightarrow> string \<Rightarrow> string list" where
  "strict_targets edges nodes source edge_type node_type =
     remdups (List.map_filter (\<lambda>v. case v of
         JObj d \<Rightarrow> (case dget d ''to_node_id'' of
             JStr target \<Rightarrow> if dget d ''from_node_id'' = JStr source \<and> dget d ''edge_type'' = JStr edge_type \<and>
               node_type_is nodes target node_type then Some target else None
           | _ \<Rightarrow> None)
       | _ \<Rightarrow> None) edges)"

definition strict_approval :: "json list \<Rightarrow> nodes \<Rightarrow> string \<Rightarrow> bool" where
  "strict_approval edges nodes artifact =
     list_ex (\<lambda>approval. case node_field nodes approval ''metadata'' of
         JObj m \<Rightarrow> dget m ''status'' = JStr ''APPROVED'' \<and> is_rfc3339_datetime (dget m ''approved_at'') \<and>
           is_nonempty_string (dget m ''approver'')
       | _ \<Rightarrow> False)
       (strict_targets edges nodes artifact ''ARTIFACT_APPROVED_BY'' ''APPROVAL'')"

definition singular_root_paths :: "(string \<times> string) list" where
  "singular_root_paths =
     [(''RESULT_DEFINED_BY'', ''METRIC_DEFINITION''), (''RESULT_CALCULATED_WITH'', ''CALCULATION_PROFILE''),
      (''RESULT_HAS_FRESHNESS'', ''FRESHNESS_ASSESSMENT''), (''RESULT_HAS_CONFIDENCE'', ''CONFIDENCE_ASSESSMENT'')]"

text \<open>The rules the resolutions select, and the diagnostics of resolutions without exactly one.\<close>

definition resolved_rules :: "json list \<Rightarrow> nodes \<Rightarrow> string list \<Rightarrow> string list" where
  "resolved_rules edges nodes resolutions =
     concat (map (\<lambda>r. strict_targets edges nodes r ''RESOLUTION_SELECTS_RULE'' ''CONFIGURATION_RULE'') resolutions)"

definition strict_profile_errors :: "json list \<Rightarrow> nodes \<Rightarrow> string list \<Rightarrow> string \<Rightarrow> string list \<Rightarrow> string list" where
  "strict_profile_errors edges nodes rules profile errors =
     (let rounding = strict_targets edges nodes profile ''PROFILE_USES_ROUNDING'' ''ROUNDING_POLICY'';
          authorities = strict_targets edges nodes profile ''PROFILE_USES_SOURCE_AUTHORITY'' ''SOURCE_AUTHORITY'';
          selected = strict_targets edges nodes profile ''PROFILE_SELECTS_RULE'' ''CONFIGURATION_RULE'' in
      report_all
        [(length rounding \<noteq> 1 \<or> length authorities \<noteq> 1, ''EVIDENCE_REQUIRED_PATH_MISSING''),
         (\<not> list_all (strict_approval edges nodes) (rounding @ authorities), ''EVIDENCE_APPROVAL_MISSING''),
         (selected = [] \<or> rules = [] \<or> sorted_set selected \<noteq> sorted_set rules, ''EVIDENCE_REQUIRED_PATH_MISSING'')] errors)"

definition strict_root_errors :: "json list \<Rightarrow> nodes \<Rightarrow> string \<Rightarrow> string list \<Rightarrow> string list" where
  "strict_root_errors edges nodes snap errors =
     (let resolutions = strict_targets edges nodes snap ''RESULT_USES_RESOLUTION'' ''RULE_RESOLUTION'' in
      fold (strict_profile_errors edges nodes (resolved_rules edges nodes resolutions))
        (strict_targets edges nodes snap ''RESULT_CALCULATED_WITH'' ''CALCULATION_PROFILE'')
        (report_all
          (map (\<lambda>(edge_type, node_type).
              (length (strict_targets edges nodes snap edge_type node_type) \<noteq> 1, ''EVIDENCE_REQUIRED_PATH_MISSING''))
            singular_root_paths @
           map (\<lambda>r. (length (strict_targets edges nodes r ''RESOLUTION_SELECTS_RULE'' ''CONFIGURATION_RULE'') \<noteq> 1,
              ''EVIDENCE_REQUIRED_PATH_MISSING'')) resolutions) errors))"

text \<open>\<open>runtime_validation.verify_evidence_chain\<close>, the public verifier.\<close>

definition verify_evidence_chain ::
  "(string \<Rightarrow> string) \<Rightarrow> (string \<Rightarrow> string) \<Rightarrow> source_loader \<Rightarrow> bool \<Rightarrow> json \<Rightarrow> string list" where
  "verify_evidence_chain h sha loader require_bytes graph =
     (let errors = verify_chain h sha loader require_bytes graph in
      case graph of
        JObj g \<Rightarrow>
          (let errors = report_if (\<not> is_rfc3339_datetime (dget g ''created_at'')) ''EVIDENCE_TIMESTAMP_INVALID'' errors in
           case (dget g ''nodes'', dget g ''edges'') of
             (JList raw_nodes, JList edges) \<Rightarrow>
               (let nodes = strict_nodes raw_nodes in
                case root_nodes g nodes of [snap] \<Rightarrow> strict_root_errors edges nodes snap errors | _ \<Rightarrow> errors)
           | _ \<Rightarrow> errors)
      | _ \<Rightarrow> errors)"

definition diagnostic_priority :: "string list" where
  "diagnostic_priority = [''EVIDENCE_MALFORMED'', ''EVIDENCE_VERSION_INVALID'', ''EVIDENCE_TENANT_MISMATCH'',
     ''EVIDENCE_MODE_CONTAMINATION'', ''EVIDENCE_TIMESTAMP_INVALID'', ''EVIDENCE_HASH_MISMATCH'',
     ''EVIDENCE_NODE_MISSING'', ''EVIDENCE_NODE_DUPLICATE'', ''EVIDENCE_NODE_TYPE_INVALID'',
     ''EVIDENCE_EDGE_DUPLICATE'', ''EVIDENCE_EDGE_INVALID'', ''EVIDENCE_GRAPH_CYCLE'',
     ''EVIDENCE_REQUIRED_PATH_MISSING'', ''EVIDENCE_TRANSFORMATION_ORDER_AMBIGUOUS'',
     ''EVIDENCE_APPROVAL_MISSING'', ''EVIDENCE_SOURCE_FILE_UNAVAILABLE'', ''EVIDENCE_SOURCE_BYTES_MISMATCH'',
     ''EVIDENCE_ORPHAN_NODE'']"

definition diagnose_evidence_chain ::
  "(string \<Rightarrow> string) \<Rightarrow> (string \<Rightarrow> string) \<Rightarrow> source_loader \<Rightarrow> bool \<Rightarrow> json \<Rightarrow> string option" where
  "diagnose_evidence_chain h sha loader require_bytes graph =
     (let errors = verify_evidence_chain h sha loader require_bytes graph in
      if errors = [] then None
      else case find (List.member errors) diagnostic_priority of
          Some code \<Rightarrow> Some code
        | None \<Rightarrow> Some (hd errors))"

section \<open>Metric snapshots\<close>

definition snapshot_keys :: "string list" where
  "snapshot_keys = [''metric_snapshot_id'', ''snapshot_revision'', ''organization_id'',
     ''marketplace_account_id'', ''mode'', ''scenario_id'', ''metric_definition_ref'',
     ''calculation_profile_ref'', ''accounting_view'', ''period_start'', ''period_end'', ''state'',
     ''value'', ''value_type'', ''unit'', ''currency'', ''reason_code'', ''expense_boundary'',
     ''rounding'', ''source_authority_ref'', ''evidence_chain_ref'', ''data_freshness_state'',
     ''freshness_observed_at'', ''freshness_deadline'', ''confidence_state'', ''confidence_reasons'',
     ''limitations'', ''valid_from'', ''valid_to'', ''prior_snapshot_id'', ''restates_snapshot_id'',
     ''actor'', ''reason'', ''trace_id'', ''calculated_at'', ''content_hash'']"

definition snapshot_states :: "string list" where
  "snapshot_states = [''VALID'', ''EMPTY'', ''BLOCKED'', ''UNAVAILABLE'', ''CONFLICT'', ''INVALID'', ''NOT_APPLICABLE'']"

definition snapshot_value_types :: "string list" where
  "snapshot_value_types = [''MONEY'', ''INTEGER'', ''DECIMAL'', ''RATE'']"

definition snapshot_units :: "string list" where
  "snapshot_units = [''MONEY'', ''MONEY_PER_ITEM'', ''ITEM'', ''ORDER'', ''EVENT'', ''PERCENT'', ''RATIO'', ''COUNT'']"

definition money_units :: "string list" where
  "money_units = [''MONEY'', ''MONEY_PER_ITEM'']"

definition expense_boundaries :: "string list" where
  "expense_boundaries = [''MARKETPLACE_COMMISSION'', ''FORWARD_LOGISTICS'', ''REVERSE_LOGISTICS'', ''STORAGE'',
     ''ADVERTISING'', ''FINES_WITHHOLDINGS'', ''PRODUCT_COST'', ''OTHER_EXPENSE'', ''TAX'']"

definition accounting_views :: "string list" where
  "accounting_views = [''OPERATIONAL'', ''SETTLEMENT'', ''TAX_RECOGNITION'']"

definition freshness_states :: "string list" where
  "freshness_states = [''CURRENT'', ''STALE'', ''UNKNOWN'', ''NOT_APPLICABLE'']"

definition confidence_states :: "string list" where
  "confidence_states = [''HIGH'', ''MEDIUM'', ''LOW'', ''UNKNOWN'', ''NOT_APPLICABLE'']"

definition snapshot_mode_contaminated :: "dict \<Rightarrow> bool" where
  "snapshot_mode_contaminated d =
     (if dget d ''mode'' = JStr ''ACTUAL'' then dget d ''scenario_id'' \<noteq> JNull
      else if dget d ''mode'' = JStr ''SCENARIO'' then \<not> is_nonempty_string (dget d ''scenario_id'')
      else True)"

definition snapshot_rounding_invalid :: "json \<Rightarrow> bool" where
  "snapshot_rounding_invalid v = (case v of
     JObj d \<Rightarrow> \<not> keys_are d [''policy_ref'', ''application_point'', ''resolved_mode'', ''resolved_scale''] \<or>
       \<not> valid_ref False (dget d ''policy_ref'') \<or> \<not> is_non_negative_int (dget d ''resolved_scale'') \<or>
       jint (dget d ''resolved_scale'') > 28
   | _ \<Rightarrow> True)"

text \<open>Both present and not in order.\<close>

definition not_before :: "int option \<Rightarrow> int option \<Rightarrow> bool" where
  "not_before a b = (case (a, b) of (Some x, Some y) \<Rightarrow> x \<ge> y | _ \<Rightarrow> False)"

definition snapshot_time_checks :: "dict \<Rightarrow> (bool \<times> string) list" where
  "snapshot_time_checks d =
     (let time = (\<lambda>f. evidence_datetime (dget d f)) in
      map (\<lambda>f. (time f = None, ''METRIC_SNAPSHOT_TIMESTAMP_INVALID''))
        [''period_start'', ''period_end'', ''freshness_observed_at'', ''valid_from'', ''calculated_at''] @
      map (\<lambda>f. (dget d f \<noteq> JNull \<and> time f = None, ''METRIC_SNAPSHOT_TIMESTAMP_INVALID''))
        [''freshness_deadline'', ''valid_to''] @
      [(not_before (time ''period_start'') (time ''period_end''), ''METRIC_SNAPSHOT_PERIOD_INVALID''),
       (not_before (time ''valid_from'') (time ''valid_to''), ''METRIC_SNAPSHOT_VALIDITY_INVALID'')])"

definition is_decimal_string :: "json \<Rightarrow> bool" where
  "is_decimal_string v = (case v of JStr s \<Rightarrow> decimal_re s | _ \<Rightarrow> False)"

definition is_integer :: "json \<Rightarrow> bool" where
  "is_integer v = (case v of JInt _ \<Rightarrow> True | _ \<Rightarrow> False)"

definition is_currency :: "json \<Rightarrow> bool" where
  "is_currency v = (case v of JStr s \<Rightarrow> currency_re s | _ \<Rightarrow> False)"

text \<open>The checks of a \<open>VALID\<close> value, all under one code.\<close>

definition valid_value_failures :: "dict \<Rightarrow> bool list" where
  "valid_value_failures d =
     (let v = dget d ''value''; kind = dget d ''value_type''; unit = dget d ''unit''; currency = dget d ''currency'' in
      [v = JNull \<or> \<not> is_allowed_string kind snapshot_value_types,
       \<not> is_allowed_string unit snapshot_units \<or> dget d ''reason_code'' \<noteq> JNull] @
      (if kind = JStr ''MONEY'' then
         [\<not> is_decimal_string v, \<not> is_allowed_string unit money_units \<or> \<not> is_currency currency]
       else if kind = JStr ''INTEGER'' then
         [\<not> is_integer v \<or> currency \<noteq> JNull, is_allowed_string unit money_units]
       else if is_allowed_string kind [''DECIMAL'', ''RATE''] then
         [\<not> is_decimal_string v \<or> currency \<noteq> JNull, is_allowed_string unit money_units]
       else []))"

definition snapshot_value_checks :: "dict \<Rightarrow> (bool \<times> string) list" where
  "snapshot_value_checks d =
     (if \<not> is_allowed_string (dget d ''state'') snapshot_states then [(True, ''METRIC_SNAPSHOT_STATE_INVALID'')]
      else if dget d ''state'' = JStr ''VALID''
      then map (\<lambda>failed. (failed, ''METRIC_SNAPSHOT_VALUE_INVALID'')) (valid_value_failures d)
      else [(list_ex (\<lambda>f. dget d f \<noteq> JNull) [''value'', ''value_type'', ''unit'', ''currency''],
              ''METRIC_SNAPSHOT_NON_VALID_VALUE''),
            (\<not> is_nonempty_string (dget d ''reason_code''), ''METRIC_SNAPSHOT_NON_VALID_VALUE'')])"

text \<open>A list of distinct strings that all satisfy a predicate.\<close>

definition distinct_strings :: "(json \<Rightarrow> bool) \<Rightarrow> json \<Rightarrow> bool" where
  "distinct_strings ok v = (case v of JList xs \<Rightarrow> list_all ok xs \<and> distinct xs | _ \<Rightarrow> False)"

definition snapshot_list_checks :: "dict \<Rightarrow> (bool \<times> string) list" where
  "snapshot_list_checks d =
     [(\<not> distinct_strings (\<lambda>v. is_allowed_string v expense_boundaries) (dget d ''expense_boundary''),
        ''METRIC_SNAPSHOT_EXPENSE_BOUNDARY_INVALID''),
      (\<not> is_allowed_string (dget d ''accounting_view'') accounting_views, ''METRIC_SNAPSHOT_ACCOUNTING_VIEW_INVALID''),
      (\<not> is_allowed_string (dget d ''data_freshness_state'') freshness_states, ''METRIC_SNAPSHOT_FRESHNESS_INVALID''),
      (\<not> is_allowed_string (dget d ''confidence_state'') confidence_states, ''METRIC_SNAPSHOT_CONFIDENCE_INVALID''),
      (\<not> distinct_strings is_nonempty_string (dget d ''confidence_reasons''), ''METRIC_SNAPSHOT_MALFORMED''),
      (\<not> distinct_strings is_nonempty_string (dget d ''limitations''), ''METRIC_SNAPSHOT_MALFORMED'')]"

definition snapshot_header_checks :: "dict \<Rightarrow> (bool \<times> string) list" where
  "snapshot_header_checks d =
     (\<not> keys_are d snapshot_keys, ''METRIC_SNAPSHOT_MALFORMED'') #
     map (\<lambda>f. (\<not> is_nonempty_string (dget d f), ''METRIC_SNAPSHOT_MALFORMED''))
       [''metric_snapshot_id'', ''organization_id'', ''actor'', ''reason'', ''trace_id''] @
     [(\<not> is_positive_int (dget d ''snapshot_revision''), ''METRIC_SNAPSHOT_VERSION_INVALID''),
      (snapshot_mode_contaminated d, ''METRIC_SNAPSHOT_MODE_CONTAMINATION'')] @
     map (\<lambda>f. (\<not> valid_ref False (dget d f), ''METRIC_SNAPSHOT_REFERENCE_INVALID''))
       [''metric_definition_ref'', ''calculation_profile_ref'', ''source_authority_ref''] @
     [(\<not> valid_ref True (dget d ''evidence_chain_ref''), ''METRIC_SNAPSHOT_REFERENCE_INVALID''),
      (snapshot_rounding_invalid (dget d ''rounding''), ''METRIC_SNAPSHOT_ROUNDING_INVALID'')]"

text \<open>\<open>verification.verify_metric_snapshot\<close>\<close>

definition verify_snapshot :: "(string \<Rightarrow> string) \<Rightarrow> json \<Rightarrow> string list" where
  "verify_snapshot h snapshot =
     (case snapshot of
        JObj d \<Rightarrow>
          report_all (snapshot_value_checks d @ snapshot_list_checks d)
            (check_hash h d ''METRIC_SNAPSHOT_HASH_MISMATCH'' ''METRIC_SNAPSHOT_MALFORMED''
              (report_all (snapshot_header_checks d @ snapshot_time_checks d) []))
      | _ \<Rightarrow> [''METRIC_SNAPSHOT_MALFORMED''])"

definition rounding_application_points :: "string list" where
  "rounding_application_points = [''RULE_INPUT_NORMALIZATION'', ''RULE_COMPONENT_RESULT'',
     ''METRIC_FINAL_ACCOUNTING'', ''REPORT_PRESENTATION'', ''EXPORT_PRESENTATION'']"

definition rounding_modes :: "string list" where
  "rounding_modes = [''HALF_EVEN'', ''HALF_UP'', ''DOWN'', ''UP'', ''FLOOR'', ''CEILING'']"

definition strict_snapshot_checks :: "dict \<Rightarrow> (bool \<times> string) list" where
  "strict_snapshot_checks d =
     map (\<lambda>f. (dget d f \<noteq> JNull \<and> \<not> is_nonempty_string (dget d f), ''METRIC_SNAPSHOT_MALFORMED''))
       [''marketplace_account_id'', ''prior_snapshot_id'', ''restates_snapshot_id''] @
     map (\<lambda>f. (\<not> is_rfc3339_datetime (dget d f), ''METRIC_SNAPSHOT_TIMESTAMP_INVALID''))
       [''period_start'', ''period_end'', ''freshness_observed_at'', ''valid_from'', ''calculated_at''] @
     map (\<lambda>f. (dget d f \<noteq> JNull \<and> \<not> is_rfc3339_datetime (dget d f), ''METRIC_SNAPSHOT_TIMESTAMP_INVALID''))
       [''freshness_deadline'', ''valid_to''] @
     [(dget d ''state'' = JStr ''VALID'' \<and> is_allowed_string (dget d ''value_type'') [''DECIMAL'', ''RATE''] \<and>
       is_allowed_string (dget d ''unit'') money_units, ''METRIC_SNAPSHOT_VALUE_INVALID''),
      (case dget d ''rounding'' of
         JObj r \<Rightarrow> \<not> is_allowed_string (dget r ''application_point'') rounding_application_points \<or>
           \<not> is_allowed_string (dget r ''resolved_mode'') rounding_modes
       | _ \<Rightarrow> False, ''METRIC_SNAPSHOT_ROUNDING_INVALID'')]"

text \<open>\<open>runtime_validation.verify_metric_snapshot\<close>, the public verifier.\<close>

definition verify_metric_snapshot :: "(string \<Rightarrow> string) \<Rightarrow> json \<Rightarrow> string list" where
  "verify_metric_snapshot h snapshot =
     (let errors = verify_snapshot h snapshot in
      case snapshot of JObj d \<Rightarrow> report_all (strict_snapshot_checks d) errors | _ \<Rightarrow> errors)"

definition diagnose_metric_snapshot :: "(string \<Rightarrow> string) \<Rightarrow> json \<Rightarrow> string option" where
  "diagnose_metric_snapshot h snapshot =
     (case verify_metric_snapshot h snapshot of [] \<Rightarrow> None | code # _ \<Rightarrow> Some code)"

end
