(* ===== verification/EvidenceGraph.thy ===== *)
theory EvidenceGraph imports Evidence begin

text \<open>
  The graph algorithms of the evidence verifier against their mathematical meaning: the
  iterative depth-first search finds a cycle exactly when there is one, and the search from the
  root reaches exactly the nodes that a path leads to.
\<close>

section \<open>Edges\<close>

definition edges :: "adjacency \<Rightarrow> (string \<times> string) set" where
  "edges adj = {(v, t). t \<in> set (targets_of adj v)}"

lemma edges_iff [simp]: "(v, t) \<in> edges adj \<longleftrightarrow> t \<in> set (targets_of adj v)"
  by (simp add: edges_def)

lemma edge_source: "t \<in> set (targets_of adj v) \<Longrightarrow> v \<in> set (map fst adj)"
  by (cases "map_of adj v") (force simp: targets_of_def dest: map_of_SomeD)+

section \<open>Cycles\<close>

text \<open>
  The stack of the search: below every node stands one it is a target of, and the targets a node
  has been through are black, except the one that is being searched.
\<close>

fun stack_ok :: "adjacency \<Rightarrow> (string \<Rightarrow> colour) \<Rightarrow> string option \<Rightarrow> (string \<times> nat) list \<Rightarrow> bool" where
  "stack_ok adj state up [] = True"
| "stack_ok adj state up ((v, i) # stack) \<longleftrightarrow>
     (\<forall>j < i. j < length (targets_of adj v) \<longrightarrow>
        state (targets_of adj v ! j) = Black \<or> up = Some (targets_of adj v ! j)) \<and>
     (\<forall>u. up = Some u \<longrightarrow> u \<in> set (targets_of adj v)) \<and>
     stack_ok adj state (Some v) stack"

text \<open>Black nodes lead to black nodes only, and to no cycle; grey nodes are those of the stack.\<close>

definition search_ok :: "adjacency \<Rightarrow> (string \<times> nat) list \<Rightarrow> (string \<Rightarrow> colour) \<Rightarrow> bool" where
  "search_ok adj stack state \<longleftrightarrow>
     stack_ok adj state None stack \<and> (\<forall>v. state v = Grey \<longleftrightarrow> v \<in> fst ` set stack) \<and>
     (\<forall>v t. state v = Black \<longrightarrow> t \<in> set (targets_of adj v) \<longrightarrow> state t = Black) \<and>
     (\<forall>v. state v = Black \<longrightarrow> (v, v) \<notin> (edges adj)\<^sup>+) \<and> distinct (map fst stack)"

lemma stack_ok_mono:
  "stack_ok adj state up stack \<Longrightarrow> (\<And>v. state v = Black \<Longrightarrow> state' v = Black) \<Longrightarrow> stack_ok adj state' up stack"
proof (induction stack arbitrary: up)
  case (Cons p stack)
  then show ?case by (cases p) (fastforce simp only: stack_ok.simps)
qed simp

lemma stack_ok_pop:
  assumes "stack_ok adj state (Some u) stack" and "\<And>v. state v = Black \<Longrightarrow> state' v = Black" and "state' u = Black"
  shows "stack_ok adj state' None stack"
proof (cases stack)
  case (Cons p rest)
  then show ?thesis using assms by (cases p) (auto intro: stack_ok_mono)
qed simp

lemma black_closed:
  assumes "\<And>v t. state v = Black \<Longrightarrow> t \<in> set (targets_of adj v) \<Longrightarrow> state t = Black"
    and "state v = Black" and "(v, w) \<in> (edges adj)\<^sup>*"
  shows "state w = Black"
  using assms(3,2,1) by (induction rule: rtrancl_induct) auto

lemma stack_path: "stack_ok adj state (Some u) stack \<Longrightarrow> v \<in> fst ` set stack \<Longrightarrow> (v, u) \<in> (edges adj)\<^sup>+"
proof (induction stack arbitrary: u)
  case (Cons p stack)
  obtain w i where p: "p = (w, i)" by (cases p)
  with Cons.prems(1) have e: "(w, u) \<in> edges adj" and rest: "stack_ok adj state (Some w) stack" by auto
  show ?case
  proof (cases "v = w")
    case True
    with e show ?thesis by blast
  next
    case False
    with Cons.prems(2) p have "v \<in> fst ` set stack" by auto
    from Cons.IH [OF rest this] e show ?thesis by (rule trancl_into_trancl)
  qed
qed simp

lemma visit_sound:
  assumes "visit adj stack state = (found, state')" and "search_ok adj stack state"
  shows "(found \<longrightarrow> \<not> acyclic (edges adj)) \<and>
    (\<not> found \<longrightarrow> search_ok adj [] state' \<and> (\<forall>v. state v \<noteq> White \<longrightarrow> state' v = Black))"
  using assms
proof (induction adj stack state arbitrary: found state' rule: visit.induct)
  case (1 adj state)
  then show ?case by (auto simp: search_ok_def) (metis colour.exhaust)
next
  case (2 adj v i stack state)
  define ts where "ts = targets_of adj v"
  note ok = 2(5)
  note step = 2(4) [unfolded visit.simps(2) [of adj v i stack state] Let_def, folded ts_def]
  consider (pop) "length ts \<le> i" | (grey) "\<not> length ts \<le> i" "state (ts ! i) = Grey"
    | (white) "\<not> length ts \<le> i" "state (ts ! i) = White" | (black) "\<not> length ts \<le> i" "state (ts ! i) = Black"
    by (cases "state (ts ! i)") auto
  then show ?case
  proof cases
    case pop
    then have run: "visit adj stack (state(v := Black)) = (found, state')" using step by (simp del: visit.simps(2))
    have all: "state t = Black" if "t \<in> set ts" for t
      using ok pop that by (auto simp: search_ok_def ts_def in_set_conv_nth)
    have vg: "state v = Grey" using ok by (simp add: search_ok_def)
    have closed: "\<And>v t. state v = Black \<Longrightarrow> t \<in> set (targets_of adj v) \<Longrightarrow> state t = Black"
      using ok by (auto simp: search_ok_def)
    have "(v, v) \<notin> (edges adj)\<^sup>+"
    proof
      assume "(v, v) \<in> (edges adj)\<^sup>+"
      then obtain t where "(v, t) \<in> edges adj" and "(t, v) \<in> (edges adj)\<^sup>*" by (blast dest: tranclD)
      then have "state v = Black" using black_closed [where state = state, OF closed all] by (simp add: ts_def)
      with vg show False by simp
    qed
    moreover have "stack_ok adj (state(v := Black)) None stack"
      using ok by (auto simp: search_ok_def intro: stack_ok_pop)
    ultimately have "search_ok adj stack (state(v := Black))"
      using ok all by (auto simp: search_ok_def ts_def)
    from 2(1) [OF ts_def pop run this] vg show ?thesis by (auto split: if_splits)
  next
    case grey
    then have found: "found" and "ts ! i \<in> fst ` set ((v, i) # stack)" using step ok by (auto simp: search_ok_def)
    moreover have "stack_ok adj state (Some v) stack" using ok by (simp add: search_ok_def)
    moreover from calculation(2) have "ts ! i = v \<or> ts ! i \<in> fst ` set stack" by simp
    ultimately have "(ts ! i, v) \<in> (edges adj)\<^sup>*" using stack_path by (blast intro: trancl_into_rtrancl)
    moreover have "(v, ts ! i) \<in> edges adj" using grey by (simp add: ts_def)
    ultimately have "(v, v) \<in> (edges adj)\<^sup>+" by (rule rtrancl_into_trancl2 [rotated])
    then show ?thesis using found by (auto simp: acyclic_def)
  next
    case white
    then have run: "visit adj ((ts ! i, 0) # (v, i + 1) # stack) (state(ts ! i := Grey)) = (found, state')"
      using step by (simp del: visit.simps(2))
    have "stack_ok adj (state(ts ! i := Grey)) (Some v) stack"
      by (rule stack_ok_mono [of adj state]) (use ok white in \<open>auto simp: search_ok_def\<close>)
    then have "stack_ok adj (state(ts ! i := Grey)) None ((ts ! i, 0) # (v, i + 1) # stack)"
      using ok white by (auto simp: search_ok_def ts_def less_Suc_eq)
    moreover have "state v = Grey" using ok by (simp add: search_ok_def)
    then have "ts ! i \<noteq> v" using white by (metis colour.distinct(1))
    ultimately have "search_ok adj ((ts ! i, 0) # (v, i + 1) # stack) (state(ts ! i := Grey))"
      using ok white by (auto simp: search_ok_def ts_def) 
    from 2(2) [OF ts_def white(1) white(2) run this] white show ?thesis by (auto split: if_splits)
  next
    case black
    then have run: "visit adj ((v, i + 1) # stack) state = (found, state')" using step by (simp del: visit.simps(2))
    have "search_ok adj ((v, i + 1) # stack) state" using ok black by (auto simp: search_ok_def ts_def less_Suc_eq)
    from 2(3) [OF ts_def black(1) black(2) run this] show ?thesis by blast
  qed
qed

lemma has_cycle_from_sound:
  assumes "search_ok adj [] state"
  shows "(has_cycle_from adj vs state \<longrightarrow> \<not> acyclic (edges adj)) \<and>
    (\<not> has_cycle_from adj vs state \<longrightarrow> (\<forall>v \<in> set vs. (v, v) \<notin> (edges adj)\<^sup>+))"
  using assms
proof (induction vs arbitrary: state)
  case (Cons v vs)
  show ?case
  proof (cases "state v = White")
    case False
    then have "(v, v) \<notin> (edges adj)\<^sup>+" using Cons.prems by (cases "state v") (auto simp: search_ok_def)
    with False Cons.IH [OF Cons.prems] show ?thesis by simp
  next
    case True
    obtain found state' where run: "visit adj [(v, 0)] (state(v := Grey)) = (found, state')" by fastforce
    have "search_ok adj [(v, 0)] (state(v := Grey))" using Cons.prems True by (auto simp: search_ok_def)
    note s = visit_sound [OF run this]
    show ?thesis
    proof (cases found)
      case True
      with s run \<open>state v = White\<close> show ?thesis by simp
    next
      case False
      then have ok: "search_ok adj [] state'" and "state' v = Black" using s by auto
      then have "(v, v) \<notin> (edges adj)\<^sup>+" by (simp add: search_ok_def)
      with False run True Cons.IH [OF ok] show ?thesis by simp
    qed
  qed
qed simp

lemma has_cycle_acyclic: "has_cycle adj \<longleftrightarrow> \<not> acyclic (edges adj)"
proof -
  have ok: "search_ok adj [] (\<lambda>_. White)" by (simp add: search_ok_def)
  have "v \<in> set (map fst adj)" if "(v, v) \<in> (edges adj)\<^sup>+" for v
    using that by (metis edges_iff edge_source tranclD)
  then show ?thesis using has_cycle_from_sound [OF ok, of "map fst adj"] by (auto simp: has_cycle_def acyclic_def)
qed

section \<open>Reachability\<close>

lemma reach_from_bound:
  "set (reach_from adj stack reached) \<subseteq> set reached \<union> (edges adj)\<^sup>* `` set stack"
proof (induction adj stack reached rule: reach_from.induct)
  case (2 adj v stack reached)
  have "(edges adj)\<^sup>* `` set (targets_of adj v) \<subseteq> (edges adj)\<^sup>* `` {v}"
    by (auto intro: converse_rtrancl_into_rtrancl)
  with 2 show ?case by (auto simp: Image_Un split: if_splits) blast+
qed simp

lemma reach_from_closed:
  assumes "\<And>v. v \<in> set reached \<Longrightarrow> set (targets_of adj v) \<subseteq> set reached \<union> set stack"
  shows "set reached \<union> set stack \<subseteq> set (reach_from adj stack reached) \<and>
    (\<forall>v \<in> set (reach_from adj stack reached). set (targets_of adj v) \<subseteq> set (reach_from adj stack reached))"
  using assms
proof (induction adj stack reached rule: reach_from.induct)
  case (2 adj v stack reached)
  show ?case
  proof (cases "v \<in> set reached")
    case True
    then have "set reached \<union> set stack \<subseteq> set (reach_from adj stack reached) \<and>
      (\<forall>v \<in> set (reach_from adj stack reached). set (targets_of adj v) \<subseteq> set (reach_from adj stack reached))"
      using 2(3) by (intro 2(1)) auto
    with True show ?thesis by auto
  next
    case False
    then have "set (v # reached) \<union> set (rev (targets_of adj v) @ stack) \<subseteq> set (reach_from adj (rev (targets_of adj v) @ stack) (v # reached)) \<and>
      (\<forall>w \<in> set (reach_from adj (rev (targets_of adj v) @ stack) (v # reached)).
         set (targets_of adj w) \<subseteq> set (reach_from adj (rev (targets_of adj v) @ stack) (v # reached)))"
      using 2(3) by (intro 2(2)) auto
    with False show ?thesis by auto
  qed
qed simp

lemma reach_from_reachable: "set (reach_from adj [r] []) = (edges adj)\<^sup>* `` {r}"
proof
  show "set (reach_from adj [r] []) \<subseteq> (edges adj)\<^sup>* `` {r}" using reach_from_bound [of adj "[r]" "[]"] by simp
  let ?R = "set (reach_from adj [r] [])"
  have r: "r \<in> ?R" and closed: "\<And>v t. v \<in> ?R \<Longrightarrow> (v, t) \<in> edges adj \<Longrightarrow> t \<in> ?R"
    using reach_from_closed [of "[]" adj "[r]"] by auto
  have "w \<in> ?R" if "(r, w) \<in> (edges adj)\<^sup>*" for w
    using that by (induction rule: rtrancl_induct) (use r closed in auto)
  then show "(edges adj)\<^sup>* `` {r} \<subseteq> ?R" by blast
qed

text \<open>
  C10: the two graph searches of the verifier are correct. The iterative search with three colours
  answers that there is a cycle exactly when some node lies on a path back to itself, and the
  search from a node collects exactly the nodes that a path leads to. Both end on every graph.
\<close>

theorem graph_searches_correct:
  "(has_cycle adj \<longleftrightarrow> (\<exists>v. (v, v) \<in> (edges adj)\<^sup>+)) \<and>
   (w \<in> set (reach_from adj [v] []) \<longleftrightarrow> (v, w) \<in> (edges adj)\<^sup>*)"
  unfolding has_cycle_acyclic reach_from_reachable by (auto simp: acyclic_def)

end
