(* ===== verification/EvidenceSoundness.thy ===== *)
theory EvidenceSoundness imports EvidenceGraph begin

text \<open>
  What an accepted evidence chain proves. No diagnostic means that the document is sealed, that
  its nodes and edges form an acyclic graph whose every node is reached from the one root, that
  each edge connects nodes of the declared types, that profiles rest on approved policies, and
  that every event of the result comes from a source file with the recorded bytes.
\<close>

section \<open>Diagnostics\<close>

named_theorems silent \<open>when a check adds no diagnostic\<close>

lemma report_not_Nil [simp]: "report code errors \<noteq> []"
  by (auto simp: report_def)

lemma report_if_Nil [silent]: "report_if failed code errors = [] \<longleftrightarrow> \<not> failed \<and> errors = []"
  by (simp add: report_if_def)

lemma report_all_Nil [silent]:
  "report_all checks errors = [] \<longleftrightarrow> errors = [] \<and> (\<forall>(failed, code) \<in> set checks. \<not> failed)"
  unfolding report_all_def by (induction checks arbitrary: errors) (auto simp: report_if_Nil)

lemma report_ref_Nil [silent]: "report_ref ref errors = [] \<longleftrightarrow> valid_ref False ref \<and> errors = []"
  by (auto simp: report_ref_def split: json.splits)

lemma check_hash_Nil [silent]:
  "check_hash h d a b errors = [] \<longleftrightarrow> errors = [] \<and>
     (\<exists>x. evidence_hash h d [''content_hash''] = Some x \<and> dget d ''content_hash'' = JStr x \<and> hash_re x)"
  by (auto simp: check_hash_def Let_def report_if_Nil is_hash_def split: option.splits json.splits)

lemma fold_Nil:
  assumes "\<And>x errors. f x errors = [] \<longleftrightarrow> P x \<and> errors = []"
  shows "fold f xs errors = [] \<longleftrightarrow> (\<forall>x \<in> set xs. P x) \<and> errors = []"
  using assms by (induction xs arbitrary: errors) auto

section \<open>Nodes\<close>

definition node_id :: "dict \<Rightarrow> string" where "node_id d = jstr (dget d ''node_id'')"

definition node_ok :: "dict \<Rightarrow> dict \<Rightarrow> bool" where
  "node_ok g d \<longleftrightarrow> keys_are d node_keys \<and> is_nonempty_string (dget d ''node_id'') \<and> node_errors g d [] = []"

lemma node_errors_Nil: "node_errors g d errors = [] \<longleftrightarrow> node_errors g d [] = [] \<and> errors = []"
  unfolding node_errors_def Let_def by (auto simp: silent)

lemma add_node_Nil:
  assumes "add_node g raw (nodes, errors) = (nodes', [])"
  shows "\<exists>d. raw = JObj d \<and> node_ok g d \<and> map_of nodes (node_id d) = None \<and> nodes' = nodes @ [(node_id d, d)] \<and> errors = []"
  using assms node_errors_Nil [of g _ errors]
  by (auto simp: add_node_def Let_def node_ok_def node_id_def split: json.splits if_splits)

lemma fold_add_node_Nil:
  assumes "fold (add_node g) raws (nodes, errors) = (nodes', [])"
  shows "\<exists>ds. raws = map JObj ds \<and> (\<forall>d \<in> set ds. node_ok g d) \<and>
    nodes' = nodes @ map (\<lambda>d. (node_id d, d)) ds \<and> (distinct (map fst nodes) \<longrightarrow> distinct (map fst nodes')) \<and> errors = []"
  using assms
proof (induction raws arbitrary: nodes errors)
  case (Cons raw raws)
  obtain nodes1 errors1 where one: "add_node g raw (nodes, errors) = (nodes1, errors1)" by fastforce
  with Cons.prems have "fold (add_node g) raws (nodes1, errors1) = (nodes', [])" by simp
  from Cons.IH [OF this] obtain ds where ds: "raws = map JObj ds" "\<forall>d \<in> set ds. node_ok g d"
    "nodes' = nodes1 @ map (\<lambda>d. (node_id d, d)) ds" "distinct (map fst nodes1) \<longrightarrow> distinct (map fst nodes')" "errors1 = []"
    by blast
  from one ds(5) have "add_node g raw (nodes, errors) = (nodes1, [])" by simp
  from add_node_Nil [OF this] obtain d where d: "raw = JObj d" "node_ok g d" "map_of nodes (node_id d) = None"
    "nodes1 = nodes @ [(node_id d, d)]" "errors = []" by blast
  show ?case using ds d by (intro exI [of _ "d # ds"]) (auto simp: map_of_eq_None_iff)
qed (use assms in simp)

section \<open>Edges\<close>

definition edge_source :: "dict \<Rightarrow> string" where "edge_source d = jstr (dget d ''from_node_id'')"
definition edge_target :: "dict \<Rightarrow> string" where "edge_target d = jstr (dget d ''to_node_id'')"
definition edge_kind :: "dict \<Rightarrow> string" where "edge_kind d = jstr (dget d ''edge_type'')"

definition edge_ok :: "nodes \<Rightarrow> dict \<Rightarrow> bool" where
  "edge_ok nodes d \<longleftrightarrow> keys_are d edge_keys \<and> is_nonempty_string (dget d ''from_node_id'') \<and>
     is_nonempty_string (dget d ''to_node_id'') \<and> is_nonempty_string (dget d ''edge_type'') \<and>
     is_non_negative_int (dget d ''sequence'') \<and>
     (\<exists>source_type target_type. map_of edge_signatures (edge_kind d) = Some (source_type, target_type) \<and>
        (\<forall>x. source_type = Some x \<longrightarrow> node_type_is nodes (edge_source d) x) \<and> map_of nodes (edge_source d) \<noteq> None \<and>
        node_type_is nodes (edge_target d) target_type)"

text \<open>The state after the edges, seen through its lookups.\<close>

definition typed_of :: "edge_state \<Rightarrow> string \<Rightarrow> string \<Rightarrow> string list" where
  "typed_of s u k = (case map_of (es_typed s) (u, k) of None \<Rightarrow> [] | Some ts \<Rightarrow> ts)"

lemma map_of_append_to:
  "map_of (append_to k v d) l = (if l = k then Some ((case map_of d k of None \<Rightarrow> [] | Some vs \<Rightarrow> vs) @ [v]) else map_of d l)"
  by (simp add: append_to_def update_conv')

lemma append_to_keys: "map_of d k \<noteq> None \<Longrightarrow> map fst (append_to k v d) = map fst d"
  unfolding append_to_def by (metis map_of_eq_None_iff set_map update_keys)

lemma es_report_not_Nil [simp]: "es_errors (es_report code s) \<noteq> []"
  by (simp add: es_report_def)

lemma link_edge_Nil:
  assumes "es_errors (link_edge nodes source target kind position s) = []"
  obtains source_type target_type where "map_of edge_signatures kind = Some (source_type, target_type)"
    and "\<forall>x. source_type = Some x \<longrightarrow> node_type_is nodes source x" and "map_of nodes source \<noteq> None"
    and "node_type_is nodes target target_type"
    and "link_edge nodes source target kind position s = s\<lparr>es_adjacency := append_to source target (es_adjacency s),
      es_typed := append_to (source, kind) target (es_typed s), es_edges := es_edges s @ [(source, target, kind, position)]\<rparr>"
proof (cases "map_of edge_signatures kind")
  case None
  then show ?thesis using assms by (simp add: link_edge_def split: if_splits)
next
  case (Some p)
  obtain source_type target_type where p: "p = (source_type, target_type)" by (cases p)
  from assms Some p have ok: "\<not> (map_of nodes source = None \<or> map_of nodes target = None)"
    "\<not> ((case source_type of None \<Rightarrow> False | Some x \<Rightarrow> \<not> node_type_is nodes source x) \<or> \<not> node_type_is nodes target target_type)"
    unfolding link_edge_def by (auto split: if_splits)
  show ?thesis
  proof (rule that)
    show "map_of edge_signatures kind = Some (source_type, target_type)" using Some p by simp
    show "\<forall>x. source_type = Some x \<longrightarrow> node_type_is nodes source x" using ok by (auto split: option.splits)
    show "link_edge nodes source target kind position s = s\<lparr>es_adjacency := append_to source target (es_adjacency s),
      es_typed := append_to (source, kind) target (es_typed s), es_edges := es_edges s @ [(source, target, kind, position)]\<rparr>"
      unfolding link_edge_def by (simp only: ok Some p if_False option.case prod.case)
  qed (use ok in simp_all)
qed

text \<open>An edge that adds no diagnostic is well formed and appears in the two lookups.\<close>

definition edge_added :: "dict \<Rightarrow> edge_state \<Rightarrow> edge_state \<Rightarrow> bool" where
  "edge_added d s s' \<longleftrightarrow> es_errors s = [] \<and> es_adjacency s' = append_to (edge_source d) (edge_target d) (es_adjacency s) \<and>
     es_typed s' = append_to (edge_source d, edge_kind d) (edge_target d) (es_typed s)"

lemma add_edge_Nil:
  assumes "es_errors (add_edge nodes raw s) = []"
  shows "\<exists>d. raw = JObj d \<and> edge_ok nodes d \<and> edge_added d s (add_edge nodes raw s)"
proof (cases raw)
  case (JObj d)
  let ?link = "\<lambda>s'. link_edge nodes (edge_source d) (edge_target d) (edge_kind d) (jint (dget d ''sequence'')) s'"
  define key where "key = (edge_source d, edge_target d, edge_kind d)"
  define s1 where "s1 = (if List.member (es_seen s) key then es_report ''EVIDENCE_EDGE_DUPLICATE'' s else s)"
  from assms JObj have shape: "keys_are d edge_keys" "is_nonempty_string (dget d ''from_node_id'')"
    "is_nonempty_string (dget d ''to_node_id'')" "is_nonempty_string (dget d ''edge_type'')"
    "is_non_negative_int (dget d ''sequence'')" by (auto simp: add_edge_def split: if_splits)
  then have eq: "add_edge nodes raw s = ?link (s1\<lparr>es_seen := key # es_seen s1\<rparr>)"
    using JObj by (simp add: add_edge_def Let_def s1_def key_def edge_source_def edge_target_def edge_kind_def)
  from assms [unfolded eq] show ?thesis
  proof (rule link_edge_Nil, goal_cases)
    case (1 source_type target_type)
    then have "es_errors s1 = []" using assms eq by simp
    then have "s1 = s" by (simp add: s1_def split: if_splits)
    with 1 shape eq JObj \<open>es_errors s1 = []\<close> show ?case by (auto simp: edge_ok_def edge_added_def)
  qed
qed (use assms in \<open>simp_all add: add_edge_def\<close>)

lemma fold_edges_Nil:
  assumes "es_errors (fold (add_edge nodes) raws s) = []"
  shows "\<exists>ds. raws = map JObj ds \<and> (\<forall>d \<in> set ds. edge_ok nodes d) \<and> es_errors s = [] \<and>
    (\<forall>u. targets_of (es_adjacency (fold (add_edge nodes) raws s)) u =
      targets_of (es_adjacency s) u @ map edge_target (filter (\<lambda>d. edge_source d = u) ds)) \<and>
    (\<forall>u k. typed_of (fold (add_edge nodes) raws s) u k =
      typed_of s u k @ map edge_target (filter (\<lambda>d. edge_source d = u \<and> edge_kind d = k) ds))"
  using assms
proof (induction raws arbitrary: s)
  case (Cons raw raws)
  define s1 where "s1 = add_edge nodes raw s"
  from Cons.prems have "es_errors (fold (add_edge nodes) raws s1) = []" by (simp add: s1_def)
  from Cons.IH [OF this] obtain ds where ds: "raws = map JObj ds" "\<forall>d \<in> set ds. edge_ok nodes d" "es_errors s1 = []"
    "\<forall>u. targets_of (es_adjacency (fold (add_edge nodes) raws s1)) u =
      targets_of (es_adjacency s1) u @ map edge_target (filter (\<lambda>d. edge_source d = u) ds)"
    "\<forall>u k. typed_of (fold (add_edge nodes) raws s1) u k =
      typed_of s1 u k @ map edge_target (filter (\<lambda>d. edge_source d = u \<and> edge_kind d = k) ds)" by blast
  from add_edge_Nil [OF ds(3) [unfolded s1_def]] obtain d where d: "raw = JObj d" "edge_ok nodes d" "edge_added d s s1"
    unfolding s1_def by blast
  have "targets_of (es_adjacency s1) u = targets_of (es_adjacency s) u @ (if edge_source d = u then [edge_target d] else [])" for u
    using d(3) by (simp add: edge_added_def targets_of_def map_of_append_to)
  moreover have "typed_of s1 u k = typed_of s u k @ (if edge_source d = u \<and> edge_kind d = k then [edge_target d] else [])" for u k
    using d(3) by (auto simp: edge_added_def typed_of_def map_of_append_to)
  moreover have "fold (add_edge nodes) (raw # raws) s = fold (add_edge nodes) raws s1" by (simp add: s1_def)
  ultimately show ?case using ds d(1,2) d(3) by (intro exI [of _ "d # ds"]) (simp add: edge_added_def)
qed simp

section \<open>Paths from the root\<close>

lemma py_eq_string [simp]: "py_eq (JStr x) v \<longleftrightarrow> v = JStr x"
  by (cases v) (auto simp: py_eq.simps)

definition file_ok :: "(string \<Rightarrow> string) \<Rightarrow> source_loader \<Rightarrow> bool \<Rightarrow> nodes \<Rightarrow> string \<Rightarrow> bool" where
  "file_ok sha loader require_bytes nodes file \<longleftrightarrow>
     (\<exists>m r x locator. node_field nodes file ''metadata'' = JObj m \<and> node_field nodes file ''artifact_ref'' = JObj r \<and>
        dget m ''retained_bytes_sha256'' = JStr x \<and> dget r ''content_hash'' = JStr x \<and> dget m ''storage_locator'' = JStr locator \<and>
        (case loader of None \<Rightarrow> \<not> require_bytes | Some load \<Rightarrow> (\<exists>b. load locator = LoaderBytes b \<and> sha b = x)))"

lemma file_errors_Nil:
  "file_errors sha loader require_bytes nodes file errors = [] \<Longrightarrow>
     file_ok sha loader require_bytes nodes file \<and> errors = []"
  by (auto simp: file_errors_def file_ok_def Let_def silent is_hash_def is_nonempty_string_def jstr_def
      split: json.splits option.splits loaded.splits if_splits)

lemma fold_NilD:
  assumes "\<And>x errors. f x errors = [] \<Longrightarrow> P x \<and> errors = []" and "fold f xs errors = []"
  shows "(\<forall>x \<in> set xs. P x) \<and> errors = []"
  using assms(2)
proof (induction xs arbitrary: errors)
  case (Cons x xs)
  then have "(\<forall>x \<in> set xs. P x) \<and> f x errors = []" by simp
  with assms(1) [of x errors] show ?case by simp
qed simp

definition record_ok where
  "record_ok sha loader require_bytes nodes s record \<longleftrightarrow>
     (let files = typed_targets nodes s record ''RECORD_READ_FROM_FILE'' ''SOURCE_FILE'' in
      files \<noteq> [] \<and> (\<forall>f \<in> set files. file_ok sha loader require_bytes nodes f))"

lemma record_errors_Nil:
  "record_errors sha loader require_bytes nodes s record errors = [] \<Longrightarrow>
     record_ok sha loader require_bytes nodes s record \<and> errors = []"
  unfolding record_errors_def record_ok_def Let_def by (drule fold_NilD [OF file_errors_Nil, rotated]) (auto simp: silent)

definition event_ok where
  "event_ok sha loader require_bytes nodes s event \<longleftrightarrow>
     (let records = typed_targets nodes s event ''EVENT_NORMALIZED_FROM_RECORD'' ''SOURCE_RECORD'' in
      records \<noteq> [] \<and> (\<forall>r \<in> set records. record_ok sha loader require_bytes nodes s r))"

lemma event_errors_Nil:
  "event_errors sha loader require_bytes nodes s event errors = [] \<Longrightarrow>
     event_ok sha loader require_bytes nodes s event \<and> errors = []"
  unfolding event_errors_def event_ok_def Let_def by (drule fold_NilD [OF record_errors_Nil, rotated]) (auto simp: silent)

definition profile_ok where
  "profile_ok nodes s profile \<longleftrightarrow>
     (let rounding = typed_targets nodes s profile ''PROFILE_USES_ROUNDING'' ''ROUNDING_POLICY'';
          authorities = typed_targets nodes s profile ''PROFILE_USES_SOURCE_AUTHORITY'' ''SOURCE_AUTHORITY'' in
      rounding \<noteq> [] \<and> authorities \<noteq> [] \<and> (\<forall>a \<in> set rounding \<union> set authorities. approved nodes s a))"

lemma profile_errors_Nil: "profile_errors nodes s profile errors = [] \<Longrightarrow> profile_ok nodes s profile \<and> errors = []"
  unfolding profile_errors_def profile_ok_def Let_def by (auto simp: silent list_all_iff)

lemma resolution_errors_Nil:
  "resolution_errors nodes s r errors = [] \<Longrightarrow>
     typed_targets nodes s r ''RESOLUTION_SELECTS_RULE'' ''CONFIGURATION_RULE'' \<noteq> [] \<and> errors = []"
  by (simp add: resolution_errors_def silent)

definition root_ok where
  "root_ok sha loader require_bytes nodes s snap \<longleftrightarrow>
     (\<forall>e \<in> set (typed_targets nodes s snap ''RESULT_DERIVED_FROM_EVENT'' ''CANONICAL_EVENT''). event_ok sha loader require_bytes nodes s e) \<and>
     (\<forall>p \<in> set (typed_targets nodes s snap ''RESULT_CALCULATED_WITH'' ''CALCULATION_PROFILE''). profile_ok nodes s p) \<and>
     (\<forall>(i, d) \<in> set nodes. (snap, i) \<in> (edges (es_adjacency s))\<^sup>*) \<and>
     (\<forall>(kind, node_type) \<in> set required_paths. typed_targets nodes s snap kind node_type \<noteq> [])"

lemma fold_events_Nil:
  "fold (event_errors sha loader require_bytes nodes s) es errors = [] \<Longrightarrow>
     (\<forall>e \<in> set es. event_ok sha loader require_bytes nodes s e) \<and> errors = []"
  by (rule fold_NilD [of "event_errors sha loader require_bytes nodes s"]) (use event_errors_Nil in auto)

lemma fold_profiles_Nil:
  "fold (profile_errors nodes s) ps errors = [] \<Longrightarrow> (\<forall>p \<in> set ps. profile_ok nodes s p) \<and> errors = []"
  by (rule fold_NilD [of "profile_errors nodes s"]) (use profile_errors_Nil in auto)

lemma fold_resolutions_Nil: "fold (resolution_errors nodes s) rs errors = [] \<Longrightarrow> True \<and> errors = []"
  using fold_NilD [of "resolution_errors nodes s" "\<lambda>_. True" rs errors] resolution_errors_Nil by blast

lemma root_errors_Nil:
  assumes "root_errors sha loader require_bytes nodes s snap errors = []"
  shows "root_ok sha loader require_bytes nodes s snap \<and> errors = []"
proof -
  note events = fold_events_Nil [OF assms [unfolded root_errors_def Let_def]]
  note profiles = fold_profiles_Nil [OF conjunct2 [OF fold_resolutions_Nil [OF conjunct2 [OF events]]]]
  from conjunct2 [OF profiles] have rest: "errors = []"
    "\<forall>(i, d) \<in> set nodes. (snap, i) \<in> (edges (es_adjacency s))\<^sup>*"
    "\<forall>(kind, node_type) \<in> set required_paths. typed_targets nodes s snap kind node_type \<noteq> []"
    unfolding report_all_Nil by (auto simp: list_all_iff list_ex_iff reach_from_reachable simp del: reach_from.simps)
  show ?thesis unfolding root_ok_def using conjunct1 [OF events] conjunct1 [OF profiles] rest by blast
qed

section \<open>Chains as graphs of documents\<close>

definition chain_nodes :: "dict \<Rightarrow> dict list" where
  "chain_nodes g = map jdict (jlist (dget g ''nodes''))"

definition chain_edges :: "dict \<Rightarrow> dict list" where
  "chain_edges g = map jdict (jlist (dget g ''edges''))"

definition links :: "dict \<Rightarrow> (string \<times> string) set" where
  "links g = (\<lambda>d. (edge_source d, edge_target d)) ` set (chain_edges g)"

text \<open>An edge of the given type between two nodes.\<close>

definition linked :: "dict \<Rightarrow> string \<Rightarrow> string \<Rightarrow> string \<Rightarrow> bool" where
  "linked g u kind v \<longleftrightarrow> (\<exists>d \<in> set (chain_edges g). edge_source d = u \<and> edge_kind d = kind \<and> edge_target d = v)"

definition has_node :: "dict \<Rightarrow> string \<Rightarrow> dict \<Rightarrow> bool" where
  "has_node g i d \<longleftrightarrow> d \<in> set (chain_nodes g) \<and> node_id d = i"

text \<open>The node of the result the chain is about.\<close>

definition is_root :: "dict \<Rightarrow> string \<Rightarrow> bool" where
  "is_root g i \<longleftrightarrow> (\<exists>d. has_node g i d \<and> dget d ''node_type'' = JStr ''METRIC_SNAPSHOT'' \<and>
     py_eq (dget d ''artifact_ref'') (dget g ''root_metric_snapshot_ref''))"

definition sealed_chain :: "(string \<Rightarrow> string) \<Rightarrow> dict \<Rightarrow> bool" where
  "sealed_chain h g \<longleftrightarrow> (\<exists>x. evidence_hash h g [''content_hash''] = Some x \<and> dget g ''content_hash'' = JStr x)"

lemma jdict_map: "map jdict (map JObj ds) = ds"
  by (simp add: jdict_def comp_def)

lemma targets_of_start: "targets_of (map (\<lambda>(i, d). (i, [])) nodes) u = []"
  by (auto simp: targets_of_def split: option.splits dest!: map_of_SomeD)

text \<open>What the verifier has computed when it ends without a diagnostic.\<close>

definition analysed ::
  "(string \<Rightarrow> string) \<Rightarrow> (string \<Rightarrow> string) \<Rightarrow> source_loader \<Rightarrow> bool \<Rightarrow> dict \<Rightarrow> nodes \<Rightarrow> edge_state \<Rightarrow> string \<Rightarrow> bool" where
  "analysed h sha loader require_bytes g nodes s snap \<longleftrightarrow>
     nodes = map (\<lambda>d. (node_id d, d)) (chain_nodes g) \<and> distinct (map node_id (chain_nodes g)) \<and>
     (\<forall>d \<in> set (chain_nodes g). node_ok g d) \<and> root_nodes g nodes = [snap] \<and>
     (\<forall>d \<in> set (chain_edges g). edge_ok nodes d) \<and>
     (\<forall>u. targets_of (es_adjacency s) u = map edge_target (filter (\<lambda>d. edge_source d = u) (chain_edges g))) \<and>
     (\<forall>u k. typed_of s u k = map edge_target (filter (\<lambda>d. edge_source d = u \<and> edge_kind d = k) (chain_edges g))) \<and>
     \<not> has_cycle (es_adjacency s) \<and> root_ok sha loader require_bytes nodes s snap \<and> sealed_chain h g"

lemma verify_chain_Nil:
  assumes "verify_chain h sha loader require_bytes (JObj g) = []"
  shows "\<exists>nodes s snap. analysed h sha loader require_bytes g nodes s snap"
proof -
  obtain nodes errors where r: "read_nodes g (header_errors h g) = (nodes, errors)" by fastforce
  define roots where "roots = root_nodes g nodes"
  define s where "s = read_edges g nodes (report_if (length roots \<noteq> 1) ''EVIDENCE_NODE_MISSING'' errors)"
  define found where "found = report_if (has_cycle (es_adjacency s)) ''EVIDENCE_GRAPH_CYCLE'' (es_errors s)"
  have run: "(case roots of [snap] \<Rightarrow> root_errors sha loader require_bytes nodes s snap found | _ \<Rightarrow> found) = []"
    using assms unfolding verify_chain_def json.case r prod.case Let_def found_def s_def roots_def .
  have "found = []"
  proof (cases "length roots = 1")
    case True
    then obtain snap where "roots = [snap]" by (auto simp: length_Suc_conv)
    with run show ?thesis by (simp add: root_errors_Nil)
  qed (use run in \<open>simp split: list.splits\<close>)
  then have cycle: "\<not> has_cycle (es_adjacency s)" and edges_ok: "es_errors s = []" by (simp_all add: found_def silent)
  define start where "start = \<lparr>es_adjacency = map (\<lambda>(i, d). (i, [])) nodes, es_typed = [], es_seen = [], es_edges = [],
    es_errors = (case dget g ''edges'' of JList _ \<Rightarrow> report_if (length roots \<noteq> 1) ''EVIDENCE_NODE_MISSING'' errors
      | _ \<Rightarrow> report ''EVIDENCE_MALFORMED'' (report_if (length roots \<noteq> 1) ''EVIDENCE_NODE_MISSING'' errors))\<rparr>"
  have s_start: "s = fold (add_edge nodes) (jlist (dget g ''edges'')) start"
    unfolding s_def read_edges_def Let_def start_def ..
  have start: "targets_of (es_adjacency start) u = []" "typed_of start u k = []"
    "es_errors start = (case dget g ''edges'' of JList _ \<Rightarrow> report_if (length roots \<noteq> 1) ''EVIDENCE_NODE_MISSING'' errors
      | _ \<Rightarrow> report ''EVIDENCE_MALFORMED'' (report_if (length roots \<noteq> 1) ''EVIDENCE_NODE_MISSING'' errors))" for u k
    by (simp_all add: start_def targets_of_start typed_of_def)
  obtain ds where ds: "jlist (dget g ''edges'') = map JObj ds" "\<forall>d \<in> set ds. edge_ok nodes d"
    "(case dget g ''edges'' of JList _ \<Rightarrow> report_if (length roots \<noteq> 1) ''EVIDENCE_NODE_MISSING'' errors
      | _ \<Rightarrow> report ''EVIDENCE_MALFORMED'' (report_if (length roots \<noteq> 1) ''EVIDENCE_NODE_MISSING'' errors)) = []"
    "\<And>u. targets_of (es_adjacency s) u = map edge_target (filter (\<lambda>d. edge_source d = u) ds)"
    "\<And>u k. typed_of s u k = map edge_target (filter (\<lambda>d. edge_source d = u \<and> edge_kind d = k) ds)"
    using fold_edges_Nil [OF edges_ok [unfolded s_start]] unfolding s_start [symmetric] start by auto
  have ce: "chain_edges g = ds" by (simp only: chain_edges_def ds(1) jdict_map)
  have edges: "\<forall>d \<in> set (chain_edges g). edge_ok nodes d"
    "\<And>u. targets_of (es_adjacency s) u = map edge_target (filter (\<lambda>d. edge_source d = u) (chain_edges g))"
    "\<And>u k. typed_of s u k = map edge_target (filter (\<lambda>d. edge_source d = u \<and> edge_kind d = k) (chain_edges g))"
    and one: "length roots = 1" and no_errors: "errors = []"
    using ds(2-5) by (auto simp: ce silent split: json.splits)
  from one obtain snap where snap: "roots = [snap]" by (auto simp: length_Suc_conv)
  from r no_errors have "fold (add_node g) (jlist (dget g ''nodes''))
      ([], report_if (jlist (dget g ''nodes'') = []) ''EVIDENCE_NODE_MISSING'' (header_errors h g)) = (nodes, [])"
    by (simp add: read_nodes_def Let_def)
  from fold_add_node_Nil [OF this] obtain ns where ns: "jlist (dget g ''nodes'') = map JObj ns" "\<forall>d \<in> set ns. node_ok g d"
    "nodes = map (\<lambda>d. (node_id d, d)) ns" "distinct (map fst nodes)" "header_errors h g = []"
    by (auto simp: silent)
  have cn: "chain_nodes g = ns" by (simp only: chain_nodes_def ns(1) jdict_map)
  have nodes: "nodes = map (\<lambda>d. (node_id d, d)) (chain_nodes g)" "distinct (map node_id (chain_nodes g))"
    "\<forall>d \<in> set (chain_nodes g). node_ok g d"
    using ns(2-4) by (simp_all add: cn comp_def)
  have sealed: "sealed_chain h g" using ns(5) by (auto simp: header_errors_def sealed_chain_def silent)
  from run snap have "root_errors sha loader require_bytes nodes s snap [] = []" using \<open>found = []\<close> by simp
  from root_errors_Nil [OF this] snap nodes edges cycle sealed show ?thesis unfolding analysed_def roots_def by blast
qed


lemma analysedD:
  assumes "analysed h sha loader require_bytes g nodes s snap"
  shows "nodes = map (\<lambda>d. (node_id d, d)) (chain_nodes g)" and "distinct (map node_id (chain_nodes g))"
    and "root_nodes g nodes = [snap]" and "d \<in> set (chain_edges g) \<Longrightarrow> edge_ok nodes d"
    and "targets_of (es_adjacency s) u = map edge_target (filter (\<lambda>d. edge_source d = u) (chain_edges g))"
    and "typed_of s u k = map edge_target (filter (\<lambda>d. edge_source d = u \<and> edge_kind d = k) (chain_edges g))"
    and "\<not> has_cycle (es_adjacency s)" and "root_ok sha loader require_bytes nodes s snap" and "sealed_chain h g"
  using assms unfolding analysed_def by blast+

lemma analysed_links:
  assumes "analysed h sha loader require_bytes g nodes s snap"
  shows "edges (es_adjacency s) = links g"
  unfolding links_def edges_def analysedD(5) [OF assms] by auto

lemma analysed_map_of:
  assumes "analysed h sha loader require_bytes g nodes s snap"
  shows "map_of nodes i = Some d \<longleftrightarrow> has_node g i d"
proof -
  have "distinct (map fst (map (\<lambda>d. (node_id d, d)) (chain_nodes g)))"
    using analysedD(2) [OF assms] by (simp add: comp_def)
  then have "map_of (map (\<lambda>d. (node_id d, d)) (chain_nodes g)) i = Some d \<longleftrightarrow> has_node g i d"
    unfolding map_of_eq_Some_iff [OF \<open>distinct (map fst (map (\<lambda>d. (node_id d, d)) (chain_nodes g)))\<close>]
    by (auto simp: has_node_def)
  then show ?thesis using analysedD(1) [OF assms] by simp
qed

lemma analysed_type:
  assumes "analysed h sha loader require_bytes g nodes s snap"
  shows "node_type_is nodes i t \<longleftrightarrow> (\<exists>d. has_node g i d \<and> dget d ''node_type'' = JStr t)"
  unfolding node_type_is_def analysed_map_of [OF assms, symmetric] by (auto split: option.splits)

lemma analysed_field:
  assumes "analysed h sha loader require_bytes g nodes s snap" and "node_field nodes i f = v" and "v \<noteq> JNull"
  shows "\<exists>d. has_node g i d \<and> dget d f = v"
  unfolding analysed_map_of [OF assms(1), symmetric] using assms(2,3) by (auto simp: node_field_def split: option.splits)

lemma analysed_targets:
  assumes "analysed h sha loader require_bytes g nodes s snap" and "map_of edge_signatures k = Some (src, t)"
  shows "set (typed_targets nodes s u k t) = {v. linked g u k v}"
proof -
  have "typed_targets nodes s u k t = filter (\<lambda>v. node_type_is nodes v t) (typed_of s u k)"
    by (simp add: typed_targets_def typed_of_def)
  moreover have "node_type_is nodes (edge_target d) t" if "d \<in> set (chain_edges g)" "edge_kind d = k" for d
    using analysedD(4) [OF assms(1) that(1)] assms(2) that(2) by (auto simp: edge_ok_def)
  ultimately show ?thesis unfolding analysedD(6) [OF assms(1)] linked_def by auto
qed

lemma analysed_target_exists:
  assumes "analysed h sha loader require_bytes g nodes s snap" and "map_of edge_signatures k = Some (src, t)"
  shows "typed_targets nodes s u k t \<noteq> [] \<longleftrightarrow> (\<exists>v. linked g u k v)"
  using analysed_targets [OF assms, of u] by (metis Collect_empty_eq set_empty)

lemma analysed_root:
  assumes "analysed h sha loader require_bytes g nodes s snap"
  shows "is_root g i \<longleftrightarrow> i = snap"
proof -
  have "is_root g i \<longleftrightarrow> i \<in> set (root_nodes g nodes)"
    unfolding analysedD(1) [OF assms] by (auto simp: root_nodes_def is_root_def has_node_def image_iff)
  then show ?thesis unfolding analysedD(3) [OF assms] by simp
qed

lemma fold_strict_profiles_Nil:
  "fold (strict_profile_errors es ns rules) ps errors = [] \<Longrightarrow>
     (\<forall>p \<in> set ps. strict_profile_errors es ns rules p [] = []) \<and> errors = []"
  by (rule fold_NilD [of "strict_profile_errors es ns rules"])
    (auto simp: strict_profile_errors_def Let_def report_all_Nil)

lemma strict_root_errors_Nil:
  assumes "strict_root_errors es ns r errors = []"
  shows "errors = [] \<and> (\<forall>p \<in> set (strict_targets es ns r ''RESULT_CALCULATED_WITH'' ''CALCULATION_PROFILE'').
    \<exists>rules. strict_profile_errors es ns rules p [] = [])"
  using fold_strict_profiles_Nil [OF assms [unfolded strict_root_errors_def Let_def]] unfolding report_all_Nil by blast

lemma case_two_lists:
  "(case (a, b) of (JList x, JList y) \<Rightarrow> f x y | _ \<Rightarrow> z) =
     (if (\<exists>x y. a = JList x \<and> b = JList y) then f (jlist a) (jlist b) else z)"
  by (cases a; cases b) (simp_all add: jlist_def)

lemma strict_root_errors_grows: "errors \<noteq> [] \<Longrightarrow> strict_root_errors es ns r errors \<noteq> []"
  using strict_root_errors_Nil by blast

lemma report_if_grows: "errors \<noteq> [] \<Longrightarrow> report_if b code errors \<noteq> []"
  by (simp add: report_if_def)

lemma strict_pass_grows:
  assumes "verify_chain h sha loader require_bytes graph \<noteq> []"
  shows "verify_evidence_chain h sha loader require_bytes graph \<noteq> []"
proof (cases graph)
  case (JObj g)
  define e where "e = report_if (\<not> is_rfc3339_datetime (dget g ''created_at'')) ''EVIDENCE_TIMESTAMP_INVALID''
    (verify_chain h sha loader require_bytes (JObj g))"
  have e: "e \<noteq> []" unfolding e_def by (rule report_if_grows) (use assms JObj in simp)
  have "(case rs of [snap] \<Rightarrow> strict_root_errors es ns snap e | _ \<Rightarrow> e) \<noteq> []" for rs es ns
    using e strict_root_errors_grows [OF e] by (auto split: list.split)
  then have "verify_evidence_chain h sha loader require_bytes (JObj g) \<noteq> []"
    unfolding verify_evidence_chain_def Let_def json.case e_def [symmetric] case_two_lists using e by (split if_split) blast
  then show ?thesis unfolding JObj .
qed (use assms in \<open>simp_all add: verify_evidence_chain_def\<close>)

lemma verify_evidence_chain_Nil:
  assumes "verify_evidence_chain h sha loader require_bytes graph = []"
  obtains g nodes s snap where "graph = JObj g" and "analysed h sha loader require_bytes g nodes s snap"
proof -
  from assms strict_pass_grows have run: "verify_chain h sha loader require_bytes graph = []" by blast
  then obtain g where g: "graph = JObj g" by (cases graph) (simp_all add: verify_chain_def)
  from verify_chain_Nil [OF run [unfolded g]] obtain nodes s snap where "analysed h sha loader require_bytes g nodes s snap"
    by blast
  from that [OF g this] show ?thesis .
qed

section \<open>The strict pass on an analysed chain\<close>

lemma raw_objects:
  assumes "\<And>d. d \<in> set (map jdict raws) \<Longrightarrow> d \<noteq> []"
  shows "raws = map JObj (map jdict raws)"
proof -
  have "JObj (jdict v) = v" if "v \<in> set raws" for v
  proof -
    have "jdict v \<noteq> []" using assms that by simp
    then show ?thesis by (cases v) (simp_all add: jdict_def)
  qed
  then show ?thesis by (simp add: map_idI comp_def)
qed

lemma keys_are_not_Nil: "keys_are d (k # ks) \<Longrightarrow> d \<noteq> []"
  by (auto simp: keys_are_def has_key_def)

lemma strict_nodes_fold:
  assumes "distinct (map node_id ds)" and "\<forall>d \<in> set ds. is_nonempty_string (dget d ''node_id'')"
  shows "strict_nodes (map JObj ds) = map (\<lambda>d. (node_id d, d)) ds"
  using assms
proof (induction ds rule: rev_induct)
  case (snoc d ds)
  then have "map_of (map (\<lambda>d. (node_id d, d)) ds) (node_id d) = None" by (auto simp: map_of_eq_None_iff)
  with snoc show ?case by (simp add: strict_nodes_def node_id_def)
qed (simp add: strict_nodes_def)

lemma nonempty_jstr: "is_nonempty_string v \<Longrightarrow> v = JStr s \<longleftrightarrow> jstr v = s"
  by (cases v) (auto simp: is_nonempty_string_def jstr_def)

lemma set_strict_targets:
  "v \<in> set (strict_targets (map JObj ds) nodes u k t) \<longleftrightarrow> (\<exists>d \<in> set ds. dget d ''to_node_id'' = JStr v \<and>
     dget d ''from_node_id'' = JStr u \<and> dget d ''edge_type'' = JStr k \<and> node_type_is nodes v t)"
proof -
  define f where "f = (\<lambda>d. case dget d ''to_node_id'' of
      JStr x \<Rightarrow> if dget d ''from_node_id'' = JStr u \<and> dget d ''edge_type'' = JStr k \<and> node_type_is nodes x t then Some x else None
    | _ \<Rightarrow> None)"
  have "set (strict_targets (map JObj ds) nodes u k t) = {y. \<exists>d \<in> set ds. f d = Some y}"
    unfolding strict_targets_def f_def by (force simp: List.map_filter_def comp_def)
  moreover have "f d = Some v \<longleftrightarrow> dget d ''to_node_id'' = JStr v \<and>
     dget d ''from_node_id'' = JStr u \<and> dget d ''edge_type'' = JStr k \<and> node_type_is nodes v t" for d
    by (cases "dget d ''to_node_id''") (auto simp: f_def)
  ultimately show ?thesis by simp
qed

lemma analysed_strict_targets:
  assumes a: "analysed h sha loader require_bytes g nodes s snap" and k: "map_of edge_signatures k = Some (src, t)"
  shows "set (strict_targets (map JObj (chain_edges g)) nodes u k t) = {v. linked g u k v}"
proof -
  have "dget d ''to_node_id'' = JStr v \<and> dget d ''from_node_id'' = JStr u \<and> dget d ''edge_type'' = JStr k \<and>
      node_type_is nodes v t \<longleftrightarrow> edge_source d = u \<and> edge_kind d = k \<and> edge_target d = v" if "d \<in> set (chain_edges g)" for d v
  proof -
    from analysedD(4) [OF a that] have e: "is_nonempty_string (dget d ''from_node_id'')" "is_nonempty_string (dget d ''to_node_id'')"
      "is_nonempty_string (dget d ''edge_type'')" "edge_kind d = k \<Longrightarrow> node_type_is nodes (edge_target d) t"
      using k by (auto simp: edge_ok_def)
    show ?thesis using e(4) unfolding nonempty_jstr [OF e(1)] nonempty_jstr [OF e(2)] nonempty_jstr [OF e(3)]
      by (auto simp: edge_source_def edge_target_def edge_kind_def)
  qed
  then show ?thesis unfolding set_eq_iff set_strict_targets linked_def mem_Collect_eq by blast
qed

lemma analysed_strict_pass:
  assumes run: "verify_evidence_chain h sha loader require_bytes (JObj g) = []" and a: "analysed h sha loader require_bytes g nodes s snap"
  shows "strict_root_errors (map JObj (chain_edges g)) nodes snap [] = []"
proof -
  have n: "node_ok g d" if "d \<in> set (chain_nodes g)" for d using a that unfolding analysed_def by blast
  have "jlist (dget g ''nodes'') = map JObj (chain_nodes g)" unfolding chain_nodes_def
    by (rule raw_objects) (use n in \<open>auto simp: chain_nodes_def node_ok_def node_keys_def dest: keys_are_not_Nil\<close>)
  moreover have "strict_nodes (map JObj (chain_nodes g)) = nodes"
    unfolding analysedD(1) [OF a] by (rule strict_nodes_fold [OF analysedD(2) [OF a]]) (use n in \<open>auto simp: node_ok_def\<close>)
  moreover have "chain_nodes g \<noteq> []" using analysedD(1,3) [OF a] by (auto simp: root_nodes_def)
  ultimately have nodes: "dget g ''nodes'' = JList (map JObj (chain_nodes g))" "strict_nodes (map JObj (chain_nodes g)) = nodes"
    by (auto simp: jlist_def split: json.splits)
  have "jlist (dget g ''edges'') = map JObj (chain_edges g)" unfolding chain_edges_def
    by (rule raw_objects) (use analysedD(4) [OF a] in \<open>auto simp: chain_edges_def edge_ok_def edge_keys_def dest: keys_are_not_Nil\<close>)
  moreover have "typed_targets nodes s snap ''RESULT_DEFINED_BY'' ''METRIC_DEFINITION'' \<noteq> []"
    using analysedD(8) [OF a] unfolding root_ok_def required_paths_def by simp
  then have "chain_edges g \<noteq> []"
    using analysed_target_exists [OF a, of "''RESULT_DEFINED_BY''"] by (auto simp: edge_signatures_def linked_def)
  ultimately have edges: "dget g ''edges'' = JList (map JObj (chain_edges g))" by (auto simp: jlist_def split: json.splits)
  define e where "e = report_if (\<not> is_rfc3339_datetime (dget g ''created_at'')) ''EVIDENCE_TIMESTAMP_INVALID''
    (verify_chain h sha loader require_bytes (JObj g))"
  from run have "strict_root_errors (map JObj (chain_edges g)) nodes snap e = []"
    unfolding verify_evidence_chain_def Let_def json.case e_def [symmetric] nodes edges prod.case analysedD(3) [OF a] list.case .
  with strict_root_errors_Nil [OF this] show ?thesis by simp
qed

section \<open>What acceptance means\<close>

text \<open>
  C9: an accepted chain is a sealed document whose nodes have distinct identifiers and form an
  acyclic graph; every edge joins existing nodes of the types its kind declares; there is exactly
  one root, and every node is reached from it.
\<close>

theorem accepted_chain_graph:
  assumes "verify_evidence_chain h sha loader require_bytes graph = []"
  shows "\<exists>g result. graph = JObj g \<and> sealed_chain h g \<and> distinct (map node_id (chain_nodes g)) \<and> acyclic (links g) \<and>
    (\<forall>i. is_root g i \<longleftrightarrow> i = result) \<and> (\<forall>d \<in> set (chain_nodes g). (result, node_id d) \<in> (links g)\<^sup>*) \<and>
    (\<forall>e \<in> set (chain_edges g). \<exists>a b x y. has_node g (edge_source e) a \<and> has_node g (edge_target e) b \<and>
       map_of edge_signatures (edge_kind e) = Some (x, y) \<and> dget b ''node_type'' = JStr y \<and>
       (\<forall>t. x = Some t \<longrightarrow> dget a ''node_type'' = JStr t))"
proof (rule verify_evidence_chain_Nil [OF assms], intro exI conjI)
  fix g nodes s snap
  assume g: "graph = JObj g" and a: "analysed h sha loader require_bytes g nodes s snap"
  show "graph = JObj g" by (rule g)
  show "sealed_chain h g" "distinct (map node_id (chain_nodes g))" by (rule analysedD [OF a])+
  show "acyclic (links g)" using analysedD(7) [OF a] analysed_links [OF a] by (simp add: has_cycle_acyclic)
  show "\<forall>i. is_root g i \<longleftrightarrow> i = snap" using analysed_root [OF a] by blast
  show "\<forall>d \<in> set (chain_nodes g). (snap, node_id d) \<in> (links g)\<^sup>*"
    using analysedD(8) [OF a] unfolding root_ok_def analysed_links [OF a] analysedD(1) [OF a] by auto
  show "\<forall>e \<in> set (chain_edges g). \<exists>a b x y. has_node g (edge_source e) a \<and> has_node g (edge_target e) b \<and>
       map_of edge_signatures (edge_kind e) = Some (x, y) \<and> dget b ''node_type'' = JStr y \<and>
       (\<forall>t. x = Some t \<longrightarrow> dget a ''node_type'' = JStr t)"
  proof
    fix e
    assume "e \<in> set (chain_edges g)"
    then obtain x y where e: "map_of edge_signatures (edge_kind e) = Some (x, y)"
      "\<forall>t. x = Some t \<longrightarrow> node_type_is nodes (edge_source e) t" "map_of nodes (edge_source e) \<noteq> None"
      "node_type_is nodes (edge_target e) y" using analysedD(4) [OF a] unfolding edge_ok_def by blast
    then obtain d where d: "map_of nodes (edge_source e) = Some d" by blast
    have "dget d ''node_type'' = JStr t" if "x = Some t" for t using e(2) that d by (simp add: node_type_is_def)
    then show "\<exists>a b x y. has_node g (edge_source e) a \<and> has_node g (edge_target e) b \<and>
       map_of edge_signatures (edge_kind e) = Some (x, y) \<and> dget b ''node_type'' = JStr y \<and>
       (\<forall>t. x = Some t \<longrightarrow> dget a ''node_type'' = JStr t)"
      using e(1,4) d analysed_map_of [OF a] analysed_type [OF a] by blast
  qed
qed

text \<open>
  C7: an accepted chain accounts for its sources. Every event the result is derived from is
  normalized from a source record, and every such record is read from a file whose retained hash
  is the hash of the file's reference. With a loader, the bytes it returns have that hash; without
  one the chain is accepted only if the caller did not require the bytes.
\<close>

theorem accepted_chain_provenance:
  assumes "verify_evidence_chain h sha loader require_bytes (JObj g) = []" and "is_root g result"
    and "linked g result ''RESULT_DERIVED_FROM_EVENT'' event"
  shows "(\<exists>record. linked g event ''EVENT_NORMALIZED_FROM_RECORD'' record) \<and>
    (\<forall>record. linked g event ''EVENT_NORMALIZED_FROM_RECORD'' record \<longrightarrow>
      (\<exists>file. linked g record ''RECORD_READ_FROM_FILE'' file) \<and>
      (\<forall>file. linked g record ''RECORD_READ_FROM_FILE'' file \<longrightarrow>
        (\<exists>d m r locator x. has_node g file d \<and> dget d ''metadata'' = JObj m \<and> dget d ''artifact_ref'' = JObj r \<and>
           dget m ''storage_locator'' = JStr locator \<and> dget m ''retained_bytes_sha256'' = JStr x \<and> dget r ''content_hash'' = JStr x \<and>
           (case loader of None \<Rightarrow> \<not> require_bytes | Some load \<Rightarrow> \<exists>b. load locator = LoaderBytes b \<and> sha b = x))))"
proof (rule verify_evidence_chain_Nil [OF assms(1)])
  fix g' nodes s snap
  assume "JObj g = JObj g'" and "analysed h sha loader require_bytes g' nodes s snap"
  then have a: "analysed h sha loader require_bytes g nodes s snap" by simp
  note targets = analysed_targets [OF a] and some = analysed_target_exists [OF a]
  have source: "\<exists>d m r locator x. has_node g i d \<and> dget d ''metadata'' = JObj m \<and> dget d ''artifact_ref'' = JObj r \<and>
      dget m ''storage_locator'' = JStr locator \<and> dget m ''retained_bytes_sha256'' = JStr x \<and> dget r ''content_hash'' = JStr x \<and>
      (case loader of None \<Rightarrow> \<not> require_bytes | Some load \<Rightarrow> \<exists>b. load locator = LoaderBytes b \<and> sha b = x)"
    if "file_ok sha loader require_bytes nodes i" for i
  proof -
    from that obtain m r x locator where f: "node_field nodes i ''metadata'' = JObj m" "node_field nodes i ''artifact_ref'' = JObj r"
      "dget m ''retained_bytes_sha256'' = JStr x" "dget r ''content_hash'' = JStr x" "dget m ''storage_locator'' = JStr locator"
      "case loader of None \<Rightarrow> \<not> require_bytes | Some load \<Rightarrow> \<exists>b. load locator = LoaderBytes b \<and> sha b = x"
      unfolding file_ok_def by blast
    from f(1) obtain d where d: "map_of nodes i = Some d" by (auto simp: node_field_def split: option.splits)
    then have n: "has_node g i d" using analysed_map_of [OF a] by blast
    have "dget d ''metadata'' = JObj m" "dget d ''artifact_ref'' = JObj r" using f(1,2) d by (simp_all add: node_field_def)
    with n f(3-6) show ?thesis by blast
  qed
  have "snap = result" using assms(2) analysed_root [OF a] by simp
  with assms(3) have "event_ok sha loader require_bytes nodes s event"
    using analysedD(8) [OF a] targets [of "''RESULT_DERIVED_FROM_EVENT''"] by (auto simp: root_ok_def edge_signatures_def)
  then have e: "(\<exists>record. linked g event ''EVENT_NORMALIZED_FROM_RECORD'' record)"
    "\<And>record. linked g event ''EVENT_NORMALIZED_FROM_RECORD'' record \<Longrightarrow> record_ok sha loader require_bytes nodes s record"
    using targets [of "''EVENT_NORMALIZED_FROM_RECORD''" _ "''SOURCE_RECORD''" event]
      some [of "''EVENT_NORMALIZED_FROM_RECORD''" _ "''SOURCE_RECORD''" event]
    by (auto simp: event_ok_def edge_signatures_def)
  have r: "(\<exists>file. linked g q ''RECORD_READ_FROM_FILE'' file) \<and>
      (\<forall>file. linked g q ''RECORD_READ_FROM_FILE'' file \<longrightarrow> file_ok sha loader require_bytes nodes file)"
    if "record_ok sha loader require_bytes nodes s q" for q
    using that targets [of "''RECORD_READ_FROM_FILE''" _ "''SOURCE_FILE''" q]
      some [of "''RECORD_READ_FROM_FILE''" _ "''SOURCE_FILE''" q]
    by (auto simp: record_ok_def edge_signatures_def)
  show ?thesis using e r source by blast
qed

definition approved_artifact :: "dict \<Rightarrow> string \<Rightarrow> bool" where
  "approved_artifact g i \<longleftrightarrow> (\<exists>a d m. linked g i ''ARTIFACT_APPROVED_BY'' a \<and> has_node g a d \<and> dget d ''metadata'' = JObj m \<and>
     dget m ''status'' = JStr ''APPROVED'' \<and> is_rfc3339_datetime (dget m ''approved_at'') \<and> is_nonempty_string (dget m ''approver''))"

definition resolved_rule :: "dict \<Rightarrow> string \<Rightarrow> string \<Rightarrow> bool" where
  "resolved_rule g result u \<longleftrightarrow>
     (\<exists>r. linked g result ''RESULT_USES_RESOLUTION'' r \<and> linked g r ''RESOLUTION_SELECTS_RULE'' u)"

lemma analysed_approval:
  assumes a: "analysed h sha loader require_bytes g nodes s snap" and "strict_approval (map JObj (chain_edges g)) nodes i"
  shows "approved_artifact g i"
proof -
  from assms(2) obtain x where x: "x \<in> set (strict_targets (map JObj (chain_edges g)) nodes i ''ARTIFACT_APPROVED_BY'' ''APPROVAL'')"
    and c: "case node_field nodes x ''metadata'' of
         JObj m \<Rightarrow> dget m ''status'' = JStr ''APPROVED'' \<and> is_rfc3339_datetime (dget m ''approved_at'') \<and>
           is_nonempty_string (dget m ''approver'')
       | _ \<Rightarrow> False"
    unfolding strict_approval_def list_ex_iff by blast
  from c obtain m where m: "node_field nodes x ''metadata'' = JObj m" "dget m ''status'' = JStr ''APPROVED''"
      "is_rfc3339_datetime (dget m ''approved_at'')" "is_nonempty_string (dget m ''approver'')"
    by (cases "node_field nodes x ''metadata''") simp_all
  have "linked g i ''ARTIFACT_APPROVED_BY'' x"
    using x analysed_strict_targets [OF a, of "''ARTIFACT_APPROVED_BY''"] by (auto simp: edge_signatures_def)
  with m analysed_field [OF a m(1)] show ?thesis unfolding approved_artifact_def by blast
qed

lemma one_element: "length xs = 1 \<Longrightarrow> \<exists>x. xs = [x]"
  by (auto simp: length_Suc_conv)

text \<open>
  C8: an accepted chain is governed. The result is calculated with exactly one profile, which uses
  exactly one rounding policy and one source authority, both approved by a named approver at a
  given time; and the rules the profile selects are those the rule resolutions of the result select.
\<close>

theorem accepted_chain_governed:
  assumes "verify_evidence_chain h sha loader require_bytes (JObj g) = []" and "is_root g result"
  shows "\<exists>profile rounding authority.
    {p. linked g result ''RESULT_CALCULATED_WITH'' p} = {profile} \<and>
    {v. linked g profile ''PROFILE_USES_ROUNDING'' v} = {rounding} \<and> approved_artifact g rounding \<and>
    {v. linked g profile ''PROFILE_USES_SOURCE_AUTHORITY'' v} = {authority} \<and> approved_artifact g authority \<and>
    {u. linked g profile ''PROFILE_SELECTS_RULE'' u} = {u. resolved_rule g result u} \<and> (\<exists>u. resolved_rule g result u)"
proof -
  obtain nodes s snap where a: "analysed h sha loader require_bytes g nodes s snap"
    using verify_evidence_chain_Nil [OF assms(1)] by (metis json.inject(6))
  have snap: "snap = result" using assms(2) analysed_root [OF a] by simp
  note targets = analysed_strict_targets [OF a]
  note pass = analysed_strict_pass [OF assms(1) a, unfolded snap]
  define T where "T = strict_targets (map JObj (chain_edges g)) nodes"
  define rules where "rules = resolved_rules (map JObj (chain_edges g)) nodes (T result ''RESULT_USES_RESOLUTION'' ''RULE_RESOLUTION'')"
  note checks = fold_strict_profiles_Nil [OF pass [unfolded strict_root_errors_def Let_def], folded T_def, folded rules_def]
  have "length (T result ''RESULT_CALCULATED_WITH'' ''CALCULATION_PROFILE'') = 1"
    using conjunct2 [OF checks] by (simp add: report_all_Nil singular_root_paths_def)
  then obtain profile where p: "T result ''RESULT_CALCULATED_WITH'' ''CALCULATION_PROFILE'' = [profile]" using one_element by blast
  with conjunct1 [OF checks] have errors: "strict_profile_errors (map JObj (chain_edges g)) nodes rules profile [] = []" by simp
  note shape = errors [unfolded strict_profile_errors_def Let_def report_all_Nil, folded T_def]
  from shape have "length (T profile ''PROFILE_USES_ROUNDING'' ''ROUNDING_POLICY'') = 1"
    "length (T profile ''PROFILE_USES_SOURCE_AUTHORITY'' ''SOURCE_AUTHORITY'') = 1" by simp_all
  then obtain rounding authority where r: "T profile ''PROFILE_USES_ROUNDING'' ''ROUNDING_POLICY'' = [rounding]"
    and u: "T profile ''PROFILE_USES_SOURCE_AUTHORITY'' ''SOURCE_AUTHORITY'' = [authority]" using one_element by metis
  from shape r u have approvals: "approved_artifact g rounding" "approved_artifact g authority"
    by (simp_all add: analysed_approval [OF a])
  from shape have selected: "set (T profile ''PROFILE_SELECTS_RULE'' ''CONFIGURATION_RULE'') = set rules" "rules \<noteq> []"
    by (auto dest: arg_cong [of _ _ set])
  have linked: "set (T v ''RESULT_CALCULATED_WITH'' ''CALCULATION_PROFILE'') = {x. linked g v ''RESULT_CALCULATED_WITH'' x}"
    "set (T v ''PROFILE_USES_ROUNDING'' ''ROUNDING_POLICY'') = {x. linked g v ''PROFILE_USES_ROUNDING'' x}"
    "set (T v ''PROFILE_USES_SOURCE_AUTHORITY'' ''SOURCE_AUTHORITY'') = {x. linked g v ''PROFILE_USES_SOURCE_AUTHORITY'' x}"
    "set (T v ''PROFILE_SELECTS_RULE'' ''CONFIGURATION_RULE'') = {x. linked g v ''PROFILE_SELECTS_RULE'' x}"
    "set (T v ''RESULT_USES_RESOLUTION'' ''RULE_RESOLUTION'') = {x. linked g v ''RESULT_USES_RESOLUTION'' x}"
    "set (T v ''RESOLUTION_SELECTS_RULE'' ''CONFIGURATION_RULE'') = {x. linked g v ''RESOLUTION_SELECTS_RULE'' x}" for v
    unfolding T_def by (rule targets; simp add: edge_signatures_def)+
  have "set rules = {x. resolved_rule g result x}"
    unfolding rules_def resolved_rules_def T_def [symmetric] by (auto simp: linked resolved_rule_def)
  then have "{u. linked g profile ''PROFILE_SELECTS_RULE'' u} = {u. resolved_rule g result u}" "\<exists>u. resolved_rule g result u"
    using linked(4) [of profile] selected by (simp, metis list.set_intros(1) mem_Collect_eq neq_Nil_conv)
  moreover have "{p. linked g result ''RESULT_CALCULATED_WITH'' p} = {profile}"
    "{v. linked g profile ''PROFILE_USES_ROUNDING'' v} = {rounding}"
    "{v. linked g profile ''PROFILE_USES_SOURCE_AUTHORITY'' v} = {authority}"
    unfolding linked(1-3) [symmetric] p r u by simp_all
  ultimately show ?thesis using approvals by blast
qed

section \<open>Metric snapshots\<close>

text \<open>The values an accepted snapshot can have.\<close>

definition snapshot_value_ok :: "dict \<Rightarrow> bool" where
  "snapshot_value_ok d \<longleftrightarrow>
     (let v = dget d ''value''; kind = dget d ''value_type''; unit = dget d ''unit''; currency = dget d ''currency'' in
      if dget d ''state'' = JStr ''VALID'' then
        dget d ''reason_code'' = JNull \<and>
        (kind = JStr ''MONEY'' \<and> (\<exists>s. v = JStr s \<and> decimal_re s) \<and> (\<exists>u. unit = JStr u \<and> u \<in> set money_units) \<and>
           (\<exists>c. currency = JStr c \<and> currency_re c) \<or>
         kind = JStr ''INTEGER'' \<and> (\<exists>i. v = JInt i) \<and> (\<exists>u. unit = JStr u \<and> u \<in> set snapshot_units - set money_units) \<and>
           currency = JNull \<or>
         kind \<in> {JStr ''DECIMAL'', JStr ''RATE''} \<and> (\<exists>s. v = JStr s \<and> decimal_re s) \<and>
           (\<exists>u. unit = JStr u \<and> u \<in> set snapshot_units - set money_units) \<and> currency = JNull)
      else v = JNull \<and> kind = JNull \<and> unit = JNull \<and> currency = JNull \<and>
        (\<exists>code. dget d ''reason_code'' = JStr code \<and> code \<noteq> []))"

lemma allowed_iff: "is_allowed_string v allowed \<longleftrightarrow> (\<exists>s. v = JStr s \<and> s \<in> set allowed)"
  by (cases v) (simp_all add: is_allowed_string_def)

lemma nonempty_iff: "is_nonempty_string v \<longleftrightarrow> (\<exists>s. v = JStr s \<and> s \<noteq> [])"
  by (cases v) (simp_all add: is_nonempty_string_def)

lemma decimal_string_iff: "is_decimal_string v \<longleftrightarrow> (\<exists>s. v = JStr s \<and> decimal_re s)"
  by (cases v) (simp_all add: is_decimal_string_def)

lemma integer_iff: "is_integer v \<longleftrightarrow> (\<exists>i. v = JInt i)"
  by (cases v) (simp_all add: is_integer_def)

lemma currency_iff: "is_currency v \<longleftrightarrow> (\<exists>s. v = JStr s \<and> currency_re s)"
  by (cases v) (simp_all add: is_currency_def)

lemmas shape_iffs = allowed_iff nonempty_iff decimal_string_iff integer_iff currency_iff

lemma value_checks_sound:
  assumes "\<forall>(failed, code) \<in> set (snapshot_value_checks d). \<not> failed"
  shows "snapshot_value_ok d"
proof (cases "dget d ''state'' = JStr ''VALID''")
  case True
  then have "\<forall>failed \<in> set (valid_value_failures d). \<not> failed"
    using assms by (auto simp: snapshot_value_checks_def split: if_splits)
  note checks = this [unfolded valid_value_failures_def Let_def]
  from checks have base: "is_allowed_string (dget d ''value_type'') snapshot_value_types"
    "is_allowed_string (dget d ''unit'') snapshot_units" "dget d ''reason_code'' = JNull" by simp_all
  note intro = True base(3)
  consider (money) "dget d ''value_type'' = JStr ''MONEY''" | (whole) "dget d ''value_type'' = JStr ''INTEGER''"
    | (fraction) "is_allowed_string (dget d ''value_type'') [''DECIMAL'', ''RATE'']"
    using base(1) by (auto simp: allowed_iff snapshot_value_types_def)
  then show ?thesis
  proof cases
    case money
    with checks have "is_decimal_string (dget d ''value'')" "is_allowed_string (dget d ''unit'') money_units"
      "is_currency (dget d ''currency'')" by simp_all
    with money intro show ?thesis by (simp add: snapshot_value_ok_def Let_def shape_iffs)
  next
    case whole
    with checks have "is_integer (dget d ''value'')" "\<not> is_allowed_string (dget d ''unit'') money_units"
      "dget d ''currency'' = JNull" by simp_all
    with whole intro base(2) show ?thesis by (simp add: snapshot_value_ok_def Let_def shape_iffs) blast
  next
    case fraction
    then have kind: "dget d ''value_type'' \<in> {JStr ''DECIMAL'', JStr ''RATE''}"
      "dget d ''value_type'' \<noteq> JStr ''MONEY''" "dget d ''value_type'' \<noteq> JStr ''INTEGER''" by (auto simp: allowed_iff)
    with checks fraction have "is_decimal_string (dget d ''value'')" "\<not> is_allowed_string (dget d ''unit'') money_units"
      "dget d ''currency'' = JNull" by simp_all
    with kind intro base(2) show ?thesis by (simp add: snapshot_value_ok_def Let_def shape_iffs) blast
  qed
next
  case False
  then show ?thesis using assms
    by (auto simp: snapshot_value_checks_def snapshot_value_ok_def shape_iffs Let_def split: if_splits)
qed

text \<open>
  An accepted metric snapshot is sealed, covers a period whose start is before its end, belongs
  to one mode, and never mixes a value with a missing one: a valid snapshot has a value of its
  declared type and unit and no reason, any other has no value at all but a reason.
\<close>

theorem accepted_snapshot:
  assumes "verify_metric_snapshot h snapshot = []"
  shows "\<exists>d a b. snapshot = JObj d \<and> snapshot_value_ok d \<and> sealed_chain h d \<and>
    evidence_datetime (dget d ''period_start'') = Some a \<and> evidence_datetime (dget d ''period_end'') = Some b \<and> a < b \<and>
    (dget d ''mode'' = JStr ''ACTUAL'' \<and> dget d ''scenario_id'' = JNull \<or>
     dget d ''mode'' = JStr ''SCENARIO'' \<and> (\<exists>s. dget d ''scenario_id'' = JStr s \<and> s \<noteq> []))"
proof (cases snapshot)
  case (JObj d)
  from assms JObj have "verify_snapshot h (JObj d) = []"
    by (simp add: verify_metric_snapshot_def Let_def report_all_Nil)
  then have checks: "\<forall>(failed, code) \<in> set (snapshot_value_checks d). \<not> failed" "sealed_chain h d"
    "\<forall>(failed, code) \<in> set (snapshot_header_checks d). \<not> failed" "\<forall>(failed, code) \<in> set (snapshot_time_checks d). \<not> failed"
    by (auto simp: verify_snapshot_def report_all_Nil check_hash_Nil sealed_chain_def)
  from checks(4) obtain a b where times: "evidence_datetime (dget d ''period_start'') = Some a"
    "evidence_datetime (dget d ''period_end'') = Some b" "\<not> not_before (Some a) (Some b)"
    by (auto simp: snapshot_time_checks_def Let_def)
  from checks(3) have "\<not> snapshot_mode_contaminated d" by (simp add: snapshot_header_checks_def)
  then have "dget d ''mode'' = JStr ''ACTUAL'' \<and> dget d ''scenario_id'' = JNull \<or>
     dget d ''mode'' = JStr ''SCENARIO'' \<and> (\<exists>s. dget d ''scenario_id'' = JStr s \<and> s \<noteq> [])"
    by (auto simp: snapshot_mode_contaminated_def nonempty_iff split: if_splits)
  with JObj value_checks_sound [OF checks(1)] checks(2) times show ?thesis by (auto simp: not_before_def)
qed (use assms in \<open>simp_all add: verify_metric_snapshot_def verify_snapshot_def\<close>)

end
