(* ===== verification/EvidenceExamples.thy ===== *)
theory EvidenceExamples imports EvidenceSoundness begin

text \<open>A small accepted chain: the hypotheses of the evidence properties can hold.\<close>

definition demo_digest :: "string \<Rightarrow> string" where
  "demo_digest text = ''aaaaaaaaaaaaaaaaaaaaaaaaaaaaaaaaaaaaaaaaaaaaaaaaaaaaaaaaaaaaaaaa''"

definition demo_loader :: "string \<Rightarrow> loaded" where
  "demo_loader locator = (if locator = ''L'' then LoaderBytes ''bytes'' else LoaderRaises)"

definition demo_ref :: "string \<Rightarrow> json" where
  "demo_ref i = JObj [(''id'', JStr i), (''version'', JInt 1), (''content_hash'', JStr (demo_digest []))]"

definition demo_time_text :: string where
  "demo_time_text = ''2026-01-01T00:00:00+00:00''"

text \<open>The identifiers and types of the nodes, the metadata, and the edges.\<close>

definition demo_nodes :: "(string \<times> string \<times> dict) list" where
  "demo_nodes =
     [(''S'', ''METRIC_SNAPSHOT'', []), (''D'', ''METRIC_DEFINITION'', []), (''P'', ''CALCULATION_PROFILE'', []),
      (''R'', ''RULE_RESOLUTION'', []), (''U'', ''CONFIGURATION_RULE'', []), (''T'', ''TRANSFORMATION'', []),
      (''E'', ''CANONICAL_EVENT'', []), (''C'', ''SOURCE_RECORD'', []),
      (''F'', ''SOURCE_FILE'', [(''retained_bytes_sha256'', JStr (demo_digest [])), (''storage_locator'', JStr ''L'')]),
      (''H'', ''FRESHNESS_ASSESSMENT'', []), (''N'', ''CONFIDENCE_ASSESSMENT'', []), (''O'', ''ROUNDING_POLICY'', []),
      (''A'', ''SOURCE_AUTHORITY'', []),
      (''V'', ''APPROVAL'', [(''status'', JStr ''APPROVED''), (''approved_at'', JStr demo_time_text), (''approver'', JStr ''B'')])]"

definition demo_edges :: "(string \<times> string \<times> string) list" where
  "demo_edges =
     [(''S'', ''RESULT_DEFINED_BY'', ''D''), (''S'', ''RESULT_CALCULATED_WITH'', ''P''), (''S'', ''RESULT_USES_RESOLUTION'', ''R''),
      (''R'', ''RESOLUTION_SELECTS_RULE'', ''U''), (''P'', ''PROFILE_SELECTS_RULE'', ''U''),
      (''S'', ''RESULT_USES_TRANSFORMATION'', ''T''), (''S'', ''RESULT_DERIVED_FROM_EVENT'', ''E''),
      (''E'', ''EVENT_NORMALIZED_FROM_RECORD'', ''C''), (''C'', ''RECORD_READ_FROM_FILE'', ''F''),
      (''S'', ''RESULT_HAS_FRESHNESS'', ''H''), (''S'', ''RESULT_HAS_CONFIDENCE'', ''N''), (''P'', ''PROFILE_USES_ROUNDING'', ''O''),
      (''P'', ''PROFILE_USES_SOURCE_AUTHORITY'', ''A''), (''O'', ''ARTIFACT_APPROVED_BY'', ''V''),
      (''A'', ''ARTIFACT_APPROVED_BY'', ''V'')]"

definition demo_node :: "string \<times> string \<times> dict \<Rightarrow> dict" where
  "demo_node n = (case n of (i, t, metadata) \<Rightarrow> [(''node_id'', JStr i), (''node_type'', JStr t), (''artifact_ref'', demo_ref i),
     (''organization_id'', JStr ''O''), (''mode'', JStr ''ACTUAL''), (''scenario_id'', JNull), (''metadata'', JObj metadata)])"

definition demo_edge :: "string \<times> string \<times> string \<Rightarrow> dict" where
  "demo_edge e = (case e of (u, kind, v) \<Rightarrow>
     [(''from_node_id'', JStr u), (''to_node_id'', JStr v), (''edge_type'', JStr kind), (''sequence'', JInt 0)])"

definition demo_chain :: dict where
  "demo_chain =
     [(''evidence_chain_id'', JStr ''X''), (''version'', JInt 1), (''content_hash'', JStr (demo_digest [])),
      (''organization_id'', JStr ''O''), (''mode'', JStr ''ACTUAL''), (''scenario_id'', JNull),
      (''root_metric_snapshot_ref'', demo_ref ''S''), (''nodes'', JList (map (JObj \<circ> demo_node) demo_nodes)),
      (''edges'', JList (map (JObj \<circ> demo_edge) demo_edges)), (''actor'', JStr ''B''), (''reason'', JStr ''Q''),
      (''trace_id'', JStr ''I''), (''created_at'', JStr demo_time_text)]"

section \<open>The run of the verifier, step by step\<close>

lemma demo_ref_valid: "i \<noteq> [] \<Longrightarrow> valid_ref False (demo_ref i)"
  by (simp add: demo_ref_def valid_ref_def keys_are_def has_key_def dget_def is_nonempty_string_def is_positive_int_def is_hash_def
      demo_digest_def hash_re_def is_hex_def is_digit_def ch_def)

lemma evidence_hash_demo: "evidence_hash demo_digest d ex =
    (if json_ok (JObj (filter (\<lambda>p. \<not> List.member ex (fst p)) d)) then Some (demo_digest []) else None)"
  by (simp add: evidence_hash_def demo_digest_def Let_def)

lemma demo_header: "header_errors demo_digest demo_chain = []"
  unfolding header_errors_def check_hash_def evidence_hash_demo by code_simp

lemma demo_fields: "dget demo_chain ''organization_id'' = JStr ''O''" "dget demo_chain ''mode'' = JStr ''ACTUAL''"
  "dget demo_chain ''scenario_id'' = JNull" "dget demo_chain ''nodes'' = JList (map (JObj \<circ> demo_node) demo_nodes)"
  "dget demo_chain ''edges'' = JList (map (JObj \<circ> demo_edge) demo_edges)"
  "dget demo_chain ''root_metric_snapshot_ref'' = demo_ref ''S''"
  by (simp_all add: demo_chain_def dget_def)

lemma add_demo_node:
  assumes "i \<noteq> []" and "List.member node_types t" and "map_of nodes i = None"
  shows "add_node demo_chain (JObj (demo_node (i, t, m))) (nodes, errors) = (nodes @ [(i, demo_node (i, t, m))], errors)"
  using assms demo_ref_valid [OF assms(1)]
  by (simp add: add_node_def node_errors_def demo_fields demo_node_def dget_Cons keys_are_def has_key_def node_keys_def
      is_nonempty_string_def jstr_def report_ref_def report_if_def report_all_def is_allowed_string_def is_mapping_def Let_def)


definition demo_table :: nodes where
  "demo_table = map (\<lambda>n. (fst n, demo_node n)) demo_nodes"

lemma demo_read_nodes: "read_nodes demo_chain [] = (demo_table, [])"
  by (simp add: read_nodes_def demo_fields demo_table_def demo_nodes_def add_demo_node jlist_def node_types_def report_if_def)


definition demo_graph :: edge_state where
  "demo_graph = \<lparr>es_adjacency = [(''S'', [''D'', ''P'', ''R'', ''T'', ''E'', ''H'', ''N'']), (''D'', []), (''P'', [''U'', ''O'', ''A'']),
     (''R'', [''U'']), (''U'', []), (''T'', []), (''E'', [''C'']), (''C'', [''F'']), (''F'', []), (''H'', []), (''N'', []),
     (''O'', [''V'']), (''A'', [''V'']), (''V'', [])],
     es_typed = map (\<lambda>(u, k, v). ((u, k), [v])) demo_edges, es_seen = rev (map (\<lambda>(u, k, v). (u, v, k)) demo_edges),
     es_edges = map (\<lambda>(u, k, v). (u, v, k, 0)) demo_edges, es_errors = []\<rparr>"

lemma demo_read_edges: "read_edges demo_chain demo_table [] = demo_graph"
  unfolding read_edges_def demo_fields by code_simp

lemma demo_roots: "root_nodes demo_chain demo_table = [''S'']"
  unfolding root_nodes_def demo_fields by code_simp

lemma demo_no_cycle: "\<not> has_cycle (es_adjacency demo_graph)"
  by code_simp

lemma demo_root: "root_errors demo_digest (Some demo_loader) True demo_table demo_graph ''S'' [] = []"
  by code_simp

lemma demo_strict_nodes: "strict_nodes (map (JObj \<circ> demo_node) demo_nodes) = demo_table"
  by code_simp

lemma demo_strict: "strict_root_errors (map (JObj \<circ> demo_edge) demo_edges) demo_table ''S'' [] = []"
  by code_simp

lemma demo_created: "is_rfc3339_datetime (dget demo_chain ''created_at'')"
  by code_simp

lemma demo_chain_accepted: "verify_evidence_chain demo_digest demo_digest (Some demo_loader) True (JObj demo_chain) = []"
proof -
  have "es_errors demo_graph = []" by (simp add: demo_graph_def)
  then have "verify_chain demo_digest demo_digest (Some demo_loader) True (JObj demo_chain) = []"
    by (simp add: verify_chain_def demo_header demo_read_nodes demo_roots demo_read_edges demo_no_cycle demo_root report_if_def)
  then show ?thesis
    by (simp add: verify_evidence_chain_def Let_def demo_created report_if_def demo_fields demo_strict_nodes demo_roots demo_strict
        del: map_map)
qed

lemma demo_is_root: "is_root demo_chain ''S''"
proof -
  let ?d = "demo_node (''S'', ''METRIC_SNAPSHOT'', [])"
  have "?d \<in> set (chain_nodes demo_chain)"
    by (simp add: chain_nodes_def demo_fields jlist_def jdict_def demo_nodes_def)
  then have "has_node demo_chain ''S'' ?d" by (simp add: has_node_def node_id_def demo_node_def dget_Cons jstr_def)
  moreover have "dget ?d ''node_type'' = JStr ''METRIC_SNAPSHOT''" "dget ?d ''artifact_ref'' = demo_ref ''S''"
    by (simp_all add: demo_node_def dget_Cons)
  moreover have "py_eq (demo_ref ''S'') (demo_ref ''S'')" by (intro py_eq_refl) (simp add: demo_ref_def)
  ultimately show ?thesis unfolding is_root_def demo_fields by metis
qed

lemma demo_linked:
  assumes "(u, k, v) \<in> set demo_edges"
  shows "linked demo_chain u k v"
proof -
  have "chain_edges demo_chain = map demo_edge demo_edges"
    unfolding chain_edges_def demo_fields by (simp add: jlist_def jdict_def comp_def)
  then have "demo_edge (u, k, v) \<in> set (chain_edges demo_chain)" using assms by simp
  moreover have "edge_source (demo_edge (u, k, v)) = u" "edge_kind (demo_edge (u, k, v)) = k" "edge_target (demo_edge (u, k, v)) = v"
    by (simp_all add: edge_source_def edge_kind_def edge_target_def demo_edge_def dget_Cons jstr_def)
  ultimately show ?thesis unfolding linked_def by blast
qed

section \<open>Witnesses\<close>

theorem accepted_chain_graph_witness: "acyclic (links demo_chain) \<and> sealed_chain demo_digest demo_chain"
  using accepted_chain_graph [OF demo_chain_accepted] by auto

theorem accepted_chain_provenance_witness:
  "\<exists>d m locator b. has_node demo_chain ''F'' d \<and> dget d ''metadata'' = JObj m \<and> dget m ''storage_locator'' = JStr locator \<and>
     demo_loader locator = LoaderBytes b \<and> dget m ''retained_bytes_sha256'' = JStr (demo_digest b)"
proof -
  have links: "linked demo_chain ''S'' ''RESULT_DERIVED_FROM_EVENT'' ''E''"
    "linked demo_chain ''E'' ''EVENT_NORMALIZED_FROM_RECORD'' ''C''" "linked demo_chain ''C'' ''RECORD_READ_FROM_FILE'' ''F''"
    by (rule demo_linked, simp add: demo_edges_def)+
  note sources = accepted_chain_provenance [OF demo_chain_accepted demo_is_root links(1)]
  note files = mp [OF spec [OF conjunct2 [OF sources]] links(2)]
  from mp [OF spec [OF conjunct2 [OF files]] links(3)] show ?thesis by (simp only: option.case) metis
qed

theorem accepted_chain_governed_witness: "\<exists>rounding. approved_artifact demo_chain rounding \<and> linked demo_chain ''P'' ''PROFILE_USES_ROUNDING'' rounding"
proof -
  obtain profile rounding where p: "{p. linked demo_chain ''S'' ''RESULT_CALCULATED_WITH'' p} = {profile}"
    "{v. linked demo_chain profile ''PROFILE_USES_ROUNDING'' v} = {rounding}" "approved_artifact demo_chain rounding"
    using accepted_chain_governed [OF demo_chain_accepted demo_is_root] by (elim exE conjE)
  have "linked demo_chain ''S'' ''RESULT_CALCULATED_WITH'' ''P''" by (rule demo_linked) (simp add: demo_edges_def)
  then have "''P'' \<in> {p. linked demo_chain ''S'' ''RESULT_CALCULATED_WITH'' p}" by (rule CollectI)
  then have "profile = ''P''" unfolding p(1) by simp
  moreover have "rounding \<in> {v. linked demo_chain profile ''PROFILE_USES_ROUNDING'' v}" unfolding p(2) by (rule singletonI)
  ultimately show ?thesis using p(3) unfolding mem_Collect_eq by metis
qed

definition demo_snapshot :: dict where
  "demo_snapshot =
     [(''metric_snapshot_id'', JStr ''S''), (''snapshot_revision'', JInt 1), (''organization_id'', JStr ''O''),
      (''marketplace_account_id'', JNull), (''mode'', JStr ''ACTUAL''), (''scenario_id'', JNull),
      (''metric_definition_ref'', demo_ref ''D''), (''calculation_profile_ref'', demo_ref ''P''),
      (''accounting_view'', JStr ''OPERATIONAL''), (''period_start'', JStr demo_time_text),
      (''period_end'', JStr ''2026-01-02T00:00:00+00:00''), (''state'', JStr ''VALID''), (''value'', JStr ''7''),
      (''value_type'', JStr ''MONEY''), (''unit'', JStr ''MONEY''), (''currency'', JStr ''RUB''), (''reason_code'', JNull),
      (''expense_boundary'', JList [JStr ''TAX'']),
      (''rounding'', JObj [(''policy_ref'', demo_ref ''O''), (''application_point'', JStr ''METRIC_FINAL_ACCOUNTING''),
        (''resolved_mode'', JStr ''HALF_UP''), (''resolved_scale'', JInt 2)]),
      (''source_authority_ref'', demo_ref ''A''), (''evidence_chain_ref'', JObj [(''id'', JStr ''X''), (''version'', JInt 1)]),
      (''data_freshness_state'', JStr ''CURRENT''), (''freshness_observed_at'', JStr demo_time_text), (''freshness_deadline'', JNull),
      (''confidence_state'', JStr ''HIGH''), (''confidence_reasons'', JList []), (''limitations'', JList []),
      (''valid_from'', JStr demo_time_text), (''valid_to'', JNull), (''prior_snapshot_id'', JNull), (''restates_snapshot_id'', JNull),
      (''actor'', JStr ''B''), (''reason'', JStr ''Q''), (''trace_id'', JStr ''I''), (''calculated_at'', JStr demo_time_text),
      (''content_hash'', JStr (demo_digest []))]"

lemma demo_snapshot_accepted: "verify_metric_snapshot demo_digest (JObj demo_snapshot) = []"
  unfolding verify_metric_snapshot_def verify_snapshot_def check_hash_def evidence_hash_demo by code_simp

theorem accepted_snapshot_witness: "snapshot_value_ok demo_snapshot"
  using accepted_snapshot [OF demo_snapshot_accepted] by auto

end
