(* ===== verification/PyBytes.thy ===== *)
theory PyBytes imports PyIso PyParse PyJson begin

text \<open>
  The codecs of the standard library that the program exchanges data through: UTF-8, URL-safe
  base64, \<open>str.splitlines\<close> and the \<open>csv\<close> module with its default dialect. Bytes are
  characters too. Text that decodes to a code point above 255 is outside the model's \<open>str\<close>.
\<close>

section \<open>UTF-8\<close>

datatype decode_error = BadBytes | WideChar

definition is_continuation :: "nat \<Rightarrow> bool" where
  "is_continuation b \<longleftrightarrow> 128 \<le> b \<and> b < 192"

fun utf8_points :: "nat list \<Rightarrow> nat list option" where
  "utf8_points [] = Some []"
| "utf8_points (a # r) =
     (if a < 128 then map_option ((#) a) (utf8_points r)
      else if 194 \<le> a \<and> a < 224 then
        (case r of
           b # r' \<Rightarrow> if is_continuation b then map_option ((#) ((a - 192) * 64 + (b - 128))) (utf8_points r') else None
         | [] \<Rightarrow> None)
      else if 224 \<le> a \<and> a < 240 then
        (case r of
           b # c # r' \<Rightarrow>
             let p = ((a - 224) * 64 + (b - 128)) * 64 + (c - 128) in
             if is_continuation b \<and> is_continuation c \<and> 2048 \<le> p \<and> (p < 55296 \<or> 57344 \<le> p)
             then map_option ((#) p) (utf8_points r') else None
         | _ \<Rightarrow> None)
      else if 240 \<le> a \<and> a < 245 then
        (case r of
           b # c # d # r' \<Rightarrow>
             let p = (((a - 240) * 64 + (b - 128)) * 64 + (c - 128)) * 64 + (d - 128) in
             if is_continuation b \<and> is_continuation c \<and> is_continuation d \<and> 65536 \<le> p \<and> p < 1114112
             then map_option ((#) p) (utf8_points r') else None
         | _ \<Rightarrow> None)
      else None)"

definition utf8_decode :: "string \<Rightarrow> decode_error + string" where
  "utf8_decode bs =
     (case utf8_points (map ch bs) of
        None \<Rightarrow> Inl BadBytes
      | Some ps \<Rightarrow> if list_all (\<lambda>p. p < 256) ps then Inr (map char_of ps) else Inl WideChar)"

lemma ch_less: "ch c < 256"
  by (simp add: ch_def)

lemma utf8_points_written: "utf8_points (map ch (utf8 s)) = Some (map ch s)"
proof (induction s)
  case (Cons c s)
  have small: "ch c < 256" "ch c div 64 < 4" "ch c mod 64 < 64" using ch_less [of c] by simp_all
  have of: "ch (char_of n) = n" if "n < 256" for n using that by (simp add: ch_def)
  have two: "ch (char_of (192 + ch c div 64)) = 192 + ch c div 64" "ch (char_of (128 + ch c mod 64)) = 128 + ch c mod 64"
    using small by (simp_all add: of del: of_char_of)
  show ?case
  proof (cases "ch c < 128")
    case True
    then show ?thesis using Cons by (simp add: utf8_def)
  next
    case False
    then have "2 \<le> ch c div 64" "ch c div 64 < 4" using small by simp_all
    then show ?thesis using Cons False two by (simp add: utf8_def is_continuation_def)
  qed
qed (simp add: utf8_def)

lemma utf8_decode_written: "utf8_decode (utf8 s) = Inr s"
  unfolding utf8_decode_def utf8_points_written
  by (simp add: list_all_iff ch_less map_idI ch_def)

section \<open>Base64 with the URL-safe alphabet\<close>

definition b64_char :: "nat \<Rightarrow> char" where
  "b64_char n =
     (if n < 26 then char_of (65 + n) else if n < 52 then char_of (97 + (n - 26))
      else if n < 62 then char_of (48 + (n - 52)) else if n = 62 then CHR ''-'' else CHR ''_'')"

fun b64_encode :: "string \<Rightarrow> string" where
  "b64_encode [] = []"
| "b64_encode [a] = [b64_char (ch a div 4), b64_char (ch a mod 4 * 16), CHR ''='', CHR ''='']"
| "b64_encode [a, b] =
     [b64_char (ch a div 4), b64_char (ch a mod 4 * 16 + ch b div 16), b64_char (ch b mod 16 * 4), CHR ''='']"
| "b64_encode (a # b # c # r) =
     b64_char (ch a div 4) # b64_char (ch a mod 4 * 16 + ch b div 16) # b64_char (ch b mod 16 * 4 + ch c div 64) #
     b64_char (ch c mod 64) # b64_encode r"

text \<open>The decoder takes both alphabets.\<close>

definition b64_value :: "char \<Rightarrow> nat option" where
  "b64_value c =
     (let n = ch c in
      if 65 \<le> n \<and> n \<le> 90 then Some (n - 65) else if 97 \<le> n \<and> n \<le> 122 then Some (n - 71)
      else if 48 \<le> n \<and> n \<le> 57 then Some (n + 4) else if n = 43 \<or> n = 45 then Some 62
      else if n = 47 \<or> n = 95 then Some 63 else None)"

text \<open>
  \<open>binascii.a2b_base64\<close> in its lenient mode: \<open>quad\<close> characters of the group read, \<open>left\<close> the bits
  carried over, \<open>pads\<close> the padding seen. Other characters are skipped; enough padding ends the
  data; a group left open is an error, \<open>None\<close>.
\<close>

fun b64_scan :: "nat \<Rightarrow> nat \<Rightarrow> nat \<Rightarrow> string \<Rightarrow> string option" where
  "b64_scan quad left pads [] = (if quad = 0 then Some [] else None)"
| "b64_scan quad left pads (c # s) =
     (if c = CHR ''='' then
        (if 2 \<le> quad then (if 4 \<le> quad + Suc pads then Some [] else b64_scan quad left (Suc pads) s)
         else b64_scan quad left pads s)
      else (case b64_value c of
          None \<Rightarrow> b64_scan quad left pads s
        | Some v \<Rightarrow>
            if quad = 0 then b64_scan 1 v 0 s
            else if quad = 1 then map_option ((#) (char_of (left * 4 + v div 16))) (b64_scan 2 (v mod 16) 0 s)
            else if quad = 2 then map_option ((#) (char_of (left * 16 + v div 4))) (b64_scan 3 (v mod 4) 0 s)
            else map_option ((#) (char_of (left * 64 + v))) (b64_scan 0 0 0 s)))"

definition strip_padding :: "string \<Rightarrow> string" where
  "strip_padding s = rev (dropWhile (\<lambda>c. c = CHR ''='') (rev s))"

definition repad :: "string \<Rightarrow> string" where
  "repad s = s @ replicate ((4 - length s mod 4) mod 4) CHR ''=''"

lemma b64_char_facts:
  assumes "n < 64"
  shows "b64_char n \<noteq> CHR ''=''" "b64_value (b64_char n) = Some n" "ch (b64_char n) < 128"
proof -
  have "\<forall>n \<in> set [0..<64]. b64_char n \<noteq> CHR ''='' \<and> b64_value (b64_char n) = Some n \<and> ch (b64_char n) < 128"
    by code_simp
  with assms show "b64_char n \<noteq> CHR ''=''" "b64_value (b64_char n) = Some n" "ch (b64_char n) < 128" by simp_all
qed

lemma b64_high: "ch b div 16 < 16" "ch c div 64 < 4"
  using ch_less [of b] ch_less [of c] by simp_all

lemma b64_bits:
  "ch a div 4 < 64" "ch a mod 4 * 16 < 64" "ch a mod 4 * 16 + ch b div 16 < 64" "ch b mod 16 * 4 < 64"
  "ch b mod 16 * 4 + ch c div 64 < 64" "ch c mod 64 < 64"
proof -
  have a: "ch a mod 4 < 4" "ch b mod 16 < 16" by simp_all
  show "ch a div 4 < 64" using ch_less [of a] by simp
  show "ch a mod 4 * 16 < 64" "ch b mod 16 * 4 < 64" "ch c mod 64 < 64" by simp_all
  show "ch a mod 4 * 16 + ch b div 16 < 64" using a(1) b64_high(1) [of b] by simp
  show "ch b mod 16 * 4 + ch c div 64 < 64" using a(2) b64_high(2) [of c] by simp
qed

lemma char_of_chr: "char_of (ch c) = c"
  by (simp add: ch_def)

lemma b64_scan_encoded: "b64_scan 0 left pads (b64_encode s) = Some s"
  by (induction s arbitrary: left pads rule: b64_encode.induct)
    (simp_all add: b64_char_facts [OF b64_bits(1)] b64_char_facts [OF b64_bits(2)] b64_char_facts [OF b64_bits(3)]
      b64_char_facts [OF b64_bits(4)] b64_char_facts [OF b64_bits(5)] b64_char_facts [OF b64_bits(6)] b64_high char_of_chr)

lemma repad_strip: "repad (strip_padding (b64_encode s)) = b64_encode s"
proof (induction s rule: b64_encode.induct)
  case (4 a b c r)
  define p where "p = [b64_char (ch a div 4), b64_char (ch a mod 4 * 16 + ch b div 16), b64_char (ch b mod 16 * 4 + ch c div 64),
     b64_char (ch c mod 64)]"
  have enc: "b64_encode (a # b # c # r) = p @ b64_encode r" by (simp add: p_def)
  have "strip_padding (p @ s) = p @ strip_padding s" for s
    using b64_char_facts(1) [OF b64_bits(6) [of c]] unfolding strip_padding_def rev_append dropWhile_append
    by (auto simp: p_def)
  moreover have "repad (p @ s) = p @ repad s" for s by (simp add: repad_def p_def)
  ultimately show ?case using 4 by (simp only: enc)
qed (simp_all add: numeral_2_eq_2 strip_padding_def repad_def b64_char_facts [OF b64_bits(2)] b64_char_facts [OF b64_bits(4)])

lemma b64_ascii: "list_all (\<lambda>c. ch c < 128) (b64_encode s)"
  by (induction s rule: b64_encode.induct)
    (simp_all add: b64_char_facts [OF b64_bits(1)] b64_char_facts [OF b64_bits(2)] b64_char_facts [OF b64_bits(3)]
      b64_char_facts [OF b64_bits(4)] b64_char_facts [OF b64_bits(5)] b64_char_facts [OF b64_bits(6)], simp_all add: ch_def)


section \<open>Lines\<close>

text \<open>\<open>str.splitlines()\<close> on characters up to 255.\<close>

definition is_line_break :: "char \<Rightarrow> bool" where
  "is_line_break c \<longleftrightarrow> 10 \<le> ch c \<and> ch c \<le> 13 \<or> 28 \<le> ch c \<and> ch c \<le> 30 \<or> ch c = 133"

function split_lines :: "string \<Rightarrow> string list" where
  "split_lines s =
     (if s = [] then []
      else case dropWhile (\<lambda>c. \<not> is_line_break c) s of
        [] \<Rightarrow> [s]
      | c # r \<Rightarrow> takeWhile (\<lambda>c. \<not> is_line_break c) s #
          split_lines (if ch c = 13 \<and> r \<noteq> [] \<and> ch (hd r) = 10 then tl r else r))"
  by pat_completeness auto
termination
proof (relation "measure length", goal_cases)
  case (2 s c r)
  then have "Suc (length r) \<le> length s" using length_dropWhile_le [of "\<lambda>c. \<not> is_line_break c" s] by simp
  then show ?case by auto
qed simp

declare split_lines.simps [simp del]

lemma split_lines_unlines:
  assumes "\<And>l. l \<in> set ls \<Longrightarrow> list_all (\<lambda>c. \<not> is_line_break c) l"
  shows "split_lines (concat (map (\<lambda>l. l @ [CHR 0x0A]) ls)) = ls"
  using assms
proof (induction ls)
  case (Cons l ls)
  have "\<forall>c \<in> set l. \<not> is_line_break c" using Cons.prems [of l] by (simp add: list_all_iff)
  then have "takeWhile (\<lambda>c. \<not> is_line_break c) (l @ CHR 0x0A # t) = l" "dropWhile (\<lambda>c. \<not> is_line_break c) (l @ CHR 0x0A # t) = CHR 0x0A # t" for t
    by (simp_all add: takeWhile_append2 dropWhile_append2) (simp_all add: is_line_break_def ch_def)
  then show ?case using Cons by (subst split_lines.simps) (simp add: ch_def)
qed (simp add: split_lines.simps)

section \<open>CSV\<close>

text \<open>
  The parser of the \<open>csv\<close> module: what it has read of the row and of the field, both in reverse.
  A character is fed as \<open>Some c\<close>, the end of a line as \<open>None\<close>. A field longer than the
  default limit and a stray carriage return are errors.
\<close>

datatype csv_state = StartRecord | StartField | InField | InQuoted | QuoteInQuoted | EatNewline

record csv_parser =
  csv_mode :: csv_state
  csv_row :: "string list"
  csv_field :: string

definition csv_field_limit :: nat where
  "csv_field_limit = 131072"

definition csv_fresh :: csv_parser where
  "csv_fresh = \<lparr>csv_mode = StartRecord, csv_row = [], csv_field = []\<rparr>"

definition csv_save :: "csv_state \<Rightarrow> csv_parser \<Rightarrow> csv_parser" where
  "csv_save mode p = \<lparr>csv_mode = mode, csv_row = rev (csv_field p) # csv_row p, csv_field = []\<rparr>"

definition csv_add :: "char \<Rightarrow> csv_state \<Rightarrow> csv_parser \<Rightarrow> csv_parser option" where
  "csv_add c mode p =
     (if csv_field_limit \<le> length (csv_field p) then None
      else Some (p\<lparr>csv_mode := mode, csv_field := c # csv_field p\<rparr>))"

definition is_newline :: "char \<Rightarrow> bool" where
  "is_newline c \<longleftrightarrow> c = CHR 0x0A \<or> c = CHR 0x0D"

definition csv_start_field :: "char \<Rightarrow> csv_parser \<Rightarrow> csv_parser option" where
  "csv_start_field c p =
     (if is_newline c then Some (csv_save EatNewline p)
      else if c = CHR 0x22 then Some (p\<lparr>csv_mode := InQuoted\<rparr>)
      else if c = CHR '','' then Some (csv_save StartField p)
      else csv_add c InField p)"

definition csv_char :: "char \<Rightarrow> csv_parser \<Rightarrow> csv_parser option" where
  "csv_char c p =
     (case csv_mode p of
        StartRecord \<Rightarrow> if is_newline c then Some (p\<lparr>csv_mode := EatNewline\<rparr>) else csv_start_field c p
      | StartField \<Rightarrow> csv_start_field c p
      | InField \<Rightarrow>
          if is_newline c then Some (csv_save EatNewline p)
          else if c = CHR '','' then Some (csv_save StartField p)
          else csv_add c InField p
      | InQuoted \<Rightarrow> if c = CHR 0x22 then Some (p\<lparr>csv_mode := QuoteInQuoted\<rparr>) else csv_add c InQuoted p
      | QuoteInQuoted \<Rightarrow>
          if c = CHR 0x22 then csv_add c InQuoted p
          else if c = CHR '','' then Some (csv_save StartField p)
          else if is_newline c then Some (csv_save EatNewline p)
          else csv_add c InField p
      | EatNewline \<Rightarrow> if is_newline c then Some p else None)"

definition csv_line_end :: "csv_parser \<Rightarrow> csv_parser" where
  "csv_line_end p =
     (case csv_mode p of
        StartRecord \<Rightarrow> p
      | InQuoted \<Rightarrow> p
      | EatNewline \<Rightarrow> p\<lparr>csv_mode := StartRecord\<rparr>
      | _ \<Rightarrow> csv_save StartRecord p)"

text \<open>
  The rows of a text read from \<open>StringIO(text, newline="")\<close>, and whether the reader raises after
  them. A line ends with a line feed, a carriage return, both, or the text.
\<close>

definition ends_line :: "char \<Rightarrow> string \<Rightarrow> bool" where
  "ends_line c s \<longleftrightarrow> s = [] \<or> c = CHR 0x0A \<or> c = CHR 0x0D \<and> hd s \<noteq> CHR 0x0A"

fun csv_scan :: "csv_parser \<Rightarrow> string \<Rightarrow> string list list \<times> bool" where
  "csv_scan p [] =
     (if csv_field p \<noteq> [] \<or> csv_mode p = InQuoted then [rev (csv_row (csv_save StartRecord p))] else [], False)"
| "csv_scan p (c # s) =
     (case csv_char c p of
        None \<Rightarrow> ([], True)
      | Some q \<Rightarrow>
          if ends_line c s then
            (let q' = csv_line_end q in
             if csv_mode q' = StartRecord
             then (let (rows, bad) = csv_scan csv_fresh s in (rev (csv_row q') # rows, bad))
             else csv_scan q' s)
          else csv_scan q s)"

definition csv_rows :: "string \<Rightarrow> string list list \<times> bool" where
  "csv_rows s = csv_scan csv_fresh s"

text \<open>The writer quotes a field that holds a delimiter, a quote or a line break.\<close>

definition csv_special :: "char \<Rightarrow> bool" where
  "csv_special c \<longleftrightarrow> c = CHR '','' \<or> c = CHR 0x22 \<or> is_newline c"

definition csv_quoted :: "string \<Rightarrow> string" where
  "csv_quoted s = concat (map (\<lambda>c. if c = CHR 0x22 then [c, c] else [c]) s)"

definition csv_cell :: "string \<Rightarrow> string" where
  "csv_cell s = (if list_ex csv_special s then CHR 0x22 # csv_quoted s @ [CHR 0x22] else s)"

definition csv_line :: "string list \<Rightarrow> string" where
  "csv_line row = join '','' (map csv_cell row) @ [CHR 0x0D, CHR 0x0A]"

subsection \<open>Written rows read back\<close>

abbreviation parser_at :: "csv_state \<Rightarrow> string list \<Rightarrow> string \<Rightarrow> csv_parser" where
  "parser_at m row f \<equiv> \<lparr>csv_mode = m, csv_row = row, csv_field = f\<rparr>"

lemmas csv_step_defs = csv_char_def csv_add_def csv_start_field_def csv_save_def csv_line_end_def

lemma csv_scan_quoted:
  "length f + length acc \<le> csv_field_limit \<Longrightarrow> rest \<noteq> [] \<Longrightarrow>
   csv_scan (parser_at InQuoted row acc) (csv_quoted f @ CHR 0x22 # rest) =
   csv_scan (parser_at QuoteInQuoted row (rev f @ acc)) rest"
proof (induction f arbitrary: acc)
  case Nil
  then show ?case by (simp add: csv_quoted_def csv_step_defs ends_line_def)
next
  case (Cons c f)
  have ne: "csv_quoted f @ CHR 0x22 # rest \<noteq> []" by simp
  have ih: "csv_scan (parser_at InQuoted row (c # acc)) (csv_quoted f @ CHR 0x22 # rest) =
      csv_scan (parser_at QuoteInQuoted row (rev f @ c # acc)) rest"
    using Cons by simp
  have lim: "\<not> csv_field_limit \<le> length acc" using Cons.prems by simp
  show ?case
  proof (cases "c = CHR 0x22")
    case True
    have q: "csv_quoted (c # f) @ CHR 0x22 # rest = CHR 0x22 # CHR 0x22 # csv_quoted f @ CHR 0x22 # rest"
      by (simp add: csv_quoted_def True)
    show ?thesis unfolding q using ih lim ne True by (simp add: csv_step_defs ends_line_def)
  next
    case False
    have q: "csv_quoted (c # f) @ CHR 0x22 # rest = c # csv_quoted f @ CHR 0x22 # rest"
      by (simp add: csv_quoted_def False)
    show ?thesis unfolding q using ih lim False by (simp add: csv_step_defs)
  qed
qed

lemma csv_scan_plain:
  "length f + length acc \<le> csv_field_limit \<Longrightarrow> list_all (\<lambda>c. \<not> csv_special c) f \<Longrightarrow> rest \<noteq> [] \<Longrightarrow>
   csv_scan (parser_at InField row acc) (f @ rest) = csv_scan (parser_at InField row (rev f @ acc)) rest"
  by (induction f arbitrary: acc) (auto simp: csv_special_def csv_step_defs ends_line_def is_newline_def)

definition field_read :: "csv_state \<Rightarrow> string \<Rightarrow> bool" where
  "field_read m f \<longleftrightarrow> m = InField \<and> f \<noteq> [] \<or> m = QuoteInQuoted \<or> m = StartField \<and> f = []"

text \<open>Reading a cell leaves the field, in one of the modes that a delimiter or a line break closes.\<close>

lemma csv_scan_cell:
  assumes "length f \<le> csv_field_limit" and "rest \<noteq> []" and "m = StartField \<or> m = StartRecord \<and> f \<noteq> []"
  shows "\<exists>m'. field_read m' f \<and> csv_scan (parser_at m row []) (csv_cell f @ rest) = csv_scan (parser_at m' row (rev f)) rest"
proof (cases "list_ex csv_special f")
  case True
  have "csv_scan (parser_at m row []) (csv_cell f @ rest) = csv_scan (parser_at InQuoted row []) (csv_quoted f @ CHR 0x22 # rest)"
    using True assms(3) by (auto simp: csv_cell_def csv_step_defs ends_line_def is_newline_def)
  then show ?thesis using csv_scan_quoted [of f "[]" rest row] assms by (auto simp: field_read_def)
next
  case False
  then have plain: "list_all (\<lambda>c. \<not> csv_special c) f" by (simp add: list_ex_iff list_all_iff)
  show ?thesis
  proof (cases f)
    case Nil
    then show ?thesis using assms by (auto simp: csv_cell_def field_read_def)
  next
    case (Cons c g)
    have lim: "\<not> csv_field_limit \<le> 0" by (simp add: csv_field_limit_def)
    have "csv_scan (parser_at m row []) (csv_cell f @ rest) = csv_scan (parser_at InField row [c]) (g @ rest)"
      using Cons False assms(2,3) plain lim
      by (auto simp: csv_cell_def csv_step_defs ends_line_def is_newline_def csv_special_def)
    then show ?thesis using csv_scan_plain [of g "[c]" rest row] Cons plain assms(1,2) by (auto simp: field_read_def)
  qed
qed

lemma csv_scan_comma:
  "field_read m f \<Longrightarrow> rest \<noteq> [] \<Longrightarrow>
   csv_scan (parser_at m row (rev f)) (CHR '','' # rest) = csv_scan (parser_at StartField (f # row) []) rest"
  by (auto simp: field_read_def csv_step_defs ends_line_def is_newline_def)

lemma csv_scan_line_break:
  "field_read m f \<Longrightarrow>
   csv_scan (parser_at m row (rev f)) (CHR 0x0D # CHR 0x0A # rest) =
   (let (rows, bad) = csv_scan csv_fresh rest in (rev (f # row) # rows, bad))"
  by (auto simp: field_read_def csv_step_defs ends_line_def is_newline_def split: prod.split)

lemma csv_scan_row:
  assumes "fs \<noteq> []" and "list_all (\<lambda>f. length f \<le> csv_field_limit) fs" and "m = StartField \<or> m = StartRecord \<and> hd fs \<noteq> []"
  shows "csv_scan (parser_at m row []) (csv_line fs @ rest) =
    (let (rows, bad) = csv_scan csv_fresh rest in ((rev row @ fs) # rows, bad))"
  using assms
proof (induction fs arbitrary: m row)
  case (Cons f fs)
  show ?case
  proof (cases fs)
    case Nil
    obtain m' where m': "field_read m' f" "csv_scan (parser_at m row []) (csv_cell f @ CHR 0x0D # CHR 0x0A # rest) =
        csv_scan (parser_at m' row (rev f)) (CHR 0x0D # CHR 0x0A # rest)"
      using csv_scan_cell [of f "CHR 0x0D # CHR 0x0A # rest" m row] Cons.prems by auto
    have line: "csv_line (f # fs) @ rest = csv_cell f @ CHR 0x0D # CHR 0x0A # rest" by (simp add: csv_line_def Nil)
    show ?thesis unfolding line m'(2) csv_scan_line_break [OF m'(1)] by (simp add: Nil)
  next
    case (Cons g gs)
    have line: "csv_line (f # fs) @ rest = csv_cell f @ CHR '','' # csv_line fs @ rest" by (simp add: csv_line_def Cons)
    have ne: "csv_line fs @ rest \<noteq> []" by (simp add: csv_line_def)
    obtain m' where m': "field_read m' f" "csv_scan (parser_at m row []) (csv_cell f @ CHR '','' # csv_line fs @ rest) =
        csv_scan (parser_at m' row (rev f)) (CHR '','' # csv_line fs @ rest)"
      using csv_scan_cell [of f "CHR '','' # csv_line fs @ rest" m row] Cons.prems by auto
    have "csv_scan (parser_at StartField (f # row) []) (csv_line fs @ rest) =
        (let (rows, bad) = csv_scan csv_fresh rest in ((rev (f # row) @ fs) # rows, bad))"
      using Cons.prems Cons by (intro Cons.IH) auto
    then show ?thesis unfolding line m'(2) csv_scan_comma [OF m'(1) ne] by simp
  qed
qed simp

theorem csv_rows_written:
  assumes "\<And>row. row \<in> set rows \<Longrightarrow> row \<noteq> [] \<and> hd row \<noteq> [] \<and> list_all (\<lambda>f. length f \<le> csv_field_limit) row"
  shows "csv_rows (concat (map csv_line rows)) = (rows, False)"
  using assms
proof (induction rows)
  case (Cons row rows)
  have "csv_rows (concat (map csv_line (row # rows))) =
      (let (rs, bad) = csv_scan csv_fresh (concat (map csv_line rows)) in ((rev [] @ row) # rs, bad))"
    unfolding csv_rows_def list.map concat.simps csv_fresh_def
    by (rule csv_scan_row [of row StartRecord "[]", unfolded csv_fresh_def]) (use Cons.prems [of row] in auto)
  then show ?case using Cons by (simp add: csv_rows_def)
qed (simp add: csv_rows_def csv_fresh_def)

end
