(* ===== verification/PyLoads.thy ===== *)
theory PyLoads imports PyJson PyParse begin

text \<open>
  \<open>json.loads\<close> on text: the decoder of the standard library with its default settings. A float
  literal is read through \<open>float_repr\<close>, the \<open>repr\<close> of the float it denotes. Nesting deeper than
  the interpreter's recursion limit is not modelled. A \<open>\u\<close> escape of a code point above 255
  is outside the model's \<open>str\<close>; the outcome \<open>Beyond\<close> says so and stands for no result of the
  program. The fuel of the parser is twice the length of the text, which is always enough.
\<close>

datatype json_error = Malformed | TooManyDigits | Beyond | Exhausted

definition is_ws :: "char \<Rightarrow> bool" where
  "is_ws c \<longleftrightarrow> ch c = 32 \<or> ch c = 9 \<or> ch c = 10 \<or> ch c = 13"

definition skip_ws :: "string \<Rightarrow> string" where
  "skip_ws = dropWhile is_ws"

section \<open>Strings and numbers\<close>

definition simple_escape :: "char \<Rightarrow> char option" where
  "simple_escape c =
     (if ch c = 34 \<or> ch c = 92 \<or> ch c = 47 then Some c
      else if c = CHR ''b'' then Some CHR 0x08 else if c = CHR ''f'' then Some CHR 0x0C
      else if c = CHR ''n'' then Some CHR 0x0A else if c = CHR ''r'' then Some CHR 0x0D
      else if c = CHR ''t'' then Some CHR 0x09 else None)"

definition read_escape :: "string \<Rightarrow> json_error + char \<times> string" where
  "read_escape s =
     (case s of
        [] \<Rightarrow> Inl Malformed
      | c # r \<Rightarrow>
          if c = CHR ''u'' then
            (if length r < 4 \<or> \<not> list_all is_hex_any (take 4 r) then Inl Malformed
             else let n = foldl (\<lambda>n c. 16 * n + hex_value c) 0 (take 4 r) in
               if n < 256 then Inr (char_of n, drop 4 r) else Inl Beyond)
          else (case simple_escape c of None \<Rightarrow> Inl Malformed | Some x \<Rightarrow> Inr (x, r)))"

lemma read_escape_shorter: "read_escape s = Inr (x, r) \<Longrightarrow> length r < length s"
  by (auto simp: read_escape_def Let_def split: list.splits if_splits option.splits)

text \<open>The rest of a string, after its opening quote.\<close>

function read_string :: "string \<Rightarrow> json_error + string \<times> string" where
  "read_string [] = Inl Malformed"
| "read_string (c # s) =
     (if ch c = 34 then Inr ([], s)
      else if ch c = 92 then rbind (read_escape s) (\<lambda>(x, r). rbind (read_string r) (\<lambda>(t, rest). Inr (x # t, rest)))
      else if ch c < 32 then Inl Malformed
      else rbind (read_string s) (\<lambda>(t, rest). Inr (c # t, rest)))"
  by pat_completeness auto
termination by (relation "measure length") (auto dest: read_escape_shorter)

text \<open>A fraction and an exponent, when there is one.\<close>

definition read_fraction :: "string \<Rightarrow> string \<times> string" where
  "read_fraction s =
     (case s of c # d # r \<Rightarrow> if c = CHR ''.'' \<and> is_digit d then (c # takeWhile is_digit (d # r), dropWhile is_digit r) else ([], s)
      | _ \<Rightarrow> ([], s))"

definition read_json_exponent :: "string \<Rightarrow> string \<times> string" where
  "read_json_exponent s =
     (case s of
        c # r \<Rightarrow>
          if c = CHR ''e'' \<or> c = CHR ''E'' then
            (let sign = (if r \<noteq> [] \<and> (hd r = CHR ''+'' \<or> hd r = CHR ''-'') then [hd r] else []);
                 body = drop (length sign) r; ds = takeWhile is_digit body in
             if ds = [] then ([], s) else (c # sign @ ds, drop (length ds) body))
          else ([], s)
      | [] \<Rightarrow> ([], []))"

definition read_json_number :: "(string \<Rightarrow> string) \<Rightarrow> string \<Rightarrow> json_error + json \<times> string" where
  "read_json_number float_repr s =
     (let body = strip_minus s;
          ds = (if body \<noteq> [] \<and> hd body = CHR ''0'' then ''0'' else takeWhile is_digit body) in
      if ds = [] then Inl Malformed
      else
        let sign = (if s \<noteq> [] \<and> hd s = CHR ''-'' then ''-'' else []);
            (frac, r) = read_fraction (drop (length ds) body);
            (ex, rest) = read_json_exponent r in
        if frac = [] \<and> ex = [] then
          (if length ds > max_str_digits then Inl TooManyDigits
           else Inr (JInt ((if sign = [] then 1 else -1) * int (digits_value ds)), rest))
        else Inr (JFloat (float_repr (sign @ ds @ frac @ ex)), rest))"

section \<open>Values\<close>

text \<open>The constants, with the text that stands for them.\<close>

definition json_constants :: "(string \<times> json) list" where
  "json_constants = [(''null'', JNull), (''true'', JBool True), (''false'', JBool False), (''NaN'', JFloat ''nan''),
     (''Infinity'', JFloat ''inf''), (''-Infinity'', JFloat ''-inf'')]"

fun read_constant :: "(string \<times> json) list \<Rightarrow> string \<Rightarrow> (json \<times> string) option" where
  "read_constant [] s = None"
| "read_constant ((text, v) # cs) s =
     (if starts_with text s then Some (v, drop (length text) s) else read_constant cs s)"

fun read_value :: "(string \<Rightarrow> string) \<Rightarrow> nat \<Rightarrow> string \<Rightarrow> json_error + json \<times> string"
  and read_items :: "(string \<Rightarrow> string) \<Rightarrow> nat \<Rightarrow> string \<Rightarrow> json_error + json list \<times> string"
  and read_members :: "(string \<Rightarrow> string) \<Rightarrow> nat \<Rightarrow> dict \<Rightarrow> string \<Rightarrow> json_error + dict \<times> string" where
  "read_value f 0 s = Inl Exhausted"
| "read_value f (Suc n) s =
     (case s of
        [] \<Rightarrow> Inl Malformed
      | c # r \<Rightarrow>
          if ch c = 34 then rbind (read_string r) (\<lambda>(t, rest). Inr (JStr t, rest))
          else if c = CHR ''['' then
            (case skip_ws r of
               [] \<Rightarrow> Inl Malformed
             | d # r' \<Rightarrow> if d = CHR '']'' then Inr (JList [], r')
                 else rbind (read_items f n (d # r')) (\<lambda>(xs, rest). Inr (JList xs, rest)))
          else if ch c = 123 then
            (case skip_ws r of
               [] \<Rightarrow> Inl Malformed
             | d # r' \<Rightarrow> if ch d = 125 then Inr (JObj [], r')
                 else rbind (read_members f n [] (d # r')) (\<lambda>(d, rest). Inr (JObj d, rest)))
          else (case read_constant json_constants s of
              Some v \<Rightarrow> Inr v
            | None \<Rightarrow> read_json_number f s))"
| "read_items f 0 s = Inl Exhausted"
| "read_items f (Suc n) s =
     rbind (read_value f n s) (\<lambda>(v, r).
       case skip_ws r of
         [] \<Rightarrow> Inl Malformed
       | c # r' \<Rightarrow>
           if c = CHR '']'' then Inr ([v], r')
           else if c = CHR '','' then rbind (read_items f n (skip_ws r')) (\<lambda>(vs, rest). Inr (v # vs, rest))
           else Inl Malformed)"
| "read_members f 0 d s = Inl Exhausted"
| "read_members f (Suc n) d s =
     (case s of
        [] \<Rightarrow> Inl Malformed
      | q # r \<Rightarrow>
          if ch q \<noteq> 34 then Inl Malformed
          else rbind (read_string r) (\<lambda>(k, r).
            case skip_ws r of
              [] \<Rightarrow> Inl Malformed
            | c # r \<Rightarrow>
                if c \<noteq> CHR '':'' then Inl Malformed
                else rbind (read_value f n (skip_ws r)) (\<lambda>(v, r).
                  case skip_ws r of
                    [] \<Rightarrow> Inl Malformed
                  | c # r \<Rightarrow>
                      if ch c = 125 then Inr (dput k v d, r)
                      else if c = CHR '','' then read_members f n (dput k v d) (skip_ws r)
                      else Inl Malformed)))"

definition json_loads :: "(string \<Rightarrow> string) \<Rightarrow> string \<Rightarrow> json_error + json" where
  "json_loads f s =
     rbind (read_value f (Suc (2 * length s)) (skip_ws s)) (\<lambda>(v, rest). if skip_ws rest = [] then Inr v else Inl Malformed)"

section \<open>The fuel is enough\<close>

text \<open>Outcomes that are no exhaustion and leave less text than there was.\<close>

definition shortens :: "string \<Rightarrow> json_error + 'a \<times> string \<Rightarrow> bool" where
  "shortens s m \<longleftrightarrow> (case m of Inl e \<Rightarrow> e \<noteq> Exhausted | Inr (x, r) \<Rightarrow> length r < length s)"

lemma shortens_simps [simp]:
  "shortens s (Inl e) \<longleftrightarrow> e \<noteq> Exhausted" "shortens s (Inr (x, r)) \<longleftrightarrow> length r < length s"
  by (simp_all add: shortens_def)

lemma shortens_bind:
  assumes "shortens s m" and "\<And>x r. m = Inr (x, r) \<Longrightarrow> length r < length s \<Longrightarrow> shortens t (g x r)"
  shows "shortens t (rbind m (\<lambda>(x, r). g x r))"
  using assms by (cases m) auto

lemma shortens_more: "shortens s m \<Longrightarrow> length s \<le> length t \<Longrightarrow> shortens t m"
  by (auto simp: shortens_def split: sum.splits)

lemma length_skip_ws: "length (skip_ws s) \<le> length s"
  by (simp add: skip_ws_def length_dropWhile_le)

lemma read_escape_shortens: "shortens s (read_escape s)"
  by (auto simp: read_escape_def Let_def split: list.splits option.splits)

lemma read_string_shortens: "shortens s (read_string s)"
proof (induction s rule: read_string.induct)
  case (2 c s)
  have "shortens (c # s) (rbind (read_escape s) (\<lambda>(x, r). rbind (read_string r) (\<lambda>(t, rest). Inr (x # t, rest))))"
    if "ch c \<noteq> 34" "ch c = 92"
    by (intro shortens_bind [OF read_escape_shortens] shortens_bind [OF 2(1) [OF that]]) auto
  moreover have "shortens (c # s) (rbind (read_string s) (\<lambda>(t, rest). Inr (c # t, rest)))"
    if "ch c \<noteq> 34" "ch c \<noteq> 92" "\<not> ch c < 32"
    by (intro shortens_bind [OF 2(2) [OF that]]) auto
  ultimately show ?case by simp
qed simp

lemma read_fraction_length: "read_fraction s = (a, r) \<Longrightarrow> length r \<le> length s"
  by (auto simp: read_fraction_def split: list.splits if_splits intro: le_trans [OF length_dropWhile_le])

lemma read_exponent_length: "read_json_exponent s = (a, r) \<Longrightarrow> length r \<le> length s"
  by (auto simp: read_json_exponent_def Let_def split: list.splits if_splits)

lemma read_number_shortens: "shortens s (read_json_number f s)"
proof -
  define body where "body = strip_minus s"
  define ds where "ds = (if body \<noteq> [] \<and> hd body = CHR ''0'' then ''0'' else takeWhile is_digit body)"
  obtain frac r where fr: "read_fraction (drop (length ds) body) = (frac, r)" by fastforce
  obtain ex rest where er: "read_json_exponent r = (ex, rest)" by fastforce
  have "length body \<le> length s" unfolding body_def by (cases s) auto
  moreover have "length (drop (length ds) body) < length body" if "ds \<noteq> []"
    using that by (cases body) (auto simp: ds_def)
  ultimately have "length rest < length s" if "ds \<noteq> []"
    using that read_fraction_length [OF fr] read_exponent_length [OF er] by linarith
  then show ?thesis unfolding read_json_number_def Let_def body_def [symmetric] ds_def [symmetric] fr prod.case er by auto
qed

lemma read_constant_shortens:
  "list_all (\<lambda>p. fst p \<noteq> []) cs \<Longrightarrow> read_constant cs s = Some (v, r) \<Longrightarrow> length r < length s"
  by (induction cs s rule: read_constant.induct) (auto simp: starts_with_iff split: if_splits)


lemma json_constants_nonempty: "list_all (\<lambda>p. fst p \<noteq> []) json_constants"
  by (simp add: json_constants_def)

lemma read_scalar_shortens:
  "shortens s (case read_constant json_constants s of Some v \<Rightarrow> Inr v | None \<Rightarrow> read_json_number f s)"
  using read_constant_shortens [OF json_constants_nonempty, of s] read_number_shortens [of s f]
  by (auto split: option.split)

lemma skip_ws_Cons_length: "skip_ws s = c # r \<Longrightarrow> Suc (length r) \<le> length s"
  using length_skip_ws [of s] by simp


lemma shortens_bindI:
  assumes "shortens s m" and "\<And>x r. length r < length s \<Longrightarrow> shortens t (g x r)"
  shows "shortens t (rbind m (\<lambda>(x, r). g x r))"
  using assms by (rule shortens_bind)

lemma skip_ws_bound: "length r < length s \<Longrightarrow> skip_ws r = c # r' \<Longrightarrow> Suc (length r') < length s"
  using skip_ws_Cons_length [of r c r'] by simp

lemma read_shortens:
  shows "2 * length s < n \<Longrightarrow> shortens s (read_value f n s)"
    and "2 * length s + 1 < n \<Longrightarrow> shortens s (read_items f n s)"
    and "2 * length s + 1 < n \<Longrightarrow> shortens s (read_members f n d s)"
proof (induction n arbitrary: s d)
  case (Suc n)
  {
    case 1
    show ?case
    proof (cases s)
      case (Cons c r)
      have str: "shortens s (rbind (read_string r) (\<lambda>(t, rest). Inr (JStr t, rest)))"
        by (rule shortens_bindI [OF read_string_shortens]) (simp add: Cons)
      have list: "shortens s (rbind (read_items f n (a # r')) (\<lambda>(xs, rest). Inr (JList xs, rest)))"
        if "skip_ws r = a # r'" for a r'
        using skip_ws_Cons_length [OF that] 1 by (intro shortens_bindI [OF Suc.IH(2)]) (auto simp: Cons)
      have obj: "shortens s (rbind (read_members f n [] (a # r')) (\<lambda>(d, rest). Inr (JObj d, rest)))"
        if "skip_ws r = a # r'" for a r'
        using skip_ws_Cons_length [OF that] 1 by (intro shortens_bindI [OF Suc.IH(3)]) (auto simp: Cons)
      have short: "length r' < length s" if "skip_ws r = a # r'" for a r'
        using skip_ws_Cons_length [OF that] by (simp add: Cons)
      note parts = str list obj short read_scalar_shortens [of s f]
      show ?thesis unfolding Cons read_value.simps(2) list.case(2)
        unfolding Cons [symmetric] using parts by (auto split: list.split)
    qed simp
  next
    case 2
    have step: "shortens s (rbind (read_items f n (skip_ws r')) (\<lambda>(vs, rest). Inr (v # vs, rest)))"
      if "length r < length s" "skip_ws r = c # r'" for v r c r'
      using skip_ws_bound [OF that] length_skip_ws [of r'] 2
      by (intro shortens_bindI [OF Suc.IH(2)]) auto
    have short: "length r' < length s" if "length r < length s" "skip_ws r = c # r'" for r c r'
      using skip_ws_bound [OF that] by simp
    show ?case unfolding read_items.simps(2)
      using 2 step short by (intro shortens_bindI [OF Suc.IH(1)]) (auto split: list.split)
  next
    case 3
    have step: "shortens s (read_members f n e (skip_ws r'))"
      if "length r < length s" "skip_ws r = c # r'" for r c r' e
      using skip_ws_bound [OF that] length_skip_ws [of r'] 3
      by (intro shortens_more [OF Suc.IH(3)]) auto
    have short: "length r' < length s" if "length r < length s" "skip_ws r = c # r'" for r c r'
      using skip_ws_bound [OF that] by simp
    have field: "shortens s (rbind (read_value f n (skip_ws r')) (\<lambda>(v, r). case skip_ws r of
        [] \<Rightarrow> Inl Malformed
      | c # r \<Rightarrow> if ch c = 125 then Inr (dput k v d, r)
          else if c = CHR '','' then read_members f n (dput k v d) (skip_ws r) else Inl Malformed))"
      if "length r < length s" "skip_ws r = c # r'" for r c r' k
    proof -
      have le: "length (skip_ws r') < length s" using short [OF that] length_skip_ws [of r'] by simp
      show ?thesis
        using step short 3 le
        by (intro shortens_bindI [OF Suc.IH(1)]) (auto split: list.split dest: less_trans)
    qed
    show ?case
    proof (cases s)
      case (Cons q r)
      have rest: "shortens s (case skip_ws r' of [] \<Rightarrow> Inl Malformed
        | c # r \<Rightarrow> if c \<noteq> CHR '':'' then Inl Malformed
            else rbind (read_value f n (skip_ws r)) (\<lambda>(v, r). case skip_ws r of
                [] \<Rightarrow> Inl Malformed
              | c # r \<Rightarrow> if ch c = 125 then Inr (dput k v d, r)
                  else if c = CHR '','' then read_members f n (dput k v d) (skip_ws r) else Inl Malformed))"
        if "length r' < length r" for r' k
        using field [of r'] that by (auto simp: Cons split: list.split)
      have "shortens s (rbind (read_string r) (\<lambda>(k, r'). case skip_ws r' of [] \<Rightarrow> Inl Malformed
        | c # r \<Rightarrow> if c \<noteq> CHR '':'' then Inl Malformed
            else rbind (read_value f n (skip_ws r)) (\<lambda>(v, r). case skip_ws r of
                [] \<Rightarrow> Inl Malformed
              | c # r \<Rightarrow> if ch c = 125 then Inr (dput k v d, r)
                  else if c = CHR '','' then read_members f n (dput k v d) (skip_ws r) else Inl Malformed)))"
        by (rule shortens_bindI [OF read_string_shortens rest])
      then show ?thesis unfolding Cons read_members.simps(2) list.case(2) by simp
    qed simp
  }
qed simp_all

lemma json_loads_fuel: "json_loads f s \<noteq> Inl Exhausted"
proof -
  have "shortens (skip_ws s) (read_value f (Suc (2 * length s)) (skip_ws s))"
    using length_skip_ws [of s] by (intro read_shortens(1)) simp
  then show ?thesis unfolding json_loads_def
    by (cases "read_value f (Suc (2 * length s)) (skip_ws s)") (auto simp del: read_value.simps split: if_splits)
qed

end
