(* ===== verification/Reporting.thy ===== *)
theory Reporting imports Evidence PyBytes PyLoads begin

text \<open>
  \<open>reporting/runtime.py\<close>: report records drawn from metric snapshots, their export as one
  sealed JSON bundle, as JSON lines and as CSV, the three importers, and the paging of a
  collection by cursors. Records and bundles are JSON documents; a payload is the text of its
  bytes. SHA-256 is \<open>h\<close> on text, \<open>sha\<close> on the bytes of source files. A decoded text that
  leaves the model's \<open>str\<close> gives \<open>OutsideModel\<close>, which is no exception of the program.
\<close>

abbreviation reporting_error :: "string \<Rightarrow> 'a res" where
  "reporting_error code \<equiv> Inl (ReportingError code)"

definition reject_if :: "bool \<Rightarrow> string \<Rightarrow> unit res" where
  "reject_if failed code = (if failed then reporting_error code else Inr ())"

text \<open>Checks in order; the first that raises ends them.\<close>

fun checks :: "unit res list \<Rightarrow> unit res" where
  "checks [] = Inr ()"
| "checks (m # ms) = rbind m (\<lambda>_. checks ms)"

lemma checks_Inr [res_simps]: "checks ms = Inr () \<longleftrightarrow> list_all (\<lambda>m. m = Inr ()) ms"
  by (induction ms) (auto simp: rbind_Inr_iff)

lemma reject_if_Inr [res_simps]: "reject_if b code = Inr u \<longleftrightarrow> \<not> b"
  by (simp add: reject_if_def)

section \<open>Canonical JSON and shapes\<close>

definition report_json :: "json \<Rightarrow> string res" where
  "report_json v = (if json_ok v then Inr (json_text v) else reporting_error ''REPORT_JSON_INVALID'')"

definition report_hash :: "(string \<Rightarrow> string) \<Rightarrow> dict \<Rightarrow> string list \<Rightarrow> string res" where
  "report_hash h d excluded =
     map_sum id h (report_json (JObj (filter (\<lambda>p. \<not> List.member excluded (fst p)) d)))"

text \<open>\<open>json.loads(_canonical_json(value))\<close>\<close>

definition report_clone :: "json \<Rightarrow> json res" where
  "report_clone v = map_sum id (\<lambda>_. json_sort v) (report_json v)"

definition require_name :: "json \<Rightarrow> string list \<Rightarrow> string \<Rightarrow> unit res" where
  "require_name v names code = rbind (in_names v names) (\<lambda>found. reject_if (\<not> found) code)"

text \<open>A list of distinct strings that satisfy \<open>ok\<close>; \<open>set\<close> of an unhashable item raises.\<close>

definition require_unique :: "(json \<Rightarrow> bool) \<Rightarrow> json \<Rightarrow> string \<Rightarrow> unit res" where
  "require_unique ok v code =
     (if list_all hashable (jlist v) then reject_if (\<not> distinct_strings ok v) code else Inl TypeError)"

datatype stamp = Moment clock | Stamp string

text \<open>\<open>_generated_at\<close>\<close>

definition stamp_text :: "stamp \<Rightarrow> string res" where
  "stamp_text s =
     (case s of
        Moment t \<Rightarrow> if is_aware t then Inr (isoformat t) else reporting_error ''REPORT_TIMESTAMP_INVALID''
      | Stamp v \<Rightarrow> if valid_datetime_text (JStr v) then Inr v else reporting_error ''REPORT_TIMESTAMP_INVALID'')"

section \<open>Records\<close>

definition report_keys :: "string list" where
  "report_keys = [''report_record_id'', ''schema_version'', ''organization_id'', ''marketplace_account_id'', ''mode'',
     ''scenario_id'', ''accounting_view'', ''metric_snapshot_id'', ''snapshot_revision'', ''metric_content_hash'',
     ''evidence_chain_ref'', ''evidence_chain_content_hash'', ''state'', ''value'', ''value_type'', ''unit'',
     ''currency'', ''reason_code'', ''expense_boundary'', ''rounding'', ''freshness'', ''confidence'',
     ''limitations'', ''publication_state'', ''generated_at'', ''record_hash'']"

definition report_schema :: string where
  "report_schema = ''quantum-report-record-v1''"

definition unverified :: string where
  "unverified = ''EVIDENCE_NOT_VERIFIED_FOR_PUBLICATION''"

definition rounding_checks :: "json \<Rightarrow> unit res" where
  "rounding_checks v =
     (let d = jdict v; code = ''REPORT_ROUNDING_INVALID''; scale = dget d ''resolved_scale'' in
      checks
        [reject_if (\<not> is_mapping v \<or> \<not> keys_are d [''policy_ref'', ''application_point'', ''resolved_mode'', ''resolved_scale'']) code,
         reject_if (\<not> valid_ref False (dget d ''policy_ref'')) code,
         require_name (dget d ''application_point'') rounding_application_points code,
         require_name (dget d ''resolved_mode'') rounding_modes code,
         reject_if (\<not> is_non_negative_int scale \<or> jint scale > 28) code])"

definition freshness_checks :: "json \<Rightarrow> unit res" where
  "freshness_checks v =
     (let d = jdict v; code = ''REPORT_FRESHNESS_INVALID''; deadline = dget d ''deadline'' in
      checks
        [reject_if (\<not> is_mapping v \<or> \<not> keys_are d [''state'', ''observed_at'', ''deadline'']) code,
         require_name (dget d ''state'') freshness_states code,
         reject_if (\<not> valid_datetime_text (dget d ''observed_at'')) code,
         reject_if (deadline \<noteq> JNull \<and> \<not> valid_datetime_text deadline) code])"

definition confidence_checks :: "json \<Rightarrow> unit res" where
  "confidence_checks v =
     (let d = jdict v; code = ''REPORT_CONFIDENCE_INVALID'' in
      checks
        [reject_if (\<not> is_mapping v \<or> \<not> keys_are d [''state'', ''reasons'']) code,
         require_name (dget d ''state'') confidence_states code,
         require_unique is_nonempty_string (dget d ''reasons'') code])"

text \<open>The mode, its scenario, and nothing else.\<close>

definition mode_checks :: "dict \<Rightarrow> string \<Rightarrow> string \<Rightarrow> unit res" where
  "mode_checks d unknown mixed =
     (let mode = dget d ''mode''; scenario = dget d ''scenario_id'' in
      checks
        [reject_if (mode \<noteq> JStr ''ACTUAL'' \<and> mode \<noteq> JStr ''SCENARIO'') unknown,
         reject_if (mode = JStr ''ACTUAL'' \<and> scenario \<noteq> JNull) mixed,
         reject_if (mode = JStr ''SCENARIO'' \<and> \<not> is_nonempty_string scenario) mixed])"

definition publication_checks :: "dict \<Rightarrow> unit res" where
  "publication_checks d =
     (let chain_hash = dget d ''evidence_chain_content_hash''; limitations = dget d ''limitations'';
          warned = List.member (jlist limitations) (JStr unverified) in
      checks
        [require_unique is_nonempty_string limitations ''REPORT_LIMITATIONS_INVALID'',
         reject_if
           (if dget d ''publication_state'' = JStr ''PREVIEW_ONLY'' then chain_hash \<noteq> JNull \<or> \<not> warned
            else \<not> is_hash chain_hash \<or> warned) ''REPORT_PUBLICATION_STATE_INVALID''])"

definition value_checks :: "dict \<Rightarrow> unit res" where
  "value_checks d =
     (let v = dget d ''value''; kind = dget d ''value_type''; unit = dget d ''unit''; currency = dget d ''currency'';
          code = ''REPORT_VALUE_INVALID'' in
      if dget d ''state'' = JStr ''VALID'' then
        checks
          [require_name kind snapshot_value_types code,
           require_name unit snapshot_units code,
           reject_if (dget d ''reason_code'' \<noteq> JNull) code,
           reject_if
             (if kind = JStr ''MONEY''
              then \<not> is_decimal_string v \<or> \<not> is_allowed_string unit money_units \<or> \<not> is_currency currency
              else if kind = JStr ''INTEGER''
              then \<not> is_integer v \<or> is_allowed_string unit money_units \<or> currency \<noteq> JNull
              else \<not> is_decimal_string v \<or> is_allowed_string unit money_units \<or> currency \<noteq> JNull) code]
      else
        checks
          [reject_if (list_ex (\<lambda>f. dget d f \<noteq> JNull) [''value'', ''value_type'', ''unit'', ''currency''])
             ''REPORT_STATE_VALUE_MISMATCH'',
           reject_if (\<not> is_nonempty_string (dget d ''reason_code'')) ''REPORT_REASON_REQUIRED''])"

definition identity_checks :: "dict \<Rightarrow> unit res list" where
  "identity_checks d =
     reject_if (dget d ''schema_version'' \<noteq> JStr report_schema) ''REPORT_SCHEMA_VERSION_UNSUPPORTED'' #
     map (\<lambda>f. reject_if (\<not> is_nonempty_string (dget d f)) ''REPORT_RECORD_MALFORMED'')
       [''report_record_id'', ''organization_id'', ''metric_snapshot_id'', ''metric_content_hash''] @
     [reject_if (\<not> is_hash (dget d ''metric_content_hash'')) ''REPORT_SNAPSHOT_HASH_INVALID'',
      reject_if (\<not> is_positive_int (dget d ''snapshot_revision'')) ''REPORT_RECORD_MALFORMED'',
      mode_checks d ''REPORT_MODE_INVALID'' ''REPORT_MODE_CONTAMINATION'',
      reject_if (dget d ''marketplace_account_id'' \<noteq> JNull \<and> \<not> is_nonempty_string (dget d ''marketplace_account_id''))
        ''REPORT_RECORD_MALFORMED'']"

definition seal_check :: "(string \<Rightarrow> string) \<Rightarrow> dict \<Rightarrow> string \<Rightarrow> string \<Rightarrow> unit res" where
  "seal_check h d field code =
     (if is_hash (dget d field)
      then rbind (report_hash h d [field]) (\<lambda>x. reject_if (dget d field \<noteq> JStr x) code)
      else reporting_error code)"

definition validate_report_record :: "(string \<Rightarrow> string) \<Rightarrow> json \<Rightarrow> unit res" where
  "validate_report_record h v =
     (let d = jdict v in
      checks
        (reject_if (\<not> is_mapping v \<or> \<not> keys_are d report_keys) ''REPORT_RECORD_MALFORMED'' #
         identity_checks d @
         [require_name (dget d ''accounting_view'') accounting_views ''REPORT_ACCOUNTING_VIEW_INVALID'',
          require_name (dget d ''state'') snapshot_states ''REPORT_STATE_INVALID'',
          require_name (dget d ''publication_state'') [''PREVIEW_ONLY'', ''EVIDENCE_VERIFIED''] ''REPORT_PUBLICATION_STATE_INVALID'',
          reject_if (\<not> valid_datetime_text (dget d ''generated_at'')) ''REPORT_TIMESTAMP_INVALID'',
          reject_if (\<not> valid_ref True (dget d ''evidence_chain_ref'')) ''REPORT_EVIDENCE_REF_INVALID'',
          publication_checks d,
          value_checks d,
          require_unique (\<lambda>x. is_allowed_string x expense_boundaries) (dget d ''expense_boundary'')
            ''REPORT_EXPENSE_BOUNDARY_INVALID'',
          rounding_checks (dget d ''rounding''),
          freshness_checks (dget d ''freshness''),
          confidence_checks (dget d ''confidence''),
          seal_check h d ''record_hash'' ''REPORT_RECORD_HASH_MISMATCH'']))"

text \<open>\<open>_validate_evidence_binding\<close>\<close>

definition evidence_binding ::
  "(string \<Rightarrow> string) \<Rightarrow> (string \<Rightarrow> string) \<Rightarrow> dict \<Rightarrow> json \<Rightarrow> unit res" where
  "evidence_binding h sha snapshot chain =
     (case verify_evidence_chain h sha None False chain of
        code # _ \<Rightarrow> reporting_error (''REPORT_EVIDENCE_INVALID:'' @ code)
      | [] \<Rightarrow>
          (let c = jdict chain; ref = jdict (dget snapshot ''evidence_chain_ref'');
               target = dget c ''root_metric_snapshot_ref''; t = jdict target in
           reject_if
             (\<not> py_eq (dget c ''evidence_chain_id'') (dget ref ''id'') \<or>
              \<not> py_eq (dget c ''version'') (dget ref ''version'') \<or>
              list_ex (\<lambda>f. \<not> py_eq (dget c f) (dget snapshot f)) [''organization_id'', ''mode'', ''scenario_id''] \<or>
              \<not> is_mapping target \<or>
              \<not> py_eq (dget t ''id'') (dget snapshot ''metric_snapshot_id'') \<or>
              \<not> py_eq (dget t ''version'') (dget snapshot ''snapshot_revision'') \<or>
              \<not> py_eq (dget t ''content_hash'') (dget snapshot ''content_hash''))
             ''REPORT_EVIDENCE_BINDING_MISMATCH''))"

text \<open>The publication state, the hash of the chain and the limitations of a record.\<close>

definition publication ::
  "(string \<Rightarrow> string) \<Rightarrow> (string \<Rightarrow> string) \<Rightarrow> dict \<Rightarrow> json option \<Rightarrow> (string \<times> json \<times> json list) res" where
  "publication h sha snapshot evidence_chain =
     (let limitations = jlist (dget snapshot ''limitations'') in
      case evidence_chain of
        Some chain \<Rightarrow>
          rbind (evidence_binding h sha snapshot chain) (\<lambda>_.
            Inr (''EVIDENCE_VERIFIED'', JStr (jstr (dget (jdict chain) ''content_hash'')),
              filter (\<lambda>x. x \<noteq> JStr unverified) limitations))
      | None \<Rightarrow>
          Inr (''PREVIEW_ONLY'', JNull,
            if List.member limitations (JStr unverified) then limitations else limitations @ [JStr unverified]))"

definition unsealed_record ::
  "dict \<Rightarrow> string \<Rightarrow> string \<Rightarrow> string \<times> json \<times> json list \<Rightarrow> json \<Rightarrow> json \<Rightarrow> dict" where
  "unsealed_record s record_id stamp pub chain_ref rounding =
     (case pub of (state, chain_hash, limitations) \<Rightarrow>
        [(''report_record_id'', JStr record_id), (''schema_version'', JStr report_schema)] @
        map (\<lambda>f. (f, dget s f)) [''organization_id'', ''marketplace_account_id'', ''mode'', ''scenario_id'',
          ''accounting_view'', ''metric_snapshot_id'', ''snapshot_revision''] @
        [(''metric_content_hash'', dget s ''content_hash''), (''evidence_chain_ref'', chain_ref),
         (''evidence_chain_content_hash'', chain_hash)] @
        map (\<lambda>f. (f, dget s f)) [''state'', ''value'', ''value_type'', ''unit'', ''currency'', ''reason_code''] @
        [(''expense_boundary'', JList (jlist (dget s ''expense_boundary''))), (''rounding'', rounding),
         (''freshness'', JObj [(''state'', dget s ''data_freshness_state''), (''observed_at'', dget s ''freshness_observed_at''),
            (''deadline'', dget s ''freshness_deadline'')]),
         (''confidence'', JObj [(''state'', dget s ''confidence_state''), (''reasons'', JList (jlist (dget s ''confidence_reasons'')))]),
         (''limitations'', JList limitations), (''publication_state'', JStr state), (''generated_at'', JStr stamp),
         (''record_hash'', JStr [])])"

definition build_report_record ::
  "(string \<Rightarrow> string) \<Rightarrow> (string \<Rightarrow> string) \<Rightarrow> json \<Rightarrow> string \<Rightarrow> stamp \<Rightarrow> json option \<Rightarrow> json res" where
  "build_report_record h sha snapshot record_id generated_at evidence_chain =
     (let s = jdict snapshot in
      rbind (reject_if (record_id = []) ''REPORT_RECORD_ID_INVALID'') (\<lambda>_.
      case verify_metric_snapshot h snapshot of
        code # _ \<Rightarrow> reporting_error (''REPORT_SNAPSHOT_INVALID:'' @ code)
      | [] \<Rightarrow>
          rbind (publication h sha s evidence_chain) (\<lambda>pub.
          rbind (report_clone (dget s ''evidence_chain_ref'')) (\<lambda>chain_ref.
          rbind (report_clone (dget s ''rounding'')) (\<lambda>rounding.
          rbind (stamp_text generated_at) (\<lambda>stamp.
          let draft = unsealed_record s record_id stamp pub chain_ref rounding in
          rbind (report_hash h draft [''record_hash'']) (\<lambda>x.
          let d = dput ''record_hash'' (JStr x) draft in
          rbind (validate_report_record h (JObj d)) (\<lambda>_. Inr (JObj d)))))))))"

section \<open>Bundles\<close>

definition max_export_records :: nat where
  "max_export_records = 10000"

definition max_export_bytes :: nat where
  "max_export_bytes = 10000000"

definition record_field :: "string \<Rightarrow> json \<Rightarrow> json" where
  "record_field f v = dget (jdict v) f"

text \<open>\<open>_validate_record_collection\<close>, with the identifiers seen so far.\<close>

fun validate_records :: "(string \<Rightarrow> string) \<Rightarrow> json list \<Rightarrow> string list \<Rightarrow> unit res" where
  "validate_records h [] seen = Inr ()"
| "validate_records h (r # rs) seen =
     rbind (validate_report_record h r) (\<lambda>_.
       let record_id = jstr (record_field ''report_record_id'' r) in
       if List.member seen record_id then reporting_error ''EXPORT_RECORD_DUPLICATE''
       else validate_records h rs (record_id # seen))"

definition bundle_keys :: "string list" where
  "bundle_keys = [''schema_version'', ''bundle_id'', ''organization_id'', ''mode'', ''scenario_id'', ''generated_at'',
     ''record_count'', ''records'', ''bundle_hash'']"

definition export_schema :: string where
  "export_schema = ''quantum-report-export-v1''"

definition header_checks :: "json \<Rightarrow> unit res list" where
  "header_checks v =
     (let d = jdict v in
      [reject_if (\<not> is_mapping v \<or> \<not> keys_are d bundle_keys) ''EXPORT_BUNDLE_MALFORMED'',
       reject_if (dget d ''schema_version'' \<noteq> JStr export_schema) ''EXPORT_SCHEMA_VERSION_UNSUPPORTED'',
       reject_if (\<not> is_nonempty_string (dget d ''bundle_id'')) ''EXPORT_BUNDLE_MALFORMED'',
       reject_if (\<not> is_nonempty_string (dget d ''organization_id'')) ''EXPORT_BUNDLE_MALFORMED'',
       reject_if (\<not> valid_datetime_text (dget d ''generated_at'')) ''EXPORT_TIMESTAMP_INVALID'',
       mode_checks d ''EXPORT_MODE_MIXED'' ''EXPORT_MODE_MIXED''])"

definition bundle_member_check :: "dict \<Rightarrow> json \<Rightarrow> unit res" where
  "bundle_member_check d r =
     checks
       [reject_if (record_field ''organization_id'' r \<noteq> dget d ''organization_id'') ''EXPORT_TENANT_MIXED'',
        reject_if (record_field ''mode'' r \<noteq> dget d ''mode'' \<or> record_field ''scenario_id'' r \<noteq> dget d ''scenario_id'')
          ''EXPORT_MODE_MIXED'']"

text \<open>The hash of the bundle; a document that does not print has the wrong one.\<close>

definition bundle_seal_check :: "(string \<Rightarrow> string) \<Rightarrow> dict \<Rightarrow> unit res" where
  "bundle_seal_check h d =
     (case report_hash h d [''bundle_hash''] of
        Inl _ \<Rightarrow> reporting_error ''EXPORT_HASH_MISMATCH''
      | Inr x \<Rightarrow>
          reject_if (\<not> is_hash (dget d ''bundle_hash'') \<or> dget d ''bundle_hash'' \<noteq> JStr x) ''EXPORT_HASH_MISMATCH'')"

definition validate_export_bundle :: "(string \<Rightarrow> string) \<Rightarrow> json \<Rightarrow> unit res" where
  "validate_export_bundle h v =
     (let d = jdict v; records = jlist (dget d ''records'') in
      checks
        (header_checks v @
         [reject_if (records = []) ''EXPORT_EMPTY'',
          reject_if (length records > max_export_records) ''EXPORT_RECORD_LIMIT_EXCEEDED'',
          reject_if (dget d ''record_count'' \<noteq> JInt (int (length records))) ''EXPORT_COUNT_MISMATCH'',
          bundle_seal_check h d,
          validate_records h records []] @
         map (bundle_member_check d) records))"

definition build_export_bundle :: "(string \<Rightarrow> string) \<Rightarrow> json list \<Rightarrow> string \<Rightarrow> stamp \<Rightarrow> json res" where
  "build_export_bundle h records bundle_id generated_at =
     rbind (reject_if (bundle_id = []) ''EXPORT_BUNDLE_ID_INVALID'') (\<lambda>_.
     rbind (rmap report_clone records) (\<lambda>rs.
     let mixed = (\<lambda>f. length (remdups (map (record_field f) rs)) \<noteq> 1); first = hd rs in
     rbind (checks
       [reject_if (rs = []) ''EXPORT_EMPTY'',
        reject_if (length rs > max_export_records) ''EXPORT_RECORD_LIMIT_EXCEEDED'',
        validate_records h rs [],
        reject_if (mixed ''organization_id'') ''EXPORT_TENANT_MIXED'',
        reject_if (mixed ''mode'' \<or> mixed ''scenario_id'') ''EXPORT_MODE_MIXED'']) (\<lambda>_.
     rbind (stamp_text generated_at) (\<lambda>stamp.
     let draft = [(''schema_version'', JStr export_schema), (''bundle_id'', JStr bundle_id),
       (''organization_id'', record_field ''organization_id'' first), (''mode'', record_field ''mode'' first),
       (''scenario_id'', record_field ''scenario_id'' first), (''generated_at'', JStr stamp),
       (''record_count'', JInt (int (length rs))), (''records'', JList rs), (''bundle_hash'', JStr [])] in
     rbind (report_hash h draft [''bundle_hash'']) (\<lambda>x.
     let d = dput ''bundle_hash'' (JStr x) draft in
     rbind (validate_export_bundle h (JObj d)) (\<lambda>_. Inr (JObj d)))))))"

section \<open>JSON and JSON lines\<close>

definition within_bytes :: "string \<Rightarrow> string res" where
  "within_bytes payload =
     (if length payload > max_export_bytes then reporting_error ''EXPORT_BYTE_LIMIT_EXCEEDED'' else Inr payload)"

definition export_bundle_json :: "(string \<Rightarrow> string) \<Rightarrow> json \<Rightarrow> string res" where
  "export_bundle_json h bundle =
     rbind (validate_export_bundle h bundle) (\<lambda>_.
     rbind (report_json bundle) (\<lambda>text. within_bytes (utf8 text)))"

text \<open>\<open>payload.decode("utf-8")\<close> and \<open>json.loads\<close>, with what they raise translated to \<open>code\<close>.\<close>

definition decode_payload :: "string \<Rightarrow> string \<Rightarrow> string res" where
  "decode_payload code payload =
     (case utf8_decode payload of
        Inl BadBytes \<Rightarrow> reporting_error code
      | Inl WideChar \<Rightarrow> Inl OutsideModel
      | Inr text \<Rightarrow> Inr text)"

definition load_json :: "(string \<Rightarrow> string) \<Rightarrow> string \<Rightarrow> string \<Rightarrow> json res" where
  "load_json f code text =
     (case json_loads f text of
        Inr v \<Rightarrow> Inr v
      | Inl TooManyDigits \<Rightarrow> Inl (ValueError ''Exceeds the limit for integer string conversion'')
      | Inl Malformed \<Rightarrow> reporting_error code
      | Inl _ \<Rightarrow> Inl OutsideModel)"

definition import_bundle_json :: "(string \<Rightarrow> string) \<Rightarrow> (string \<Rightarrow> string) \<Rightarrow> string \<Rightarrow> json res" where
  "import_bundle_json h f payload =
     rbind (within_bytes payload) (\<lambda>_.
     rbind (decode_payload ''EXPORT_JSON_INVALID'' payload) (\<lambda>text.
     rbind (load_json f ''EXPORT_JSON_INVALID'' text) (\<lambda>bundle.
     rbind (validate_export_bundle h bundle) (\<lambda>_. Inr bundle))))"

text \<open>The records of an export, copied, counted and validated.\<close>

definition export_records :: "(string \<Rightarrow> string) \<Rightarrow> json list \<Rightarrow> json list res" where
  "export_records h records =
     rbind (rmap report_clone records) (\<lambda>rs.
     rbind (reject_if (length rs > max_export_records) ''EXPORT_RECORD_LIMIT_EXCEEDED'') (\<lambda>_.
     rbind (validate_records h rs []) (\<lambda>_. Inr rs)))"

definition export_records_jsonl :: "(string \<Rightarrow> string) \<Rightarrow> json list \<Rightarrow> string res" where
  "export_records_jsonl h records =
     rbind (export_records h records) (\<lambda>rs.
       if rs = [] then Inr []
       else rbind (rmap report_json rs) (\<lambda>lines. within_bytes (utf8 (join [CHR 0x0A] lines @ [CHR 0x0A]))))"

definition import_records_jsonl :: "(string \<Rightarrow> string) \<Rightarrow> (string \<Rightarrow> string) \<Rightarrow> string \<Rightarrow> json list res" where
  "import_records_jsonl h f payload =
     rbind (within_bytes payload) (\<lambda>_.
     rbind (decode_payload ''EXPORT_JSON_INVALID'' payload) (\<lambda>text.
     rbind (rmap (load_json f ''EXPORT_JSON_INVALID'') (filter (\<lambda>l. l \<noteq> []) (split_lines text))) (\<lambda>rs.
     rbind (reject_if (length rs > max_export_records) ''EXPORT_RECORD_LIMIT_EXCEEDED'') (\<lambda>_.
     rbind (validate_records h rs []) (\<lambda>_. Inr rs)))))"

section \<open>CSV\<close>

definition csv_columns :: "string list" where
  "csv_columns = [''report_record_id'', ''organization_id'', ''marketplace_account_id'', ''mode'', ''scenario_id'',
     ''accounting_view'', ''metric_snapshot_id'', ''state'', ''value'', ''currency'', ''unit'', ''evidence_chain_id'',
     ''evidence_chain_version'', ''evidence_chain_content_hash'', ''publication_state'', ''record_hash'', ''record_json'']"

text \<open>\<open>str\<close> of what the projected fields of a valid record hold.\<close>

definition cell_text :: "json \<Rightarrow> string" where
  "cell_text v =
     (case v of JNull \<Rightarrow> [] | JStr s \<Rightarrow> s | JInt i \<Rightarrow> int_text i | JBool b \<Rightarrow> (if b then ''True'' else ''False'') | _ \<Rightarrow> [])"

definition is_blank :: "char \<Rightarrow> bool" where
  "is_blank c \<longleftrightarrow> c = CHR '' '' \<or> c = CHR 0x09 \<or> is_newline c"

definition csv_safe_cell :: "json \<Rightarrow> string" where
  "csv_safe_cell v =
     (let text = cell_text v; candidate = dropWhile is_blank text in
      if candidate \<noteq> [] \<and> List.member [CHR ''='', CHR ''+'', CHR ''-'', CHR ''@''] (hd candidate) \<or>
         text \<noteq> [] \<and> (hd text = CHR 0x09 \<or> is_newline (hd text))
      then CHR 0x27 # text else text)"

definition csv_projection :: "json \<Rightarrow> (string \<times> string) list" where
  "csv_projection r =
     (let ref = jdict (record_field ''evidence_chain_ref'' r); own = map (\<lambda>f. (f, csv_safe_cell (record_field f r))) in
      own (take 11 csv_columns) @
      [(''evidence_chain_id'', csv_safe_cell (dget ref ''id'')), (''evidence_chain_version'', csv_safe_cell (dget ref ''version''))] @
      own [''evidence_chain_content_hash'', ''publication_state'', ''record_hash''])"

definition csv_record_row :: "json \<Rightarrow> string list" where
  "csv_record_row r = map snd (csv_projection r) @ [json_text r]"

definition export_records_csv :: "(string \<Rightarrow> string) \<Rightarrow> json list \<Rightarrow> string res" where
  "export_records_csv h records =
     rbind (export_records h records) (\<lambda>rs.
     rbind (rmap report_json rs) (\<lambda>_.
       within_bytes (utf8 (concat (map csv_line (csv_columns # map csv_record_row rs))))))"

text \<open>One row of \<open>csv.DictReader\<close>; a short row has no \<open>record_json\<close>, and \<open>json.loads(None)\<close> raises.\<close>

definition import_csv_row :: "(string \<Rightarrow> string) \<Rightarrow> (string \<Rightarrow> string) \<Rightarrow> string list \<Rightarrow> json res" where
  "import_csv_row h f row =
     (if length row > length csv_columns then reporting_error ''EXPORT_CSV_INVALID''
      else if length row < length csv_columns then Inl TypeError
      else
        rbind (load_json f ''EXPORT_CSV_INVALID'' (last row)) (\<lambda>r.
        rbind (validate_report_record h r) (\<lambda>_.
        rbind (reject_if (list_ex (\<lambda>(k, cell). map_of (zip csv_columns row) k \<noteq> Some cell) (csv_projection r))
          ''EXPORT_CSV_PROJECTION_MISMATCH'') (\<lambda>_. Inr r))))"

definition import_records_csv :: "(string \<Rightarrow> string) \<Rightarrow> (string \<Rightarrow> string) \<Rightarrow> string \<Rightarrow> json list res" where
  "import_records_csv h f payload =
     rbind (within_bytes payload) (\<lambda>_.
     rbind (decode_payload ''EXPORT_CSV_INVALID'' payload) (\<lambda>text.
     case csv_rows text of
       ([], True) \<Rightarrow> Inl CsvError
     | ([], False) \<Rightarrow> reporting_error ''EXPORT_CSV_HEADER_INVALID''
     | (header # rows, bad) \<Rightarrow>
         rbind (reject_if (header \<noteq> csv_columns) ''EXPORT_CSV_HEADER_INVALID'') (\<lambda>_.
         rbind (rmap (import_csv_row h f) (filter (\<lambda>row. row \<noteq> []) rows)) (\<lambda>rs.
         rbind (checks
           [reject_if bad ''EXPORT_CSV_INVALID'',
            reject_if (length rs > max_export_records) ''EXPORT_RECORD_LIMIT_EXCEEDED'',
            validate_records h rs []]) (\<lambda>_. Inr rs)))))"

section \<open>Pages\<close>

definition max_page_size :: int where
  "max_page_size = 100"

definition records_digest :: "(string \<Rightarrow> string) \<Rightarrow> json list \<Rightarrow> string res" where
  "records_digest h rs = map_sum id h (report_json (JList rs))"

definition encode_cursor :: "nat \<Rightarrow> string \<Rightarrow> string" where
  "encode_cursor offset digest =
     strip_padding (b64_encode (utf8 (json_text (JObj [(''offset'', JInt (int offset)), (''digest'', JStr digest)]))))"

definition cursor_offset :: "string \<Rightarrow> json \<Rightarrow> nat res" where
  "cursor_offset digest data =
     (let d = jdict data; offset = dget d ''offset'' in
      if is_mapping data \<and> keys_are d [''offset'', ''digest''] \<and> is_non_negative_int offset \<and> dget d ''digest'' = JStr digest
      then Inr (nat (jint offset)) else reporting_error ''REPORT_CURSOR_INVALID'')"

definition decode_cursor :: "(string \<Rightarrow> string) \<Rightarrow> string \<Rightarrow> string \<Rightarrow> nat res" where
  "decode_cursor f cursor digest =
     (let invalid = reporting_error ''REPORT_CURSOR_INVALID'' in
      if cursor = [] \<or> list_ex (\<lambda>c. ch c \<ge> 128) cursor then invalid
      else case b64_scan 0 0 0 (repad cursor) of
        None \<Rightarrow> invalid
      | Some raw \<Rightarrow>
          rbind (decode_payload ''REPORT_CURSOR_INVALID'' raw) (\<lambda>text.
          case json_loads f text of
            Inr data \<Rightarrow> cursor_offset digest data
          | Inl e \<Rightarrow> if e = Malformed \<or> e = TooManyDigits then invalid else Inl OutsideModel))"

record report_page =
  page_records_of :: "json list"
  next_cursor :: "string option"
  total_records :: nat

definition page_records ::
  "(string \<Rightarrow> string) \<Rightarrow> (string \<Rightarrow> string) \<Rightarrow> json list \<Rightarrow> int \<Rightarrow> string option \<Rightarrow> report_page res" where
  "page_records h f records limit cursor =
     rbind (reject_if (limit < 1 \<or> limit > max_page_size) ''REPORT_PAGE_LIMIT_INVALID'') (\<lambda>_.
     rbind (rmap report_clone records) (\<lambda>rs.
     rbind (validate_records h rs []) (\<lambda>_.
     rbind (records_digest h rs) (\<lambda>digest.
     rbind (case cursor of None \<Rightarrow> Inr 0 | Some c \<Rightarrow> decode_cursor f c digest) (\<lambda>offset.
       if offset > length rs then reporting_error ''REPORT_CURSOR_INVALID''
       else
         let page = take (nat limit) (drop offset rs); next_offset = offset + length page in
         Inr \<lparr>page_records_of = page,
           next_cursor = (if next_offset < length rs then Some (encode_cursor next_offset digest) else None),
           total_records = length rs\<rparr>)))))"

end
