(* ===== verification/JsonRoundTrip.thy ===== *)
theory JsonRoundTrip imports PyLoads begin

text \<open>
  Reading back what \<open>json.dumps\<close> writes: \<open>json_loads f (json_text v) = Inr (json_sort v)\<close> for
  every document without floats that the writer accepts.
\<close>

section \<open>Strings\<close>

lemma hex_digit_facts:
  assumes "d < 16"
  shows "is_hex_any (hex_digit d)" "hex_value (hex_digit d) = d"
proof -
  have "\<forall>d \<in> set [0..<16]. is_hex_any (hex_digit d) \<and> hex_value (hex_digit d) = d" by code_simp
  with assms show "is_hex_any (hex_digit d)" "hex_value (hex_digit d) = d" by simp_all
qed

lemma char_of_ch [simp]: "char_of (ch c) = c"
  by (simp add: ch_def)

lemma read_escape_unicode:
  assumes "ch c < 32"
  shows "read_escape (''u00'' @ [hex_digit (ch c div 16), hex_digit (ch c mod 16)] @ r) = Inr (c, r)"
proof -
  have d: "ch c div 16 < 16" "ch c mod 16 < 16" using assms by simp_all
  have z: "is_hex_any CHR ''0''" "hex_value CHR ''0'' = 0" by code_simp+
  have v: "16 * (ch c div 16) + ch c mod 16 = ch c" by simp
  show ?thesis using assms z
    by (simp add: read_escape_def Let_def hex_digit_facts [OF d(1)] hex_digit_facts [OF d(2)] v)
qed

lemma ch_literals:
  "ch c = 34 \<longleftrightarrow> c = CHR 0x22" "ch c = 92 \<longleftrightarrow> c = CHR 0x5C" "ch c = 10 \<longleftrightarrow> c = CHR 0x0A" "ch c = 13 \<longleftrightarrow> c = CHR 0x0D"
  "ch c = 9 \<longleftrightarrow> c = CHR 0x09" "ch c = 12 \<longleftrightarrow> c = CHR 0x0C" "ch c = 8 \<longleftrightarrow> c = CHR 0x08" "ch c = 123 \<longleftrightarrow> c = CHR 0x7B"
  "ch c = 125 \<longleftrightarrow> c = CHR 0x7D" "ch c = 32 \<longleftrightarrow> c = CHR 0x20"
  by (simp_all add: ch_eq [symmetric]) (simp_all add: ch_def)

lemma read_string_escaped:
  "read_string (escape_char c @ s) = rbind (read_string s) (\<lambda>(t, rest). Inr (c # t, rest))"
proof -
  consider (q) "ch c = 34" | (bs) "ch c = 92" | (n) "ch c = 10" | (r) "ch c = 13" | (t) "ch c = 9" | (f) "ch c = 12" | (b) "ch c = 8"
    | (u) "ch c < 32" "ch c \<noteq> 34" "ch c \<noteq> 92" "ch c \<noteq> 10" "ch c \<noteq> 13" "ch c \<noteq> 9" "ch c \<noteq> 12" "ch c \<noteq> 8"
    | (plain) "ch c \<ge> 32" "ch c \<noteq> 34" "ch c \<noteq> 92"
    by linarith
  then show ?thesis
  proof cases
    case u
    have "escape_char c @ s = CHR 0x5C # ''u00'' @ [hex_digit (ch c div 16), hex_digit (ch c mod 16)] @ s"
      using u by (simp add: escape_char_def)
    moreover have "ch CHR 0x5C \<noteq> 34" "ch CHR 0x5C = 92" by (simp_all add: ch_def)
    ultimately show ?thesis using read_escape_unicode [OF u(1), of s] by (simp only: read_string.simps append.simps refl if_False if_True rbind.simps prod.case)
  qed (simp_all add: escape_char_def ch_literals read_escape_def simple_escape_def, simp_all add: ch_def)
qed

lemma read_string_written: "read_string (concat (map escape_char s) @ CHR 0x22 # rest) = Inr (s, rest)"
  by (induction s) (simp_all add: read_string_escaped, simp add: ch_def)

section \<open>Numbers\<close>

text \<open>What may follow a value inside a written document.\<close>

definition closes :: "string \<Rightarrow> bool" where
  "closes s \<longleftrightarrow> s = [] \<or> hd s = CHR '','' \<or> hd s = CHR '']'' \<or> hd s = CHR 0x7D"

lemma closes_simps [simp]: "closes []" "closes (CHR '','' # s)" "closes (CHR '']'' # s)" "closes (CHR 0x7D # s)"
  by (simp_all add: closes_def)

lemma closes_no_digits:
  assumes "closes s"
  shows "takeWhile is_digit s = []" "dropWhile is_digit s = s" "read_fraction s = ([], s)" "read_json_exponent s = ([], s)"
proof -
  have "s = [] \<or> (\<exists>c r. s = c # r \<and> (c = CHR '','' \<or> c = CHR '']'' \<or> c = CHR 0x7D))"
    using assms by (cases s) (auto simp: closes_def)
  then show "takeWhile is_digit s = []" "dropWhile is_digit s = s" "read_fraction s = ([], s)" "read_json_exponent s = ([], s)"
    by (auto simp: is_digit_def ch_def read_fraction_def read_json_exponent_def split: list.split)
qed

lemma nat_text_digit_run:
  assumes "closes rest" and "b = nat_text n @ rest"
  shows "(if b \<noteq> [] \<and> hd b = CHR ''0'' then ''0'' else takeWhile is_digit b) = nat_text n"
proof (cases "n = 0")
  case True
  have "nat_text 0 = ''0''" by code_simp
  then have "nat_text n = ''0''" using True by simp
  with assms show ?thesis by simp
next
  case False
  then have "hd (nat_text n) \<noteq> CHR ''0''" by (simp add: hd_nat_text)
  moreover have "takeWhile is_digit (nat_text n @ rest) = nat_text n"
    using nat_text_digits [of n] closes_no_digits(1) [OF assms(1)]
    by (simp add: takeWhile_append2 list_all_iff)
  ultimately show ?thesis using assms(2) by simp
qed

lemma digit_hd:
  assumes "list_all is_digit s" and "s \<noteq> []"
  shows "hd s \<noteq> CHR ''-''" "hd s \<noteq> CHR ''n''" "hd s \<noteq> CHR ''t''" "hd s \<noteq> CHR ''f''" "hd s \<noteq> CHR ''N''" "hd s \<noteq> CHR ''I''"
    "hd s \<noteq> CHR ''[''" "hd s \<noteq> CHR 0x7B" "hd s \<noteq> CHR 0x22" "\<not> is_ws (hd s)"
  using assms by (cases s, auto simp: is_digit_def ch_def is_ws_def)+

lemma read_number_written:
  assumes "closes rest" and "length (nat_text (nat \<bar>i\<bar>)) \<le> max_str_digits"
  shows "read_json_number f (int_text i @ rest) = Inr (JInt i, rest)"
proof -
  define m where "m = nat_text (nat \<bar>i\<bar>)"
  define neg where "neg \<longleftrightarrow> i < 0"
  have txt_eq: "int_text i @ rest = (if neg then ''-'' else []) @ m @ rest"
    by (auto simp: int_text_def m_def neg_def)
  have digits: "list_all is_digit m" "m \<noteq> []" by (simp_all add: m_def nat_text_digits)
  have body: "strip_minus (int_text i @ rest) = m @ rest"
    using digits(1) digit_hd(1) [OF digits] digits(2) unfolding txt_eq by (cases m) auto
  have sign: "hd (int_text i @ rest) = CHR ''-'' \<longleftrightarrow> neg" "int_text i @ rest \<noteq> []"
    using digit_hd(1) [OF digits] digits(2) unfolding txt_eq by auto
  have ds: "(if m @ rest \<noteq> [] \<and> hd (m @ rest) = CHR ''0'' then ''0'' else takeWhile is_digit (m @ rest)) = m"
    unfolding m_def by (rule nat_text_digit_run [OF assms(1) refl])
  have val: "(if neg then -1 else 1) * int (digits_value m) = i" by (auto simp: m_def neg_def)
  show ?thesis unfolding read_json_number_def Let_def body ds
    using digits(2) assms(2) val sign by (auto simp: closes_no_digits [OF assms(1)] m_def [symmetric])
qed

section \<open>Documents\<close>

text \<open>No float anywhere in the document.\<close>

primrec float_free :: "json \<Rightarrow> bool" where
  "float_free JNull = True"
| "float_free (JBool b) = True"
| "float_free (JInt i) = True"
| "float_free (JFloat r) = False"
| "float_free (JStr s) = True"
| "float_free (JList xs) = list_all id (map float_free xs)"
| "float_free (JObj d) = list_all snd (map (map_prod id float_free) d)"

lemma json_text_head:
  assumes "float_free v"
  shows "json_text v \<noteq> []" "\<not> is_ws (hd (json_text v))" "hd (json_text v) \<noteq> CHR '']''"
proof -
  have i: "int_text i \<noteq> [] \<and> \<not> is_ws (hd (int_text i)) \<and> hd (int_text i) \<noteq> CHR '']''" for i
    using digit_hd [OF nat_text_digits nat_text_nonempty] nat_text_digits [of "nat i"]
    by (cases "nat_text (nat i)") (auto simp: int_text_def is_ws_def ch_def is_digit_def)
  show "json_text v \<noteq> []" "\<not> is_ws (hd (json_text v))" "hd (json_text v) \<noteq> CHR '']''"
    using assms i by (cases v; auto simp: quote_def is_ws_def ch_def)+
qed

lemma skip_ws_text [simp]: "float_free v \<Longrightarrow> skip_ws (json_text v @ r) = json_text v @ r"
  using json_text_head [of v] by (cases "json_text v") (auto simp: skip_ws_def)

lemma skip_ws_closes [simp]: "closes s \<Longrightarrow> skip_ws s = s"
  by (cases s) (auto simp: closes_def skip_ws_def is_ws_def ch_def)

lemma skip_ws_quote [simp]: "skip_ws (CHR 0x22 # s) = CHR 0x22 # s" "skip_ws (CHR '':'' # s) = CHR '':'' # s"
  by (simp_all add: skip_ws_def is_ws_def ch_def)

lemma read_items_written:
  assumes "\<And>v r n. v \<in> set vs \<Longrightarrow> closes r \<Longrightarrow> 2 * length (json_text v @ r) < n \<Longrightarrow>
      read_value f n (json_text v @ r) = Inr (json_sort v, r)"
    and "list_all float_free vs" and "vs \<noteq> []"
    and "2 * length (join '','' (map json_text vs) @ CHR '']'' # rest) + 1 < n"
  shows "read_items f n (join '','' (map json_text vs) @ CHR '']'' # rest) = Inr (map json_sort vs, rest)"
  using assms
proof (induction vs arbitrary: n)
  case (Cons v vs)
  obtain m where n: "n = Suc m" using Cons.prems(4) by (cases n) auto
  show ?case
  proof (cases vs)
    case Nil
    have "read_value f m (json_text v @ CHR '']'' # rest) = Inr (json_sort v, CHR '']'' # rest)"
      using Cons.prems(4) Nil n by (intro Cons.prems(1)) auto
    then show ?thesis by (simp add: Nil n)
  next
    case (Cons w ws)
    have ih: "read_items f m (join '','' (map json_text vs) @ CHR '']'' # rest) = Inr (map json_sort vs, rest)"
      using Cons.prems Cons n by (intro Cons.IH) auto
    define tl where "tl = join '','' (map json_text vs) @ CHR '']'' # rest"
    have txt_eq: "join '','' (map json_text (v # vs)) @ CHR '']'' # rest = json_text v @ CHR '','' # tl"
      by (simp add: tl_def Cons)
    have "read_value f m (json_text v @ CHR '','' # tl) = Inr (json_sort v, CHR '','' # tl)"
      using Cons.prems(4) n unfolding txt_eq by (intro Cons.prems(1)) auto
    moreover have "skip_ws tl = tl"
      using Cons.prems(2) skip_ws_text [of w] Cons by (cases ws) (auto simp: tl_def)
    ultimately show ?thesis using ih unfolding txt_eq n by (simp add: tl_def [symmetric])
  qed
qed simp

abbreviation member_text :: "string \<times> json \<Rightarrow> string" where
  "member_text \<equiv> \<lambda>(k, v). quote k @ CHR '':'' # json_text v"

lemma dput_new: "k \<notin> set (map fst d) \<Longrightarrow> dput k v d = d @ [(k, v)]"
  by (induction d) auto

lemma read_string_key: "read_string (concat (map escape_char k) @ CHR 0x22 # CHR '':'' # r) = Inr (k, CHR '':'' # r)"
  by (rule read_string_written)

lemma read_members_written:
  assumes "\<And>k v r n. (k, v) \<in> set e \<Longrightarrow> closes r \<Longrightarrow> 2 * length (json_text v @ r) < n \<Longrightarrow>
      read_value f n (json_text v @ r) = Inr (json_sort v, r)"
    and "list_all (\<lambda>p. float_free (snd p)) e" and "e \<noteq> []" and "distinct (map fst (a @ e))"
    and "2 * length (join '','' (map member_text e) @ CHR 0x7D # rest) + 1 < n"
  shows "read_members f n a (join '','' (map member_text e) @ CHR 0x7D # rest) =
    Inr (a @ map (map_prod id json_sort) e, rest)"
  using assms
proof (induction e arbitrary: n a)
  case (Cons p e)
  obtain k v where p: "p = (k, v)" by fastforce
  obtain m where n: "n = Suc m" using Cons.prems(5) by (cases n) auto
  have ch: "ch CHR 0x22 = 34" "ch CHR 0x7D = 125" "ch CHR '','' \<noteq> 125" by (simp_all add: ch_def)
  have new: "dput k w a = a @ [(k, w)]" for w using Cons.prems(4) by (intro dput_new) (auto simp: p)
  have ff: "float_free v" using Cons.prems(2) p by auto
  show ?case
  proof (cases e)
    case Nil
    have "read_value f m (json_text v @ CHR 0x7D # rest) = Inr (json_sort v, CHR 0x7D # rest)"
      using Cons.prems(5) Nil n p by (intro Cons.prems(1)) (auto simp: quote_def)
    then show ?thesis using ff by (simp add: Nil n p quote_def ch read_string_key new)
  next
    case (Cons q es)
    define tl where "tl = join '','' (map member_text e) @ CHR 0x7D # rest"
    have txt_eq: "join '','' (map member_text (p # e)) @ CHR 0x7D # rest = quote k @ CHR '':'' # json_text v @ CHR '','' # tl"
      by (simp add: tl_def Cons p)
    have ih: "read_members f m (a @ [(k, json_sort v)]) tl = Inr ((a @ [(k, json_sort v)]) @ map (map_prod id json_sort) e, rest)"
      unfolding tl_def using Cons.prems(2,4,5) Cons n p by (intro Cons.IH Cons.prems(1)) (auto simp: quote_def)
    have val: "read_value f m (json_text v @ CHR '','' # tl) = Inr (json_sort v, CHR '','' # tl)"
      using Cons.prems(5) n p unfolding txt_eq by (intro Cons.prems(1)) (auto simp: quote_def)
    have "\<exists>r. tl = CHR 0x22 # r" using Cons by (cases q; cases es) (auto simp: tl_def quote_def)
    then have "skip_ws tl = tl" by auto
    then show ?thesis using ih val ff unfolding txt_eq n by (simp add: quote_def ch read_string_key new p id_def)
  qed
qed simp

lemma read_constant_absent:
  assumes "hd s \<noteq> CHR ''n''" "hd s \<noteq> CHR ''t''" "hd s \<noteq> CHR ''f''" "hd s \<noteq> CHR ''N''" "hd s \<noteq> CHR ''I''" "hd s = CHR ''-'' \<longrightarrow> hd (tl s) \<noteq> CHR ''I''" "s \<noteq> []" "tl s = [] \<longrightarrow> hd s \<noteq> CHR ''-''"
  shows "read_constant json_constants s = None"
  using assms by (cases s; cases "tl s") (auto simp: json_constants_def)

lemma read_int_written:
  assumes "closes rest" and "json_ok (JInt i)" and "0 < n"
  shows "read_value f n (int_text i @ rest) = Inr (JInt i, rest)"
proof -
  obtain m where n: "n = Suc m" using assms(3) by (cases n) auto
  have digits: "list_all is_digit (nat_text k)" "nat_text k \<noteq> []" for k by (simp_all add: nat_text_digits)
  have none: "read_constant json_constants (int_text i @ rest) = None"
    using digit_hd [OF digits, of "nat i"] digit_hd [OF digits, of "nat (- i)"] digits(2)
    by (intro read_constant_absent) (auto simp: int_text_def)
  obtain c r where c: "int_text i @ rest = c # r" "c = CHR ''-'' \<or> is_digit c"
    using digits [of "nat i"] by (cases "i < 0"; cases "nat_text (nat i)") (auto simp: int_text_def)
  then have "ch c \<noteq> 34" "c \<noteq> CHR ''[''" "ch c \<noteq> 123" by (auto simp: ch_def is_digit_def)
  then show ?thesis using none read_number_written [OF assms(1), of i f] assms(2)
    unfolding n read_value.simps(2) unfolding c(1) by simp
qed

lemma read_value_written:
  assumes "float_free v" and "json_ok v" and "json_wf v" and "closes rest" and "2 * length (json_text v @ rest) < n"
  shows "read_value f n (json_text v @ rest) = Inr (json_sort v, rest)"
  using assms
proof (induction v arbitrary: rest n)
  case (JStr s)
  then obtain m where "n = Suc m" by (cases n) auto
  then show ?case by (simp add: quote_def read_string_written) (simp add: ch_def)
next
  case (JInt i)
  then show ?case by (simp add: read_int_written)
next
  case (JList xs)
  then obtain m where n: "n = Suc m" by (cases n) auto
  show ?case
  proof (cases xs)
    case Nil
    then show ?thesis by (simp add: n) (simp add: ch_def skip_ws_def is_ws_def)
  next
    case (Cons x ys)
    have all: "float_free w \<and> json_ok w \<and> json_wf w" if "w \<in> set xs" for w
      using JList.prems that by (auto simp: list_all_iff)
    have items: "read_items f m (join '','' (map json_text xs) @ CHR '']'' # rest) = Inr (map json_sort xs, rest)"
      using JList all n Cons by (intro read_items_written) (auto simp: list_all_iff)
    have "\<exists>c r. join '','' (map json_text xs) @ CHR '']'' # rest = c # r \<and> c \<noteq> CHR '']'' \<and> \<not> is_ws c"
      using json_text_head [of x] all [of x] Cons by (cases "json_text x"; cases ys) auto
    then obtain c r where c: "join '','' (map json_text xs) @ CHR '']'' # rest = c # r" "c \<noteq> CHR '']''" "\<not> is_ws c" by blast
    show ?thesis using items c by (simp add: n skip_ws_def) (simp add: ch_def)
  qed
next
  case (JObj d)
  then obtain m where n: "n = Suc m" by (cases n) auto
  define e where "e = sort_key fst d"
  have written: "json_text (JObj d) = CHR 0x7B # join '','' (map member_text e) @ [CHR 0x7D]"
    unfolding json_text.simps e_def map_sort_key_fst [symmetric] map_map
    by (simp add: comp_def case_prod_unfold)
  have srt: "json_sort (JObj d) = JObj (map (map_prod id json_sort) e)"
    by (simp add: e_def map_sort_key_fst)
  show ?case
  proof (cases "e = []")
    case True
    then show ?thesis unfolding written srt by (simp add: n) (simp add: ch_def skip_ws_def is_ws_def)
  next
    case False
    have all: "float_free w \<and> json_ok w \<and> json_wf w" if "(k, w) \<in> set e" for k w
      using JObj.prems that by (force simp: list_all_iff e_def)
    have len: "2 * length (join '','' (map member_text e) @ CHR 0x7D # rest) + 1 < m"
      using JObj.prems(5) unfolding written n by simp
    have each: "read_value f n (json_text v @ r) = Inr (json_sort v, r)"
      if "(k, v) \<in> set e" "closes r" "2 * length (json_text v @ r) < n" for k v r n
      using all [OF that(1)] that by (intro JObj.IH [of "(k, v)"]) (auto simp: e_def snds.simps)
    have dist: "distinct (map fst ([] @ e))" using JObj.prems(3) by (simp add: e_def distinct_map)
    have items: "read_members f m [] (join '','' (map member_text e) @ CHR 0x7D # rest) = Inr ([] @ map (map_prod id json_sort) e, rest)"
      by (rule read_members_written [OF each _ False dist len]) (use all in \<open>auto simp: list_all_iff\<close>)
    obtain p es where p: "e = p # es" using False by (cases e) auto
    have "\<exists>r. join '','' (map member_text e) @ CHR 0x7D # rest = CHR 0x22 # r"
      by (cases es; cases p) (auto simp: p quote_def)
    then obtain r where r: "join '','' (map member_text e) @ CHR 0x7D # rest = CHR 0x22 # r" by blast
    show ?thesis using items r unfolding written srt by (simp add: n) (simp add: ch_def)
  qed
next
  case JNull
  then obtain m where "n = Suc m" by (cases n) auto
  then show ?case by (simp add: json_constants_def) (simp add: ch_def)
next
  case (JBool b)
  then obtain m where "n = Suc m" by (cases n) auto
  then show ?case by (cases b) (simp_all add: json_constants_def, simp_all add: ch_def)
qed simp

theorem json_loads_written:
  assumes "float_free v" and "json_ok v" and "json_wf v"
  shows "json_loads f (json_text v) = Inr (json_sort v)"
  using read_value_written [OF assms closes_simps(1), of "Suc (2 * length (json_text v))" f]
    skip_ws_text [OF assms(1), of "[]"]
  by (simp add: json_loads_def del: read_value.simps)

end
