(* ===== verification/JsonSizes.thy ===== *)
theory JsonSizes imports JsonRoundTrip PyBytes begin

text \<open>Bounds on what the writers of JSON, UTF-8 and CSV print, and the characters of a printed document.\<close>

text \<open>Room that the text of a document surely fits in, and the characters of its strings.\<close>

primrec json_room :: "json \<Rightarrow> nat" where
  "json_room JNull = 4"
| "json_room (JBool b) = 5"
| "json_room (JInt i) = length (int_text i)"
| "json_room (JFloat r) = length r"
| "json_room (JStr s) = 6 * length s + 2"
| "json_room (JList xs) = 2 + sum_list (map Suc (map json_room xs))"
| "json_room (JObj d) = 2 + sum_list (map (\<lambda>(k, n). 6 * length k + 4 + n) (map (map_prod id json_room) d))"

lemma length_escape: "length (escape_char c) \<le> 6"
  by (simp add: escape_char_def)

lemma length_quote: "length (quote s) \<le> 6 * length s + 2"
proof -
  have "length (concat (map escape_char s)) \<le> 6 * length s"
    by (induction s) (use length_escape in \<open>auto intro: add_mono\<close>)
  then show ?thesis by (simp add: quote_def)
qed

lemma length_join: "length (join [c] ts) \<le> sum_list (map (\<lambda>t. Suc (length t)) ts)"
  by (induction "[c]" ts rule: join.induct) auto

lemma sum_list_le: "(\<And>x. x \<in> set xs \<Longrightarrow> f x \<le> g x) \<Longrightarrow> sum_list (map f xs) \<le> sum_list (map (g :: 'a \<Rightarrow> nat) xs)"
  by (induction xs) (auto intro: add_mono)

lemma sum_sort_key: "sum_list (map f (sort_key k xs)) = sum_list (map (f :: 'a \<Rightarrow> nat) xs)"
  by (metis mset_sort mset_map sum_mset_sum_list)

lemma length_json_text: "length (json_text v) \<le> json_room v"
proof (induction v)
  case (JStr s)
  show ?case using length_quote by simp
next
  case (JList xs)
  have "length (join '','' (map json_text xs)) \<le> sum_list (map (\<lambda>x. Suc (length (json_text x))) xs)"
    using length_join [of "CHR '',''" "map json_text xs"] by (simp add: comp_def)
  also have "\<dots> \<le> sum_list (map (\<lambda>x. Suc (json_room x)) xs)" using JList by (intro sum_list_le) auto
  finally show ?case by (simp add: comp_def)
next
  case (JObj d)
  let ?ms = "sort_key fst (map (map_prod id json_text) d)"
  have "length (join '','' (map (\<lambda>(k, t). quote k @ '':'' @ t) ?ms)) \<le> sum_list (map (\<lambda>(k, t). Suc (length (quote k @ '':'' @ t))) ?ms)"
    using length_join [of "CHR '',''" "map (\<lambda>(k, t). quote k @ '':'' @ t) ?ms"] by (simp add: comp_def case_prod_unfold)
  also have "\<dots> = sum_list (map (\<lambda>(k, v). Suc (length (quote k @ '':'' @ json_text v))) d)"
    unfolding sum_sort_key by (simp add: comp_def case_prod_unfold)
  also have "\<dots> \<le> sum_list (map (\<lambda>(k, v). 6 * length k + 4 + json_room v) d)"
  proof (rule sum_list_le)
    fix p assume p: "p \<in> set d"
    obtain k v where kv: "p = (k, v)" by fastforce
    have "length (json_text v) \<le> json_room v" using JObj [OF p [unfolded kv], of v] by (simp add: snds.simps)
    then show "(case p of (k, v) \<Rightarrow> Suc (length (quote k @ '':'' @ json_text v))) \<le> (case p of (k, v) \<Rightarrow> 6 * length k + 4 + json_room v)"
      using length_quote [of k] by (simp add: kv)
  qed
  finally show ?case by (simp add: comp_def case_prod_unfold)
qed simp_all

lemma length_utf8: "length (utf8 s) \<le> 2 * length s"
  by (induction s) (auto simp: utf8_def)

lemma length_csv_cell: "length (csv_cell s) \<le> 2 * length s + 2"
proof -
  have "length (csv_quoted s) \<le> 2 * length s" by (induction s) (auto simp: csv_quoted_def)
  then show ?thesis by (simp add: csv_cell_def)
qed

lemma length_csv_line: "length (csv_line row) \<le> sum_list (map (\<lambda>s. 2 * length s + 3) row) + 2"
proof -
  have "length (join '','' (map csv_cell row)) \<le> sum_list (map (\<lambda>s. Suc (length (csv_cell s))) row)"
    using length_join [of "CHR '',''" "map csv_cell row"] by (simp add: comp_def)
  also have "\<dots> \<le> sum_list (map (\<lambda>s. 2 * length s + 3) row)"
    using length_csv_cell by (intro sum_list_le) (simp add: le_Suc_eq)
  finally show ?thesis by (simp add: csv_line_def)
qed

lemma set_join: "c \<in> set (join sep ts) \<Longrightarrow> c \<in> set sep \<or> (\<exists>t \<in> set ts. c \<in> set t)"
  by (induction sep ts rule: join.induct) auto

lemma printable_escape: "c \<in> set (escape_char d) \<Longrightarrow> 32 \<le> ch c"
proof -
  have hex: "32 \<le> ch (hex_digit n)" if "n < 16" for n
  proof -
    have "\<forall>n \<in> set [0..<16]. 32 \<le> ch (hex_digit n)" by code_simp
    with that show ?thesis by simp
  qed
  assume c: "c \<in> set (escape_char d)"
  have "32 \<le> ch CHR 0x5C \<and> 32 \<le> ch CHR ''u'' \<and> 32 \<le> ch CHR ''0'' \<and> 32 \<le> ch CHR ''n'' \<and> 32 \<le> ch CHR ''r'' \<and>
      32 \<le> ch CHR ''t'' \<and> 32 \<le> ch CHR ''f'' \<and> 32 \<le> ch CHR ''b'' \<and> 32 \<le> ch CHR 0x22"
    by code_simp
  then show ?thesis using c hex [of "ch d div 16"] hex [of "ch d mod 16"]
    by (auto simp: escape_char_def split: if_splits)
qed

lemma printable_quote: "c \<in> set (quote s) \<Longrightarrow> 32 \<le> ch c"
  by (auto simp: quote_def printable_escape) (simp_all add: ch_def)

lemma printable_digits: "c \<in> set (nat_text n) \<Longrightarrow> 32 \<le> ch c"
  using nat_text_digits [of n] by (auto simp: list_all_iff is_digit_def)

lemma printable_text: "float_free v \<Longrightarrow> c \<in> set (json_text v) \<Longrightarrow> 32 \<le> ch c"
proof (induction v)
  case (JList xs)
  have "32 \<le> ch CHR ''['' \<and> 32 \<le> ch CHR '']'' \<and> 32 \<le> ch CHR '',''" by code_simp
  then show ?case using JList by (auto simp: list_all_iff dest!: set_join)
next
  case (JObj d)
  have "32 \<le> ch CHR 0x7B \<and> 32 \<le> ch CHR 0x7D \<and> 32 \<le> ch CHR '','' \<and> 32 \<le> ch CHR '':''" by code_simp
  moreover have "32 \<le> ch c" if "(k, v) \<in> set d" "c \<in> set (json_text v)" for k v
    using that JObj.IH [of "(k, v)" v] JObj.prems(1) by (auto simp: list_all_iff snds.simps)
  ultimately show ?case using JObj.prems(2) by (auto simp: printable_quote dest!: set_join)
qed (auto simp: int_text_def printable_digits printable_quote split: if_splits, simp_all add: ch_def)

primrec json_chars :: "json \<Rightarrow> string" where
  "json_chars JNull = []"
| "json_chars (JBool b) = []"
| "json_chars (JInt i) = []"
| "json_chars (JFloat r) = r"
| "json_chars (JStr s) = s"
| "json_chars (JList xs) = concat (map json_chars xs)"
| "json_chars (JObj d) = concat (map (\<lambda>(k, s). k @ s) (map (map_prod id json_chars) d))"

lemma ascii_hex_digit: "n < 16 \<Longrightarrow> ch (hex_digit n) < 128"
  using hex_digit_facts(1) [of n] by (auto simp: is_hex_any_def is_hex_def is_digit_def)

lemma escape_chars: "c \<in> set (escape_char d) \<Longrightarrow> ch c < 128 \<or> c = d"
proof -
  have "ch CHR 0x5C < 128 \<and> ch CHR ''u'' < 128 \<and> ch CHR ''0'' < 128 \<and> ch CHR ''n'' < 128 \<and> ch CHR ''r'' < 128 \<and>
      ch CHR ''t'' < 128 \<and> ch CHR ''f'' < 128 \<and> ch CHR ''b'' < 128 \<and> ch CHR 0x22 < 128"
    by code_simp
  then show "c \<in> set (escape_char d) \<Longrightarrow> ch c < 128 \<or> c = d"
    using ascii_hex_digit [of "ch d div 16"] ascii_hex_digit [of "ch d mod 16"]
    by (auto simp: escape_char_def split: if_splits)
qed

lemma quote_chars: "c \<in> set (quote s) \<Longrightarrow> ch c < 128 \<or> c \<in> set s"
  by (auto simp: quote_def dest!: escape_chars) (simp_all add: ch_def)

lemma digit_chars: "c \<in> set (nat_text n) \<Longrightarrow> ch c < 128"
  using nat_text_digits [of n] by (auto simp: list_all_iff is_digit_def)

lemma json_text_chars: "c \<in> set (json_text v) \<Longrightarrow> ch c < 128 \<or> c \<in> set (json_chars v)"
proof (induction v)
  case (JList xs)
  have "ch CHR ''['' < 128 \<and> ch CHR '']'' < 128 \<and> ch CHR '','' < 128" by code_simp
  then show ?case using JList by (fastforce dest!: set_join)
next
  case (JObj d)
  have a: "ch CHR 0x7B < 128 \<and> ch CHR 0x7D < 128 \<and> ch CHR '','' < 128 \<and> ch CHR '':'' < 128" by code_simp
  have member: "ch c < 128 \<or> c \<in> set (json_chars (JObj d))" if "(k, w) \<in> set d" "c \<in> set (quote k) \<or> c \<in> set (json_text w)" for k w
    using that quote_chars [of c k] JObj.IH [OF that(1), of w] by (force simp: snds.simps)
  from JObj.prems have "c = CHR 0x7B \<or> c = CHR 0x7D \<or> c = CHR '','' \<or> c = CHR '':'' \<or>
      (\<exists>k w. (k, w) \<in> set d \<and> (c \<in> set (quote k) \<or> c \<in> set (json_text w)))"
    by (auto dest!: set_join)
  then show ?case using a member by (elim disjE exE conjE) (auto simp del: json_chars.simps)
next
  case (JStr s)
  then show ?case using quote_chars by simp
qed (auto simp: int_text_def digit_chars split: if_splits, simp_all add: ch_def)

end
