(* ===== verification/ReportingProperties.thy ===== *)
theory ReportingProperties imports ReportingSoundness JsonSizes begin

text \<open>The properties of the reporting layer; their hypotheses are met in \<open>ReportingExamples\<close>.\<close>

section \<open>Records and their evidence\<close>

definition copied_fields :: "string list" where
  "copied_fields = [''organization_id'', ''marketplace_account_id'', ''mode'', ''scenario_id'', ''accounting_view'',
     ''metric_snapshot_id'', ''snapshot_revision'', ''state'', ''value'', ''value_type'', ''unit'', ''currency'', ''reason_code'']"

lemma unsealed_fields:
  fixes s rid stamp pub ref rounding
  defines "d \<equiv> unsealed_record s rid stamp pub ref rounding"
  shows "f \<in> set copied_fields \<Longrightarrow> dget d f = dget s f" "dget d ''metric_content_hash'' = dget s ''content_hash''"
    "dget d ''evidence_chain_content_hash'' = fst (snd pub)" "dget d ''limitations'' = JList (snd (snd pub))"
    "dget d ''publication_state'' = JStr (fst pub)"
proof -
  obtain state chain_hash limitations where pub: "pub = (state, chain_hash, limitations)" by (cases pub)
  note def = d_def [unfolded unsealed_record_def pub prod.case]
  have "list_all (\<lambda>f. dget d f = dget s f) copied_fields"
    unfolding def copied_fields_def by (simp add: dget_Cons)
  then show "dget d f = dget s f" if "f \<in> set copied_fields" using that by (simp add: list_all_iff)
  show "dget d ''metric_content_hash'' = dget s ''content_hash''" unfolding def by (simp add: dget_Cons)
  show "dget d ''evidence_chain_content_hash'' = fst (snd pub)" unfolding def by (simp add: dget_Cons pub)
  show "dget d ''limitations'' = JList (snd (snd pub))" unfolding def by (simp add: dget_Cons pub)
  show "dget d ''publication_state'' = JStr (fst pub)" unfolding def by (simp add: dget_Cons pub)
qed

lemma build_reportD:
  assumes "build_report_record h sha snapshot rid t chain = Inr r"
  defines "s \<equiv> jdict snapshot" and "d \<equiv> jdict r"
  obtains pub where "publication h sha s chain = Inr pub" "verify_metric_snapshot h snapshot = []"
    "validate_report_record h r = Inr ()" "\<And>f. f \<in> set copied_fields \<Longrightarrow> dget d f = dget s f"
    "dget d ''metric_content_hash'' = dget s ''content_hash''" "dget d ''evidence_chain_content_hash'' = fst (snd pub)"
    "dget d ''limitations'' = JList (snd (snd pub))" "dget d ''publication_state'' = JStr (fst pub)"
proof -
  have verified: "verify_metric_snapshot h snapshot = []"
    using assms(1) by (auto simp: build_report_record_def res_simps Let_def split: list.splits)
  obtain pub ref rounding stamp x where p: "publication h sha s chain = Inr pub"
      "r = JObj (dput ''record_hash'' (JStr x) (unsealed_record s rid stamp pub ref rounding))" "validate_report_record h r = Inr ()"
    using assms(1) unfolding build_report_record_def verified s_def [symmetric] Let_def
    by (auto simp: res_simps)
  have d: "d = dput ''record_hash'' (JStr x) (unsealed_record s rid stamp pub ref rounding)" by (simp add: d_def p(2) jdict_def)
  show ?thesis
  proof (rule that [OF p(1) verified p(3)])
    show "dget d f = dget s f" if "f \<in> set copied_fields" for f
    proof -
      have "f \<noteq> ''record_hash''" using that by (auto simp: copied_fields_def)
      then show ?thesis using unsealed_fields(1) [OF that] by (simp add: d)
    qed
  qed (simp_all add: d unsealed_fields)
qed

lemma py_eq_text: "py_eq v (JStr s) \<Longrightarrow> v = JStr s"
  by (cases v) (simp_all add: py_eq.simps)

text \<open>The chain is accepted, and its root is this snapshot of this organization.\<close>

definition backed_by :: "(string \<Rightarrow> string) \<Rightarrow> (string \<Rightarrow> string) \<Rightarrow> dict \<Rightarrow> json \<Rightarrow> bool" where
  "backed_by h sha d chain \<longleftrightarrow>
     verify_evidence_chain h sha None False chain = [] \<and>
     (let target = jdict (dget (jdict chain) ''root_metric_snapshot_ref'') in
      dget (jdict chain) ''organization_id'' = dget d ''organization_id'' \<and>
      dget target ''id'' = dget d ''metric_snapshot_id'' \<and>
      dget target ''content_hash'' = dget d ''metric_content_hash'' \<and>
      dget d ''evidence_chain_content_hash'' = JStr (jstr (dget (jdict chain) ''content_hash'')))"

text \<open>
  C12: a record is built only from an accepted snapshot and repeats its result field by field; it is
  published as verified exactly when a chain was given that is accepted and rooted in that very
  snapshot, and says otherwise that its evidence is not verified.
\<close>

theorem record_backed_by_evidence:
  assumes "build_report_record h sha snapshot rid t chain = Inr r"
  shows "verify_metric_snapshot h snapshot = [] \<and> validate_report_record h r = Inr () \<and>
    (\<forall>f \<in> set copied_fields. record_field f r = dget (jdict snapshot) f) \<and>
    (case chain of
       None \<Rightarrow> record_field ''publication_state'' r = JStr ''PREVIEW_ONLY'' \<and> JStr unverified \<in> set (jlist (record_field ''limitations'' r))
     | Some c \<Rightarrow> record_field ''publication_state'' r = JStr ''EVIDENCE_VERIFIED'' \<and> backed_by h sha (jdict r) c)"
proof -
  define s where "s = jdict snapshot"
  define d where "d = jdict r"
  obtain pub where b: "publication h sha s chain = Inr pub" "verify_metric_snapshot h snapshot = []"
    "validate_report_record h r = Inr ()" "\<And>f. f \<in> set copied_fields \<Longrightarrow> dget d f = dget s f"
    "dget d ''metric_content_hash'' = dget s ''content_hash''" "dget d ''evidence_chain_content_hash'' = fst (snd pub)"
    "dget d ''limitations'' = JList (snd (snd pub))" "dget d ''publication_state'' = JStr (fst pub)"
    using build_reportD [OF assms] unfolding s_def d_def by metis
  note identity = record_identityD [OF valid_recordD(3) [OF b(3)], folded d_def]
  have same: "dget d ''organization_id'' = dget s ''organization_id''" "dget d ''metric_snapshot_id'' = dget s ''metric_snapshot_id''"
    using b(4) by (simp_all add: copied_fields_def)
  obtain org sid hash where strings: "dget s ''organization_id'' = JStr org" "dget s ''metric_snapshot_id'' = JStr sid"
      "dget s ''content_hash'' = JStr hash"
    using identity(2-4) unfolding same b(5)
    by (auto simp: is_nonempty_string_def is_hash_def split: json.splits)
  have published: "backed_by h sha d c \<and> fst pub = ''EVIDENCE_VERIFIED''" if c: "chain = Some c" for c
  proof -
    have accepted: "verify_evidence_chain h sha None False c = []"
      using b(1) c by (auto simp: publication_def evidence_binding_def Let_def res_simps split: list.splits)
    have bound: "py_eq (dget (jdict c) ''organization_id'') (JStr org)"
        "py_eq (dget (jdict (dget (jdict c) ''root_metric_snapshot_ref'')) ''id'') (JStr sid)"
        "py_eq (dget (jdict (dget (jdict c) ''root_metric_snapshot_ref'')) ''content_hash'') (JStr hash)"
        "pub = (''EVIDENCE_VERIFIED'', JStr (jstr (dget (jdict c) ''content_hash'')),
          filter (\<lambda>x. x \<noteq> JStr unverified) (jlist (dget s ''limitations'')))"
      using b(1) accepted unfolding c publication_def evidence_binding_def Let_def option.case
      by (auto simp: res_simps strings)
    then show ?thesis using accepted b(5,6)
      by (simp add: backed_by_def same strings py_eq_text)
  qed
  have preview: "fst pub = ''PREVIEW_ONLY'' \<and> JStr unverified \<in> set (snd (snd pub))" if "chain = None"
    using b(1) that by (auto simp: publication_def Let_def split: if_splits)
  show ?thesis
    using b published preview unfolding record_field_def d_def [symmetric] s_def [symmetric]
    by (cases chain) (auto simp: jlist_def)
qed

section \<open>Bundles\<close>

text \<open>An exported bundle reads back as itself, keys sorted.\<close>

theorem bundle_round_trip:
  assumes "json_wf b" and "export_bundle_json h b = Inr payload"
  shows "import_bundle_json h f payload = Inr (json_sort b)"
  using assms by (rule bundle_reads_back)

text \<open>
  C13: whatever bytes are imported, a bundle that comes out is sealed, counts its records, and holds
  valid records with different identifiers that share its organization, mode and scenario.
\<close>

theorem imported_bundle_consistent:
  assumes "import_bundle_json h f payload = Inr b"
  shows "\<exists>d rs. b = JObj d \<and> dget d ''records'' = JList rs \<and> rs \<noteq> [] \<and> length rs \<le> max_export_records \<and>
    dget d ''record_count'' = JInt (int (length rs)) \<and> distinct (map record_id_of rs) \<and>
    dget d ''bundle_hash'' = JStr (h (json_text (JObj (filter (\<lambda>p. fst p \<noteq> ''bundle_hash'') d)))) \<and>
    (\<forall>r \<in> set rs. validate_report_record h r = Inr () \<and>
      (\<forall>k \<in> {''organization_id'', ''mode'', ''scenario_id''}. record_field k r = dget d k))"
proof -
  have "validate_export_bundle h b = Inr ()" using assms by (auto simp: import_bundle_json_def res_simps)
  note valid = valid_bundleD [OF this]
  obtain rs where rs: "dget (jdict b) ''records'' = JList rs" using valid(14) by blast
  then have list_of: "jlist (dget (jdict b) ''records'') = rs" by (simp add: jlist_def)
  note valid' = valid(8-13) [unfolded list_of]
  obtain x where x: "dget (jdict b) ''bundle_hash'' = JStr x"
    using bundle_sealD(1) [OF valid(11)] by (auto simp: is_hash_def split: json.splits)
  have "x = h (json_text (JObj (filter (\<lambda>p. fst p \<noteq> ''bundle_hash'') (jdict b))))"
    using report_hash_InrD [OF bundle_sealD(2) [OF valid(11)]] by (simp add: x jstr_def)
  moreover have "record_field k r = dget (jdict b) k" if "r \<in> set rs" "k \<in> {''organization_id'', ''mode'', ''scenario_id''}" for k r
    using valid'(6) [OF that(1)] that(2) by (auto simp: bundle_member_check_def res_simps)
  ultimately show ?thesis
    using valid(1) rs valid'(1-5) x
    by (intro exI [of _ "jdict b"] exI [of _ rs]) (auto simp: validate_records_Inr)
qed

section \<open>JSON lines\<close>

lemma export_records_Inr:
  "export_records h records = Inr rs \<longleftrightarrow>
   list_all json_ok records \<and> rs = map json_sort records \<and> length records \<le> max_export_records \<and> validate_records h rs [] = Inr ()"
  by (auto simp: export_records_def res_simps clones_Inr)

text \<open>The copies that an export prints.\<close>

lemma exported_plain:
  assumes "export_records h records = Inr rs" and "list_all json_wf records" and "r \<in> set rs"
  shows "plain r" "json_sort r = r" "validate_report_record h r = Inr ()"
proof -
  obtain r0 where r0: "r = json_sort r0" "r0 \<in> set records" using assms(1,3) by (auto simp: export_records_Inr)
  show valid: "validate_report_record h r = Inr ()" using assms(1,3) by (simp add: export_records_Inr validate_records_Inr)
  show "json_sort r = r" by (simp add: r0)
  show "plain r" using valid_record_plain [OF valid] r0 assms(2) by (simp add: json_wf_sort list_all_iff)
qed

lemma reports_Inr: "(\<And>r. r \<in> set rs \<Longrightarrow> plain r) \<Longrightarrow> rmap report_json rs = Inr (map json_text rs)"
  by (intro rmap_total) (simp add: report_json_def plain_def)

lemma join_newline: "ls \<noteq> [] \<Longrightarrow> join [c] ls @ [c] = concat (map (\<lambda>l. l @ [c]) ls)"
  by (induction "[c]" ls rule: join.induct) auto

text \<open>JSON lines read back as the copies of the records, when no text in them holds U+0085.\<close>

theorem jsonl_round_trip:
  assumes "list_all json_wf records" and "export_records_jsonl h records = Inr payload"
    and "\<forall>r \<in> set records. CHR 0x85 \<notin> set (json_text r)"
  shows "import_records_jsonl h f payload = Inr (map json_sort records)"
proof -
  obtain rs where rs: "export_records h records = Inr rs" using assms(2) by (auto simp: export_records_jsonl_def res_simps)
  note each = exported_plain [OF rs assms(1)]
  have eq: "rs = map json_sort records" and valid: "validate_records h rs [] = Inr ()" and len: "length rs \<le> max_export_records"
    using rs by (auto simp: export_records_Inr)
  have lines: "list_all (\<lambda>c. \<not> is_line_break c) l" if mem: "l \<in> set (map json_text rs)" for l
  proof -
    obtain r where r: "r \<in> set rs" "l = json_text r" using mem by auto
    have "CHR 0x85 \<notin> set l" using r assms(3) eq by auto
    moreover have "ch c = 133 \<longleftrightarrow> c = CHR 0x85" for c by (simp add: ch_eq [symmetric]) (simp add: ch_def)
    moreover have "32 \<le> ch c" if "c \<in> set l" for c
      using printable_text [of r c] each(1) [OF r(1)] r(2) that by (simp add: plain_def)
    ultimately show ?thesis by (force simp: list_all_iff is_line_break_def)
  qed
  have text_of: "payload = utf8 (concat (map (\<lambda>l. l @ [CHR 0x0A]) (map json_text rs)))"
  proof (cases "rs = []")
    case True
    then show ?thesis using assms(2) rs by (simp add: export_records_jsonl_def utf8_def)
  next
    case False
    have "payload = utf8 (join [CHR 0x0A] (map json_text rs) @ [CHR 0x0A])"
      using False assms(2) by (simp add: export_records_jsonl_def rs reports_Inr [OF each(1)] res_simps)
    then show ?thesis using False by (subst join_newline [symmetric]) simp_all
  qed
  have short: "length payload \<le> max_export_bytes"
    using assms(2) rs each(1) by (cases "rs = []") (auto simp: export_records_jsonl_def reports_Inr res_simps)
  have "filter (\<lambda>l. l \<noteq> []) (map json_text rs) = map json_text rs"
    using each(1) json_text_head(1) by (auto simp: filter_id_conv plain_def)
  moreover have "rmap (load_json f code) (map json_text rs) = Inr rs" for code
  proof -
    have "rmap (load_json f code) (map json_text rs) = Inr (map (\<lambda>r. r) rs)"
      using each by (auto simp: rmap_Inr_iff list_all2_map1 list_all2_map2 list_all2_same load_json_plain simp del: list.map_ident)
    then show ?thesis by simp
  qed
  ultimately show ?thesis
    using split_lines_unlines [of "map json_text rs", OF lines] valid len short eq
    by (simp add: import_records_jsonl_def within_bytes_def text_of decode_written reject_if_def del: map_map)
qed

section \<open>CSV\<close>

lemma projection_keys: "map fst (csv_projection r) = take 16 csv_columns"
  by (simp add: csv_projection_def Let_def csv_columns_def comp_def)

lemma row_length: "length (csv_record_row r) = length csv_columns"
proof -
  have "length (csv_projection r) = length (map fst (csv_projection r))" by simp
  also have "\<dots> = 16" unfolding projection_keys by (simp add: csv_columns_def)
  finally show ?thesis by (simp add: csv_record_row_def csv_columns_def)
qed

lemma zip_projection: "zip csv_columns (csv_record_row r) = csv_projection r @ [(''record_json'', json_text r)]"
proof -
  have cols: "csv_columns = map fst (csv_projection r) @ [''record_json'']" unfolding projection_keys by (simp add: csv_columns_def)
  show ?thesis unfolding csv_record_row_def by (subst cols, subst zip_append) (simp_all add: zip_map_fst_snd)
qed

lemma projected_cells: "(k, cell) \<in> set (csv_projection r) \<Longrightarrow> map_of (zip csv_columns (csv_record_row r)) k = Some cell"
proof -
  have "distinct (map fst (csv_projection r))" unfolding projection_keys by (simp add: csv_columns_def)
  moreover assume "(k, cell) \<in> set (csv_projection r)"
  ultimately show ?thesis unfolding zip_projection by (simp add: map_of_is_SomeI map_add_Some_iff map_of_append)
qed

lemma import_written_row:
  assumes "plain r" and "json_sort r = r" and "validate_report_record h r = Inr ()"
  shows "import_csv_row h f (csv_record_row r) = Inr r"
proof -
  have "last (csv_record_row r) = json_text r" by (simp add: csv_record_row_def)
  moreover have "\<not> list_ex (\<lambda>(k, cell). map_of (zip csv_columns (csv_record_row r)) k \<noteq> Some cell) (csv_projection r)"
    using projected_cells by (auto simp: list_ex_iff)
  ultimately show ?thesis
    using assms by (simp add: import_csv_row_def row_length load_json_plain reject_if_def)
qed

lemma first_cell: "validate_report_record h r = Inr () \<Longrightarrow> hd (csv_record_row r) \<noteq> []"
proof -
  assume "validate_report_record h r = Inr ()"
  then have "is_nonempty_string (record_field ''report_record_id'' r)"
    using valid_recordD(3) [THEN record_identityD(1)] by (simp add: record_field_def)
  then show ?thesis
    by (cases "record_field ''report_record_id'' r")
      (auto simp: csv_record_row_def csv_projection_def csv_columns_def csv_safe_cell_def cell_text_def is_nonempty_string_def Let_def)
qed

text \<open>C14: CSV reads back as the copies of the records, when no cell is longer than the reader allows.\<close>

theorem csv_round_trip:
  assumes "list_all json_wf records" and "export_records_csv h records = Inr payload"
    and "\<forall>r \<in> set records. list_all (\<lambda>cell. length cell \<le> csv_field_limit) (csv_record_row (json_sort r))"
  shows "import_records_csv h f payload = Inr (map json_sort records)"
proof -
  obtain rs where rs: "export_records h records = Inr rs" using assms(2) by (auto simp: export_records_csv_def res_simps)
  note each = exported_plain [OF rs assms(1)]
  have eq: "rs = map json_sort records" and valid: "validate_records h rs [] = Inr ()" and len: "length rs \<le> max_export_records"
    using rs by (auto simp: export_records_Inr)
  have payload: "payload = utf8 (concat (map csv_line (csv_columns # map csv_record_row rs)))" "length payload \<le> max_export_bytes"
    using assms(2) by (auto simp: export_records_csv_def rs reports_Inr [OF each(1)] res_simps)
  have "csv_rows (concat (map csv_line (csv_columns # map csv_record_row rs))) = (csv_columns # map csv_record_row rs, False)"
  proof (rule csv_rows_written)
    fix row assume "row \<in> set (csv_columns # map csv_record_row rs)"
    then consider "row = csv_columns" | r where "r \<in> set rs" "row = csv_record_row r" by auto
    then show "row \<noteq> [] \<and> hd row \<noteq> [] \<and> list_all (\<lambda>f. length f \<le> csv_field_limit) row"
    proof cases
      case 1
      then show ?thesis by (simp add: csv_columns_def csv_field_limit_def)
    next
      case 2
      then show ?thesis using first_cell [OF each(3) [OF 2(1)]] row_length [of r] assms(3) by (auto simp: eq csv_columns_def)
    qed
  qed
  moreover have "filter (\<lambda>row. row \<noteq> []) (map csv_record_row rs) = map csv_record_row rs"
    by (auto simp: filter_id_conv csv_record_row_def)
  moreover have "rmap (import_csv_row h f) (map csv_record_row rs) = Inr rs"
    using import_written_row [OF each] by (simp add: rmap_Inr_iff list_all2_map1 list_all2_same)
  ultimately show ?thesis
    using valid len payload(2) eq
    by (simp add: import_records_csv_def within_bytes_def payload(1) decode_written reject_if_def del: list.map concat.simps)
qed

text \<open>A cell that a spreadsheet would take for a formula.\<close>

definition formula_like :: "string \<Rightarrow> bool" where
  "formula_like cell \<longleftrightarrow>
     (let shown = dropWhile is_blank cell in
      shown \<noteq> [] \<and> List.member [CHR ''='', CHR ''+'', CHR ''-'', CHR ''@''] (hd shown) \<or>
      cell \<noteq> [] \<and> (hd cell = CHR 0x09 \<or> is_newline (hd cell)))"

lemma quoted_cell_plain: "\<not> formula_like (CHR 0x27 # s)"
  by (simp add: formula_like_def is_blank_def is_newline_def)

lemma safe_cell: "\<not> formula_like (csv_safe_cell v)"
proof -
  have "csv_safe_cell v = (if formula_like (cell_text v) then CHR 0x27 # cell_text v else cell_text v)"
    unfolding csv_safe_cell_def formula_like_def Let_def by (rule refl)
  then show ?thesis using quoted_cell_plain by simp
qed

text \<open>C16: no cell of an exported row starts a formula, whatever the record holds.\<close>

theorem csv_rows_are_inert:
  assumes "validate_report_record h r = Inr ()"
  shows "list_all (\<lambda>cell. \<not> formula_like cell) (csv_record_row r)"
proof -
  have "r = JObj (jdict r)" by (rule valid_recordD(1) [OF assms])
  then obtain t where "json_text r = CHR 0x7B # t" by (metis append_Cons json_text.simps(7) append_Nil)
  then have "\<not> formula_like (json_text r)" by (simp add: formula_like_def is_blank_def is_newline_def)
  moreover have "\<not> formula_like cell" if "cell \<in> snd ` set (csv_projection r)" for cell
    using that safe_cell by (auto simp: csv_projection_def Let_def)
  ultimately show ?thesis by (auto simp: csv_record_row_def list_all_iff)
qed

section \<open>Pages\<close>

text \<open>A client that follows the cursors; \<open>None\<close> when it has not come to the end after \<open>n\<close> pages.\<close>

fun follow_pages ::
  "(string \<Rightarrow> string) \<Rightarrow> (string \<Rightarrow> string) \<Rightarrow> json list \<Rightarrow> int \<Rightarrow> nat \<Rightarrow> string option \<Rightarrow> json list list res option" where
  "follow_pages h f records limit 0 cursor = None"
| "follow_pages h f records limit (Suc n) cursor =
     (case page_records h f records limit cursor of
        Inl e \<Rightarrow> Some (Inl e)
      | Inr page \<Rightarrow>
          (case next_cursor page of
             None \<Rightarrow> Some (Inr [page_records_of page])
           | Some c \<Rightarrow> map_option (map_sum id (Cons (page_records_of page))) (follow_pages h f records limit n (Some c))))"

definition cursor_data :: "nat \<Rightarrow> string \<Rightarrow> json" where
  "cursor_data k digest = JObj [(''offset'', JInt (int k)), (''digest'', JStr digest)]"

lemma cursor_data_plain:
  assumes "k < 10 ^ max_str_digits"
  shows "plain (cursor_data k digest)" "json_sort (cursor_data k digest) = JObj [(''digest'', JStr digest), (''offset'', JInt (int k))]"
proof -
  have "length (nat_text k) \<le> max_str_digits" using assms by (rule nat_text_length_le) (simp add: max_str_digits_def)
  then show "plain (cursor_data k digest)" by (simp add: plain_def cursor_data_def)
  have "sort_key fst [(''offset'', JInt (int k)), (''digest'', JStr digest)] = [(''digest'', JStr digest), (''offset'', JInt (int k))]"
    by (simp add: sort_key_simps less_char_def)
  then show "json_sort (cursor_data k digest) = JObj [(''digest'', JStr digest), (''offset'', JInt (int k))]"
    by (simp add: cursor_data_def)
qed

lemma set_strip_padding: "set (strip_padding s) \<subseteq> set s"
  by (auto simp: strip_padding_def dest: set_dropWhileD)

lemma decode_encoded_cursor:
  assumes "k < 10 ^ max_str_digits"
  shows "decode_cursor f (encode_cursor k digest) other =
    (if other = digest then Inr k else reporting_error ''REPORT_CURSOR_INVALID'')"
proof -
  define c where "c = encode_cursor k digest"
  have c: "c = strip_padding (b64_encode (utf8 (json_text (cursor_data k digest))))"
    by (simp add: c_def encode_cursor_def cursor_data_def)
  have scan: "b64_scan 0 0 0 (repad c) = Some (utf8 (json_text (cursor_data k digest)))"
    by (simp add: c repad_strip b64_scan_encoded)
  then have "c \<noteq> []"
  proof -
    have "utf8 (json_text (cursor_data k digest)) \<noteq> []" by (simp add: cursor_data_def utf8_def)
    then show ?thesis using scan by (auto simp: repad_def)
  qed
  moreover have "\<not> list_ex (\<lambda>c. ch c \<ge> 128) c"
    using b64_ascii set_strip_padding unfolding c by (fastforce simp: list_all_iff list_ex_iff)
  ultimately show ?thesis unfolding c_def [symmetric]
    by (auto simp: decode_cursor_def scan decode_written json_loads_plain [OF cursor_data_plain(1) [OF assms]]
        cursor_data_plain(2) [OF assms] cursor_offset_def is_mapping_def jdict_def keys_are_def has_key_def dget_def
        is_non_negative_int_def jint_def Let_def)
qed

text \<open>What a collection needs to be paged.\<close>

definition pageable :: "(string \<Rightarrow> string) \<Rightarrow> json list \<Rightarrow> bool" where
  "pageable h records \<longleftrightarrow>
     list_all json_ok records \<and> validate_records h (map json_sort records) [] = Inr () \<and> length records < 10 ^ max_str_digits"

lemma list_json_ok: "json_ok (JList xs) \<longleftrightarrow> list_all json_ok xs"
  by (simp add: list_all_iff)

text \<open>The page at an offset.\<close>

lemma page_at:
  assumes "pageable h records" and "1 \<le> limit" "limit \<le> max_page_size" and "k \<le> length records"
  defines "rs \<equiv> map json_sort records"
  defines "digest \<equiv> h (json_text (JList rs))"
  assumes "cursor = None \<and> k = 0 \<or> cursor = Some (encode_cursor k digest)"
  shows "page_records h f records limit cursor = Inr \<lparr>page_records_of = take (nat limit) (drop k rs),
    next_cursor = (if k + nat limit < length rs then Some (encode_cursor (k + nat limit) digest) else None),
    total_records = length rs\<rparr>"
proof -
  have ok: "list_all json_ok records" "validate_records h rs [] = Inr ()" using assms(1) by (simp_all add: pageable_def rs_def)
  have "list_all json_ok rs" using ok(1) by (simp add: rs_def list_all_iff)
  then have digest: "records_digest h rs = Inr digest"
    by (simp add: records_digest_def report_json_def digest_def list_json_ok del: json_ok.simps json_text.simps)
  have "k < 10 ^ max_str_digits" using assms(1,4) by (simp add: pageable_def)
  then have offset: "(case cursor of None \<Rightarrow> Inr 0 | Some c \<Rightarrow> decode_cursor f c digest) = Inr k"
    using assms(7) by (auto simp: decode_encoded_cursor)
  have copies: "rmap report_clone records = Inr rs" using ok(1) by (simp add: clones_Inr rs_def)
  have len: "length rs = length records" by (simp add: rs_def)
  have "length (take (nat limit) (drop k rs)) = (if k + nat limit < length rs then nat limit else length rs - k)" by simp
  moreover have "\<not> k > length rs" using assms(4) len by simp
  ultimately show ?thesis
    using assms(2,3) unfolding page_records_def copies rbind.simps ok(2) digest offset
    by (auto simp: reject_if_def Let_def)
qed

lemma follow_pages_from:
  assumes "pageable h records" and "1 \<le> limit" "limit \<le> max_page_size"
  defines "rs \<equiv> map json_sort records"
  defines "digest \<equiv> h (json_text (JList rs))"
  assumes "k \<le> length records" and "length records - k < n"
    and "cursor = None \<and> k = 0 \<or> cursor = Some (encode_cursor k digest)"
  shows "\<exists>pages. follow_pages h f records limit n cursor = Some (Inr pages) \<and> concat pages = drop k rs \<and>
    list_all (\<lambda>p. length p \<le> nat limit) pages \<and> (k < length records \<longrightarrow> list_all (\<lambda>p. p \<noteq> []) pages)"
  using assms(6-8)
proof (induction n arbitrary: k cursor)
  case (Suc n)
  note page = page_at [OF assms(1-3) Suc.prems(1) Suc.prems(3) [unfolded digest_def rs_def], folded rs_def, folded digest_def]
  have len: "length rs = length records" by (simp add: rs_def)
  show ?case
  proof (cases "k + nat limit < length rs")
    case True
    have nxt: "k + nat limit \<le> length records" "length records - (k + nat limit) < n" using True Suc.prems(2) assms(2) len by auto
    obtain pages where pages: "follow_pages h f records limit n (Some (encode_cursor (k + nat limit) digest)) = Some (Inr pages)"
        "concat pages = drop (k + nat limit) rs" "list_all (\<lambda>p. length p \<le> nat limit) pages" "list_all (\<lambda>p. p \<noteq> []) pages"
      using Suc.IH [OF nxt, of "Some (encode_cursor (k + nat limit) digest)"] True len by auto
    have "take (nat limit) (drop k rs) \<noteq> []" using True assms(2) by simp
    moreover
    have "take (nat limit) (drop k rs) @ drop (k + nat limit) rs = drop k rs"
      by (metis append_take_drop_id drop_drop add.commute)
    ultimately show ?thesis using True pages by (simp add: page)
  next
    case False
    then show ?thesis using len by (auto simp: page)
  qed
qed simp

text \<open>
  C15: a client that follows the cursors gets every record once, in order, in pages of at most the
  limit, and comes to a page without a cursor after at most as many pages as there are records,
  and one. No page is empty unless the collection is.
\<close>

theorem pages_cover_collection:
  assumes "pageable h records" and "1 \<le> limit" and "limit \<le> 100"
  shows "\<exists>pages. follow_pages h f records limit (Suc (length records)) None = Some (Inr pages) \<and>
    concat pages = map json_sort records \<and> list_all (\<lambda>p. length p \<le> nat limit) pages \<and>
    (records \<noteq> [] \<longrightarrow> list_all (\<lambda>p. p \<noteq> []) pages)"
  using follow_pages_from [OF assms(1,2), of 0 "Suc (length records)" None f] assms(3) by (simp add: max_page_size_def)

text \<open>A cursor of one collection is refused by a collection with another digest.\<close>

theorem foreign_cursor_refused:
  assumes "pageable h records" and "1 \<le> limit" and "limit \<le> 100" and "k < 10 ^ max_str_digits"
    and "digest \<noteq> h (json_text (JList (map json_sort records)))"
  shows "page_records h f records limit (Some (encode_cursor k digest)) = reporting_error ''REPORT_CURSOR_INVALID''"
proof -
  define rs where "rs = map json_sort records"
  have ok: "list_all json_ok records" "validate_records h rs [] = Inr ()" using assms(1) by (simp_all add: pageable_def rs_def)
  have "list_all json_ok rs" using ok(1) by (simp add: rs_def list_all_iff)
  then have dig: "records_digest h rs = Inr (h (json_text (JList rs)))"
    by (simp add: records_digest_def report_json_def list_json_ok del: json_ok.simps json_text.simps)
  have copies: "rmap report_clone records = Inr rs" using ok(1) by (simp add: clones_Inr rs_def)
  have "decode_cursor f (encode_cursor k digest) (h (json_text (JList rs))) = reporting_error ''REPORT_CURSOR_INVALID''"
    using decode_encoded_cursor [OF assms(4)] assms(5) by (simp add: rs_def)
  then show ?thesis using assms(2,3) unfolding page_records_def copies rbind.simps ok(2) dig option.case
    by (simp add: reject_if_def max_page_size_def)
qed

end
