(* ===== verification/ReportingExamples.thy ===== *)
theory ReportingExamples imports ReportingProperties EvidenceExamples begin

text \<open>A record of the sample snapshot and its exports: the hypotheses of the reporting properties can hold.\<close>

lemma report_hash_demo: "report_hash demo_digest d ks =
    (if json_ok (JObj (filter (\<lambda>p. \<not> List.member ks (fst p)) d)) then Inr (demo_digest []) else reporting_error ''REPORT_JSON_INVALID'')"
  by (simp add: report_hash_def report_json_def demo_digest_def)

definition demo_stamp :: stamp where
  "demo_stamp = Stamp demo_time_text"

definition record_digest :: json where
  "record_digest = JStr ''aaaaaaaaaaaaaaaaaaaaaaaaaaaaaaaaaaaaaaaaaaaaaaaaaaaaaaaaaaaaaaaa''"

definition record_policy :: dict where
  "record_policy = [(''content_hash'', record_digest), (''id'', JStr ''O''), (''version'', JInt 1)]"

definition demo_rounding :: dict where
  "demo_rounding = [(''application_point'', JStr ''METRIC_FINAL_ACCOUNTING''), (''policy_ref'', JObj record_policy),
     (''resolved_mode'', JStr ''HALF_UP''), (''resolved_scale'', JInt 2)]"

definition demo_freshness :: dict where
  "demo_freshness = [(''deadline'', JNull), (''observed_at'', JStr ''2026-01-01T00:00:00+00:00''), (''state'', JStr ''CURRENT'')]"

definition demo_confidence :: dict where
  "demo_confidence = [(''reasons'', JList []), (''state'', JStr ''HIGH'')]"

definition demo_locator :: dict where
  "demo_locator = [(''id'', JStr ''X''), (''version'', JInt 1)]"

text \<open>The record, with its keys in order.\<close>

definition demo_record :: dict where
  "demo_record =
     [(''accounting_view'', JStr ''OPERATIONAL''), (''confidence'', JObj demo_confidence), (''currency'', JStr ''RUB''),
      (''evidence_chain_content_hash'', record_digest), (''evidence_chain_ref'', JObj demo_locator),
      (''expense_boundary'', JList [JStr ''TAX'']), (''freshness'', JObj demo_freshness),
      (''generated_at'', JStr ''2026-01-01T00:00:00+00:00''), (''limitations'', JList []), (''marketplace_account_id'', JNull),
      (''metric_content_hash'', record_digest), (''metric_snapshot_id'', JStr ''S''), (''mode'', JStr ''ACTUAL''),
      (''organization_id'', JStr ''O''), (''publication_state'', JStr ''EVIDENCE_VERIFIED''), (''reason_code'', JNull),
      (''record_hash'', record_digest), (''report_record_id'', JStr ''REC''), (''rounding'', JObj demo_rounding),
      (''scenario_id'', JNull), (''schema_version'', JStr ''quantum-report-record-v1''), (''snapshot_revision'', JInt 1),
      (''state'', JStr ''VALID''), (''unit'', JStr ''MONEY''), (''value'', JStr ''7''), (''value_type'', JStr ''MONEY'')]"

lemma sorted_keys_dict: "sorted (map fst d) \<Longrightarrow> map (map_prod id json_sort) d = d \<Longrightarrow> json_sort (JObj d) = JObj d"
  by (simp add: sort_key_id_if_sorted)

lemma demo_parts_sorted:
  "json_sort (JObj record_policy) = JObj record_policy" "json_sort (JObj demo_rounding) = JObj demo_rounding"
  "json_sort (JObj demo_freshness) = JObj demo_freshness" "json_sort (JObj demo_confidence) = JObj demo_confidence"
  "json_sort (JObj demo_locator) = JObj demo_locator" "json_sort record_digest = record_digest"
  by code_simp+

lemma demo_record_sorted: "json_sort (JObj demo_record) = JObj demo_record"
proof (rule sorted_keys_dict)
  have "sorted (map fst demo_record) = sorted [''accounting_view'', ''confidence'', ''currency'', ''evidence_chain_content_hash'',
      ''evidence_chain_ref'', ''expense_boundary'', ''freshness'', ''generated_at'', ''limitations'', ''marketplace_account_id'',
      ''metric_content_hash'', ''metric_snapshot_id'', ''mode'', ''organization_id'', ''publication_state'', ''reason_code'',
      ''record_hash'', ''report_record_id'', ''rounding'', ''scenario_id'', ''schema_version'', ''snapshot_revision'', ''state'',
      ''unit'', ''value'', ''value_type'']"
    by (simp only: demo_record_def list.map fst_conv)
  also have "\<dots>" by code_simp
  finally show "sorted (map fst demo_record)" .
  show "map (map_prod id json_sort) demo_record = demo_record"
    by (simp add: demo_record_def demo_parts_sorted del: json_sort.simps(7))
qed

lemma demo_record_wf: "json_wf (JObj demo_record)" "json_ok (JObj demo_record)"
  by code_simp+

lemma demo_record_valid: "validate_report_record demo_digest (JObj demo_record) = Inr ()"
  unfolding validate_report_record_def seal_check_def report_hash_demo by code_simp

section \<open>The record is built from the accepted snapshot and chain\<close>

lemma demo_root_unread: "root_errors demo_digest None False demo_table demo_graph ''S'' [] = []"
  by code_simp

lemma demo_chain_published: "verify_evidence_chain demo_digest demo_digest None False (JObj demo_chain) = []"
proof -
  have "es_errors demo_graph = []" by (simp add: demo_graph_def)
  then have "verify_chain demo_digest demo_digest None False (JObj demo_chain) = []"
    by (simp add: verify_chain_def demo_header demo_read_nodes demo_roots demo_read_edges demo_no_cycle demo_root_unread report_if_def)
  then show ?thesis
    by (simp add: verify_evidence_chain_def Let_def demo_created report_if_def demo_fields demo_strict_nodes demo_roots demo_strict
        del: map_map)
qed

lemma demo_binding:
  "dget demo_chain ''evidence_chain_id'' = JStr ''X''" "dget demo_chain ''version'' = JInt 1"
  "dget demo_chain ''content_hash'' = JStr (demo_digest [])"
  "dget demo_snapshot ''evidence_chain_ref'' = JObj demo_locator" "dget demo_locator ''id'' = JStr ''X''" "dget demo_locator ''version'' = JInt 1"
  "dget demo_snapshot ''organization_id'' = JStr ''O''" "dget demo_snapshot ''mode'' = JStr ''ACTUAL''"
  "dget demo_snapshot ''scenario_id'' = JNull" "dget demo_snapshot ''metric_snapshot_id'' = JStr ''S''"
  "dget demo_snapshot ''snapshot_revision'' = JInt 1" "dget demo_snapshot ''content_hash'' = JStr (demo_digest [])"
  "dget demo_snapshot ''limitations'' = JList []"
  by (simp_all add: demo_chain_def demo_snapshot_def demo_locator_def dget_Cons)

lemma demo_publication:
  "publication demo_digest demo_digest demo_snapshot (Some (JObj demo_chain)) = Inr (''EVIDENCE_VERIFIED'', JStr (demo_digest []), [])"
proof -
  have target: "demo_ref ''S'' = JObj [(''id'', JStr ''S''), (''version'', JInt 1), (''content_hash'', JStr (demo_digest []))]"
    by (simp add: demo_ref_def)
  have "evidence_binding demo_digest demo_digest demo_snapshot (JObj demo_chain) = Inr ()"
    by (simp add: evidence_binding_def demo_chain_published jdict_def demo_binding demo_fields target dget_Cons is_mapping_def
        py_eq.simps reject_if_def)
  then show ?thesis by (simp add: publication_def jdict_def demo_binding jlist_def jstr_def)
qed

definition demo_draft :: dict where
  "demo_draft = unsealed_record demo_snapshot ''REC'' demo_time_text (''EVIDENCE_VERIFIED'', JStr (demo_digest []), [])
     (JObj demo_locator) (JObj demo_rounding)"

definition demo_built :: dict where
  "demo_built = dput ''record_hash'' (JStr (demo_digest [])) demo_draft"

lemma demo_built_sorted: "json_sort (JObj demo_built) = JObj demo_record"
  by code_simp

lemma demo_built_valid: "validate_report_record demo_digest (JObj demo_built) = Inr ()"
  using validate_record_sort [of demo_digest "JObj demo_built"] unfolding demo_built_sorted demo_record_valid by (rule sym)

lemma demo_record_built:
  "build_report_record demo_digest demo_digest (JObj demo_snapshot) ''REC'' demo_stamp (Some (JObj demo_chain)) = Inr (JObj demo_built)"
proof -
  have "json_ok (JObj demo_locator)" "json_ok (dget demo_snapshot ''rounding'')" "json_sort (dget demo_snapshot ''rounding'') = JObj demo_rounding"
    by code_simp+
  then have clones: "report_clone (JObj demo_locator) = Inr (JObj demo_locator)" "report_clone (dget demo_snapshot ''rounding'') = Inr (JObj demo_rounding)"
    by (simp_all add: clone_Inr demo_parts_sorted del: json_sort.simps json_ok.simps)
  have stamp: "stamp_text demo_stamp = Inr demo_time_text" by code_simp
  have hash: "report_hash demo_digest demo_draft [''record_hash''] = Inr (demo_digest [])"
    unfolding report_hash_demo by code_simp
  show ?thesis
    unfolding build_report_record_def Let_def demo_snapshot_accepted jdict_def json.case demo_publication list.case demo_binding
    by (simp add: reject_if_def clones stamp hash demo_draft_def [symmetric] demo_built_def [symmetric] demo_built_valid)
qed

theorem record_backed_by_evidence_witness: "backed_by demo_digest demo_digest demo_built (JObj demo_chain)"
  using record_backed_by_evidence [OF demo_record_built] by (simp add: jdict_def)

section \<open>Exports of the record\<close>

definition demo_bundle :: dict where
  "demo_bundle =
     [(''schema_version'', JStr ''quantum-report-export-v1''), (''bundle_id'', JStr ''B''), (''organization_id'', JStr ''O''),
      (''mode'', JStr ''ACTUAL''), (''scenario_id'', JNull), (''generated_at'', JStr ''2026-01-01T00:00:00+00:00''),
      (''record_count'', JInt 1), (''records'', JList [JObj demo_record]), (''bundle_hash'', record_digest)]"

lemma demo_time_valid: "valid_datetime_text (JStr ''2026-01-01T00:00:00+00:00'')"
  by code_simp

lemma record_digest_valid: "is_hash record_digest" "record_digest = JStr (demo_digest [])"
  by (code_simp, simp add: record_digest_def demo_digest_def)

lemma demo_bundle_fields:
  "dget demo_bundle ''records'' = JList [JObj demo_record]" "dget demo_bundle ''organization_id'' = JStr ''O''"
  "dget demo_bundle ''mode'' = JStr ''ACTUAL''" "dget demo_bundle ''scenario_id'' = JNull" "dget demo_bundle ''record_count'' = JInt 1"
  "dget demo_bundle ''schema_version'' = JStr export_schema" "dget demo_bundle ''bundle_id'' = JStr ''B''"
  "dget demo_bundle ''generated_at'' = JStr ''2026-01-01T00:00:00+00:00''" "dget demo_bundle ''bundle_hash'' = record_digest"
  "keys_are demo_bundle bundle_keys"
  "dget demo_record ''organization_id'' = JStr ''O''" "dget demo_record ''mode'' = JStr ''ACTUAL''" "dget demo_record ''scenario_id'' = JNull"
  by (simp_all add: demo_bundle_def demo_record_def dget_Cons keys_are_iff bundle_keys_def export_schema_def)

lemma demo_bundle_wf: "json_wf (JObj demo_bundle)"
  using demo_record_wf(1) by (simp add: demo_bundle_def record_digest_def)

lemma demo_bundle_ok: "json_ok (JObj demo_bundle)"
proof -
  have "json_ok (JInt 1)" by code_simp
  then show ?thesis using demo_record_wf(2) by (simp add: demo_bundle_def record_digest_def)
qed

lemma demo_bundle_valid: "validate_export_bundle demo_digest (JObj demo_bundle) = Inr ()"
proof -
  have "json_ok (JObj (filter (\<lambda>p. \<not> List.member [''bundle_hash''] (fst p)) demo_bundle))"
    using demo_bundle_ok by (auto simp: list_all_iff)
  then have "bundle_seal_check demo_digest demo_bundle = Inr ()"
    by (simp add: bundle_seal_check_def report_hash_demo demo_bundle_fields record_digest_valid(1) reject_if_def del: json_ok.simps)
      (simp add: record_digest_valid(2))
  then show ?thesis
    by (simp add: validate_export_bundle_def Let_def res_simps header_checks_def mode_checks_def jdict_def demo_bundle_fields
        is_mapping_def is_nonempty_string_def demo_time_valid jlist_def demo_record_valid max_export_records_def
        bundle_member_check_def record_field_def)
qed

lemma demo_room: "json_room (JObj demo_record) \<le> 9000"
proof -
  have "json_room (JObj record_policy) \<le> 1000" "json_room (JObj demo_rounding) \<le> 2000" "json_room (JObj demo_freshness) \<le> 1000"
      "json_room (JObj demo_confidence) \<le> 200" "json_room (JObj demo_locator) \<le> 200" "json_room record_digest = 386" "length (int_text 1) = 1"
    by code_simp+
  then show ?thesis by (simp add: demo_record_def del: json_room.simps(7)) (simp add: demo_record_def)
qed

lemma demo_text_short: "length (json_text (JObj demo_record)) \<le> 9000"
  using length_json_text [of "JObj demo_record"] demo_room by linarith

lemma demo_bundle_short: "length (utf8 (json_text (JObj demo_bundle))) \<le> max_export_bytes"
proof -
  have "length (int_text 1) = 1" by code_simp
  then have "json_room (JObj demo_bundle) \<le> 20000"
    using demo_room by (simp add: demo_bundle_def record_digest_def)
  then show ?thesis
    using length_utf8 [of "json_text (JObj demo_bundle)"] length_json_text [of "JObj demo_bundle"]
    by (simp add: max_export_bytes_def del: json_room.simps json_text.simps)
qed

lemma demo_bundle_exported: "export_bundle_json demo_digest (JObj demo_bundle) = Inr (utf8 (json_text (JObj demo_bundle)))"
  using demo_bundle_short demo_bundle_ok
  by (simp add: export_bundle_json_def demo_bundle_valid report_json_def within_bytes_def del: json_text.simps json_ok.simps)

theorem bundle_round_trip_witness:
  "import_bundle_json demo_digest id (utf8 (json_text (JObj demo_bundle))) = Inr (json_sort (JObj demo_bundle))"
  using bundle_round_trip [OF demo_bundle_wf demo_bundle_exported] .

theorem imported_bundle_consistent_witness:
  "\<exists>d rs. json_sort (JObj demo_bundle) = JObj d \<and> dget d ''records'' = JList rs \<and> rs \<noteq> []"
  using imported_bundle_consistent [OF bundle_reads_back [OF demo_bundle_wf demo_bundle_exported, of id]] by blast

lemma demo_records_exported: "export_records demo_digest [JObj demo_record] = Inr [JObj demo_record]"
  using demo_record_wf(2)
  by (simp add: export_records_Inr max_export_records_def demo_record_sorted demo_record_valid del: json_ok.simps json_sort.simps)

lemma demo_record_printed: "report_json (JObj demo_record) = Inr (json_text (JObj demo_record))"
  using demo_record_wf(2) by (simp only: report_json_def if_True)

lemma demo_ascii: "CHR 0x85 \<notin> set (json_text (JObj demo_record))"
proof
  assume in_text: "CHR 0x85 \<in> set (json_text (JObj demo_record))"
  have "\<not> ch CHR 0x85 < 128" by (simp add: ch_def)
  then have "CHR 0x85 \<in> set (json_chars (JObj demo_record))" using json_text_chars [OF in_text] by blast
  then show False
    by (simp add: demo_record_def demo_confidence_def record_digest_def demo_locator_def demo_freshness_def demo_rounding_def record_policy_def)
qed

theorem jsonl_round_trip_witness:
  "\<exists>payload. export_records_jsonl demo_digest [JObj demo_record] = Inr payload \<and>
     import_records_jsonl demo_digest id payload = Inr [JObj demo_record]"
proof -
  have "length (utf8 (json_text (JObj demo_record) @ [CHR 0x0A])) \<le> 20000"
    using length_utf8 [of "json_text (JObj demo_record) @ [CHR 0x0A]"] demo_text_short by simp
  then have "export_records_jsonl demo_digest [JObj demo_record] = Inr (utf8 (json_text (JObj demo_record) @ [CHR 0x0A]))"
    by (simp add: export_records_jsonl_def demo_records_exported demo_record_printed within_bytes_def max_export_bytes_def
        del: json_text.simps)
  then show ?thesis
    using jsonl_round_trip [of "[JObj demo_record]" demo_digest] demo_record_wf(1) demo_ascii
    by (simp add: demo_record_sorted del: json_text.simps json_sort.simps json_wf_obj)
qed

lemma room_of_field: "json_room (dget d k) \<le> json_room (JObj d) + 2"
proof (cases "map_of d k")
  case (Some v)
  then have mem: "(k, v) \<in> set d" by (rule map_of_SomeD)
  have "6 * length k + 4 + json_room v \<le> sum_list (map (\<lambda>(k, v). 6 * length k + 4 + json_room v) d)"
    by (rule member_le_sum_list) (use mem in \<open>force intro: image_eqI [of _ _ "(k, v)"]\<close>, simp)
  then show ?thesis by (simp add: Some dget_def comp_def case_prod_unfold)
qed (simp add: dget_def)

lemma safe_cell_room: "length (csv_safe_cell v) \<le> json_room v + 1"
proof -
  have "length (cell_text v) \<le> json_room v" by (cases v) (simp_all add: cell_text_def)
  then show ?thesis by (auto simp: csv_safe_cell_def Let_def)
qed

lemma row_room:
  assumes "cell \<in> set (csv_record_row (JObj d))"
  shows "length cell \<le> json_room (JObj d) + 5"
proof -
  have field: "length (csv_safe_cell (dget d k)) \<le> json_room (JObj d) + 5" for k
    using safe_cell_room [of "dget d k"] room_of_field [of d k] by linarith
  have nested: "length (csv_safe_cell (dget (jdict (dget d k)) l)) \<le> json_room (JObj d) + 5" for k l
  proof (cases "dget d k")
    case (JObj e)
    then show ?thesis using safe_cell_room [of "dget e l"] room_of_field [of e l] room_of_field [of d k] by (simp add: jdict_def)
  qed (simp_all add: jdict_def dget_def csv_safe_cell_def cell_text_def)
  have "cell = json_text (JObj d) \<or> (\<exists>k. cell = csv_safe_cell (dget d k)) \<or>
      (\<exists>l. cell = csv_safe_cell (dget (jdict (dget d ''evidence_chain_ref'')) l))"
    using assms unfolding csv_record_row_def csv_projection_def Let_def record_field_def jdict_def json.case by auto
  then show ?thesis
    using field nested length_json_text [of "JObj d"] by (elim disjE exE) (auto intro: le_trans simp del: json_text.simps json_room.simps)
qed

lemma rows_room: "length (csv_line row) \<le> length row * (2 * n + 3) + 2" if "\<forall>cell \<in> set row. length cell \<le> n"
proof -
  have "sum_list (map (\<lambda>s. 2 * length s + 3) row) \<le> sum_list (map (\<lambda>s. 2 * n + 3) row)"
    using that by (intro sum_list_le) simp
  then show ?thesis using length_csv_line [of row] by (simp add: sum_list_triv)
qed

theorem csv_round_trip_witness:
  "\<exists>payload. export_records_csv demo_digest [JObj demo_record] = Inr payload \<and>
     import_records_csv demo_digest id payload = Inr [JObj demo_record]"
proof -
  define payload where "payload = utf8 (concat (map csv_line [csv_columns, csv_record_row (JObj demo_record)]))"
  have cells: "\<forall>cell \<in> set (csv_record_row (JObj demo_record)). length cell \<le> 10000"
    using row_room [of _ demo_record] demo_room by fastforce
  have "length (csv_line csv_columns) \<le> 1000" using length_csv_line [of csv_columns] by (simp add: csv_columns_def)
  moreover have "length (csv_line (csv_record_row (JObj demo_record))) \<le> 400000"
    using rows_room [OF cells] row_length [of "JObj demo_record"] by (simp add: csv_columns_def)
  ultimately have "length payload \<le> max_export_bytes"
    using length_utf8 [of "concat (map csv_line [csv_columns, csv_record_row (JObj demo_record)])"]
    by (simp add: payload_def max_export_bytes_def)
  then have exported: "export_records_csv demo_digest [JObj demo_record] = Inr payload"
    by (simp add: export_records_csv_def demo_records_exported demo_record_printed within_bytes_def payload_def
        del: json_text.simps)
  have "list_all (\<lambda>cell. length cell \<le> csv_field_limit) (csv_record_row (JObj demo_record))"
    using cells by (auto simp: list_all_iff csv_field_limit_def)
  then show ?thesis
    using csv_round_trip [of "[JObj demo_record]" demo_digest payload id] exported demo_record_wf(1)
    by (simp add: demo_record_sorted del: json_text.simps json_sort.simps json_wf_obj)
qed

theorem csv_rows_are_inert_witness: "list_all (\<lambda>cell. \<not> formula_like cell) (csv_record_row (JObj demo_record))"
  using csv_rows_are_inert [OF demo_record_valid] .

lemma demo_pageable: "pageable demo_digest [JObj demo_record]"
proof -
  have "(1 :: nat) < 10 ^ max_str_digits" by (rule one_less_power) (simp_all add: max_str_digits_def)
  then show ?thesis using demo_record_wf(2)
    by (simp add: pageable_def demo_record_sorted demo_record_valid del: json_ok.simps json_sort.simps)
qed

theorem pages_cover_collection_witness:
  "\<exists>pages. follow_pages demo_digest id [JObj demo_record] 1 2 None = Some (Inr pages) \<and> concat pages = [JObj demo_record]"
  using pages_cover_collection [OF demo_pageable, of 1 id] by (auto simp: numeral_2_eq_2 demo_record_sorted simp del: json_sort.simps)

theorem foreign_cursor_refused_witness:
  "page_records demo_digest id [JObj demo_record] 1 (Some (encode_cursor 0 ''other'')) = reporting_error ''REPORT_CURSOR_INVALID''"
  using foreign_cursor_refused [OF demo_pageable, of 1 0 "''other''" id] by (simp add: demo_digest_def)

end
