(* ===== verification/Fingerprints.thy ===== *)
theory Fingerprints imports PyBytes begin

text \<open>
  \<open>ingestion/fingerprints.py\<close> and \<open>ingestion/schema_registry.py\<close>: what a CSV file looks like, and
  whether it has the registered header. A file is the text of its bytes. The sniffing of a dialect
  with the first row read in it is the argument \<open>read_head\<close>: \<open>csv.Sniffer\<close> guesses from a sample of
  the first characters, and its guess is only recorded and compared. The rows themselves are read
  with the modelled reader.
\<close>

section \<open>Text\<close>

text \<open>\<open>int(text)\<close> in base ten; \<open>None\<close> is a \<open>ValueError\<close>.\<close>

fun digit_run :: "bool \<Rightarrow> string \<Rightarrow> string \<Rightarrow> string option" where
  "digit_run started ds [] = (if started then Some (rev ds) else None)"
| "digit_run started ds (c # cs) =
     (if is_digit c then digit_run True (c # ds) cs
      else if c = CHR ''_'' \<and> started then digit_run False ds cs else None)"

definition int10 :: "string \<Rightarrow> int option" where
  "int10 text =
     (case split_sign (py_strip text) of (negative, s) \<Rightarrow>
        (case digit_run False [] s of
           None \<Rightarrow> None
         | Some ds \<Rightarrow> if length ds > max_str_digits then None
             else Some (if negative then - int (digits_value ds) else int (digits_value ds))))"

text \<open>\<open>datetime.fromisoformat\<close> accepts the text, with or without a time zone.\<close>

definition iso_accepted :: "string \<Rightarrow> bool" where
  "iso_accepted s \<longleftrightarrow>
     (let b = utf8 s in
      7 \<le> length b \<and>
      (case iso_separator b of
         None \<Rightarrow> False
       | Some p \<Rightarrow> iso_date (take p b) \<noteq> None \<and>
           (case drop p b of
              [] \<Rightarrow> True
            | c # r \<Rightarrow>
                (let t = (if ch c < 128 then r else drop 1 r) in
                 aware_instant s \<noteq> None \<or>
                 list_all (\<lambda>c. \<not> (c = CHR ''+'' \<or> c = CHR ''-'' \<or> c = CHR ''Z'')) t \<and>
                 (case read_clock False t of None \<Rightarrow> False | Some k \<Rightarrow> \<not> ic_left k \<and> clock_in_range k)))))"

text \<open>\<open>decode("utf-8-sig")\<close>\<close>

definition decode_sig :: "string \<Rightarrow> string res" where
  "decode_sig payload =
     (case utf8_decode (if starts_with [CHR 0xEF, CHR 0xBB, CHR 0xBF] payload then drop 3 payload else payload) of
        Inl BadBytes \<Rightarrow> Inl (ValueError ''UnicodeDecodeError'')
      | Inl WideChar \<Rightarrow> Inl OutsideModel
      | Inr text \<Rightarrow> Inr text)"

section \<open>Fingerprints\<close>

definition sha256_json :: "(string \<Rightarrow> string) \<Rightarrow> json \<Rightarrow> string" where
  "sha256_json h payload = h (json_text payload)"

text \<open>What \<open>structural_fingerprint\<close> reads of a file: the dialect and the first row.\<close>

record csv_head =
  ch_delimiter :: char
  ch_quotechar :: char
  ch_headers :: "string list"

type_synonym head_reader = "string \<Rightarrow> csv_head res"

definition structural_descriptor :: "csv_head \<Rightarrow> dict" where
  "structural_descriptor k =
     [(''format'', JStr ''csv''), (''encoding'', JStr ''utf-8-sig''), (''delimiter'', JStr [ch_delimiter k]),
      (''quotechar'', JStr [ch_quotechar k]), (''headers'', JList (map JStr (ch_headers k))),
      (''column_count'', JInt (int (length (ch_headers k))))]"

definition sealed_descriptor :: "(string \<Rightarrow> string) \<Rightarrow> dict \<Rightarrow> dict" where
  "sealed_descriptor h d = [(''descriptor'', JObj d), (''sha256'', JStr (sha256_json h (JObj d)))]"

definition structural_fingerprint :: "(string \<Rightarrow> string) \<Rightarrow> head_reader \<Rightarrow> string \<Rightarrow> (csv_head \<times> dict) res" where
  "structural_fingerprint h read_head payload =
     rbind (read_head payload) (\<lambda>k. Inr (k, sealed_descriptor h (structural_descriptor k)))"

definition infer_scalar_type :: "string \<Rightarrow> string" where
  "infer_scalar_type text =
     (let v = py_strip text in
      if v = [] then ''empty''
      else if List.member [''true'', ''false''] (lower_text v) then ''boolean''
      else if int10 v \<noteq> None then ''integer''
      else if decimal_of_text v \<noteq> None then ''decimal''
      else if iso_accepted (replace_all ''Z'' ''+00:00'' v) then ''datetime''
      else ''string'')"

text \<open>The entries of all rows; the values of each key, sorted and without repetition.\<close>

definition grouped :: "(string \<times> string) list \<Rightarrow> dict" where
  "grouped entries =
     map (\<lambda>k. (k, JList (map JStr (sorted_set (map snd (filter (\<lambda>p. fst p = k) entries))))))
       (sorted_set (map fst entries))"

definition semantic_descriptor :: "(string \<times> string) list list \<Rightarrow> dict" where
  "semantic_descriptor rows =
     [(''column_types'', JObj (grouped (map (\<lambda>(k, v). (k, infer_scalar_type v)) (concat rows)))),
      (''enum_samples'', JObj (grouped (filter (\<lambda>(k, v). List.member [''operation_type'', ''currency''] k \<and> v \<noteq> []) (concat rows)))),
      (''row_count'', JInt (int (length rows)))]"

definition semantic_fingerprint :: "(string \<Rightarrow> string) \<Rightarrow> (string \<times> string) list list \<Rightarrow> dict" where
  "semantic_fingerprint h rows = sealed_descriptor h (semantic_descriptor rows)"

section \<open>The registered schema\<close>

definition wb_synthetic_schema_id :: string where
  "wb_synthetic_schema_id = ''wb-synthetic-operations-v1''"
definition wb_synthetic_adapter_id :: string where
  "wb_synthetic_adapter_id = ''wildberries-synthetic''"
definition wb_synthetic_adapter_version :: string where
  "wb_synthetic_adapter_version = ''1.0''"

definition wb_synthetic_headers :: "string list" where
  "wb_synthetic_headers = [''row_id'', ''operation_id'', ''operation_type'', ''event_time'', ''recognition_time'',
     ''product_external_id'', ''quantity'', ''gross_amount'', ''currency'', ''revision'', ''supersedes_event_id'',
     ''reversal_of_event_id'']"

record schema_detection =
  sd_status :: string
  sd_schema :: "string option"
  sd_adapter :: "string option"
  sd_adapter_version :: "string option"
  sd_structural :: dict
  sd_diagnostics :: "string list"

definition header_diagnostics :: "string list \<Rightarrow> string list" where
  "header_diagnostics headers =
     (let missing = sorted_set (filter (\<lambda>x. \<not> List.member headers x) wb_synthetic_headers);
          unexpected = sorted_set (filter (\<lambda>x. \<not> List.member wb_synthetic_headers x) headers);
          found = (if missing = [] then [] else [''missing_columns='' @ join '','' missing]) @
            (if unexpected = [] then [] else [''unexpected_columns='' @ join '','' unexpected]) @
            (if missing = [] \<and> unexpected = [] \<and> headers \<noteq> wb_synthetic_headers then [''column_order_changed''] else []) in
      if found = [] then [''no_registered_schema''] else found)"

definition detect_csv_schema :: "(string \<Rightarrow> string) \<Rightarrow> head_reader \<Rightarrow> string \<Rightarrow> schema_detection res" where
  "detect_csv_schema h read_head payload =
     rbind (structural_fingerprint h read_head payload) (\<lambda>(k, fingerprint).
       Inr (if ch_headers k = wb_synthetic_headers
            then \<lparr>sd_status = ''MATCHED'', sd_schema = Some wb_synthetic_schema_id, sd_adapter = Some wb_synthetic_adapter_id,
              sd_adapter_version = Some wb_synthetic_adapter_version, sd_structural = fingerprint, sd_diagnostics = []\<rparr>
            else \<lparr>sd_status = ''UNKNOWN'', sd_schema = None, sd_adapter = None, sd_adapter_version = None,
              sd_structural = fingerprint, sd_diagnostics = header_diagnostics (ch_headers k)\<rparr>))"

section \<open>The rows of a file\<close>

text \<open>
  \<open>_validated_rows\<close> of the gate: \<open>csv.DictReader\<close> skips blank rows, takes the first row as the keys,
  and a later row must have as many cells; a key that repeats keeps its last cell.
\<close>

definition dict_row :: "string list \<Rightarrow> string list \<Rightarrow> (string \<times> string) list" where
  "dict_row header row = fold (\<lambda>(k, v). AList.update k v) (zip header row) []"

definition validated_rows :: "string \<Rightarrow> (string \<times> string) list list res" where
  "validated_rows text =
     (case csv_rows text of
        ([], bad) \<Rightarrow> if bad then Inl CsvError else Inr []
      | (header # rows, bad) \<Rightarrow>
          rbind (rmap (\<lambda>row. if length row = length header then Inr (dict_row header row)
                   else Inl (ValueError ''CSV_ROW_SHAPE_INVALID'')) (filter (\<lambda>row. row \<noteq> []) rows))
            (\<lambda>rs. if bad then Inl CsvError else Inr rs))"

end
