(* ===== verification/RawStorage.thy ===== *)
theory RawStorage imports Fingerprints PyLoads Evidence Access begin

text \<open>
  \<open>ingestion/receipts.py\<close> and \<open>ingestion/storage.py\<close>: upload receipts, the raw storage with the life
  cycle of a file, and the schema gate. The storage is the record of its two kinds of files,
  addressed by the token of the tenant (the SHA-256 \<open>h\<close> of its identifier) and by the digest
  (\<open>sha\<close> of the bytes) or the identifier of the file; a file is the text of its bytes. A write is
  atomic and never fails: locks, \<open>fsync\<close> and \<open>OSError\<close> are not modelled.
\<close>

section \<open>Receipts\<close>

abbreviation ingestion_error :: "string \<Rightarrow> 'a res" where
  "ingestion_error code \<equiv> Inl (IngestionError code)"

record upload_receipt =
  u_id :: string
  u_tenant :: string
  u_sha :: string
  u_size :: int
  u_filename :: string
  u_key :: string
  u_duplicate :: bool

record receipt_registry =
  u_by_digest :: "((string \<times> string) \<times> upload_receipt) list"
  u_by_id :: "((string \<times> string) \<times> upload_receipt) list"

definition new_receipts :: receipt_registry where
  "new_receipts = \<lparr>u_by_digest = [], u_by_id = []\<rparr>"

fun split_path :: "string \<Rightarrow> string list" where
  "split_path [] = [[]]"
| "split_path (c # cs) =
     (if c = CHR ''/'' then [] # split_path cs
      else (case split_path cs of [] \<Rightarrow> [[c]] | p # ps \<Rightarrow> (c # p) # ps))"

text \<open>\<open>PurePath(text).name\<close>\<close>

definition path_name :: "string \<Rightarrow> string" where
  "path_name s = (case filter (\<lambda>p. p \<noteq> [] \<and> p \<noteq> ''.'') (split_path s) of [] \<Rightarrow> [] | ps \<Rightarrow> last ps)"

definition is_file_char :: "char \<Rightarrow> bool" where
  "is_file_char c \<longleftrightarrow> is_alnum c \<or> List.member [CHR ''.'', CHR ''_'', CHR ''-''] c"

text \<open>\<open>re.sub("[^A-Za-z0-9._-]+", "_", text)\<close>; \<open>inside\<close>: the run has its underscore already.\<close>

fun sub_unsafe :: "bool \<Rightarrow> string \<Rightarrow> string" where
  "sub_unsafe inside [] = []"
| "sub_unsafe inside (c # cs) =
     (if is_file_char c then c # sub_unsafe False cs
      else if inside then sub_unsafe True cs else CHR ''_'' # sub_unsafe True cs)"

definition sanitize_filename :: "string \<Rightarrow> string" where
  "sanitize_filename filename =
     (let leaf = path_name (map (\<lambda>c. if c = CHR 0x5C then CHR ''/'' else c) filename);
          sanitized = take 120 (strip_by (\<lambda>c. c = CHR ''.'' \<or> c = CHR ''_'') (sub_unsafe False leaf)) in
      if sanitized = [] then ''upload.bin'' else sanitized)"

definition storage_key :: "string \<Rightarrow> string \<Rightarrow> string" where
  "storage_key t digest = ''tenants/'' @ t @ ''/raw/'' @ digest"

text \<open>\<open>draw\<close> is the integer of \<open>uuid4()\<close>.\<close>

definition receive ::
  "(string \<Rightarrow> string) \<Rightarrow> nat \<Rightarrow> tenant \<Rightarrow> string \<Rightarrow> string \<Rightarrow> receipt_registry \<Rightarrow> upload_receipt res \<times> receipt_registry" where
  "receive sha draw t payload filename g =
     (if payload = [] then (ingestion_error ''UPLOAD_EMPTY'', g)
      else
        let digest = sha payload; key = (tenant_id t, digest) in
        case map_of (u_by_digest g) key of
          Some r \<Rightarrow> (Inr (r\<lparr>u_duplicate := True\<rparr>), g)
        | None \<Rightarrow>
            let rid = uuid_text draw;
                r = \<lparr>u_id = rid, u_tenant = tenant_id t, u_sha = digest, u_size = int (length payload),
                  u_filename = sanitize_filename filename, u_key = storage_key (tenant_id t) digest, u_duplicate = False\<rparr> in
            (Inr r, \<lparr>u_by_digest = AList.update key r (u_by_digest g),
              u_by_id = AList.update (tenant_id t, rid) r (u_by_id g)\<rparr>))"

definition get_receipt :: "tenant \<Rightarrow> string \<Rightarrow> receipt_registry \<Rightarrow> upload_receipt res" where
  "get_receipt t rid g =
     (if rid = [] then ingestion_error ''RAW_FILE_ID_INVALID''
      else case map_of (u_by_id g) (tenant_id t, rid) of
        None \<Rightarrow> ingestion_error ''RAW_FILE_NOT_FOUND''
      | Some r \<Rightarrow> Inr r)"

section \<open>Records of raw files\<close>

abbreviation storage_error :: "string \<Rightarrow> 'a res" where
  "storage_error code \<equiv> Inl (RawStorageError code)"

datatype raw_state = Received | Validating | RawValid | Quarantined | Rejected

fun raw_state_value :: "raw_state \<Rightarrow> string" where
  "raw_state_value Received = ''RECEIVED''"
| "raw_state_value Validating = ''VALIDATING''"
| "raw_state_value RawValid = ''VALID''"
| "raw_state_value Quarantined = ''QUARANTINED''"
| "raw_state_value Rejected = ''REJECTED''"

definition raw_state_of :: "json \<Rightarrow> raw_state option" where
  "raw_state_of v = find (\<lambda>s. v = JStr (raw_state_value s)) [Received, Validating, RawValid, Quarantined, Rejected]"

record raw_record =
  rr_id :: string
  rr_tenant :: string
  rr_sha :: string
  rr_size :: int
  rr_filename :: string
  rr_key :: string
  rr_state :: raw_state
  rr_schema :: "string option"
  rr_structural :: "dict option"
  rr_semantic :: "dict option"
  rr_diagnostics :: "string list"

fun raw_transitions :: "raw_state \<Rightarrow> raw_state list" where
  "raw_transitions Received = [Validating]"
| "raw_transitions Validating = [RawValid, Quarantined, Rejected]"
| "raw_transitions _ = []"

definition terminal_states :: "raw_state list" where
  "terminal_states = [RawValid, Quarantined, Rejected]"

definition raw_id :: "string \<Rightarrow> string res" where
  "raw_id value = (case uuid_int value of None \<Rightarrow> storage_error ''RAW_FILE_ID_INVALID'' | Some n \<Rightarrow> Inr (uuid_text n))"

definition digest_checked :: "string \<Rightarrow> string res" where
  "digest_checked value = (if hash_re value then Inr value else storage_error ''STORAGE_DIGEST_INVALID'')"

definition safe_filename :: "string \<Rightarrow> bool" where
  "safe_filename s \<longleftrightarrow> (case s of [] \<Rightarrow> False
     | c # cs \<Rightarrow> is_file_char c \<and> c \<noteq> CHR ''.'' \<and> length cs \<le> 119 \<and> list_all is_file_char cs)"

definition filename_checked :: "string \<Rightarrow> string res" where
  "filename_checked value = (if safe_filename value then Inr value else storage_error ''UPLOAD_FILENAME_INVALID'')"

text \<open>\<open>_validate_transition_payload\<close>: what a record may carry in each state.\<close>

fun state_payload :: "raw_state \<Rightarrow> string option \<Rightarrow> dict option \<Rightarrow> dict option \<Rightarrow> string list \<Rightarrow> bool" where
  "state_payload RawValid schema structural semantic diagnostics =
     (schema \<noteq> None \<and> schema \<noteq> Some [] \<and> structural \<noteq> None \<and> semantic \<noteq> None \<and> diagnostics = [])"
| "state_payload Quarantined schema structural semantic diagnostics =
     (schema = None \<and> structural \<noteq> None \<and> semantic = None \<and> diagnostics \<noteq> [])"
| "state_payload Rejected schema structural semantic diagnostics =
     (schema = None \<and> structural = None \<and> semantic = None \<and> diagnostics \<noteq> [])"
| "state_payload _ schema structural semantic diagnostics =
     (schema = None \<and> structural = None \<and> semantic = None \<and> diagnostics = [])"

definition validate_transition_payload ::
  "raw_state \<Rightarrow> string option \<Rightarrow> dict option \<Rightarrow> dict option \<Rightarrow> string list \<Rightarrow> unit res" where
  "validate_transition_payload s schema structural semantic diagnostics =
     (if state_payload s schema structural semantic diagnostics then Inr ()
      else storage_error ''RAW_FILE_STATE_PAYLOAD_INVALID'')"

subsection \<open>Metadata files\<close>

definition jdict_opt :: "dict option \<Rightarrow> json" where
  "jdict_opt v = (case v of None \<Rightarrow> JNull | Some d \<Rightarrow> JObj d)"

definition record_document :: "raw_record \<Rightarrow> json" where
  "record_document r = JObj
     [(''raw_file_id'', JStr (rr_id r)), (''tenant_id'', JStr (rr_tenant r)), (''sha256'', JStr (rr_sha r)),
      (''size_bytes'', JInt (rr_size r)), (''sanitized_filename'', JStr (rr_filename r)), (''storage_key'', JStr (rr_key r)),
      (''state'', JStr (raw_state_value (rr_state r))), (''schema_id'', jopt (rr_schema r)),
      (''structural_fingerprint'', jdict_opt (rr_structural r)), (''semantic_fingerprint'', jdict_opt (rr_semantic r)),
      (''diagnostics'', JList (map JStr (rr_diagnostics r)))]"

text \<open>Without \<open>allow_nan=False\<close> the floats that are not finite are written by their JavaScript names.\<close>

primrec name_nonfinite :: "json \<Rightarrow> json" where
  "name_nonfinite JNull = JNull"
| "name_nonfinite (JBool b) = JBool b"
| "name_nonfinite (JInt i) = JInt i"
| "name_nonfinite (JFloat r) = JFloat (if r = ''nan'' then ''NaN'' else if r = ''inf'' then ''Infinity'' else if r = ''-inf'' then ''-Infinity'' else r)"
| "name_nonfinite (JStr s) = JStr s"
| "name_nonfinite (JList xs) = JList (map name_nonfinite xs)"
| "name_nonfinite (JObj d) = JObj (map (map_prod id name_nonfinite) d)"

definition record_payload :: "raw_record \<Rightarrow> string res" where
  "record_payload r =
     (let v = name_nonfinite (record_document r) in
      if json_ok v then Inr (utf8 (json_text v)) else Inl (ValueError ''Exceeds the limit for integer string conversion''))"

text \<open>Every exception below but \<open>OverflowError\<close> is translated to this one.\<close>

abbreviation bad_metadata :: "'a res" where
  "bad_metadata \<equiv> storage_error ''STORAGE_METADATA_INVALID''"

definition metadata_if :: "bool \<Rightarrow> unit res" where
  "metadata_if good = (if good then Inr () else bad_metadata)"

text \<open>
  \<open>int(value)\<close> of a field of the metadata. Of a float only the outcomes that no truncation gives
  are modelled; the storage writes none.
\<close>

definition size_field :: "json \<Rightarrow> int res" where
  "size_field v =
     (case v of
        JInt i \<Rightarrow> Inr i
      | JBool b \<Rightarrow> Inr (if b then 1 else 0)
      | JStr s \<Rightarrow> (case int10 s of None \<Rightarrow> bad_metadata | Some i \<Rightarrow> Inr i)
      | JFloat r \<Rightarrow> if r = ''nan'' then bad_metadata else if r = ''inf'' \<or> r = ''-inf'' then Inl OverflowError else Inl OutsideModel
      | _ \<Rightarrow> bad_metadata)"

text \<open>\<open>tuple(data.get("diagnostics", []))\<close>, then all of them strings.\<close>

definition diagnostics_field :: "json option \<Rightarrow> string list res" where
  "diagnostics_field v =
     (case v of
        None \<Rightarrow> Inr []
      | Some (JStr s) \<Rightarrow> Inr (map (\<lambda>c. [c]) s)
      | Some (JObj d) \<Rightarrow> Inr (map fst d)
      | Some (JList xs) \<Rightarrow> if list_all (\<lambda>x. jstr_opt x \<noteq> None) xs then Inr (map jstr xs) else bad_metadata
      | _ \<Rightarrow> bad_metadata)"

definition optional_field :: "(json \<Rightarrow> 'a option) \<Rightarrow> json \<Rightarrow> 'a option res" where
  "optional_field get v =
     (if v = JNull then Inr None else case get v of None \<Rightarrow> bad_metadata | Some x \<Rightarrow> Inr (Some x))"

definition dict_of :: "json \<Rightarrow> dict option" where
  "dict_of v = (case v of JObj d \<Rightarrow> Some d | _ \<Rightarrow> None)"

definition record_of_json :: "json \<Rightarrow> raw_record res" where
  "record_of_json v =
     (let d = jdict v in
      rbind (metadata_if (is_mapping v)) (\<lambda>_.
      rbind (case raw_id (jstr (dget d ''raw_file_id'')) of Inl e \<Rightarrow> bad_metadata | Inr x \<Rightarrow> Inr x) (\<lambda>rid.
      rbind (metadata_if (is_hash (dget d ''sha256'') \<and> has_key d ''tenant_id'')) (\<lambda>_.
      rbind (size_field (dget d ''size_bytes'')) (\<lambda>size.
      rbind (metadata_if (safe_filename (jstr (dget d ''sanitized_filename'')))) (\<lambda>_.
      rbind (case raw_state_of (dget d ''state'') of None \<Rightarrow> bad_metadata | Some s \<Rightarrow> Inr s) (\<lambda>s.
      rbind (diagnostics_field (map_of d ''diagnostics'')) (\<lambda>diagnostics.
      rbind (metadata_if (is_nonempty_string (dget d ''tenant_id'') \<and> 0 \<le> size)) (\<lambda>_.
      rbind (optional_field jstr_opt (dget d ''schema_id'')) (\<lambda>schema.
      rbind (optional_field dict_of (dget d ''structural_fingerprint'')) (\<lambda>structural.
      rbind (optional_field dict_of (dget d ''semantic_fingerprint'')) (\<lambda>semantic.
      rbind (metadata_if
        (dget d ''storage_key'' = JStr (storage_key (jstr (dget d ''tenant_id'')) (jstr (dget d ''sha256''))) \<and>
         state_payload s schema structural semantic diagnostics)) (\<lambda>_.
      Inr \<lparr>rr_id = rid, rr_tenant = jstr (dget d ''tenant_id''), rr_sha = jstr (dget d ''sha256''), rr_size = size,
        rr_filename = jstr (dget d ''sanitized_filename''), rr_key = jstr (dget d ''storage_key''), rr_state = s,
        rr_schema = schema, rr_structural = structural, rr_semantic = semantic, rr_diagnostics = diagnostics\<rparr>)))))))))))))"

definition record_from_payload :: "(string \<Rightarrow> string) \<Rightarrow> string \<Rightarrow> raw_record res" where
  "record_from_payload f payload =
     (case utf8_decode payload of
        Inl BadBytes \<Rightarrow> bad_metadata
      | Inl WideChar \<Rightarrow> Inl OutsideModel
      | Inr text \<Rightarrow>
          (case json_loads f text of
             Inr v \<Rightarrow> record_of_json v
           | Inl e \<Rightarrow> if e = Malformed \<or> e = TooManyDigits then bad_metadata else Inl OutsideModel))"

section \<open>The storage\<close>

record raw_store =
  s_contents :: "((string \<times> string) \<times> string) list"
  s_metadata :: "((string \<times> string) \<times> string) list"

definition new_storage :: raw_store where
  "new_storage = \<lparr>s_contents = [], s_metadata = []\<rparr>"

definition tenant_token :: "(string \<Rightarrow> string) \<Rightarrow> tenant \<Rightarrow> string" where
  "tenant_token h t = h (tenant_id t)"

text \<open>A content file is written when there is none; an existing one is only checked.\<close>

definition ensure_content ::
  "(string \<Rightarrow> string) \<Rightarrow> string \<times> string \<Rightarrow> string \<Rightarrow> raw_store \<Rightarrow> raw_store res" where
  "ensure_content sha key payload st =
     (case map_of (s_contents st) key of
        Some existing \<Rightarrow>
          if sha existing = snd key \<and> length existing = length payload then Inr st
          else storage_error ''STORAGE_INTEGRITY_FAILED''
      | None \<Rightarrow> Inr (st\<lparr>s_contents := AList.update key payload (s_contents st)\<rparr>))"

definition write_record :: "string \<times> string \<Rightarrow> raw_record \<Rightarrow> raw_store \<Rightarrow> raw_record res \<times> raw_store" where
  "write_record key r st =
     (case record_payload r of
        Inl e \<Rightarrow> (Inl e, st)
      | Inr payload \<Rightarrow> (Inr r, st\<lparr>s_metadata := AList.update key payload (s_metadata st)\<rparr>))"

definition received_record :: "tenant \<Rightarrow> string \<Rightarrow> string \<Rightarrow> string \<Rightarrow> string \<Rightarrow> raw_record" where
  "received_record t rid digest payload filename =
     \<lparr>rr_id = rid, rr_tenant = tenant_id t, rr_sha = digest, rr_size = int (length payload), rr_filename = filename,
       rr_key = storage_key (tenant_id t) digest, rr_state = Received, rr_schema = None, rr_structural = None,
       rr_semantic = None, rr_diagnostics = []\<rparr>"

definition check_upload ::
  "(string \<Rightarrow> string) \<Rightarrow> tenant \<Rightarrow> upload_receipt \<Rightarrow> string \<Rightarrow> (string \<times> string \<times> string) res" where
  "check_upload sha t receipt payload =
     (if u_tenant receipt \<noteq> tenant_id t then storage_error ''RAW_FILE_NOT_FOUND''
      else if payload = [] then storage_error ''UPLOAD_BYTES_REQUIRED''
      else rbind (filename_checked (u_filename receipt)) (\<lambda>filename.
        rbind (raw_id (u_id receipt)) (\<lambda>rid.
        if sha payload \<noteq> u_sha receipt \<or> int (length payload) \<noteq> u_size receipt then storage_error ''UPLOAD_RECEIPT_MISMATCH''
        else rbind (digest_checked (sha payload)) (\<lambda>digest. Inr (filename, rid, digest)))))"

definition same_upload :: "raw_record \<Rightarrow> raw_record \<Rightarrow> bool" where
  "same_upload a b \<longleftrightarrow> rr_id a = rr_id b \<and> rr_sha a = rr_sha b \<and> rr_tenant a = rr_tenant b \<and>
     rr_size a = rr_size b \<and> rr_filename a = rr_filename b"

definition store_upload ::
  "(string \<Rightarrow> string) \<Rightarrow> (string \<Rightarrow> string) \<Rightarrow> (string \<Rightarrow> string) \<Rightarrow> tenant \<Rightarrow> upload_receipt \<Rightarrow> string \<Rightarrow> raw_store \<Rightarrow>
     raw_record res \<times> raw_store" where
  "store_upload h sha f t receipt payload st =
     (case check_upload sha t receipt payload of
        Inl e \<Rightarrow> (Inl e, st)
      | Inr (filename, rid, digest) \<Rightarrow>
          let content_key = (tenant_token h t, digest); metadata_key = (tenant_token h t, rid);
              fresh = received_record t rid digest payload filename in
          (case map_of (s_metadata st) metadata_key of
             Some stored \<Rightarrow>
               (case record_from_payload f stored of
                  Inl e \<Rightarrow> (Inl e, st)
                | Inr existing \<Rightarrow>
                    if \<not> same_upload existing fresh then (storage_error ''STORAGE_METADATA_CONFLICT'', st)
                    else (case ensure_content sha content_key payload st of
                        Inl e \<Rightarrow> (Inl e, st)
                      | Inr st' \<Rightarrow> (Inr existing, st')))
           | None \<Rightarrow>
               (case ensure_content sha content_key payload st of
                  Inl e \<Rightarrow> (Inl e, st)
                | Inr st' \<Rightarrow> write_record metadata_key fresh st')))"

definition get_record ::
  "(string \<Rightarrow> string) \<Rightarrow> (string \<Rightarrow> string) \<Rightarrow> tenant \<Rightarrow> string \<Rightarrow> raw_store \<Rightarrow> raw_record res" where
  "get_record h f t value st =
     rbind (raw_id value) (\<lambda>rid.
     case map_of (s_metadata st) (tenant_token h t, rid) of
       None \<Rightarrow> storage_error ''RAW_FILE_NOT_FOUND''
     | Some payload \<Rightarrow>
         rbind (record_from_payload f payload) (\<lambda>r.
         if rr_tenant r \<noteq> tenant_id t then storage_error ''RAW_FILE_NOT_FOUND''
         else if rr_id r \<noteq> rid then bad_metadata else Inr r))"

definition read_upload ::
  "(string \<Rightarrow> string) \<Rightarrow> (string \<Rightarrow> string) \<Rightarrow> (string \<Rightarrow> string) \<Rightarrow> tenant \<Rightarrow> string \<Rightarrow> raw_store \<Rightarrow> string res" where
  "read_upload h sha f t value st =
     rbind (get_record h f t value st) (\<lambda>r.
     rbind (digest_checked (rr_sha r)) (\<lambda>digest.
     case map_of (s_contents st) (tenant_token h t, digest) of
       None \<Rightarrow> storage_error ''STORAGE_CONTENT_MISSING''
     | Some payload \<Rightarrow>
         if int (length payload) \<noteq> rr_size r \<or> sha payload \<noteq> rr_sha r then storage_error ''STORAGE_INTEGRITY_FAILED''
         else Inr payload))"

text \<open>\<open>content_path\<close>: the path of a checked file, here the key of its contents.\<close>

definition content_path ::
  "(string \<Rightarrow> string) \<Rightarrow> (string \<Rightarrow> string) \<Rightarrow> (string \<Rightarrow> string) \<Rightarrow> tenant \<Rightarrow> string \<Rightarrow> raw_store \<Rightarrow> (string \<times> string) res" where
  "content_path h sha f t value st =
     rbind (get_record h f t value st) (\<lambda>r.
     rbind (read_upload h sha f t value st) (\<lambda>_.
     rbind (digest_checked (rr_sha r)) (\<lambda>digest. Inr (tenant_token h t, digest))))"

text \<open>The part of a record that a transition sets.\<close>

record raw_outcome =
  ro_state :: raw_state
  ro_schema :: "string option"
  ro_structural :: "dict option"
  ro_semantic :: "dict option"
  ro_diagnostics :: "string list"

definition plain_outcome :: "raw_state \<Rightarrow> string list \<Rightarrow> raw_outcome" where
  "plain_outcome s diagnostics =
     \<lparr>ro_state = s, ro_schema = None, ro_structural = None, ro_semantic = None, ro_diagnostics = diagnostics\<rparr>"

definition with_outcome :: "raw_outcome \<Rightarrow> raw_record \<Rightarrow> raw_record" where
  "with_outcome new r =
     r\<lparr>rr_state := ro_state new, rr_schema := ro_schema new, rr_structural := ro_structural new,
       rr_semantic := ro_semantic new, rr_diagnostics := ro_diagnostics new\<rparr>"

definition transition_record ::
  "(string \<Rightarrow> string) \<Rightarrow> (string \<Rightarrow> string) \<Rightarrow> tenant \<Rightarrow> string \<Rightarrow> raw_outcome \<Rightarrow> raw_store \<Rightarrow> raw_record res \<times> raw_store" where
  "transition_record h f t value new st =
     (case rbind (get_record h f t value st) (\<lambda>current.
           if \<not> List.member (raw_transitions (rr_state current)) (ro_state new)
           then storage_error ''RAW_FILE_STATE_TRANSITION_INVALID''
           else rbind (validate_transition_payload (ro_state new) (ro_schema new) (ro_structural new) (ro_semantic new)
               (ro_diagnostics new)) (\<lambda>_.
             rbind (raw_id value) (\<lambda>rid. Inr (rid, with_outcome new current)))) of
        Inl e \<Rightarrow> (Inl e, st)
      | Inr (rid, updated) \<Rightarrow> write_record (tenant_token h t, rid) updated st)"

section \<open>The schema gate\<close>

record gate_result =
  gr_record :: raw_record
  gr_detection :: "schema_detection option"

text \<open>What the gate finds of a file: its outcome and the detection, or an exception.\<close>

definition judge ::
  "(string \<Rightarrow> string) \<Rightarrow> (string \<Rightarrow> string) \<Rightarrow> (string \<Rightarrow> string) \<Rightarrow> head_reader \<Rightarrow> tenant \<Rightarrow> string \<Rightarrow> raw_store \<Rightarrow>
     (raw_outcome \<times> schema_detection) res" where
  "judge h sha f read_head t value st =
     rbind (content_path h sha f t value st) (\<lambda>key.
     let payload = (case map_of (s_contents st) key of None \<Rightarrow> [] | Some x \<Rightarrow> x) in
     rbind (detect_csv_schema h read_head payload) (\<lambda>detection.
       if sd_status detection \<noteq> ''MATCHED'' then
         Inr (\<lparr>ro_state = Quarantined, ro_schema = None, ro_structural = Some (sd_structural detection), ro_semantic = None,
           ro_diagnostics = (if sd_diagnostics detection = [] then [''SCHEMA_UNKNOWN''] else sd_diagnostics detection)\<rparr>, detection)
       else rbind (decode_sig payload) (\<lambda>text.
         rbind (validated_rows text) (\<lambda>rows.
         Inr (\<lparr>ro_state = RawValid, ro_schema = sd_schema detection, ro_structural = Some (sd_structural detection),
           ro_semantic = Some (semantic_fingerprint h rows), ro_diagnostics = []\<rparr>, detection)))))"

text \<open>The exceptions the gate turns into a rejection.\<close>

definition rejection :: "exn \<Rightarrow> string option" where
  "rejection e =
     (case e of
        RawStorageError code \<Rightarrow> Some code
      | ValueError _ \<Rightarrow> Some ''CSV_SCHEMA_READ_FAILED''
      | CsvError \<Rightarrow> Some ''CSV_SCHEMA_READ_FAILED''
      | _ \<Rightarrow> None)"

definition settle ::
  "(string \<Rightarrow> string) \<Rightarrow> (string \<Rightarrow> string) \<Rightarrow> tenant \<Rightarrow> string \<Rightarrow> raw_outcome \<Rightarrow> schema_detection option \<Rightarrow> raw_store \<Rightarrow>
     gate_result res \<times> raw_store" where
  "settle h f t value outcome detection st =
     (case transition_record h f t value outcome st of
        (Inl e, st') \<Rightarrow> (Inl e, st')
      | (Inr r, st') \<Rightarrow> (Inr \<lparr>gr_record = r, gr_detection = detection\<rparr>, st'))"

definition validate_file ::
  "(string \<Rightarrow> string) \<Rightarrow> (string \<Rightarrow> string) \<Rightarrow> (string \<Rightarrow> string) \<Rightarrow> head_reader \<Rightarrow> tenant \<Rightarrow> string \<Rightarrow> raw_store \<Rightarrow>
     gate_result res \<times> raw_store" where
  "validate_file h sha f read_head t value st =
     (let attempt = (case judge h sha f read_head t value st of
            Inl e \<Rightarrow> (Inl e, st)
          | Inr (outcome, detection) \<Rightarrow> settle h f t value outcome (Some detection) st) in
      case attempt of
        (Inl e, st') \<Rightarrow>
          (case rejection e of
             None \<Rightarrow> (Inl e, st')
           | Some code \<Rightarrow> settle h f t value (plain_outcome Rejected [code]) None st')
      | _ \<Rightarrow> attempt)"

definition inspect_file ::
  "(string \<Rightarrow> string) \<Rightarrow> (string \<Rightarrow> string) \<Rightarrow> (string \<Rightarrow> string) \<Rightarrow> head_reader \<Rightarrow> tenant \<Rightarrow> string \<Rightarrow> raw_store \<Rightarrow>
     gate_result res \<times> raw_store" where
  "inspect_file h sha f read_head t value st =
     (case get_record h f t value st of
        Inl e \<Rightarrow> (Inl e, st)
      | Inr current \<Rightarrow>
          if List.member terminal_states (rr_state current)
          then (Inr \<lparr>gr_record = current, gr_detection = None\<rparr>, st)
          else if rr_state current = Received then
            (case transition_record h f t value (plain_outcome Validating []) st of
               (Inl e, st') \<Rightarrow> (Inl e, st')
             | (Inr _, st') \<Rightarrow> validate_file h sha f read_head t value st')
          else validate_file h sha f read_head t value st)"

end
