(* ===== verification/StorageSoundness.thy ===== *)
theory StorageSoundness imports RawStorage JsonRoundTrip begin

text \<open>
  The raw storage: metadata files read back, the invariant that every stored record has its bytes,
  and what operations never undo. Two steps build every reachable storage, an upload and a
  transition; an inspection is a sequence of transitions.
\<close>

section \<open>Metadata files\<close>

definition plain_dict :: "dict option \<Rightarrow> bool" where
  "plain_dict v \<longleftrightarrow> float_free (jdict_opt v) \<and> json_wf (jdict_opt v)"

definition sort_dict :: "dict \<Rightarrow> dict" where
  "sort_dict d = sort_key fst (map (map_prod id json_sort) d)"

text \<open>A record as it reads back: its fingerprints with sorted keys.\<close>

definition reread :: "raw_record \<Rightarrow> raw_record" where
  "reread r = r\<lparr>rr_structural := map_option sort_dict (rr_structural r), rr_semantic := map_option sort_dict (rr_semantic r)\<rparr>"

definition record_state_ok :: "raw_record \<Rightarrow> bool" where
  "record_state_ok r \<longleftrightarrow> state_payload (rr_state r) (rr_schema r) (rr_structural r) (rr_semantic r) (rr_diagnostics r)"

definition record_good :: "raw_record \<Rightarrow> bool" where
  "record_good r \<longleftrightarrow>
     (\<exists>n < 2 ^ 128. rr_id r = uuid_text n) \<and> hash_re (rr_sha r) \<and> rr_tenant r \<noteq> [] \<and> 0 \<le> rr_size r \<and>
     safe_filename (rr_filename r) \<and> rr_key r = storage_key (rr_tenant r) (rr_sha r) \<and> record_state_ok r \<and>
     plain_dict (rr_structural r) \<and> plain_dict (rr_semantic r)"

lemma name_nonfinite_plain: "float_free v \<Longrightarrow> name_nonfinite v = v"
proof (induction v)
  case (JList xs)
  then show ?case by (simp add: list_all_iff map_idI)
next
  case (JObj d)
  have "map (map_prod id name_nonfinite) d = map id d"
    using JObj by (intro map_cong) (auto simp: list_all_iff snds.simps)
  then show ?case by simp
qed simp_all

lemma float_free_dput_list [simp]: "float_free (JList (map JStr xs))" "json_wf (JList (map JStr xs))"
  by (simp_all add: list_all_iff)

lemma jopt_plain [simp]: "float_free (jopt v)" "json_wf (jopt v)"
  by (simp_all add: jopt_def split: option.split)

lemma document_plain:
  assumes "record_good r"
  shows "float_free (record_document r)" "json_wf (record_document r)"
  using assms by (simp_all add: record_good_def record_document_def plain_dict_def list_all_iff)

lemma state_read [simp]: "raw_state_of (JStr (raw_state_value s)) = Some s"
  by (cases s) (simp_all add: raw_state_of_def)

lemma sorted_fields [simp]:
  "json_sort (jopt v) = jopt v" "json_sort (jdict_opt w) = jdict_opt (map_option sort_dict w)"
  "optional_field jstr_opt (jopt v) = Inr v" "optional_field dict_of (jdict_opt w) = Inr w"
  by (simp_all add: jopt_def jdict_opt_def sort_dict_def optional_field_def jstr_opt_def dict_of_def split: option.split)

lemma raw_id_text: "n < 2 ^ 128 \<Longrightarrow> raw_id (uuid_text n) = Inr (uuid_text n)"
  by (simp add: raw_id_def uuid_int_text)

text \<open>Only the presence of the fingerprints matters to the state.\<close>

lemma state_payload_sort [simp]:
  "state_payload s schema (map_option f structural) (map_option g semantic) ds = state_payload s schema structural semantic ds"
  by (cases s) simp_all

lemma diagnostics_read [simp]: "diagnostics_field (Some (JList (map JStr xs))) = Inr xs"
proof -
  have "list_all (\<lambda>x. jstr_opt x \<noteq> None) (map JStr xs)" "map jstr (map JStr xs) = xs"
    by (simp_all add: list_all_iff jstr_opt_def jstr_def comp_def)
  then show ?thesis by (simp only: diagnostics_field_def option.case json.case if_True)
qed

lemma reread_eq:
  "reread r = \<lparr>rr_id = rr_id r, rr_tenant = rr_tenant r, rr_sha = rr_sha r, rr_size = rr_size r, rr_filename = rr_filename r,
     rr_key = rr_key r, rr_state = rr_state r, rr_schema = rr_schema r, rr_structural = map_option sort_dict (rr_structural r),
     rr_semantic = map_option sort_dict (rr_semantic r), rr_diagnostics = rr_diagnostics r\<rparr>"
  by (cases r) (simp add: reread_def)

lemma record_of_document:
  assumes "record_good r"
  shows "record_of_json (json_sort (record_document r)) = Inr (reread r)"
proof -
  obtain d where d: "record_document r = JObj d"
    and f: "d = jdict (record_document r)" by (simp add: record_document_def jdict_def)
  have fields: "dget d ''raw_file_id'' = JStr (rr_id r)" "dget d ''tenant_id'' = JStr (rr_tenant r)"
    "dget d ''sha256'' = JStr (rr_sha r)" "dget d ''size_bytes'' = JInt (rr_size r)"
    "dget d ''sanitized_filename'' = JStr (rr_filename r)" "dget d ''storage_key'' = JStr (rr_key r)"
    "dget d ''state'' = JStr (raw_state_value (rr_state r))" "dget d ''schema_id'' = jopt (rr_schema r)"
    "dget d ''structural_fingerprint'' = jdict_opt (rr_structural r)" "dget d ''semantic_fingerprint'' = jdict_opt (rr_semantic r)"
    "map_of d ''diagnostics'' = Some (JList (map JStr (rr_diagnostics r)))" "has_key d ''tenant_id''"
    by (simp_all add: f record_document_def jdict_def dget_def has_key_def)
  obtain n where n: "n < 2 ^ 128" "rr_id r = uuid_text n" using assms by (auto simp: record_good_def)
  have key: "has_key (sort_key fst (map (map_prod id json_sort) d)) ''tenant_id''"
    using fields(12) by (simp add: has_key_def map_of_map_prod)
  have diag: "map_of (map (map_prod id json_sort) d) ''diagnostics'' = Some (JList (map JStr (rr_diagnostics r)))"
    by (simp add: map_of_map_prod fields comp_def)
  show ?thesis
    using assms n(1) raw_id_text [OF n(1)]
    by (simp add: record_of_json_def d jdict_def is_mapping_def dget_sorted fields key diag n(2) jstr_def is_hash_def
        size_field_def metadata_if_def is_nonempty_string_def record_good_def record_state_ok_def
        reread_eq del: list.map_comp)
qed

theorem record_reads_back:
  assumes "record_good r" and "record_payload r = Inr payload"
  shows "record_from_payload f payload = Inr (reread r)"
proof -
  note plain = document_plain [OF assms(1)]
  have p: "json_ok (record_document r)" "payload = utf8 (json_text (record_document r))"
    using assms(2) by (auto simp: record_payload_def Let_def name_nonfinite_plain [OF plain(1)] split: if_splits)
  show ?thesis
    by (simp add: record_from_payload_def p(2) utf8_decode_written json_loads_written [OF plain(1) p(1) plain(2)] record_of_document [OF assms(1)])
qed

section \<open>The invariant\<close>

definition entry_ok :: "(string \<Rightarrow> string) \<Rightarrow> raw_store \<Rightarrow> string \<times> string \<Rightarrow> string \<Rightarrow> raw_record \<Rightarrow> string \<Rightarrow> bool" where
  "entry_ok h st key payload r bytes \<longleftrightarrow>
     record_payload r = Inr payload \<and> record_good r \<and> key = (h (rr_tenant r), rr_id r) \<and>
     map_of (s_contents st) (fst key, rr_sha r) = Some bytes \<and> int (length bytes) = rr_size r"

text \<open>Every metadata file is a good record whose bytes are there, and every content file has its digest.\<close>

definition storage_inv :: "(string \<Rightarrow> string) \<Rightarrow> (string \<Rightarrow> string) \<Rightarrow> raw_store \<Rightarrow> bool" where
  "storage_inv h sha st \<longleftrightarrow>
     (\<forall>key payload. map_of (s_metadata st) key = Some payload \<longrightarrow> (\<exists>r bytes. entry_ok h st key payload r bytes)) \<and>
     (\<forall>key bytes. map_of (s_contents st) key = Some bytes \<longrightarrow> sha bytes = snd key)"

text \<open>Content files stay, and so do records, up to a change of a state that is not final.\<close>

definition storage_le :: "(string \<Rightarrow> string) \<Rightarrow> raw_store \<Rightarrow> raw_store \<Rightarrow> bool" where
  "storage_le f st st' \<longleftrightarrow>
     map_of (s_contents st) \<subseteq>\<^sub>m map_of (s_contents st') \<and>
     (\<forall>key payload r. map_of (s_metadata st) key = Some payload \<longrightarrow> record_from_payload f payload = Inr r \<longrightarrow>
       (\<exists>payload' r'. map_of (s_metadata st') key = Some payload' \<and> record_from_payload f payload' = Inr r' \<and>
          same_upload r r' \<and> (rr_state r \<in> set terminal_states \<longrightarrow> r' = r)))"

inductive storage_step ::
  "(string \<Rightarrow> string) \<Rightarrow> (string \<Rightarrow> string) \<Rightarrow> (string \<Rightarrow> string) \<Rightarrow> raw_store \<Rightarrow> raw_store \<Rightarrow> bool" for h sha f where
  uploaded: "tenant_id t \<noteq> [] \<Longrightarrow> store_upload h sha f t receipt payload st = (m, st') \<Longrightarrow> storage_step h sha f st st'"
| moved: "plain_dict (ro_structural new) \<Longrightarrow> plain_dict (ro_semantic new) \<Longrightarrow>
     transition_record h f t value new st = (m, st') \<Longrightarrow> storage_step h sha f st st'"

lemma new_storage_inv: "storage_inv h sha new_storage"
  by (simp add: storage_inv_def new_storage_def)

lemma same_upload_refl [simp]: "same_upload r r"
  by (simp add: same_upload_def)

lemma storage_leD:
  assumes "storage_le f st st'"
  shows "map_of (s_contents st) \<subseteq>\<^sub>m map_of (s_contents st')"
    and "map_of (s_metadata st) key = Some payload \<Longrightarrow> record_from_payload f payload = Inr r \<Longrightarrow>
      \<exists>payload' r'. map_of (s_metadata st') key = Some payload' \<and> record_from_payload f payload' = Inr r' \<and>
        same_upload r r' \<and> (rr_state r \<in> set terminal_states \<longrightarrow> r' = r)"
  using assms unfolding storage_le_def by - (elim conjE; blast)+

lemma storage_leI:
  assumes "map_of (s_contents st) \<subseteq>\<^sub>m map_of (s_contents st')"
    and "\<And>key payload r. map_of (s_metadata st) key = Some payload \<Longrightarrow> record_from_payload f payload = Inr r \<Longrightarrow>
      \<exists>payload' r'. map_of (s_metadata st') key = Some payload' \<and> record_from_payload f payload' = Inr r' \<and>
        same_upload r r' \<and> (rr_state r \<in> set terminal_states \<longrightarrow> r' = r)"
  shows "storage_le f st st'"
  using assms by (simp add: storage_le_def)

lemma storage_le_refl: "storage_le f st st"
  by (rule storage_leI) auto

lemma storage_le_trans:
  assumes "storage_le f st su" and "storage_le f su sv"
  shows "storage_le f st sv"
proof -
  have "\<exists>payload' r'. map_of (s_metadata sv) key = Some payload' \<and> record_from_payload f payload' = Inr r' \<and>
      same_upload r r' \<and> (rr_state r \<in> set terminal_states \<longrightarrow> r' = r)"
    if m: "map_of (s_metadata st) key = Some payload" "record_from_payload f payload = Inr r" for key payload r
  proof -
    obtain p1 r1 where 1: "map_of (s_metadata su) key = Some p1" "record_from_payload f p1 = Inr r1" "same_upload r r1"
      "rr_state r \<in> set terminal_states \<longrightarrow> r1 = r" using storage_leD(2) [OF assms(1) m] by blast
    obtain p2 r2 where 2: "map_of (s_metadata sv) key = Some p2" "record_from_payload f p2 = Inr r2" "same_upload r1 r2"
      "rr_state r1 \<in> set terminal_states \<longrightarrow> r2 = r1" using storage_leD(2) [OF assms(2) 1(1,2)] by blast
    have "same_upload r r2" using 1(3) 2(3) by (simp add: same_upload_def)
    moreover have "rr_state r \<in> set terminal_states \<longrightarrow> r2 = r" using 1(4) 2(4) by metis
    ultimately show ?thesis using 2(1,2) by blast
  qed
  moreover have "map_of (s_contents st) \<subseteq>\<^sub>m map_of (s_contents sv)"
    using assms [THEN storage_leD(1)] by (rule map_le_trans)
  ultimately show ?thesis by (rule storage_leI [rotated])
qed

lemma reread_simps [simp]:
  "rr_id (reread r) = rr_id r" "rr_tenant (reread r) = rr_tenant r" "rr_sha (reread r) = rr_sha r" "rr_size (reread r) = rr_size r"
  "rr_filename (reread r) = rr_filename r" "rr_key (reread r) = rr_key r" "rr_state (reread r) = rr_state r"
  "rr_schema (reread r) = rr_schema r" "rr_diagnostics (reread r) = rr_diagnostics r"
  "rr_structural (reread r) = map_option sort_dict (rr_structural r)" "rr_semantic (reread r) = map_option sort_dict (rr_semantic r)"
  by (simp_all add: reread_def)

lemma raw_idD: "raw_id v = Inr rid \<Longrightarrow> \<exists>n < 2 ^ 128. rid = uuid_text n"
proof -
  assume "raw_id v = Inr rid"
  then obtain n where "uuid_int v = Some n" "rid = uuid_text n" by (auto simp: raw_id_def split: option.splits)
  then show ?thesis using uuid_int_bound by blast
qed

lemma get_recordD:
  assumes "storage_inv h sha st" and "get_record h f t v st = Inr r"
  obtains rid payload r0 bytes where "raw_id v = Inr rid" "map_of (s_metadata st) (tenant_token h t, rid) = Some payload"
    "entry_ok h st (tenant_token h t, rid) payload r0 bytes" "r = reread r0" "rr_id r0 = rid" "rr_tenant r0 = tenant_id t"
    "sha bytes = rr_sha r0"
proof -
  obtain rid payload where v: "raw_id v = Inr rid" "map_of (s_metadata st) (tenant_token h t, rid) = Some payload"
    "record_from_payload f payload = Inr r" "rr_tenant r = tenant_id t" "rr_id r = rid"
    using assms(2) by (auto simp: get_record_def res_simps split: option.splits)
  obtain r0 bytes where e: "entry_ok h st (tenant_token h t, rid) payload r0 bytes"
    using assms(1) v(2) unfolding storage_inv_def by blast
  then have "r = reread r0" using record_reads_back [of r0 payload f] v(3) by (simp add: entry_ok_def)
  moreover have "sha bytes = rr_sha r0" using e assms(1) unfolding storage_inv_def entry_ok_def by fastforce
  ultimately show ?thesis using that v e by simp
qed

lemma get_recordI:
  assumes "raw_id v = Inr rid" and "map_of (s_metadata st) (tenant_token h t, rid) = Some payload"
    and "record_from_payload f payload = Inr r" and "rr_tenant r = tenant_id t" and "rr_id r = rid"
  shows "get_record h f t v st = Inr r"
  using assms by (simp add: get_record_def)

lemma read_uploadI:
  assumes "storage_inv h sha st" and "get_record h f t v st = Inr r"
  shows "\<exists>bytes. read_upload h sha f t v st = Inr bytes \<and> sha bytes = rr_sha r \<and>
    map_of (s_contents st) (tenant_token h t, rr_sha r) = Some bytes"
proof -
  obtain rid payload r0 bytes where g: "entry_ok h st (tenant_token h t, rid) payload r0 bytes" "r = reread r0" "sha bytes = rr_sha r0"
    by (rule get_recordD [OF assms]) blast
  then have "digest_checked (rr_sha r) = Inr (rr_sha r)" by (simp add: entry_ok_def record_good_def digest_checked_def)
  then show ?thesis using g assms(2) by (auto simp: read_upload_def entry_ok_def)
qed

subsection \<open>Steps keep it\<close>

lemma write_record_step:
  assumes inv: "storage_inv h sha st" and good: "record_good r" and key: "key = (h (rr_tenant r), rr_id r)"
    and bytes: "map_of (s_contents st) (fst key, rr_sha r) = Some bytes" "int (length bytes) = rr_size r"
    and old: "\<And>payload r0. map_of (s_metadata st) key = Some payload \<Longrightarrow> record_from_payload f payload = Inr r0 \<Longrightarrow>
      same_upload r0 r \<and> rr_state r0 \<notin> set terminal_states"
    and w: "write_record key r st = (m, st')"
  shows "storage_inv h sha st'" and "storage_le f st st'"
proof -
  show "storage_inv h sha st'"
  proof (cases "record_payload r")
    case (Inr payload)
    with w have st': "st' = st\<lparr>s_metadata := AList.update key payload (s_metadata st)\<rparr>" by (simp add: write_record_def)
    have "\<exists>r bytes. entry_ok h st' k p r bytes" if "map_of (s_metadata st') k = Some p" for k p
    proof (cases "k = key")
      case True
      then have "entry_ok h st' k p r bytes" using that Inr good key bytes by (simp add: st' update_conv' entry_ok_def)
      then show ?thesis by blast
    next
      case False
      then have "map_of (s_metadata st) k = Some p" using that by (simp add: st' update_conv')
      then obtain r b where "entry_ok h st k p r b" using inv unfolding storage_inv_def by blast
      then have "entry_ok h st' k p r b" by (auto simp: entry_ok_def st')
      then show ?thesis by blast
    qed
    then show ?thesis using inv by (simp add: storage_inv_def st')
  qed (use w inv in \<open>simp add: write_record_def\<close>)
  show "storage_le f st st'"
  proof (cases "record_payload r")
    case (Inr payload)
    with w have st': "st' = st\<lparr>s_metadata := AList.update key payload (s_metadata st)\<rparr>" by (simp add: write_record_def)
    have "record_from_payload f payload = Inr (reread r)" by (rule record_reads_back [OF good Inr])
    then have "\<exists>payload' r'. map_of (s_metadata st') k = Some payload' \<and> record_from_payload f payload' = Inr r' \<and>
        same_upload r0 r' \<and> (rr_state r0 \<in> set terminal_states \<longrightarrow> r' = r0)"
      if "map_of (s_metadata st) k = Some p" "record_from_payload f p = Inr r0" for k p r0
      using that old [of p r0] by (cases "k = key") (auto simp: st' update_conv' same_upload_def)
    then show ?thesis by (intro storage_leI) (simp_all add: st')
  qed (use w storage_le_refl in \<open>simp add: write_record_def\<close>)
qed

lemma check_uploadD:
  assumes "check_upload sha t receipt payload = Inr (filename, rid, digest)"
  shows "raw_id (u_id receipt) = Inr rid" "filename = u_filename receipt" "safe_filename filename" "digest = sha payload" "hash_re digest"
    "payload \<noteq> []" "u_sha receipt = digest" "u_size receipt = int (length payload)" "u_tenant receipt = tenant_id t"
  using assms by (auto simp: check_upload_def filename_checked_def digest_checked_def res_simps split: if_splits)

lemma received_good:
  assumes "check_upload sha t receipt payload = Inr (filename, rid, digest)" and "tenant_id t \<noteq> []"
  shows "record_good (received_record t rid digest payload filename)"
proof -
  have "jdict_opt None = JNull" by (simp add: jdict_opt_def)
  then show ?thesis
    using check_uploadD [OF assms(1)] raw_idD [of "u_id receipt" rid] assms(2)
    by (simp add: record_good_def received_record_def record_state_ok_def plain_dict_def)
qed

lemma ensure_contentD:
  assumes "ensure_content sha key payload st = Inr st'" and "storage_inv h sha st" and "sha payload = snd key"
  shows "storage_inv h sha st'" and "storage_le f st st'" and "s_metadata st' = s_metadata st"
    and "\<exists>bytes. map_of (s_contents st') key = Some bytes \<and> length bytes = length payload"
    and "map_of (s_contents st) key = None \<Longrightarrow> map_of (s_contents st') key = Some payload"
proof -
  have c: "(\<exists>bytes. map_of (s_contents st) key = Some bytes \<and> length bytes = length payload \<and> st' = st) \<or>
      map_of (s_contents st) key = None \<and> st' = st\<lparr>s_contents := AList.update key payload (s_contents st)\<rparr>"
    using assms(1) by (auto simp: ensure_content_def split: option.splits if_splits)
  show "s_metadata st' = s_metadata st" using c by auto
  show "\<exists>bytes. map_of (s_contents st') key = Some bytes \<and> length bytes = length payload" using c by (auto simp: update_conv')
  show "map_of (s_contents st) key = None \<Longrightarrow> map_of (s_contents st') key = Some payload" using c by (auto simp: update_conv')
  have sub: "map_of (s_contents st) \<subseteq>\<^sub>m map_of (s_contents st')" using c by (auto simp: update_conv' map_le_def)
  show "storage_le f st st'" using sub \<open>s_metadata st' = s_metadata st\<close> by (intro storage_leI) auto
  have "\<exists>r b. entry_ok h st' k p r b" if "map_of (s_metadata st') k = Some p" for k p
  proof -
    have "map_of (s_metadata st) k = Some p" using that \<open>s_metadata st' = s_metadata st\<close> by simp
    then obtain r b where e: "entry_ok h st k p r b" using assms(2) unfolding storage_inv_def by blast
    then have "entry_ok h st' k p r b" using sub by (auto simp: entry_ok_def dest: map_leD)
    then show ?thesis by blast
  qed
  moreover have "sha b = snd k" if "map_of (s_contents st') k = Some b" for k b
  proof (cases "map_of (s_contents st) k = Some b")
    case True
    then show ?thesis using assms(2) unfolding storage_inv_def by blast
  next
    case False
    then have "k = key" "b = payload" using that c by (auto simp: update_conv' split: if_splits)
    then show ?thesis using assms(3) by simp
  qed
  ultimately show "storage_inv h sha st'" unfolding storage_inv_def by blast
qed

lemma upload_step:
  assumes "storage_inv h sha st" and "tenant_id t \<noteq> []" and "store_upload h sha f t receipt payload st = (m, st')"
  shows "storage_inv h sha st' \<and> storage_le f st st'"
proof (cases "check_upload sha t receipt payload")
  case (Inr x)
  obtain filename rid digest where x: "check_upload sha t receipt payload = Inr (filename, rid, digest)" using Inr by (cases x) auto
  note up = check_uploadD [OF x]
  note good = received_good [OF x assms(2)]
  define key where "key = (tenant_token h t, rid)"
  define fresh where "fresh = received_record t rid digest payload filename"
  note result = assms(3) [unfolded store_upload_def x sum.case prod.case Let_def, folded key_def fresh_def]
  show ?thesis
  proof (cases "ensure_content sha (tenant_token h t, digest) payload st")
    case (Inl e)
    then have "st' = st" using result by (auto split: option.splits sum.splits if_splits)
    then show ?thesis using assms(1) storage_le_refl by simp
  next
    case (Inr su)
    note ec = ensure_contentD [OF Inr assms(1)]
    have su: "storage_inv h sha su" "storage_le f st su" using ec up(4) by auto
    show ?thesis
    proof (cases "map_of (s_metadata st) key")
      case (Some stored)
      then have "st' = st \<or> st' = su" using result Inr by (auto split: sum.splits if_splits)
      then show ?thesis using assms(1) storage_le_refl su by blast
    next
      case None
      obtain bytes where b: "map_of (s_contents su) (tenant_token h t, digest) = Some bytes" "length bytes = length payload"
        using ec(4) up(4) by auto
      have w: "write_record key fresh su = (m, st')" using result None Inr by simp
      have "storage_inv h sha st'" "storage_le f su st'"
        using write_record_step [OF su(1) good [folded fresh_def] _ _ _ _ w, of bytes f] b None ec(3) up(4)
        by (simp_all add: key_def fresh_def received_record_def tenant_token_def)
      then show ?thesis using su(2) storage_le_trans by blast
    qed
  qed
qed (use assms storage_le_refl in \<open>simp add: store_upload_def\<close>)

lemma moved_good:
  assumes "record_good r" and "plain_dict (ro_structural new)" and "plain_dict (ro_semantic new)"
    and "state_payload (ro_state new) (ro_schema new) (ro_structural new) (ro_semantic new) (ro_diagnostics new)"
  shows "record_good (with_outcome new (reread r))"
  using assms by (simp add: record_good_def with_outcome_def record_state_ok_def)

lemma transitions_from: "List.member (raw_transitions s) u \<Longrightarrow> s \<notin> set terminal_states"
  by (cases s) (simp_all add: terminal_states_def)

text \<open>What a transition writes when it gets that far.\<close>

lemma transition_cases:
  assumes "storage_inv h sha st" and "transition_record h f t value new st = (m, st')"
  obtains "st' = st" "\<exists>e. m = Inl e"
  | rid payload r0 bytes where "raw_id value = Inr rid" "get_record h f t value st = Inr (reread r0)"
      "entry_ok h st (tenant_token h t, rid) payload r0 bytes" "map_of (s_metadata st) (tenant_token h t, rid) = Some payload"
      "rr_id r0 = rid" "rr_tenant r0 = tenant_id t" "rr_state r0 \<notin> set terminal_states"
      "List.member (raw_transitions (rr_state r0)) (ro_state new)"
      "state_payload (ro_state new) (ro_schema new) (ro_structural new) (ro_semantic new) (ro_diagnostics new)"
      "write_record (tenant_token h t, rid) (with_outcome new (reread r0)) st = (m, st')"
proof (cases "get_record h f t value st")
  case (Inl e)
  then have "st' = st" "m = Inl e" using assms(2) by (simp_all add: transition_record_def)
  then show ?thesis using that(1) by blast
next
  case (Inr r)
  obtain rid payload r0 bytes where g: "raw_id value = Inr rid" "map_of (s_metadata st) (tenant_token h t, rid) = Some payload"
    "entry_ok h st (tenant_token h t, rid) payload r0 bytes" "r = reread r0" "rr_id r0 = rid" "rr_tenant r0 = tenant_id t"
    by (rule get_recordD [OF assms(1) Inr]) blast
  note eq = assms(2) [unfolded transition_record_def Inr rbind.simps g(1)]
  show ?thesis
  proof (cases "List.member (raw_transitions (rr_state r)) (ro_state new) \<and>
      state_payload (ro_state new) (ro_schema new) (ro_structural new) (ro_semantic new) (ro_diagnostics new)")
    case True
    then have ok: "List.member (raw_transitions (rr_state r0)) (ro_state new)"
      "state_payload (ro_state new) (ro_schema new) (ro_structural new) (ro_semantic new) (ro_diagnostics new)"
      by (simp_all only: g(4) reread_simps)
    have w: "write_record (tenant_token h t, rid) (with_outcome new (reread r0)) st = (m, st')"
      using eq ok by (simp add: validate_transition_payload_def g(4))
    show ?thesis
      by (rule that(2) [OF g(1) Inr [unfolded g(4)] g(3,2,5,6) transitions_from [OF ok(1)] ok w])
  next
    case False
    then show ?thesis using that(1) eq by (auto simp: validate_transition_payload_def split: if_splits)
  qed
qed

lemma transition_step:
  assumes "storage_inv h sha st" and "plain_dict (ro_structural new)" and "plain_dict (ro_semantic new)"
    and "transition_record h f t value new st = (m, st')"
  shows "storage_inv h sha st' \<and> storage_le f st st'"
proof (rule transition_cases [OF assms(1,4)])
  fix rid payload r0 bytes
  assume g: "entry_ok h st (tenant_token h t, rid) payload r0 bytes" "map_of (s_metadata st) (tenant_token h t, rid) = Some payload"
      "rr_id r0 = rid" "rr_tenant r0 = tenant_id t" "rr_state r0 \<notin> set terminal_states"
      "state_payload (ro_state new) (ro_schema new) (ro_structural new) (ro_semantic new) (ro_diagnostics new)"
    and w: "write_record (tenant_token h t, rid) (with_outcome new (reread r0)) st = (m, st')"
  have good: "record_good r0" "record_payload r0 = Inr payload" using g(1) by (auto simp: entry_ok_def)
  have reads: "record_from_payload f payload = Inr (reread r0)" by (rule record_reads_back [OF good])
  have old: "same_upload r1 (with_outcome new (reread r0)) \<and> rr_state r1 \<notin> set terminal_states"
    if "map_of (s_metadata st) (tenant_token h t, rid) = Some p" "record_from_payload f p = Inr r1" for p r1
    using that g(2,5) reads by (simp add: same_upload_def with_outcome_def)
  have at: "(tenant_token h t, rid) = (h (rr_tenant (with_outcome new (reread r0))), rr_id (with_outcome new (reread r0)))"
    "map_of (s_contents st) (fst (tenant_token h t, rid), rr_sha (with_outcome new (reread r0))) = Some bytes"
    "int (length bytes) = rr_size (with_outcome new (reread r0))"
    using g(1,3,4) by (simp_all add: entry_ok_def tenant_token_def with_outcome_def)
  show ?thesis
    using write_record_step [OF assms(1) moved_good [OF good(1) assms(2,3) g(6)] at _ w, of f] old by blast
qed (use assms(1) storage_le_refl in simp)

lemma storage_step_inv:
  "storage_inv h sha st \<Longrightarrow> storage_step h sha f st st' \<Longrightarrow> storage_inv h sha st' \<and> storage_le f st st'"
  by (erule storage_step.cases) (use upload_step transition_step in blast)+

interpretation storage: monotone_system "storage_step h sha f" "storage_inv h sha" "storage_le f" for h sha f
  by unfold_locales (auto dest: storage_step_inv intro: storage_le_refl storage_le_trans)

abbreviation storage_built ::
  "(string \<Rightarrow> string) \<Rightarrow> (string \<Rightarrow> string) \<Rightarrow> (string \<Rightarrow> string) \<Rightarrow> raw_store \<Rightarrow> bool" where
  "storage_built h sha f st \<equiv> (storage_step h sha f)\<^sup>*\<^sup>* new_storage st"

lemma built_inv: "storage_built h sha f st \<Longrightarrow> storage_inv h sha st"
  by (rule storage.steps_inv [OF _ new_storage_inv])

section \<open>Inspections are transitions\<close>

lemma plain_None [simp]: "plain_dict None"
  by (simp add: plain_dict_def jdict_opt_def)

lemma plain_outcome_plain [simp]:
  "ro_state (plain_outcome s ds) = s" "plain_dict (ro_structural (plain_outcome s ds))" "plain_dict (ro_semantic (plain_outcome s ds))"
  by (simp_all add: plain_outcome_def)

lemma plain_sealed: "float_free (JObj d) \<Longrightarrow> json_wf (JObj d) \<Longrightarrow> plain_dict (Some (sealed_descriptor h d))"
  by (simp add: plain_dict_def jdict_opt_def sealed_descriptor_def del: json_wf_obj) simp

lemma plain_structural: "plain_dict (Some (sealed_descriptor h (structural_descriptor k)))"
  by (rule plain_sealed) (simp_all add: structural_descriptor_def list_all_iff)

lemma grouped_plain [simp]: "float_free (JObj (grouped entries))" "json_wf (JObj (grouped entries))"
  by (simp_all add: grouped_def list_all_iff comp_def)

lemma plain_triple:
  "float_free u \<Longrightarrow> float_free v \<Longrightarrow> float_free (JObj [(a, u), (b, v), (c, JInt i)])"
  "json_wf u \<Longrightarrow> json_wf v \<Longrightarrow> distinct [a, b, c] \<Longrightarrow> json_wf (JObj [(a, u), (b, v), (c, JInt i)])"
  by simp_all

lemma plain_semantic: "plain_dict (Some (semantic_fingerprint h rows))"
  unfolding semantic_fingerprint_def semantic_descriptor_def
  by (intro plain_sealed plain_triple grouped_plain) simp

text \<open>What the gate may find.\<close>

definition schema_checked :: "(string \<Rightarrow> string) \<Rightarrow> head_reader \<Rightarrow> string \<Rightarrow> string option \<Rightarrow> dict option \<Rightarrow> dict option \<Rightarrow> bool" where
  "schema_checked h read_head bytes schema structural semantic \<longleftrightarrow>
     schema = Some wb_synthetic_schema_id \<and>
     (\<exists>k text rows. read_head bytes = Inr k \<and> ch_headers k = wb_synthetic_headers \<and> decode_sig bytes = Inr text \<and>
        validated_rows text = Inr rows \<and> structural = Some (sealed_descriptor h (structural_descriptor k)) \<and>
        semantic = Some (semantic_fingerprint h rows))"

lemma judgeD:
  assumes "judge h sha f read_head t v st = Inr (new, detection)"
  shows "plain_dict (ro_structural new)" "plain_dict (ro_semantic new)"
    "state_payload (ro_state new) (ro_schema new) (ro_structural new) (ro_semantic new) (ro_diagnostics new)"
    "ro_state new \<in> set [RawValid, Quarantined]"
    "ro_state new = RawValid \<Longrightarrow> \<exists>key. content_path h sha f t v st = Inr key \<and>
       schema_checked h read_head (case map_of (s_contents st) key of None \<Rightarrow> [] | Some x \<Rightarrow> x) (ro_schema new) (ro_structural new) (ro_semantic new)"
proof -
  obtain key k where j: "content_path h sha f t v st = Inr key"
    "read_head (case map_of (s_contents st) key of None \<Rightarrow> [] | Some x \<Rightarrow> x) = Inr k"
    using assms by (auto simp: judge_def detect_csv_schema_def structural_fingerprint_def Let_def res_simps)
  define payload where "payload = (case map_of (s_contents st) key of None \<Rightarrow> [] | Some x \<Rightarrow> x)"
  note eq = assms [unfolded judge_def j(1) rbind.simps Let_def, folded payload_def,
      unfolded detect_csv_schema_def structural_fingerprint_def j(2) [folded payload_def] rbind.simps prod.case]
  have all: "plain_dict (ro_structural new) \<and> plain_dict (ro_semantic new) \<and>
    state_payload (ro_state new) (ro_schema new) (ro_structural new) (ro_semantic new) (ro_diagnostics new) \<and>
    ro_state new \<in> set [RawValid, Quarantined] \<and>
    (ro_state new = RawValid \<longrightarrow> schema_checked h read_head payload (ro_schema new) (ro_structural new) (ro_semantic new))"
  proof (cases "ch_headers k = wb_synthetic_headers")
    case True
    then obtain body rows where "decode_sig payload = Inr body" "validated_rows body = Inr rows"
      "new = \<lparr>ro_state = RawValid, ro_schema = Some wb_synthetic_schema_id,
        ro_structural = Some (sealed_descriptor h (structural_descriptor k)), ro_semantic = Some (semantic_fingerprint h rows), ro_diagnostics = []\<rparr>"
      using eq by (auto simp: res_simps)
    then show ?thesis using True j(2) [folded payload_def]
      by (simp add: plain_structural plain_semantic schema_checked_def wb_synthetic_schema_id_def)
  next
    case False
    then have "new = \<lparr>ro_state = Quarantined, ro_schema = None, ro_structural = Some (sealed_descriptor h (structural_descriptor k)),
        ro_semantic = None, ro_diagnostics = (if header_diagnostics (ch_headers k) = [] then [''SCHEMA_UNKNOWN''] else header_diagnostics (ch_headers k))\<rparr>"
      using eq by (simp cong: if_cong)
    then show ?thesis by (simp add: plain_structural)
  qed
  then show "plain_dict (ro_structural new)" "plain_dict (ro_semantic new)"
    "state_payload (ro_state new) (ro_schema new) (ro_structural new) (ro_semantic new) (ro_diagnostics new)"
    "ro_state new \<in> set [RawValid, Quarantined]" by simp_all
  show "\<exists>key. content_path h sha f t v st = Inr key \<and>
       schema_checked h read_head (case map_of (s_contents st) key of None \<Rightarrow> [] | Some x \<Rightarrow> x) (ro_schema new) (ro_structural new) (ro_semantic new)"
    if "ro_state new = RawValid" using all that j(1) unfolding payload_def by blast
qed

lemma settle_moves:
  assumes "plain_dict (ro_structural new)" and "plain_dict (ro_semantic new)" and "settle h f t v new d st = (m, st')"
  shows "storage_step h sha f st st'"
proof -
  have "\<exists>x. transition_record h f t v new st = (x, st')" using assms(3) by (auto simp: settle_def split: prod.splits sum.splits)
  then show ?thesis using assms(1,2) by (auto intro: storage_step.moved)
qed

lemma validate_file_moves:
  assumes "validate_file h sha f read_head t v st = (m, st')"
  shows "(storage_step h sha f)\<^sup>*\<^sup>* st st'"
proof -
  define attempt where "attempt = (case judge h sha f read_head t v st of Inl e \<Rightarrow> (Inl e, st)
      | Inr (outcome, detection) \<Rightarrow> settle h f t v outcome (Some detection) st)"
  obtain x su where a: "attempt = (x, su)" by fastforce
  have first: "(storage_step h sha f)\<^sup>*\<^sup>* st su"
  proof (cases "judge h sha f read_head t v st")
    case (Inr p)
    obtain new d where p: "p = (new, d)" by fastforce
    have "settle h f t v new (Some d) st = (x, su)" using a Inr p by (simp add: attempt_def)
    then show ?thesis using settle_moves judgeD(1,2) [OF Inr [unfolded p]] by blast
  qed (use a in \<open>simp add: attempt_def\<close>)
  have "su = st' \<or> (\<exists>code. settle h f t v (plain_outcome Rejected [code]) None su = (m, st'))"
    using assms [unfolded validate_file_def Let_def, folded attempt_def] unfolding a
    by (auto split: sum.splits option.splits)
  then have "(storage_step h sha f)\<^sup>*\<^sup>* su st'" using settle_moves [of "plain_outcome Rejected [_]"] by (auto simp: plain_outcome_def)
  then show ?thesis using first by (rule rtranclp_trans [rotated])
qed

theorem inspect_moves:
  assumes "inspect_file h sha f read_head t v st = (m, st')"
  shows "(storage_step h sha f)\<^sup>*\<^sup>* st st'"
proof -
  consider "st' = st" | x su where "transition_record h f t v (plain_outcome Validating []) st = (x, su)" "su = st'"
    | x su where "transition_record h f t v (plain_outcome Validating []) st = (x, su)" "validate_file h sha f read_head t v su = (m, st')"
    | "validate_file h sha f read_head t v st = (m, st')"
    using assms by (auto simp: inspect_file_def split: sum.splits if_splits prod.splits)
  then show ?thesis
  proof cases
    case (2 x su)
    have "storage_step h sha f st su" by (rule storage_step.moved [OF _ _ 2(1)]) simp_all
    then show ?thesis using 2(2) by blast
  next
    case (3 x su)
    have "storage_step h sha f st su" by (rule storage_step.moved [OF _ _ 3(1)]) simp_all
    then show ?thesis using validate_file_moves [OF 3(2)] by (rule converse_rtranclp_into_rtranclp)
  qed (auto intro: validate_file_moves)
qed

end
