(* ===== verification/StorageProperties.thy ===== *)
theory StorageProperties imports StorageSoundness begin

text \<open>
  What the raw storage promises: uploaded bytes stay readable, final states stay, an inspection
  decides every file, a file is valid only by its schema, and every receipt can be stored.
\<close>

section \<open>Bytes and final states\<close>

lemma write_record_Inr:
  assumes "write_record key r st = (Inr x, st')"
  shows "x = r" "\<exists>payload. record_payload r = Inr payload \<and> map_of (s_metadata st') key = Some payload"
    "s_contents st' = s_contents st"
  using assms by (auto simp: write_record_def update_conv' split: sum.splits)

lemma get_record_later:
  assumes "storage_inv h sha st" and "storage_le f st st'" and "get_record h f t v st = Inr r"
  shows "\<exists>r'. get_record h f t v st' = Inr r' \<and> same_upload r r' \<and> (rr_state r \<in> set terminal_states \<longrightarrow> r' = r)"
proof -
  obtain rid payload where g: "raw_id v = Inr rid" "map_of (s_metadata st) (tenant_token h t, rid) = Some payload"
    "record_from_payload f payload = Inr r" "rr_tenant r = tenant_id t" "rr_id r = rid"
    using assms(3) by (auto simp: get_record_def res_simps split: option.splits)
  obtain payload' r' where later: "map_of (s_metadata st') (tenant_token h t, rid) = Some payload'"
    "record_from_payload f payload' = Inr r'" "same_upload r r'" "rr_state r \<in> set terminal_states \<longrightarrow> r' = r"
    using storage_leD(2) [OF assms(2) g(2,3)] by blast
  have "get_record h f t v st' = Inr r'"
    using later(3) g(4,5) by (intro get_recordI [OF g(1) later(1,2)]) (simp_all add: same_upload_def)
  then show ?thesis using later(3,4) by blast
qed

lemma store_upload_Inr:
  assumes "storage_inv h sha st" and "tenant_id t \<noteq> []" and "store_upload h sha f t receipt payload st = (Inr r, st')"
  shows "\<exists>r'. get_record h f t (rr_id r) st' = Inr r' \<and> same_upload r r' \<and> rr_sha r = sha payload \<and> rr_size r = int (length payload)"
proof -
  obtain filename rid digest where x: "check_upload sha t receipt payload = Inr (filename, rid, digest)"
    using assms(3) by (cases "check_upload sha t receipt payload") (auto simp: store_upload_def)
  note up = check_uploadD [OF x]
  note good = received_good [OF x assms(2)]
  define key where "key = (tenant_token h t, rid)"
  define fresh where "fresh = received_record t rid digest payload filename"
  note result = assms(3) [unfolded store_upload_def x sum.case prod.case Let_def, folded key_def fresh_def]
  have fresh: "rr_id fresh = rid" "rr_sha fresh = sha payload" "rr_size fresh = int (length payload)" "rr_tenant fresh = tenant_id t"
    using up(4) by (simp_all add: fresh_def received_record_def)
  obtain n where n: "n < 2 ^ 128" "rid = uuid_text n" using raw_idD [OF up(1)] by blast
  have rid: "raw_id rid = Inr rid" unfolding n(2) by (rule raw_id_text [OF n(1)])
  obtain su where su: "ensure_content sha (tenant_token h t, digest) payload st = Inr su"
    using result by (cases "ensure_content sha (tenant_token h t, digest) payload st") (auto split: option.splits sum.splits if_splits)
  have same: "s_metadata su = s_metadata st" using ensure_contentD(3) [OF su assms(1)] up(4) by simp
  show ?thesis
  proof (cases "map_of (s_metadata st) key")
    case None
    then have w: "write_record key fresh su = (Inr r, st')" using result su by simp
    obtain p where p: "record_payload fresh = Inr p" "map_of (s_metadata st') key = Some p" "r = fresh"
      using write_record_Inr [OF w] by blast
    have "get_record h f t rid st' = Inr (reread fresh)"
      by (rule get_recordI [OF rid p(2) [unfolded key_def] record_reads_back [OF good [folded fresh_def] p(1)]]) (simp_all add: fresh)
    then show ?thesis using fresh p(3) by (auto simp: same_upload_def)
  next
    case (Some stored)
    obtain existing where e: "record_from_payload f stored = Inr existing" using result Some by (auto split: sum.splits)
    have eq: "same_upload existing fresh" "r = existing" "st' = su" using result Some e su by (auto split: if_splits)
    have "get_record h f t rid st' = Inr existing"
      using eq(1) Some fresh by (intro get_recordI [OF rid _ e]) (simp_all add: eq(3) same key_def same_upload_def)
    then show ?thesis using eq fresh by (auto simp: same_upload_def)
  qed
qed

text \<open>
  C23: after an upload, whatever anybody uploads or moves, the file is there under its identifier with
  the same digest, size and name, and its bytes read back with that digest and length.
\<close>

theorem uploaded_bytes_stay:
  assumes "storage_built h sha f st" and "tenant_id t \<noteq> []"
    and "store_upload h sha f t receipt payload st = (Inr r, st')" and "(storage_step h sha f)\<^sup>*\<^sup>* st' su"
  shows "\<exists>r' bytes. get_record h f t (rr_id r) su = Inr r' \<and> same_upload r r' \<and>
    read_upload h sha f t (rr_id r) su = Inr bytes \<and> sha bytes = sha payload \<and> length bytes = length payload"
proof -
  have inv: "storage_inv h sha st" by (rule built_inv [OF assms(1)])
  have inv': "storage_inv h sha st'" using upload_step [OF inv assms(2,3)] by blast
  note later = storage.steps_inv [OF assms(4) inv'] storage.steps_before [OF assms(4) inv']
  obtain r1 where r1: "get_record h f t (rr_id r) st' = Inr r1" "same_upload r r1" "rr_sha r = sha payload" "rr_size r = int (length payload)"
    using store_upload_Inr [OF inv assms(2,3)] by blast
  obtain r2 where r2: "get_record h f t (rr_id r) su = Inr r2" "same_upload r1 r2"
    using get_record_later [OF inv' later(2) r1(1)] by blast
  obtain bytes where b: "read_upload h sha f t (rr_id r) su = Inr bytes" "sha bytes = rr_sha r2"
    using read_uploadI [OF later(1) r2(1)] by blast
  have "int (length bytes) = rr_size r2" using b(1) r2(1) by (auto simp: read_upload_def res_simps split: option.splits if_splits)
  then show ?thesis using r1 r2 b by (auto simp: same_upload_def)
qed

text \<open>
  C26: a record in a final state stays as it is, no transition changes it, and an inspection only
  returns it.
\<close>

theorem final_records_stay:
  assumes "storage_built h sha f st" and "get_record h f t v st = Inr r" and "rr_state r \<in> set terminal_states"
    and "(storage_step h sha f)\<^sup>*\<^sup>* st su"
  shows "get_record h f t v su = Inr r \<and>
    (\<forall>new. transition_record h f t v new su = (storage_error ''RAW_FILE_STATE_TRANSITION_INVALID'', su)) \<and>
    inspect_file h sha f read_head t v su = (Inr \<lparr>gr_record = r, gr_detection = None\<rparr>, su)"
proof -
  have inv: "storage_inv h sha st" by (rule built_inv [OF assms(1)])
  have g: "get_record h f t v su = Inr r"
    using get_record_later [OF inv storage.steps_before [OF assms(4) inv] assms(2)] assms(3) by blast
  have "raw_transitions (rr_state r) = []" using assms(3) by (auto simp: terminal_states_def)
  then show ?thesis using g assms(3) by (simp add: transition_record_def inspect_file_def)
qed

section \<open>Inspections\<close>

lemma transition_Inr:
  assumes "storage_inv h sha st" and "plain_dict (ro_structural new)" and "plain_dict (ro_semantic new)"
    and "transition_record h f t v new st = (Inr r, st')"
  shows "get_record h f t v st' = Inr (reread r)" "rr_state r = ro_state new" "s_contents st' = s_contents st"
    "\<exists>r0. get_record h f t v st = Inr r0 \<and> r = with_outcome new r0"
proof -
  have "get_record h f t v st' = Inr (reread r) \<and> rr_state r = ro_state new \<and> s_contents st' = s_contents st \<and>
    (\<exists>r0. get_record h f t v st = Inr r0 \<and> r = with_outcome new r0)"
  proof (rule transition_cases [OF assms(1,4)])
    fix rid payload r0 bytes
    assume g: "raw_id v = Inr rid" "get_record h f t v st = Inr (reread r0)" "entry_ok h st (tenant_token h t, rid) payload r0 bytes"
      "rr_id r0 = rid" "rr_tenant r0 = tenant_id t"
      "state_payload (ro_state new) (ro_schema new) (ro_structural new) (ro_semantic new) (ro_diagnostics new)"
      and w: "write_record (tenant_token h t, rid) (with_outcome new (reread r0)) st = (Inr r, st')"
    note wr = write_record_Inr [OF w]
    obtain p where p: "record_payload r = Inr p" "map_of (s_metadata st') (tenant_token h t, rid) = Some p" using wr by blast
    have good: "record_good r" using moved_good [OF _ assms(2,3) g(6)] g(3) wr(1) by (simp add: entry_ok_def)
    have "get_record h f t v st' = Inr (reread r)"
      by (rule get_recordI [OF g(1) p(2) record_reads_back [OF good p(1)]]) (use g wr(1) in \<open>simp_all add: with_outcome_def\<close>)
    then show ?thesis using wr g(2) by (auto simp: with_outcome_def)
  qed auto
  then show "get_record h f t v st' = Inr (reread r)" "rr_state r = ro_state new" "s_contents st' = s_contents st"
    "\<exists>r0. get_record h f t v st = Inr r0 \<and> r = with_outcome new r0" by blast+
qed

lemma write_record_Inl: "write_record key r st = (Inl e, st') \<Longrightarrow> st' = st \<and> (\<exists>s. e = ValueError s)"
  by (auto simp: write_record_def record_payload_def Let_def split: sum.splits if_splits)

lemma transition_goes:
  assumes "get_record h f t v st = Inr r" and "List.member (raw_transitions (rr_state r)) (ro_state new)"
    and "state_payload (ro_state new) (ro_schema new) (ro_structural new) (ro_semantic new) (ro_diagnostics new)"
  shows "\<exists>rid. transition_record h f t v new st = write_record (tenant_token h t, rid) (with_outcome new r) st"
proof -
  obtain rid where rid: "raw_id v = Inr rid" using assms(1) by (auto simp: get_record_def res_simps)
  show ?thesis using assms by (simp add: transition_record_def validate_transition_payload_def rid) blast
qed

lemma read_upload_same:
  assumes "get_record h f t v st = Inr r" and "get_record h f t v st' = Inr r'" and "rr_sha r' = rr_sha r" and "rr_size r' = rr_size r"
    and "s_contents st' = s_contents st"
  shows "read_upload h sha f t v st' = read_upload h sha f t v st"
  using assms by (simp add: read_upload_def cong: option.case_cong)

text \<open>A move without fingerprints always succeeds: the size was written before.\<close>

lemma plain_move:
  assumes "storage_inv h sha st" and "get_record h f t v st = Inr r" and "List.member (raw_transitions (rr_state r)) s"
    and "state_payload s None None None ds"
  shows "\<exists>r' st'. transition_record h f t v (plain_outcome s ds) st = (Inr r', st')"
proof -
  obtain rid payload r0 bytes where g: "raw_id v = Inr rid" "entry_ok h st (tenant_token h t, rid) payload r0 bytes" "r = reread r0"
    by (rule get_recordD [OF assms(1,2)]) blast
  have size: "json_ok (JInt (rr_size r))"
    using g(2,3) by (auto simp: entry_ok_def record_payload_def Let_def record_document_def split: if_splits)
  have "\<exists>p. record_payload (with_outcome (plain_outcome s ds) r) = Inr p"
    using size by (simp add: record_payload_def Let_def record_document_def with_outcome_def plain_outcome_def jopt_def jdict_opt_def list_all_iff)
  then obtain p where "record_payload (with_outcome (plain_outcome s ds) r) = Inr p" by blast
  then show ?thesis using assms(2-4) g(1)
    by (simp add: transition_record_def plain_outcome_def validate_transition_payload_def write_record_def)
qed

text \<open>The file is inside the model: what the reader raises the gate handles, and the text decodes.\<close>

definition readable :: "head_reader \<Rightarrow> string \<Rightarrow> bool" where
  "readable read_head bytes \<longleftrightarrow>
     (\<forall>e. read_head bytes = Inl e \<longrightarrow> rejection e \<noteq> None) \<and> decode_sig bytes \<noteq> Inl OutsideModel"

lemma validated_rows_raises: "validated_rows body = Inl e \<Longrightarrow> rejection e \<noteq> None"
  by (auto simp: validated_rows_def rejection_def res_simps split: list.splits prod.splits if_splits dest!: rmap_Inl)

lemma decode_sig_raises: "decode_sig bytes = Inl e \<Longrightarrow> e \<noteq> OutsideModel \<Longrightarrow> rejection e \<noteq> None"
  by (auto simp: decode_sig_def rejection_def split: sum.splits decode_error.splits)

lemma judge_raises:
  assumes "storage_inv h sha st" and "get_record h f t v st = Inr r" and "read_upload h sha f t v st = Inr bytes"
    and "readable read_head bytes" and "judge h sha f read_head t v st = Inl e"
  shows "rejection e \<noteq> None"
proof -
  obtain b where b: "read_upload h sha f t v st = Inr b" "map_of (s_contents st) (tenant_token h t, rr_sha r) = Some b"
    using read_uploadI [OF assms(1,2)] by blast
  obtain rid payload r0 bs where g: "entry_ok h st (tenant_token h t, rid) payload r0 bs" "r = reread r0"
    by (rule get_recordD [OF assms(1,2)]) blast
  then have "content_path h sha f t v st = Inr (tenant_token h t, rr_sha r)"
    using assms(2,3) by (simp add: content_path_def digest_checked_def entry_ok_def record_good_def)
  moreover have "b = bytes" using assms(3) b(1) by simp
  ultimately have "read_head bytes = Inl e \<or> decode_sig bytes = Inl e \<or> (\<exists>body. validated_rows body = Inl e)"
    using assms(5) b(2) by (auto simp: judge_def detect_csv_schema_def structural_fingerprint_def res_simps split: if_splits)
  then show ?thesis using assms(4) validated_rows_raises decode_sig_raises unfolding readable_def by metis
qed

lemma validate_file_decides:
  assumes "storage_inv h sha st" and "get_record h f t v st = Inr r" and "rr_state r = Validating"
    and "read_upload h sha f t v st = Inr bytes" and "readable read_head bytes"
  shows "\<exists>g st'. validate_file h sha f read_head t v st = (Inr g, st') \<and> rr_state (gr_record g) \<in> set terminal_states \<and>
    get_record h f t v st' = Inr (reread (gr_record g))"
proof -
  have reject: "\<exists>g st'. settle h f t v (plain_outcome Rejected [code]) None st = (Inr g, st') \<and>
      rr_state (gr_record g) \<in> set terminal_states \<and> get_record h f t v st' = Inr (reread (gr_record g))" for code
  proof -
    obtain r' st' where m: "transition_record h f t v (plain_outcome Rejected [code]) st = (Inr r', st')"
      using plain_move [OF assms(1,2), of Rejected "[code]"] assms(3) by auto
    note moved = transition_Inr [OF assms(1) _ _ m]
    show ?thesis using moved(1,2) m by (simp add: settle_def terminal_states_def)
  qed
  define attempt where "attempt = (case judge h sha f read_head t v st of Inl e \<Rightarrow> (Inl e, st)
      | Inr (outcome, detection) \<Rightarrow> settle h f t v outcome (Some detection) st)"
  note def = validate_file_def [of h sha f read_head t v st, unfolded Let_def, folded attempt_def]
  consider e code where "attempt = (Inl e, st)" "rejection e = Some code"
    | g st' where "attempt = (Inr g, st')" "rr_state (gr_record g) \<in> set terminal_states" "get_record h f t v st' = Inr (reread (gr_record g))"
  proof (cases "judge h sha f read_head t v st")
    case (Inl e)
    then have "attempt = (Inl e, st)" "rejection e \<noteq> None" using judge_raises [OF assms(1,2,4,5) Inl] by (simp_all add: attempt_def)
    then show ?thesis using that(1) by blast
  next
    case (Inr p)
    obtain new d where p: "p = (new, d)" by fastforce
    note j = judgeD [OF Inr [unfolded p]]
    obtain x st' where tr: "transition_record h f t v new st = (x, st')" by fastforce
    have a: "attempt = (case x of Inl e \<Rightarrow> (Inl e, st') | Inr r \<Rightarrow> (Inr \<lparr>gr_record = r, gr_detection = Some d\<rparr>, st'))"
      by (simp add: attempt_def Inr p settle_def tr split: sum.split)
    show ?thesis
    proof (cases x)
      case (Inr r')
      note moved = transition_Inr [OF assms(1) j(1,2) tr [unfolded Inr]]
      show ?thesis using that(2) [of "\<lparr>gr_record = r', gr_detection = Some d\<rparr>" st'] a Inr moved(1,2) j(4) by (auto simp: terminal_states_def)
    next
      case (Inl e)
      have "List.member (raw_transitions (rr_state r)) (ro_state new)" using j(4) assms(3) by auto
      then obtain rid where "write_record (tenant_token h t, rid) (with_outcome new r) st = (Inl e, st')"
        using transition_goes [OF assms(2) _ j(3)] tr Inl by fastforce
      then have "st' = st \<and> (\<exists>s. e = ValueError s)" by (rule write_record_Inl)
      then show ?thesis using that(1) a Inl by (auto simp: rejection_def)
    qed
  qed
  then show ?thesis
  proof cases
    case (1 e code)
    then show ?thesis using reject [of code] by (simp add: def)
  qed (simp add: def)
qed

text \<open>The first move of an inspection.\<close>

lemma received_moves:
  assumes "storage_inv h sha st" and "get_record h f t v st = Inr r" and "rr_state r = Received" and "read_upload h sha f t v st = Inr bytes"
  obtains r1 s1 where "\<And>read_head. inspect_file h sha f read_head t v st = validate_file h sha f read_head t v s1"
    "storage_inv h sha s1" "get_record h f t v s1 = Inr r1" "rr_state r1 = Validating" "read_upload h sha f t v s1 = Inr bytes"
proof -
  obtain r1 s1 where m: "transition_record h f t v (plain_outcome Validating []) st = (Inr r1, s1)"
    using plain_move [OF assms(1,2), of Validating "[]"] assms(3) by auto
  note moved = transition_Inr [OF assms(1) _ _ m]
  have step: "storage_step h sha f st s1" by (rule storage_step.moved [OF _ _ m]) simp_all
  note after = storage_step_inv [OF assms(1) step]
  have r1: "get_record h f t v s1 = Inr (reread r1)" "rr_state (reread r1) = Validating" using moved(1,2) by simp_all
  obtain r2 where "get_record h f t v s1 = Inr r2" "same_upload r r2"
    using get_record_later [OF assms(1) after [THEN conjunct2] assms(2)] by blast
  then have "rr_sha (reread r1) = rr_sha r" "rr_size (reread r1) = rr_size r" using r1 by (simp_all add: same_upload_def)
  then have "read_upload h sha f t v s1 = Inr bytes"
    using assms(4) read_upload_same [OF assms(2) r1(1) _ _ moved(3)] by simp
  moreover have "inspect_file h sha f read_head t v st = validate_file h sha f read_head t v s1" for read_head
    by (simp add: inspect_file_def assms(2,3) m terminal_states_def)
  ultimately show ?thesis using that r1 after by blast
qed

lemma inspection_ends:
  assumes "storage_inv h sha st" and "get_record h f t v st = Inr r" and "read_upload h sha f t v st = Inr bytes"
    and "readable read_head bytes"
  shows "\<exists>g st' r'. inspect_file h sha f read_head t v st = (Inr g, st') \<and> rr_state (gr_record g) \<in> set terminal_states \<and>
    get_record h f t v st' = Inr r' \<and> rr_state r' = rr_state (gr_record g)"
proof (cases "rr_state r")
  case Received
  obtain r1 s1 where s1: "inspect_file h sha f read_head t v st = validate_file h sha f read_head t v s1"
    "storage_inv h sha s1" "get_record h f t v s1 = Inr r1" "rr_state r1 = Validating" "read_upload h sha f t v s1 = Inr bytes"
    by (rule received_moves [OF assms(1,2) Received assms(3)]) blast
  from validate_file_decides [OF s1(2-5) assms(4)] show ?thesis by (auto simp: s1(1))
next
  case Validating
  from validate_file_decides [OF assms(1,2) this assms(3,4)] show ?thesis
    by (auto simp: inspect_file_def assms(2) Validating terminal_states_def)
qed (auto simp: inspect_file_def assms(2) terminal_states_def)

text \<open>
  C25: an inspection of any stored file that is inside the model ends, without an exception, in a
  record in a final state, and that record is what the storage holds afterwards.
\<close>

theorem inspection_decides:
  assumes "storage_built h sha f st" and "get_record h f t v st = Inr r" and "read_upload h sha f t v st = Inr bytes"
    and "readable read_head bytes"
  shows "\<exists>g st'. inspect_file h sha f read_head t v st = (Inr g, st') \<and> rr_state (gr_record g) \<in> set terminal_states \<and>
    (\<exists>r'. get_record h f t v st' = Inr r' \<and> rr_state r' = rr_state (gr_record g) \<and> same_upload r r')"
proof -
  have inv: "storage_inv h sha st" by (rule built_inv [OF assms(1)])
  obtain g st' r' where res: "inspect_file h sha f read_head t v st = (Inr g, st')" "rr_state (gr_record g) \<in> set terminal_states"
    "get_record h f t v st' = Inr r'" "rr_state r' = rr_state (gr_record g)" using inspection_ends [OF inv assms(2-4)] by blast
  have "storage_le f st st'" by (rule storage.steps_before [OF inspect_moves [OF res(1)] inv])
  then show ?thesis using get_record_later [OF inv _ assms(2)] res by fastforce
qed

text \<open>A received file with the registered header and rows of its shape becomes valid.\<close>

theorem matching_file_becomes_valid:
  assumes "storage_built h sha f st" and "get_record h f t v st = Inr r" and "rr_state r = Received"
    and "read_upload h sha f t v st = Inr bytes" and "read_head bytes = Inr k" and "ch_headers k = wb_synthetic_headers"
    and "decode_sig bytes = Inr body" and "validated_rows body = Inr rows" and "json_ok (JInt (int (length rows)))"
  shows "\<exists>g st'. inspect_file h sha f read_head t v st = (Inr g, st') \<and> rr_state (gr_record g) = RawValid \<and>
    get_record h f t v st' = Inr (reread (gr_record g))"
proof -
  obtain r1 s1 where s1: "inspect_file h sha f read_head t v st = validate_file h sha f read_head t v s1"
    "storage_inv h sha s1" "get_record h f t v s1 = Inr r1" "rr_state r1 = Validating" "read_upload h sha f t v s1 = Inr bytes"
    by (rule received_moves [OF built_inv [OF assms(1)] assms(2,3,4)]) blast
  define new where "new = \<lparr>ro_state = RawValid, ro_schema = Some wb_synthetic_schema_id,
    ro_structural = Some (sealed_descriptor h (structural_descriptor k)), ro_semantic = Some (semantic_fingerprint h rows), ro_diagnostics = []\<rparr>"
  obtain b where b: "map_of (s_contents s1) (tenant_token h t, rr_sha r1) = Some b" "read_upload h sha f t v s1 = Inr b"
    using read_uploadI [OF s1(2,3)] by blast
  obtain rid payload r0 bs where g: "entry_ok h s1 (tenant_token h t, rid) payload r0 bs" "r1 = reread r0"
    by (rule get_recordD [OF s1(2,3)]) blast
  then have "content_path h sha f t v s1 = Inr (tenant_token h t, rr_sha r1)"
    using s1(3,5) by (simp add: content_path_def digest_checked_def entry_ok_def record_good_def)
  then obtain d where j: "judge h sha f read_head t v s1 = Inr (new, d)"
    using b s1(5) assms(5-8) by (simp add: judge_def detect_csv_schema_def structural_fingerprint_def new_def)
  have plain: "plain_dict (ro_structural new)" "plain_dict (ro_semantic new)" by (simp_all add: new_def plain_structural plain_semantic)
  have grouped_ok: "json_ok (JObj (grouped es))" for es by (simp add: grouped_def list_all_iff)
  have ok: "json_ok (JObj (sealed_descriptor h (structural_descriptor k)))" "json_ok (JObj (semantic_fingerprint h rows))"
    using assms(6,9) grouped_ok
    by (simp_all add: sealed_descriptor_def structural_descriptor_def semantic_fingerprint_def semantic_descriptor_def list_all_iff
        wb_synthetic_headers_def nat_text.simps max_str_digits_def)
  have size: "json_ok (JInt (rr_size r1))"
    using g by (auto simp: entry_ok_def record_payload_def Let_def record_document_def split: if_splits)
  have "json_ok (name_nonfinite (record_document (with_outcome new r1)))"
  proof -
    have "name_nonfinite (JObj e) = JObj e" if "plain_dict (Some e)" for e
      using that by (intro name_nonfinite_plain) (simp add: plain_dict_def jdict_opt_def)
    then have "name_nonfinite (jdict_opt (ro_structural new)) = jdict_opt (ro_structural new)"
      "name_nonfinite (jdict_opt (ro_semantic new)) = jdict_opt (ro_semantic new)" using plain by (simp_all add: jdict_opt_def new_def)
    then show ?thesis using ok size
      by (simp add: record_document_def with_outcome_def list_all_iff) (simp add: new_def jdict_opt_def jopt_def list_all_iff)
  qed
  then obtain p where "record_payload (with_outcome new r1) = Inr p" by (simp add: record_payload_def Let_def)
  then obtain s2 where tr: "transition_record h f t v new s1 = (Inr (with_outcome new r1), s2)"
    using transition_goes [OF s1(3), of new] s1(4) by (auto simp: write_record_def new_def wb_synthetic_schema_id_def)
  note moved = transition_Inr [OF s1(2) plain tr]
  show ?thesis using moved(1,2) by (simp add: s1(1) validate_file_def j settle_def tr) (simp add: new_def)
qed

section \<open>Valid files\<close>

text \<open>When files change state only through the gate, a valid one has the registered schema.\<close>

inductive gate_step ::
  "(string \<Rightarrow> string) \<Rightarrow> (string \<Rightarrow> string) \<Rightarrow> (string \<Rightarrow> string) \<Rightarrow> head_reader \<Rightarrow> raw_store \<Rightarrow> raw_store \<Rightarrow> bool"
  for h sha f read_head where
  received: "tenant_id t \<noteq> [] \<Longrightarrow> store_upload h sha f t receipt payload st = (m, st') \<Longrightarrow> gate_step h sha f read_head st st'"
| inspected: "inspect_file h sha f read_head t v st = (g, st') \<Longrightarrow> gate_step h sha f read_head st st'"

definition valid_checked :: "(string \<Rightarrow> string) \<Rightarrow> head_reader \<Rightarrow> string \<Rightarrow> raw_record \<Rightarrow> bool" where
  "valid_checked h read_head bytes r \<longleftrightarrow>
     (\<exists>structural semantic. schema_checked h read_head bytes (rr_schema r) structural semantic \<and>
        rr_structural r = map_option sort_dict structural \<and> rr_semantic r = map_option sort_dict semantic)"

definition valid_inv :: "(string \<Rightarrow> string) \<Rightarrow> (string \<Rightarrow> string) \<Rightarrow> head_reader \<Rightarrow> raw_store \<Rightarrow> bool" where
  "valid_inv h f read_head st \<longleftrightarrow>
     (\<forall>key payload r. map_of (s_metadata st) key = Some payload \<longrightarrow> record_from_payload f payload = Inr r \<longrightarrow>
        rr_state r = RawValid \<longrightarrow> (\<exists>bytes. map_of (s_contents st) (fst key, rr_sha r) = Some bytes \<and> valid_checked h read_head bytes r))"

lemma valid_inv_write:
  assumes "valid_inv h f read_head st" and "record_good r" and "write_record key r su = (m, st')"
    and "s_metadata su = s_metadata st" and "map_of (s_contents st) \<subseteq>\<^sub>m map_of (s_contents su)"
    and "rr_state r = RawValid \<Longrightarrow> \<exists>bytes. map_of (s_contents st) (fst key, rr_sha r) = Some bytes \<and> valid_checked h read_head bytes (reread r)"
  shows "valid_inv h f read_head st'"
  unfolding valid_inv_def
proof (intro allI impI)
  fix k p r1 assume m: "map_of (s_metadata st') k = Some p" "record_from_payload f p = Inr r1" "rr_state r1 = RawValid"
  have contents: "s_contents st' = s_contents su" using assms(3) by (auto simp: write_record_def split: sum.splits)
  have "\<exists>bytes. map_of (s_contents st) (fst k, rr_sha r1) = Some bytes \<and> valid_checked h read_head bytes r1"
  proof (cases "map_of (s_metadata st) k = Some p")
    case True
    then show ?thesis using m(2,3) assms(1) unfolding valid_inv_def by blast
  next
    case False
    then have p: "record_payload r = Inr p" "k = key"
      using m(1) assms(3,4) by (auto simp: write_record_def update_conv' split: sum.splits if_splits)
    then show ?thesis using record_reads_back [OF assms(2) p(1), of f] m(2,3) assms(6) by simp
  qed
  then show "\<exists>bytes. map_of (s_contents st') (fst k, rr_sha r1) = Some bytes \<and> valid_checked h read_head bytes r1"
    using assms(5) contents by (auto dest: map_leD)
qed

lemma valid_inv_contents:
  assumes "valid_inv h f read_head st" and "s_metadata su = s_metadata st" and "map_of (s_contents st) \<subseteq>\<^sub>m map_of (s_contents su)"
  shows "valid_inv h f read_head su"
  unfolding valid_inv_def assms(2)
proof (intro allI impI)
  fix k p r assume "map_of (s_metadata st) k = Some p" "record_from_payload f p = Inr r" "rr_state r = RawValid"
  then obtain bytes where "map_of (s_contents st) (fst k, rr_sha r) = Some bytes" "valid_checked h read_head bytes r"
    using assms(1) unfolding valid_inv_def by blast
  then show "\<exists>bytes. map_of (s_contents su) (fst k, rr_sha r) = Some bytes \<and> valid_checked h read_head bytes r"
    using map_leD [OF assms(3)] by blast
qed

lemma valid_inv_upload:
  assumes "storage_inv h sha st" and "valid_inv h f read_head st" and "tenant_id t \<noteq> []"
    and "store_upload h sha f t receipt payload st = (m, st')"
  shows "valid_inv h f read_head st'"
proof (cases "check_upload sha t receipt payload")
  case (Inr x)
  obtain filename rid digest where x: "check_upload sha t receipt payload = Inr (filename, rid, digest)" using Inr by (cases x) auto
  note good = received_good [OF x assms(3)] and result = assms(4) [unfolded store_upload_def x sum.case prod.case Let_def]
  show ?thesis
  proof (cases "ensure_content sha (tenant_token h t, digest) payload st")
    case (Inl e)
    then have "st' = st" using result by (auto split: option.splits sum.splits if_splits)
    then show ?thesis using assms(2) by simp
  next
    case (Inr su)
    note ec = ensure_contentD [OF Inr assms(1)] and le = storage_leD(1)
    have su: "s_metadata su = s_metadata st" "map_of (s_contents st) \<subseteq>\<^sub>m map_of (s_contents su)"
      using ec(2,3) le check_uploadD(4) [OF x] by auto
    consider "st' = st" | "st' = su" | "write_record (tenant_token h t, rid) (received_record t rid digest payload filename) su = (m, st')"
      using result Inr by (auto split: option.splits sum.splits if_splits)
    then show ?thesis
    proof cases
      case 2
      show ?thesis unfolding 2 by (rule valid_inv_contents [OF assms(2) su])
    next
      case 3
      show ?thesis by (rule valid_inv_write [OF assms(2) good 3 su]) (simp add: received_record_def)
    qed (use assms(2) in simp)
  qed
qed (use assms in \<open>simp add: store_upload_def\<close>)

lemma valid_inv_move:
  assumes "storage_inv h sha st" and "valid_inv h f read_head st" and "plain_dict (ro_structural new)" and "plain_dict (ro_semantic new)"
    and "transition_record h f t v new st = (m, st')"
    and "ro_state new = RawValid \<Longrightarrow> \<exists>key. content_path h sha f t v st = Inr key \<and>
       schema_checked h read_head (case map_of (s_contents st) key of None \<Rightarrow> [] | Some x \<Rightarrow> x) (ro_schema new) (ro_structural new) (ro_semantic new)"
  shows "valid_inv h f read_head st'"
proof (rule transition_cases [OF assms(1,5)])
  fix rid payload r0 bytes
  assume g: "get_record h f t v st = Inr (reread r0)" "entry_ok h st (tenant_token h t, rid) payload r0 bytes"
      "state_payload (ro_state new) (ro_schema new) (ro_structural new) (ro_semantic new) (ro_diagnostics new)"
    and w: "write_record (tenant_token h t, rid) (with_outcome new (reread r0)) st = (m, st')"
  have good: "record_good (with_outcome new (reread r0))" using moved_good [OF _ assms(3,4) g(3)] g(2) by (simp add: entry_ok_def)
  have bytes: "map_of (s_contents st) (tenant_token h t, rr_sha r0) = Some bytes" using g(2) by (auto simp: entry_ok_def)
  show ?thesis
  proof (rule valid_inv_write [OF assms(2) good w])
    assume "rr_state (with_outcome new (reread r0)) = RawValid"
    then have "ro_state new = RawValid" by (simp add: with_outcome_def)
    then obtain key where key: "content_path h sha f t v st = Inr key"
      "schema_checked h read_head (case map_of (s_contents st) key of None \<Rightarrow> [] | Some x \<Rightarrow> x) (ro_schema new) (ro_structural new) (ro_semantic new)"
      using assms(6) by blast
    have "key = (tenant_token h t, rr_sha r0)" using key(1) g(1) by (auto simp: content_path_def digest_checked_def res_simps)
    then have "valid_checked h read_head bytes (reread (with_outcome new (reread r0)))"
      using key(2) bytes unfolding valid_checked_def by (auto simp: with_outcome_def)
    then show "\<exists>bytes. map_of (s_contents st) (fst (tenant_token h t, rid), rr_sha (with_outcome new (reread r0))) = Some bytes \<and>
        valid_checked h read_head bytes (reread (with_outcome new (reread r0)))"
      using bytes by (simp add: with_outcome_def)
  qed simp_all
qed (use assms(2) in simp)

lemma valid_inv_settle:
  assumes "storage_inv h sha st" and "valid_inv h f read_head st" and "settle h f t v (plain_outcome s ds) d st = (m, st')" and "s \<noteq> RawValid"
  shows "valid_inv h f read_head st'"
proof -
  obtain x where "transition_record h f t v (plain_outcome s ds) st = (x, st')"
    using assms(3) by (auto simp: settle_def split: prod.splits sum.splits)
  from valid_inv_move [OF assms(1,2) _ _ this] assms(4) show ?thesis by simp
qed

lemma valid_inv_validate:
  assumes "storage_inv h sha st" and "valid_inv h f read_head st" and "validate_file h sha f read_head t v st = (m, st')"
  shows "valid_inv h f read_head st'"
proof -
  define attempt where "attempt = (case judge h sha f read_head t v st of Inl e \<Rightarrow> (Inl e, st)
      | Inr (outcome, detection) \<Rightarrow> settle h f t v outcome (Some detection) st)"
  obtain x su where a: "attempt = (x, su)" by fastforce
  have first: "storage_inv h sha su \<and> valid_inv h f read_head su"
  proof (cases "judge h sha f read_head t v st")
    case (Inr p)
    obtain new d where p: "p = (new, d)" by fastforce
    note j = judgeD [OF Inr [unfolded p]]
    have "settle h f t v new (Some d) st = (x, su)" using a by (simp add: attempt_def Inr p)
    then obtain y where y: "transition_record h f t v new st = (y, su)" by (auto simp: settle_def split: prod.splits sum.splits)
    show ?thesis using valid_inv_move [OF assms(1,2) j(1,2) y j(5)] transition_step [OF assms(1) j(1,2) y] by blast
  qed (use a assms(1,2) in \<open>simp add: attempt_def\<close>)
  have "su = st' \<or> (\<exists>code. settle h f t v (plain_outcome Rejected [code]) None su = (m, st'))"
    using assms(3) [unfolded validate_file_def Let_def, folded attempt_def] unfolding a
    by (auto split: sum.splits option.splits)
  then show ?thesis using first valid_inv_settle by blast
qed

lemma valid_inv_inspect:
  assumes "storage_inv h sha st" and "valid_inv h f read_head st" and "inspect_file h sha f read_head t v st = (m, st')"
  shows "valid_inv h f read_head st'"
proof -
  have move: "storage_inv h sha su \<and> valid_inv h f read_head su"
    if "transition_record h f t v (plain_outcome Validating []) st = (x, su)" for x su
    using valid_inv_move [OF assms(1,2) _ _ that] transition_step [OF assms(1) _ _ that] by simp
  consider "st' = st" | x where "transition_record h f t v (plain_outcome Validating []) st = (x, st')"
    | x su where "transition_record h f t v (plain_outcome Validating []) st = (x, su)" "validate_file h sha f read_head t v su = (m, st')"
    | "validate_file h sha f read_head t v st = (m, st')"
    using assms(3) by (auto simp: inspect_file_def split: sum.splits if_splits prod.splits)
  then show ?thesis using assms(1,2) move valid_inv_validate by cases blast+
qed

lemma gate_step_inv:
  assumes "storage_inv h sha st \<and> valid_inv h f read_head st" and "gate_step h sha f read_head st st'"
  shows "storage_inv h sha st' \<and> valid_inv h f read_head st'"
  using assms(2)
proof cases
  case (received t receipt payload m)
  then show ?thesis using assms(1) upload_step valid_inv_upload by blast
next
  case (inspected t v g)
  then show ?thesis
    using assms(1) valid_inv_inspect storage.steps_inv [OF inspect_moves [OF inspected]] by blast
qed

interpretation gate: invariant_system "gate_step h sha f read_head" "\<lambda>st. storage_inv h sha st \<and> valid_inv h f read_head st" for h sha f read_head
  by unfold_locales (rule gate_step_inv)

text \<open>The rows of a file that was read whole, against the first row that the same reader sees.\<close>

lemma dict_row_keys:
  assumes "distinct header" and "length row = length header"
  shows "map fst (dict_row header row) = header"
proof -
  have "map fst (fold (\<lambda>(k, v). AList.update k v) (zip ks vs) d) = map fst d @ ks"
    if "length vs = length ks" "distinct (map fst d @ ks)" for ks and vs :: "string list" and d :: "(string \<times> string) list"
    using that
  proof (induction ks arbitrary: vs d)
    case (Cons k ks)
    then obtain v ws where vs: "vs = v # ws" "length ws = length ks" by (cases vs) auto
    have "map_of d k = None" using Cons.prems(2) by (auto simp: map_of_eq_None_iff)
    then have "AList.update k v d = d @ [(k, v)]" by (induction d) (auto split: if_splits)
    then show ?case using Cons.IH [of ws "d @ [(k, v)]"] Cons.prems(2) vs by simp
  qed simp
  from this [OF assms(2), of "[]"] assms(1) show ?thesis by (simp add: dict_row_def)
qed

lemma shaped_rows:
  "rmap (\<lambda>row. if length row = n then Inr (f row) else Inl e) xs = Inr ys \<Longrightarrow> ys = map f xs \<and> (\<forall>row \<in> set xs. length row = n)"
  by (induction xs arbitrary: ys) (auto simp: res_simps split: if_splits)

lemma validated_rows_shape:
  assumes "validated_rows body = Inr rows" and "csv_rows body = (header # raw, bad)"
  shows "\<not> bad" "rows = map (dict_row header) (filter (\<lambda>row. row \<noteq> []) raw)" "\<forall>row \<in> set raw. row \<noteq> [] \<longrightarrow> length row = length header"
proof -
  have "rmap (\<lambda>row. if length row = length header then Inr (dict_row header row) else Inl (ValueError ''CSV_ROW_SHAPE_INVALID''))
      (filter (\<lambda>row. row \<noteq> []) raw) = Inr rows \<and> \<not> bad"
    using assms by (auto simp: validated_rows_def res_simps split: if_splits)
  with shaped_rows [of "length header" "dict_row header"] show "\<not> bad" "rows = map (dict_row header) (filter (\<lambda>row. row \<noteq> []) raw)"
    "\<forall>row \<in> set raw. row \<noteq> [] \<longrightarrow> length row = length header" by fastforce+
qed

lemma wb_headers_distinct: "distinct wb_synthetic_headers"
  by code_simp

text \<open>
  C24: as long as files move through uploads and inspections only, a valid file has the registered
  header in the dialect that was detected, its fingerprints are those of its bytes, and the reader
  of its rows, which always takes commas, has read it to the end: every row has as many cells as the
  first one. When that reader sees the registered header too, the columns of every row are exactly
  those of the schema.
\<close>

theorem valid_files_have_schema:
  assumes "(gate_step h sha f read_head)\<^sup>*\<^sup>* new_storage st" and "get_record h f t v st = Inr r" and "rr_state r = RawValid"
  shows "\<exists>bytes k body rows. read_upload h sha f t v st = Inr bytes \<and> read_head bytes = Inr k \<and> ch_headers k = wb_synthetic_headers \<and>
    decode_sig bytes = Inr body \<and> validated_rows body = Inr rows \<and> rr_schema r = Some wb_synthetic_schema_id \<and>
    rr_structural r = Some (sort_dict (sealed_descriptor h (structural_descriptor k))) \<and>
    rr_semantic r = Some (sort_dict (semantic_fingerprint h rows)) \<and>
    (\<forall>header raw bad. csv_rows body = (header # raw, bad) \<longrightarrow>
       \<not> bad \<and> (\<forall>row \<in> set raw. row \<noteq> [] \<longrightarrow> length row = length header) \<and>
       rows = map (dict_row header) (filter (\<lambda>row. row \<noteq> []) raw) \<and>
       (header = wb_synthetic_headers \<longrightarrow> (\<forall>row \<in> set rows. map fst row = wb_synthetic_headers)))"
proof -
  have "storage_inv h sha new_storage \<and> valid_inv h f read_head new_storage"
    by (simp add: new_storage_inv valid_inv_def) (simp add: new_storage_def)
  then have inv: "storage_inv h sha st" "valid_inv h f read_head st" using gate.steps_inv [OF assms(1)] by blast+
  obtain bytes where b: "read_upload h sha f t v st = Inr bytes" "map_of (s_contents st) (tenant_token h t, rr_sha r) = Some bytes"
    using read_uploadI [OF inv(1) assms(2)] by blast
  obtain rid payload where "map_of (s_metadata st) (tenant_token h t, rid) = Some payload" "record_from_payload f payload = Inr r"
    using assms(2) by (auto simp: get_record_def res_simps split: option.splits if_splits)
  then have "valid_checked h read_head bytes r" using inv(2) assms(3) b(2) unfolding valid_inv_def by fastforce
  then obtain k body rows where valid: "read_head bytes = Inr k" "ch_headers k = wb_synthetic_headers" "decode_sig bytes = Inr body"
      "validated_rows body = Inr rows" "rr_schema r = Some wb_synthetic_schema_id"
      "rr_structural r = Some (sort_dict (sealed_descriptor h (structural_descriptor k)))"
      "rr_semantic r = Some (sort_dict (semantic_fingerprint h rows))"
    by (auto simp: valid_checked_def schema_checked_def)
  have "\<not> bad \<and> (\<forall>row \<in> set raw. row \<noteq> [] \<longrightarrow> length row = length header) \<and> rows = map (dict_row header) (filter (\<lambda>row. row \<noteq> []) raw) \<and>
      (header = wb_synthetic_headers \<longrightarrow> (\<forall>row \<in> set rows. map fst row = wb_synthetic_headers))"
    if "csv_rows body = (header # raw, bad)" for header raw bad
    using validated_rows_shape [OF valid(4) that] dict_row_keys [OF wb_headers_distinct] by auto
  with b(1) valid show ?thesis by blast
qed

section \<open>Receipts\<close>

lemma sub_unsafe_chars: "list_all is_file_char (sub_unsafe inside s)"
  by (induction s arbitrary: inside) (auto simp: is_file_char_def)

lemma sanitized_safe: "safe_filename (sanitize_filename filename)"
proof -
  define leaf where "leaf = path_name (map (\<lambda>c. if c = CHR 0x5C then CHR ''/'' else c) filename)"
  define s where "s = strip_by (\<lambda>c. c = CHR ''.'' \<or> c = CHR ''_'') (sub_unsafe False leaf)"
  have eq: "sanitize_filename filename = (if s = [] then ''upload.bin'' else take 120 s)"
    by (simp add: sanitize_filename_def s_def leaf_def Let_def)
  show ?thesis
  proof (cases s)
    case Nil
    have "safe_filename ''upload.bin''" by code_simp
    then show ?thesis by (simp add: eq Nil)
  next
    case (Cons c cs)
    have "list_all is_file_char s"
      using sub_unsafe_chars set_strip_by [of _ "sub_unsafe False leaf"] unfolding s_def list_all_iff by blast
    moreover have "c \<noteq> CHR ''.''" using strip_by_hd [of "\<lambda>c. c = CHR ''.'' \<or> c = CHR ''_''" "sub_unsafe False leaf"] Cons by (simp add: s_def)
    ultimately show ?thesis by (auto simp: eq Cons safe_filename_def list_all_iff dest: in_set_takeD)
  qed
qed

lemma first_upload_stored:
  assumes "receive sha draw t payload filename g = (Inr u, g')" and "\<not> u_duplicate u" and "draw < 2 ^ 128" and "hash_re (sha payload)"
    and "storage_built h sha f st" and "tenant_id t \<noteq> []" and "json_ok (JInt (int (length payload)))"
    and "map_of (s_metadata st) (tenant_token h t, u_id u) = None" and "map_of (s_contents st) (tenant_token h t, sha payload) = None"
  shows "get_receipt t (u_id u) g' = Inr u \<and>
    (\<exists>r st'. store_upload h sha f t u payload st = (Inr r, st') \<and> rr_state r = Received \<and> read_upload h sha f t (u_id u) st' = Inr payload)"
proof -
  have payload: "payload \<noteq> []" using assms(1) by (auto simp: receive_def)
  have u: "u = \<lparr>u_id = uuid_text draw, u_tenant = tenant_id t, u_sha = sha payload, u_size = int (length payload),
      u_filename = sanitize_filename filename, u_key = storage_key (tenant_id t) (sha payload), u_duplicate = False\<rparr>"
    and g': "u_by_id g' = AList.update (tenant_id t, u_id u) u (u_by_id g)"
    using assms(1,2) payload by (auto simp: receive_def Let_def split: option.splits)
  have id: "raw_id (u_id u) = Inr (u_id u)" "u_id u \<noteq> []" using raw_id_text [OF assms(3)] hd_last_uuid_text(1) by (simp_all add: u)
  have check: "check_upload sha t u payload = Inr (u_filename u, u_id u, sha payload)"
    using payload id assms(4) sanitized_safe by (simp add: check_upload_def filename_checked_def digest_checked_def) (simp add: u)
  define fresh where "fresh = received_record t (u_id u) (sha payload) payload (u_filename u)"
  obtain p where p: "record_payload fresh = Inr p"
    using assms(7) by (simp add: fresh_def received_record_def record_payload_def Let_def record_document_def jopt_def jdict_opt_def list_all_iff)
  define su where "su = st\<lparr>s_contents := AList.update (tenant_token h t, sha payload) payload (s_contents st)\<rparr>"
  define st' where "st' = su\<lparr>s_metadata := AList.update (tenant_token h t, u_id u) p (s_metadata su)\<rparr>"
  have stored: "store_upload h sha f t u payload st = (Inr fresh, st')"
    using p assms(8,9) by (simp add: store_upload_def check ensure_content_def su_def [symmetric] fresh_def [symmetric] write_record_def st'_def)
  have good: "record_good fresh" using received_good [OF check assms(6)] by (simp add: fresh_def)
  have "get_record h f t (u_id u) st' = Inr (reread fresh)"
    by (rule get_recordI [OF id(1) _ record_reads_back [OF good p]]) (simp_all add: st'_def update_conv' fresh_def received_record_def)
  then have "read_upload h sha f t (u_id u) st' = Inr payload"
    using assms(4) by (simp add: read_upload_def digest_checked_def st'_def su_def update_conv' fresh_def received_record_def)
  moreover have "get_receipt t (u_id u) g' = Inr u" using id(2) by (simp add: get_receipt_def g' update_conv')
  ultimately show ?thesis using stored by (auto simp: fresh_def received_record_def)
qed

text \<open>
  Whatever the name of the upload, its first receipt is kept by the registry, and the storage
  takes the bytes under it and gives them back.
\<close>

theorem received_upload_is_stored:
  assumes "receive sha draw t payload filename g = (Inr u, g')" and "\<not> u_duplicate u" and "draw < 2 ^ 128" and "hash_re (sha payload)"
    and "storage_built h sha f st" and "tenant_id t \<noteq> []" and "json_ok (JInt (int (length payload)))"
    and "map_of (s_metadata st) (tenant_token h t, u_id u) = None" and "map_of (s_contents st) (tenant_token h t, sha payload) = None"
  shows "get_receipt t (u_id u) g' = Inr u \<and>
    (\<exists>r st'. store_upload h sha f t u payload st = (Inr r, st') \<and> rr_state r = Received \<and> read_upload h sha f t (u_id u) st' = Inr payload)"
  using assms by (rule first_upload_stored)

end
