(* ===== verification/StorageExamples.thy ===== *)
theory StorageExamples imports StorageProperties begin

text \<open>
  One upload through the storage: a CSV file of the registered header, received, stored, inspected
  and found valid. The properties of the storage applied to it.
\<close>

definition upload_tenant :: tenant where
  "upload_tenant = \<lparr>tenant_id = ''t1'', tenant_account = ''a1'', tenant_profile = ''seller''\<rparr>"

definition upload_hash :: "string \<Rightarrow> string" where
  "upload_hash s = replicate 64 CHR ''a''"

definition upload_bytes :: string where
  "upload_bytes = csv_line wb_synthetic_headers"

text \<open>A reader that takes the default dialect.\<close>

definition upload_head :: head_reader where
  "upload_head bytes = rbind (decode_sig bytes) (\<lambda>body.
     case csv_rows body of (row # rows, bad) \<Rightarrow> Inr \<lparr>ch_delimiter = CHR '','', ch_quotechar = CHR 0x22, ch_headers = row\<rparr>
     | _ \<Rightarrow> Inl CsvError)"

definition uploaded_receipt :: upload_receipt where
  "uploaded_receipt =
     \<lparr>u_id = uuid_text 7, u_tenant = ''t1'', u_sha = upload_hash upload_bytes, u_size = int (length upload_bytes),
       u_filename = sanitize_filename ''ops.csv'', u_key = storage_key ''t1'' (upload_hash upload_bytes), u_duplicate = False\<rparr>"

lemma upload_hash_re: "hash_re (upload_hash s)"
  unfolding upload_hash_def by code_simp

lemma upload_length: "length upload_bytes = 165"
  unfolding upload_bytes_def by code_simp

lemma upload_received:
  "\<exists>g. receive upload_hash 7 upload_tenant upload_bytes ''ops.csv'' new_receipts = (Inr uploaded_receipt, g)"
proof -
  have "upload_bytes \<noteq> []" using upload_length by auto
  then show ?thesis by (simp add: receive_def new_receipts_def uploaded_receipt_def upload_tenant_def Let_def)
qed

lemma upload_size_ok: "json_ok (JInt (int (length upload_bytes)))"
  by (simp add: upload_length nat_text.simps max_str_digits_def)

lemma upload_text: "decode_sig upload_bytes = Inr upload_bytes" "csv_rows upload_bytes = ([wb_synthetic_headers], False)"
  unfolding upload_bytes_def by code_simp+

lemma upload_readable: "readable upload_head upload_bytes"
  by (simp add: readable_def upload_head_def upload_text)

lemma upload_stored:
  obtains r st where "store_upload upload_hash upload_hash id upload_tenant uploaded_receipt upload_bytes new_storage = (Inr r, st)"
    "storage_built upload_hash upload_hash id st" "get_record upload_hash id upload_tenant (uuid_text 7) st = Inr r"
    "rr_state r = Received" "read_upload upload_hash upload_hash id upload_tenant (uuid_text 7) st = Inr upload_bytes"
    "(gate_step upload_hash upload_hash id upload_head)\<^sup>*\<^sup>* new_storage st"
proof -
  obtain g where rec: "receive upload_hash 7 upload_tenant upload_bytes ''ops.csv'' new_receipts = (Inr uploaded_receipt, g)"
    using upload_received by blast
  have tenant: "tenant_id upload_tenant \<noteq> []" by (simp add: upload_tenant_def)
  have "\<not> u_duplicate uploaded_receipt" "u_id uploaded_receipt = uuid_text 7" by (simp_all add: uploaded_receipt_def)
  then obtain r st where s: "store_upload upload_hash upload_hash id upload_tenant uploaded_receipt upload_bytes new_storage = (Inr r, st)"
    "rr_state r = Received" "read_upload upload_hash upload_hash id upload_tenant (uuid_text 7) st = Inr upload_bytes"
    using first_upload_stored [OF rec _ _ upload_hash_re _ tenant upload_size_ok, of upload_hash id new_storage]
    by (auto simp: new_storage_def)
  have step: "storage_step upload_hash upload_hash id new_storage st" by (rule storage_step.uploaded [OF tenant s(1)])
  have gate: "gate_step upload_hash upload_hash id upload_head new_storage st" by (rule gate_step.received [OF tenant s(1)])
  obtain r' where r': "get_record upload_hash id upload_tenant (uuid_text 7) st = Inr r'"
    using s(3) by (auto simp: read_upload_def res_simps)
  have "r' = r"
  proof -
    have "raw_id (uuid_text 7) = Inr (uuid_text 7)" by (rule raw_id_text) simp
    then have "u_filename uploaded_receipt = sanitize_filename ''ops.csv''" "raw_id (u_id uploaded_receipt) = Inr (uuid_text 7)"
      by (simp_all add: uploaded_receipt_def)
    then have check: "check_upload upload_hash upload_tenant uploaded_receipt upload_bytes =
        Inr (u_filename uploaded_receipt, uuid_text 7, upload_hash upload_bytes)"
      using upload_length sanitized_safe upload_hash_re
      by (auto simp: check_upload_def filename_checked_def digest_checked_def uploaded_receipt_def upload_tenant_def)
    define fresh where "fresh = received_record upload_tenant (uuid_text 7) (upload_hash upload_bytes) upload_bytes (u_filename uploaded_receipt)"
    have good: "record_good fresh" using received_good [OF check tenant] by (simp add: fresh_def)
    have "write_record (tenant_token upload_hash upload_tenant, uuid_text 7) fresh
        \<lparr>s_contents = [((tenant_token upload_hash upload_tenant, upload_hash upload_bytes), upload_bytes)], s_metadata = []\<rparr> = (Inr r, st)"
      using s(1) by (simp add: store_upload_def check new_storage_def ensure_content_def fresh_def)
    note w = write_record_Inr [OF this]
    obtain p where p: "record_payload r = Inr p" "map_of (s_metadata st) (tenant_token upload_hash upload_tenant, uuid_text 7) = Some p"
      using w(1,2) by auto
    have "get_record upload_hash id upload_tenant (uuid_text 7) st = Inr (reread r)"
      using w(1) good by (intro get_recordI [OF \<open>raw_id (uuid_text 7) = _\<close> p(2)] record_reads_back p(1)) (simp_all add: fresh_def received_record_def)
    moreover have "reread r = r" using w(1) by (simp add: reread_eq fresh_def received_record_def)
    ultimately show ?thesis using r' by simp
  qed
  then show ?thesis using that s r' step gate by blast
qed

lemma upload_inspected:
  obtains g :: gate_result and su where "storage_built upload_hash upload_hash id su" "(gate_step upload_hash upload_hash id upload_head)\<^sup>*\<^sup>* new_storage su"
    "get_record upload_hash id upload_tenant (uuid_text 7) su = Inr (reread (gr_record g))" "rr_state (gr_record g) = RawValid"
proof -
  obtain r st where s: "storage_built upload_hash upload_hash id st" "get_record upload_hash id upload_tenant (uuid_text 7) st = Inr r"
    "rr_state r = Received" "read_upload upload_hash upload_hash id upload_tenant (uuid_text 7) st = Inr upload_bytes"
    "(gate_step upload_hash upload_hash id upload_head)\<^sup>*\<^sup>* new_storage st" by (rule upload_stored) blast
  have "validated_rows upload_bytes = Inr []" by (simp add: validated_rows_def upload_text)
  then obtain g su where i: "inspect_file upload_hash upload_hash id upload_head upload_tenant (uuid_text 7) st = (Inr g, su)"
    "rr_state (gr_record g) = RawValid" "get_record upload_hash id upload_tenant (uuid_text 7) su = Inr (reread (gr_record g))"
    using matching_file_becomes_valid [OF s(1-4), of upload_head "\<lparr>ch_delimiter = CHR '','', ch_quotechar = CHR 0x22, ch_headers = wb_synthetic_headers\<rparr>" upload_bytes "[]"]
    by (auto simp: upload_head_def upload_text max_str_digits_def nat_text.simps)
  have "storage_built upload_hash upload_hash id su" using s(1) inspect_moves [OF i(1)] by (rule rtranclp_trans)
  moreover have "(gate_step upload_hash upload_hash id upload_head)\<^sup>*\<^sup>* new_storage su"
    using s(5) gate_step.inspected [OF i(1)] by (rule rtranclp.rtrancl_into_rtrancl)
  ultimately show ?thesis by (rule that [where g = g]) (use i in simp_all)
qed

section \<open>The properties on it\<close>

theorem received_upload_is_stored_witness:
  "\<exists>r st. store_upload upload_hash upload_hash id upload_tenant uploaded_receipt upload_bytes new_storage = (Inr r, st) \<and>
     read_upload upload_hash upload_hash id upload_tenant (uuid_text 7) st = Inr upload_bytes"
proof -
  obtain g where rec: "receive upload_hash 7 upload_tenant upload_bytes ''ops.csv'' new_receipts = (Inr uploaded_receipt, g)"
    using upload_received by blast
  have "tenant_id upload_tenant \<noteq> []" by (simp add: upload_tenant_def)
  moreover have "\<not> u_duplicate uploaded_receipt" "u_id uploaded_receipt = uuid_text 7" by (simp_all add: uploaded_receipt_def)
  ultimately show ?thesis
    using received_upload_is_stored [OF rec _ _ upload_hash_re _ _ upload_size_ok, of upload_hash id new_storage]
    by (auto simp: new_storage_def)
qed

theorem uploaded_bytes_stay_witness:
  "\<exists>r st bytes. store_upload upload_hash upload_hash id upload_tenant uploaded_receipt upload_bytes new_storage = (Inr r, st) \<and>
     read_upload upload_hash upload_hash id upload_tenant (rr_id r) st = Inr bytes \<and> length bytes = 165"
proof -
  obtain r st where "store_upload upload_hash upload_hash id upload_tenant uploaded_receipt upload_bytes new_storage = (Inr r, st)"
    by (rule upload_stored) blast
  moreover have "tenant_id upload_tenant \<noteq> []" by (simp add: upload_tenant_def)
  ultimately show ?thesis
    using uploaded_bytes_stay [of upload_hash upload_hash id new_storage upload_tenant uploaded_receipt upload_bytes r st st] upload_length
    by auto
qed

theorem inspection_decides_witness:
  "\<exists>st g su. inspect_file upload_hash upload_hash id upload_head upload_tenant (uuid_text 7) st = (Inr g, su) \<and>
     rr_state (gr_record g) \<in> set terminal_states"
proof -
  obtain r st where s: "storage_built upload_hash upload_hash id st" "get_record upload_hash id upload_tenant (uuid_text 7) st = Inr r"
    "read_upload upload_hash upload_hash id upload_tenant (uuid_text 7) st = Inr upload_bytes" by (rule upload_stored) blast
  show ?thesis using inspection_decides [OF s upload_readable] by blast
qed

theorem final_records_stay_witness:
  "\<exists>st r. get_record upload_hash id upload_tenant (uuid_text 7) st = Inr r \<and> rr_state r = RawValid \<and>
     inspect_file upload_hash upload_hash id upload_head upload_tenant (uuid_text 7) st = (Inr \<lparr>gr_record = r, gr_detection = None\<rparr>, st)"
proof -
  obtain g :: gate_result and su where i: "storage_built upload_hash upload_hash id su"
    "get_record upload_hash id upload_tenant (uuid_text 7) su = Inr (reread (gr_record g))" "rr_state (gr_record g) = RawValid"
    by (rule upload_inspected) blast
  then have "rr_state (reread (gr_record g)) = RawValid" "rr_state (reread (gr_record g)) \<in> set terminal_states"
    by (simp_all add: terminal_states_def)
  then show ?thesis using final_records_stay [OF i(1,2) _ rtranclp.rtrancl_refl, of upload_head] i(2) by blast
qed

theorem valid_files_have_schema_witness:
  "\<exists>st r bytes k. get_record upload_hash id upload_tenant (uuid_text 7) st = Inr r \<and> rr_state r = RawValid \<and>
     read_upload upload_hash upload_hash id upload_tenant (uuid_text 7) st = Inr bytes \<and> upload_head bytes = Inr k \<and>
     ch_headers k = wb_synthetic_headers"
proof -
  obtain g :: gate_result and su where i: "(gate_step upload_hash upload_hash id upload_head)\<^sup>*\<^sup>* new_storage su"
    "get_record upload_hash id upload_tenant (uuid_text 7) su = Inr (reread (gr_record g))" "rr_state (gr_record g) = RawValid"
    by (rule upload_inspected) blast
  then have "rr_state (reread (gr_record g)) = RawValid" by simp
  then show ?thesis using valid_files_have_schema [OF i(1,2)] i(2) by blast
qed

end
