(* ===== verification/UxForms.thy ===== *)
theory UxForms imports Reporting begin

text \<open>
  \<open>ux/runtime.py\<close>, first half: sealed documents and the configuration form, from an empty form to
  one whose four values are ready for a draft of rules. A form is a JSON document.
\<close>

abbreviation ux_error :: "string \<Rightarrow> 'a res" where
  "ux_error code \<equiv> Inl (UXError code)"

definition ux_if :: "bool \<Rightarrow> string \<Rightarrow> unit res" where
  "ux_if failed code = (if failed then ux_error code else Inr ())"

definition ux_name :: "json \<Rightarrow> string list \<Rightarrow> string \<Rightarrow> unit res" where
  "ux_name v names code = rbind (in_names v names) (\<lambda>found. ux_if (\<not> found) code)"

lemma ux_if_Inr [res_simps]: "ux_if b code = Inr u \<longleftrightarrow> \<not> b"
  by (simp add: ux_if_def)

section \<open>Sealed documents\<close>

definition ux_json :: "json \<Rightarrow> string res" where
  "ux_json v = (if json_ok v then Inr (json_text v) else ux_error ''UX_JSON_INVALID'')"

definition ux_clone :: "json \<Rightarrow> json res" where
  "ux_clone v = map_sum id (\<lambda>_. json_sort v) (ux_json v)"

definition ux_hash :: "(string \<Rightarrow> string) \<Rightarrow> dict \<Rightarrow> string \<Rightarrow> string res" where
  "ux_hash h d excluded = map_sum id h (ux_json (JObj (filter (\<lambda>p. fst p \<noteq> excluded) d)))"

text \<open>A document with its hash in the field made for it.\<close>

definition ux_sealed :: "(string \<Rightarrow> string) \<Rightarrow> string \<Rightarrow> dict \<Rightarrow> json res" where
  "ux_sealed h field d = rbind (ux_hash h d field) (\<lambda>x. Inr (JObj (dput field (JStr x) d)))"

definition validate_ux_hash :: "(string \<Rightarrow> string) \<Rightarrow> json \<Rightarrow> string \<Rightarrow> unit res" where
  "validate_ux_hash h document field =
     (let d = jdict document in
      checks [ux_if (\<not> is_mapping document \<or> \<not> is_hash (dget d field)) ''UX_HASH_INVALID'',
        rbind (ux_hash h d field) (\<lambda>x. ux_if (dget d field \<noteq> JStr x) ''UX_HASH_MISMATCH'')])"

text \<open>\<open>_timestamp\<close>\<close>

definition ux_timestamp :: "stamp \<Rightarrow> string \<Rightarrow> string res" where
  "ux_timestamp s code =
     (case s of
        Moment t \<Rightarrow> if is_aware t then Inr (isoformat t) else ux_error code
      | Stamp v \<Rightarrow> if valid_datetime_text (JStr v) then Inr v else ux_error code)"

section \<open>The form\<close>

definition ux_view_version :: string where "ux_view_version = ''quantum-ux-view-v1''"
definition form_version :: string where "form_version = ''quantum-configuration-form-v1''"
definition inbox_version :: string where "inbox_version = ''quantum-exception-inbox-v1''"

definition configuration_fields :: "string list" where
  "configuration_fields = [''cost'', ''tax_rate'', ''tax_base'', ''other_expense'']"

definition tax_bases :: "string list" where
  "tax_bases = [''UNIT'', ''ORDER'', ''EVENT'', ''PERIOD'', ''GROSS_SALES'', ''NET_SALES'', ''PAYOUT'', ''PRODUCT_COST'',
     ''CUSTOM_VARIABLE'']"

definition ux_modes :: "string list" where "ux_modes = [''ACTUAL'', ''SCENARIO'']"
definition form_statuses :: "string list" where "form_statuses = [''BLOCKED'', ''PARTIAL'', ''READY_FOR_RULE_DRAFT'']"
definition field_states :: "string list" where "field_states = [''EMPTY'', ''VALID'', ''INVALID'', ''BLOCKED'']"

record field_definition =
  fd_label :: string
  fd_input_kind :: string
  fd_control :: string
  fd_requires_currency :: bool
  fd_unit :: string
  fd_accessible_name :: string
  fd_resolution :: string

definition field_definitions :: "(string \<times> field_definition) list" where
  "field_definitions =
     [(''cost'', \<lparr>fd_label = ''Product cost'', fd_input_kind = ''COST'', fd_control = ''decimal'', fd_requires_currency = True,
        fd_unit = ''MONEY_PER_ITEM'', fd_accessible_name = ''Product cost'',
        fd_resolution = ''Provide an explicit scoped product-cost value.''\<rparr>),
      (''tax_rate'', \<lparr>fd_label = ''Tax rate'', fd_input_kind = ''TAX_RATE'', fd_control = ''decimal'', fd_requires_currency = False,
        fd_unit = ''RATE'', fd_accessible_name = ''Tax rate'',
        fd_resolution = ''Provide an explicit tax rate without a hidden default.''\<rparr>),
      (''tax_base'', \<lparr>fd_label = ''Tax base'', fd_input_kind = ''TAX_BASE'', fd_control = ''select'', fd_requires_currency = False,
        fd_unit = ''DIMENSIONLESS'', fd_accessible_name = ''Tax base'',
        fd_resolution = ''Select the explicit tax base used by the tax rule.''\<rparr>),
      (''other_expense'', \<lparr>fd_label = ''Other expense'', fd_input_kind = ''OTHER_EXPENSE'', fd_control = ''decimal'',
        fd_requires_currency = True, fd_unit = ''MONEY_PER_ITEM'', fd_accessible_name = ''Other expense'',
        fd_resolution = ''Provide an explicit scoped other-expense value.''\<rparr>)]"

text \<open>The fields a definition fixes.\<close>

definition fixed_fields :: "string \<Rightarrow> field_definition \<Rightarrow> dict" where
  "fixed_fields field_id k =
     [(''field_id'', JStr field_id), (''label'', JStr (fd_label k)), (''input_kind'', JStr (fd_input_kind k)),
      (''control'', JStr (fd_control k)), (''required'', JBool True), (''requires_currency'', JBool (fd_requires_currency k)),
      (''contract_unit'', JStr (fd_unit k)), (''accessible_name'', JStr (fd_accessible_name k))]"

definition base_form_fields :: "json list" where
  "base_form_fields =
     map (\<lambda>(field_id, k). JObj (fixed_fields field_id k @
       [(''value'', JNull), (''state'', JStr ''EMPTY''), (''diagnostic'', JStr ''CONFIGURATION_REQUIRED'')])) field_definitions"

definition scope_keys :: "string list" where
  "scope_keys = [''organization_id'', ''marketplace_account_id'', ''marketplace'', ''product_id'', ''product_group_id'',
     ''calculation_profile_id'', ''scenario_id'']"

definition validate_scope :: "json \<Rightarrow> string \<Rightarrow> dict res" where
  "validate_scope scope organization_id =
     (let d = jdict scope in
      rbind (checks
        [ux_if (\<not> is_mapping scope \<or> \<not> list_all (\<lambda>p. List.member scope_keys (fst p)) d) ''UX_SCOPE_INVALID'',
         ux_if (dget d ''organization_id'' \<noteq> JStr organization_id) ''UX_SCOPE_ORGANIZATION_MISMATCH'',
         ux_if (has_key d ''product_id'' \<and> has_key d ''product_group_id'') ''UX_SCOPE_PRODUCT_AMBIGUOUS'',
         ux_if (\<not> list_all (\<lambda>p. is_nonempty_string (snd p)) d) ''UX_SCOPE_INVALID'']) (\<lambda>_. Inr d))"

text \<open>The mode with its scenario, and the scope against them.\<close>

definition scenario_check :: "json \<Rightarrow> json \<Rightarrow> unit res" where
  "scenario_check mode scenario =
     checks [ux_if (mode = JStr ''ACTUAL'' \<and> scenario \<noteq> JNull) ''UX_SCENARIO_INVALID'',
       ux_if (mode = JStr ''SCENARIO'' \<and> \<not> is_nonempty_string scenario) ''UX_SCENARIO_INVALID'']"

definition scope_mode_check :: "json \<Rightarrow> json \<Rightarrow> dict \<Rightarrow> unit res" where
  "scope_mode_check mode scenario scope =
     ux_if (mode = JStr ''ACTUAL'' \<and> has_key scope ''scenario_id'' \<or>
            mode = JStr ''SCENARIO'' \<and> dget scope ''scenario_id'' \<noteq> scenario) ''UX_SCOPE_SCENARIO_MISMATCH''"

definition interval_check :: "json \<Rightarrow> json \<Rightarrow> unit res" where
  "interval_check valid_from valid_to =
     ux_if (case (evidence_datetime valid_from, evidence_datetime valid_to) of (Some a, Some b) \<Rightarrow> b \<le> a | _ \<Rightarrow> False)
       ''UX_VALIDITY_INTERVAL_INVALID''"

text \<open>The arguments of a new form that are kept as they are.\<close>

record form_request =
  fq_form_id :: string
  fq_organization :: string
  fq_mode :: string
  fq_scenario :: "string option"
  fq_actor :: string
  fq_scope :: json
  fq_currency :: "string option"

definition request_checks :: "form_request \<Rightarrow> unit res" where
  "request_checks q =
     checks
       [ux_if (fq_form_id q = []) ''UX_FORM_ID_INVALID'',
        ux_if (fq_organization q = []) ''UX_ORGANIZATION_ID_INVALID'',
        ux_if (\<not> List.member ux_modes (fq_mode q)) ''UX_MODE_INVALID'',
        scenario_check (JStr (fq_mode q)) (jopt (fq_scenario q)),
        ux_if (fq_actor q = []) ''UX_ACTOR_INVALID'']"

definition currency_check :: "json \<Rightarrow> unit res" where
  "currency_check currency = ux_if (currency \<noteq> JNull \<and> \<not> is_currency currency) ''UX_CURRENCY_INVALID''"

definition optional_stamp :: "stamp option \<Rightarrow> string \<Rightarrow> json res" where
  "optional_stamp s code = (case s of None \<Rightarrow> Inr JNull | Some t \<Rightarrow> map_sum id JStr (ux_timestamp t code))"

definition build_form ::
  "(string \<Rightarrow> string) \<Rightarrow> form_request \<Rightarrow> stamp option \<Rightarrow> stamp option \<Rightarrow> stamp \<Rightarrow> json res" where
  "build_form h q valid_from valid_to created_at =
     rbind (request_checks q) (\<lambda>_.
     rbind (validate_scope (fq_scope q) (fq_organization q)) (\<lambda>scope.
     rbind (scope_mode_check (JStr (fq_mode q)) (jopt (fq_scenario q)) scope) (\<lambda>_.
     rbind (currency_check (jopt (fq_currency q))) (\<lambda>_.
     rbind (optional_stamp valid_from ''UX_VALID_FROM_INVALID'') (\<lambda>start.
     rbind (optional_stamp valid_to ''UX_VALID_TO_INVALID'') (\<lambda>end_time.
     rbind (interval_check start end_time) (\<lambda>_.
     rbind (ux_timestamp created_at ''UX_CREATED_AT_INVALID'') (\<lambda>created.
     ux_sealed h ''form_hash''
       [(''schema_version'', JStr form_version), (''form_id'', JStr (fq_form_id q)), (''organization_id'', JStr (fq_organization q)),
        (''mode'', JStr (fq_mode q)), (''scenario_id'', jopt (fq_scenario q)), (''actor'', JStr (fq_actor q)), (''scope'', JObj scope),
        (''valid_from'', start), (''valid_to'', end_time), (''currency'', jopt (fq_currency q)), (''created_at'', JStr created),
        (''publication_state'', JStr ''PREVIEW_ONLY''), (''fields'', JList base_form_fields), (''status'', JStr ''BLOCKED''),
        (''problems'', JList []), (''form_hash'', JStr [])]))))))))"

subsection \<open>Validation\<close>

definition field_keys :: "string list" where
  "field_keys = [''field_id'', ''label'', ''input_kind'', ''control'', ''required'', ''requires_currency'', ''contract_unit'',
     ''accessible_name'', ''value'', ''state'', ''diagnostic'']"

definition field_value_ok :: "string \<Rightarrow> json \<Rightarrow> bool" where
  "field_value_ok field_id v =
     (if field_id = ''tax_base'' then is_allowed_string v tax_bases else is_decimal_string v)"

definition validate_form_field :: "json \<Rightarrow> string \<times> field_definition \<Rightarrow> unit res" where
  "validate_form_field v expected =
     (let d = jdict v; invalid = ''UX_FORM_FIELDS_INVALID'' in
      checks
        [ux_if (\<not> is_mapping v \<or> \<not> keys_are d field_keys \<or> list_ex (\<lambda>(k, x). dget d k \<noteq> x) (fixed_fields (fst expected) (snd expected))) invalid,
         ux_name (dget d ''state'') field_states invalid,
         (if dget d ''state'' = JStr ''VALID''
          then ux_if (\<not> is_nonempty_string (dget d ''value'') \<or> dget d ''diagnostic'' \<noteq> JNull \<or> \<not> field_value_ok (fst expected) (dget d ''value'')) invalid
          else ux_if (dget d ''value'' \<noteq> JNull \<or> \<not> is_nonempty_string (dget d ''diagnostic'')) invalid)])"

definition validate_problem :: "json \<Rightarrow> unit res" where
  "validate_problem v =
     ux_if (\<not> is_mapping v \<or> \<not> keys_are (jdict v) [''code'', ''field_id'', ''message''] \<or>
       list_ex (\<lambda>(k, x). \<not> is_nonempty_string (dget (jdict v) k)) (jdict v)) ''UX_FORM_PROBLEMS_INVALID''"

definition form_keys :: "string list" where
  "form_keys = [''schema_version'', ''form_id'', ''organization_id'', ''mode'', ''scenario_id'', ''actor'', ''scope'', ''valid_from'',
     ''valid_to'', ''currency'', ''created_at'', ''publication_state'', ''fields'', ''status'', ''problems'', ''form_hash'']"

definition form_header_checks :: "json \<Rightarrow> unit res list" where
  "form_header_checks form =
     (let d = jdict form in
      [ux_if (\<not> is_mapping form \<or> \<not> keys_are d form_keys) ''UX_FORM_MALFORMED'',
       ux_if (dget d ''schema_version'' \<noteq> JStr form_version) ''UX_FORM_SCHEMA_INVALID'',
       ux_if (dget d ''publication_state'' \<noteq> JStr ''PREVIEW_ONLY'') ''UX_FORM_PUBLICATION_STATE_INVALID'',
       ux_if (\<not> is_nonempty_string (dget d ''form_id'')) ''UX_FORM_ID_INVALID'',
       ux_if (\<not> is_nonempty_string (dget d ''organization_id'')) ''UX_ORGANIZATION_ID_INVALID'',
       ux_if (\<not> is_nonempty_string (dget d ''actor'')) ''UX_ACTOR_INVALID'',
       ux_name (dget d ''mode'') ux_modes ''UX_MODE_INVALID'',
       scenario_check (dget d ''mode'') (dget d ''scenario_id''),
       rbind (validate_scope (dget d ''scope'') (jstr (dget d ''organization_id'')))
         (scope_mode_check (dget d ''mode'') (dget d ''scenario_id'')),
       currency_check (dget d ''currency'')])"

definition form_time_checks :: "dict \<Rightarrow> unit res list" where
  "form_time_checks d =
     [ux_if (\<not> valid_datetime_text (dget d ''created_at'')) ''UX_CREATED_AT_INVALID'',
      ux_if (dget d ''valid_from'' \<noteq> JNull \<and> \<not> valid_datetime_text (dget d ''valid_from'')) ''UX_VALID_FROM_INVALID'',
      ux_if (dget d ''valid_to'' \<noteq> JNull \<and> \<not> valid_datetime_text (dget d ''valid_to'')) ''UX_VALID_TO_INVALID'',
      interval_check (dget d ''valid_from'') (dget d ''valid_to'')]"

definition is_list :: "json \<Rightarrow> bool" where
  "is_list v = (case v of JList _ \<Rightarrow> True | _ \<Rightarrow> False)"

definition form_body_checks :: "dict \<Rightarrow> unit res list" where
  "form_body_checks d =
     [ux_name (dget d ''status'') form_statuses ''UX_FORM_STATUS_INVALID'',
      ux_if (\<not> is_list (dget d ''problems'')) ''UX_FORM_PROBLEMS_INVALID'',
      checks (map validate_problem (jlist (dget d ''problems''))),
      ux_if (\<not> is_list (dget d ''fields'') \<or> length (jlist (dget d ''fields'')) \<noteq> length configuration_fields) ''UX_FORM_FIELDS_INVALID'',
      checks (map2 validate_form_field (jlist (dget d ''fields'')) field_definitions)]"

definition validate_form :: "(string \<Rightarrow> string) \<Rightarrow> json \<Rightarrow> unit res" where
  "validate_form h form =
     (let d = jdict form in
      checks (form_header_checks form @ form_time_checks d @ form_body_checks d @
        [rbind (ux_hash h d ''form_hash'') (\<lambda>x. ux_if (dget d ''form_hash'' \<noteq> JStr x) ''UX_FORM_HASH_MISMATCH'')]))"

subsection \<open>Values\<close>

definition form_problem :: "string \<Rightarrow> string \<Rightarrow> string \<Rightarrow> json" where
  "form_problem code field_id message =
     JObj [(''code'', JStr code), (''field_id'', JStr field_id), (''message'', JStr message)]"

definition set_field :: "json \<Rightarrow> string \<Rightarrow> json \<Rightarrow> dict \<Rightarrow> json" where
  "set_field v state diagnostic d =
     JObj (dput ''diagnostic'' diagnostic (dput ''state'' (JStr state) (dput ''value'' v d)))"

text \<open>One field with the value supplied for it, and the problems that come up.\<close>

definition apply_field :: "json \<Rightarrow> dict \<Rightarrow> json \<Rightarrow> json \<times> json list" where
  "apply_field currency supplied field =
     (let d = jdict field; field_id = jstr (dget d ''field_id''); raw = dget supplied field_id;
          refuse = (\<lambda>state code message. (set_field JNull state (JStr code) d, [form_problem code field_id message])) in
      if raw = JNull \<or> raw = JStr [] then (set_field JNull ''EMPTY'' (JStr ''CONFIGURATION_REQUIRED'') d, [])
      else if field_id = ''tax_base'' \<and> \<not> is_allowed_string raw tax_bases then
        refuse ''INVALID'' ''TAX_BASE_INVALID'' ''Tax base must use the approved B1a RATE vocabulary.''
      else if field_id \<noteq> ''tax_base'' \<and> \<not> is_decimal_string raw then
        refuse ''INVALID'' ''DECIMAL_INPUT_INVALID'' ''Value must be an explicit normalized decimal string.''
      else if dget d ''requires_currency'' = JBool True \<and> currency = JNull then
        refuse ''BLOCKED'' ''CURRENCY_REQUIRED'' ''Currency is required for monetary configuration.''
      else (set_field raw ''VALID'' JNull d, []))"

definition count_state :: "string \<Rightarrow> json list \<Rightarrow> nat" where
  "count_state s fs = length (filter (\<lambda>v. dget (jdict v) ''state'' = JStr s) fs)"

definition form_status :: "json list \<Rightarrow> json list \<Rightarrow> string" where
  "form_status problems fs =
     (if problems \<noteq> [] \<or> count_state ''INVALID'' fs + count_state ''BLOCKED'' fs \<noteq> 0 then ''BLOCKED''
      else if count_state ''VALID'' fs = length configuration_fields then ''READY_FOR_RULE_DRAFT''
      else if count_state ''VALID'' fs \<noteq> 0 \<and> count_state ''EMPTY'' fs \<noteq> 0 then ''PARTIAL''
      else ''BLOCKED'')"

definition start_problems :: "dict \<Rightarrow> json list" where
  "start_problems d =
     (if dget d ''valid_from'' = JNull
      then [form_problem ''VALID_FROM_REQUIRED'' ''valid_from'' ''An explicit validity start is required.''] else [])"

definition apply_values :: "(string \<Rightarrow> string) \<Rightarrow> json \<Rightarrow> json \<Rightarrow> json res" where
  "apply_values h form supplied =
     rbind (validate_form h form) (\<lambda>_.
     rbind (ux_if (\<not> is_mapping supplied \<or> \<not> list_all (\<lambda>p. List.member configuration_fields (fst p)) (jdict supplied))
       ''UX_CONFIGURATION_VALUES_INVALID'') (\<lambda>_.
     rbind (ux_clone form) (\<lambda>updated.
       let d = jdict updated;
           applied = map (apply_field (dget d ''currency'') (jdict supplied)) (jlist (dget d ''fields''));
           fs = map fst applied; problems = start_problems d @ concat (map snd applied) in
       ux_sealed h ''form_hash''
         (dput ''problems'' (JList problems) (dput ''status'' (JStr (form_status problems fs)) (dput ''fields'' (JList fs) d))))))"

end
