(* ===== verification/UxViews.thy ===== *)
theory UxViews imports UxForms RawStorage Domain begin

text \<open>
  \<open>ux/runtime.py\<close>, second half: the view of a report record, of an import and of the evidence
  behind a record, and the inbox of exceptions. The dash shown for a missing value is a character
  above 255, so it is the argument \<open>dash\<close>.
\<close>

section \<open>Views\<close>

definition state_presentation :: "(string \<times> string \<times> string \<times> string) list" where
  "state_presentation =
     [(''EMPTY'', ''No value'', ''empty'', ''No value is available.''),
      (''BLOCKED'', ''Blocked'', ''blocked'', ''The result is blocked.''),
      (''UNAVAILABLE'', ''Unavailable'', ''unavailable'', ''The source is unavailable.''),
      (''CONFLICT'', ''Conflict'', ''conflict'', ''Conflicting evidence prevents publication.''),
      (''INVALID'', ''Invalid'', ''invalid'', ''The result is invalid.''),
      (''NOT_APPLICABLE'', ''Not applicable'', ''not-applicable'', ''The metric is not applicable.'')]"

fun import_presentation :: "raw_state \<Rightarrow> string \<times> string \<times> string" where
  "import_presentation Received = (''Received'', ''received'', ''The file was received and is waiting for validation.'')"
| "import_presentation Validating = (''Validating'', ''validating'', ''The file is being validated.'')"
| "import_presentation RawValid = (''Valid'', ''valid'', ''The file passed schema validation.'')"
| "import_presentation Quarantined =
     (''Quarantined'', ''quarantined'', ''The file was quarantined and was not admitted to canonical processing.'')"
| "import_presentation Rejected =
     (''Rejected'', ''rejected'', ''The file was rejected and was not admitted to canonical processing.'')"

text \<open>\<open>validate_report_record\<close>, its error translated.\<close>

definition reported :: "(string \<Rightarrow> string) \<Rightarrow> json \<Rightarrow> unit res" where
  "reported h r =
     (case validate_report_record h r of
        Inl (ReportingError code) \<Rightarrow> ux_error (''UX_REPORT_INVALID:'' @ code)
      | m \<Rightarrow> m)"

text \<open>The texts of a result: label, token, summary, value, and whether it is zero.\<close>

record presentation =
  pr_label :: string
  pr_token :: string
  pr_summary :: string
  pr_value :: string
  pr_zero :: bool

definition present_valid :: "json \<Rightarrow> presentation" where
  "present_valid v =
     (let shown = cell_text v in
      if v = JStr ''0'' \<or> v = JInt 0
      then \<lparr>pr_label = ''Valid numeric zero'', pr_token = ''valid-zero'', pr_summary = ''Valid result with numeric value zero.'',
        pr_value = shown, pr_zero = True\<rparr>
      else \<lparr>pr_label = ''Valid'', pr_token = ''valid'', pr_summary = ''Valid result: '' @ shown @ ''.'', pr_value = shown,
        pr_zero = False\<rparr>)"

definition present_state :: "string \<Rightarrow> string \<Rightarrow> json \<Rightarrow> presentation res" where
  "present_state dash state v =
     (if state = ''VALID'' then Inr (present_valid v)
      else case map_of state_presentation state of
        None \<Rightarrow> ux_error ''UX_TYPED_STATE_INVALID''
      | Some (label, token, summary) \<Rightarrow>
          Inr \<lparr>pr_label = label, pr_token = token, pr_summary = summary, pr_value = dash, pr_zero = False\<rparr>)"

definition result_view :: "json \<Rightarrow> presentation \<Rightarrow> dict" where
  "result_view r p =
     (let field = (\<lambda>f. record_field f r) in
      [(''schema_version'', JStr ux_view_version), (''view_type'', JStr ''METRIC_RESULT''),
       (''view_id'', JStr (''ux:'' @ jstr (field ''report_record_id''))), (''organization_id'', field ''organization_id''),
       (''mode'', field ''mode''), (''scenario_id'', field ''scenario_id''), (''metric_snapshot_id'', field ''metric_snapshot_id''),
       (''state'', field ''state''), (''status_label'', JStr (pr_label p)), (''status_token'', JStr (pr_token p)),
       (''semantic_role'', JStr ''status''), (''accessible_summary'', JStr (pr_summary p)), (''value_text'', JStr (pr_value p)),
       (''is_numeric_zero'', JBool (pr_zero p)), (''reason_code'', field ''reason_code''),
       (''publication_state'', field ''publication_state''),
       (''evidence_available'', JBool (field ''evidence_chain_content_hash'' \<noteq> JNull)),
       (''limitations'', JList (jlist (field ''limitations''))), (''view_hash'', JStr [])])"

definition runtime_render_report :: "(string \<Rightarrow> string) \<Rightarrow> string \<Rightarrow> json \<Rightarrow> json res" where
  "runtime_render_report h dash r =
     rbind (reported h r) (\<lambda>_.
     rbind (present_state dash (jstr (record_field ''state'' r)) (record_field ''value'' r)) (\<lambda>p.
     ux_sealed h ''view_hash'' (result_view r p)))"

definition runtime_render_import :: "(string \<Rightarrow> string) \<Rightarrow> raw_record \<Rightarrow> json res" where
  "runtime_render_import h r =
     (case import_presentation (rr_state r) of (label, token, summary) \<Rightarrow>
      ux_sealed h ''view_hash''
        [(''schema_version'', JStr ux_view_version), (''view_type'', JStr ''IMPORT_STATUS''),
         (''view_id'', JStr (''ux:import:'' @ rr_id r)), (''tenant_id'', JStr (rr_tenant r)), (''raw_file_id'', JStr (rr_id r)),
         (''sha256'', JStr (rr_sha r)), (''size_bytes'', JInt (rr_size r)), (''filename'', JStr (rr_filename r)),
         (''state'', JStr (raw_state_value (rr_state r))), (''status_label'', JStr label), (''status_token'', JStr token),
         (''semantic_role'', JStr ''status''), (''accessible_summary'', JStr summary), (''schema_id'', jopt (rr_schema r)),
         (''diagnostics'', JList (map JStr (rr_diagnostics r))),
         (''structural_fingerprint_available'', JBool (rr_structural r \<noteq> None)),
         (''semantic_fingerprint_available'', JBool (rr_semantic r \<noteq> None)),
         (''admitted_to_canonical_processing'', JBool (rr_state r = RawValid)), (''view_hash'', JStr [])])"

definition report_drilldown :: "(string \<Rightarrow> string) \<Rightarrow> json \<Rightarrow> json res" where
  "report_drilldown h r =
     rbind (reported h r) (\<lambda>_.
     rbind (ux_clone (record_field ''evidence_chain_ref'' r)) (\<lambda>ref.
     let field = (\<lambda>f. record_field f r); verified = (field ''publication_state'' = JStr ''EVIDENCE_VERIFIED'') in
     ux_sealed h ''view_hash''
       [(''schema_version'', JStr ux_view_version), (''view_type'', JStr ''EVIDENCE_DRILLDOWN''),
        (''view_id'', JStr (''ux:evidence:'' @ jstr (field ''report_record_id''))), (''organization_id'', field ''organization_id''),
        (''mode'', field ''mode''), (''scenario_id'', field ''scenario_id''), (''metric_snapshot_id'', field ''metric_snapshot_id''),
        (''metric_content_hash'', field ''metric_content_hash''), (''evidence_chain_ref'', ref),
        (''evidence_chain_content_hash'', field ''evidence_chain_content_hash''),
        (''verification_status'', JStr (if verified then ''VERIFIED'' else ''PREVIEW_ONLY'')),
        (''can_claim_verified_evidence'', JBool verified), (''limitations'', JList (jlist (field ''limitations''))),
        (''view_hash'', JStr [])]))"

section \<open>The inbox\<close>

definition exception_id :: "(string \<Rightarrow> string) \<Rightarrow> string list \<Rightarrow> string" where
  "exception_id h parts = ''exc-'' @ take 24 (h (join unit_separator parts))"

text \<open>The fields in which exceptions differ.\<close>

record inbox_exception =
  ie_id :: string
  ie_category :: string
  ie_state :: string
  ie_cause :: string
  ie_metrics :: "json list"
  ie_evidence :: "json list"
  ie_resolution :: string
  ie_error :: bool
  ie_summary :: string

definition exception_document :: "inbox_exception \<Rightarrow> json" where
  "exception_document e = JObj
     [(''exception_id'', JStr (ie_id e)), (''category'', JStr (ie_category e)), (''state'', JStr (ie_state e)),
      (''cause'', JStr (ie_cause e)), (''affected_metric_ids'', JList (ie_metrics e)), (''evidence_refs'', JList (ie_evidence e)),
      (''required_resolution'', JStr (ie_resolution e)), (''severity'', JStr (if ie_error e then ''ERROR'' else ''WARNING'')),
      (''status'', JStr ''OPEN''), (''accessible_summary'', JStr (ie_summary e))]"

type_synonym business = "string \<times> string \<times> json"

record inbox_state =
  ib_business :: "business option"
  ib_exceptions :: "inbox_exception list"
  ib_metrics :: "string list"
  ib_records :: "string list"
  ib_imports :: "string list"

definition new_inbox :: inbox_state where
  "new_inbox = \<lparr>ib_business = None, ib_exceptions = [], ib_metrics = [], ib_records = [], ib_imports = []\<rparr>"

definition same_business :: "business option \<Rightarrow> business \<Rightarrow> business res" where
  "same_business current candidate =
     (case current of
        None \<Rightarrow> Inr candidate
      | Some b \<Rightarrow>
          if fst b \<noteq> fst candidate then ux_error ''UX_INBOX_ORGANIZATION_MIXED''
          else if snd b \<noteq> snd candidate then ux_error ''UX_INBOX_MODE_MIXED'' else Inr b)"

definition business_of :: "dict \<Rightarrow> business" where
  "business_of d = (jstr (dget d ''organization_id''), jstr (dget d ''mode''), dget d ''scenario_id'')"

definition metric_exception :: "(string \<Rightarrow> string) \<Rightarrow> json \<Rightarrow> json \<Rightarrow> inbox_exception" where
  "metric_exception h r ref =
     (let record_id = jstr (record_field ''report_record_id'' r); state = jstr (record_field ''state'' r);
          reason = jstr (record_field ''reason_code'' r); cause = (if reason = [] then ''STATE_'' @ state else reason) in
      \<lparr>ie_id = exception_id h [''metric'', record_id, cause], ie_category = ''METRIC'', ie_state = state, ie_cause = cause,
        ie_metrics = [record_field ''metric_snapshot_id'' r], ie_evidence = [ref],
        ie_resolution = ''Resolve the recorded cause and recalculate without replacing missing values with zero.'',
        ie_error = List.member [''BLOCKED'', ''CONFLICT'', ''INVALID''] state,
        ie_summary = state @ '' metric '' @ jstr (record_field ''metric_snapshot_id'' r) @ '': '' @ cause @ ''.''\<rparr>)"

definition inbox_record :: "(string \<Rightarrow> string) \<Rightarrow> json \<Rightarrow> inbox_state \<Rightarrow> inbox_state res" where
  "inbox_record h r s =
     rbind (reported h r) (\<lambda>_.
     let record_id = jstr (record_field ''report_record_id'' r); state = record_field ''state'' r in
     if List.member (ib_records s) record_id then ux_error ''UX_INBOX_RECORD_DUPLICATE''
     else rbind (same_business (ib_business s) (business_of (jdict r))) (\<lambda>b.
       let s' = s\<lparr>ib_records := record_id # ib_records s, ib_business := Some b\<rparr> in
       if state = JStr ''VALID'' then Inr (s'\<lparr>ib_metrics := jstr (record_field ''metric_snapshot_id'' r) # ib_metrics s'\<rparr>)
       else if state = JStr ''NOT_APPLICABLE'' then Inr s'
       else rbind (ux_clone (record_field ''evidence_chain_ref'' r)) (\<lambda>ref.
         Inr (s'\<lparr>ib_exceptions := ib_exceptions s' @ [metric_exception h r ref]\<rparr>))))"

definition field_exception :: "(string \<Rightarrow> string) \<Rightarrow> string \<Rightarrow> json \<Rightarrow> inbox_exception list" where
  "field_exception h form_id field =
     (let d = jdict field; field_id = jstr (dget d ''field_id''); state = jstr (dget d ''state'');
          diagnostic = jstr (dget d ''diagnostic''); cause = (if diagnostic = [] then ''CONFIGURATION_REQUIRED'' else diagnostic) in
      if state = ''VALID'' then []
      else
        [\<lparr>ie_id = exception_id h [''configuration'', form_id, field_id, cause], ie_category = ''CONFIGURATION'', ie_state = state,
          ie_cause = cause, ie_metrics = [], ie_evidence = [],
          ie_resolution = (case map_of field_definitions field_id of None \<Rightarrow> [] | Some k \<Rightarrow> fd_resolution k),
          ie_error = List.member [''BLOCKED'', ''INVALID''] state,
          ie_summary = ''Configuration '' @ jstr (dget d ''label'') @ '': '' @ cause @ ''.''\<rparr>])"

definition start_exception :: "(string \<Rightarrow> string) \<Rightarrow> dict \<Rightarrow> inbox_exception list" where
  "start_exception h d =
     (if dget d ''valid_from'' = JNull
      then [\<lparr>ie_id = exception_id h [''configuration'', jstr (dget d ''form_id''), ''valid_from'', ''VALID_FROM_REQUIRED''],
          ie_category = ''CONFIGURATION'', ie_state = ''EMPTY'', ie_cause = ''VALID_FROM_REQUIRED'', ie_metrics = [], ie_evidence = [],
          ie_resolution = ''Provide an explicit validity start.'', ie_error = True,
          ie_summary = ''Configuration validity start is required.''\<rparr>]
      else [])"

definition form_exceptions :: "(string \<Rightarrow> string) \<Rightarrow> json \<Rightarrow> inbox_exception list" where
  "form_exceptions h form =
     (let d = jdict form in
      concat (map (field_exception h (jstr (dget d ''form_id''))) (jlist (dget d ''fields''))) @ start_exception h d)"

definition inbox_form :: "(string \<Rightarrow> string) \<Rightarrow> json \<Rightarrow> inbox_state \<Rightarrow> inbox_state res" where
  "inbox_form h form s =
     rbind (validate_form h form) (\<lambda>_.
     rbind (same_business (ib_business s) (business_of (jdict form))) (\<lambda>b.
     Inr (s\<lparr>ib_business := Some b, ib_exceptions := ib_exceptions s @ form_exceptions h form\<rparr>)))"

definition import_exception :: "(string \<Rightarrow> string) \<Rightarrow> raw_record \<Rightarrow> inbox_exception list" where
  "import_exception h r =
     (if List.member [Quarantined, Rejected] (rr_state r)
      then
        (let cause = (case find (\<lambda>x. x \<noteq> []) (rr_diagnostics r) of None \<Rightarrow> ''IMPORT_'' @ raw_state_value (rr_state r) | Some x \<Rightarrow> x) in
         [\<lparr>ie_id = exception_id h [''import'', rr_id r, cause], ie_category = ''SCHEMA'',
           ie_state = (if rr_state r = Quarantined then ''CONFLICT'' else ''INVALID''), ie_cause = cause, ie_metrics = [],
           ie_evidence = [JObj [(''raw_file_id'', JStr (rr_id r)), (''sha256'', JStr (rr_sha r))]],
           ie_resolution = ''Review the file diagnostics and submit a corrected file; the quarantined or rejected file remains excluded.'',
           ie_error = True,
           ie_summary = raw_state_value (rr_state r) @ '' import '' @ rr_filename r @ '': '' @ cause @ ''.''\<rparr>])
      else [])"

definition inbox_import :: "(string \<Rightarrow> string) \<Rightarrow> string \<Rightarrow> raw_record \<Rightarrow> inbox_state \<Rightarrow> inbox_state res" where
  "inbox_import h t r s =
     (if rr_tenant r \<noteq> t then ux_error ''UX_INBOX_TENANT_MIXED''
      else if List.member (ib_imports s) (rr_id r) then ux_error ''UX_INBOX_IMPORT_DUPLICATE''
      else Inr (s\<lparr>ib_imports := rr_id r # ib_imports s, ib_exceptions := ib_exceptions s @ import_exception h r\<rparr>))"

definition inbox_document :: "string option \<Rightarrow> string \<Rightarrow> inbox_state \<Rightarrow> dict" where
  "inbox_document t generated s =
     (let b = ib_business s; metrics = sorted_set (ib_metrics s); es = sort_key ie_id (ib_exceptions s) in
      [(''schema_version'', JStr inbox_version), (''tenant_id'', jopt t), (''organization_id'', jopt (map_option fst b)),
       (''mode'', jopt (map_option (fst \<circ> snd) b)), (''scenario_id'', (case b of None \<Rightarrow> JNull | Some (_, _, scenario) \<Rightarrow> scenario)),
       (''generated_at'', JStr generated), (''exceptions'', JList (map exception_document es)),
       (''available_metric_ids'', JList (map JStr metrics)), (''independent_results_preserved'', JBool (metrics \<noteq> [])),
       (''exception_count'', JInt (int (length es))), (''inbox_hash'', JStr [])])"

definition inbox_contents ::
  "(string \<Rightarrow> string) \<Rightarrow> json list \<Rightarrow> json list \<Rightarrow> raw_record list \<Rightarrow> string option \<Rightarrow> inbox_state res" where
  "inbox_contents h records forms imports t =
     rbind (rfold (inbox_record h) records new_inbox) (\<lambda>s.
     rbind (rfold (inbox_form h) forms s) (\<lambda>s.
     if imports = [] then
       (if ib_business s = None then ux_error ''UX_INBOX_CONTEXT_EMPTY'' else Inr s)
     else (case t of
         Some name \<Rightarrow> if name = [] then ux_error ''UX_INBOX_TENANT_REQUIRED'' else rfold (inbox_import h name) imports s
       | None \<Rightarrow> ux_error ''UX_INBOX_TENANT_REQUIRED'')))"

definition runtime_inbox ::
  "(string \<Rightarrow> string) \<Rightarrow> json list \<Rightarrow> json list \<Rightarrow> raw_record list \<Rightarrow> string option \<Rightarrow> stamp \<Rightarrow> json res" where
  "runtime_inbox h records forms imports t generated_at =
     rbind (inbox_contents h records forms imports t) (\<lambda>s.
     rbind (ux_timestamp generated_at ''UX_INBOX_TIMESTAMP_INVALID'') (\<lambda>generated.
     ux_sealed h ''inbox_hash'' (inbox_document t generated s)))"

end
