(* ===== verification/UxBoundary.thy ===== *)
theory UxBoundary imports UxViews begin

text \<open>
  \<open>ux/validation.py\<close> and \<open>ux/__init__.py\<close>: the stricter checks of callers' input and the public
  operations, which run them before those of the runtime and translate their errors.
\<close>

abbreviation boundary_error :: "string \<Rightarrow> 'a res" where
  "boundary_error code \<equiv> Inl (UXBoundaryError code)"

definition boundary_if :: "bool \<Rightarrow> string \<Rightarrow> unit res" where
  "boundary_if failed code = (if failed then boundary_error code else Inr ())"

definition boundary_name :: "json \<Rightarrow> string list \<Rightarrow> string \<Rightarrow> unit res" where
  "boundary_name v names code = rbind (in_names v names) (\<lambda>found. boundary_if (\<not> found) code)"

lemma boundary_if_Inr [res_simps]: "boundary_if b code = Inr u \<longleftrightarrow> \<not> b"
  by (simp add: boundary_if_def)

section \<open>The boundary\<close>

text \<open>\<open>_RFC3339_RE\<close> is the pattern of the evidence layer without the lower-case letters.\<close>

definition is_strict_rfc3339 :: "json \<Rightarrow> bool" where
  "is_strict_rfc3339 v =
     (case v of
        JStr s \<Rightarrow> rfc3339_re s \<and> \<not> List.member s CHR ''t'' \<and> \<not> List.member s CHR ''z'' \<and> valid_datetime_text (JStr s)
      | _ \<Rightarrow> False)"

definition boundary_scope_checks :: "dict \<Rightarrow> unit res list" where
  "boundary_scope_checks d =
     (let scope = dget d ''scope''; k = jdict scope; mode = dget d ''mode'' in
      [boundary_if (\<not> is_mapping scope \<or> dget k ''organization_id'' \<noteq> dget d ''organization_id'') ''UX_SCOPE_ORGANIZATION_MISMATCH'',
       boundary_if (has_key k ''product_id'' \<and> has_key k ''product_group_id'') ''UX_SCOPE_PRODUCT_AMBIGUOUS'',
       boundary_if (\<not> list_all (\<lambda>p. is_nonempty_string (snd p)) k) ''UX_SCOPE_INVALID'',
       boundary_if (mode = JStr ''ACTUAL'' \<and> has_key k ''scenario_id'' \<or>
         mode = JStr ''SCENARIO'' \<and> dget k ''scenario_id'' \<noteq> dget d ''scenario_id'') ''UX_SCOPE_SCENARIO_MISMATCH''])"

definition boundary_time_checks :: "dict \<Rightarrow> unit res list" where
  "boundary_time_checks d =
     [boundary_if (\<not> is_strict_rfc3339 (dget d ''created_at'')) ''UX_CREATED_AT_INVALID'',
      boundary_if (dget d ''valid_from'' \<noteq> JNull \<and> \<not> is_strict_rfc3339 (dget d ''valid_from'')) ''UX_VALID_FROM_INVALID'',
      boundary_if (dget d ''valid_to'' \<noteq> JNull \<and> \<not> is_strict_rfc3339 (dget d ''valid_to'')) ''UX_VALID_TO_INVALID'',
      boundary_if (case (evidence_datetime (dget d ''valid_from''), evidence_datetime (dget d ''valid_to'')) of
          (Some a, Some b) \<Rightarrow> b \<le> a | _ \<Rightarrow> False) ''UX_VALIDITY_INTERVAL_INVALID'']"

definition boundary_problem :: "json \<Rightarrow> unit res" where
  "boundary_problem v =
     boundary_if (\<not> is_mapping v \<or> \<not> keys_are (jdict v) [''code'', ''field_id'', ''message''] \<or>
       list_ex (\<lambda>(k, x). \<not> is_nonempty_string (dget (jdict v) k)) (jdict v)) ''UX_FORM_PROBLEMS_INVALID''"

definition boundary_body_checks :: "dict \<Rightarrow> unit res list" where
  "boundary_body_checks d =
     (let fs = jlist (dget d ''fields'') in
      [boundary_name (dget d ''status'') form_statuses ''UX_FORM_STATUS_INVALID'',
       boundary_if (\<not> is_list (dget d ''fields'') \<or> length fs \<noteq> length configuration_fields) ''UX_FORM_FIELDS_INVALID'',
       boundary_if (map (\<lambda>v. dget (jdict v) ''field_id'') (filter is_mapping fs) \<noteq> map JStr configuration_fields) ''UX_FORM_FIELDS_INVALID'',
       boundary_if (\<not> is_list (dget d ''problems'')) ''UX_FORM_PROBLEMS_INVALID'',
       checks (map boundary_problem (jlist (dget d ''problems'')))])"

definition form_boundary :: "json \<Rightarrow> unit res" where
  "form_boundary form =
     (let d = jdict form; mode = dget d ''mode''; scenario = dget d ''scenario_id'' in
      checks
        ([boundary_if (\<not> is_mapping form) ''UX_FORM_MALFORMED'',
          boundary_if (\<not> is_nonempty_string (dget d ''form_id'')) ''UX_FORM_ID_INVALID'',
          boundary_if (\<not> is_nonempty_string (dget d ''organization_id'')) ''UX_ORGANIZATION_ID_INVALID'',
          boundary_if (\<not> is_nonempty_string (dget d ''actor'')) ''UX_ACTOR_INVALID'',
          boundary_name mode ux_modes ''UX_MODE_INVALID'',
          boundary_if (mode = JStr ''ACTUAL'' \<and> scenario \<noteq> JNull) ''UX_SCENARIO_INVALID'',
          boundary_if (mode = JStr ''SCENARIO'' \<and> \<not> is_nonempty_string scenario) ''UX_SCENARIO_INVALID''] @
         boundary_scope_checks d @
         [boundary_if (dget d ''currency'' \<noteq> JNull \<and> \<not> is_currency (dget d ''currency'')) ''UX_CURRENCY_INVALID''] @
         boundary_time_checks d @ boundary_body_checks d))"

definition raw_record_boundary :: "raw_record \<Rightarrow> unit res" where
  "raw_record_boundary r =
     checks
       [boundary_if (map_option uuid_text (uuid_int (rr_id r)) \<noteq> Some (rr_id r) \<or> rr_tenant r = [] \<or> \<not> hash_re (rr_sha r) \<or>
          rr_size r < 0 \<or> \<not> safe_filename (rr_filename r) \<or> rr_key r \<noteq> storage_key (rr_tenant r) (rr_sha r)) ''UX_IMPORT_RECORD_INVALID'',
        boundary_if (\<not> state_payload (rr_state r) (rr_schema r) (rr_structural r) (rr_semantic r) (rr_diagnostics r))
          ''UX_IMPORT_STATE_PAYLOAD_INVALID'']"

fun imports_boundary :: "string \<Rightarrow> string list \<Rightarrow> raw_record list \<Rightarrow> unit res" where
  "imports_boundary t seen [] = Inr ()"
| "imports_boundary t seen (r # rs) =
     rbind (checks [raw_record_boundary r, boundary_if (rr_tenant r \<noteq> t) ''UX_INBOX_TENANT_MIXED'',
       boundary_if (List.member seen (rr_id r)) ''UX_INBOX_IMPORT_DUPLICATE'']) (\<lambda>_. imports_boundary t (rr_id r # seen) rs)"

definition import_collection_boundary :: "raw_record list \<Rightarrow> string option \<Rightarrow> unit res" where
  "import_collection_boundary rs t =
     (if rs = [] then Inr ()
      else (case t of
          None \<Rightarrow> boundary_error ''UX_INBOX_TENANT_REQUIRED''
        | Some name \<Rightarrow> if name = [] then boundary_error ''UX_INBOX_TENANT_REQUIRED'' else imports_boundary name [] rs))"

section \<open>Public operations\<close>

definition translate_boundary :: "'a res \<Rightarrow> 'a res" where
  "translate_boundary m = (case m of Inl (UXBoundaryError code) \<Rightarrow> ux_error code | _ \<Rightarrow> m)"

lemma translate_boundary_Inr [res_simps]: "translate_boundary m = Inr x \<longleftrightarrow> m = Inr x"
  by (auto simp: translate_boundary_def split: sum.splits exn.splits)

definition is_numeric_zero :: "json \<Rightarrow> bool" where
  "is_numeric_zero v =
     (case v of
        JInt i \<Rightarrow> i = 0
      | JStr s \<Rightarrow> (case decimal_of_text s of Some (Finite d) \<Rightarrow> is_zero d | _ \<Rightarrow> False)
      | _ \<Rightarrow> False)"

text \<open>\<open>_rehash_view\<close>; nothing translates the \<open>ValueError\<close> of \<open>json.dumps\<close> here.\<close>

definition rehash_view :: "(string \<Rightarrow> string) \<Rightarrow> dict \<Rightarrow> string res" where
  "rehash_view h view =
     (let v = JObj (filter (\<lambda>p. fst p \<noteq> ''view_hash'') view) in
      if json_ok v then Inr (h (json_text v)) else Inl (ValueError ''JSON''))"

definition stamp_input :: "stamp option \<Rightarrow> string \<Rightarrow> bool \<Rightarrow> unit res" where
  "stamp_input s code allow_none =
     (case s of
        None \<Rightarrow> ux_if (\<not> allow_none) code
      | Some (Moment t) \<Rightarrow> ux_if (\<not> is_strict_rfc3339 (JStr (isoformat t))) code
      | Some (Stamp v) \<Rightarrow> ux_if (\<not> is_strict_rfc3339 (JStr v)) code)"

definition build_configuration_form ::
  "(string \<Rightarrow> string) \<Rightarrow> form_request \<Rightarrow> stamp option \<Rightarrow> stamp option \<Rightarrow> stamp \<Rightarrow> json res" where
  "build_configuration_form h q valid_from valid_to created_at =
     rbind (checks [stamp_input valid_from ''UX_VALID_FROM_INVALID'' True, stamp_input valid_to ''UX_VALID_TO_INVALID'' True,
       stamp_input (Some created_at) ''UX_CREATED_AT_INVALID'' False]) (\<lambda>_. build_form h q valid_from valid_to created_at)"

definition apply_configuration_values :: "(string \<Rightarrow> string) \<Rightarrow> json \<Rightarrow> json \<Rightarrow> json res" where
  "apply_configuration_values h form supplied =
     rbind (translate_boundary (form_boundary form)) (\<lambda>_. apply_values h form supplied)"

definition zero_view :: "json \<Rightarrow> dict \<Rightarrow> dict" where
  "zero_view v view =
     dput ''is_numeric_zero'' (JBool True) (dput ''value_text'' (JStr (cell_text v))
       (dput ''accessible_summary'' (JStr ''Valid result with numeric value zero.'')
         (dput ''status_token'' (JStr ''valid-zero'') (dput ''status_label'' (JStr ''Valid numeric zero'') view))))"

definition render_report_record :: "(string \<Rightarrow> string) \<Rightarrow> string \<Rightarrow> json \<Rightarrow> json res" where
  "render_report_record h dash r =
     rbind (runtime_render_report h dash r) (\<lambda>view.
       if dget (jdict view) ''state'' = JStr ''VALID'' \<and> is_numeric_zero (record_field ''value'' r)
       then let d = zero_view (record_field ''value'' r) (jdict view) in
         rbind (rehash_view h d) (\<lambda>x. Inr (JObj (dput ''view_hash'' (JStr x) d)))
       else Inr view)"

definition render_import_status :: "(string \<Rightarrow> string) \<Rightarrow> raw_record \<Rightarrow> json res" where
  "render_import_status h r = rbind (translate_boundary (raw_record_boundary r)) (\<lambda>_. runtime_render_import h r)"

fun forms_boundary :: "string list \<Rightarrow> json list \<Rightarrow> unit res" where
  "forms_boundary seen [] = Inr ()"
| "forms_boundary seen (form # forms) =
     rbind (form_boundary form) (\<lambda>_.
       let form_id = jstr (dget (jdict form) ''form_id'') in
       if List.member seen form_id then boundary_error ''UX_INBOX_FORM_DUPLICATE'' else forms_boundary (form_id # seen) forms)"

definition build_exception_inbox ::
  "(string \<Rightarrow> string) \<Rightarrow> json list \<Rightarrow> json list \<Rightarrow> raw_record list \<Rightarrow> string option \<Rightarrow> stamp \<Rightarrow> json res" where
  "build_exception_inbox h records forms imports t generated_at =
     rbind (checks [ux_if (t = Some []) ''UX_INBOX_TENANT_REQUIRED'',
       stamp_input (Some generated_at) ''UX_INBOX_TIMESTAMP_INVALID'' False,
       translate_boundary (forms_boundary [] forms), translate_boundary (import_collection_boundary imports t)]) (\<lambda>_.
     runtime_inbox h records forms imports t generated_at)"

end
