(* ===== verification/UxSoundness.thy ===== *)
theory UxSoundness imports UxBoundary ReportingSoundness begin

text \<open>
  The presentation layer: sealed documents, forms that become ready exactly when every value is
  there, views that never show missing data as zero, and inboxes that list every open case.
\<close>

section \<open>Seals\<close>

lemma ux_sealedD:
  assumes "ux_sealed h field d = Inr v"
  shows "v = JObj (dput field (JStr (h (json_text (JObj (filter (\<lambda>p. fst p \<noteq> field) d))))) d)"
    "json_ok (JObj (filter (\<lambda>p. fst p \<noteq> field) d))"
  using assms by (auto simp: ux_sealed_def ux_hash_def ux_json_def split: if_splits)

lemma ux_hash_dput: "ux_hash h (dput field v d) field = ux_hash h d field"
  by (simp add: ux_hash_def filter_dput)

lemma ux_sealed_valid:
  assumes "\<forall>s. hash_re (h s)" and "ux_sealed h field d = Inr v"
  shows "validate_ux_hash h v field = Inr ()"
  using ux_sealedD [OF assms(2)] assms(1)
  by (simp add: validate_ux_hash_def jdict_def is_mapping_def is_hash_def ux_hash_dput ux_if_def, simp add: ux_hash_def ux_json_def ux_if_def)

lemma form_sealed: "build_form h q a b c = Inr v \<Longrightarrow> \<exists>d. ux_sealed h ''form_hash'' d = Inr v"
  by (auto simp: build_form_def res_simps)

lemma applied_sealed: "apply_values h form s = Inr v \<Longrightarrow> \<exists>d. ux_sealed h ''form_hash'' d = Inr v"
  by (auto simp: apply_values_def Let_def res_simps)

lemma result_sealed: "runtime_render_report h dash r = Inr v \<Longrightarrow> \<exists>d. ux_sealed h ''view_hash'' d = Inr v"
  by (auto simp: runtime_render_report_def res_simps)

lemma import_sealed: "runtime_render_import h r = Inr v \<Longrightarrow> \<exists>d. ux_sealed h ''view_hash'' d = Inr v"
  by (auto simp: runtime_render_import_def split: prod.splits)

lemma drilldown_sealed: "report_drilldown h r = Inr v \<Longrightarrow> \<exists>d. ux_sealed h ''view_hash'' d = Inr v"
  by (auto simp: report_drilldown_def Let_def res_simps)

lemma inbox_sealed: "runtime_inbox h rs fs is t g = Inr v \<Longrightarrow> \<exists>d. ux_sealed h ''inbox_hash'' d = Inr v"
  by (auto simp: runtime_inbox_def res_simps)

text \<open>The second seal of a view that shows a zero.\<close>

lemma rehash_sealed: "rehash_view h d = Inr x \<Longrightarrow> ux_sealed h ''view_hash'' d = Inr (JObj (dput ''view_hash'' (JStr x) d))"
  by (simp add: rehash_view_def ux_sealed_def ux_hash_def ux_json_def Let_def split: if_splits)

lemma rendered_sealed: "render_report_record h dash r = Inr v \<Longrightarrow> \<exists>d. ux_sealed h ''view_hash'' d = Inr v"
proof -
  assume "render_report_record h dash r = Inr v"
  then obtain view where "runtime_render_report h dash r = Inr view" "v = view \<or> (\<exists>d x. rehash_view h d = Inr x \<and> v = JObj (dput ''view_hash'' (JStr x) d))"
    by (auto simp: render_report_record_def Let_def res_simps split: if_splits)
  then show ?thesis using result_sealed rehash_sealed by blast
qed

section \<open>Forms\<close>

subsection \<open>Sorting keys changes no check\<close>

lemma map_sum_rbind: "map_sum id g (rbind m f) = rbind m (\<lambda>x. map_sum id g (f x))"
  by (cases m) simp_all

lemma scope_mode_sort [sorted_shape]: "scope_mode_check (json_sort mode) = scope_mode_check mode"
  by (intro ext) (simp add: scope_mode_check_def)

lemma scope_sort:
  "validate_scope (json_sort s) o' = map_sum id (\<lambda>d. jdict (json_sort (JObj d))) (validate_scope s o')"
proof (cases s)
  case (JObj d)
  have keys: "has_key (jdict (json_sort s)) k = has_key (jdict s) k" for k
    using JObj by (simp add: jdict_def has_key_def map_of_map_prod)
  have all: "list_all P (jdict (json_sort s)) = list_all (\<lambda>p. P (fst p, json_sort (snd p))) (jdict s)" for P
    using JObj by (auto simp: jdict_def list_all_iff)
  show ?thesis
    using keys all by (simp add: validate_scope_def Let_def sorted_shape map_sum_rbind) (simp add: JObj jdict_def)
qed (simp_all add: validate_scope_def sorted_shape is_mapping_def ux_if_def)

lemma has_key_sort [sorted_shape]: "has_key (jdict (json_sort v)) k = has_key (jdict v) k"
  by (cases v) (simp_all add: jdict_def has_key_def map_of_map_prod)

text \<open>A valid scope holds strings, so a field of it compares with the scenario either way.\<close>

lemma scope_checks_sort [sorted_shape]:
  assumes "scenario = JNull \<or> (\<exists>t. scenario = JStr t)"
  shows "rbind (validate_scope (json_sort s) o') (scope_mode_check mode scenario) = rbind (validate_scope s o') (scope_mode_check mode scenario)"
proof -
  have "json_sort v = scenario \<longleftrightarrow> v = scenario" for v using assms by auto
  then have "scope_mode_check mode scenario (jdict (json_sort (JObj d))) = scope_mode_check mode scenario d" for d
    by (simp only: scope_mode_check_def sorted_shape) (simp add: jdict_def)
  then show ?thesis by (cases "validate_scope s o'") (simp_all add: scope_sort)
qed

lemma ux_name_sort [sorted_shape]: "ux_name (json_sort v) names code = ux_name v names code"
  by (simp add: ux_name_def sorted_shape)

lemma is_list_sort [sorted_shape]: "is_list (json_sort v) = is_list v"
  by (cases v) (simp_all add: is_list_def)

lemma field_fixed_sort: "list_ex (\<lambda>(k, x). json_sort (dget d k) \<noteq> x) (fixed_fields i k') = list_ex (\<lambda>(k, x). dget d k \<noteq> x) (fixed_fields i k')"
proof -
  have "json_sort v = JBool b \<longleftrightarrow> v = JBool b" for v b by (cases v) auto
  then show ?thesis by (simp add: fixed_fields_def)
qed

lemma form_field_sort [sorted_shape]: "validate_form_field (json_sort v) e = validate_form_field v e"
  by (simp add: validate_form_field_def Let_def sorted_shape field_fixed_sort field_value_ok_def)

lemma problem_sort [sorted_shape]: "validate_problem (json_sort v) = validate_problem v"
proof -
  have "list_ex (\<lambda>(k, x). P k) (jdict (json_sort v)) = list_ex (\<lambda>(k, x). P k) (jdict v)" for P
    by (cases v) (force simp: jdict_def list_ex_iff)+
  then show ?thesis by (simp add: validate_problem_def sorted_shape)
qed

subsection \<open>What a valid form holds\<close>

lemma valid_formD:
  assumes "validate_form h form = Inr ()"
  shows "is_mapping form" "keys_are (jdict form) form_keys" "is_list (dget (jdict form) ''fields'')"
    "list_all2 (\<lambda>v e. validate_form_field v e = Inr ()) (jlist (dget (jdict form) ''fields'')) field_definitions"
    "dget (jdict form) ''scenario_id'' = JNull \<or> (\<exists>t. dget (jdict form) ''scenario_id'' = JStr t)"
proof -
  have len: "length field_definitions = length configuration_fields" by (simp add: field_definitions_def configuration_fields_def)
  have c: "list_all (\<lambda>m. m = Inr ()) (form_header_checks form)" "list_all (\<lambda>m. m = Inr ()) (form_body_checks (jdict form))"
    using assms by (simp_all add: validate_form_def Let_def res_simps)
  then show "is_mapping form" "keys_are (jdict form) form_keys" by (simp_all add: form_header_checks_def Let_def res_simps)
  show "is_list (dget (jdict form) ''fields'')" using c(2) by (simp add: form_body_checks_def res_simps)
  have "length (jlist (dget (jdict form) ''fields'')) = length field_definitions"
    using c(2) len by (simp add: form_body_checks_def res_simps)
  moreover have "list_all (\<lambda>m. m = Inr ()) (map2 validate_form_field (jlist (dget (jdict form) ''fields'')) field_definitions)"
    using c(2) by (simp add: form_body_checks_def res_simps)
  ultimately show "list_all2 (\<lambda>v e. validate_form_field v e = Inr ()) (jlist (dget (jdict form) ''fields'')) field_definitions"
    by (auto simp: list_all2_iff list_all_iff)
  have mode: "ux_name (dget (jdict form) ''mode'') ux_modes ''UX_MODE_INVALID'' = Inr ()"
    "scenario_check (dget (jdict form) ''mode'') (dget (jdict form) ''scenario_id'') = Inr ()"
    using c(1) by (simp_all add: form_header_checks_def Let_def res_simps)
  then have "dget (jdict form) ''mode'' = JStr ''ACTUAL'' \<or> dget (jdict form) ''mode'' = JStr ''SCENARIO''"
    by (auto simp: ux_name_def in_names_def ux_modes_def ux_if_def res_simps split: json.splits if_splits)
  then show "dget (jdict form) ''scenario_id'' = JNull \<or> (\<exists>t. dget (jdict form) ''scenario_id'' = JStr t)"
    using mode(2) by (auto simp: scenario_check_def is_nonempty_string_def ux_if_def split: json.splits if_splits)
qed

lemma header_sort: "validate_form h form = Inr () \<Longrightarrow> form_header_checks (json_sort form) = form_header_checks form"
  using valid_formD(5) [of h form] by (auto simp: form_header_checks_def Let_def sorted_shape scenario_check_def currency_check_def)

lemma time_sort: "form_time_checks (jdict (json_sort form)) = form_time_checks (jdict form)"
  by (simp add: form_time_checks_def interval_check_def sorted_shape)

text \<open>The header and the times of a form depend on the fields below only.\<close>

lemma header_cong:
  assumes "is_mapping f = is_mapping g" and "keys_are (jdict f) form_keys = keys_are (jdict g) form_keys"
    and "\<And>k. k \<notin> set [''fields'', ''status'', ''problems'', ''form_hash''] \<Longrightarrow> dget (jdict f) k = dget (jdict g) k"
  shows "form_header_checks f = form_header_checks g" "form_time_checks (jdict f) = form_time_checks (jdict g)"
  using assms by (simp_all add: form_header_checks_def form_time_checks_def Let_def)

subsection \<open>Applying values\<close>

definition applied :: "json \<Rightarrow> json \<Rightarrow> (json \<times> json list) list" where
  "applied form supplied =
     (let d = jdict (json_sort form) in map (apply_field (dget d ''currency'') (jdict supplied)) (jlist (dget d ''fields'')))"

lemma apply_valuesD:
  assumes "apply_values h form supplied = Inr g"
  obtains d where "validate_form h form = Inr ()" "d = jdict (json_sort form)" "is_mapping g"
    "\<And>k. dget (jdict g) k = (if k = ''form_hash'' then JStr (h (json_text (JObj (filter (\<lambda>p. fst p \<noteq> ''form_hash'') (jdict g)))))
        else if k = ''problems'' then JList (start_problems d @ concat (map snd (applied form supplied)))
        else if k = ''status'' then JStr (form_status (start_problems d @ concat (map snd (applied form supplied))) (map fst (applied form supplied)))
        else if k = ''fields'' then JList (map fst (applied form supplied)) else dget d k)"
    "json_ok (JObj (filter (\<lambda>p. fst p \<noteq> ''form_hash'') (jdict g)))"
    "set (map fst (jdict g)) = set (map fst d) \<union> set [''fields'', ''status'', ''problems'', ''form_hash'']"
proof -
  define d where "d = jdict (json_sort form)"
  define fs problems where "fs = map fst (applied form supplied)" and "problems = start_problems d @ concat (map snd (applied form supplied))"
  have v: "validate_form h form = Inr ()"
    and e: "ux_sealed h ''form_hash'' (dput ''problems'' (JList problems) (dput ''status'' (JStr (form_status problems fs)) (dput ''fields'' (JList fs) d))) = Inr g"
    using assms by (auto simp: apply_values_def ux_clone_def ux_json_def res_simps applied_def d_def fs_def problems_def Let_def split: if_splits)
  note g = ux_sealedD [OF e]
  show ?thesis
    by (rule that [OF v d_def]) (use g in \<open>simp_all add: jdict_def is_mapping_def filter_dput fs_def problems_def dget_put_same dom_update\<close>)
qed

lemma field_definitions_ids: "map fst field_definitions = configuration_fields"
  by (simp add: field_definitions_def configuration_fields_def)

lemma valid_fieldD:
  assumes "validate_form_field v (i, k) = Inr ()"
  shows "keys_are (jdict v) field_keys" "dget (jdict v) ''field_id'' = JStr i" "dget (jdict v) ''requires_currency'' = JBool (fd_requires_currency k)"
    "list_all (\<lambda>(f, x). dget (jdict v) f = x) (fixed_fields i k)"
proof -
  have "keys_are (jdict v) field_keys" "list_all (\<lambda>(f, x). dget (jdict v) f = x) (fixed_fields i k)"
    using assms by (auto simp: validate_form_field_def Let_def res_simps list_ex_iff list_all_iff)
  then show "keys_are (jdict v) field_keys" "dget (jdict v) ''field_id'' = JStr i" "dget (jdict v) ''requires_currency'' = JBool (fd_requires_currency k)"
    "list_all (\<lambda>(f, x). dget (jdict v) f = x) (fixed_fields i k)" by (simp_all add: fixed_fields_def)
qed

text \<open>When a supplied value is taken, and what the field then says.\<close>

definition taken :: "json \<Rightarrow> dict \<Rightarrow> string \<times> field_definition \<Rightarrow> bool" where
  "taken currency supplied e \<longleftrightarrow>
     field_value_ok (fst e) (dget supplied (fst e)) \<and> (fd_requires_currency (snd e) \<longrightarrow> currency \<noteq> JNull)"

lemma value_ok_nonempty: "field_value_ok i v \<Longrightarrow> is_nonempty_string v"
proof -
  assume a: "field_value_ok i v"
  have "\<not> List.member tax_bases []" by (simp add: tax_bases_def)
  moreover have "\<not> decimal_re []" by code_simp
  ultimately show ?thesis using a
    by (cases v) (auto simp: field_value_ok_def is_allowed_string_def is_decimal_string_def is_nonempty_string_def split: if_splits)
qed

lemma apply_field_taken:
  assumes "validate_form_field v (i, k) = Inr ()"
  shows "dget (jdict (fst (apply_field currency supplied v))) ''state'' = JStr ''VALID'' \<longleftrightarrow> taken currency supplied (i, k)"
    "dget (jdict (fst (apply_field currency supplied v))) ''value'' = (if taken currency supplied (i, k) then dget supplied i else JNull)"
    "taken currency supplied (i, k) \<Longrightarrow> snd (apply_field currency supplied v) = []"
  using valid_fieldD(2,3) [OF assms] value_ok_nonempty [of i "dget supplied i"]
  by (auto simp: apply_field_def Let_def taken_def set_field_def jdict_def jstr_def field_value_ok_def is_nonempty_string_def)

lemma apply_field_valid:
  assumes "validate_form_field v (i, k) = Inr ()" and "i \<noteq> []"
  shows "validate_form_field (fst (apply_field currency supplied v)) (i, k) = Inr ()"
    "list_all (\<lambda>p. validate_problem p = Inr ()) (snd (apply_field currency supplied v))"
proof -
  note f = valid_fieldD [OF assms(1)]
  have keys: "keys_are (dput ''diagnostic'' a (dput ''state'' b (dput ''value'' c (jdict v)))) field_keys" for a b c
    using f(1) by (auto simp: keys_are_iff dom_update field_keys_def)
  have fixed: "list_all (\<lambda>(l, x). dget (dput ''diagnostic'' a (dput ''state'' b (dput ''value'' c (jdict v)))) l = x) (fixed_fields i k)" for a b c
    using f(4) by (simp add: fixed_fields_def)
  have ok: "validate_form_field (set_field c s a (jdict v)) (i, k) = Inr ()"
    if "s = ''VALID'' \<and> field_value_ok i c \<and> a = JNull \<or> s \<in> set [''EMPTY'', ''INVALID'', ''BLOCKED''] \<and> c = JNull \<and> is_nonempty_string a" for s a c
  proof -
    define d where "d = dput ''diagnostic'' a (dput ''state'' (JStr s) (dput ''value'' c (jdict v)))"
    have "jdict (set_field c s a (jdict v)) = d" "is_mapping (set_field c s a (jdict v))"
      by (simp_all add: set_field_def d_def jdict_def is_mapping_def)
    moreover have "dget d ''value'' = c" "dget d ''state'' = JStr s" "dget d ''diagnostic'' = a" by (simp_all add: d_def)
    moreover have "keys_are d field_keys" "list_all (\<lambda>(l, x). dget d l = x) (fixed_fields i k)"
      using keys [of a "JStr s" c] fixed [of a "JStr s" c] by (simp_all only: d_def)
    moreover have "c \<noteq> JNull" if "is_nonempty_string c" using that by (auto simp: is_nonempty_string_def)
    ultimately show ?thesis using that value_ok_nonempty [of i c]
      by (auto simp: validate_form_field_def Let_def res_simps ux_name_def in_names_def field_states_def list_ex_iff list_all_iff ux_if_def)
  qed
  have problem: "validate_problem (form_problem a i b) = Inr ()" if "a \<noteq> []" "b \<noteq> []" "i \<noteq> []" for a b
    using that by (simp add: validate_problem_def form_problem_def is_mapping_def jdict_def keys_are_def has_key_def dget_def is_nonempty_string_def ux_if_def)
  have valid: "field_value_ok i c \<Longrightarrow> validate_form_field (set_field c ''VALID'' JNull (jdict v)) (i, k) = Inr ()" for c
    by (rule ok) simp
  have other: "s \<in> set [''EMPTY'', ''INVALID'', ''BLOCKED''] \<Longrightarrow> t \<noteq> [] \<Longrightarrow> validate_form_field (set_field JNull s (JStr t) (jdict v)) (i, k) = Inr ()" for s t
    by (rule ok) (simp add: is_nonempty_string_def)
  have id: "jstr (dget (jdict v) ''field_id'') = i" using f(2) by (simp add: jstr_def)
  show "validate_form_field (fst (apply_field currency supplied v)) (i, k) = Inr ()"
    using valid [of "dget supplied i"] other [of "''EMPTY''"] other [of "''INVALID''"] other [of "''BLOCKED''"]
    by (cases "i = ''tax_base''") (simp_all add: apply_field_def Let_def id field_value_ok_def)
  show "list_all (\<lambda>p. validate_problem p = Inr ()) (snd (apply_field currency supplied v))"
    using problem assms(2) by (auto simp: apply_field_def Let_def id)
qed

lemma length_filter_conv_all: "length (filter P xs) = length xs \<longleftrightarrow> list_all P xs"
  by (metis filter_True length_filter_less less_irrefl list_all_iff)

lemma list_all2_maps: "list_all2 P xs ys \<Longrightarrow> (\<And>x y. P x y \<Longrightarrow> f x = g y) \<Longrightarrow> map f xs = map g ys"
  by (induction rule: list_all2_induct) auto

lemma list_all2_memD: "list_all2 P xs ys \<Longrightarrow> x \<in> set xs \<Longrightarrow> \<exists>y \<in> set ys. P x y"
  by (induction rule: list_all2_induct) auto

lemma applied_fields:
  assumes "validate_form h form = Inr ()"
  defines "d \<equiv> jdict (json_sort form)"
  shows "list_all2 (\<lambda>v e. validate_form_field v e = Inr ()) (jlist (dget d ''fields'')) field_definitions"
proof -
  have "jlist (dget d ''fields'') = map json_sort (jlist (dget (jdict form) ''fields''))"
    using valid_formD(3) [OF assms(1)] by (cases "dget (jdict form) ''fields''") (simp_all add: d_def sorted_shape is_list_def jlist_def)
  then show ?thesis using valid_formD(4) [OF assms(1)] by (simp add: list_all2_map1 sorted_shape)
qed

text \<open>What an applied field \<open>p\<close> with its problems holds.\<close>

definition applied_ok :: "json \<Rightarrow> dict \<Rightarrow> json \<times> json list \<Rightarrow> string \<times> field_definition \<Rightarrow> bool" where
  "applied_ok currency supplied p e \<longleftrightarrow>
     validate_form_field (fst p) e = Inr () \<and> list_all (\<lambda>x. validate_problem x = Inr ()) (snd p) \<and>
     (dget (jdict (fst p)) ''state'' = JStr ''VALID'' \<longleftrightarrow> taken currency supplied e) \<and>
     dget (jdict (fst p)) ''value'' = (if taken currency supplied e then dget supplied (fst e) else JNull) \<and>
     (taken currency supplied e \<longrightarrow> snd p = [])"

lemma apply_field_ok:
  assumes "validate_form_field v e = Inr ()" and "e \<in> set field_definitions"
  shows "applied_ok currency supplied (apply_field currency supplied v) e"
proof (cases e)
  case (Pair i k)
  have "i \<noteq> []" using assms(2) Pair by (auto simp: field_definitions_def)
  with assms(1) Pair show ?thesis
    using apply_field_taken [of v i k currency supplied] apply_field_valid [of v i k currency supplied] by (simp add: applied_ok_def)
qed

lemma applied_fields_ok:
  assumes "validate_form h form = Inr ()"
  shows "list_all2 (applied_ok (dget (jdict (json_sort form)) ''currency'') (jdict supplied)) (applied form supplied) field_definitions"
  unfolding applied_def Let_def list_all2_map1
  by (rule list.rel_mono_strong [OF applied_fields [OF assms]]) (rule apply_field_ok)

lemma form_status_known: "form_status problems fs \<in> set form_statuses"
  by (simp add: form_status_def form_statuses_def)

text \<open>Applying values to a form gives a form again.\<close>

lemma apply_values_valid:
  assumes "\<forall>s. hash_re (h s)" and "apply_values h form supplied = Inr g"
  shows "validate_form h g = Inr ()"
proof -
  obtain d where d: "validate_form h form = Inr ()" "d = jdict (json_sort form)" "is_mapping g"
    and get: "\<And>k. dget (jdict g) k = (if k = ''form_hash'' then JStr (h (json_text (JObj (filter (\<lambda>p. fst p \<noteq> ''form_hash'') (jdict g)))))
        else if k = ''problems'' then JList (start_problems d @ concat (map snd (applied form supplied)))
        else if k = ''status'' then JStr (form_status (start_problems d @ concat (map snd (applied form supplied))) (map fst (applied form supplied)))
        else if k = ''fields'' then JList (map fst (applied form supplied)) else dget d k)"
    and ok: "json_ok (JObj (filter (\<lambda>p. fst p \<noteq> ''form_hash'') (jdict g)))"
    and keys: "set (map fst (jdict g)) = set (map fst d) \<union> set [''fields'', ''status'', ''problems'', ''form_hash'']"
    using apply_valuesD [OF assms(2)] by blast
  note applied = applied_fields_ok [OF d(1), of supplied, folded d(2)]
  have sorted: "is_mapping (json_sort form)" "keys_are d form_keys"
    using valid_formD(1,2) [OF d(1)] by (simp_all add: d(2) sorted_shape)
  have gkeys: "keys_are (jdict g) form_keys" using sorted(2) keys by (auto simp: keys_are_iff form_keys_def)
  have header: "form_header_checks g = form_header_checks (json_sort form)" "form_time_checks (jdict g) = form_time_checks d"
    using header_cong [of g "json_sort form"] gkeys sorted d get by (simp_all add: d(2))
  have given: "list_all (\<lambda>m. m = Inr ()) (form_header_checks form)" "list_all (\<lambda>m. m = Inr ()) (form_time_checks (jdict form))"
    using d(1) by (simp_all add: validate_form_def Let_def res_simps)
  have problems: "list_all (\<lambda>x. validate_problem x = Inr ()) (start_problems d @ concat (map snd (applied form supplied)))"
  proof -
    have "list_all (\<lambda>x. validate_problem x = Inr ()) (start_problems d)"
      by (simp add: start_problems_def form_problem_def validate_problem_def is_mapping_def jdict_def keys_are_def has_key_def dget_def is_nonempty_string_def ux_if_def)
    moreover have "\<forall>p \<in> set (applied form supplied). list_all (\<lambda>x. validate_problem x = Inr ()) (snd p)"
      using list_all2_memD [OF applied] by (auto simp only: applied_ok_def)
    ultimately show ?thesis by (auto simp: list_all_iff)
  qed
  have fields: "list_all (\<lambda>m. m = Inr ()) (map2 validate_form_field (map fst (applied form supplied)) field_definitions)"
    using applied by (auto simp: list_all2_conv_all_nth list_all_length applied_ok_def)
  have len: "length (applied form supplied) = length configuration_fields"
    using applied by (simp add: list_all2_lengthD field_definitions_def configuration_fields_def)
  have status: "ux_name (JStr (form_status ps fs)) form_statuses c = Inr ()" for ps fs c
    using form_status_known [of ps fs] by (simp add: ux_name_def in_names_def ux_if_def)
  have body: "list_all (\<lambda>m. m = Inr ()) (form_body_checks (jdict g))"
    using status problems fields len by (auto simp: form_body_checks_def get is_list_def jlist_def res_simps list_all_iff)
  have seal: "rbind (ux_hash h (jdict g) ''form_hash'') (\<lambda>x. ux_if (dget (jdict g) ''form_hash'' \<noteq> JStr x) ''UX_FORM_HASH_MISMATCH'') = Inr ()"
    using ok by (simp add: ux_hash_def ux_json_def get ux_if_def)
  show ?thesis
    using header given body seal header_sort [OF d(1)] time_sort [of form]
    by (simp add: validate_form_def Let_def res_simps d(2))
qed

text \<open>A form is ready exactly when its validity start and all four values are there.\<close>

lemma form_status_ready:
  "form_status problems fs = ''READY_FOR_RULE_DRAFT'' \<longleftrightarrow>
     problems = [] \<and> count_state ''INVALID'' fs + count_state ''BLOCKED'' fs = 0 \<and> count_state ''VALID'' fs = length configuration_fields"
  by (simp add: form_status_def)

lemma ready_form:
  assumes "apply_values h form supplied = Inr g"
  shows "dget (jdict g) ''status'' = JStr ''READY_FOR_RULE_DRAFT'' \<longleftrightarrow>
    dget (jdict form) ''valid_from'' \<noteq> JNull \<and>
    list_all (taken (dget (jdict form) ''currency'') (jdict supplied)) field_definitions"
proof -
  obtain d where d: "validate_form h form = Inr ()" "d = jdict (json_sort form)"
    and get: "\<And>k. dget (jdict g) k = (if k = ''form_hash'' then JStr (h (json_text (JObj (filter (\<lambda>p. fst p \<noteq> ''form_hash'') (jdict g)))))
        else if k = ''problems'' then JList (start_problems d @ concat (map snd (applied form supplied)))
        else if k = ''status'' then JStr (form_status (start_problems d @ concat (map snd (applied form supplied))) (map fst (applied form supplied)))
        else if k = ''fields'' then JList (map fst (applied form supplied)) else dget d k)"
    using apply_valuesD [OF assms] by blast
  have status: "dget (jdict g) ''status'' = JStr (form_status (start_problems d @ concat (map snd (applied form supplied))) (map fst (applied form supplied)))"
    by (simp add: get)
  note applied = applied_fields_ok [OF d(1), of supplied, folded d(2)]
  define currency where "currency = dget d ''currency''"
  have cur: "taken currency (jdict supplied) = taken (dget (jdict form) ''currency'') (jdict supplied)"
    by (intro ext) (simp add: taken_def currency_def d(2) sorted_shape)
  have begins: "start_problems d = [] \<longleftrightarrow> dget (jdict form) ''valid_from'' \<noteq> JNull" by (simp add: start_problems_def d(2) sorted_shape)
  have len: "length (applied form supplied) = length field_definitions" "length configuration_fields = length field_definitions"
    using applied by (simp_all add: list_all2_lengthD field_definitions_def configuration_fields_def)
  have all: "count_state ''VALID'' (map fst (applied form supplied)) = length field_definitions \<longleftrightarrow>
      list_all (taken currency (jdict supplied)) field_definitions"
  proof -
    have "count_state ''VALID'' (map fst (applied form supplied)) = length field_definitions \<longleftrightarrow>
        list_all (\<lambda>p. dget (jdict (fst p)) ''state'' = JStr ''VALID'') (applied form supplied)"
      using length_filter_conv_all [of "\<lambda>p. dget (jdict (fst p)) ''state'' = JStr ''VALID''" "applied form supplied"] len(1)
      by (simp add: count_state_def filter_map o_def)
    also have "\<dots> \<longleftrightarrow> list_all (taken currency (jdict supplied)) field_definitions"
      using applied len(1) by (auto simp: list_all2_conv_all_nth list_all_length applied_ok_def currency_def)
    finally show ?thesis .
  qed
  have rest: "count_state ''INVALID'' (map fst (applied form supplied)) + count_state ''BLOCKED'' (map fst (applied form supplied)) = 0 \<and>
      concat (map snd (applied form supplied)) = []" if a: "list_all (taken currency (jdict supplied)) field_definitions"
  proof -
    have "dget (jdict (fst p)) ''state'' = JStr ''VALID'' \<and> snd p = []" if "p \<in> set (applied form supplied)" for p
      using list_all2_memD [OF applied that] a by (auto simp: list_all_iff applied_ok_def currency_def)
    then show ?thesis by (auto simp: count_state_def filter_empty_conv)
  qed
  show ?thesis using all rest begins len by (auto simp: status form_status_ready cur)
qed

text \<open>A field shows the supplied value or none.\<close>

lemma applied_values:
  assumes "apply_values h form supplied = Inr g"
  shows "map (\<lambda>v. dget (jdict v) ''value'') (jlist (dget (jdict g) ''fields'')) =
    map (\<lambda>e. if taken (dget (jdict form) ''currency'') (jdict supplied) e then dget (jdict supplied) (fst e) else JNull) field_definitions"
proof -
  obtain d where d: "validate_form h form = Inr ()" "d = jdict (json_sort form)"
    and get: "\<And>k. dget (jdict g) k = (if k = ''form_hash'' then JStr (h (json_text (JObj (filter (\<lambda>p. fst p \<noteq> ''form_hash'') (jdict g)))))
        else if k = ''problems'' then JList (start_problems d @ concat (map snd (applied form supplied)))
        else if k = ''status'' then JStr (form_status (start_problems d @ concat (map snd (applied form supplied))) (map fst (applied form supplied)))
        else if k = ''fields'' then JList (map fst (applied form supplied)) else dget d k)"
    using apply_valuesD [OF assms] by blast
  have fs: "jlist (dget (jdict g) ''fields'') = map fst (applied form supplied)" by (simp add: get jlist_def)
  have cur: "taken (dget d ''currency'') (jdict supplied) e = taken (dget (jdict form) ''currency'') (jdict supplied) e" for e
    by (simp add: taken_def d(2) sorted_shape)
  show ?thesis unfolding fs map_map
    using applied_fields_ok [OF d(1), of supplied, folded d(2)]
    by (auto intro!: list_all2_maps simp: applied_ok_def cur o_def)
qed

section \<open>Views\<close>

lemma zero_texts: "is_numeric_zero (JStr ''0'')" "is_numeric_zero (JInt 0)"
  by (code_simp, simp add: is_numeric_zero_def)

lemma runtime_view:
  assumes "runtime_render_report h dash r = Inr v"
  obtains p where "present_state dash (jstr (record_field ''state'' r)) (record_field ''value'' r) = Inr p"
    "\<And>f. f \<noteq> ''view_hash'' \<Longrightarrow> dget (jdict v) f = dget (result_view r p) f"
  using assms by (auto simp: runtime_render_report_def res_simps jdict_def dest!: ux_sealedD(1))

section \<open>The inbox\<close>

lemma same_business_Inr: "same_business b c = Inr d \<longleftrightarrow> d = c \<and> (b = None \<or> b = Some c)"
  by (cases b) (auto simp: same_business_def prod_eq_iff)

definition record_case :: "(string \<Rightarrow> string) \<Rightarrow> json \<Rightarrow> inbox_exception list" where
  "record_case h r =
     (if record_field ''state'' r \<in> {JStr ''VALID'', JStr ''NOT_APPLICABLE''} then []
      else [metric_exception h r (json_sort (record_field ''evidence_chain_ref'' r))])"

lemma inbox_record_Inr:
  assumes "inbox_record h r s = Inr s'"
  shows "ib_exceptions s' = ib_exceptions s @ record_case h r" "ib_business s' = Some (business_of (jdict r))"
    "ib_business s = None \<or> ib_business s = ib_business s'"
    "ib_records s' = jstr (record_field ''report_record_id'' r) # ib_records s" "jstr (record_field ''report_record_id'' r) \<notin> set (ib_records s)"
    "ib_imports s' = ib_imports s"
  using assms by (auto simp: inbox_record_def Let_def res_simps same_business_Inr record_case_def ux_clone_def ux_json_def split: if_splits)

lemma inbox_form_Inr:
  assumes "inbox_form h form s = Inr s'"
  shows "ib_exceptions s' = ib_exceptions s @ form_exceptions h form" "ib_business s' = Some (business_of (jdict form))"
    "ib_business s = None \<or> ib_business s = ib_business s'" "ib_imports s' = ib_imports s"
  using assms by (auto simp: inbox_form_def res_simps same_business_Inr)

lemma inbox_import_Inr:
  assumes "inbox_import h t r s = Inr s'"
  shows "ib_exceptions s' = ib_exceptions s @ import_exception h r" "ib_business s' = ib_business s" "rr_tenant r = t"
    "ib_imports s' = rr_id r # ib_imports s" "rr_id r \<notin> set (ib_imports s)"
  using assms by (auto simp: inbox_import_def split: if_splits)

lemma inbox_records:
  assumes "rfold (inbox_record h) rs s = Inr s'"
  shows "ib_exceptions s' = ib_exceptions s @ concat (map (record_case h) rs)"
    "ib_business s = None \<or> ib_business s = ib_business s'"
    "\<forall>r \<in> set rs. ib_business s' = Some (business_of (jdict r))"
    "distinct (map (\<lambda>r. jstr (record_field ''report_record_id'' r)) rs)"
    "\<forall>r \<in> set rs. jstr (record_field ''report_record_id'' r) \<notin> set (ib_records s)"
    "ib_imports s' = ib_imports s"
  using assms
proof (induction rs arbitrary: s)
  case (Cons r rs)
  {
    case 1 then show ?case using Cons.IH(1) by (auto simp: res_simps dest!: inbox_record_Inr(1))
  next
    case 2 then show ?case using Cons.IH(2) by (auto simp: res_simps) (metis inbox_record_Inr(2,3) option.distinct(1))
  next
    case 3 then show ?case using Cons.IH(2,3) by (auto simp: res_simps) (metis inbox_record_Inr(2) option.distinct(1))
  next
    case 4 then show ?case using Cons.IH(4,5) by (auto simp: res_simps dest!: inbox_record_Inr(4)) fastforce
  next
    case 5
    then obtain x where x: "inbox_record h r s = Inr x" "rfold (inbox_record h) rs x = Inr s'" by (auto simp: res_simps)
    then show ?case using Cons.IH(5) [OF x(2)] inbox_record_Inr(4,5) [OF x(1)] by auto
  next
    case 6 then show ?case using Cons.IH(6) by (auto simp: res_simps dest!: inbox_record_Inr(6))
  }
qed simp_all

lemma inbox_forms:
  assumes "rfold (inbox_form h) fs s = Inr s'"
  shows "ib_exceptions s' = ib_exceptions s @ concat (map (form_exceptions h) fs)"
    "ib_business s = None \<or> ib_business s = ib_business s'"
    "\<forall>f \<in> set fs. ib_business s' = Some (business_of (jdict f))" "ib_imports s' = ib_imports s"
    "\<forall>f \<in> set fs. validate_form h f = Inr ()"
  using assms
proof (induction fs arbitrary: s)
  case (Cons r rs)
  {
    case 1 then show ?case using Cons.IH(1) by (auto simp: res_simps dest!: inbox_form_Inr(1))
  next
    case 2 then show ?case using Cons.IH(2) by (auto simp: res_simps) (metis inbox_form_Inr(2,3) option.distinct(1))
  next
    case 3 then show ?case using Cons.IH(2,3) by (auto simp: res_simps) (metis inbox_form_Inr(2) option.distinct(1))
  next
    case 4 then show ?case using Cons.IH(4) by (auto simp: res_simps dest!: inbox_form_Inr(4))
  next
    case 5 then show ?case using Cons.IH(5) by (auto simp: res_simps inbox_form_def)
  }
qed simp_all

lemma inbox_imports:
  assumes "rfold (inbox_import h t) xs s = Inr s'"
  shows "ib_exceptions s' = ib_exceptions s @ concat (map (import_exception h) xs)" "ib_business s' = ib_business s"
    "\<forall>r \<in> set xs. rr_tenant r = t" "distinct (map rr_id xs)" "\<forall>r \<in> set xs. rr_id r \<notin> set (ib_imports s)"
  using assms
proof (induction xs arbitrary: s)
  case (Cons r rs)
  {
    case 1 then show ?case using Cons.IH(1) by (auto simp: res_simps dest!: inbox_import_Inr(1))
  next
    case 2 then show ?case using Cons.IH(2) by (auto simp: res_simps dest!: inbox_import_Inr(2))
  next
    case 3 then show ?case using Cons.IH(3) by (auto simp: res_simps dest: inbox_import_Inr(3))
  next
    case 4 then show ?case using Cons.IH(4,5) by (auto simp: res_simps dest!: inbox_import_Inr(4)) fastforce
  next
    case 5
    then obtain x where x: "inbox_import h t r s = Inr x" "rfold (inbox_import h t) rs x = Inr s'" by (auto simp: res_simps)
    then show ?case using Cons.IH(5) [OF x(2)] inbox_import_Inr(4,5) [OF x(1)] by auto
  }
qed simp_all

text \<open>What the three loops collect.\<close>

definition open_cases :: "(string \<Rightarrow> string) \<Rightarrow> json list \<Rightarrow> json list \<Rightarrow> raw_record list \<Rightarrow> inbox_exception list" where
  "open_cases h records forms imports =
     concat (map (record_case h) records) @ concat (map (form_exceptions h) forms) @ concat (map (import_exception h) imports)"

lemma inbox_contents_Inr:
  assumes "inbox_contents h records forms imports t = Inr s"
  shows "ib_exceptions s = open_cases h records forms imports"
    "\<forall>d \<in> set (records @ forms). ib_business s = Some (business_of (jdict d))"
    "distinct (map (\<lambda>r. jstr (record_field ''report_record_id'' r)) records)"
    "distinct (map rr_id imports)" "\<forall>r \<in> set imports. t = Some (rr_tenant r)" "\<forall>f \<in> set forms. validate_form h f = Inr ()"
proof -
  obtain a b where a: "rfold (inbox_record h) records new_inbox = Inr a" and b: "rfold (inbox_form h) forms a = Inr b"
    and c: "imports = [] \<and> s = b \<or> (\<exists>name. t = Some name \<and> rfold (inbox_import h name) imports b = Inr s)"
    using assms by (auto simp: inbox_contents_def res_simps split: if_splits option.splits)
  note R = inbox_records [OF a] and F = inbox_forms [OF b]
  have start: "ib_exceptions new_inbox = []" by (simp add: new_inbox_def)
  have I: "ib_exceptions s = ib_exceptions b @ concat (map (import_exception h) imports)" "ib_business s = ib_business b"
    "distinct (map rr_id imports)" "\<forall>r \<in> set imports. t = Some (rr_tenant r)"
    using c inbox_imports [where h = h and xs = "imports" and s = b and s' = s] by fastforce+
  show "ib_exceptions s = open_cases h records forms imports" using R(1) F(1) I(1) start by (simp add: open_cases_def)
  show "\<forall>d \<in> set (records @ forms). ib_business s = Some (business_of (jdict d))"
  proof
    fix d assume "d \<in> set (records @ forms)"
    then show "ib_business s = Some (business_of (jdict d))" using R(3) F(2,3) I(2) by auto
  qed
  show "distinct (map (\<lambda>r. jstr (record_field ''report_record_id'' r)) records)" by (rule R(4))
  show "distinct (map rr_id imports)" "\<forall>r \<in> set imports. t = Some (rr_tenant r)" by (rule I(3,4))+
  show "\<forall>f \<in> set forms. validate_form h f = Inr ()" by (rule F(5))
qed

end
