(* ===== verification/UxProperties.thy ===== *)
theory UxProperties imports UxSoundness begin

text \<open>What the presentation layer promises; the hypotheses are met in \<open>UxExamples\<close>.\<close>

lemma jdict_JObj: "jdict (JObj d) = d"
  by (simp add: jdict_def)

lemma built_sealed: "build_configuration_form h q a b c = Inr v \<Longrightarrow> \<exists>d. ux_sealed h ''form_hash'' d = Inr v"
  using form_sealed by (auto simp: build_configuration_form_def res_simps)

lemma imported_sealed: "render_import_status h i = Inr v \<Longrightarrow> \<exists>d. ux_sealed h ''view_hash'' d = Inr v"
  using import_sealed by (auto simp: render_import_status_def res_simps)

lemma exceptions_sealed: "build_exception_inbox h rs fs is t g = Inr v \<Longrightarrow> \<exists>d. ux_sealed h ''inbox_hash'' d = Inr v"
  using inbox_sealed by (auto simp: build_exception_inbox_def res_simps)

text \<open>
  Every document the presentation layer hands out carries the hash of the rest of itself, so
  that a later change of any field is noticed: forms before and after values are applied, views
  of records, imports and evidence, and inboxes.
\<close>

theorem ux_documents_sealed:
  assumes "\<forall>s. hash_re (h s)"
  shows "build_configuration_form h q a b c = Inr v \<Longrightarrow> validate_ux_hash h v ''form_hash'' = Inr ()"
    "apply_configuration_values h form supplied = Inr v \<Longrightarrow> validate_ux_hash h v ''form_hash'' = Inr ()"
    "render_report_record h dash r = Inr v \<Longrightarrow> validate_ux_hash h v ''view_hash'' = Inr ()"
    "render_import_status h i = Inr v \<Longrightarrow> validate_ux_hash h v ''view_hash'' = Inr ()"
    "report_drilldown h r = Inr v \<Longrightarrow> validate_ux_hash h v ''view_hash'' = Inr ()"
    "build_exception_inbox h records forms imported t g = Inr v \<Longrightarrow> validate_ux_hash h v ''inbox_hash'' = Inr ()"
proof -
  have seal: "\<exists>d. ux_sealed h field d = Inr v \<Longrightarrow> validate_ux_hash h v field = Inr ()" for field v
    using ux_sealed_valid [OF assms] by blast
  show "build_configuration_form h q a b c = Inr v \<Longrightarrow> validate_ux_hash h v ''form_hash'' = Inr ()"
    by (rule seal) (rule built_sealed)
  show "apply_configuration_values h form supplied = Inr v \<Longrightarrow> validate_ux_hash h v ''form_hash'' = Inr ()"
    by (rule seal) (auto simp: apply_configuration_values_def res_simps intro: applied_sealed)
  show "render_report_record h dash r = Inr v \<Longrightarrow> validate_ux_hash h v ''view_hash'' = Inr ()"
    by (rule seal) (rule rendered_sealed)
  show "render_import_status h i = Inr v \<Longrightarrow> validate_ux_hash h v ''view_hash'' = Inr ()"
    by (rule seal) (rule imported_sealed)
  show "report_drilldown h r = Inr v \<Longrightarrow> validate_ux_hash h v ''view_hash'' = Inr ()"
    by (rule seal) (rule drilldown_sealed)
  show "build_exception_inbox h records forms imported t g = Inr v \<Longrightarrow> validate_ux_hash h v ''inbox_hash'' = Inr ()"
    by (rule seal) (rule exceptions_sealed)
qed

text \<open>
  C18: Applying values to a configuration form gives a valid form again. It is ready for a rule
  draft exactly when it has a validity start and all four values are supplied and acceptable (the
  monetary ones with a currency), and each of its fields holds the value that was supplied for it,
  or none: no default is made up.
\<close>

theorem ready_form_is_complete:
  assumes "\<forall>s. hash_re (h s)" and "apply_configuration_values h form supplied = Inr g"
  shows "validate_form h g = Inr () \<and>
    (dget (jdict g) ''status'' = JStr ''READY_FOR_RULE_DRAFT'' \<longleftrightarrow>
       dget (jdict form) ''valid_from'' \<noteq> JNull \<and> list_all (taken (dget (jdict form) ''currency'') (jdict supplied)) field_definitions) \<and>
    map (\<lambda>v. dget (jdict v) ''value'') (jlist (dget (jdict g) ''fields'')) =
       map (\<lambda>e. if taken (dget (jdict form) ''currency'') (jdict supplied) e then dget (jdict supplied) (fst e) else JNull) field_definitions"
proof -
  have a: "apply_values h form supplied = Inr g" using assms(2) by (simp add: apply_configuration_values_def res_simps)
  have goal1: "validate_form h g = Inr ()" by (rule apply_values_valid [OF assms(1) a])
  have goal2: "dget (jdict g) ''status'' = JStr ''READY_FOR_RULE_DRAFT'' \<longleftrightarrow>
       dget (jdict form) ''valid_from'' \<noteq> JNull \<and> list_all (taken (dget (jdict form) ''currency'') (jdict supplied)) field_definitions"
    by (rule ready_form [OF a])
  have goal3: "map (\<lambda>v. dget (jdict v) ''value'') (jlist (dget (jdict g) ''fields'')) =
       map (\<lambda>e. if taken (dget (jdict form) ''currency'') (jdict supplied) e then dget (jdict supplied) (fst e) else JNull) field_definitions"
    by (rule applied_values [OF a])
  show ?thesis using goal1 goal2 goal3 by blast
qed

lemma rendered_view:
  assumes "render_report_record h dash r = Inr v"
  shows "\<exists>view. runtime_render_report h dash r = Inr view \<and>
    (if dget (jdict view) ''state'' = JStr ''VALID'' \<and> is_numeric_zero (record_field ''value'' r)
     then \<exists>x. v = JObj (dput ''view_hash'' (JStr x) (zero_view (record_field ''value'' r) (jdict view))) else v = view)"
proof (cases "runtime_render_report h dash r")
  case (Inr view)
  with assms show ?thesis
    by (cases "dget (jdict view) ''state'' = JStr ''VALID'' \<and> is_numeric_zero (record_field ''value'' r)")
      (auto simp: render_report_record_def Let_def res_simps)
qed (use assms in \<open>simp add: render_report_record_def\<close>)

text \<open>
  C19: Missing data is never shown as zero. A rendered record claims a numeric zero exactly when
  its state is VALID and its value is zero; in any other state the view shows the dash.
\<close>

theorem missing_never_zero:
  assumes "render_report_record h dash r = Inr v"
  shows "dget (jdict v) ''is_numeric_zero'' = JBool (record_field ''state'' r = JStr ''VALID'' \<and> is_numeric_zero (record_field ''value'' r)) \<and>
    dget (jdict v) ''value_text'' = JStr (if record_field ''state'' r = JStr ''VALID'' then cell_text (record_field ''value'' r) else dash) \<and>
    dget (jdict v) ''state'' = record_field ''state'' r"
proof -
  obtain view where view: "runtime_render_report h dash r = Inr view"
    and v: "(if dget (jdict view) ''state'' = JStr ''VALID'' \<and> is_numeric_zero (record_field ''value'' r)
        then \<exists>x. v = JObj (dput ''view_hash'' (JStr x) (zero_view (record_field ''value'' r) (jdict view))) else v = view)"
    using rendered_view [OF assms] by blast
  obtain p where p: "present_state dash (jstr (record_field ''state'' r)) (record_field ''value'' r) = Inr p"
    and shown: "\<And>f. f \<noteq> ''view_hash'' \<Longrightarrow> dget (jdict view) f = dget (result_view r p) f"
    by (rule runtime_view [OF view]) blast
  have fields: "dget (jdict view) ''state'' = record_field ''state'' r" "dget (jdict view) ''is_numeric_zero'' = JBool (pr_zero p)"
    "dget (jdict view) ''value_text'' = JStr (pr_value p)"
    using shown by (simp_all add: result_view_def Let_def) (simp_all add: dget_def)
  have state: "jstr (record_field ''state'' r) = ''VALID'' \<longleftrightarrow> record_field ''state'' r = JStr ''VALID''"
    by (cases "record_field ''state'' r") (simp_all add: jstr_def)
  have valid: "pr_value p = (if record_field ''state'' r = JStr ''VALID'' then cell_text (record_field ''value'' r) else dash)"
    "pr_zero p \<Longrightarrow> record_field ''state'' r = JStr ''VALID'' \<and> is_numeric_zero (record_field ''value'' r)"
    using p zero_texts by (auto simp: present_state_def present_valid_def state Let_def split: if_splits option.splits)
  define z where "z = (record_field ''state'' r = JStr ''VALID'' \<and> is_numeric_zero (record_field ''value'' r))"
  obtain x where get: "jdict v = (if z then dput ''view_hash'' (JStr x) (zero_view (record_field ''value'' r) (jdict view)) else jdict view)"
    using v by (auto simp: z_def fields jdict_JObj split: if_splits)
  have goal1: "dget (jdict v) ''is_numeric_zero'' = JBool (record_field ''state'' r = JStr ''VALID'' \<and> is_numeric_zero (record_field ''value'' r))"
    using valid(2) fields by (auto simp: get zero_view_def z_def)
  have goal2: "dget (jdict v) ''value_text'' = JStr (if record_field ''state'' r = JStr ''VALID'' then cell_text (record_field ''value'' r) else dash)"
    using valid(1) fields by (auto simp: get zero_view_def z_def)
  have goal3: "dget (jdict v) ''state'' = record_field ''state'' r"
    using fields by (auto simp: get zero_view_def)
  show ?thesis using goal1 goal2 goal3 by blast
qed

section \<open>Open cases\<close>

text \<open>
  The open cases of a tenant, read off the inputs: what an exception has to say of each. The fields
  below are those of the exceptions; the identifier is a digest of the parts that name the case.
\<close>

definition case_fields :: "string list" where
  "case_fields = [''exception_id'', ''category'', ''state'', ''cause'', ''affected_metric_ids'', ''evidence_refs'']"

definition case_said :: "json \<Rightarrow> json list" where
  "case_said v = map (dget (jdict v)) case_fields"

definition open_case ::
  "(string \<Rightarrow> string) \<Rightarrow> string list \<Rightarrow> string \<Rightarrow> string \<Rightarrow> string \<Rightarrow> json list \<Rightarrow> json list \<Rightarrow> json list" where
  "open_case h names category state cause metrics evidence =
     [JStr (''exc-'' @ take 24 (h (join [CHR 0x1F] (names @ [cause])))), JStr category, JStr state, JStr cause, JList metrics, JList evidence]"

text \<open>A record is an open case unless its state is VALID or NOT_APPLICABLE.\<close>

definition open_records :: "(string \<Rightarrow> string) \<Rightarrow> json list \<Rightarrow> json list list" where
  "open_records h records =
     map (\<lambda>r. let d = jdict r; state = jstr (dget d ''state''); reason = jstr (dget d ''reason_code'') in
            open_case h [''metric'', jstr (dget d ''report_record_id'')] ''METRIC'' state
              (if reason = [] then ''STATE_'' @ state else reason) [dget d ''metric_snapshot_id''] [json_sort (dget d ''evidence_chain_ref'')])
       (filter (\<lambda>r. dget (jdict r) ''state'' \<noteq> JStr ''VALID'' \<and> dget (jdict r) ''state'' \<noteq> JStr ''NOT_APPLICABLE'') records)"

text \<open>Every field of a form that is not VALID is one, with its diagnostic, and so is a missing validity start.\<close>

definition open_fields :: "(string \<Rightarrow> string) \<Rightarrow> json \<Rightarrow> json list list" where
  "open_fields h form =
     map (\<lambda>v. open_case h [''configuration'', jstr (dget (jdict form) ''form_id''), jstr (dget (jdict v) ''field_id'')] ''CONFIGURATION''
                (jstr (dget (jdict v) ''state'')) (jstr (dget (jdict v) ''diagnostic'')) [] [])
       (filter (\<lambda>v. dget (jdict v) ''state'' \<noteq> JStr ''VALID'') (jlist (dget (jdict form) ''fields'')))"

definition open_starts :: "(string \<Rightarrow> string) \<Rightarrow> json list \<Rightarrow> json list list" where
  "open_starts h forms =
     map (\<lambda>form. open_case h [''configuration'', jstr (dget (jdict form) ''form_id''), ''valid_from''] ''CONFIGURATION'' ''EMPTY''
                   ''VALID_FROM_REQUIRED'' [] [])
       (filter (\<lambda>form. dget (jdict form) ''valid_from'' = JNull) forms)"

text \<open>Every quarantined and every rejected import is one, with its first diagnostic that says something.\<close>

definition open_imports :: "(string \<Rightarrow> string) \<Rightarrow> raw_record list \<Rightarrow> json list list" where
  "open_imports h imported =
     map (\<lambda>r. open_case h [''import'', rr_id r] ''SCHEMA'' (if rr_state r = Quarantined then ''CONFLICT'' else ''INVALID'')
                (hd (filter (\<lambda>d. d \<noteq> []) (rr_diagnostics r) @ [''IMPORT_'' @ raw_state_value (rr_state r)])) []
                [JObj [(''raw_file_id'', JStr (rr_id r)), (''sha256'', JStr (rr_sha r))]])
       (filter (\<lambda>r. rr_state r = Quarantined \<or> rr_state r = Rejected) imported)"

text \<open>The exceptions of the inbox say just this.\<close>

lemma case_said_document:
  "case_said (exception_document e) =
     [JStr (ie_id e), JStr (ie_category e), JStr (ie_state e), JStr (ie_cause e), JList (ie_metrics e), JList (ie_evidence e)]"
  by (simp add: case_said_def case_fields_def exception_document_def jdict_JObj dget_Cons)

lemma jstr_valid: "jstr v = ''VALID'' \<longleftrightarrow> v = JStr ''VALID''"
  by (cases v) (simp_all add: jstr_def)

lemma said_concat: "map case_said (map exception_document (concat (map f xs))) = concat (map (\<lambda>x. map (case_said \<circ> exception_document) (f x)) xs)"
  by (induction xs) simp_all

lemma concat_filter: "(\<And>x. x \<in> set xs \<Longrightarrow> f x = (if P x then [g x] else [])) \<Longrightarrow> concat (map f xs) = map g (filter P xs)"
  by (induction xs) simp_all

lemma records_said: "map case_said (map exception_document (concat (map (record_case h) records))) = open_records h records"
  unfolding said_concat open_records_def
  by (rule concat_filter) (simp add: record_case_def metric_exception_def case_said_document open_case_def record_field_def Let_def
      exception_id_def unit_separator_def)

lemma valid_field_diagnostic:
  assumes "validate_form_field v e = Inr ()" and "dget (jdict v) ''state'' \<noteq> JStr ''VALID''"
  shows "jstr (dget (jdict v) ''diagnostic'') \<noteq> []"
  using assms by (auto simp: validate_form_field_def Let_def res_simps is_nonempty_string_def jstr_def split: json.splits)

lemma form_said:
  assumes "validate_form h form = Inr ()"
  shows "map case_said (map exception_document (form_exceptions h form)) = open_fields h form @ open_starts h [form]"
proof -
  have d: "jstr (dget (jdict v) ''diagnostic'') \<noteq> []"
    if "v \<in> set (jlist (dget (jdict form) ''fields''))" "dget (jdict v) ''state'' \<noteq> JStr ''VALID''" for v
    using list_all2_memD [OF valid_formD(4) [OF assms] that(1)] valid_field_diagnostic that(2) by blast
  have "concat (map (\<lambda>v. map (case_said \<circ> exception_document) (field_exception h (jstr (dget (jdict form) ''form_id'')) v))
      (jlist (dget (jdict form) ''fields''))) = open_fields h form"
    unfolding open_fields_def
    by (rule concat_filter) (simp add: field_exception_def Let_def jstr_valid d case_said_document open_case_def exception_id_def unit_separator_def)
  moreover have "map case_said (map exception_document (start_exception h (jdict form))) = open_starts h [form]"
    by (simp add: start_exception_def open_starts_def case_said_document open_case_def exception_id_def unit_separator_def)
  ultimately show ?thesis by (simp only: form_exceptions_def Let_def map_append said_concat)
qed

lemma find_hd: "(case find P xs of None \<Rightarrow> y | Some x \<Rightarrow> x) = hd (filter P xs @ [y])"
  by (induction xs) simp_all

lemma imports_said: "map case_said (map exception_document (concat (map (import_exception h) imported))) = open_imports h imported"
  unfolding said_concat open_imports_def
  by (rule concat_filter) (auto simp: import_exception_def Let_def find_hd case_said_document open_case_def exception_id_def unit_separator_def)

lemma forms_said:
  assumes "\<forall>form \<in> set forms. validate_form h form = Inr ()"
  shows "mset (map case_said (map exception_document (concat (map (form_exceptions h) forms)))) =
    mset (concat (map (open_fields h) forms) @ open_starts h forms)"
  using assms
proof (induction forms)
  case (Cons form forms)
  have "open_starts h (form # forms) = open_starts h [form] @ open_starts h forms" by (simp add: open_starts_def)
  then show ?case using Cons form_said [of h form] by simp
qed (simp add: open_starts_def)

text \<open>
  C17: An exception inbox lists exactly the open cases of its inputs, once each: every record whose
  state is neither VALID nor NOT_APPLICABLE, every form field that is not VALID, every form without
  a validity start, and every quarantined or rejected import, with their states, causes, metrics and
  evidence. Its records and forms share one organization, mode and scenario and its imports one
  tenant, and no record or import is in it twice.
\<close>

theorem inbox_lists_open_cases:
  assumes "build_exception_inbox h records forms imported t g = Inr v"
  shows "mset (map case_said (jlist (dget (jdict v) ''exceptions''))) =
      mset (open_records h records @ concat (map (open_fields h) forms) @ open_starts h forms @ open_imports h imported) \<and>
    dget (jdict v) ''exception_count'' = JInt (int (length (jlist (dget (jdict v) ''exceptions'')))) \<and>
    (\<exists>b. \<forall>d \<in> set (records @ forms). business_of (jdict d) = b) \<and>
    (\<forall>i \<in> set imported. t = Some (rr_tenant i)) \<and>
    distinct (map (\<lambda>r. jstr (record_field ''report_record_id'' r)) records) \<and>
    distinct (map rr_id imported)"
proof -
  obtain s where s: "inbox_contents h records forms imported t = Inr s"
    and v: "\<exists>x. ux_sealed h ''inbox_hash'' (inbox_document t x s) = Inr v"
    using assms by (auto simp: build_exception_inbox_def runtime_inbox_def res_simps)
  note c = inbox_contents_Inr [OF s]
  have e: "dget (jdict v) ''exceptions'' = JList (map exception_document (sort_key ie_id (ib_exceptions s)))"
    "dget (jdict v) ''exception_count'' = JInt (int (length (ib_exceptions s)))"
    using v by (auto simp: jdict_def inbox_document_def Let_def dest!: ux_sealedD(1)) (simp_all add: dget_def)
  have "mset (map case_said (jlist (dget (jdict v) ''exceptions''))) =
      mset (map case_said (map exception_document (open_cases h records forms imported)))"
    by (simp add: e(1) jlist_def c(1) [symmetric])
  also have "\<dots> = mset (open_records h records @ concat (map (open_fields h) forms) @ open_starts h forms @ open_imports h imported)"
    unfolding open_cases_def map_append records_said imports_said mset_append forms_said [OF c(6)] by simp
  finally have cases: "mset (map case_said (jlist (dget (jdict v) ''exceptions''))) = \<dots>" .
  have count: "dget (jdict v) ''exception_count'' = JInt (int (length (jlist (dget (jdict v) ''exceptions''))))"
    by (simp add: e jlist_def)
  have business: "\<exists>b. \<forall>d \<in> set (records @ forms). business_of (jdict d) = b" using c(2) by (metis option.inject)
  show ?thesis using cases count business c(3,4,5) by blast
qed

end
