(* ===== verification/UxExamples.thy ===== *)
theory UxExamples imports UxProperties ReportingExamples begin

text \<open>
  A configuration form filled in completely, the view of the sample record, and an inbox: the
  hypotheses of the properties of the presentation layer can hold.
\<close>

definition ux_scope :: json where
  "ux_scope = JObj [(''organization_id'', JStr ''O'')]"

definition ux_request :: form_request where
  "ux_request = \<lparr>fq_form_id = ''F'', fq_organization = ''O'', fq_mode = ''ACTUAL'', fq_scenario = None, fq_actor = ''A'',
     fq_scope = ux_scope, fq_currency = Some ''RUB''\<rparr>"

definition ux_time :: stamp where
  "ux_time = Stamp ''2026-01-01T00:00:00Z''"

definition ux_form :: dict where
  "ux_form =
     [(''schema_version'', JStr form_version), (''form_id'', JStr ''F''), (''organization_id'', JStr ''O''),
      (''mode'', JStr ''ACTUAL''), (''scenario_id'', JNull), (''actor'', JStr ''A''), (''scope'', ux_scope),
      (''valid_from'', JStr ''2026-01-01T00:00:00Z''), (''valid_to'', JNull), (''currency'', JStr ''RUB''),
      (''created_at'', JStr ''2026-01-01T00:00:00Z''), (''publication_state'', JStr ''PREVIEW_ONLY''),
      (''fields'', JList base_form_fields), (''status'', JStr ''BLOCKED''), (''problems'', JList []), (''form_hash'', JStr (demo_digest []))]"

definition ux_values :: dict where
  "ux_values = [(''cost'', JStr ''1.5''), (''tax_rate'', JStr ''6''), (''tax_base'', JStr ''PAYOUT''), (''other_expense'', JStr ''0'')]"

lemma demo_digest_re: "hash_re (demo_digest s)"
  unfolding demo_digest_def by code_simp

lemma ux_hash_demo: "ux_hash demo_digest d f =
    (if json_ok (JObj (filter (\<lambda>p. fst p \<noteq> f) d)) then Inr (demo_digest []) else ux_error ''UX_JSON_INVALID'')"
  by (simp add: ux_hash_def ux_json_def demo_digest_def)

lemma json_ok_filter: "json_ok (JObj d) \<Longrightarrow> json_ok (JObj (filter P d))"
  by (auto simp: list_all_iff)

section \<open>A form\<close>

lemma ux_form_ok: "json_ok (JObj ux_form)"
  by code_simp

lemma ux_form_checks:
  "form_boundary (JObj ux_form) = Inr ()" "list_all (\<lambda>m. m = Inr ()) (form_header_checks (JObj ux_form))"
  "list_all (\<lambda>m. m = Inr ()) (form_time_checks ux_form)" "list_all (\<lambda>m. m = Inr ()) (form_body_checks ux_form)"
  "dget ux_form ''form_hash'' = JStr (demo_digest [])"
  by code_simp+

lemma ux_form_valid: "validate_form demo_digest (JObj ux_form) = Inr ()"
  using ux_form_checks json_ok_filter [OF ux_form_ok]
  by (simp add: validate_form_def Let_def jdict_JObj res_simps ux_hash_demo ux_if_def del: json_ok.simps)

lemma ux_time_text: "ux_timestamp ux_time c = Inr ''2026-01-01T00:00:00Z''" "is_strict_rfc3339 (JStr ''2026-01-01T00:00:00Z'')"
proof -
  have "valid_datetime_text (JStr ''2026-01-01T00:00:00Z'')" by code_simp
  then show "ux_timestamp ux_time c = Inr ''2026-01-01T00:00:00Z''" by (simp add: ux_timestamp_def ux_time_def)
  show "is_strict_rfc3339 (JStr ''2026-01-01T00:00:00Z'')" by code_simp
qed

lemma ux_form_built: "build_configuration_form demo_digest ux_request (Some ux_time) None ux_time = Inr (JObj ux_form)"
proof -
  define unsealed where "unsealed = dput ''form_hash'' (JStr []) ux_form"
  have "request_checks ux_request = Inr ()" "validate_scope ux_scope ''O'' = Inr (jdict ux_scope)"
    "scope_mode_check (JStr ''ACTUAL'') JNull (jdict ux_scope) = Inr ()" "currency_check (JStr ''RUB'') = Inr ()"
    "interval_check (JStr ''2026-01-01T00:00:00Z'') JNull = Inr ()" by code_simp+
  moreover have "JObj (jdict ux_scope) = ux_scope" by (simp add: ux_scope_def jdict_def)
  moreover have "stamp_input (Some ux_time) c b = Inr ()" for c b using ux_time_text(2) by (simp add: stamp_input_def ux_time_def ux_if_def)
  moreover have "stamp_input None c True = Inr ()" for c by (simp add: stamp_input_def ux_if_def)
  moreover have "unsealed =
       [(''schema_version'', JStr form_version), (''form_id'', JStr ''F''), (''organization_id'', JStr ''O''),
        (''mode'', JStr ''ACTUAL''), (''scenario_id'', JNull), (''actor'', JStr ''A''), (''scope'', ux_scope),
        (''valid_from'', JStr ''2026-01-01T00:00:00Z''), (''valid_to'', JNull), (''currency'', JStr ''RUB''),
        (''created_at'', JStr ''2026-01-01T00:00:00Z''), (''publication_state'', JStr ''PREVIEW_ONLY''),
        (''fields'', JList base_form_fields), (''status'', JStr ''BLOCKED''), (''problems'', JList []), (''form_hash'', JStr [])]"
    by (simp add: unsealed_def ux_form_def)
  moreover have "ux_sealed demo_digest ''form_hash'' unsealed = Inr (JObj ux_form)"
  proof -
    have "json_ok (JObj (filter (\<lambda>p. fst p \<noteq> ''form_hash'') unsealed))"
      using json_ok_filter [OF ux_form_ok] by (simp add: unsealed_def filter_dput del: json_ok.simps)
    moreover have "dput ''form_hash'' (JStr (demo_digest [])) unsealed = ux_form" by (simp add: unsealed_def ux_form_def)
    ultimately show ?thesis by (simp add: ux_sealed_def ux_hash_demo del: json_ok.simps)
  qed
  ultimately show ?thesis
    by (simp add: build_configuration_form_def build_form_def ux_request_def optional_stamp_def ux_time_text(1) jopt_def)
qed

definition ux_applied :: "(json \<times> json list) list" where
  "ux_applied = map (apply_field (JStr ''RUB'') ux_values) (map json_sort base_form_fields)"

definition ux_filled :: dict where
  "ux_filled = dput ''problems'' (JList (concat (map snd ux_applied)))
     (dput ''status'' (JStr (form_status (concat (map snd ux_applied)) (map fst ux_applied)))
       (dput ''fields'' (JList (map fst ux_applied)) (jdict (json_sort (JObj ux_form)))))"

lemma ux_filled_ok: "json_ok (JObj ux_filled)"
  by code_simp

lemma ux_form_applied: "\<exists>g. apply_configuration_values demo_digest (JObj ux_form) (JObj ux_values) = Inr g"
proof -
  define d where "d = jdict (json_sort (JObj ux_form))"
  have d: "dget d ''currency'' = JStr ''RUB''" "dget d ''valid_from'' \<noteq> JNull" "jlist (dget d ''fields'') = map json_sort base_form_fields"
    by (simp_all add: d_def sorted_shape del: json_sort.simps) (simp_all add: jdict_JObj ux_form_def jlist_def dget_Cons)
  have vals: "is_mapping (JObj ux_values)" "list_all (\<lambda>p. List.member configuration_fields (fst p)) ux_values"
    by code_simp+
  have "map (apply_field (dget d ''currency'') ux_values) (jlist (dget d ''fields'')) = ux_applied" "start_problems d = []"
    using d by (simp_all add: ux_applied_def start_problems_def)
  moreover have "ux_clone (JObj ux_form) = Inr (json_sort (JObj ux_form))"
    using ux_form_ok by (simp add: ux_clone_def ux_json_def del: json_ok.simps json_sort.simps)
  ultimately have "apply_configuration_values demo_digest (JObj ux_form) (JObj ux_values) = ux_sealed demo_digest ''form_hash'' ux_filled"
    using vals by (simp add: apply_configuration_values_def apply_values_def Let_def ux_form_checks(1) translate_boundary_def ux_form_valid
        jdict_JObj ux_if_def d_def [symmetric] ux_filled_def del: json_sort.simps map_map)
  then show ?thesis using json_ok_filter [OF ux_filled_ok] by (simp add: ux_sealed_def ux_hash_demo del: json_ok.simps)
qed

section \<open>A view\<close>

lemma demo_view: "\<exists>v. render_report_record demo_digest dash (JObj demo_record) = Inr v"
proof -
  obtain p where p: "present_state dash (jstr (record_field ''state'' (JObj demo_record))) (record_field ''value'' (JObj demo_record)) = Inr p"
    "p = present_valid (JStr ''7'')"
    by (simp add: record_field_def jdict_JObj demo_record_def dget_Cons jstr_def present_state_def)
  have "json_ok (JObj (result_view (JObj demo_record) (present_valid (JStr ''7''))))" by code_simp
  then obtain view where v: "runtime_render_report demo_digest dash (JObj demo_record) = Inr view"
    using p by (auto simp: runtime_render_report_def reported_def demo_record_valid ux_sealed_def ux_hash_demo json_ok_filter simp del: json_ok.simps)
  have "\<not> is_numeric_zero (record_field ''value'' (JObj demo_record))" by code_simp
  then show ?thesis using v by (simp add: render_report_record_def)
qed

section \<open>An inbox\<close>

definition refused_upload :: raw_record where
  "refused_upload =
     \<lparr>rr_id = uuid_text 7, rr_tenant = ''T'', rr_sha = demo_digest [], rr_size = 1, rr_filename = ''a.csv'',
       rr_key = storage_key ''T'' (demo_digest []), rr_state = Rejected, rr_schema = None, rr_structural = None,
       rr_semantic = None, rr_diagnostics = [''CSV_INVALID'']\<rparr>"

definition ux_inbox :: inbox_state where
  "ux_inbox = \<lparr>ib_business = Some (''O'', ''ACTUAL'', JNull),
     ib_exceptions = form_exceptions demo_digest (JObj ux_form) @ import_exception demo_digest refused_upload,
     ib_metrics = [''S''], ib_records = [''REC''], ib_imports = [uuid_text 7]\<rparr>"

lemma ux_inbox_fields:
  "record_field ''report_record_id'' (JObj demo_record) = JStr ''REC''" "record_field ''state'' (JObj demo_record) = JStr ''VALID''"
  "record_field ''metric_snapshot_id'' (JObj demo_record) = JStr ''S''" "business_of demo_record = (''O'', ''ACTUAL'', JNull)"
  "business_of ux_form = (''O'', ''ACTUAL'', JNull)"
  by (simp_all add: record_field_def business_of_def jdict_JObj demo_record_def ux_form_def dget_Cons jstr_def)

lemma ux_contents: "inbox_contents demo_digest [JObj demo_record] [JObj ux_form] [refused_upload] (Some ''T'') = Inr ux_inbox"
proof -
  define a where "a = \<lparr>ib_business = Some (''O'', ''ACTUAL'', JNull), ib_exceptions = [], ib_metrics = [''S''], ib_records = [''REC''], ib_imports = []\<rparr>"
  have "inbox_record demo_digest (JObj demo_record) new_inbox = Inr a"
    by (simp add: inbox_record_def reported_def demo_record_valid ux_inbox_fields jdict_JObj new_inbox_def same_business_def jstr_def a_def)
  moreover have "inbox_form demo_digest (JObj ux_form) a = Inr (a\<lparr>ib_exceptions := form_exceptions demo_digest (JObj ux_form)\<rparr>)"
    by (simp add: inbox_form_def ux_form_valid ux_inbox_fields jdict_JObj same_business_def a_def)
  moreover have "inbox_import demo_digest ''T'' refused_upload (a\<lparr>ib_exceptions := form_exceptions demo_digest (JObj ux_form)\<rparr>) = Inr ux_inbox"
    by (simp add: inbox_import_def a_def ux_inbox_def) (simp add: refused_upload_def)
  ultimately show ?thesis by (simp add: inbox_contents_def)
qed

lemma ux_inbox_built:
  "\<exists>v. build_exception_inbox demo_digest [JObj demo_record] [JObj ux_form] [refused_upload] (Some ''T'') ux_time = Inr v"
proof -
  have "forms_boundary [] [JObj ux_form] = Inr ()" using ux_form_checks(1) by simp
  moreover have "import_collection_boundary [refused_upload] (Some ''T'') = Inr ()" by code_simp
  moreover have "stamp_input (Some ux_time) c b = Inr ()" for c b using ux_time_text(2) by (simp add: stamp_input_def ux_time_def ux_if_def)
  moreover have "json_ok (JObj (inbox_document (Some ''T'') ''2026-01-01T00:00:00Z'' ux_inbox))" by code_simp
  ultimately show ?thesis
    by (auto simp: build_exception_inbox_def runtime_inbox_def translate_boundary_def ux_contents ux_time_text(1) ux_sealed_def ux_hash_demo
        json_ok_filter ux_if_def simp del: json_ok.simps)
qed

section \<open>The properties on them\<close>

theorem ux_documents_sealed_witness:
  "hash_re (demo_digest []) \<and> validate_ux_hash demo_digest (JObj ux_form) ''form_hash'' = Inr ()"
  using ux_documents_sealed(1) [of demo_digest ux_request "Some ux_time" None ux_time "JObj ux_form"] ux_form_built demo_digest_re by simp

theorem ready_form_is_complete_witness:
  "\<exists>g. apply_configuration_values demo_digest (JObj ux_form) (JObj ux_values) = Inr g \<and>
     dget (jdict g) ''status'' = JStr ''READY_FOR_RULE_DRAFT'' \<and> validate_form demo_digest g = Inr ()"
proof -
  obtain g where g: "apply_configuration_values demo_digest (JObj ux_form) (JObj ux_values) = Inr g" using ux_form_applied by blast
  have "\<forall>s. hash_re (demo_digest s)" using demo_digest_re by simp
  then have r: "validate_form demo_digest g = Inr ()"
    "dget (jdict g) ''status'' = JStr ''READY_FOR_RULE_DRAFT'' \<longleftrightarrow> dget (jdict (JObj ux_form)) ''valid_from'' \<noteq> JNull \<and>
       list_all (taken (dget (jdict (JObj ux_form)) ''currency'') (jdict (JObj ux_values))) field_definitions"
    using ready_form_is_complete [OF _ g] by blast+
  have "list_all (taken (dget ux_form ''currency'') ux_values) field_definitions" "dget ux_form ''valid_from'' \<noteq> JNull" by code_simp+
  then show ?thesis using g r(1,2) by (simp add: jdict_JObj)
qed

theorem missing_never_zero_witness:
  "\<exists>v. render_report_record demo_digest ''-'' (JObj demo_record) = Inr v \<and> dget (jdict v) ''value_text'' = JStr ''7''"
proof -
  obtain v where v: "render_report_record demo_digest ''-'' (JObj demo_record) = Inr v" using demo_view by blast
  have "record_field ''value'' (JObj demo_record) = JStr ''7''" by (simp add: record_field_def jdict_JObj demo_record_def dget_Cons)
  then show ?thesis using v missing_never_zero [OF v] by (simp add: ux_inbox_fields cell_text_def)
qed

theorem inbox_lists_open_cases_witness:
  "\<exists>v. build_exception_inbox demo_digest [JObj demo_record] [JObj ux_form] [refused_upload] (Some ''T'') ux_time = Inr v \<and>
     dget (jdict v) ''exception_count'' = JInt 5"
proof -
  obtain v where v: "build_exception_inbox demo_digest [JObj demo_record] [JObj ux_form] [refused_upload] (Some ''T'') ux_time = Inr v"
    using ux_inbox_built by blast
  have "length (open_records demo_digest [JObj demo_record] @ concat (map (open_fields demo_digest) [JObj ux_form]) @
      open_starts demo_digest [JObj ux_form] @ open_imports demo_digest [refused_upload]) = 5" by code_simp
  moreover have "length (jlist (dget (jdict v) ''exceptions'')) = length (open_records demo_digest [JObj demo_record] @
      concat (map (open_fields demo_digest) [JObj ux_form]) @ open_starts demo_digest [JObj ux_form] @ open_imports demo_digest [refused_upload])"
    using arg_cong [OF conjunct1 [OF inbox_lists_open_cases [OF v]], of size] by (simp only: size_mset length_map)
  ultimately show ?thesis using v inbox_lists_open_cases [OF v] by simp
qed

end
