(* ===== verification/Spec2Isabelle.thy ===== *)
theory Spec2Isabelle imports Kernel ExprSoundness RuleSoundness KernelSoundness LedgerProperties IngestSoundness AccessSoundness AdmissionSoundness EvidenceExamples ReportingExamples StorageExamples UxExamples begin

text \<open>
  A model of the core of \<open>quantum-analytics\<close>, a program that takes the sales files of marketplace
  sellers, keeps them as immutable evidence, turns their rows into canonical events, computes
  financial metrics from declared rules, and reports each metric with the chain of evidence it
  rests on. All sources named below are Python under \<open>src/src/quantum/\<close>.

  The parts and how they interact. A seller activates an invite in the access registry and gets a
  tenant context. Uploaded bytes get a receipt and go into the raw storage, where the schema gate
  inspects them; workbooks go through the dataset admission, which combines the report of an
  inspector with evidence from its access checks. Accepted rows are planned on a fork of the
  canonical ledger and appended as one batch. The financial kernel validates a calculation request
  (rounding policy, expressions, rules), evaluates the metrics and seals the result. The evidence
  verifier checks a sealed chain from a published result to the bytes of the source files. The
  reporting layer turns verified snapshots into records, exports and imports them, and the
  presentation layer shows records, imports and the open cases of a tenant.

  Layer 1, Python itself. \<open>Prelude\<close>: exceptions as a datatype, results \<open>'a res = exn + 'a\<close>,
  dictionaries as association lists with their algebra, \<open>named_theorems\<close> for the proofs.
  \<open>PyText\<close>, \<open>PyParse\<close>: \<open>str\<close>, the regular expressions of the program as predicates, \<open>int\<close>.
  \<open>PyTime\<close>, \<open>PyIso\<close>: timestamps. \<open>PyDecimal\<close>: \<open>decimal\<close> arithmetic with contexts and rounding
  modes. \<open>PyJson\<close>: JSON values and \<open>json.dumps\<close>; \<open>PyLoads\<close>: \<open>json.loads\<close>; \<open>PyBytes\<close>: UTF-8,
  base64, \<open>csv\<close>. \<open>JsonRoundTrip\<close>, \<open>JsonSizes\<close>: the reader reads back what the writer writes, and
  bounds on its length. \<open>Stores\<close>: the interfaces of stores, caches and systems with an invariant,
  as locales that the ledger, the trace registry, the access registry, the admission registry and
  the storage interpret.

  Layer 2, the program; the first theory of each line holds the definitions, in the order of the
  code, the others what is proved of them.
    \<^item> \<open>Common\<close>, \<open>Rounding\<close>: \<open>finance/_common.py\<close>, \<open>_rounding.py\<close>. Typed values, policies,
      quantisation and its bounds.
    \<^item> \<open>ExprEager\<close>, \<open>ExprValidation\<close>, \<open>ExprLazy\<close>, \<open>ExprSoundness\<close>: \<open>finance/_expression_*.py\<close>. Type
      soundness, that checked expressions evaluate, that missing data never becomes a number, and
      that the lazy evaluator agrees with the eager one.
    \<^item> \<open>Rules\<close>, \<open>RuleResolver\<close>, \<open>RulesHardening\<close>, \<open>RuleSoundness\<close>: \<open>finance/_rules.py\<close>,
      \<open>_rules_hardening.py\<close>. The choice of a rule, the bounded registry of issued resolutions, and
      that only issued ones evaluate.
    \<^item> \<open>Calculation\<close>, \<open>Kernel\<close>, \<open>KernelSoundness\<close>: \<open>finance/_metrics.py\<close>, \<open>_calculation_*.py\<close>,
      \<open>_runtime_core.py\<close>, \<open>_runtime_legacy.py\<close>, \<open>runtime.py\<close>. The sealed result of a request.
    \<^item> \<open>Domain\<close>, \<open>Ledger\<close>, \<open>LedgerSoundness\<close>, \<open>LedgerProperties\<close>, \<open>LedgerExamples\<close>: \<open>domain/\<close> and
      \<open>infrastructure/in_memory_canonical_ledger.py\<close>. The ledger is a record of its dicts; a step is
      an append or a batch. Its invariant, the bound on returns, the isolation of tenants, and the
      refinement of a journal per tenant.
    \<^item> \<open>Ingest\<close>, \<open>IngestSoundness\<close>: \<open>ingestion/canonical_pipeline.py\<close>. Planning ends, a plan applies,
      a failed import leaves no trace.
    \<^item> \<open>Access\<close>, \<open>AccessSoundness\<close>: \<open>access/contracts.py\<close>. Invites are used once, accounts stay.
    \<^item> \<open>XlsxContracts\<close>, \<open>Admission\<close>, \<open>AdmissionSoundness\<close>: \<open>ingestion/_xlsx_contracts*.py\<close> and the
      \<open>_admission_*_v2.py\<close> modules. The state machine of a dataset; admission needs evidence,
      nothing is replayed or shared, a revoked dataset stays revoked.
    \<^item> \<open>Fingerprints\<close>, \<open>RawStorage\<close>, \<open>StorageSoundness\<close>, \<open>StorageProperties\<close>, \<open>StorageExamples\<close>:
      \<open>ingestion/fingerprints.py\<close>, \<open>schema_registry.py\<close>, \<open>receipts.py\<close>, \<open>storage.py\<close>. Bytes stay, final
      states stay, an inspection decides, a valid file has the registered schema.
    \<^item> \<open>Evidence\<close>, \<open>EvidenceGraph\<close>, \<open>EvidenceSoundness\<close>, \<open>EvidenceExamples\<close>: \<open>evidence/\<close>. No diagnostic
      means an acyclic, sealed, governed chain that ends in files with the recorded bytes.
    \<^item> \<open>Reporting\<close>, \<open>ReportingSoundness\<close>, \<open>ReportingProperties\<close>, \<open>ReportingExamples\<close>:
      \<open>reporting/runtime.py\<close>. Records rest on accepted evidence, exports read back, paging loses
      nothing, no cell starts a formula.
    \<^item> \<open>UxForms\<close>, \<open>UxViews\<close>, \<open>UxBoundary\<close>, \<open>UxSoundness\<close>, \<open>UxProperties\<close>,
      \<open>UxExamples\<close>: \<open>ux/\<close>. Every document is
      sealed, a form is ready exactly when it is complete, missing data is never shown as zero, an
      inbox lists exactly the open cases.

  Conventions. A \<open>str\<close> is a list of \<open>char\<close>, so of code points up to 255, and \<open>bytes\<close> are such a
  list too; where decoding leaves this range the result is the outcome \<open>OutsideModel\<close>, which is
  no exception of the program and no property counts as one. SHA-256 is an argument, \<open>h\<close> on text
  and \<open>sha\<close> on bytes: no property assumes that it is injective; some assume that its values are 64
  lower-case hexadecimal digits (\<open>hash_re\<close>). A float is the text of its \<open>repr\<close> and is computed by the
  argument \<open>f\<close> where \<open>json.loads\<close> reads one. Python's integers are \<open>int\<close>; the limit of 4300 digits
  for printing and parsing them is modelled (\<open>json_ok\<close>, \<open>py_int\<close>). Decimals have unbounded
  exponents. Dates are ordinals, instants are microseconds. Clocks, random draws, the time zone
  database, the inspector of workbooks, the loader of retained files, the guess of \<open>csv.Sniffer\<close>
  with the row it reads, and one punctuation character above 255 are arguments of the definitions
  that use them. An exception is a value; the state after it is returned too where an operation
  can raise after it has changed something.

  Bounds and fuel. \<open>json_loads\<close> recurses with a fuel of twice the length of its text, which is
  proved to be enough for every text the writer prints. The loops over random draws return \<open>None\<close> when the draws given
  are used up; it is proved that they end once there are more different draws than entries. The
  bounds of the program itself (4096 traces, 128 nodes, 10000000 bytes of an export, 131072 characters in a cell)
  are constants of the model.

  Not modelled. The workbook inspector (\<open>_xlsx_*.py\<close> beside the contracts) walks zip archives and
  XML trees through \<open>zipfile\<close> and \<open>ElementTree\<close>, whose behaviour would have to be made up; the
  admission takes it as an argument. The Wildberries adapter and the reading of the import's CSV
  rest on the general \<open>datetime.fromisoformat\<close>; the import takes rows and candidates. The proof
  pipeline, the event ledger in a file, the local storage and the entry points are file and process
  I/O. The first version of the admission modules is dead code. The reconciliation, the check of
  the dependency register and the second computation of the metrics that the tests use stand
  beside the flow above and are left out. Locks, threads, \<open>OSError\<close>, memory and recursion limits, and the
  freezing of values have no counterpart: an operation is one step and values do not change.
\<close>

end
